(* ===== verification/Prelude.thy ===== *)
theory Prelude
  imports Complex_Main
begin

text \<open>
  The vocabulary every component shares: the exceptions the code can raise and the result type
  \<open>'a res\<close> of a call that may raise (\<open>Inl\<close> the exception), sequencing of such calls, insertion
  ordered dictionaries as association lists (lookup, assignment, \<open>{**a, **b}\<close>), and the text
  operations of Python's \<open>str\<close> that the code calls. Characters are single bytes: \<open>strip\<close>, \<open>lower\<close>
  and \<open>upper\<close> follow Python on ASCII text and leave bytes above 127 alone.
\<close>

named_theorems inv_intro \<open>introduction rules for the invariants of the stateful components\<close>
named_theorems res_simps \<open>sequencing of calls that may raise\<close>

section \<open>Calls that may raise\<close>

datatype pyexc =
    ValueError string
  | TypeError string
  | KeyError string
  | RuntimeError string
  | DivisionByZero
  | InvalidOperation

type_synonym 'a res = "pyexc + 'a"

definition andThen :: "'e + 'a \<Rightarrow> ('a \<Rightarrow> 'e + 'b) \<Rightarrow> 'e + 'b" where
  "andThen r f = (case r of Inl e \<Rightarrow> Inl e | Inr x \<Rightarrow> f x)"

lemma andThen_Inl [simp, res_simps]: "andThen (Inl e) f = Inl e"
  and andThen_Inr [simp, res_simps]: "andThen (Inr x) f = f x"
  by (simp_all add: andThen_def)

declare andThen_def [code_unfold]

lemma andThen_eq_Inr [res_simps]: "andThen r f = Inr y \<longleftrightarrow> (\<exists>x. r = Inr x \<and> f x = Inr y)"
  by (cases r) auto

lemma andThen_eq_Inl [res_simps]: "andThen r f = Inl e \<longleftrightarrow> r = Inl e \<or> (\<exists>x. r = Inr x \<and> f x = Inl e)"
  by (cases r) auto

lemma andThen_cong [fundef_cong]:
  "r = r' \<Longrightarrow> (\<And>x. r' = Inr x \<Longrightarrow> f x = g x) \<Longrightarrow> andThen r f = andThen r' g"
  by (cases r') auto

definition returns :: "'e + 'a \<Rightarrow> bool" where
  "returns r = (case r of Inl _ \<Rightarrow> False | Inr _ \<Rightarrow> True)"

lemma returns_simps [simp]: "\<not> returns (Inl e)" "returns (Inr x)"
  by (simp_all add: returns_def)

lemma returns_iff: "returns r \<longleftrightarrow> (\<exists>x. r = Inr x)"
  by (cases r) auto

lemma returns_andThen:
  "returns r \<Longrightarrow> (\<And>x. r = Inr x \<Longrightarrow> returns (f x)) \<Longrightarrow> returns (andThen r f)"
  by (cases r) auto

fun mapM :: "('a \<Rightarrow> 'e + 'b) \<Rightarrow> 'a list \<Rightarrow> 'e + 'b list" where
  "mapM f [] = Inr []"
| "mapM f (x # xs) = andThen (f x) (\<lambda>y. andThen (mapM f xs) (\<lambda>ys. Inr (y # ys)))"

lemma mapM_length: "mapM f xs = Inr ys \<Longrightarrow> length ys = length xs"
  by (induction xs arbitrary: ys) (auto simp: res_simps)

lemma mapM_returns: "(\<And>x. x \<in> set xs \<Longrightarrow> returns (f x)) \<Longrightarrow> returns (mapM f xs)"
  by (induction xs) (auto intro!: returns_andThen)

lemma mapM_set: "mapM f xs = Inr ys \<Longrightarrow> y \<in> set ys \<Longrightarrow> \<exists>x \<in> set xs. f x = Inr y"
  by (induction xs arbitrary: ys) (auto simp: res_simps)

lemma two_elements: "\<not> length xs < 2 \<Longrightarrow> \<exists>a b r. xs = a # b # r"
  by (cases xs; cases "tl xs") auto

section \<open>Insertion ordered dictionaries\<close>

type_synonym ('k, 'v) dict = "('k \<times> 'v) list"

fun dset :: "('k, 'v) dict \<Rightarrow> 'k \<Rightarrow> 'v \<Rightarrow> ('k, 'v) dict" where
  "dset [] k v = [(k, v)]"
| "dset ((k', v') # d) k v = (if k' = k then (k, v) # d else (k', v') # dset d k v)"

fun ddel :: "('k, 'v) dict \<Rightarrow> 'k \<Rightarrow> ('k, 'v) dict" where
  "ddel [] k = []"
| "ddel ((k', v') # d) k = (if k' = k then ddel d k else (k', v') # ddel d k)"

fun dmerge :: "('k, 'v) dict \<Rightarrow> ('k, 'v) dict \<Rightarrow> ('k, 'v) dict" where
  "dmerge d [] = d"
| "dmerge d ((k, v) # e) = dmerge (dset d k v) e"

definition dkeys :: "('k, 'v) dict \<Rightarrow> 'k list" where
  "dkeys d = map fst d"

definition dvals :: "('k, 'v) dict \<Rightarrow> 'v list" where
  "dvals d = map snd d"

lemma map_of_dset [simp]: "map_of (dset d k v) = (map_of d)(k \<mapsto> v)"
  by (induction d) (auto simp: fun_eq_iff)

lemma map_of_ddel [simp]: "map_of (ddel d k) = (map_of d)(k := None)"
  by (induction d) (auto simp: fun_eq_iff)

lemma dset_keys: "fst ` set (dset d k v) = insert k (fst ` set d)"
proof (induction d)
  case (Cons p d)
  then show ?case by (cases p) (simp add: insert_commute)
qed simp

lemma distinct_dset: "distinct (map fst d) \<Longrightarrow> distinct (map fst (dset d k v))"
proof (induction d)
  case (Cons p d)
  then show ?case by (cases p) (auto simp: dset_keys)
qed simp

lemma set_dset_subset: "set (dset d k v) \<subseteq> insert (k, v) (set d)"
proof (induction d)
  case (Cons p d)
  then show ?case by (cases p) auto
qed simp

lemma set_dset_distinct:
  "distinct (map fst d) \<Longrightarrow> set (dset d k v) = insert (k, v) {p \<in> set d. fst p \<noteq> k}"
proof (induction d)
  case (Cons p d)
  obtain k' v' where p: "p = (k', v')" by (cases p)
  show ?case
  proof (cases "k' = k")
    case True
    have nk: "fst q \<noteq> k" if "q \<in> set d" for q
    proof
      assume "fst q = k"
      with that have "k \<in> set (map fst d)" by force
      with Cons.prems True p show False by simp
    qed
    have "dset (p # d) k v = (k, v) # d" using True p by simp
    moreover have "{q \<in> set (p # d). fst q \<noteq> k} = set d" using True p nk by force
    ultimately show ?thesis by simp
  next
    case False
    with Cons p show ?thesis by auto
  qed
qed simp

lemma ddel_filter: "ddel d k = filter (\<lambda>p. fst p \<noteq> k) d"
  by (induction d) auto

lemma set_ddel: "set (ddel d k) = {p \<in> set d. fst p \<noteq> k}"
  by (simp add: ddel_filter)

lemma distinct_ddel: "distinct (map fst d) \<Longrightarrow> distinct (map fst (ddel d k))"
  by (simp add: ddel_filter distinct_map_filter)

lemma map_of_dmerge: "map_of (dmerge d e) k =
    (case map_of (rev e) k of None \<Rightarrow> map_of d k | Some v \<Rightarrow> Some v)"
  by (induction d e rule: dmerge.induct) (auto simp: map_of_append map_add_def split: option.splits)

lemma map_of_dmerge_notin: "k \<notin> fst ` set e \<Longrightarrow> map_of (dmerge d e) k = map_of d k"
  by (induction d e rule: dmerge.induct) auto

section \<open>Text\<close>

definition is_ws :: "char \<Rightarrow> bool" where
  "is_ws c = (let n = (of_char c :: nat) in n \<in> {9, 10, 11, 12, 13, 28, 29, 30, 31, 32})"

definition strip :: "string \<Rightarrow> string" where
  "strip s = rev (dropWhile is_ws (rev (dropWhile is_ws s)))"

definition lower_char :: "char \<Rightarrow> char" where
  "lower_char c = (let n = (of_char c :: nat) in if 65 \<le> n \<and> n \<le> 90 then char_of (n + 32) else c)"

definition upper_char :: "char \<Rightarrow> char" where
  "upper_char c = (let n = (of_char c :: nat) in if 97 \<le> n \<and> n \<le> 122 then char_of (n - 32) else c)"

definition lower :: "string \<Rightarrow> string" where
  "lower = map lower_char"

definition upper :: "string \<Rightarrow> string" where
  "upper = map upper_char"

definition starts_with :: "string \<Rightarrow> string \<Rightarrow> bool" where
  "starts_with p s = (take (length p) s = p)"

fun join :: "string \<Rightarrow> string list \<Rightarrow> string" where
  "join sep [] = []"
| "join sep [x] = x"
| "join sep (x # y # ys) = x @ sep @ join sep (y # ys)"

fun split_char :: "char \<Rightarrow> string \<Rightarrow> string list" where
  "split_char c [] = [[]]"
| "split_char c (x # xs) =
     (if x = c then [] # split_char c xs
      else (case split_char c xs of [] \<Rightarrow> [[x]] | w # ws \<Rightarrow> (x # w) # ws))"

definition rstrip_char :: "char \<Rightarrow> string \<Rightarrow> string" where
  "rstrip_char c s = rev (dropWhile (\<lambda>x. x = c) (rev s))"

lemma dropWhile_idem [simp]: "dropWhile P (dropWhile P xs) = dropWhile P xs"
  by (induction xs) auto

lemma strip_idem [simp]: "strip (strip s) = strip s"
proof -
  let ?t = "dropWhile is_ws s"
  let ?u = "dropWhile is_ws (rev ?t)"
  have "dropWhile is_ws (rev ?u) = rev ?u"
  proof (cases "rev ?u")
    case Nil
    then show ?thesis by (simp only: dropWhile.simps)
  next
    case (Cons x xs)
    have "\<exists>zs. rev ?t = zs @ ?u" by (metis takeWhile_dropWhile_id)
    then obtain zs where "?t = rev ?u @ rev zs" by (metis rev_append rev_rev_ident)
    with Cons have "?t \<noteq> [] \<and> hd ?t = x" by simp
    then have "\<not> is_ws x" using hd_dropWhile [of is_ws s] by auto
    with Cons show ?thesis by (simp only: dropWhile.simps if_False)
  qed
  then show ?thesis by (simp add: strip_def)
qed

lemma strip_Nil [simp]: "strip [] = []"
  by (simp add: strip_def)

lemma strip_id: "\<forall>c \<in> set s. \<not> is_ws c \<Longrightarrow> strip s = s"
proof -
  assume a: "\<forall>c \<in> set s. \<not> is_ws c"
  have "dropWhile is_ws t = t" if "\<forall>c \<in> set t. \<not> is_ws c" for t
    using that by (cases t) auto
  from this [of s] this [of "rev s"] a have "dropWhile is_ws s = s" "dropWhile is_ws (rev s) = rev s"
    by simp_all
  then show ?thesis by (simp only: strip_def rev_rev_ident)
qed

lemma of_char_lower_char: "(of_char (lower_char c) :: nat) =
    (let n = of_char c in if 65 \<le> n \<and> n \<le> 90 then n + 32 else n)"
  by (simp add: lower_char_def Let_def)

lemma lower_char_id: "\<not> (65 \<le> (of_char d :: nat) \<and> of_char d \<le> (90 :: nat)) \<Longrightarrow> lower_char d = d"
  unfolding lower_char_def Let_def by (rule if_not_P)

lemma lower_char_idem [simp]: "lower_char (lower_char c) = lower_char c"
  by (rule lower_char_id) (simp add: of_char_lower_char Let_def)

lemma lower_idem [simp]: "lower (lower s) = lower s"
  by (simp add: lower_def)

lemma is_ws_lower_char [simp]: "is_ws (lower_char c) = is_ws c"
  by (auto simp: is_ws_def of_char_lower_char Let_def)

lemma dropWhile_map_lower: "dropWhile is_ws (map lower_char s) = map lower_char (dropWhile is_ws s)"
  by (induction s) auto

lemma strip_lower: "strip (lower s) = lower (strip s)"
  by (simp add: strip_def lower_def dropWhile_map_lower rev_map)

lemma lower_Nil [simp]: "lower [] = []" and lower_eq_Nil [simp]: "lower s = [] \<longleftrightarrow> s = []"
  by (simp_all add: lower_def)

section \<open>Decimal digits\<close>

definition digit_char :: "int \<Rightarrow> char" where
  "digit_char n = char_of (48 + n)"

lemma digit_char_code [code]: "digit_char n =
    (if n = 9 then CHR ''9'' else if n = 8 then CHR ''8'' else if n = 7 then CHR ''7''
     else if n = 6 then CHR ''6'' else if n = 5 then CHR ''5'' else if n = 4 then CHR ''4''
     else if n = 3 then CHR ''3'' else if n = 2 then CHR ''2'' else if n = 1 then CHR ''1''
     else if n = 0 then CHR ''0'' else char_of (48 + n))"
  by (simp add: digit_char_def char_of_def)

definition digit_val :: "char \<Rightarrow> int option" where
  "digit_val c = (let n = (of_char c :: int) in if 48 \<le> n \<and> n \<le> 57 then Some (n - 48) else None)"

text \<open>The digits of a nonnegative integer.\<close>

function nat_str :: "int \<Rightarrow> string" where
  "nat_str n = (if n < 10 then [digit_char n] else nat_str (n div 10) @ [digit_char (n mod 10)])"
  by pat_completeness auto
termination
  by (relation "measure nat") auto

declare nat_str.simps [simp del]

fun digits_val :: "int \<Rightarrow> string \<Rightarrow> int option" where
  "digits_val a [] = Some a"
| "digits_val a (c # cs) =
     (case digit_val c of None \<Rightarrow> None | Some d \<Rightarrow> digits_val (10 * a + d) cs)"

definition nat_of_str :: "string \<Rightarrow> int option" where
  "nat_of_str s = (if s = [] then None else digits_val 0 s)"

definition int_str :: "int \<Rightarrow> string" where
  "int_str i = (if i < 0 then CHR ''-'' # nat_str (- i) else nat_str i)"

text \<open>Code equations on the bits of a character, for fast evaluation.\<close>

lemma lower_char_bits [code]: "lower_char (Char b0 b1 b2 b3 b4 b5 b6 b7) = Char b0 b1 b2 b3 b4
    (b5 \<or> \<not> b7 \<and> b6 \<and> (b0 \<or> b1 \<or> b2 \<or> b3 \<or> b4) \<and> \<not> (b4 \<and> b3 \<and> (b2 \<or> b1 \<and> b0))) b6 b7"
  unfolding lower_char_def
  by (cases b0; cases b1; cases b2; cases b3; cases b4; cases b5; cases b6; cases b7; simp add: char_of_def bit_Suc_0_iff)

lemma upper_char_bits [code]: "upper_char (Char b0 b1 b2 b3 b4 b5 b6 b7) = Char b0 b1 b2 b3 b4
    (b5 \<and> \<not> (\<not> b7 \<and> b6 \<and> (b0 \<or> b1 \<or> b2 \<or> b3 \<or> b4) \<and> \<not> (b4 \<and> b3 \<and> (b2 \<or> b1 \<and> b0)))) b6 b7"
  unfolding upper_char_def
  by (cases b0; cases b1; cases b2; cases b3; cases b4; cases b5; cases b6; cases b7; simp add: char_of_def bit_Suc_0_iff)

lemma is_ws_bits [code]: "is_ws (Char b0 b1 b2 b3 b4 b5 b6 b7) = (\<not> b7 \<and> \<not> b6
    \<and> (if b5 then \<not> b4 \<and> \<not> b3 \<and> \<not> b2 \<and> \<not> b1 \<and> \<not> b0
       else b3 \<and> (if b4 then b2 else if b2 then \<not> b1 else b1 \<or> b0)))"
  unfolding is_ws_def
  by (cases b0; cases b1; cases b2; cases b3; cases b4; cases b5; cases b6; cases b7; simp)

lemma digit_val_bits [code]: "digit_val (Char b0 b1 b2 b3 b4 b5 b6 b7) =
    (if b7 \<or> b6 \<or> \<not> b5 \<or> \<not> b4 \<or> b3 \<and> (b2 \<or> b1) then None
     else Some ((if b3 then 8 else 0) + (if b2 then 4 else 0) + (if b1 then 2 else 0) + (if b0 then 1 else 0)))"
  unfolding digit_val_def
  by (cases b0; cases b1; cases b2; cases b3; cases b4; cases b5; cases b6; cases b7; simp)

lemma digit_val_digit_char [simp]: "0 \<le> d \<Longrightarrow> d < 10 \<Longrightarrow> digit_val (digit_char d) = Some d"
  by (simp add: digit_val_def digit_char_def Let_def)

lemma digits_val_append: "digits_val a (xs @ ys) =
    (case digits_val a xs of None \<Rightarrow> None | Some b \<Rightarrow> digits_val b ys)"
  by (induction xs arbitrary: a) (auto split: option.splits)

lemma digits_val_nat_str: "0 \<le> n \<Longrightarrow> digits_val 0 (nat_str n) = Some n"
proof (induction n rule: nat_str.induct)
  case (1 n)
  show ?case
  proof (cases "n < 10")
    case True with 1 show ?thesis by (subst nat_str.simps) simp
  next
    case False with 1 show ?thesis by (subst nat_str.simps) (simp add: digits_val_append)
  qed
qed

lemma nat_str_neq_Nil [simp]: "nat_str n \<noteq> []"
  by (subst nat_str.simps) simp

lemma nat_of_str_nat_str [simp]: "0 \<le> n \<Longrightarrow> nat_of_str (nat_str n) = Some n"
  by (simp add: nat_of_str_def digits_val_nat_str)

lemma nat_str_digits: "0 \<le> n \<Longrightarrow> c \<in> set (nat_str n) \<Longrightarrow> digit_val c \<noteq> None"
proof (induction n rule: nat_str.induct)
  case (1 n)
  show ?case
  proof (cases "n < 10")
    case True
    then have "nat_str n = [digit_char n]" by (subst nat_str.simps) simp
    with True 1 show ?thesis by simp
  next
    case False
    then have "nat_str n = nat_str (n div 10) @ [digit_char (n mod 10)]" by (subst nat_str.simps) simp
    with False 1 show ?thesis by auto
  qed
qed

lemma digit_val_facts: "digit_val c \<noteq> None \<Longrightarrow> \<not> is_ws c"
    "digit_val c \<noteq> None \<Longrightarrow> c \<noteq> CHR ''-''" "digit_val c \<noteq> None \<Longrightarrow> c \<noteq> CHR ''+''"
    "digit_val c \<noteq> None \<Longrightarrow> c \<noteq> CHR ''.''" "digit_val c \<noteq> None \<Longrightarrow> c \<noteq> CHR ''_''"
    "digit_val c \<noteq> None \<Longrightarrow> c \<noteq> CHR ''E''" "digit_val c \<noteq> None \<Longrightarrow> c \<noteq> CHR ''e''"
proof -
  have eq: "(of_char c :: int) = int (of_char c)" by (simp add: of_char_def)
  show "digit_val c \<noteq> None \<Longrightarrow> \<not> is_ws c"
    unfolding digit_val_def is_ws_def Let_def eq by (auto split: if_splits)
qed (auto simp: digit_val_def Let_def split: if_splits)

text \<open>\<open>int(text)\<close>: surrounding space, a sign, and digits in groups separated by single underscores.\<close>

fun digits_us :: "bool \<Rightarrow> int \<Rightarrow> string \<Rightarrow> int option" where
  "digits_us ok a [] = (if ok then Some a else None)"
| "digits_us ok a (c # cs) =
     (if c = CHR ''_'' then (if ok then digits_us False a cs else None)
      else (case digit_val c of None \<Rightarrow> None | Some d \<Rightarrow> digits_us True (10 * a + d) cs))"

definition int_of_str :: "string \<Rightarrow> int option" where
  "int_of_str s = (case strip s of
      [] \<Rightarrow> None
    | c # cs \<Rightarrow>
        if c = CHR ''-'' then map_option (\<lambda>n. - n) (digits_us False 0 cs)
        else if c = CHR ''+'' then digits_us False 0 cs
        else digits_us False 0 (c # cs))"

lemma digits_us_digits: "\<forall>c \<in> set s. digit_val c \<noteq> None \<Longrightarrow> ok \<or> s \<noteq> [] \<Longrightarrow>
    digits_us ok a s = digits_val a s"
proof (induction s arbitrary: a ok)
  case (Cons c s)
  from Cons.prems obtain d where "digit_val c = Some d" by auto
  moreover from Cons.prems have "c \<noteq> CHR ''_''" using digit_val_facts by simp
  ultimately show ?case using Cons by simp
qed auto

lemma int_of_str_int_str [simp]: "int_of_str (int_str i) = Some i"
proof -
  have us: "digits_us False 0 (nat_str n) = Some n" if "0 \<le> n" for n
    by (subst digits_us_digits) (use that in \<open>auto dest: nat_str_digits simp: digits_val_nat_str\<close>)
  have nows: "\<forall>c \<in> set (nat_str n). \<not> is_ws c" if "0 \<le> n" for n
    using nat_str_digits [OF that] digit_val_facts(1) by blast
  show ?thesis
  proof (cases "i < 0")
    case True
    have "strip (CHR ''-'' # nat_str (- i)) = CHR ''-'' # nat_str (- i)"
      by (rule strip_id) (use nows [of "- i"] True in \<open>auto simp: is_ws_def\<close>)
    with True us show ?thesis by (simp add: int_str_def int_of_str_def)
  next
    case False
    obtain c cs where s: "nat_str i = c # cs" by (cases "nat_str i") auto
    then have "digit_val c \<noteq> None" using nat_str_digits [of i c] False by simp
    then have "c \<noteq> CHR ''-''" "c \<noteq> CHR ''+''" using digit_val_facts by auto
    moreover have "strip (c # cs) = c # cs"
      by (rule strip_id) (use nows [of i] s False in auto)
    ultimately show ?thesis using False us [of i] s by (simp add: int_str_def int_of_str_def)
  qed
qed

end
