(* ===== verification/Rounding.thy ===== *)
theory Rounding
  imports Complex_Main
begin

text \<open>
  Correct rounding to a fixed number of significant digits, in any base: the arithmetic of
  Python's \<open>decimal\<close> (base 10, 28 digits, ROUND_HALF_EVEN) and of its binary64 floats (base 2,
  53 bits) as the code uses them. \<open>rnd b p x\<close> rounds the rational \<open>x\<close> to \<open>p\<close> significant digits
  in base \<open>b\<close>, ties to even. The lemmas are the three facts every later proof uses: rounding is
  monotone, it is the identity on representable numbers, and its relative error is bounded.
\<close>

section \<open>Rounding to an integer, ties to even\<close>

definition rhe :: "rat \<Rightarrow> int" where
  "rhe x = (let f = \<lfloor>x\<rfloor>; d = x - of_int f in
     if d < 1 / 2 then f else if 1 / 2 < d then f + 1 else if even f then f else f + 1)"

definition rhe_div :: "int \<Rightarrow> int \<Rightarrow> int" where
  "rhe_div n d = (let q = n div d; r = n mod d in
     if 2 * r < d then q else if d < 2 * r then q + 1 else if even q then q else q + 1)"

lemma rhe_of_int [simp]: "rhe (of_int n) = n"
  by (simp add: rhe_def)

lemma rhe_bounds: "of_int (rhe x) - x \<le> 1 / 2" "x - of_int (rhe x) \<le> 1 / 2"
proof -
  have fl: "of_int \<lfloor>x\<rfloor> \<le> x" "x < of_int \<lfloor>x\<rfloor> + 1"
    by linarith+
  then have "of_int (rhe x) - x \<le> 1 / 2 \<and> x - of_int (rhe x) \<le> 1 / 2"
    unfolding rhe_def Let_def by (simp split: if_splits) linarith
  then show "of_int (rhe x) - x \<le> 1 / 2" "x - of_int (rhe x) \<le> 1 / 2" by simp_all
qed

lemma rhe_floor_cases: "rhe x = \<lfloor>x\<rfloor> \<or> rhe x = \<lfloor>x\<rfloor> + 1"
  by (auto simp: rhe_def Let_def)

lemma rhe_mono: "x \<le> y \<Longrightarrow> rhe x \<le> rhe y"
proof -
  assume le: "x \<le> y"
  then have fl: "\<lfloor>x\<rfloor> \<le> \<lfloor>y\<rfloor>" by (rule floor_mono)
  show ?thesis
  proof (cases "\<lfloor>x\<rfloor> = \<lfloor>y\<rfloor>")
    case True
    with le show ?thesis by (auto simp: rhe_def Let_def)
  next
    case False
    with fl have "\<lfloor>x\<rfloor> + 1 \<le> \<lfloor>y\<rfloor>" by simp
    then show ?thesis
      using rhe_floor_cases [of x] rhe_floor_cases [of y] by linarith
  qed
qed

lemma rhe_le_int: "x \<le> of_int n \<Longrightarrow> rhe x \<le> n"
  using rhe_mono [of x "of_int n"] by simp

lemma rhe_ge_int: "of_int n \<le> x \<Longrightarrow> n \<le> rhe x"
  using rhe_mono [of "of_int n" x] by simp

lemma rhe_uminus: "rhe (- x) = - rhe x"
proof (cases "x = of_int \<lfloor>x\<rfloor>")
  case True
  then obtain n where "x = of_int n" by blast
  then have "rhe (- x) = rhe (of_int (- n))" "rhe x = n" by simp_all
  then show ?thesis by (simp only: rhe_of_int)
next
  case False
  have le: "of_int \<lfloor>x\<rfloor> \<le> x" "x < of_int \<lfloor>x\<rfloor> + 1" by linarith+
  with False have lt: "of_int \<lfloor>x\<rfloor> < x" by (metis order_le_less)
  have fl: "\<lfloor>- x\<rfloor> = - \<lfloor>x\<rfloor> - 1"
    by (rule floor_unique) (use le lt in auto)
  show ?thesis
    by (auto simp: rhe_def Let_def fl)
qed

lemma rhe_div_eq:
  assumes "0 < d"
  shows "rhe_div n d = rhe (of_int n / of_int d)"
proof -
  have fl: "\<lfloor>of_int n / of_int d :: rat\<rfloor> = n div d"
    by (rule floor_divide_of_int_eq)
  have n: "n = n div d * d + n mod d" by simp
  have "(of_int n :: rat) = of_int (n div d) * of_int d + of_int (n mod d)"
    by (metis n of_int_add of_int_mult)
  then have fr: "(of_int n / of_int d :: rat) - of_int (n div d) = of_int (n mod d) / of_int d"
    using assms by (simp add: field_simps)
  have d: "(0 :: rat) < of_int d" using assms by simp
  have lt: "((of_int (n mod d) / of_int d :: rat) < 1 / 2) = (2 * (n mod d) < d)"
  proof -
    have "((of_int (n mod d) / of_int d :: rat) < 1 / 2) = (2 * of_int (n mod d) < (of_int d :: rat))"
      using d by (simp add: divide_simps mult.commute)
    also have "\<dots> = (of_int (2 * (n mod d)) < (of_int d :: rat))" by simp
    finally show ?thesis by (simp only: of_int_less_iff)
  qed
  have gt: "((1 / 2 :: rat) < of_int (n mod d) / of_int d) = (d < 2 * (n mod d))"
  proof -
    have "((1 / 2 :: rat) < of_int (n mod d) / of_int d) = ((of_int d :: rat) < 2 * of_int (n mod d))"
      using d by (simp add: divide_simps mult.commute)
    also have "\<dots> = ((of_int d :: rat) < of_int (2 * (n mod d)))" by simp
    finally show ?thesis by (simp only: of_int_less_iff)
  qed
  show ?thesis
    by (simp only: rhe_def rhe_div_def Let_def fl fr lt gt)
qed

section \<open>The magnitude of a positive rational\<close>

fun ilog :: "nat \<Rightarrow> nat \<Rightarrow> nat" where
  "ilog b n = (if n < b \<or> b < 2 then 0 else Suc (ilog b (n div b)))"

declare ilog.simps [simp del]

lemma ilog_spec:
  assumes "2 \<le> b" "0 < n"
  shows "b ^ ilog b n \<le> n \<and> n < b ^ Suc (ilog b n)"
  using assms
proof (induction b n rule: ilog.induct)
  case (1 b n)
  show ?case
  proof (cases "n < b")
    case True
    with 1 show ?thesis by (subst (1 2) ilog.simps) simp
  next
    case False
    with 1 have pos: "0 < n div b" by (simp add: div_greater_zero_iff)
    with False 1 have IH: "b ^ ilog b (n div b) \<le> n div b" "n div b < b ^ Suc (ilog b (n div b))"
      by auto
    have "b ^ Suc (ilog b (n div b)) \<le> b * (n div b)"
      using mult_le_mono2 [OF IH(1), of b] by simp
    also have "\<dots> \<le> n" by simp
    finally have "b ^ Suc (ilog b (n div b)) \<le> n" .
    moreover have "n < b ^ Suc (Suc (ilog b (n div b)))"
    proof -
      have "Suc (n div b) \<le> b ^ Suc (ilog b (n div b))" using IH(2) by simp
      then have "b * Suc (n div b) \<le> b * b ^ Suc (ilog b (n div b))" by (rule mult_le_mono2)
      moreover have "n < b * Suc (n div b)"
        using 1 by (simp add: dividend_less_times_div)
      ultimately show ?thesis by simp
    qed
    ultimately show ?thesis using False 1 by (subst (1 2) ilog.simps) simp
  qed
qed

lemma ilog_unique:
  assumes "2 \<le> b" "b ^ k \<le> n" "n < b ^ Suc k"
  shows "ilog b n = k"
proof -
  have "0 < b ^ k" using assms by simp
  then have "0 < n" using assms by linarith
  then have s: "b ^ ilog b n \<le> n" "n < b ^ Suc (ilog b n)" using ilog_spec assms by auto
  have "b ^ k < b ^ Suc (ilog b n)" "b ^ ilog b n < b ^ Suc k" using s assms by linarith+
  then have "k < Suc (ilog b n)" "ilog b n < Suc k"
    using assms by (auto simp del: power_Suc simp: power_strict_increasing_iff)
  then show ?thesis by simp
qed

definition mag :: "nat \<Rightarrow> rat \<Rightarrow> int" where
  "mag b x = (if 1 \<le> x then int (ilog b (nat \<lfloor>x\<rfloor>))
              else - int (ilog b (nat (\<lceil>1 / x\<rceil> - 1))) - 1)"

lemma powi_nat [simp]: "(x :: rat) powi int n = x ^ n"
  by (simp add: power_int_def)

lemma mag_spec:
  assumes b: "2 \<le> b" and x: "0 < x"
  shows "of_nat b powi mag b x \<le> x \<and> x < of_nat b powi (mag b x + 1)"
proof (cases "1 \<le> x")
  case True
  define n where "n = nat \<lfloor>x\<rfloor>"
  from True have fl: "1 \<le> \<lfloor>x\<rfloor>" by simp
  then have n: "0 < n" "int n = \<lfloor>x\<rfloor>" by (simp_all add: n_def)
  have s: "b ^ ilog b n \<le> n" "Suc n \<le> b ^ Suc (ilog b n)" using ilog_spec [OF b n(1)] by auto
  have nx: "of_nat n \<le> x" "x < of_nat (Suc n)"
    using n(2) by (metis of_int_floor_le of_int_of_nat_eq) (use n(2) in linarith)
  have "of_nat (b ^ ilog b n) \<le> (of_nat n :: rat)" "(of_nat (Suc n) :: rat) \<le> of_nat (b ^ Suc (ilog b n))"
    using s by (simp_all only: of_nat_le_iff)
  then have "of_nat b ^ ilog b n \<le> x" "x < of_nat b ^ Suc (ilog b n)"
    using nx unfolding of_nat_power by linarith+
  moreover have "mag b x = int (ilog b n)" "mag b x + 1 = int (Suc (ilog b n))"
    using True by (simp_all add: mag_def n_def)
  ultimately show ?thesis by (simp only: powi_nat)
next
  case False
  define y where "y = 1 / x"
  from False x have y: "1 < y" "x = 1 / y" by (simp_all add: y_def)
  define n where "n = nat (\<lceil>y\<rceil> - 1)"
  from y have cl: "2 \<le> \<lceil>y\<rceil>" by linarith
  then have n: "0 < n" "int n = \<lceil>y\<rceil> - 1" by (simp_all add: n_def)
  have s: "b ^ ilog b n \<le> n" "Suc n \<le> b ^ Suc (ilog b n)" using ilog_spec [OF b n(1)] by auto
  have ny: "of_nat n < y" "y \<le> of_nat (Suc n)" using n(2) by linarith+
  have "of_nat (b ^ ilog b n) \<le> (of_nat n :: rat)" "(of_nat (Suc n) :: rat) \<le> of_nat (b ^ Suc (ilog b n))"
    using s by (simp_all only: of_nat_le_iff)
  then have lo: "of_nat b ^ ilog b n < y" and hi: "y \<le> of_nat b ^ Suc (ilog b n)"
    using ny unfolding of_nat_power by linarith+
  have bp: "0 < (of_nat b :: rat) ^ k" for k using b by simp
  have "mag b x = - int (Suc (ilog b n))" "mag b x + 1 = - int (ilog b n)"
    using False by (simp_all add: mag_def n_def y_def)
  moreover have "(of_nat b :: rat) powi - int (Suc (ilog b n)) \<le> x"
    unfolding power_int_minus powi_nat y(2) using hi y(1) bp [of "Suc (ilog b n)"]
    by (simp add: divide_simps del: power_Suc)
  moreover have "x < (of_nat b :: rat) powi - int (ilog b n)"
    unfolding power_int_minus powi_nat y(2) using lo y(1) bp [of "ilog b n"]
    by (simp add: divide_simps)
  ultimately show ?thesis by (simp only: add.commute)
qed

lemma powi_mono: "2 \<le> b \<Longrightarrow> i \<le> j \<Longrightarrow> (of_nat b :: rat) powi i \<le> of_nat b powi j"
  by (rule power_int_increasing) auto

lemma powi_pos [simp]: "2 \<le> b \<Longrightarrow> 0 < (of_nat b :: rat) powi i"
  by simp

lemma powi_less_cancel: "2 \<le> b \<Longrightarrow> (of_nat b :: rat) powi i < of_nat b powi j \<Longrightarrow> i < j"
  using powi_mono [of b j i] by (meson not_le)

lemma mag_unique:
  assumes b: "2 \<le> b" and "of_nat b powi e \<le> x" "x < of_nat b powi (e + 1)"
  shows "mag b x = e"
proof -
  have "0 < x" using assms powi_pos [OF b, of e] by linarith
  from mag_spec [OF b this] assms have
    "(of_nat b :: rat) powi e < of_nat b powi (mag b x + 1)"
    "(of_nat b :: rat) powi mag b x < of_nat b powi (e + 1)"
    by linarith+
  then have "e < mag b x + 1" "mag b x < e + 1" using powi_less_cancel [OF b] by blast+
  then show ?thesis by simp
qed

lemma mag_mono:
  assumes b: "2 \<le> b" and "0 < x" "x \<le> y"
  shows "mag b x \<le> mag b y"
proof -
  have "0 < y" using assms by linarith
  then have "(of_nat b :: rat) powi mag b x < of_nat b powi (mag b y + 1)"
    using mag_spec [OF b, of x] mag_spec [OF b, of y] assms by linarith
  from powi_less_cancel [OF b this] show ?thesis by simp
qed

text \<open>Evaluation works on binary integers: the argument of \<open>ilog\<close> may be large.\<close>

definition ilogi :: "nat \<Rightarrow> int \<Rightarrow> nat" where
  "ilogi b i = ilog b (nat i)"

lemma ilogi_code [code]:
  "ilogi b i = (if i < int b \<or> b < 2 then 0 else Suc (ilogi b (i div int b)))"
proof (cases "i < int b \<or> b < 2")
  case True
  then have "nat i < b \<or> b < 2" by linarith
  with True show ?thesis by (simp add: ilogi_def ilog.simps)
next
  case False
  then have "\<not> (nat i < b \<or> b < 2)" "nat (i div int b) = nat i div b"
    by (auto simp: nat_div_distrib)
  with False show ?thesis unfolding ilogi_def by (subst ilog.simps) simp
qed

lemma mag_code [code]: "mag b x = (if 1 \<le> x then int (ilogi b \<lfloor>x\<rfloor>) else - int (ilogi b (\<lceil>1 / x\<rceil> - 1)) - 1)"
  by (simp add: mag_def ilogi_def)

section \<open>Rounding to p significant digits\<close>

definition ulp :: "nat \<Rightarrow> nat \<Rightarrow> rat \<Rightarrow> rat" where
  "ulp b p x = of_nat b powi (mag b \<bar>x\<bar> - int p + 1)"

definition rnd :: "nat \<Rightarrow> nat \<Rightarrow> rat \<Rightarrow> rat" where
  "rnd b p x = (if x = 0 then 0 else let u = ulp b p x in of_int (rhe (x / u)) * u)"

lemma rnd_0 [simp]: "rnd b p 0 = 0"
  by (simp add: rnd_def)

lemma ulp_pos: "2 \<le> b \<Longrightarrow> 0 < ulp b p x"
  by (simp add: ulp_def)

lemma ulp_uminus [simp]: "ulp b p (- x) = ulp b p x"
  by (simp add: ulp_def)

lemma rnd_uminus: "rnd b p (- x) = - rnd b p x"
  by (simp add: rnd_def Let_def rhe_uminus)

lemma ulp_bounds:
  assumes "2 \<le> b" "0 < x" "0 < p"
  shows "of_nat (b ^ (p - 1)) \<le> x / ulp b p x" "x / ulp b p x < of_nat (b ^ p)"
proof -
  let ?B = "of_nat b :: rat"
  have b0: "?B \<noteq> 0" using assms by simp
  have m: "?B powi mag b x \<le> x" "x < ?B powi (mag b x + 1)" using mag_spec assms by auto
  have u: "0 < ulp b p x" "\<bar>x\<bar> = x" using ulp_pos assms by auto
  have e1: "?B ^ (p - 1) * ulp b p x = ?B powi mag b x"
  proof -
    have "?B ^ (p - 1) * ulp b p x = ?B powi int (p - 1) * ?B powi (mag b x - int p + 1)"
      by (simp add: ulp_def u)
    also have "\<dots> = ?B powi (int (p - 1) + (mag b x - int p + 1))"
      by (rule power_int_add [symmetric]) (use b0 in simp)
    also have "int (p - 1) + (mag b x - int p + 1) = mag b x" using assms by simp
    finally show ?thesis .
  qed
  have e2: "?B ^ p * ulp b p x = ?B powi (mag b x + 1)"
  proof -
    have "?B ^ p * ulp b p x = ?B powi int p * ?B powi (mag b x - int p + 1)"
      by (simp add: ulp_def u)
    also have "\<dots> = ?B powi (int p + (mag b x - int p + 1))"
      by (rule power_int_add [symmetric]) (use b0 in simp)
    finally show ?thesis by simp
  qed
  show "of_nat (b ^ (p - 1)) \<le> x / ulp b p x" using e1 m u by (simp add: pos_le_divide_eq)
  show "x / ulp b p x < of_nat (b ^ p)" using e2 m u by (simp add: pos_divide_less_eq)
qed

lemma rnd_pos_bounds:
  assumes "2 \<le> b" "0 < x" "0 < p"
  shows "of_nat b powi mag b x \<le> rnd b p x" "rnd b p x \<le> of_nat b powi (mag b x + 1)"
proof -
  let ?B = "of_nat b :: rat"
  let ?u = "ulp b p x"
  have b0: "?B \<noteq> 0" using assms by simp
  have u: "0 < ?u" using ulp_pos assms by auto
  have B: "of_int (int (b ^ (p - 1))) \<le> x / ?u" "x / ?u \<le> of_int (int (b ^ p))"
    using ulp_bounds [OF assms] by simp_all
  have R: "int (b ^ (p - 1)) \<le> rhe (x / ?u)" "rhe (x / ?u) \<le> int (b ^ p)"
    using rhe_ge_int [OF B(1)] rhe_le_int [OF B(2)] by simp_all
  have r: "rnd b p x = of_int (rhe (x / ?u)) * ?u" using assms by (simp add: rnd_def Let_def)
  have e1: "of_int (int (b ^ (p - 1))) * ?u = ?B powi mag b x"
  proof -
    have "of_int (int (b ^ (p - 1))) * ?u = ?B powi int (p - 1) * ?B powi (mag b x - int p + 1)"
      using assms unfolding powi_nat by (simp add: ulp_def)
    also have "\<dots> = ?B powi (int (p - 1) + (mag b x - int p + 1))"
      by (rule power_int_add [symmetric]) (use b0 in simp)
    also have "int (p - 1) + (mag b x - int p + 1) = mag b x" using assms by simp
    finally show ?thesis .
  qed
  have e2: "of_int (int (b ^ p)) * ?u = ?B powi (mag b x + 1)"
  proof -
    have "of_int (int (b ^ p)) * ?u = ?B powi int p * ?B powi (mag b x - int p + 1)"
      using assms by (simp add: ulp_def)
    also have "\<dots> = ?B powi (int p + (mag b x - int p + 1))"
      by (rule power_int_add [symmetric]) (use b0 in simp)
    finally show ?thesis by simp
  qed
  have "of_int (int (b ^ (p - 1))) * ?u \<le> of_int (rhe (x / ?u)) * ?u"
    "of_int (rhe (x / ?u)) * ?u \<le> of_int (int (b ^ p)) * ?u"
    using R u by (simp_all only: mult_le_cancel_right_pos of_int_le_iff)
  then show "?B powi mag b x \<le> rnd b p x" "rnd b p x \<le> ?B powi (mag b x + 1)"
    unfolding r e1 e2 .
qed

lemma rnd_pos: "2 \<le> b \<Longrightarrow> 0 < p \<Longrightarrow> 0 < x \<Longrightarrow> 0 < rnd b p x"
  using rnd_pos_bounds(1) [of b x p] powi_pos [of b "mag b x"] by linarith

lemma rnd_nonneg: "2 \<le> b \<Longrightarrow> 0 < p \<Longrightarrow> 0 \<le> x \<Longrightarrow> 0 \<le> rnd b p x"
  using rnd_pos [of b p x] by (cases "x = 0") auto

lemma rnd_mono_pos:
  assumes "2 \<le> b" "0 < p" "0 < x" "x \<le> y"
  shows "rnd b p x \<le> rnd b p y"
proof (cases "mag b x = mag b y")
  case True
  then have u: "ulp b p x = ulp b p y" using assms by (simp add: ulp_def)
  have "rhe (x / ulp b p y) \<le> rhe (y / ulp b p y)"
    using assms ulp_pos [of b p y] by (intro rhe_mono divide_right_mono) auto
  then show ?thesis using assms ulp_pos [of b p y] by (simp add: rnd_def Let_def u)
next
  case False
  then have "mag b x + 1 \<le> mag b y" using mag_mono [of b x y] assms by simp
  then have "(of_nat b :: rat) powi (mag b x + 1) \<le> of_nat b powi mag b y" using assms powi_mono by blast
  then show ?thesis
    using rnd_pos_bounds(2) [of b x p] rnd_pos_bounds(1) [of b y p] assms by linarith
qed

theorem rnd_mono:
  assumes "2 \<le> b" "0 < p" "x \<le> y"
  shows "rnd b p x \<le> rnd b p y"
proof -
  consider "0 < x" | "x \<le> 0" "0 \<le> y" | "y < 0" using assms by linarith
  then show ?thesis
  proof cases
    case 1 with assms show ?thesis by (simp add: rnd_mono_pos)
  next
    case 2
    then have "0 \<le> rnd b p (- x)" "0 \<le> rnd b p y" using assms rnd_nonneg [of b p] by simp_all
    then show ?thesis by (simp add: rnd_uminus)
  next
    case 3
    then have "rnd b p (- y) \<le> rnd b p (- x)" using assms by (intro rnd_mono_pos) auto
    then show ?thesis by (simp add: rnd_uminus)
  qed
qed

text \<open>A number is representable when it is an integer of at most \<open>p\<close> digits times a power of the base.\<close>

definition repr :: "nat \<Rightarrow> nat \<Rightarrow> rat \<Rightarrow> bool" where
  "repr b p x \<longleftrightarrow> (\<exists>m k. \<bar>m\<bar> \<le> int (b ^ p) \<and> x = of_int m * of_nat b powi k)"

lemma repr_ulp_int:
  assumes b: "2 \<le> b" "0 < p" and x: "0 < x" and m: "\<bar>m\<bar> \<le> int (b ^ p)" and xm: "x = of_int m * of_nat b powi k"
  shows "\<exists>n. x / ulp b p x = of_int n"
proof -
  let ?B = "of_nat b :: rat"
  let ?e = "mag b x"
  have b0: "?B \<noteq> 0" using b by simp
  have m0: "0 < m" using x xm powi_pos [OF b(1), of k] by (simp add: zero_less_mult_iff)
  have u: "ulp b p x = ?B powi (?e - int p + 1)" using x by (simp add: ulp_def)
  have q: "x / ulp b p x = of_int m * ?B powi (k - (?e - int p + 1))"
    unfolding u by (subst xm, subst power_int_diff) (use b0 in simp_all)
  have mb: "(of_int m :: rat) \<le> of_nat (b ^ p)"
  proof -
    have "m \<le> int (b ^ p)" using m by simp
    then have "(of_int m :: rat) \<le> of_int (int (b ^ p))" by (simp only: of_int_le_iff)
    then show ?thesis by simp
  qed
  show ?thesis
  proof (cases "?e - int p + 1 \<le> k")
    case True
    then have "?B powi (k - (?e - int p + 1)) = of_int (int b ^ nat (k - (?e - int p + 1)))"
      by (simp add: power_int_def)
    then show ?thesis unfolding q by (metis of_int_mult)
  next
    case False
    \<comment> \<open>then \<open>m\<close> is the full \<open>b ^ p\<close> and the quotient is a smaller power of the base\<close>
    have "?B powi ?e \<le> of_nat (b ^ p) * ?B powi k"
      using mag_spec [OF b(1) x] mult_right_mono [OF mb, of "?B powi k"] powi_pos [OF b(1), of k] xm
      by linarith
    also have "\<dots> = ?B powi (int p + k)" by (subst power_int_add) (use b0 in simp_all)
    finally have le: "?B powi ?e \<le> ?B powi (int p + k)" .
    have "1 < ?B" using b by simp
    with le have "?e \<le> int p + k"
      using power_int_strict_increasing [of "int p + k" ?e ?B] by (meson not_le)
    with False have e: "?e = int p + k" by simp
    then have "of_nat (b ^ p) * ?B powi k \<le> of_int m * ?B powi k"
      using mag_spec [OF b(1) x] xm power_int_add [of ?B "int p" k] b0 by simp
    then have "(of_nat (b ^ p) :: rat) \<le> of_int m" using powi_pos [OF b(1), of k] by simp
    with mb have "(of_int m :: rat) = of_nat b ^ p" by simp
    then have "x / ulp b p x = ?B ^ p * ?B powi (- 1)" unfolding q e by simp
    also have "\<dots> = ?B ^ (p - 1)"
      using b b0 by (cases p) (simp_all add: power_int_minus)
    finally show ?thesis by (metis of_int_of_nat_eq of_nat_power)
  qed
qed

theorem rnd_exact:
  assumes "2 \<le> b" "0 < p" "repr b p x"
  shows "rnd b p x = x"
proof -
  have pos: "rnd b p y = y" if y: "0 < y" "repr b p y" for y
  proof -
    from y obtain m k where "\<bar>m\<bar> \<le> int (b ^ p)" "y = of_int m * of_nat b powi k" by (auto simp: repr_def)
    from repr_ulp_int [OF assms(1,2) y(1) this] obtain n where n: "y / ulp b p y = of_int n" by blast
    then have "of_int n * ulp b p y = y" using ulp_pos [OF assms(1), of p y] by (simp add: field_simps)
    then show ?thesis using y by (simp add: rnd_def Let_def n)
  qed
  have neg: "repr b p (- x)" using assms(3) unfolding repr_def
    by (metis abs_minus_cancel mult_minus_left of_int_minus)
  consider "x = 0" | "0 < x" | "0 < - x" by linarith
  then show ?thesis
  proof cases
    case 3 with pos [OF _ neg] show ?thesis by (simp add: rnd_uminus)
  qed (use pos assms in auto)
qed

lemma rnd_abs_err:
  assumes "2 \<le> b" shows "\<bar>rnd b p x - x\<bar> \<le> ulp b p x / 2"
proof (cases "x = 0")
  case True then show ?thesis using ulp_pos [OF assms, of p x] by simp
next
  case False
  let ?u = "ulp b p x"
  have u: "0 < ?u" using ulp_pos assms by auto
  have "\<bar>of_int (rhe (x / ?u)) - x / ?u\<bar> \<le> 1 / 2" using rhe_bounds [of "x / ?u"] by linarith
  then have "\<bar>of_int (rhe (x / ?u)) - x / ?u\<bar> * ?u \<le> 1 / 2 * ?u" using u by (intro mult_right_mono) auto
  moreover have "\<bar>of_int (rhe (x / ?u)) - x / ?u\<bar> * ?u = \<bar>(of_int (rhe (x / ?u)) - x / ?u) * ?u\<bar>"
    using u by (simp add: abs_mult)
  moreover have "(of_int (rhe (x / ?u)) - x / ?u) * ?u = rnd b p x - x"
    using u False by (simp add: rnd_def Let_def left_diff_distrib)
  ultimately show ?thesis by simp
qed

theorem rnd_rel_err:
  assumes "2 \<le> b" "0 < p"
  shows "\<bar>rnd b p x - x\<bar> \<le> \<bar>x\<bar> * of_nat b powi (1 - int p) / 2"
proof (cases "x = 0")
  case False
  let ?B = "of_nat b :: rat"
  have b0: "?B \<noteq> 0" using assms by simp
  have "?B powi mag b \<bar>x\<bar> \<le> \<bar>x\<bar>" using mag_spec [OF assms(1), of "\<bar>x\<bar>"] False by simp
  then have "?B powi mag b \<bar>x\<bar> * ?B powi (1 - int p) \<le> \<bar>x\<bar> * ?B powi (1 - int p)"
    using powi_pos [OF assms(1), of "1 - int p"] by simp
  moreover have "?B powi mag b \<bar>x\<bar> * ?B powi (1 - int p) = ulp b p x"
    unfolding ulp_def by (subst power_int_add [symmetric]) (use b0 in \<open>simp_all add: algebra_simps\<close>)
  ultimately show ?thesis using rnd_abs_err [OF assms(1), of p x] by linarith
qed simp

end
