(* ===== verification/PyDecimal.thy ===== *)
theory PyDecimal
  imports Prelude Rounding
begin

text \<open>
  Python's \<open>decimal.Decimal\<close> under the default context (28 significant digits, ROUND_HALF_EVEN), as
  the pricing, reservation, store and recovery code uses it. A finite \<open>Decimal\<close> is a pair of an
  integer coefficient and an exponent, so trailing zeros and \<open>str()\<close> are the real ones; the sign of a
  zero, the non-finite values and the overflow of exponents beyond \<open>\<plusminus>999999\<close> are not modelled.
  Each operation is shown to return the exact result rounded once (\<open>dval_dadd\<close>, \<open>dval_dmul\<close>,
  \<open>dval_ddiv\<close>), and the text form to be read back unchanged (\<open>dparse_dstr\<close>).
\<close>

section \<open>Values, rounding, comparison\<close>

datatype dec = Dec (coef: int) (dexp: int)

definition dval :: "dec \<Rightarrow> rat" where
  "dval d = of_int (coef d) * 10 powi dexp d"

definition prec :: nat where
  "prec = 28"

definition ndig :: "int \<Rightarrow> nat" where
  "ndig c = Suc (ilog 10 (nat \<bar>c\<bar>))"

text \<open>Evaluation counts up the powers of ten instead of dividing.\<close>

function ndig_up :: "nat \<Rightarrow> int \<Rightarrow> int \<Rightarrow> nat" where
  "ndig_up n p c = (if c < p \<or> p \<le> 0 then n else ndig_up (Suc n) (10 * p) c)"
  by pat_completeness auto
termination
  by (relation "measure (\<lambda>(n, p, c). nat (c + 1 - p))") auto

declare ndig_up.simps [simp del]

lemma ndig_up_ilog: "ndig_up n (10 ^ Suc k) c = n + ilog 10 (nat (c div 10 ^ k))"
proof (induction "nat (c + 1 - 10 ^ Suc k)" arbitrary: n k rule: less_induct)
  case less
  have p: "(0 :: int) < 10 ^ Suc k" and q: "(0 :: int) < 10 ^ k" by simp_all
  show ?case
  proof (cases "c < 10 ^ Suc k")
    case True
    then have "c div 10 ^ k * 10 ^ k < 10 * 10 ^ k"
      using minus_mod_eq_div_mult [of c "10 ^ k"] pos_mod_sign [OF q, of c]
      unfolding power_Suc by linarith
    then have "c div 10 ^ k < 10" by (simp only: mult_less_cancel_right_pos zero_less_power zero_less_numeral)
    with True show ?thesis by (subst ndig_up.simps, subst ilog.simps) (simp add: nat_less_iff)
  next
    case False
    then have "10 * 10 ^ k div 10 ^ k \<le> c div 10 ^ k" by (intro zdiv_mono1) simp_all
    then have "10 \<le> c div 10 ^ k" by simp
    moreover have "nat (c div 10 ^ Suc k) = nat (c div 10 ^ k) div 10"
    proof -
      have "c div 10 ^ Suc k = c div 10 ^ k div 10"
        unfolding power_Suc2 by (subst zdiv_zmult2_eq) simp_all
      then show ?thesis by (simp add: nat_div_distrib')
    qed
    moreover have "ndig_up (Suc n) (10 ^ Suc (Suc k)) c = Suc n + ilog 10 (nat (c div 10 ^ Suc k))"
      using False by (intro less.hyps) (simp add: not_less)
    moreover have "\<not> nat (c div 10 ^ k) < 10" using \<open>10 \<le> c div 10 ^ k\<close> by simp
    moreover have "\<not> (10 :: int) ^ k \<le> 0" using q by linarith
    ultimately show ?thesis using False p
      by (subst ndig_up.simps, subst ilog.simps) simp
  qed
qed

lemma ndig_code [code]: "ndig c = ndig_up 1 10 \<bar>c\<bar>"
  using ndig_up_ilog [of 1 0 "\<bar>c\<bar>"] by (simp add: ndig_def)

definition dfix :: "dec \<Rightarrow> dec" where
  "dfix d = (let k = int (ndig (coef d)) - int prec in
     if k \<le> 0 then d
     else let q = rhe_div (coef d) (10 ^ nat k) in
       if \<bar>q\<bar> = 10 ^ prec then Dec (q div 10) (dexp d + k + 1) else Dec q (dexp d + k))"

definition dec_of_int :: "int \<Rightarrow> dec" where
  "dec_of_int i = Dec i 0"

definition align :: "dec \<Rightarrow> int \<Rightarrow> int" where
  "align d m = coef d * 10 ^ nat (dexp d - m)"

definition dle :: "dec \<Rightarrow> dec \<Rightarrow> bool" where
  "dle a b = (let m = min (dexp a) (dexp b) in align a m \<le> align b m)"

definition dlt :: "dec \<Rightarrow> dec \<Rightarrow> bool" where
  "dlt a b = (\<not> dle b a)"

definition deq :: "dec \<Rightarrow> dec \<Rightarrow> bool" where
  "deq a b = (dle a b \<and> dle b a)"

definition dmin :: "dec \<Rightarrow> dec \<Rightarrow> dec" where
  "dmin a b = (if dlt b a then b else a)"

definition dadd :: "dec \<Rightarrow> dec \<Rightarrow> dec" where
  "dadd a b = (let m = min (dexp a) (dexp b) in dfix (Dec (align a m + align b m) m))"

definition dsub :: "dec \<Rightarrow> dec \<Rightarrow> dec" where
  "dsub a b = dadd a (Dec (- coef b) (dexp b))"

definition dmul :: "dec \<Rightarrow> dec \<Rightarrow> dec" where
  "dmul a b = dfix (Dec (coef a * coef b) (dexp a + dexp b))"

definition dabs :: "dec \<Rightarrow> dec" where
  "dabs a = dfix (Dec \<bar>coef a\<bar> (dexp a))"

fun dstrip :: "nat \<Rightarrow> int \<Rightarrow> int \<Rightarrow> dec" where
  "dstrip 0 c e = Dec c e"
| "dstrip (Suc n) c e = (if c mod 10 = 0 then dstrip n (c div 10) (e + 1) else Dec c e)"

text \<open>Evaluation strips sixteen, eight, four and two zeros at a time.\<close>

definition dstrip_step :: "nat \<Rightarrow> nat \<Rightarrow> int \<Rightarrow> int \<Rightarrow> nat \<times> int \<times> int" where
  "dstrip_step k n c e =
     (if k \<le> n \<and> c mod 10 ^ k = 0 then (n - k, c div 10 ^ k, e + int k) else (n, c, e))"

lemma dstrip_many: "10 ^ k dvd c \<Longrightarrow> k \<le> n \<Longrightarrow> dstrip n c e = dstrip (n - k) (c div 10 ^ k) (e + int k)"
proof (induction k arbitrary: n c e)
  case (Suc k)
  from Suc.prems obtain m where n: "n = Suc m" by (cases n) auto
  from Suc.prems(1) have c: "c mod 10 = 0" "10 ^ k dvd c div 10"
    by (auto simp: dvd_def)
  have "dstrip n c e = dstrip m (c div 10) (e + 1)" by (simp add: n c(1))
  also have "\<dots> = dstrip (m - k) (c div 10 div 10 ^ k) (e + 1 + int k)"
    using Suc.prems(2) n by (intro Suc.IH c(2)) simp
  also have "c div 10 div 10 ^ k = c div 10 ^ Suc k"
    unfolding power_Suc by (subst zdiv_zmult2_eq) simp_all
  finally show ?case by (simp add: n add.assoc)
qed simp

lemma dstrip_step: "dstrip n c e = (case dstrip_step k n c e of (n', c', e') \<Rightarrow> dstrip n' c' e')"
  by (auto simp: dstrip_step_def dvd_eq_mod_eq_0 intro: dstrip_many)

definition dstrip_fast :: "nat \<Rightarrow> int \<Rightarrow> int \<Rightarrow> dec" where
  "dstrip_fast n c e =
     (case dstrip_step 16 n c e of (n1, c1, e1) \<Rightarrow>
      case dstrip_step 8 n1 c1 e1 of (n2, c2, e2) \<Rightarrow>
      case dstrip_step 4 n2 c2 e2 of (n3, c3, e3) \<Rightarrow>
      case dstrip_step 2 n3 c3 e3 of (n4, c4, e4) \<Rightarrow> dstrip n4 c4 e4)"

lemma dstrip_fast: "dstrip n c e = dstrip_fast n c e"
  by (simp add: dstrip_fast_def dstrip_step [symmetric] split: prod.splits)

definition ddiv :: "dec \<Rightarrow> dec \<Rightarrow> dec res" where [code del]:
  "ddiv a b =
     (if coef b = 0 then Inl (if coef a = 0 then InvalidOperation else DivisionByZero)
      else if coef a = 0 then Inr (Dec 0 (dexp a - dexp b))
      else
        let sh = int (ndig (coef b)) - int (ndig (coef a)) + int prec + 1;
            ex = dexp a - dexp b - sh;
            n = \<bar>coef a\<bar> * 10 ^ nat sh;
            d = \<bar>coef b\<bar> * 10 ^ nat (- sh);
            q = n div d;
            s = sgn (coef a) * sgn (coef b)
        in if n mod d \<noteq> 0
           then Inr (dfix (Dec (s * (if q mod 5 = 0 then q + 1 else q)) ex))
           else Inr (dfix (dstrip (nat sh) (s * q) ex)))"

fun dsum_from :: "dec \<Rightarrow> dec list \<Rightarrow> dec" where
  "dsum_from t [] = t"
| "dsum_from t (x # xs) = dsum_from (dadd t x) xs"

lemmas ddiv_code [code] = ddiv_def [unfolded dstrip_fast]

lemma ten_pos [simp]: "(0 :: rat) < 10 powi i"
  by simp

lemma powi_split: "0 \<le> k \<Longrightarrow> (10 :: rat) powi (k + e) = 10 ^ nat k * 10 powi e"
  by (subst power_int_add) (simp_all add: power_int_def)

lemma powi_quot: "10 ^ nat i / 10 ^ nat (- i) = (10 powi i :: rat)"
proof (cases "0 \<le> i")
  case True
  then show ?thesis by (simp add: power_int_def)
next
  case False
  then have "nat i = 0" by simp
  with False show ?thesis by (simp only: power_int_def if_False power_0 power_inverse inverse_eq_divide power_one_over)
qed

lemma dval_align:
  assumes "m \<le> dexp d" shows "of_int (align d m) * 10 powi m = dval d"
proof -
  have "(10 :: rat) ^ nat (dexp d - m) * 10 powi m = 10 powi ((dexp d - m) + m)"
    by (subst powi_split) (use assms in simp_all)
  with assms show ?thesis by (simp add: align_def dval_def)
qed

lemma dle_iff: "dle a b \<longleftrightarrow> dval a \<le> dval b"
proof -
  let ?m = "min (dexp a) (dexp b)"
  have "dval a \<le> dval b \<longleftrightarrow> of_int (align a ?m) * 10 powi ?m \<le> (of_int (align b ?m) * 10 powi ?m :: rat)"
    using dval_align [of ?m a] dval_align [of ?m b] by simp
  also have "\<dots> \<longleftrightarrow> align a ?m \<le> align b ?m" by simp
  finally show ?thesis by (simp add: dle_def Let_def)
qed

lemma dlt_iff: "dlt a b \<longleftrightarrow> dval a < dval b"
  by (auto simp: dlt_def dle_iff)

lemma deq_iff: "deq a b \<longleftrightarrow> dval a = dval b"
  by (auto simp: deq_def dle_iff)

lemma dval_dmin: "dval (dmin a b) = min (dval a) (dval b)"
  by (auto simp: dmin_def dlt_iff)

lemmas dcmp = dle_iff dlt_iff deq_iff dval_dmin

lemma dval_of_int [simp]: "dval (dec_of_int i) = of_int i"
  by (simp add: dec_of_int_def dval_def)

lemma dval_Dec0 [simp]: "dval (Dec i 0) = of_int i"
  by (simp add: dval_def)

lemma dval_0_iff: "dval d = 0 \<longleftrightarrow> coef d = 0"
  by (simp add: dval_def)

lemma dval_pos_iff: "0 < dval d \<longleftrightarrow> 0 < coef d"
  unfolding dval_def by (metis mult_pos_pos of_int_0_less_iff ten_pos zero_less_mult_pos2)

section \<open>Each operation rounds the exact result once\<close>

definition r28 :: "rat \<Rightarrow> rat" where
  "r28 = rnd 10 prec"

lemma r28_mono: "x \<le> y \<Longrightarrow> r28 x \<le> r28 y"
  unfolding r28_def by (rule rnd_mono) (auto simp: prec_def)

lemma r28_0 [simp]: "r28 0 = 0"
  by (simp add: r28_def)

lemma r28_nonneg: "0 \<le> x \<Longrightarrow> 0 \<le> r28 x"
  using r28_mono [of 0 x] by simp

lemma r28_nonpos: "x \<le> 0 \<Longrightarrow> r28 x \<le> 0"
  using r28_mono [of x 0] by simp

lemma r28_pos: "0 < x \<Longrightarrow> 0 < r28 x"
  unfolding r28_def by (rule rnd_pos) (auto simp: prec_def)

definition fits :: "dec \<Rightarrow> bool" where
  "fits d = (\<bar>coef d\<bar> \<le> 10 ^ prec)"

lemma r28_exact: "\<bar>m\<bar> \<le> 10 ^ 28 \<Longrightarrow> r28 (of_int m * 10 powi k) = of_int m * 10 powi k"
  unfolding r28_def by (rule rnd_exact) (auto simp: prec_def repr_def)

lemma r28_fits: "fits d \<Longrightarrow> r28 (dval d) = dval d"
  using r28_exact [of "coef d" "dexp d"] by (simp add: fits_def dval_def prec_def)

lemma r28_int [simp]: "\<bar>m\<bar> \<le> 10 ^ 28 \<Longrightarrow> r28 (of_int m) = of_int m"
  using r28_exact [of m 0] by simp

lemma ndig_bounds:
  assumes "c \<noteq> 0" shows "10 ^ (ndig c - 1) \<le> \<bar>c\<bar>" "\<bar>c\<bar> < 10 ^ ndig c"
proof -
  have "(10::nat) ^ ilog 10 (nat \<bar>c\<bar>) \<le> nat \<bar>c\<bar> \<and> nat \<bar>c\<bar> < 10 ^ Suc (ilog 10 (nat \<bar>c\<bar>))"
    by (rule ilog_spec) (use assms in auto)
  then have "int (10 ^ ilog 10 (nat \<bar>c\<bar>)) \<le> int (nat \<bar>c\<bar>)" "int (nat \<bar>c\<bar>) < int (10 ^ Suc (ilog 10 (nat \<bar>c\<bar>)))"
    by (simp_all only: of_nat_le_iff of_nat_less_iff)
  then show "10 ^ (ndig c - 1) \<le> \<bar>c\<bar>" "\<bar>c\<bar> < 10 ^ ndig c" by (simp_all add: ndig_def)
qed

lemma mag_int_scaled:
  assumes "c \<noteq> 0" shows "mag 10 \<bar>of_int c * 10 powi e\<bar> = int (ndig c) - 1 + e"
proof -
  have B: "(of_int (10 ^ (ndig c - 1)) :: rat) \<le> of_int \<bar>c\<bar>" "(of_int \<bar>c\<bar> :: rat) < of_int (10 ^ ndig c)"
    using ndig_bounds [OF assms] by (simp_all only: of_int_le_iff of_int_less_iff)
  have x: "\<bar>of_int c * 10 powi e\<bar> = (of_int \<bar>c\<bar> * 10 powi e :: rat)" by (simp add: abs_mult)
  have p1: "of_nat 10 powi (int (ndig c) - 1 + e) = (of_int (10 ^ (ndig c - 1)) * 10 powi e :: rat)"
  proof -
    have eq: "int (ndig c) - 1 + e = int (ndig c - 1) + e" by (simp add: ndig_def)
    show ?thesis unfolding eq of_nat_numeral by (subst powi_split) simp_all
  qed
  have p2: "of_nat 10 powi (int (ndig c) - 1 + e + 1) = (of_int (10 ^ ndig c) * 10 powi e :: rat)"
  proof -
    have eq: "int (ndig c) - 1 + e + 1 = int (ndig c) + e" by simp
    show ?thesis unfolding eq of_nat_numeral by (subst powi_split) simp_all
  qed
  show ?thesis
    unfolding x
  proof (rule mag_unique)
    show "of_nat 10 powi (int (ndig c) - 1 + e) \<le> (of_int \<bar>c\<bar> * 10 powi e :: rat)"
      unfolding p1 by (intro mult_right_mono B) simp
    show "(of_int \<bar>c\<bar> * 10 powi e :: rat) < of_nat 10 powi (int (ndig c) - 1 + e + 1)"
      unfolding p2 by (intro mult_strict_right_mono B) simp
  qed simp
qed

lemma dval_dfix: "dval (dfix d) = r28 (dval d)"
proof (cases "coef d = 0")
  case True
  then have "dfix d = d" by (simp add: dfix_def ndig_def prec_def ilog.simps)
  with True show ?thesis by (simp add: dval_def)
next
  case False
  define k where "k = int (ndig (coef d)) - int prec"
  show ?thesis
  proof (cases "k \<le> 0")
    case True
    then have f: "dfix d = d" by (simp add: dfix_def k_def)
    have "\<bar>coef d\<bar> \<le> 10 ^ ndig (coef d)" using ndig_bounds(2) [OF False] by simp
    also have "\<dots> \<le> (10 :: int) ^ prec" using True by (intro power_increasing) (auto simp: k_def)
    finally have "fits d" by (simp add: fits_def)
    then show ?thesis unfolding f by (simp add: r28_fits)
  next
    case kp: False
    define q where "q = rhe_div (coef d) (10 ^ nat k)"
    have k: "(10 :: rat) powi (dexp d + k) = 10 ^ nat k * 10 powi dexp d"
      using kp powi_split [of k "dexp d"] by (simp add: add.commute)
    have u: "ulp 10 prec (dval d) = 10 powi (dexp d + k)"
      using mag_int_scaled [OF False, of "dexp d"] by (simp add: ulp_def dval_def k_def algebra_simps)
    have "dval d / ulp 10 prec (dval d) = of_int (coef d) / of_int (10 ^ nat k)"
      unfolding u k by (simp add: dval_def)
    then have "rhe (dval d / ulp 10 prec (dval d)) = q" by (simp add: q_def rhe_div_eq)
    moreover have "dval d \<noteq> 0" using False by (simp add: dval_0_iff)
    ultimately have r: "r28 (dval d) = of_int q * 10 powi (dexp d + k)"
      by (simp add: r28_def rnd_def Let_def u)
    have carry: "of_int (q div 10) * 10 powi (dexp d + k + 1) = (of_int q * 10 powi (dexp d + k) :: rat)"
      if "\<bar>q\<bar> = 10 ^ prec"
    proof -
      have "(10 :: int) dvd 10 ^ prec" by (rule dvd_power) (auto simp: prec_def)
      then have "10 dvd q" using that by (metis dvd_abs_iff)
      then obtain t where "q = 10 * t" by auto
      then show ?thesis by (simp add: power_int_add)
    qed
    have "dval (dfix d) = of_int q * 10 powi (dexp d + k)"
      using kp carry by (simp add: dfix_def Let_def dval_def flip: k_def q_def)
    then show ?thesis by (simp only: r)
  qed
qed

theorem dval_dadd: "dval (dadd a b) = r28 (dval a + dval b)"
proof -
  let ?m = "min (dexp a) (dexp b)"
  have "dval (Dec (align a ?m + align b ?m) ?m) = dval a + dval b"
    using dval_align [of ?m a] dval_align [of ?m b] by (simp add: dval_def [of "Dec _ _"] distrib_right)
  then show ?thesis by (simp add: dadd_def Let_def dval_dfix)
qed

theorem dval_dsub: "dval (dsub a b) = r28 (dval a - dval b)"
  by (simp add: dsub_def dval_dadd) (simp add: dval_def)

theorem dval_dmul: "dval (dmul a b) = r28 (dval a * dval b)"
  by (simp add: dmul_def dval_dfix) (simp add: dval_def power_int_add algebra_simps)

lemma dval_dabs: "dval (dabs a) = r28 \<bar>dval a\<bar>"
  by (simp add: dabs_def dval_dfix) (simp add: dval_def abs_mult)

section \<open>Division\<close>

lemma rhe_on_half_interval:
  assumes "of_int s / 2 < x" "x < (of_int s + 1) / 2" "of_int s / 2 < y" "y < (of_int s + 1) / 2"
  shows "rhe x = rhe y"
proof -
  obtain t where t: "s = 2 * t \<or> s = 2 * t + 1" by (metis add.commute mult.commute parity_cases evenE oddE)
  have one: "rhe z = (if s = 2 * t then t else t + 1)" if "of_int s / 2 < z" "z < (of_int s + 1) / 2" for z :: rat
  proof (cases "s = 2 * t")
    case True
    with that have "of_int t < z" "z - of_int t < 1 / 2" by (simp_all add: field_simps)
    moreover from this have "\<lfloor>z\<rfloor> = t" by (intro floor_unique) linarith+
    ultimately show ?thesis using True by (simp add: rhe_def)
  next
    case False
    with t have "s = 2 * t + 1" by simp
    with that have "1 / 2 < z - of_int t" "z < of_int t + 1" by (simp_all add: field_simps)
    moreover from this have "\<lfloor>z\<rfloor> = t" by (intro floor_unique) linarith+
    ultimately show ?thesis using False by (simp add: rhe_def)
  qed
  show ?thesis using one assms by simp
qed

text \<open>
  The sticky digit: two numbers strictly between the same consecutive multiples of five round
  to the same multiple of a positive power of ten.
\<close>

lemma sticky_round:
  fixes t :: int
  assumes "of_int (5 * t) < x" "x < of_int (5 * (t + 1))" "of_int (5 * t) < y" "y < of_int (5 * (t + 1))"
  shows "rhe (x / 10 ^ Suc k) = rhe (y / 10 ^ Suc k)"
proof -
  define s where "s = t div 10 ^ k"
  have p: "(0 :: int) < 10 ^ k" by simp
  have lo: "s * 10 ^ k \<le> t" unfolding s_def
    using div_mult_mod_eq [of t "10 ^ k"] pos_mod_sign [OF p, of t] by linarith
  have "t < (s + 1) * 10 ^ k" unfolding s_def
    using div_mult_mod_eq [of t "10 ^ k"] pos_mod_bound [OF p, of t] unfolding distrib_right by linarith
  then have hi: "t + 1 \<le> (s + 1) * 10 ^ k" by simp
  have lo': "(of_int s * 10 ^ k :: rat) \<le> of_int t"
  proof -
    have "of_int (s * 10 ^ k) \<le> (of_int t :: rat)" using lo by (simp only: of_int_le_iff)
    then show ?thesis by simp
  qed
  have hi': "(of_int t + 1 :: rat) \<le> (of_int s + 1) * 10 ^ k"
  proof -
    have "of_int (t + 1) \<le> (of_int ((s + 1) * 10 ^ k) :: rat)" using hi by (simp only: of_int_le_iff)
    then show ?thesis by simp
  qed
  have one: "of_int s / 2 < z / 10 ^ Suc k \<and> z / 10 ^ Suc k < (of_int s + 1) / 2"
    if "of_int (5 * t) < z" "z < of_int (5 * (t + 1))" for z :: rat
  proof -
    have "5 * (of_int s * 10 ^ k) < z" "z < 5 * ((of_int s + 1) * 10 ^ k)"
      using that lo' hi' by simp_all
    then show ?thesis by (simp add: field_simps)
  qed
  show ?thesis using one [OF assms(1,2)] one [OF assms(3,4)] by (intro rhe_on_half_interval) auto
qed

lemma r28_sticky:
  fixes q :: int
  assumes q: "10 ^ 28 \<le> q" and x: "of_int q < x" "x < of_int q + 1"
  shows "r28 (of_int (if q mod 5 = 0 then q + 1 else q) * 10 powi e) = r28 (x * 10 powi e)"
proof -
  define q' where "q' = (if q mod 5 = 0 then q + 1 else q)"
  define j where "j = ndig q - 1"
  have q0: "0 < q" using q by (simp add: order_less_le_trans [OF _ q])
  have jb: "10 ^ j \<le> q" "q < 10 ^ Suc j"
    using ndig_bounds [of q] q0 by (simp_all add: j_def ndig_def)
  have j28: "28 \<le> j"
  proof (rule ccontr)
    assume "\<not> 28 \<le> j"
    then have "(10 :: int) ^ Suc j \<le> 10 ^ 28" by (intro power_increasing) auto
    with jb q show False by linarith
  qed
  have q'_lt: "q' < 10 ^ Suc j"
  proof (cases "q mod 5 = 0")
    case True
    have "(10 :: int) ^ Suc j mod 5 = 0" by simp
    with True have "q + 1 \<noteq> 10 ^ Suc j" by presburger
    with True jb(2) show ?thesis by (simp add: q'_def)
  qed (use jb in \<open>simp add: q'_def\<close>)
  have b1: "(10 ^ j :: rat) \<le> of_int q" "(of_int q' :: rat) < 10 ^ Suc j" "(of_int q + 1 :: rat) \<le> 10 ^ Suc j"
  proof -
    show "(10 ^ j :: rat) \<le> of_int q"
      using jb(1) by (metis of_int_le_iff of_int_numeral of_int_power)
    show "(of_int q' :: rat) < 10 ^ Suc j"
      using q'_lt by (metis of_int_less_iff of_int_numeral of_int_power)
    have "q + 1 \<le> 10 ^ Suc j" using jb(2) by simp
    then have "of_int (q + 1) \<le> (10 ^ Suc j :: rat)" by (simp only: of_int_le_numeral_power_cancel_iff)
    then show "(of_int q + 1 :: rat) \<le> 10 ^ Suc j" by (simp only: of_int_add of_int_1)
  qed
  have qq': "q \<le> q'" by (simp add: q'_def)
  have ulp1: "ulp 10 prec (z * 10 powi e) = 10 ^ Suc (j - 28) * 10 powi e"
    if "10 ^ j \<le> z" "z < 10 ^ Suc j" for z :: rat
  proof -
    have z: "0 < z" using that(1) zero_less_power [of "10::rat" j] by linarith
    have "mag 10 (z * 10 powi e) = int j + e"
    proof (rule mag_unique)
      show "of_nat 10 powi (int j + e) \<le> z * 10 powi e"
        unfolding of_nat_numeral by (subst powi_split, simp, unfold nat_int, intro mult_right_mono that) simp
      have eq: "int j + e + 1 = int (Suc j) + e" by simp
      show "z * 10 powi e < of_nat 10 powi (int j + e + 1)"
        unfolding of_nat_numeral eq by (subst powi_split, simp, unfold nat_int, intro mult_strict_right_mono that) simp
    qed simp
    moreover have "int j + e - int prec + 1 = int (Suc (j - 28)) + e" using j28 by (simp add: prec_def)
    moreover have "(10 :: rat) powi (int (Suc (j - 28)) + e) = 10 ^ Suc (j - 28) * 10 powi e"
      by (subst powi_split, simp, unfold nat_int) simp
    ultimately show ?thesis using z unfolding ulp_def by (metis abs_of_pos mult_pos_pos of_nat_numeral ten_pos)
  qed
  have rr: "r28 (z * 10 powi e) = of_int (rhe (z / 10 ^ Suc (j - 28))) * (10 ^ Suc (j - 28) * 10 powi e)"
    if "10 ^ j \<le> z" "z < 10 ^ Suc j" for z :: rat
  proof -
    have "(0 :: rat) < 10 ^ j" by simp
    then have "z \<noteq> 0" using that(1) by linarith
    then show ?thesis by (simp add: r28_def rnd_def Let_def ulp1 [OF that] del: power_Suc)
  qed
  define t where "t = q div 5"
  have t: "5 * t \<le> q" "q < 5 * (t + 1)" "q' \<noteq> 5 * t" "5 * t < q'" "q' < 5 * (t + 1)"
    unfolding t_def q'_def by (auto; presburger)+
  have q5: "q + 1 \<le> 5 * (t + 1)" using t by simp
  have "rhe (of_int q' / 10 ^ Suc (j - 28)) = rhe (x / 10 ^ Suc (j - 28))"
  proof (rule sticky_round)
    show "of_int (5 * t) < (of_int q' :: rat)" "(of_int q' :: rat) < of_int (5 * (t + 1))"
      using t by (simp_all only: of_int_less_iff)
    have "of_int (5 * t) \<le> (of_int q :: rat)" "(of_int (q + 1) :: rat) \<le> of_int (5 * (t + 1))"
      using t(1) q5 by (simp_all only: of_int_le_iff)
    with x show "of_int (5 * t) < x" "x < of_int (5 * (t + 1))" by simp_all
  qed
  moreover have "10 ^ j \<le> (of_int q' :: rat)" using qq' b1(1) by (meson of_int_le_iff order_trans)
  moreover have "10 ^ j \<le> x" "x < 10 ^ Suc j" using b1 x by linarith+
  ultimately show ?thesis using rr [of "of_int q'"] rr [of x] b1(2) by (simp only: q'_def [symmetric])
qed

lemma dval_dstrip: "dval (dstrip n c e) = dval (Dec c e)"
proof (induction n c e rule: dstrip.induct)
  case (2 n c e)
  show ?case
  proof (cases "c mod 10 = 0")
    case True
    then obtain t where t: "c = 10 * t" by auto
    have "dval (Dec t (e + 1)) = dval (Dec c e)"
      by (simp add: dval_def t power_int_add)
    with True 2 show ?thesis by (simp add: t)
  qed simp
qed simp

lemma ddiv_zero: "ddiv a b = Inl e \<Longrightarrow> dval b = 0"
  by (auto simp: ddiv_def dval_0_iff Let_def split: if_splits)

lemma ddiv_returns: "dval b \<noteq> 0 \<Longrightarrow> returns (ddiv a b)"
  using ddiv_zero by (cases "ddiv a b") auto

theorem dval_ddiv:
  assumes "ddiv a b = Inr c" shows "dval b \<noteq> 0 \<and> dval c = r28 (dval a / dval b)"
proof -
  from assms have b0: "coef b \<noteq> 0" by (auto simp: ddiv_def split: if_splits)
  show ?thesis
  proof (cases "coef a = 0")
    case True
    with assms b0 show ?thesis by (auto simp: ddiv_def dval_def)
  next
    case a0: False
    define sh where "sh = int (ndig (coef b)) - int (ndig (coef a)) + int prec + 1"
    define ex where "ex = dexp a - dexp b - sh"
    define n where "n = \<bar>coef a\<bar> * 10 ^ nat sh"
    define d where "d = \<bar>coef b\<bar> * 10 ^ nat (- sh)"
    define q where "q = n div d"
    define s where "s = sgn (coef a) * sgn (coef b)"
    have c: "c = (if n mod d \<noteq> 0 then dfix (Dec (s * (if q mod 5 = 0 then q + 1 else q)) ex)
                  else dfix (dstrip (nat sh) (s * q) ex))"
      using assms a0 b0 unfolding ddiv_def Let_def sh_def [symmetric] ex_def [symmetric] n_def [symmetric]
        d_def [symmetric] q_def [symmetric] s_def [symmetric] by (simp split: if_splits)
    have d0: "0 < d" using b0 by (simp add: d_def)
    have s: "s = 1 \<or> s = -1" using a0 b0 by (auto simp: s_def sgn_if)
    define x :: rat where "x = of_int n / of_int d"
    have sx: "of_int s * (x * 10 powi ex) = dval a / dval b"
    proof -
      have sh: "10 ^ nat sh / 10 ^ nat (- sh) = (10 powi sh :: rat)" by (rule powi_quot)
      have "x = of_int \<bar>coef a\<bar> / of_int \<bar>coef b\<bar> * 10 powi sh"
        unfolding sh [symmetric] x_def n_def d_def by simp
      moreover have "(10 powi sh :: rat) * 10 powi ex = 10 powi dexp a / 10 powi dexp b"
        unfolding ex_def by (simp add: power_int_diff)
      ultimately have "x * 10 powi ex = of_int \<bar>coef a\<bar> / of_int \<bar>coef b\<bar> * (10 powi dexp a / 10 powi dexp b)"
        by (simp add: mult.assoc)
      moreover have "of_int s * (of_int \<bar>coef a\<bar> / of_int \<bar>coef b\<bar>) = (of_int (coef a) / of_int (coef b) :: rat)"
        unfolding s_def using a0 b0 by (cases "0 < coef a"; cases "0 < coef b") (simp_all add: sgn_if)
      ultimately have "of_int s * (x * 10 powi ex)
          = of_int (coef a) / of_int (coef b) * (10 powi dexp a / 10 powi dexp b)"
        by (metis mult.assoc)
      then show ?thesis by (simp add: dval_def)
    qed
    have rs: "r28 (of_int s * z) = of_int s * r28 z" for z
      using s rnd_uminus [of 10 prec z] by (auto simp: r28_def)
    have fin: "dval c = of_int s * r28 (x * 10 powi ex)"
    proof (cases "n mod d = 0")
      case True
      then have "n = q * d" unfolding q_def using div_mult_mod_eq [of n d] by simp
      then have "x = of_int q" using d0 by (simp add: x_def)
      with True show ?thesis
        by (simp add: c dval_dfix dval_dstrip dval_def [of "Dec _ _"] mult.assoc rs)
    next
      case False
      have nd: "n = q * d + n mod d" by (simp add: q_def)
      have rm: "0 < n mod d" "n mod d < d" using False d0 pos_mod_sign [OF d0, of n] pos_mod_bound [OF d0, of n] by linarith+
      have xq: "x = of_int q + of_int (n mod d) / of_int d"
        unfolding x_def by (subst nd, unfold of_int_add of_int_mult) (use d0 in \<open>simp add: field_simps\<close>)
      have x: "of_int q < x" "x < of_int q + 1"
        unfolding xq using rm d0 by simp_all
      have q28: "10 ^ 28 \<le> q"
      proof -
        let ?la = "ndig (coef a)" and ?lb = "ndig (coef b)"
        have "\<bar>coef b\<bar> * 10 ^ nat (- sh) \<le> 10 ^ ?lb * 10 ^ nat (- sh)"
          using ndig_bounds(2) [OF b0] by (intro mult_right_mono) auto
        then have "(10 :: int) ^ 28 * d \<le> 10 ^ 28 * (10 ^ ?lb * 10 ^ nat (- sh))"
          unfolding d_def by (rule mult_left_mono) simp
        also have "(10 :: int) ^ 28 * (10 ^ ?lb * 10 ^ nat (- sh)) = 10 ^ (?la - 1) * 10 ^ nat sh"
        proof -
          have "28 + (?lb + nat (- sh)) = (?la - 1) + nat sh"
            by (simp add: sh_def prec_def ndig_def) arith
          then show ?thesis by (metis power_add)
        qed
        also have "\<dots> \<le> n"
          unfolding n_def using ndig_bounds(1) [OF a0] by (intro mult_right_mono) auto
        finally have "10 ^ 28 * d \<le> n" .
        then have "10 ^ 28 * d div d \<le> n div d" using d0 by (intro zdiv_mono1) auto
        with d0 show ?thesis by (simp add: q_def)
      qed
      have "dval c = r28 (of_int s * (of_int (if q mod 5 = 0 then q + 1 else q) * 10 powi ex))"
        using False by (simp add: c dval_dfix dval_def [of "Dec _ _"] mult.assoc)
      also have "\<dots> = of_int s * r28 (x * 10 powi ex)"
        unfolding rs by (subst r28_sticky [OF q28 x]) simp
      finally show ?thesis .
    qed
    show ?thesis using fin b0 by (simp only: rs [symmetric] sx dval_0_iff) simp
  qed
qed

end
