(* ===== verification/PyDecText.thy ===== *)
theory PyDecText
  imports PyDecimal
begin

text \<open>
  The text forms of \<open>Decimal\<close>: \<open>dstr\<close> is \<open>str(d)\<close> (plain or scientific notation as the General
  Decimal Arithmetic prescribes), \<open>dparse\<close> is \<open>Decimal(text)\<close> on finite numerals, \<open>dplain\<close> is the
  code's idiom \<open>format(d.normalize(), "f")\<close> with trailing zeros and point removed.
\<close>

definition zeros :: "nat \<Rightarrow> string" where
  "zeros n = replicate n (CHR ''0'')"

definition dstr_abs :: "string \<Rightarrow> int \<Rightarrow> string \<times> string \<times> int" where
  \<comment> \<open>integer part, fraction digits, and the exponent that is left over\<close>
  "dstr_abs s e = (let n = int (length s); left = e + n;
      dot = (if e \<le> 0 \<and> - 6 < left then left else 1)
    in if dot \<le> 0 then (''0'', zeros (nat (- dot)) @ s, left - dot)
       else if n \<le> dot then (s @ zeros (nat (dot - n)), [], left - dot)
       else (take (nat dot) s, drop (nat dot) s, left - dot))"

definition exp_str :: "int \<Rightarrow> string" where
  "exp_str x = (if x = 0 then [] else if x < 0 then ''E-'' @ nat_str (- x) else ''E+'' @ nat_str x)"

definition dstr :: "dec \<Rightarrow> string" where
  "dstr d = (case dstr_abs (nat_str \<bar>coef d\<bar>) (dexp d) of (ip, fp, x) \<Rightarrow>
     (if coef d < 0 then ''-'' else []) @ ip @ (if fp = [] then [] else CHR ''.'' # fp) @ exp_str x)"

definition split_sign :: "string \<Rightarrow> bool \<times> string" where
  "split_sign s = (case s of [] \<Rightarrow> (False, []) | c # cs \<Rightarrow>
     if c = CHR ''-'' then (True, cs) else if c = CHR ''+'' then (False, cs) else (False, s))"

definition parse_exp :: "string \<Rightarrow> int option" where
  "parse_exp s = (case s of [] \<Rightarrow> Some 0 | _ # r \<Rightarrow>
     (case split_sign r of (neg, ds) \<Rightarrow>
        map_option (\<lambda>n. if neg then - n else n) (nat_of_str ds)))"

definition not_e :: "char \<Rightarrow> bool" where
  "not_e c = (c \<noteq> CHR ''E'' \<and> c \<noteq> CHR ''e'')"

definition dparse :: "string \<Rightarrow> dec option" where
  "dparse s = (case split_sign (filter (\<lambda>c. c \<noteq> CHR ''_'') (strip s)) of (neg, u) \<Rightarrow>
     let m = takeWhile not_e u;
         ip = takeWhile (\<lambda>c. c \<noteq> CHR ''.'') m;
         fp = tl (dropWhile (\<lambda>c. c \<noteq> CHR ''.'') m)
     in (case (nat_of_str (ip @ fp), parse_exp (dropWhile not_e u)) of
           (Some n, Some x) \<Rightarrow> Some (Dec (if neg then - n else n) (x - int (length fp)))
         | _ \<Rightarrow> None))"

text \<open>\<open>normalize()\<close> rounds and drops trailing zeros; \<open>format(..., "f")\<close> never uses an exponent.\<close>

fun strip_zeros :: "nat \<Rightarrow> int \<Rightarrow> int \<Rightarrow> dec" where
  "strip_zeros 0 c e = Dec c e"
| "strip_zeros (Suc n) c e = (if c mod 10 = 0 then strip_zeros n (c div 10) (e + 1) else Dec c e)"

definition dnormalize :: "dec \<Rightarrow> dec" where
  "dnormalize d = (let f = dfix d in
     if coef f = 0 then Dec 0 0 else strip_zeros (ndig (coef f)) (coef f) (dexp f))"

definition dformat_f :: "dec \<Rightarrow> string" where
  "dformat_f d = (let s = nat_str \<bar>coef d\<bar>; n = int (length s); dot = n + dexp d;
      body = (if dexp d \<ge> 0 then (if coef d = 0 then ''0'' else s @ zeros (nat (dexp d)))
              else if dot \<le> 0 then ''0.'' @ zeros (nat (- dot)) @ s
              else take (nat dot) s @ CHR ''.'' # drop (nat dot) s)
    in (if coef d < 0 then ''-'' else []) @ body)"

definition trim_point :: "string \<Rightarrow> string" where
  "trim_point s = (if CHR ''.'' \<in> set s then rstrip_char (CHR ''.'') (rstrip_char (CHR ''0'') s) else s)"

definition dplain :: "dec \<Rightarrow> string" where
  "dplain d = trim_point (dformat_f (dnormalize d))"

section \<open>The text form is read back unchanged\<close>

definition dchar :: "char \<Rightarrow> bool" where
  "dchar c = (digit_val c \<noteq> None \<or> c \<in> {CHR ''.'', CHR ''-'', CHR ''+'', CHR ''E''})"

lemma digit_val_0 [simp]: "digit_val (CHR ''0'') = Some 0"
  by (simp add: digit_val_def)

lemma digits_val_zeros [simp]: "digits_val 0 (zeros k @ s) = digits_val 0 s"
  by (induction k) (auto simp: zeros_def)

lemma set_zeros: "set (zeros k) \<subseteq> {CHR ''0''}"
  by (auto simp: zeros_def)

lemma length_zeros [simp]: "length (zeros k) = k"
  by (simp add: zeros_def)

definition all_digits :: "string \<Rightarrow> bool" where
  "all_digits s = (\<forall>c \<in> set s. digit_val c \<noteq> None)"

lemma all_digits_simps [simp]: "all_digits []" "all_digits (s @ t) = (all_digits s \<and> all_digits t)"
    "all_digits (zeros k)" "0 \<le> n \<Longrightarrow> all_digits (nat_str n)"
    "all_digits (c # s) = (digit_val c \<noteq> None \<and> all_digits s)"
  by (auto simp: all_digits_def zeros_def dest: nat_str_digits)

lemma all_digits_take: "all_digits s \<Longrightarrow> all_digits (take k s) \<and> all_digits (drop k s)"
  by (auto simp: all_digits_def dest: in_set_takeD in_set_dropD)

lemma dchar_facts: "dchar c \<Longrightarrow> \<not> is_ws c \<and> c \<noteq> CHR ''_''"
  unfolding dchar_def using digit_val_facts(1,5) by (auto simp: is_ws_def)

lemma all_digits_dchar: "all_digits s \<Longrightarrow> \<forall>c \<in> set s. dchar c"
  by (auto simp: all_digits_def dchar_def)

lemma dstr_abs_facts:
  assumes "dstr_abs s e = (ip, fp, x)" and s: "all_digits s" "s \<noteq> []" "digits_val 0 s = Some v"
  shows "all_digits ip" "all_digits fp" "ip \<noteq> []" "digits_val 0 (ip @ fp) = Some v" "x - int (length fp) = e"
proof -
  define n where "n = int (length s)"
  define dot where "dot = (if e \<le> 0 \<and> - 6 < e + n then e + n else 1)"
  have n: "1 \<le> n" using s by (cases s) (auto simp: n_def)
  consider (z) "dot \<le> 0" | (w) "0 < dot" "n \<le> dot" | (m) "0 < dot" "dot < n" by linarith
  then have "all_digits ip \<and> all_digits fp \<and> ip \<noteq> [] \<and> digits_val 0 (ip @ fp) = Some v
      \<and> x - int (length fp) = e"
  proof cases
    case z
    then have r: "ip = ''0''" "fp = zeros (nat (- dot)) @ s" "x = e + n - dot"
      using assms(1) by (auto simp: dstr_abs_def Let_def n_def dot_def split: if_splits)
    with z n show ?thesis using s by (auto simp: dot_def n_def split: if_splits)
  next
    case w
    then have r: "ip = s @ zeros (nat (dot - n))" "fp = []" "x = e + n - dot"
      using assms(1) by (auto simp: dstr_abs_def Let_def n_def dot_def split: if_splits)
    from w n have "dot = n" by (auto simp: dot_def split: if_splits)
    with r show ?thesis using s by (simp add: zeros_def)
  next
    case m
    then have r: "ip = take (nat dot) s" "fp = drop (nat dot) s" "x = e + n - dot"
      using assms(1) by (auto simp: dstr_abs_def Let_def n_def dot_def split: if_splits)
    then show ?thesis using s m all_digits_take [of s "nat dot"] by (auto simp: n_def)
  qed
  then show "all_digits ip" "all_digits fp" "ip \<noteq> []" "digits_val 0 (ip @ fp) = Some v" "x - int (length fp) = e"
    by simp_all
qed

lemma parse_exp_exp_str: "parse_exp (exp_str x) = Some x"
proof -
  have hd: "split_sign (CHR ''-'' # t) = (True, t)" "split_sign (CHR ''+'' # t) = (False, t)" for t
    by (simp_all add: split_sign_def)
  show ?thesis by (auto simp: exp_str_def parse_exp_def hd)
qed

lemma digits_not_e: "all_digits s \<Longrightarrow> \<forall>c \<in> set s. not_e c \<and> c \<noteq> CHR ''.'' \<and> c \<noteq> CHR ''-'' \<and> c \<noteq> CHR ''+''"
  using digit_val_facts by (auto simp: all_digits_def not_e_def)

lemma nat_str_dchar: "0 \<le> n \<Longrightarrow> c \<in> set (nat_str n) \<Longrightarrow> dchar c"
  using nat_str_digits by (auto simp: dchar_def)

lemma exp_str_shape: "exp_str x = [] \<or> (\<exists>t. exp_str x = CHR ''E'' # t)" "\<forall>c \<in> set (exp_str x). dchar c"
proof -
  have "dchar (CHR ''E'')" "dchar (CHR ''+'')" "dchar (CHR ''-'')" by (simp_all add: dchar_def)
  then show "\<forall>c \<in> set (exp_str x). dchar c"
    using nat_str_dchar [of x] nat_str_dchar [of "- x"] by (auto simp: exp_str_def)
qed (auto simp: exp_str_def)

lemma takeWhile_app: "\<forall>c \<in> set xs. P c \<Longrightarrow> ys = [] \<or> \<not> P (hd ys) \<Longrightarrow>
    takeWhile P (xs @ ys) = xs \<and> dropWhile P (xs @ ys) = ys"
  by (cases ys) (auto simp: takeWhile_append dropWhile_append)

lemma dparse_body:
  assumes "all_digits ip" "all_digits fp" "ip \<noteq> []" "digits_val 0 (ip @ fp) = Some v"
  shows "dparse ((if neg then ''-'' else []) @ (ip @ (if fp = [] then [] else CHR ''.'' # fp)) @ exp_str x)
    = Some (Dec (if neg then - v else v) (x - int (length fp)))"
proof -
  let ?m = "ip @ (if fp = [] then [] else CHR ''.'' # fp)"
  let ?s = "(if neg then ''-'' else []) @ ?m @ exp_str x"
  have dch: "\<forall>c \<in> set ?s. dchar c"
    using all_digits_dchar [OF assms(1)] all_digits_dchar [OF assms(2)] exp_str_shape(2) [of x]
    by (auto simp: dchar_def split: if_splits)
  have "\<forall>c \<in> set ?s. \<not> is_ws c" "\<forall>c \<in> set ?s. c \<noteq> CHR ''_''"
    using dch dchar_facts by blast+
  then have clean: "filter (\<lambda>c. c \<noteq> CHR ''_'') (strip ?s) = ?s"
    by (simp only: strip_id filter_id_conv)
  obtain c cs where ip: "ip = c # cs" using assms(3) by (cases ip) auto
  then have "c \<noteq> CHR ''-''" "c \<noteq> CHR ''+''" using digits_not_e [OF assms(1)] by auto
  then have sg: "split_sign ?s = (neg, ?m @ exp_str x)"
    by (simp add: split_sign_def ip)
  have me: "\<forall>c \<in> set ?m. not_e c"
    using digits_not_e [OF assms(1)] digits_not_e [OF assms(2)] by (auto simp: not_e_def split: if_splits)
  have tw: "takeWhile not_e (?m @ exp_str x) = ?m \<and> dropWhile not_e (?m @ exp_str x) = exp_str x"
    by (rule takeWhile_app [OF me]) (use exp_str_shape(1) [of x] in \<open>auto simp: not_e_def\<close>)
  have pt: "takeWhile (\<lambda>c. c \<noteq> CHR ''.'') ?m = ip \<and>
      dropWhile (\<lambda>c. c \<noteq> CHR ''.'') ?m = (if fp = [] then [] else CHR ''.'' # fp)"
    by (rule takeWhile_app) (use digits_not_e [OF assms(1)] in auto)
  have nv: "nat_of_str (ip @ fp) = Some v" using assms(3,4) by (simp add: nat_of_str_def)
  have tl: "tl (if fp = [] then [] else CHR ''.'' # fp) = fp" by simp
  show ?thesis
    unfolding dparse_def clean sg Let_def prod.case tw [THEN conjunct1] tw [THEN conjunct2]
      pt [THEN conjunct1] pt [THEN conjunct2] tl nv parse_exp_exp_str option.case by (rule refl)
qed

theorem dparse_dstr: "dparse (dstr d) = Some d"
proof -
  obtain ip fp x where abs: "dstr_abs (nat_str \<bar>coef d\<bar>) (dexp d) = (ip, fp, x)"
    by (metis prod_cases3)
  note F = dstr_abs_facts [OF abs all_digits_simps(4) [OF abs_ge_zero] nat_str_neq_Nil
      digits_val_nat_str [OF abs_ge_zero]]
  have "dparse (dstr d) = Some (Dec (if coef d < 0 then - \<bar>coef d\<bar> else \<bar>coef d\<bar>) (dexp d))"
    using dparse_body [OF F(1-4), of "coef d < 0" x] F(5) by (simp add: dstr_def abs)
  then show ?thesis by (cases d) (auto split: if_splits)
qed

text \<open>Plain notation is read back with the same value, and unchanged when there is a fraction.\<close>

lemma dparse_nat_str: "0 \<le> i \<Longrightarrow> dparse (nat_str i) = Some (Dec i 0)"
  using dparse_body [of "nat_str i" "[]" i False 0] by (simp add: exp_str_def digits_val_nat_str)

lemma dparse_int_str: "dparse (int_str i) = Some (Dec i 0)"
proof (cases "i < 0")
  case True
  then show ?thesis using dparse_body [of "nat_str (- i)" "[]" "- i" True 0]
    by (simp add: exp_str_def digits_val_nat_str int_str_def)
qed (simp add: int_str_def dparse_nat_str)

lemma dparse_dformat_f:
  assumes "dexp d < 0"
  shows "dparse (dformat_f d) = Some d"
proof -
  let ?s = "nat_str \<bar>coef d\<bar>"
  define dot where "dot = int (length ?s) + dexp d"
  define ip where "ip = (if dot \<le> 0 then ''0'' else take (nat dot) ?s)"
  define fp where "fp = (if dot \<le> 0 then zeros (nat (- dot)) @ ?s else drop (nat dot) ?s)"
  have digits: "all_digits ?s" "digits_val 0 ?s = Some \<bar>coef d\<bar>" by (simp_all add: digits_val_nat_str)
  have body: "dformat_f d = (if coef d < 0 then ''-'' else []) @ (ip @ CHR ''.'' # fp)"
    using assms by (simp add: dformat_f_def Let_def dot_def ip_def fp_def)
  have len: "int (length fp) = - dexp d" using assms by (auto simp: fp_def dot_def)
  then have "fp \<noteq> []" using assms by auto
  have "ip \<noteq> []" by (simp add: ip_def)
  moreover have "all_digits ip" "all_digits fp"
    using digits(1) all_digits_take [of ?s "nat dot"] by (simp_all add: ip_def fp_def)
  moreover have "digits_val 0 (ip @ fp) = Some \<bar>coef d\<bar>" using digits(2) by (simp add: ip_def fp_def)
  ultimately have "dparse (dformat_f d) = Some (Dec (if coef d < 0 then - \<bar>coef d\<bar> else \<bar>coef d\<bar>) (dexp d))"
    using dparse_body [of ip fp "\<bar>coef d\<bar>" "coef d < 0" 0] body len \<open>fp \<noteq> []\<close> by (simp add: exp_str_def)
  then show ?thesis by (cases d) (auto split: if_splits)
qed

lemma dstr_inject: "dstr a = dstr b \<longleftrightarrow> a = b"
  by (metis dparse_dstr option.inject)

end
