(* ===== verification/PyValue.thy ===== *)
theory PyValue
  imports PyDecText
begin

text \<open>
  The JSON-like objects the control plane passes around (\<open>dict[str, object]\<close> in the code): payloads,
  decision contexts, store rows, recovery traces. Numbers with a fraction travel as text in this
  program, so floats are not among the values. Dictionaries keep their insertion order, as Python's
  do. The functions below are the Python operations the code applies to such values: truth value,
  \<open>str\<close>, \<open>==\<close>, \<open>d.get(k)\<close>, \<open>a or b\<close>, \<open>isinstance\<close>, \<open>int(...)\<close>, \<open>Decimal(str(...))\<close>.
\<close>

datatype pyval =
    PNone
  | PBool bool
  | PInt int
  | PStr string
  | PList "pyval list"
  | PDict "(string \<times> pyval) list"

type_synonym obj = "(string, pyval) dict"

section \<open>Truth value, text, equality\<close>

fun truthy :: "pyval \<Rightarrow> bool" where
  "truthy PNone = False"
| "truthy (PBool b) = b"
| "truthy (PInt i) = (i \<noteq> 0)"
| "truthy (PStr s) = (s \<noteq> [])"
| "truthy (PList xs) = (xs \<noteq> [])"
| "truthy (PDict d) = (d \<noteq> [])"

definition hex_digit :: "nat \<Rightarrow> char" where
  "hex_digit n = (if n < 10 then char_of (48 + n) else char_of (87 + n))"

definition repr_char :: "char \<Rightarrow> char \<Rightarrow> string" where
  "repr_char q c = (let n = (of_char c :: nat) in
     if c = q \<or> n = 92 then [char_of (92 :: nat), c]
     else if n = 10 then [char_of (92 :: nat), CHR ''n'']
     else if n = 13 then [char_of (92 :: nat), CHR ''r'']
     else if n = 9 then [char_of (92 :: nat), CHR ''t'']
     else if n < 32 \<or> n = 127 then [char_of (92 :: nat), CHR ''x'', hex_digit (n div 16), hex_digit (n mod 16)]
     else [c])"

definition repr_str :: "string \<Rightarrow> string" where
  "repr_str s = (let sq = char_of (39 :: nat); dq = char_of (34 :: nat);
       q = (if sq \<in> set s \<and> dq \<notin> set s then dq else sq)
     in q # concat (map (repr_char q) s) @ [q])"

fun py_repr :: "pyval \<Rightarrow> string" where
  "py_repr PNone = ''None''"
| "py_repr (PBool b) = (if b then ''True'' else ''False'')"
| "py_repr (PInt i) = int_str i"
| "py_repr (PStr s) = repr_str s"
| "py_repr (PList xs) = ''['' @ join '', '' (map py_repr xs) @ '']''"
| "py_repr (PDict d) =
     ''{'' @ join '', '' (map (\<lambda>p. repr_str (fst p) @ '': '' @ py_repr (snd p)) d) @ ''}''"

fun py_str :: "pyval \<Rightarrow> string" where
  "py_str (PStr s) = s"
| "py_str v = py_repr v"

text \<open>\<open>==\<close>: booleans are the integers 0 and 1, dictionaries compare without their order.\<close>

fun num_of :: "pyval \<Rightarrow> int option" where
  "num_of (PBool b) = Some (if b then 1 else 0)"
| "num_of (PInt i) = Some i"
| "num_of _ = None"

fun py_eq :: "pyval \<Rightarrow> pyval \<Rightarrow> bool" where
  "py_eq PNone b = (b = PNone)"
| "py_eq (PBool x) b = (num_of b = Some (if x then 1 else 0))"
| "py_eq (PInt i) b = (num_of b = Some i)"
| "py_eq (PStr s) b = (b = PStr s)"
| "py_eq (PList xs) b = (case b of PList ys \<Rightarrow>
      length xs = length ys \<and> list_all (\<lambda>(f, y). f y) (zip (map py_eq xs) ys) | _ \<Rightarrow> False)"
| "py_eq (PDict d) b = (case b of PDict e \<Rightarrow>
      length d = length e \<and>
      list_all (\<lambda>(k, f). case map_of e k of None \<Rightarrow> False | Some w \<Rightarrow> f w)
        (map (\<lambda>p. (fst p, py_eq (snd p))) d) | _ \<Rightarrow> False)"

section \<open>Access\<close>

definition pget :: "obj \<Rightarrow> string \<Rightarrow> pyval" where
  "pget d k = (case map_of d k of None \<Rightarrow> PNone | Some v \<Rightarrow> v)"

definition pget_or :: "obj \<Rightarrow> string \<Rightarrow> pyval \<Rightarrow> pyval" where
  "pget_or d k dflt = (case map_of d k of None \<Rightarrow> dflt | Some v \<Rightarrow> v)"

definition pitem :: "obj \<Rightarrow> string \<Rightarrow> pyval res" where
  "pitem d k = (case map_of d k of None \<Rightarrow> Inl (KeyError k) | Some v \<Rightarrow> Inr v)"

definition has_key :: "obj \<Rightarrow> string \<Rightarrow> bool" where
  "has_key d k = (map_of d k \<noteq> None)"

definition por :: "pyval \<Rightarrow> pyval \<Rightarrow> pyval" where
  "por a b = (if truthy a then a else b)"

definition raw_text :: "obj \<Rightarrow> string \<Rightarrow> string" where
  \<comment> \<open>\<open>str(d.get(k) or "")\<close>\<close>
  "raw_text d k = py_str (por (pget d k) (PStr []))"

definition text_of :: "obj \<Rightarrow> string \<Rightarrow> string" where
  \<comment> \<open>\<open>str(d.get(k) or "").strip()\<close>\<close>
  "text_of d k = strip (raw_text d k)"

definition low_text :: "obj \<Rightarrow> string \<Rightarrow> string" where
  \<comment> \<open>\<open>str(d.get(k) or "").strip().lower()\<close>\<close>
  "low_text d k = lower (text_of d k)"

fun as_dict :: "pyval \<Rightarrow> obj option" where
  "as_dict (PDict d) = Some d"
| "as_dict _ = None"

fun as_list :: "pyval \<Rightarrow> pyval list option" where
  "as_list (PList xs) = Some xs"
| "as_list _ = None"

fun as_str :: "pyval \<Rightarrow> string option" where
  "as_str (PStr s) = Some s"
| "as_str _ = None"

fun as_bool :: "pyval \<Rightarrow> bool option" where
  "as_bool (PBool b) = Some b"
| "as_bool _ = None"

fun opt_str :: "string option \<Rightarrow> pyval" where
  "opt_str None = PNone"
| "opt_str (Some s) = PStr s"

fun opt_dict :: "obj option \<Rightarrow> pyval" where
  "opt_dict None = PNone"
| "opt_dict (Some d) = PDict d"

section \<open>Conversions\<close>

fun py_int :: "pyval \<Rightarrow> int res" where
  "py_int (PInt i) = Inr i"
| "py_int (PBool b) = Inr (if b then 1 else 0)"
| "py_int (PStr s) = (case int_of_str s of None \<Rightarrow> Inl (ValueError ''invalid literal for int()'') | Some i \<Rightarrow> Inr i)"
| "py_int _ = Inl (TypeError ''int() argument must be a string or a number'')"

definition py_decimal :: "pyval \<Rightarrow> dec res" where
  \<comment> \<open>\<open>Decimal(str(v))\<close>\<close>
  "py_decimal v = (case dparse (py_str v) of None \<Rightarrow> Inl InvalidOperation | Some d \<Rightarrow> Inr d)"

definition dec_val :: "dec \<Rightarrow> pyval" where
  \<comment> \<open>\<open>str(d)\<close> as a value\<close>
  "dec_val d = PStr (dstr d)"

lemma py_decimal_dec_val [simp]: "py_decimal (dec_val d) = Inr d"
  by (simp add: py_decimal_def dec_val_def dparse_dstr)

lemma py_int_int_str [simp]: "py_int (PStr (int_str i)) = Inr i"
  by simp

section \<open>Facts shared by the components\<close>

lemma pget_dset [simp]: "pget (dset d k v) k' = (if k' = k then v else pget d k')"
  by (simp add: pget_def)

lemma pget_Cons: "pget ((k, v) # d) k' = (if k' = k then v else pget d k')"
  by (simp add: pget_def)

lemma pget_Nil [simp]: "pget [] k = PNone"
  by (simp add: pget_def)

lemma pget_dmerge_notin: "k \<notin> fst ` set e \<Longrightarrow> pget (dmerge d e) k = pget d k"
  by (simp add: pget_def map_of_dmerge_notin)

lemma text_of_str: "pget d k = PStr s \<Longrightarrow> text_of d k = strip s"
  by (simp add: text_of_def raw_text_def por_def)

lemma text_of_none: "pget d k = PNone \<Longrightarrow> text_of d k = []"
  by (simp add: text_of_def raw_text_def por_def)

lemma raw_text_str: "pget d k = PStr s \<Longrightarrow> raw_text d k = s"
  by (simp add: raw_text_def por_def)

lemma raw_text_dset: "raw_text (dset d k v) k' = (if k' = k then py_str (por v (PStr [])) else raw_text d k')"
  by (simp add: raw_text_def)

lemma text_of_dset: "text_of (dset d k v) k' = (if k' = k then strip (py_str (por v (PStr []))) else text_of d k')"
  by (simp add: text_of_def raw_text_def)

lemma low_text_dset: "low_text (dset d k v) k' = (if k' = k then lower (strip (py_str (por v (PStr [])))) else low_text d k')"
  by (simp add: low_text_def text_of_dset)

lemma py_eq_refl_list:
  assumes "\<And>x. x \<in> set xs \<Longrightarrow> py_eq x x"
  shows "list_all (\<lambda>(f, y). f y) (zip (map py_eq xs) xs)"
  using assms by (induction xs) auto

end
