(* ===== verification/PyTime.thy ===== *)
theory PyTime
  imports Prelude Rounding
begin

text \<open>
  Aware UTC datetimes as microseconds since 1970-01-01 (\<open>time\<close>), durations as microseconds. \<open>iso_str\<close>
  is \<open>isoformat()\<close>, \<open>iso_z\<close> the same with \<open>Z\<close> for the offset, as every component writes its
  timestamps; \<open>parse_iso\<close> is \<open>datetime.fromisoformat\<close> on the extended calendar forms
  (\<open>YYYY-MM-DD\<close>, optionally a separator, \<open>HH[:MM[:SS[.f]]]\<close> and an offset), a missing offset read as
  UTC. \<open>total_seconds\<close> is the binary64 quotient Python computes, so \<open>int(d.total_seconds() * 1000)\<close>
  truncates a rounded product (\<open>ms_of\<close>), and the lemmas bound how far that is from the exact age.
\<close>

type_synonym time = int

section \<open>The calendar\<close>

definition days_from_civil :: "int \<Rightarrow> int \<Rightarrow> int \<Rightarrow> int" where
  "days_from_civil y m d = (let y' = (if m \<le> 2 then y - 1 else y);
       era = y' div 400; yoe = y' mod 400;
       mp = (if 2 < m then m - 3 else m + 9);
       doy = (153 * mp + 2) div 5 + d - 1;
       doe = yoe * 365 + yoe div 4 - yoe div 100 + doy
     in era * 146097 + doe - 719468)"

definition civil_from_days :: "int \<Rightarrow> int \<times> int \<times> int" where
  "civil_from_days z = (let z' = z + 719468;
       era = z' div 146097; doe = z' mod 146097;
       yoe = (doe - doe div 1460 + doe div 36524 - doe div 146096) div 365;
       doy = doe - (365 * yoe + yoe div 4 - yoe div 100);
       mp = (5 * doy + 2) div 153;
       d = doy - (153 * mp + 2) div 5 + 1;
       m = (if mp < 10 then mp + 3 else mp - 9);
       y = yoe + era * 400 + (if m \<le> 2 then 1 else 0)
     in (y, m, d))"

definition days_in_month :: "int \<Rightarrow> int \<Rightarrow> int" where
  "days_in_month y m = (if m = 2 then (if y mod 4 = 0 \<and> (y mod 100 \<noteq> 0 \<or> y mod 400 = 0) then 29 else 28)
     else if m \<in> {4, 6, 9, 11} then 30 else 31)"

section \<open>Text\<close>

definition pad :: "nat \<Rightarrow> int \<Rightarrow> string" where
  "pad n i = (let s = nat_str i in replicate (n - length s) (CHR ''0'') @ s)"

definition iso_body :: "time \<Rightarrow> string" where
  "iso_body t = (case civil_from_days (t div 86400000000) of (y, m, d) \<Rightarrow>
     let us = t mod 86400000000; s = us div 1000000; f = us mod 1000000
     in pad 4 y @ ''-'' @ pad 2 m @ ''-'' @ pad 2 d @ ''T'' @ pad 2 (s div 3600) @ '':'' @
        pad 2 (s div 60 mod 60) @ '':'' @ pad 2 (s mod 60) @
        (if f = 0 then [] else ''.'' @ pad 6 f))"

definition iso_str :: "time \<Rightarrow> string" where
  "iso_str t = iso_body t @ ''+00:00''"

definition iso_z :: "time \<Rightarrow> string" where
  "iso_z t = iso_body t @ ''Z''"

definition fixed_num :: "nat \<Rightarrow> string \<Rightarrow> (int \<times> string) option" where
  \<comment> \<open>exactly \<open>n\<close> digits at the front\<close>
  "fixed_num n s = (if length s < n then None
     else (case nat_of_str (take n s) of None \<Rightarrow> None | Some v \<Rightarrow> Some (v, drop n s)))"

definition eat :: "char \<Rightarrow> string \<Rightarrow> string option" where
  "eat c s = (case s of [] \<Rightarrow> None | x # xs \<Rightarrow> if x = c then Some xs else None)"

fun digit_span :: "string \<Rightarrow> string" where
  "digit_span [] = []"
| "digit_span (c # cs) = (if digit_val c = None then [] else c # digit_span cs)"

definition parse_frac :: "string \<Rightarrow> (int \<times> string) option" where
  "parse_frac s = (case s of [] \<Rightarrow> Some (0, [])
     | c # cs \<Rightarrow> if c = CHR ''.'' \<or> c = CHR '','' then
          (let ds = digit_span cs in
           if ds = [] then None
           else (case nat_of_str (take 6 (ds @ ''000000'')) of None \<Rightarrow> None
                 | Some v \<Rightarrow> Some (v, drop (length ds) cs)))
        else Some (0, s))"

definition parse_colon2 :: "string \<Rightarrow> (int option \<times> string) option" where
  \<comment> \<open>an optional \<open>:NN\<close>\<close>
  "parse_colon2 s = (case eat (CHR '':'') s of None \<Rightarrow> Some (None, s)
     | Some r \<Rightarrow> (case fixed_num 2 r of None \<Rightarrow> None | Some (v, r') \<Rightarrow> Some (Some v, r')))"

definition parse_clock :: "string \<Rightarrow> (int \<times> string) option" where
  \<comment> \<open>\<open>HH[:MM[:SS[.f]]]\<close> as microseconds of the day, with the rest of the text\<close>
  "parse_clock s = (case fixed_num 2 s of None \<Rightarrow> None | Some (h, r) \<Rightarrow>
     (case parse_colon2 r of None \<Rightarrow> None
      | Some (None, r1) \<Rightarrow> if h \<le> 23 then Some (h * 3600000000, r1) else None
      | Some (Some m, r1) \<Rightarrow>
         (case parse_colon2 r1 of None \<Rightarrow> None
          | Some (None, r2) \<Rightarrow> if h \<le> 23 \<and> m \<le> 59 then Some ((h * 60 + m) * 60000000, r2) else None
          | Some (Some sec, r2) \<Rightarrow>
             (case parse_frac r2 of None \<Rightarrow> None
              | Some (f, r3) \<Rightarrow>
                  if h \<le> 23 \<and> m \<le> 59 \<and> sec \<le> 59
                  then Some (((h * 60 + m) * 60 + sec) * 1000000 + f, r3) else None))))"

definition parse_offset :: "string \<Rightarrow> int option" where
  "parse_offset s = (case s of [] \<Rightarrow> Some 0
     | c # cs \<Rightarrow>
        if c = CHR ''Z'' then (if cs = [] then Some 0 else None)
        else if c = CHR ''+'' \<or> c = CHR ''-'' then
          (case parse_clock cs of None \<Rightarrow> None
           | Some (o', r) \<Rightarrow> if r = [] then Some (if c = CHR ''-'' then - o' else o') else None)
        else None)"

definition parse_date :: "string \<Rightarrow> (int \<times> string) option" where
  "parse_date s = (case fixed_num 4 s of None \<Rightarrow> None | Some (y, r1) \<Rightarrow>
     (case eat (CHR ''-'') r1 of None \<Rightarrow> None | Some r2 \<Rightarrow>
       (case fixed_num 2 r2 of None \<Rightarrow> None | Some (m, r3) \<Rightarrow>
         (case eat (CHR ''-'') r3 of None \<Rightarrow> None | Some r4 \<Rightarrow>
           (case fixed_num 2 r4 of None \<Rightarrow> None | Some (d, r5) \<Rightarrow>
              if 1 \<le> y \<and> 1 \<le> m \<and> m \<le> 12 \<and> 1 \<le> d \<and> d \<le> days_in_month y m
              then Some (days_from_civil y m d, r5) else None)))))"

definition parse_iso :: "string \<Rightarrow> time option" where
  "parse_iso s = (case parse_date s of None \<Rightarrow> None
     | Some (days, []) \<Rightarrow> Some (days * 86400000000)
     | Some (days, _ # r) \<Rightarrow>
        (case parse_clock r of None \<Rightarrow> None
         | Some (us, r') \<Rightarrow>
            (case parse_offset r' of None \<Rightarrow> None
             | Some off \<Rightarrow> Some (days * 86400000000 + us - off))))"

section \<open>Ages in milliseconds, as the code computes them\<close>

definition fl :: "rat \<Rightarrow> rat" where
  "fl = rnd 2 53"

definition trunc :: "rat \<Rightarrow> int" where
  "trunc x = (if 0 \<le> x then \<lfloor>x\<rfloor> else \<lceil>x\<rceil>)"

definition total_seconds :: "int \<Rightarrow> rat" where
  "total_seconds us = fl (of_int us / 1000000)"

definition ms_of :: "int \<Rightarrow> int" where
  \<comment> \<open>\<open>int(delta.total_seconds() * 1000)\<close>\<close>
  "ms_of us = trunc (fl (total_seconds us * 1000))"

lemma fl_mono: "x \<le> y \<Longrightarrow> fl x \<le> fl y"
  unfolding fl_def by (rule rnd_mono) auto

lemma fl_0 [simp]: "fl 0 = 0"
  by (simp add: fl_def)

lemma fl_rel_err: "\<bar>fl x - x\<bar> \<le> \<bar>x\<bar> / 2 ^ 53"
proof -
  have "(2 :: rat) powi (1 - int 53) / 2 = 1 / 2 ^ 53" by (simp add: power_int_def power_one_over)
  then show ?thesis using rnd_rel_err [of 2 53 x] by (simp add: fl_def)
qed

lemma trunc_mono: "x \<le> y \<Longrightarrow> trunc x \<le> trunc y"
proof -
  assume le: "x \<le> y"
  show ?thesis
  proof (cases "0 \<le> x")
    case True
    with le show ?thesis by (simp add: trunc_def floor_mono)
  next
    case False
    then have "\<lceil>x\<rceil> \<le> 0" by simp
    with False le show ?thesis
      by (cases "0 \<le> y") (auto simp: trunc_def intro: ceiling_mono order_trans [where y = 0])
  qed
qed

lemma ms_of_0 [simp]: "ms_of 0 = 0"
  by (simp add: ms_of_def total_seconds_def trunc_def)

lemma ms_of_mono: "a \<le> b \<Longrightarrow> ms_of a \<le> ms_of b"
  unfolding ms_of_def total_seconds_def
  by (intro trunc_mono fl_mono mult_right_mono divide_right_mono) auto

lemma ms_of_nonneg: "0 \<le> a \<Longrightarrow> 0 \<le> ms_of a"
  using ms_of_mono [of 0 a] by simp

theorem ms_of_bounds:
  assumes "0 \<le> us" "us \<le> 2 * 10 ^ 15"
  shows "us div 1000 - 1 \<le> ms_of us \<and> ms_of us \<le> us div 1000"
proof -
  define u :: rat where "u = of_int us"
  define a where "a = fl (u / 1000000)"
  define b where "b = fl (a * 1000)"
  have u: "0 \<le> u" "u \<le> 2000000000000000"
  proof -
    show "0 \<le> u" using assms by (simp add: u_def)
    have "(of_int us :: rat) \<le> of_int (2 * 10 ^ 15)" using assms(2) by (simp only: of_int_le_iff)
    then show "u \<le> 2000000000000000" by (simp add: u_def)
  qed
  have a: "0 \<le> a" using fl_mono [of 0 "u / 1000000"] u by (simp add: a_def)
  have b0: "0 \<le> b" using fl_mono [of 0 "a * 1000"] a by (simp add: b_def)
  have "\<bar>a - u / 1000000\<bar> \<le> (u / 1000000) / 9007199254740992"
    using fl_rel_err [of "u / 1000000"] u by (simp add: a_def)
  moreover have "\<bar>b - a * 1000\<bar> \<le> (a * 1000) / 9007199254740992"
    using fl_rel_err [of "a * 1000"] a by (simp add: b_def)
  ultimately have "b < u / 1000 + 1 / 1000" "u / 1000 - 1 / 1000 < b"
    using u by linarith+
  then have b: "b < u / 1000 + 1 / 1000" "u / 1000 - 1 / 1000 < b" .
  have m: "ms_of us = \<lfloor>b\<rfloor>"
    using b0 by (simp add: ms_of_def trunc_def total_seconds_def b_def a_def u_def)
  have dm: "us = us div 1000 * 1000 + us mod 1000" "0 \<le> us mod 1000" "us mod 1000 \<le> 999"
    by simp_all
  define q r where "q = us div 1000" and "r = us mod 1000"
  have "us = q * 1000 + r" "0 \<le> r" "r \<le> 999" using dm by (simp_all add: q_def r_def)
  then have "u = of_int q * 1000 + of_int r" "(0 :: rat) \<le> of_int r" "of_int r \<le> (999 :: rat)"
    unfolding u_def by simp_all
  with b have "of_int q - 1 \<le> b" "b < of_int q + 1" by linarith+
  then have "q - 1 \<le> \<lfloor>b\<rfloor>" "\<lfloor>b\<rfloor> \<le> q" by linarith+
  then show ?thesis by (simp add: m q_def)
qed

end
