(* ===== verification/Models.thy ===== *)
theory Models
  imports PyValue PyTime
begin

text \<open>
  The data of the arbitrage strategy (\<open>strategy/arbitrage_models.py\<close>): one record per frozen
  dataclass, in the order of the source. A field that occurs in several dataclasses carries the
  dataclass's prefix here (\<open>ob_\<close>, \<open>bal_\<close>, \<open>in_\<close>, \<open>ci_\<close>, \<open>rs_\<close>). Timestamps are already the UTC instants
  \<open>_ensure_utc\<close> makes of them.
\<close>

definition ensure_utc :: "time \<times> int option \<Rightarrow> time" where
  \<comment> \<open>a wall clock with an optional offset, both in microseconds\<close>
  "ensure_utc v = (case snd v of None \<Rightarrow> fst v | Some off \<Rightarrow> fst v - off)"

record orderbook_level =
  price :: dec
  quantity :: dec

record orderbook_snapshot =
  ob_exchange_name :: string
  ob_market :: string
  ob_observed_at :: time
  asks :: "orderbook_level list"
  bids :: "orderbook_level list"
  connector_healthy :: bool

record balance_snapshot =
  bal_exchange_name :: string
  base_asset :: string
  quote_asset :: string
  available_base :: dec
  available_quote :: dec
  bal_observed_at :: time
  is_fresh :: bool

record risk_config =
  min_profit_quote :: dec
  min_profit_bps :: dec
  max_clock_skew_ms :: int
  max_orderbook_age_ms :: int
  max_balance_age_ms :: int
  max_notional_per_order :: dec
  max_total_notional_per_bot :: dec
  max_spread_bps :: dec
  min_orderbook_depth_levels :: int
  min_available_depth_quote :: dec
  slippage_buffer_bps :: dec
  rc_unwind_buffer_quote :: dec
  rc_rebalance_buffer_quote :: dec
  taker_fee_bps_buy :: dec
  taker_fee_bps_sell :: dec
  reentry_cooldown_seconds :: int

record runtime_state =
  now :: time
  open_order_count :: int
  open_order_cap :: int
  unwind_in_progress :: bool
  connector_private_healthy :: bool
  duplicate_intent_active :: bool
  recent_unwind_at :: "time option"
  remaining_bot_notional :: "dec option"
  rs_bot_id :: "string option"
  rs_strategy_run_id :: "string option"

record arbitrage_inputs =
  in_bot_id :: string
  in_strategy_run_id :: string
  in_canonical_symbol :: string
  in_market :: string
  base_exchange :: string
  hedge_exchange :: string
  base_orderbook :: orderbook_snapshot
  hedge_orderbook :: orderbook_snapshot
  base_balance :: balance_snapshot
  hedge_balance :: balance_snapshot
  in_risk_config :: risk_config
  in_runtime_state :: runtime_state

record arbitrage_candidate_inputs =
  ci_bot_id :: string
  ci_strategy_run_id :: string
  ci_canonical_symbol :: string
  ci_market :: string
  candidate_exchanges :: "string list"
  orderbooks_by_exchange :: "(string, orderbook_snapshot) dict"
  balances_by_exchange :: "(string, balance_snapshot) dict"
  ci_risk_config :: risk_config
  ci_runtime_state :: runtime_state

record gate_check_result =
  check_name :: string
  check_passed :: bool
  check_detail :: string

record candidate_size_result =
  target_qty :: dec
  components :: "(string, string) dict"

record executable_edge_result =
  executable_buy_cost_quote :: dec
  executable_sell_proceeds_quote :: dec
  gross_profit_quote :: dec
  executable_profit_quote :: dec
  executable_profit_bps :: dec
  buy_vwap :: dec
  sell_vwap :: dec
  fee_buy_quote :: dec
  fee_sell_quote :: dec
  buy_slippage_buffer_quote :: dec
  sell_slippage_buffer_quote :: dec
  unwind_buffer_quote :: dec
  rebalance_buffer_quote :: dec
  total_fee_quote :: dec
  total_cost_adjustment_quote :: dec
  edge_passed :: bool

record reservation_plan =
  reservation_passed :: bool
  rp_reason_code :: "string option"
  quote_required :: dec
  base_required :: dec
  reserved_notional :: dec
  rp_details :: "(string, string) dict"

record order_intent_plan =
  oip_market :: string
  buy_exchange :: string
  sell_exchange :: string
  side_pair :: string
  oip_target_qty :: string
  expected_profit :: string
  expected_profit_ratio :: string
  oip_decision_context :: obj

record arbitrage_decision =
  accepted :: bool
  reason_code :: string
  gate_checks :: "gate_check_result list"
  candidate_size :: "candidate_size_result option"
  executable_edge :: "executable_edge_result option"
  dec_reservation_plan :: "reservation_plan option"
  dec_order_intent_plan :: "order_intent_plan option"
  decision_context :: obj

end
