(* ===== verification/DecGrid.thy ===== *)
theory DecGrid
  imports PyDecimal
begin

text \<open>
  When decimal arithmetic is exact. A number on the grid of step \<open>10^k\<close> that is at most \<open>10^28\<close> steps
  from zero is representable, so sums, differences and products that stay on a grid are not rounded.
  Prices and quantities quoted with a bounded number of decimals live on such grids.
\<close>

definition grid :: "int \<Rightarrow> rat \<Rightarrow> bool" where
  "grid k x = (\<exists>m :: int. x = of_int m * 10 powi k)"

definition grid_max :: "int \<Rightarrow> rat" where
  "grid_max k = 10 ^ 28 * 10 powi k"

lemma grid_0 [simp]: "grid k 0"
  unfolding grid_def by (rule exI [of _ 0]) simp

lemma grid_add [intro]: "grid k x \<Longrightarrow> grid k y \<Longrightarrow> grid k (x + y)"
  unfolding grid_def by (metis distrib_right of_int_add)

lemma grid_diff [intro]: "grid k x \<Longrightarrow> grid k y \<Longrightarrow> grid k (x - y)"
  unfolding grid_def by (metis left_diff_distrib of_int_diff)

lemma grid_min [intro]: "grid k x \<Longrightarrow> grid k y \<Longrightarrow> grid k (min x y)"
  by (simp add: min_def)

lemma grid_mult: "grid j x \<Longrightarrow> grid k y \<Longrightarrow> grid (j + k) (x * y)"
proof -
  assume "grid j x" "grid k y"
  then obtain m n where "x = of_int m * 10 powi j" "y = of_int n * 10 powi k" by (auto simp: grid_def)
  then have "x * y = of_int (m * n) * 10 powi (j + k)" by (simp add: power_int_add)
  then show ?thesis unfolding grid_def by blast
qed

lemma grid_dval: "k \<le> dexp d \<Longrightarrow> grid k (dval d)"
  unfolding grid_def using dval_align by metis

lemma r28_grid: "grid k x \<Longrightarrow> \<bar>x\<bar> \<le> grid_max k \<Longrightarrow> r28 x = x"
proof -
  assume g: "grid k x" and s: "\<bar>x\<bar> \<le> grid_max k"
  from g obtain m where x: "x = of_int m * 10 powi k" by (auto simp: grid_def)
  from s have "\<bar>of_int m :: rat\<bar> * 10 powi k \<le> 10 ^ 28 * 10 powi k"
    by (simp add: x grid_max_def abs_mult)
  then have "(of_int \<bar>m\<bar> :: rat) \<le> of_int (10 ^ 28)" by simp
  then have "\<bar>m\<bar> \<le> 10 ^ 28" by (simp only: of_int_le_iff)
  then show ?thesis unfolding x by (rule r28_exact)
qed

lemma r28_near: "\<bar>r28 x - x\<bar> \<le> \<bar>x\<bar> / (2 * 10 ^ 27)"
proof -
  have e: "1 - int prec = - int 27" by (simp add: prec_def)
  have p: "(of_nat 10 :: rat) powi (- int 27) = inverse (10 ^ 27)"
    unfolding power_int_minus powi_nat by (simp only: of_nat_numeral)
  have "\<bar>rnd 10 prec x - x\<bar> \<le> \<bar>x\<bar> * of_nat 10 powi (1 - int prec) / 2"
    by (rule rnd_rel_err) (simp_all add: prec_def)
  also have "\<dots> = \<bar>x\<bar> / (2 * 10 ^ 27)"
    unfolding e p by (simp only: divide_inverse inverse_mult_distrib ac_simps)
  finally show ?thesis by (simp only: r28_def)
qed

end
