(* ===== verification/Samples.thy ===== *)
theory Samples
  imports Models
begin

text \<open>
  A concrete evaluation input, shared by the theorems that exercise the arbitrage components on a
  state where their hypotheses hold: a book quoted at 100/101 on the buying side and 103/102.5 on the
  selling side, everything observed at the time of the evaluation, and caps above the notional that results.
\<close>

definition sample_level :: "int \<Rightarrow> int \<Rightarrow> int \<Rightarrow> int \<Rightarrow> orderbook_level" where
  "sample_level p pe q qe = \<lparr>price = Dec p pe, quantity = Dec q qe\<rparr>"

definition sample_now :: time where
  "sample_now = 1767225600000000"

definition sample_buy_book :: orderbook_snapshot where
  "sample_buy_book = \<lparr>ob_exchange_name = ''bithumb'', ob_market = ''BTC-KRW'',
     ob_observed_at = sample_now,
     asks = [sample_level 100 0 5 (-1), sample_level 101 0 10 (-1)],
     bids = [sample_level 99 0 5 (-1)], connector_healthy = True\<rparr>"

definition sample_sell_book :: orderbook_snapshot where
  "sample_sell_book = \<lparr>ob_exchange_name = ''upbit'', ob_market = ''BTC-KRW'',
     ob_observed_at = sample_now,
     asks = [sample_level 104 0 5 (-1)],
     bids = [sample_level 103 0 5 (-1), sample_level 1025 (-1) 10 (-1)], connector_healthy = True\<rparr>"

definition sample_balance :: "string \<Rightarrow> dec \<Rightarrow> dec \<Rightarrow> balance_snapshot" where
  "sample_balance ex b q = \<lparr>bal_exchange_name = ex, base_asset = ''BTC'', quote_asset = ''KRW'',
     available_base = b, available_quote = q, bal_observed_at = sample_now, is_fresh = True\<rparr>"

definition sample_risk :: risk_config where
  "sample_risk = \<lparr>min_profit_quote = Dec 1 (-1), min_profit_bps = Dec 1 0, max_clock_skew_ms = 100,
     max_orderbook_age_ms = 1000, max_balance_age_ms = 5000, max_notional_per_order = Dec 200 0,
     max_total_notional_per_bot = Dec 500 0, max_spread_bps = Dec 500 0,
     min_orderbook_depth_levels = 1, min_available_depth_quote = Dec 10 0,
     slippage_buffer_bps = Dec 2 0, rc_unwind_buffer_quote = Dec 0 0, rc_rebalance_buffer_quote = Dec 0 0,
     taker_fee_bps_buy = Dec 4 0, taker_fee_bps_sell = Dec 4 0, reentry_cooldown_seconds = 0\<rparr>"

definition sample_state :: runtime_state where
  "sample_state = \<lparr>now = sample_now, open_order_count = 0, open_order_cap = 0,
     unwind_in_progress = False, connector_private_healthy = True, duplicate_intent_active = False,
     recent_unwind_at = None, remaining_bot_notional = Some (Dec 300 0), rs_bot_id = None,
     rs_strategy_run_id = None\<rparr>"

definition sample_inputs :: arbitrage_inputs where
  "sample_inputs = \<lparr>in_bot_id = ''bot-1'', in_strategy_run_id = ''run-1'',
     in_canonical_symbol = ''BTC'', in_market = ''BTC-KRW'', base_exchange = ''bithumb'',
     hedge_exchange = ''upbit'', base_orderbook = sample_buy_book, hedge_orderbook = sample_sell_book,
     base_balance = sample_balance ''bithumb'' (Dec 0 0) (Dec 1000 0),
     hedge_balance = sample_balance ''upbit'' (Dec 12 (-1)) (Dec 0 0),
     in_risk_config = sample_risk, in_runtime_state = sample_state\<rparr>"

lemmas sample_defs = sample_level_def sample_now_def sample_buy_book_def sample_sell_book_def
  sample_balance_def sample_risk_def sample_state_def sample_inputs_def

end
