(* ===== verification/Pricing.thy ===== *)
theory Pricing
  imports Models DecGrid Samples
begin

text \<open>
  \<open>strategy/arbitrage_pricing.py\<close>: depth sums, the volume weighted price of a quantity, the quantity a
  quote budget buys, the candidate size (the minimum of seven limits) and the executable edge.
  Every \<open>Decimal\<close> step is the rounded one of \<open>PyDecimal\<close>; a division is a call that may raise.
\<close>

abbreviation d0 :: dec where
  "d0 \<equiv> Dec 0 0"

section \<open>Depth\<close>

fun sum_depth_qty_from :: "dec \<Rightarrow> orderbook_level list \<Rightarrow> dec" where
  "sum_depth_qty_from acc [] = acc"
| "sum_depth_qty_from acc (l # ls) = sum_depth_qty_from (dadd acc (quantity l)) ls"

definition sum_depth_qty :: "orderbook_level list \<Rightarrow> dec" where
  "sum_depth_qty levels = sum_depth_qty_from d0 levels"

fun sum_depth_notional_from :: "dec \<Rightarrow> orderbook_level list \<Rightarrow> dec" where
  "sum_depth_notional_from acc [] = acc"
| "sum_depth_notional_from acc (l # ls) =
     sum_depth_notional_from (dadd acc (dmul (price l) (quantity l))) ls"

definition sum_depth_notional :: "orderbook_level list \<Rightarrow> dec" where
  "sum_depth_notional levels = sum_depth_notional_from d0 levels"

section \<open>Volume weighted price\<close>

text \<open>The loop of \<open>_vwap\<close>: remaining quantity and notional, left early when nothing remains.\<close>

fun vwap_loop :: "orderbook_level list \<Rightarrow> dec \<Rightarrow> dec \<Rightarrow> dec \<times> dec" where
  "vwap_loop [] remaining acc = (remaining, acc)"
| "vwap_loop (l # ls) remaining acc =
     (let take_qty = dmin (quantity l) remaining;
          acc' = dadd acc (dmul take_qty (price l));
          remaining' = dsub remaining take_qty
      in if dle remaining' d0 then (remaining', acc') else vwap_loop ls remaining' acc')"

definition vwap :: "orderbook_level list \<Rightarrow> dec \<Rightarrow> dec option res" where
  "vwap levels qty =
     (let (remaining, total_notional) = vwap_loop levels qty d0
      in if dlt d0 remaining then Inr None
         else andThen (ddiv total_notional qty) (\<lambda>v. Inr (Some v)))"

section \<open>The quantity a quote budget buys\<close>

fun quote_limit_loop :: "orderbook_level list \<Rightarrow> dec \<Rightarrow> dec \<Rightarrow> dec res" where
  "quote_limit_loop [] remaining_quote total_qty = Inr total_qty"
| "quote_limit_loop (l # ls) remaining_quote total_qty =
     (if dle (price l) d0 \<or> dle (quantity l) d0 then quote_limit_loop ls remaining_quote total_qty
      else let level_notional = dmul (price l) (quantity l) in
        if dle level_notional remaining_quote
        then quote_limit_loop ls (dsub remaining_quote level_notional) (dadd total_qty (quantity l))
        else andThen (ddiv remaining_quote (price l)) (\<lambda>q. Inr (dadd total_qty q)))"

definition max_qty_with_quote_limit :: "orderbook_level list \<Rightarrow> dec \<Rightarrow> dec res" where
  "max_qty_with_quote_limit levels quote_limit =
     (if dle quote_limit d0 then Inr d0 else quote_limit_loop levels quote_limit d0)"

definition gross_buy_cost_budget :: "arbitrage_inputs \<Rightarrow> dec res" where
  "gross_buy_cost_budget inputs =
     (let cfg = in_risk_config inputs;
          fixed_quote_buffer = dadd (rc_unwind_buffer_quote cfg) (rc_rebalance_buffer_quote cfg);
          quote_budget = dsub (available_quote (base_balance inputs)) fixed_quote_buffer
      in if dle quote_budget d0 then Inr d0
         else andThen (ddiv (taker_fee_bps_buy cfg) (Dec 10000 0)) (\<lambda>fee.
              andThen (ddiv (slippage_buffer_bps cfg) (Dec 10000 0)) (\<lambda>slip.
                let multiplier = dadd (dadd (Dec 1 0) fee) slip
                in if dle multiplier d0 then Inr d0 else ddiv quote_budget multiplier)))"

section \<open>Candidate size\<close>

fun dmin_list :: "dec \<Rightarrow> dec list \<Rightarrow> dec" where
  "dmin_list m [] = m"
| "dmin_list m (x # xs) = dmin_list (if dlt x m then x else m) xs"

record size_limits =
  sl_buy_depth_qty :: dec
  sl_sell_depth_qty :: dec
  sl_buy_depth_notional :: dec
  sl_sell_depth_notional :: dec
  sl_budget :: dec
  sl_buy_quote_qty :: dec
  sl_order_cap_qty :: dec
  sl_bot_cap_qty :: dec
  sl_remaining_qty :: dec

definition size_limits_of :: "arbitrage_inputs \<Rightarrow> size_limits res" where
  "size_limits_of inputs =
     (let buy = asks (base_orderbook inputs);
          sell = bids (hedge_orderbook inputs);
          cfg = in_risk_config inputs;
          buy_depth = sum_depth_qty buy
      in andThen (gross_buy_cost_budget inputs) (\<lambda>budget.
         andThen (max_qty_with_quote_limit buy budget) (\<lambda>quote_qty.
         andThen (max_qty_with_quote_limit buy (max_notional_per_order cfg)) (\<lambda>order_qty.
         andThen (max_qty_with_quote_limit buy (max_total_notional_per_bot cfg)) (\<lambda>bot_qty.
         andThen (case remaining_bot_notional (in_runtime_state inputs) of
             None \<Rightarrow> Inr buy_depth
           | Some n \<Rightarrow> max_qty_with_quote_limit buy n) (\<lambda>remaining_qty.
           Inr \<lparr>sl_buy_depth_qty = buy_depth, sl_sell_depth_qty = sum_depth_qty sell,
                sl_buy_depth_notional = sum_depth_notional buy,
                sl_sell_depth_notional = sum_depth_notional sell,
                sl_budget = budget, sl_buy_quote_qty = quote_qty, sl_order_cap_qty = order_qty,
                sl_bot_cap_qty = bot_qty, sl_remaining_qty = remaining_qty\<rparr>))))))"

definition qty_candidates :: "arbitrage_inputs \<Rightarrow> size_limits \<Rightarrow> dec list" where
  "qty_candidates inputs l =
     [sl_buy_depth_qty l, sl_sell_depth_qty l, sl_buy_quote_qty l,
      available_base (hedge_balance inputs),
      sl_order_cap_qty l, sl_bot_cap_qty l, sl_remaining_qty l]"

definition size_components :: "arbitrage_inputs \<Rightarrow> size_limits \<Rightarrow> (string, string) dict" where
  "size_components inputs l =
     [(''buy_depth_levels'', int_str (int (length (asks (base_orderbook inputs))))),
      (''sell_depth_levels'', int_str (int (length (bids (hedge_orderbook inputs))))),
      (''buy_depth_qty'', dstr (sl_buy_depth_qty l)),
      (''sell_depth_qty'', dstr (sl_sell_depth_qty l)),
      (''buy_depth_notional_quote'', dstr (sl_buy_depth_notional l)),
      (''sell_depth_notional_quote'', dstr (sl_sell_depth_notional l)),
      (''buy_quote_available'', dstr (available_quote (base_balance inputs))),
      (''sell_base_available'', dstr (available_base (hedge_balance inputs))),
      (''buy_quote_budget_for_gross_cost'', dstr (sl_budget l)),
      (''buy_quote_available_qty'', dstr (sl_buy_quote_qty l)),
      (''sell_base_available_qty'', dstr (available_base (hedge_balance inputs))),
      (''max_notional_per_order_qty'', dstr (sl_order_cap_qty l)),
      (''max_total_notional_per_bot_qty'', dstr (sl_bot_cap_qty l)),
      (''remaining_bot_notional_qty'', dstr (sl_remaining_qty l))]"

definition compute_candidate_size :: "arbitrage_inputs \<Rightarrow> candidate_size_result res" where
  "compute_candidate_size inputs =
     (if asks (base_orderbook inputs) = [] \<or> bids (hedge_orderbook inputs) = []
      then Inr \<lparr>target_qty = d0, components = [(''error'', ''missing_orderbook_depth'')]\<rparr>
      else if dle (price (hd (asks (base_orderbook inputs)))) d0
      then Inr \<lparr>target_qty = d0, components = [(''error'', ''non_positive_best_ask'')]\<rparr>
      else andThen (size_limits_of inputs) (\<lambda>l.
        Inr \<lparr>target_qty = dmin_list (hd (qty_candidates inputs l)) (tl (qty_candidates inputs l)),
             components = size_components inputs l\<rparr>))"

section \<open>Executable edge\<close>

definition bps :: "dec \<Rightarrow> dec \<Rightarrow> dec res" where
  \<comment> \<open>\<open>amount * rate / Decimal("10000")\<close>\<close>
  "bps amount rate = ddiv (dmul amount rate) (Dec 10000 0)"

definition edge_of_vwaps :: "arbitrage_inputs \<Rightarrow> dec \<Rightarrow> dec \<Rightarrow> dec \<Rightarrow> executable_edge_result option res" where
  "edge_of_vwaps inputs qty bv sv =
     (let cfg = in_risk_config inputs;
          gross_buy_cost = dmul bv qty
      in if dle gross_buy_cost d0 then Inr None
         else let gross_sell_proceeds = dmul sv qty;
                  gross_profit = dsub gross_sell_proceeds gross_buy_cost
         in andThen (bps gross_buy_cost (taker_fee_bps_buy cfg)) (\<lambda>fee_buy.
            andThen (bps gross_sell_proceeds (taker_fee_bps_sell cfg)) (\<lambda>fee_sell.
            andThen (ddiv (dsub sv bv) bv) (\<lambda>spread.
            andThen (bps gross_buy_cost (slippage_buffer_bps cfg)) (\<lambda>buy_slip.
            andThen (bps gross_sell_proceeds (slippage_buffer_bps cfg)) (\<lambda>sell_slip.
              let spread_bps = dmul spread (Dec 10000 0);
                  adjustment = dadd (dadd (dadd (dadd (dadd fee_buy fee_sell) buy_slip) sell_slip)
                      (rc_unwind_buffer_quote cfg)) (rc_rebalance_buffer_quote cfg);
                  profit = dsub gross_profit adjustment
              in andThen (ddiv profit gross_buy_cost) (\<lambda>ratio.
                 let profit_bps = dmul ratio (Dec 10000 0)
                 in Inr (Some \<lparr>
                   executable_buy_cost_quote = gross_buy_cost,
                   executable_sell_proceeds_quote = gross_sell_proceeds,
                   gross_profit_quote = gross_profit,
                   executable_profit_quote = profit,
                   executable_profit_bps = profit_bps,
                   buy_vwap = bv, sell_vwap = sv,
                   fee_buy_quote = fee_buy, fee_sell_quote = fee_sell,
                   buy_slippage_buffer_quote = buy_slip, sell_slippage_buffer_quote = sell_slip,
                   unwind_buffer_quote = rc_unwind_buffer_quote cfg,
                   rebalance_buffer_quote = rc_rebalance_buffer_quote cfg,
                   total_fee_quote = dadd fee_buy fee_sell,
                   total_cost_adjustment_quote = adjustment,
                   edge_passed = (dle (min_profit_quote cfg) profit
                     \<and> dle (min_profit_bps cfg) profit_bps
                     \<and> dle spread_bps (max_spread_bps cfg))\<rparr>))))))))"

definition simulate_executable_edge ::
    "arbitrage_inputs \<Rightarrow> candidate_size_result \<Rightarrow> executable_edge_result option res" where
  "simulate_executable_edge inputs size_result =
     (let qty = target_qty size_result in
      if dle qty d0 then Inr None
      else andThen (vwap (asks (base_orderbook inputs)) qty) (\<lambda>b.
           andThen (vwap (bids (hedge_orderbook inputs)) qty) (\<lambda>s.
             case (b, s) of
               (Some bv, Some sv) \<Rightarrow>
                 if dle bv d0 then Inr None else edge_of_vwaps inputs qty bv sv
             | _ \<Rightarrow> Inr None)))"

section \<open>No call of this file raises\<close>

lemma ddiv_bps_returns [simp]: "returns (ddiv a (Dec 10000 0))"
  by (rule ddiv_returns) simp

lemma bps_returns [simp]: "returns (bps a r)"
  by (simp add: bps_def)

lemma dval_pos_of: "\<not> dle x d0 \<Longrightarrow> 0 < dval x"
  by (simp add: dcmp)

lemma quote_limit_loop_returns: "returns (quote_limit_loop ls r q)"
  by (induction ls r q rule: quote_limit_loop.induct)
    (auto simp: Let_def dcmp intro!: returns_andThen ddiv_returns)

lemma max_qty_returns [simp]: "returns (max_qty_with_quote_limit ls n)"
  by (simp add: max_qty_with_quote_limit_def quote_limit_loop_returns)

lemma budget_returns [simp]: "returns (gross_buy_cost_budget inputs)"
  by (auto simp: gross_buy_cost_budget_def Let_def dcmp intro!: returns_andThen ddiv_returns)

lemma size_limits_returns [simp]: "returns (size_limits_of inputs)"
  by (auto simp: size_limits_of_def Let_def intro!: returns_andThen split: option.splits)

lemma candidate_size_returns [simp]: "returns (compute_candidate_size inputs)"
  by (auto simp: compute_candidate_size_def intro!: returns_andThen)

lemma vwap_returns: "dval q \<noteq> 0 \<Longrightarrow> returns (vwap ls q)"
  by (auto simp: vwap_def Let_def intro!: returns_andThen ddiv_returns split: prod.splits)

lemma edge_of_vwaps_returns: "0 < dval bv \<Longrightarrow> returns (edge_of_vwaps inputs q bv sv)"
  by (auto simp: edge_of_vwaps_def Let_def dcmp intro!: returns_andThen ddiv_returns)

lemma executable_edge_returns [simp]: "returns (simulate_executable_edge inputs s)"
  unfolding simulate_executable_edge_def Let_def
  by (auto simp: dcmp intro!: returns_andThen vwap_returns edge_of_vwaps_returns split: option.splits)

section \<open>The candidate size is within every limit\<close>

lemma dmin_list_le_start: "dval (dmin_list m xs) \<le> dval m"
proof (induction xs arbitrary: m)
  case (Cons x xs)
  have "dval (if dlt x m then x else m) \<le> dval m" by (simp add: dcmp)
  with Cons.IH [of "if dlt x m then x else m"] show ?case unfolding dmin_list.simps by linarith
qed simp

lemma dmin_list_le: "x \<in> set xs \<Longrightarrow> dval (dmin_list m xs) \<le> dval x"
proof (induction xs arbitrary: m)
  case (Cons y ys)
  show ?case
  proof (cases "x = y")
    case True
    have "dval (if dlt y m then y else m) \<le> dval x" using True by (simp add: dcmp)
    with dmin_list_le_start [of "if dlt y m then y else m" ys]
    show ?thesis unfolding dmin_list.simps by linarith
  next
    case False
    with Cons show ?thesis by simp
  qed
qed simp

lemma dmin_list_in: "dmin_list m xs \<in> set (m # xs)"
  by (induction xs arbitrary: m) fastforce+

definition qty_limits :: "arbitrage_inputs \<Rightarrow> dec list res" where
  \<comment> \<open>the seven quantities the candidate size may not exceed\<close>
  "qty_limits inputs = andThen (size_limits_of inputs) (\<lambda>l. Inr (qty_candidates inputs l))"

lemma candidate_size_cases:
  assumes "compute_candidate_size inputs = Inr s"
  obtains (bad) e where "s = \<lparr>target_qty = d0, components = [(''error'', e)]\<rparr>"
      "e \<in> {''missing_orderbook_depth'', ''non_positive_best_ask''}"
  | (sized) l where "size_limits_of inputs = Inr l" "components s = size_components inputs l"
      "target_qty s \<in> set (qty_candidates inputs l)"
      "\<And>q. q \<in> set (qty_candidates inputs l) \<Longrightarrow> dval (target_qty s) \<le> dval q"
      "asks (base_orderbook inputs) \<noteq> []" "bids (hedge_orderbook inputs) \<noteq> []"
      "0 < dval (price (hd (asks (base_orderbook inputs))))"
proof (cases "asks (base_orderbook inputs) = [] \<or> bids (hedge_orderbook inputs) = []
      \<or> dle (price (hd (asks (base_orderbook inputs)))) d0")
  case True
  with assms bad show ?thesis by (auto simp: compute_candidate_size_def split: if_splits)
next
  case False
  with assms obtain l where l: "size_limits_of inputs = Inr l"
    and s: "s = \<lparr>target_qty = dmin_list (hd (qty_candidates inputs l)) (tl (qty_candidates inputs l)),
             components = size_components inputs l\<rparr>"
    by (auto simp: compute_candidate_size_def res_simps)
  let ?qs = "qty_candidates inputs l"
  have qs: "?qs = hd ?qs # tl ?qs" by (simp add: qty_candidates_def)
  have le: "dval (target_qty s) \<le> dval q" if "q \<in> set ?qs" for q
  proof -
    from that qs have "q = hd ?qs \<or> q \<in> set (tl ?qs)" by (metis set_ConsD)
    then show ?thesis using dmin_list_le_start dmin_list_le by (auto simp: s)
  qed
  have "target_qty s \<in> set ?qs"
    using dmin_list_in [of "hd ?qs" "tl ?qs"] qs by (simp add: s)
  from sized [OF l _ this le] False show ?thesis by (simp add: s dcmp)
qed

end
