(* ===== verification/PricingSpec.thy ===== *)
theory PricingSpec
  imports Pricing
begin

text \<open>
  The reference meaning of \<open>strategy/arbitrage_pricing.py\<close> over exact rationals: what filling a
  quantity from a book costs (\<open>fill_cost\<close>) and how much a budget buys (\<open>fill_qty\<close>). For books quoted on
  a decimal grid the loops of the code compute these reference values: \<open>_vwap\<close> exactly up to the final
  division, \<open>_max_qty_with_quote_limit\<close> up to the rounding of its last partial level.
\<close>

section \<open>Reference definitions\<close>

type_synonym rbook = "(rat \<times> rat) list"

definition level_rat :: "orderbook_level \<Rightarrow> rat \<times> rat" where
  "level_rat l = (dval (price l), dval (quantity l))"

definition rbook_of :: "orderbook_level list \<Rightarrow> rbook" where
  "rbook_of = map level_rat"

fun fill_cost :: "rbook \<Rightarrow> rat \<Rightarrow> rat" where
  "fill_cost [] q = 0"
| "fill_cost ((p, x) # ls) q = (if q \<le> 0 then 0 else min x q * p + fill_cost ls (q - min x q))"

fun fill_qty :: "rbook \<Rightarrow> rat \<Rightarrow> rat" where
  "fill_qty [] n = 0"
| "fill_qty ((p, x) # ls) n =
     (if p \<le> 0 \<or> x \<le> 0 then fill_qty ls n
      else if p * x \<le> n then x + fill_qty ls (n - p * x) else n / p)"

definition book_qty :: "rbook \<Rightarrow> rat" where
  "book_qty b = sum_list (map snd b)"

definition book_notional :: "rbook \<Rightarrow> rat" where
  "book_notional b = sum_list (map (\<lambda>l. fst l * snd l) b)"

text \<open>A book on the grid: prices with at most \<open>b\<close>, quantities with at most \<open>a\<close> decimals, none negative.\<close>

definition level_on_grid :: "int \<Rightarrow> int \<Rightarrow> orderbook_level \<Rightarrow> bool" where
  "level_on_grid a b l = (- a \<le> dexp (quantity l) \<and> - b \<le> dexp (price l)
     \<and> 0 < coef (quantity l) \<and> 0 < coef (price l))"

definition book_on_grid :: "int \<Rightarrow> int \<Rightarrow> orderbook_level list \<Rightarrow> bool" where
  "book_on_grid a b ls = (list_all (level_on_grid a b) ls
     \<and> book_qty (rbook_of ls) \<le> grid_max (- a) \<and> book_notional (rbook_of ls) \<le> grid_max (- a - b))"

lemma book_sums [simp]: "book_qty [] = 0" "book_qty (l # b) = snd l + book_qty b"
    "book_notional [] = 0" "book_notional (l # b) = fst l * snd l + book_notional b"
  by (simp_all add: book_qty_def book_notional_def)

lemma rbook_of_simps [simp]: "rbook_of [] = []"
    "rbook_of (l # ls) = (dval (price l), dval (quantity l)) # rbook_of ls"
  by (simp_all add: rbook_of_def level_rat_def)

lemma level_on_gridD:
  assumes "level_on_grid a b l"
  shows "grid (- a) (dval (quantity l))" "grid (- b) (dval (price l))"
    "0 < dval (quantity l)" "0 < dval (price l)"
  using assms by (auto simp: level_on_grid_def dval_pos_iff intro: grid_dval)

lemma grid_book_nonneg:
  "list_all (level_on_grid a b) ls \<Longrightarrow> 0 \<le> book_qty (rbook_of ls) \<and> 0 \<le> book_notional (rbook_of ls)"
proof (induction ls)
  case (Cons l ls)
  then have "0 < dval (quantity l)" "0 < dval (price l)" using level_on_gridD by auto
  with Cons show ?case by simp
qed simp

lemma book_on_grid_Cons:
  assumes "book_on_grid a b (l # ls)"
  shows "level_on_grid a b l" "book_on_grid a b ls"
    "dval (quantity l) + book_qty (rbook_of ls) \<le> grid_max (- a)"
    "dval (price l) * dval (quantity l) + book_notional (rbook_of ls) \<le> grid_max (- a - b)"
    "0 < dval (price l) * dval (quantity l)"
proof -
  show l: "level_on_grid a b l" using assms by (simp add: book_on_grid_def)
  have "0 \<le> book_qty (rbook_of ls)" "0 \<le> book_notional (rbook_of ls)"
    using assms grid_book_nonneg [of a b ls] by (auto simp: book_on_grid_def)
  moreover have p: "0 < dval (price l) * dval (quantity l)" using level_on_gridD(3,4) [OF l] by simp
  ultimately show "book_on_grid a b ls"
    using assms p level_on_gridD(3,4) [OF l] by (auto simp: book_on_grid_def simp del: mult_pos_pos)
  show "dval (quantity l) + book_qty (rbook_of ls) \<le> grid_max (- a)"
    "dval (price l) * dval (quantity l) + book_notional (rbook_of ls) \<le> grid_max (- a - b)"
    using assms by (simp_all add: book_on_grid_def)
  show "0 < dval (price l) * dval (quantity l)" by (rule p)
qed

lemma fill_cost_bounds:
  assumes "list_all (level_on_grid a b) ls"
  shows "0 \<le> fill_cost (rbook_of ls) q \<and> fill_cost (rbook_of ls) q \<le> book_notional (rbook_of ls)"
  using assms
proof (induction ls arbitrary: q)
  case (Cons l ls)
  then have l: "0 < dval (quantity l)" "0 < dval (price l)" using level_on_gridD by auto
  from Cons.prems have rest: "list_all (level_on_grid a b) ls" by simp
  note IH = Cons.IH [OF rest, of "q - min (dval (quantity l)) q"]
  have n: "0 \<le> book_notional (rbook_of ls)" using grid_book_nonneg [OF rest] by simp
  show ?case
  proof (cases "q \<le> 0")
    case True
    with l n show ?thesis by simp
  next
    case False
    have "min (dval (quantity l)) q * dval (price l) \<le> dval (quantity l) * dval (price l)"
      using l by (intro mult_right_mono) auto
    moreover have "0 \<le> min (dval (quantity l)) q * dval (price l)" using l False by simp
    ultimately show ?thesis using IH False by (simp add: mult.commute)
  qed
qed simp

section \<open>The loop of \<open>_vwap\<close> on a grid\<close>

lemma dval_min_qty: "dval (dmin a b) = min (dval a) (dval b)"
  by (simp add: dcmp)

lemma vwap_loop_exact:
  assumes "book_on_grid a b ls" "grid (- a) (dval r)" "0 < dval r" "dval r \<le> grid_max (- a)"
    and "grid (- a - b) (dval t)" "0 \<le> dval t"
    and "dval t + fill_cost (rbook_of ls) (dval r) \<le> grid_max (- a - b)"
  shows "dval (snd (vwap_loop ls r t)) = dval t + fill_cost (rbook_of ls) (dval r)
    \<and> dval (fst (vwap_loop ls r t)) = max 0 (dval r - book_qty (rbook_of ls))"
  using assms
proof (induction ls arbitrary: r t)
  case (Cons l ls)
  note g = book_on_grid_Cons [OF Cons.prems(1)]
  note lg = level_on_gridD [OF g(1)]
  define k where "k = dmin (quantity l) r"
  have k: "dval k = min (dval (quantity l)) (dval r)" "0 < dval k" "dval k \<le> dval r" "grid (- a) (dval k)"
    using lg Cons.prems(2,3) by (auto simp: k_def dcmp)
  have rest: "0 \<le> fill_cost (rbook_of ls) (dval r - dval k)"
    using fill_cost_bounds g(2) by (auto simp: book_on_grid_def)
  have cost: "fill_cost (rbook_of (l # ls)) (dval r)
      = dval k * dval (price l) + fill_cost (rbook_of ls) (dval r - dval k)"
    using Cons.prems(3) k by simp
  have pk: "0 < dval k * dval (price l)" using k lg by simp
  have pg: "grid (- a - b) (dval k * dval (price l))"
    using grid_mult [OF k(4) lg(2)] by simp
  have B: "dval t + (dval k * dval (price l) + fill_cost (rbook_of ls) (dval r - dval k)) \<le> grid_max (- a - b)"
    using Cons.prems(7) unfolding cost .
  have m: "dval (dmul k (price l)) = dval k * dval (price l)"
    unfolding dval_dmul using B rest pk Cons.prems(6) by (intro r28_grid [OF pg]) linarith
  have t': "dval (dadd t (dmul k (price l))) = dval t + dval k * dval (price l)"
    unfolding dval_dadd m using B rest pk Cons.prems(6)
    by (intro r28_grid [OF grid_add [OF Cons.prems(5) pg]]) linarith
  have r': "dval (dsub r k) = dval r - dval k"
    unfolding dval_dsub using k Cons.prems(2-4) by (intro r28_grid [of "- a"] grid_diff) auto
  have q0: "0 \<le> book_qty (rbook_of ls)" using grid_book_nonneg g(2) by (auto simp: book_on_grid_def)
  show ?case
  proof (cases "dval r - dval k \<le> 0")
    case True
    then have rk: "dval r = dval k" using k by simp
    then have "dval r \<le> dval (quantity l)" using k(1) by simp
    moreover have "fill_cost (rbook_of ls) 0 = 0" by (cases "rbook_of ls") auto
    ultimately show ?thesis
      unfolding cost using True rk q0 t' r' by (simp add: Let_def dcmp flip: k_def)
  next
    case False
    then have kq: "dval k = dval (quantity l)" using k(1) by (auto simp: min_def split: if_splits)
    have "dval (snd (vwap_loop ls (dsub r k) (dadd t (dmul k (price l)))))
        = dval (dadd t (dmul k (price l))) + fill_cost (rbook_of ls) (dval (dsub r k))
      \<and> dval (fst (vwap_loop ls (dsub r k) (dadd t (dmul k (price l)))))
        = max 0 (dval (dsub r k) - book_qty (rbook_of ls))"
    proof (rule Cons.IH)
      show "book_on_grid a b ls" by (rule g(2))
      show "grid (- a) (dval (dsub r k))" unfolding r' by (rule grid_diff [OF Cons.prems(2) k(4)])
      show "0 < dval (dsub r k)" using False r' by simp
      show "dval (dsub r k) \<le> grid_max (- a)" unfolding r' using Cons.prems(4) k(2) by linarith
      show "grid (- a - b) (dval (dadd t (dmul k (price l))))"
        unfolding t' by (rule grid_add [OF Cons.prems(5) pg])
      show "0 \<le> dval (dadd t (dmul k (price l)))" using t' pk Cons.prems(6) by simp
      show "dval (dadd t (dmul k (price l))) + fill_cost (rbook_of ls) (dval (dsub r k)) \<le> grid_max (- a - b)"
        using B t' r' by simp
    qed
    then show ?thesis
      unfolding cost using False kq t' r' by (simp add: Let_def dcmp algebra_simps flip: k_def)
  qed
qed auto

lemma vwap_exact:
  assumes "book_on_grid a b ls" "- a \<le> dexp q" "0 < dval q" "dval q \<le> grid_max (- a)"
  shows "vwap ls q = Inr None \<and> book_qty (rbook_of ls) < dval q
    \<or> (\<exists>v. vwap ls q = Inr (Some v) \<and> dval q \<le> book_qty (rbook_of ls)
         \<and> dval v = r28 (fill_cost (rbook_of ls) (dval q) / dval q))"
proof -
  obtain r t where rt: "vwap_loop ls q d0 = (r, t)" by (cases "vwap_loop ls q d0")
  have "dval d0 + fill_cost (rbook_of ls) (dval q) \<le> grid_max (- a - b)"
    using assms(1) fill_cost_bounds [of a b ls "dval q"] by (auto simp: book_on_grid_def)
  with vwap_loop_exact [OF assms(1), of q d0] assms rt
  have e: "dval t = fill_cost (rbook_of ls) (dval q)" "dval r = max 0 (dval q - book_qty (rbook_of ls))"
    by (auto simp: grid_dval)
  show ?thesis
  proof (cases "book_qty (rbook_of ls) < dval q")
    case True
    with e show ?thesis by (simp add: vwap_def rt dcmp)
  next
    case False
    obtain v where v: "ddiv t q = Inr v" using ddiv_returns [of q t] assms(3) by (auto simp: returns_iff)
    with dval_ddiv [OF v] e False show ?thesis by (auto simp: vwap_def rt dcmp)
  qed
qed

lemma fill_cost_between:
  assumes "\<forall>(p, x) \<in> set bk. lo \<le> p \<and> p \<le> hi \<and> 0 < x" "0 \<le> q" "q \<le> book_qty bk"
  shows "lo * q \<le> fill_cost bk q \<and> fill_cost bk q \<le> hi * q"
  using assms
proof (induction bk arbitrary: q)
  case (Cons l bk)
  obtain p x where l: "l = (p, x)" by (cases l)
  show ?case
  proof (cases "q = 0")
    case True then show ?thesis by (simp add: l)
  next
    case False
    with Cons.prems have q: "0 < q" by simp
    define k where "k = min x q"
    from Cons.prems l have p: "lo \<le> p" "p \<le> hi" "0 < x" by auto
    have "0 \<le> book_qty bk" using Cons.prems(1) by (force simp: book_qty_def intro: sum_list_nonneg)
    then have "lo * (q - k) \<le> fill_cost bk (q - k) \<and> fill_cost bk (q - k) \<le> hi * (q - k)"
      using Cons.prems l q by (intro Cons.IH) (auto simp: k_def min_def)
    moreover have "lo * k \<le> k * p" "k * p \<le> hi * k"
      using p q by (auto simp: k_def mult.commute intro!: mult_right_mono)
    ultimately show ?thesis using q by (simp add: l algebra_simps flip: k_def)
  qed
qed simp

section \<open>The budget loop on a grid\<close>

lemma fill_qty_nonneg: "0 \<le> n \<Longrightarrow> 0 \<le> fill_qty bk n"
  by (induction bk n rule: fill_qty.induct) auto

lemma fill_cost_fill_qty:
  "list_all (level_on_grid a b) ls \<Longrightarrow> 0 \<le> n \<Longrightarrow>
    fill_cost (rbook_of ls) (fill_qty (rbook_of ls) n) = min n (book_notional (rbook_of ls))"
proof (induction ls arbitrary: n)
  case (Cons l ls)
  then have l: "0 < dval (quantity l)" "0 < dval (price l)" and rest: "list_all (level_on_grid a b) ls"
    using level_on_gridD by auto
  have nn: "0 \<le> book_notional (rbook_of ls)" using grid_book_nonneg [OF rest] by simp
  let ?p = "dval (price l)" and ?x = "dval (quantity l)"
  show ?case
  proof (cases "?p * ?x \<le> n")
    case True
    have q: "0 \<le> fill_qty (rbook_of ls) (n - ?p * ?x)" using True by (intro fill_qty_nonneg) simp
    have "fill_cost (rbook_of ls) (fill_qty (rbook_of ls) (n - ?p * ?x))
        = min (n - ?p * ?x) (book_notional (rbook_of ls))" using Cons.IH [OF rest] True by simp
    with True q l show ?thesis by (simp add: min_def algebra_simps)
  next
    case False
    then have "n / ?p < ?x" using l by (simp add: field_simps)
    moreover have "fill_cost (rbook_of ls) 0 = 0" by (cases "rbook_of ls") auto
    moreover have "n \<le> ?p * ?x + book_notional (rbook_of ls)" using False nn by simp
    ultimately show ?thesis using False l Cons.prems(2) by (auto simp: min_def divide_le_0_iff)
  qed
qed simp

lemma fill_qty_within:
  "list_all (level_on_grid a b) ls \<Longrightarrow> 0 \<le> n \<Longrightarrow>
    fill_qty (rbook_of ls) n \<le> book_qty (rbook_of ls)
    \<and> (book_notional (rbook_of ls) \<le> n \<longrightarrow> fill_qty (rbook_of ls) n = book_qty (rbook_of ls))"
proof (induction ls arbitrary: n)
  case (Cons l ls)
  then have l: "0 < dval (quantity l)" "0 < dval (price l)" and rest: "list_all (level_on_grid a b) ls"
    using level_on_gridD by auto
  let ?p = "dval (price l)" and ?x = "dval (quantity l)"
  have nn: "0 \<le> book_qty (rbook_of ls)" "0 \<le> book_notional (rbook_of ls)" using grid_book_nonneg [OF rest] by simp_all
  show ?case
  proof (cases "?p * ?x \<le> n")
    case True
    then show ?thesis using l Cons.IH [OF rest, of "n - ?p * ?x"] by auto
  next
    case False
    then have "n / ?p < ?x" using l by (simp add: field_simps)
    then show ?thesis using False l nn by auto
  qed
qed simp

lemma near_sum:
  fixes t x y :: rat
  assumes "0 \<le> t" "0 \<le> x" "\<bar>y - x\<bar> \<le> x / (2 * 10 ^ 27)"
  shows "\<bar>r28 (t + y) - (t + x)\<bar> \<le> (t + x) / 10 ^ 26"
proof -
  have "\<bar>r28 (t + y) - (t + y)\<bar> \<le> \<bar>t + y\<bar> / (2 * 10 ^ 27)" by (rule r28_near)
  moreover have "\<bar>t + y\<bar> \<le> 2 * (t + x)"
  proof -
    have "x / (2 * 10 ^ 27) \<le> x" using assms(2) by (simp add: field_simps)
    then have "\<bar>y - x\<bar> \<le> x" using assms(3) by linarith
    then have "0 \<le> y \<and> y \<le> 2 * x" by (auto simp: abs_le_iff)
    then show ?thesis using assms(1,2) by simp
  qed
  moreover have "\<bar>r28 (t + y) - (t + x)\<bar> \<le> \<bar>r28 (t + y) - (t + y)\<bar> + \<bar>y - x\<bar>" by linarith
  moreover have "0 \<le> t + x" using assms by simp
  ultimately show ?thesis using assms by (simp add: field_simps)
qed

lemma quote_limit_loop_near:
  assumes "book_on_grid a b ls" "grid (- a - b) (dval n)" "0 \<le> dval n" "dval n \<le> grid_max (- a - b)"
    and "grid (- a) (dval t)" "0 \<le> dval t" "dval t + book_qty (rbook_of ls) \<le> grid_max (- a)"
  shows "\<exists>q. quote_limit_loop ls n t = Inr q
    \<and> \<bar>dval q - (dval t + fill_qty (rbook_of ls) (dval n))\<bar>
        \<le> (dval t + fill_qty (rbook_of ls) (dval n)) / 10 ^ 26"
  using assms
proof (induction ls arbitrary: n t)
  case (Cons l ls)
  note g = book_on_grid_Cons [OF Cons.prems(1)]
  note lg = level_on_gridD [OF g(1)]
  let ?p = "dval (price l)" and ?x = "dval (quantity l)"
  have q0: "0 \<le> book_qty (rbook_of ls)" and n0: "0 \<le> book_notional (rbook_of ls)"
    using grid_book_nonneg g(2) by (auto simp: book_on_grid_def)
  have pg: "grid (- a - b) (?p * ?x)" using grid_mult [OF lg(2,1)] by (simp add: algebra_simps)
  have m: "dval (dmul (price l) (quantity l)) = ?p * ?x"
    unfolding dval_dmul using g(4,5) n0 by (intro r28_grid [OF pg]) linarith
  have skip: "\<not> dle (price l) d0" "\<not> dle (quantity l) d0" using lg by (simp_all add: dcmp)
  show ?case
  proof (cases "?p * ?x \<le> dval n")
    case True
    have n': "dval (dsub n (dmul (price l) (quantity l))) = dval n - ?p * ?x"
      unfolding dval_dsub m using True Cons.prems(3,4) g(5)
      by (intro r28_grid [OF grid_diff [OF Cons.prems(2) pg]]) linarith
    have t': "dval (dadd t (quantity l)) = dval t + ?x"
      unfolding dval_dadd using Cons.prems(6,7) lg q0
      by (intro r28_grid [OF grid_add [OF Cons.prems(5) lg(1)]]) simp
    have "\<exists>q. quote_limit_loop ls (dsub n (dmul (price l) (quantity l))) (dadd t (quantity l)) = Inr q
        \<and> \<bar>dval q - (dval (dadd t (quantity l)) + fill_qty (rbook_of ls) (dval (dsub n (dmul (price l) (quantity l)))))\<bar>
        \<le> (dval (dadd t (quantity l)) + fill_qty (rbook_of ls) (dval (dsub n (dmul (price l) (quantity l))))) / 10 ^ 26"
    proof (rule Cons.IH [OF g(2)])
      show "grid (- a - b) (dval (dsub n (dmul (price l) (quantity l))))"
        unfolding n' by (rule grid_diff [OF Cons.prems(2) pg])
      show "0 \<le> dval (dsub n (dmul (price l) (quantity l)))"
        "dval (dsub n (dmul (price l) (quantity l))) \<le> grid_max (- a - b)"
        unfolding n' using True g(5) Cons.prems(4) by linarith+
      show "grid (- a) (dval (dadd t (quantity l)))"
        unfolding t' by (rule grid_add [OF Cons.prems(5) lg(1)])
      show "0 \<le> dval (dadd t (quantity l))"
        "dval (dadd t (quantity l)) + book_qty (rbook_of ls) \<le> grid_max (- a)"
        unfolding t' using Cons.prems(6,7) lg by simp_all
    qed
    with True skip lg show ?thesis unfolding t' n' by (simp add: Let_def dcmp m add.assoc)
  next
    case False
    obtain d where d: "ddiv n (price l) = Inr d"
      using ddiv_returns [of "price l" n] lg by (auto simp: returns_iff)
    have "\<bar>dval d - dval n / ?p\<bar> \<le> dval n / ?p / (2 * 10 ^ 27)"
      using dval_ddiv [OF d] r28_near [of "dval n / ?p"] Cons.prems(3) lg by simp
    then have "\<bar>dval (dadd t d) - (dval t + dval n / ?p)\<bar> \<le> (dval t + dval n / ?p) / 10 ^ 26"
      unfolding dval_dadd using Cons.prems(3,6) lg by (intro near_sum) auto
    with False skip lg show ?thesis by (simp add: Let_def dcmp m d)
  qed
qed auto

section \<open>Properties\<close>

text \<open>
  C19. On a book quoted on a decimal grid, \<open>_vwap\<close> finds no price exactly when the book is too shallow;
  otherwise it returns the exact cost of filling the quantity from the best levels on, divided by the
  quantity and rounded once, and that price lies between any bounds of the book's prices.
\<close>

theorem vwap_refines_fill_cost:
  assumes "book_on_grid a b ls" "- a \<le> dexp q" "0 < dval q" "dval q \<le> grid_max (- a)"
    and "fits lo" "fits hi" "\<forall>l \<in> set ls. dval lo \<le> dval (price l) \<and> dval (price l) \<le> dval hi"
  shows "(vwap ls q = Inr None \<longleftrightarrow> book_qty (rbook_of ls) < dval q)
    \<and> (dval q \<le> book_qty (rbook_of ls) \<longrightarrow>
        (\<exists>v. vwap ls q = Inr (Some v) \<and> dval v = r28 (fill_cost (rbook_of ls) (dval q) / dval q)
          \<and> dval lo \<le> dval v \<and> dval v \<le> dval hi))"
proof -
  have "dval lo \<le> r28 (fill_cost (rbook_of ls) (dval q) / dval q)
      \<and> r28 (fill_cost (rbook_of ls) (dval q) / dval q) \<le> dval hi"
    if le: "dval q \<le> book_qty (rbook_of ls)"
  proof -
    have "\<forall>(p, x) \<in> set (rbook_of ls). dval lo \<le> p \<and> p \<le> dval hi \<and> 0 < x"
      using assms(1,7) level_on_gridD(3)
      by (auto simp: rbook_of_def level_rat_def book_on_grid_def list_all_iff)
    from fill_cost_between [OF this _ le] assms(3)
    have "dval lo \<le> fill_cost (rbook_of ls) (dval q) / dval q"
      "fill_cost (rbook_of ls) (dval q) / dval q \<le> dval hi" by (simp_all add: field_simps)
    from r28_mono [OF this(1)] r28_mono [OF this(2)] show ?thesis
      using assms(5,6) by (simp add: r28_fits)
  qed
  with vwap_exact [OF assms(1-4)] show ?thesis by auto
qed

lemma sample_book_on_grid: "book_on_grid 1 0 (asks sample_buy_book)"
  by (simp add: book_on_grid_def level_on_grid_def sample_defs grid_max_def dval_def power_int_def)

theorem vwap_refines_fill_cost_witness:
  "\<exists>v. vwap (asks sample_buy_book) (Dec 12 (-1)) = Inr (Some v) \<and> 100 \<le> dval v \<and> dval v \<le> 101"
proof -
  have f: "fits (Dec 100 0)" "fits (Dec 101 0)" by (simp_all add: fits_def prec_def)
  have q: "- 1 \<le> dexp (Dec 12 (-1))" "0 < dval (Dec 12 (-1))" "dval (Dec 12 (-1)) \<le> grid_max (- 1)"
    by (simp_all add: dval_def grid_max_def power_int_def)
  have p: "\<forall>l \<in> set (asks sample_buy_book). dval (Dec 100 0) \<le> dval (price l) \<and> dval (price l) \<le> dval (Dec 101 0)"
    by (simp add: sample_defs)
  have "dval (Dec 12 (-1)) \<le> book_qty (rbook_of (asks sample_buy_book))"
    by (simp add: sample_defs dval_def power_int_def)
  with vwap_refines_fill_cost [OF sample_book_on_grid q f p] show ?thesis by auto
qed

text \<open>
  C20. On such a book and for a budget on its grid, the quantity \<open>_max_qty_with_quote_limit\<close> returns is
  within one part in \<open>10^26\<close> of a quantity of the book that costs exactly the budget, or of the quantity of
  the whole book when the budget covers its notional; a budget that is not positive buys nothing.
\<close>

theorem max_qty_spends_the_budget:
  assumes "book_on_grid a b ls" "- a - b \<le> dexp n" "dval n \<le> grid_max (- a - b)"
  shows "\<exists>q. max_qty_with_quote_limit ls n = Inr q
    \<and> (dval n \<le> 0 \<longrightarrow> dval q = 0)
    \<and> (0 < dval n \<longrightarrow> (\<exists>x. 0 \<le> x \<and> x \<le> book_qty (rbook_of ls) \<and> \<bar>dval q - x\<bar> \<le> x / 10 ^ 26
        \<and> fill_cost (rbook_of ls) x = min (dval n) (book_notional (rbook_of ls))
        \<and> (book_notional (rbook_of ls) \<le> dval n \<longrightarrow> x = book_qty (rbook_of ls))))"
proof (cases "dval n \<le> 0")
  case True
  then show ?thesis by (simp add: max_qty_with_quote_limit_def dcmp)
next
  case False
  have g: "list_all (level_on_grid a b) ls" using assms(1) by (simp add: book_on_grid_def)
  have "\<exists>q. quote_limit_loop ls n d0 = Inr q
      \<and> \<bar>dval q - (dval d0 + fill_qty (rbook_of ls) (dval n))\<bar>
          \<le> (dval d0 + fill_qty (rbook_of ls) (dval n)) / 10 ^ 26"
    using assms False by (intro quote_limit_loop_near) (auto simp: grid_dval book_on_grid_def)
  moreover have "0 \<le> fill_qty (rbook_of ls) (dval n)" using False by (intro fill_qty_nonneg) simp
  moreover have "fill_cost (rbook_of ls) (fill_qty (rbook_of ls) (dval n))
      = min (dval n) (book_notional (rbook_of ls))" using fill_cost_fill_qty [OF g] False by simp
  moreover note fill_qty_within [OF g, of "dval n"]
  ultimately show ?thesis using False by (auto simp: max_qty_with_quote_limit_def dcmp)
qed

theorem max_qty_spends_the_budget_witness:
  "\<exists>q x. max_qty_with_quote_limit (asks sample_buy_book) (Dec 70 0) = Inr q
    \<and> fill_cost (rbook_of (asks sample_buy_book)) x = 70 \<and> \<bar>dval q - x\<bar> \<le> x / 10 ^ 26
    \<and> x \<le> book_qty (rbook_of (asks sample_buy_book))"
proof -
  have "- 1 - 0 \<le> dexp (Dec 70 0)" "dval (Dec 70 0) \<le> grid_max (- 1 - 0)"
    by (simp_all add: grid_max_def power_int_def)
  moreover have "book_notional (rbook_of (asks sample_buy_book)) = 151"
    by (simp add: sample_defs dval_def power_int_def)
  ultimately show ?thesis using max_qty_spends_the_budget [OF sample_book_on_grid] by fastforce
qed

end
