(* ===== verification/Lifecycle.thy ===== *)
theory Lifecycle
  imports PyValue
begin

text \<open>
  \<open>strategy/arbitrage_state_machine.py\<close>: the lifecycle state derived from the flags of a decision, by
  priority, and the transition taken when submitting an accepted decision fails.
\<close>

definition STATE_PRIORITY :: "string list" where
  "STATE_PRIORITY = [''manual_handoff'', ''unwind_in_progress'', ''recovery_required'', ''entry_open'',
     ''entry_submitting'', ''hedge_balanced'', ''intent_created'', ''decision_accepted'',
     ''decision_rejected'', ''closed'']"

record lifecycle_flags =
  lf_decision_accepted :: bool
  lf_has_order_intents :: bool
  lf_has_submitted_orders :: bool
  lf_has_open_orders :: bool
  lf_hedge_balanced :: bool
  lf_recovery_required :: bool
  lf_unwind_in_progress :: bool
  lf_manual_handoff :: bool

definition active_states :: "lifecycle_flags \<Rightarrow> string list" where
  "active_states f =
     (let s1 = (if lf_manual_handoff f then [''manual_handoff''] else [])
            @ (if lf_unwind_in_progress f then [''unwind_in_progress''] else [])
            @ (if lf_recovery_required f then [''recovery_required''] else [])
            @ (if lf_has_open_orders f then [''entry_open''] else [])
            @ (if lf_has_submitted_orders f then [''entry_submitting''] else [])
            @ (if lf_hedge_balanced f then [''hedge_balanced''] else [])
            @ (if lf_has_order_intents f then [''intent_created''] else [])
            @ (if lf_decision_accepted f then [''decision_accepted''] else []);
          s2 = (if \<not> lf_decision_accepted f \<and> s1 = [] then s1 @ [''decision_rejected''] else s1)
      in if s2 = [] then s2 @ [''closed''] else s2)"

fun first_in :: "string list \<Rightarrow> string list \<Rightarrow> string" where
  "first_in [] active = ''closed''"
| "first_in (s # ss) active = (if s \<in> set active then s else first_in ss active)"

definition derive_arbitrage_lifecycle_state :: "lifecycle_flags \<Rightarrow> string" where
  "derive_arbitrage_lifecycle_state f = first_in STATE_PRIORITY (active_states f)"

definition submit_transition :: "string \<Rightarrow> string \<Rightarrow> bool \<Rightarrow> bool \<Rightarrow> obj" where
  "submit_transition outcome next_state recovery unwind =
     [(''decision_outcome'', PStr outcome), (''next_state'', PStr next_state),
      (''recovery_required'', PBool recovery), (''unwind_in_progress'', PBool unwind)]"

definition classify_submit_failure_transition :: "bool \<Rightarrow> bool \<Rightarrow> bool \<Rightarrow> bool \<Rightarrow> bool \<Rightarrow> obj" where
  "classify_submit_failure_transition decision_accepted reservation_ok submit_failed
     auto_unwind_allowed has_partial_fill =
     (if \<not> decision_accepted
      then submit_transition ''decision_rejected'' ''decision_rejected'' False False
      else if \<not> reservation_ok
      then submit_transition ''invalid_accept_without_reservation'' ''recovery_required'' True False
      else if \<not> submit_failed
      then submit_transition ''accepted'' (if has_partial_fill then ''entry_open'' else ''entry_submitting'')
             False False
      else submit_transition ''accepted''
             (if auto_unwind_allowed then ''unwind_in_progress'' else ''recovery_required'')
             True auto_unwind_allowed)"

section \<open>The state is the first raised flag\<close>

definition flag_list :: "lifecycle_flags \<Rightarrow> bool list" where
  \<comment> \<open>the flags in the order of \<open>STATE_PRIORITY\<close>\<close>
  "flag_list f = [lf_manual_handoff f, lf_unwind_in_progress f, lf_recovery_required f,
     lf_has_open_orders f, lf_has_submitted_orders f, lf_hedge_balanced f, lf_has_order_intents f,
     lf_decision_accepted f]"

fun first_true :: "bool list \<Rightarrow> nat" where
  "first_true [] = 0"
| "first_true (b # bs) = (if b then 0 else Suc (first_true bs))"

lemma in_if_list: "x \<in> set (if b then [y] else []) \<longleftrightarrow> b \<and> x = y"
  by auto

lemma active_states_mem:
  "''manual_handoff'' \<in> set (active_states f) \<longleftrightarrow> lf_manual_handoff f"
  "''unwind_in_progress'' \<in> set (active_states f) \<longleftrightarrow> lf_unwind_in_progress f"
  "''recovery_required'' \<in> set (active_states f) \<longleftrightarrow> lf_recovery_required f"
  "''entry_open'' \<in> set (active_states f) \<longleftrightarrow> lf_has_open_orders f"
  "''entry_submitting'' \<in> set (active_states f) \<longleftrightarrow> lf_has_submitted_orders f"
  "''hedge_balanced'' \<in> set (active_states f) \<longleftrightarrow> lf_hedge_balanced f"
  "''intent_created'' \<in> set (active_states f) \<longleftrightarrow> lf_has_order_intents f"
  "''decision_accepted'' \<in> set (active_states f) \<longleftrightarrow> lf_decision_accepted f"
  "''decision_rejected'' \<in> set (active_states f) \<longleftrightarrow> (\<forall>b \<in> set (flag_list f). \<not> b)"
  unfolding active_states_def Let_def flag_list_def by (auto simp: in_if_list)

lemma first_in_flags:
  "list_all2 (\<lambda>st b. (st \<in> set acts) = b) sts bs \<Longrightarrow> (\<not> list_ex id bs \<Longrightarrow> d \<in> set acts)
    \<Longrightarrow> first_in (sts @ d # ds) acts = (sts @ d # ds) ! first_true bs"
  by (induction rule: list_all2_induct) auto

text \<open>
  The derived state is the name, in priority order, of the first flag that is set, and
  \<open>decision_rejected\<close> when none is: every other flag is dominated by an earlier one.
\<close>

theorem lifecycle_first_flag:
  "derive_arbitrage_lifecycle_state f = STATE_PRIORITY ! first_true (flag_list f)"
proof -
  have "list_all2 (\<lambda>st b. (st \<in> set (active_states f)) = b) (take 8 STATE_PRIORITY) (flag_list f)"
    by (simp add: STATE_PRIORITY_def flag_list_def active_states_mem)
  from first_in_flags [OF this, of "''decision_rejected''" "[''closed'']"] show ?thesis
    by (simp add: derive_arbitrage_lifecycle_state_def STATE_PRIORITY_def active_states_mem list_ex_iff)
qed

end
