(* ===== verification/Gate.thy ===== *)
theory Gate
  imports Models Samples
begin

text \<open>
  \<open>strategy/arbitrage_gate.py\<close>: the nine gate checks of an evaluation, in the order the code appends
  them, and the reason code of the first one that fails. Ages are the truncated float milliseconds of
  \<open>_age_ms\<close> (\<open>PyTime.ms_of\<close>), never negative.
\<close>

definition age_ms :: "time \<Rightarrow> time \<Rightarrow> int" where
  "age_ms t observed_at = max 0 (ms_of (t - observed_at))"

definition ages_text :: "int \<Rightarrow> int \<Rightarrow> string" where
  "ages_text a b = ''ages='' @ int_str a @ ''/'' @ int_str b @ ''ms''"

definition orderbook_check :: "arbitrage_inputs \<Rightarrow> gate_check_result" where
  "orderbook_check inputs =
     (let t = now (in_runtime_state inputs);
          limit = max_orderbook_age_ms (in_risk_config inputs);
          b = age_ms t (ob_observed_at (base_orderbook inputs));
          h = age_ms t (ob_observed_at (hedge_orderbook inputs));
          fresh = (b \<le> limit \<and> h \<le> limit)
      in \<lparr>check_name = ''orderbook_freshness'', check_passed = fresh,
          check_detail = (if fresh then ages_text b h else ''stale '' @ ages_text b h)\<rparr>)"

definition balance_check :: "arbitrage_inputs \<Rightarrow> gate_check_result" where
  "balance_check inputs =
     (let t = now (in_runtime_state inputs);
          limit = max_balance_age_ms (in_risk_config inputs);
          b = age_ms t (bal_observed_at (base_balance inputs));
          h = age_ms t (bal_observed_at (hedge_balance inputs));
          fresh = (is_fresh (base_balance inputs) \<and> is_fresh (hedge_balance inputs)
                   \<and> b \<le> limit \<and> h \<le> limit)
      in \<lparr>check_name = ''balance_freshness'', check_passed = fresh,
          check_detail = (if fresh then ages_text b h else ''stale '' @ ages_text b h)\<rparr>)"

definition skew_ms :: "arbitrage_inputs \<Rightarrow> int" where
  "skew_ms inputs =
     \<bar>ms_of (ob_observed_at (base_orderbook inputs) - ob_observed_at (hedge_orderbook inputs))\<bar>"

definition skew_check :: "arbitrage_inputs \<Rightarrow> gate_check_result" where
  "skew_check inputs =
     \<lparr>check_name = ''quote_pair_lock'',
      check_passed = (skew_ms inputs \<le> max_clock_skew_ms (in_risk_config inputs)),
      check_detail = ''skew_ms='' @ int_str (skew_ms inputs)\<rparr>"

definition public_check :: "arbitrage_inputs \<Rightarrow> gate_check_result" where
  "public_check inputs =
     (let ok = (connector_healthy (base_orderbook inputs) \<and> connector_healthy (hedge_orderbook inputs))
      in \<lparr>check_name = ''public_connector_health'', check_passed = ok,
          check_detail = (if ok then ''public connectors healthy'' else ''public connector degraded'')\<rparr>)"

definition private_check :: "runtime_state \<Rightarrow> gate_check_result" where
  "private_check st =
     \<lparr>check_name = ''private_connector_health'', check_passed = connector_private_healthy st,
      check_detail = (if connector_private_healthy st then ''private connector healthy''
                      else ''private connector unhealthy'')\<rparr>"

definition unwind_check :: "runtime_state \<Rightarrow> gate_check_result" where
  "unwind_check st =
     \<lparr>check_name = ''unwind_block'', check_passed = (\<not> unwind_in_progress st),
      check_detail = (if \<not> unwind_in_progress st then ''unwind not active'' else ''recovery required'')\<rparr>"

definition open_order_check :: "runtime_state \<Rightarrow> gate_check_result" where
  "open_order_check st =
     \<lparr>check_name = ''open_order_cap'',
      check_passed = (open_order_cap st \<le> 0 \<or> open_order_count st < open_order_cap st),
      check_detail = int_str (open_order_count st) @ ''/'' @ int_str (open_order_cap st)\<rparr>"

definition duplicate_check :: "runtime_state \<Rightarrow> gate_check_result" where
  "duplicate_check st =
     \<lparr>check_name = ''duplicate_intent'', check_passed = (\<not> duplicate_intent_active st),
      check_detail = (if \<not> duplicate_intent_active st then ''no active duplicate intent''
                      else ''same symbol intent already active'')\<rparr>"

definition elapsed_seconds :: "time \<Rightarrow> time \<Rightarrow> int" where
  \<comment> \<open>\<open>int((now - since).total_seconds())\<close>\<close>
  "elapsed_seconds t since = trunc (total_seconds (t - since))"

definition cooldown_ok :: "runtime_state \<Rightarrow> risk_config \<Rightarrow> bool" where
  "cooldown_ok st cfg = (case recent_unwind_at st of
      None \<Rightarrow> True
    | Some since \<Rightarrow> (if 0 < reentry_cooldown_seconds cfg
        then reentry_cooldown_seconds cfg \<le> elapsed_seconds (now st) since else True))"

definition cooldown_check :: "runtime_state \<Rightarrow> risk_config \<Rightarrow> gate_check_result" where
  "cooldown_check st cfg =
     \<lparr>check_name = ''reentry_cooldown'', check_passed = cooldown_ok st cfg,
      check_detail = (if cooldown_ok st cfg then ''cooldown ok'' else ''cooldown active'')\<rparr>"

definition gate_check_list :: "arbitrage_inputs \<Rightarrow> gate_check_result list" where
  "gate_check_list inputs =
     (let st = in_runtime_state inputs; cfg = in_risk_config inputs in
      [orderbook_check inputs, balance_check inputs, skew_check inputs, public_check inputs,
       private_check st, unwind_check st, open_order_check st, duplicate_check st,
       cooldown_check st cfg])"

definition failed_check_reason :: "string \<Rightarrow> string" where
  "failed_check_reason name =
     (if name = ''orderbook_freshness'' then ''ORDERBOOK_STALE''
      else if name = ''balance_freshness'' then ''BALANCE_STALE''
      else if name = ''quote_pair_lock'' then ''QUOTE_PAIR_SKEW_TOO_HIGH''
      else if name = ''public_connector_health'' then ''PUBLIC_CONNECTOR_DEGRADED''
      else if name = ''private_connector_health'' then ''HEDGE_CONFIDENCE_TOO_LOW''
      else if name = ''reentry_cooldown'' then ''REENTRY_COOLDOWN_ACTIVE''
      else if name = ''duplicate_intent'' then ''DUPLICATE_INTENT_BLOCKED''
      else ''RISK_LIMIT_BLOCKED'')"

fun first_failure :: "gate_check_result list \<Rightarrow> string option" where
  "first_failure [] = None"
| "first_failure (c # cs) =
     (if check_passed c then first_failure cs else Some (failed_check_reason (check_name c)))"

definition validate_gate_conditions :: "arbitrage_inputs \<Rightarrow> gate_check_result list \<times> string option" where
  "validate_gate_conditions inputs = (gate_check_list inputs, first_failure (gate_check_list inputs))"

section \<open>What a passed gate means\<close>

lemma first_failure_None: "first_failure cs = None \<longleftrightarrow> (\<forall>c \<in> set cs. check_passed c)"
  by (induction cs) auto

lemma first_failure_Some: "first_failure cs = Some r \<longleftrightarrow>
    (\<exists>pre c post. cs = pre @ c # post \<and> (\<forall>x \<in> set pre. check_passed x) \<and> \<not> check_passed c
       \<and> r = failed_check_reason (check_name c))" (is "?L cs = ?R cs")
proof (induction cs)
  case (Cons c cs)
  show ?case
  proof (cases "check_passed c")
    case True
    show ?thesis
    proof
      assume "?L (c # cs)"
      with True Cons obtain pre d post where "cs = pre @ d # post" "\<forall>x \<in> set pre. check_passed x"
        "\<not> check_passed d" "r = failed_check_reason (check_name d)" by auto
      with True have "c # cs = (c # pre) @ d # post \<and> (\<forall>x \<in> set (c # pre). check_passed x)
        \<and> \<not> check_passed d \<and> r = failed_check_reason (check_name d)" by simp
      then show "?R (c # cs)" by blast
    next
      assume "?R (c # cs)"
      then obtain pre d post where d: "c # cs = pre @ d # post" "\<forall>x \<in> set pre. check_passed x"
        "\<not> check_passed d" "r = failed_check_reason (check_name d)" by blast
      with True obtain pre' where "pre = c # pre'" by (cases pre) auto
      with d have "?R cs" by auto
      with True Cons show "?L (c # cs)" by simp
    qed
  next
    case False
    show ?thesis
    proof
      assume "?L (c # cs)"
      with False show "?R (c # cs)" by (intro exI [of _ "[]"] exI [of _ c] exI [of _ cs]) simp
    next
      assume "?R (c # cs)"
      then obtain pre d post where d: "c # cs = pre @ d # post" "\<forall>x \<in> set pre. check_passed x"
        "\<not> check_passed d" "r = failed_check_reason (check_name d)" by blast
      with False have "pre = []" by (cases pre) auto
      with d False show "?L (c # cs)" by simp
    qed
  qed
qed simp

lemma ms_of_neg_le: "us \<le> 0 \<Longrightarrow> ms_of us \<le> 0"
  using ms_of_mono [of us 0] by simp

lemma age_ms_bound:
  assumes "age_ms t since \<le> k" "t - since \<le> 2 * 10 ^ 15"
  shows "t - since < (k + 2) * 1000"
proof (cases "0 \<le> t - since")
  case True
  have "(t - since) div 1000 - 1 \<le> ms_of (t - since)" using ms_of_bounds True assms(2) by simp
  moreover have "ms_of (t - since) \<le> k" using assms(1) by (simp add: age_ms_def)
  ultimately have "(t - since) div 1000 < k + 2" by linarith
  then show ?thesis by (simp add: div_less_iff_less_mult)
next
  case False
  have "0 \<le> k" using assms(1) by (simp add: age_ms_def)
  with False show ?thesis by simp
qed

lemma age_ms_complete:
  assumes "0 \<le> t - since" "t - since \<le> 2 * 10 ^ 15" "t - since \<le> k * 1000"
  shows "age_ms t since \<le> k"
proof -
  have "ms_of (t - since) \<le> (t - since) div 1000" using ms_of_bounds assms by simp
  moreover have "(t - since) div 1000 \<le> k" using assms(3) by simp
  moreover have "0 \<le> k" using assms(1,3) by simp
  ultimately show ?thesis by (simp add: age_ms_def)
qed

lemmas gate_check_defs = orderbook_check_def balance_check_def skew_check_def public_check_def
  private_check_def unwind_check_def open_order_check_def duplicate_check_def cooldown_check_def

lemma gate_passed_iff:
  "snd (validate_gate_conditions inputs) = None \<longleftrightarrow>
     (let st = in_runtime_state inputs; cfg = in_risk_config inputs; t = now st in
       age_ms t (ob_observed_at (base_orderbook inputs)) \<le> max_orderbook_age_ms cfg
     \<and> age_ms t (ob_observed_at (hedge_orderbook inputs)) \<le> max_orderbook_age_ms cfg
     \<and> is_fresh (base_balance inputs) \<and> is_fresh (hedge_balance inputs)
     \<and> age_ms t (bal_observed_at (base_balance inputs)) \<le> max_balance_age_ms cfg
     \<and> age_ms t (bal_observed_at (hedge_balance inputs)) \<le> max_balance_age_ms cfg
     \<and> skew_ms inputs \<le> max_clock_skew_ms cfg
     \<and> connector_healthy (base_orderbook inputs) \<and> connector_healthy (hedge_orderbook inputs)
     \<and> connector_private_healthy st \<and> \<not> unwind_in_progress st
     \<and> (open_order_cap st \<le> 0 \<or> open_order_count st < open_order_cap st)
     \<and> \<not> duplicate_intent_active st \<and> cooldown_ok st cfg)"
  unfolding validate_gate_conditions_def snd_conv first_failure_None gate_check_list_def Let_def
    gate_check_defs by (simp; blast)

section \<open>Properties\<close>

text \<open>
  The gate passes exactly when all nine checks pass; otherwise its reason is that of the first failing
  check in the order of the code: orderbook age, balance age, clock skew, public and private connector,
  unwind, open order cap, duplicate intent, cooldown. (The precedence that
  \<open>docs/05_arbitrage_reason_code_precedence.md\<close> gives is another one.)
\<close>

theorem gate_reason_is_first_failure:
  "(snd (validate_gate_conditions inputs) = None \<longleftrightarrow> list_all check_passed (gate_check_list inputs))
   \<and> (snd (validate_gate_conditions inputs) = Some r \<longleftrightarrow>
       (\<exists>pre c post. gate_check_list inputs = pre @ c # post \<and> list_all check_passed pre
          \<and> \<not> check_passed c \<and> r = failed_check_reason (check_name c)))
   \<and> map check_name (fst (validate_gate_conditions inputs)) =
       [''orderbook_freshness'', ''balance_freshness'', ''quote_pair_lock'', ''public_connector_health'',
        ''private_connector_health'', ''unwind_block'', ''open_order_cap'', ''duplicate_intent'',
        ''reentry_cooldown'']"
  unfolding validate_gate_conditions_def snd_conv fst_conv first_failure_None first_failure_Some list_all_iff
  by (simp add: gate_check_list_def gate_check_defs Let_def)

text \<open>
  C22. A passed gate trades on fresh books: although ages are computed in floating point, both books are
  younger than the limit plus two milliseconds; and a failed freshness check means that one of them
  is older than the limit. (Ages up to \<open>2 * 10^15\<close> microseconds, some sixty years.)
\<close>

theorem gate_freshness_bounds:
  assumes "t = now (in_runtime_state inputs)" "k = max_orderbook_age_ms (in_risk_config inputs)"
    and "\<forall>ob \<in> {base_orderbook inputs, hedge_orderbook inputs}.
      0 \<le> t - ob_observed_at ob \<and> t - ob_observed_at ob \<le> 2 * 10 ^ 15"
  shows "(snd (validate_gate_conditions inputs) = None \<longrightarrow>
        (\<forall>ob \<in> {base_orderbook inputs, hedge_orderbook inputs}. t - ob_observed_at ob < (k + 2) * 1000))
    \<and> (snd (validate_gate_conditions inputs) = Some ''ORDERBOOK_STALE'' \<longrightarrow>
        (\<exists>ob \<in> {base_orderbook inputs, hedge_orderbook inputs}. k * 1000 < t - ob_observed_at ob))"
proof (intro conjI impI)
  assume "snd (validate_gate_conditions inputs) = None"
  then show "\<forall>ob \<in> {base_orderbook inputs, hedge_orderbook inputs}. t - ob_observed_at ob < (k + 2) * 1000"
    using assms age_ms_bound by (auto simp: gate_passed_iff Let_def)
next
  assume stale: "snd (validate_gate_conditions inputs) = Some ''ORDERBOOK_STALE''"
  have "\<not> check_passed (orderbook_check inputs)"
  proof
    assume "check_passed (orderbook_check inputs)"
    with stale show False
      by (simp add: validate_gate_conditions_def gate_check_list_def Let_def)
        (auto simp: gate_check_defs failed_check_reason_def Let_def split: if_splits)
  qed
  then obtain ob where "ob \<in> {base_orderbook inputs, hedge_orderbook inputs}"
      "\<not> age_ms t (ob_observed_at ob) \<le> k"
    using assms(1,2) by (auto simp: orderbook_check_def Let_def)
  with age_ms_complete assms(3)
  show "\<exists>ob \<in> {base_orderbook inputs, hedge_orderbook inputs}. k * 1000 < t - ob_observed_at ob"
    by (meson not_le)
qed

theorem gate_freshness_bounds_witness:
  "snd (validate_gate_conditions sample_inputs) = None
   \<and> now sample_state - ob_observed_at sample_buy_book < 1002 * 1000"
proof -
  have g: "snd (validate_gate_conditions sample_inputs) = None" by code_simp
  have t: "sample_now = now (in_runtime_state sample_inputs)"
    "1000 = max_orderbook_age_ms (in_risk_config sample_inputs)" by (simp_all add: sample_defs)
  have "\<forall>ob \<in> {base_orderbook sample_inputs, hedge_orderbook sample_inputs}.
      0 \<le> sample_now - ob_observed_at ob \<and> sample_now - ob_observed_at ob \<le> 2 * 10 ^ 15"
    by (simp add: sample_defs)
  from gate_freshness_bounds [OF t this] g show ?thesis by (simp add: sample_defs)
qed

end
