(* ===== verification/Planner.thy ===== *)
theory Planner
  imports Pricing Gate
begin

text \<open>
  \<open>strategy/arbitrage_planner.py\<close>: the decision context recorded with every evaluation, the rejection
  built at each failing step and the order intent plan of an accepted one.
\<close>

definition serialize_gate_checks :: "gate_check_result list \<Rightarrow> pyval" where
  "serialize_gate_checks checks = PList (map (\<lambda>c. PDict
     [(''name'', PStr (check_name c)), (''passed'', PBool (check_passed c)),
      (''detail'', PStr (check_detail c))]) checks)"

definition comp_get :: "(string, string) dict \<Rightarrow> string \<Rightarrow> string option" where
  "comp_get d k = map_of d k"

definition comp_or_zero :: "(string, string) dict \<Rightarrow> string \<Rightarrow> string" where
  \<comment> \<open>\<open>components.get(k) or "0"\<close>\<close>
  "comp_or_zero d k = (case map_of d k of None \<Rightarrow> ''0'' | Some s \<Rightarrow> if s = [] then ''0'' else s)"

definition comp_int :: "(string, string) dict \<Rightarrow> string \<Rightarrow> int res" where
  "comp_int d k = py_int (PStr (comp_or_zero d k))"

definition comp_decimal :: "(string, string) dict \<Rightarrow> string \<Rightarrow> dec res" where
  "comp_decimal d k = py_decimal (PStr (comp_or_zero d k))"

definition required_levels :: "arbitrage_inputs \<Rightarrow> int" where
  "required_levels inputs = max (min_orderbook_depth_levels (in_risk_config inputs)) 1"

definition required_notional :: "arbitrage_inputs \<Rightarrow> dec" where
  "required_notional inputs = min_available_depth_quote (in_risk_config inputs)"

definition depth_passed :: "arbitrage_inputs \<Rightarrow> candidate_size_result option \<Rightarrow> bool res" where
  "depth_passed inputs size_result = (case size_result of
      None \<Rightarrow> Inr False
    | Some s \<Rightarrow>
        andThen (comp_int (components s) ''buy_depth_levels'') (\<lambda>bl.
        andThen (comp_int (components s) ''sell_depth_levels'') (\<lambda>sl.
          if bl < required_levels inputs \<or> sl < required_levels inputs then Inr False
          else andThen (comp_decimal (components s) ''buy_depth_notional_quote'') (\<lambda>bn.
            if dlt bn (required_notional inputs) then Inr False
            else andThen (comp_decimal (components s) ''sell_depth_notional_quote'') (\<lambda>sn.
              Inr (dle (required_notional inputs) sn))))))"

definition size_text :: "candidate_size_result option \<Rightarrow> string \<Rightarrow> pyval" where
  "size_text s k = (case s of None \<Rightarrow> PNone | Some r \<Rightarrow> opt_str (comp_get (components r) k))"

definition edge_text :: "(executable_edge_result \<Rightarrow> dec) \<Rightarrow> executable_edge_result option \<Rightarrow> pyval" where
  "edge_text f e = (case e of None \<Rightarrow> PNone | Some r \<Rightarrow> dec_val (f r))"

definition computed_block ::
    "candidate_size_result option \<Rightarrow> executable_edge_result option \<Rightarrow> bool \<Rightarrow> obj" where
  "computed_block s e depth_ok =
     [(''target_qty'', case s of None \<Rightarrow> PNone | Some r \<Rightarrow> dec_val (target_qty r)),
      (''buy_depth_levels'', size_text s ''buy_depth_levels''),
      (''sell_depth_levels'', size_text s ''sell_depth_levels''),
      (''buy_depth_notional_quote'', size_text s ''buy_depth_notional_quote''),
      (''sell_depth_notional_quote'', size_text s ''sell_depth_notional_quote''),
      (''executable_buy_cost_quote'', edge_text executable_buy_cost_quote e),
      (''executable_sell_proceeds_quote'', edge_text executable_sell_proceeds_quote e),
      (''gross_profit_quote'', edge_text gross_profit_quote e),
      (''executable_profit_quote'', edge_text executable_profit_quote e),
      (''executable_profit_bps'', edge_text executable_profit_bps e),
      (''fee_buy_quote'', edge_text fee_buy_quote e),
      (''fee_sell_quote'', edge_text fee_sell_quote e),
      (''buy_slippage_buffer_quote'', edge_text buy_slippage_buffer_quote e),
      (''sell_slippage_buffer_quote'', edge_text sell_slippage_buffer_quote e),
      (''unwind_buffer_quote'', edge_text unwind_buffer_quote e),
      (''rebalance_buffer_quote'', edge_text rebalance_buffer_quote e),
      (''total_cost_adjustment_quote'', edge_text total_cost_adjustment_quote e),
      (''depth_passed'', PBool depth_ok)]"

definition reservation_block :: "reservation_plan option \<Rightarrow> obj" where
  "reservation_block r =
     [(''reservation_passed'', PBool (case r of None \<Rightarrow> False | Some p \<Rightarrow> reservation_passed p)),
      (''quote_required'', case r of None \<Rightarrow> PNone | Some p \<Rightarrow> dec_val (quote_required p)),
      (''base_required'', case r of None \<Rightarrow> PNone | Some p \<Rightarrow> dec_val (base_required p)),
      (''details'', PDict (case r of None \<Rightarrow> [] | Some p \<Rightarrow> map (\<lambda>(k, v). (k, PStr v)) (rp_details p)))]"

definition build_decision_context ::
    "arbitrage_inputs \<Rightarrow> string \<Rightarrow> gate_check_result list \<Rightarrow> candidate_size_result option
      \<Rightarrow> executable_edge_result option \<Rightarrow> reservation_plan option \<Rightarrow> obj res" where
  "build_decision_context inputs reason checks s e r =
     andThen (depth_passed inputs s) (\<lambda>depth_ok. Inr
     [(''decision_id'', PStr (in_strategy_run_id inputs @ '':'' @ iso_str (now (in_runtime_state inputs)))),
      (''quote_pair_id'', PStr (base_exchange inputs @ '':'' @ in_market inputs @ ''|''
         @ hedge_exchange inputs @ '':'' @ in_market inputs)),
      (''clock_skew_ms'', PInt (skew_ms inputs)),
      (''gate_checks'', serialize_gate_checks checks),
      (''computed'', PDict (computed_block s e depth_ok)),
      (''reservation'', PDict (reservation_block r)),
      (''reservation_passed'', PBool (case r of None \<Rightarrow> False | Some p \<Rightarrow> reservation_passed p)),
      (''reason_code'', PStr reason)])"

definition build_order_intent_plan ::
    "arbitrage_inputs \<Rightarrow> executable_edge_result \<Rightarrow> candidate_size_result \<Rightarrow> obj \<Rightarrow> order_intent_plan" where
  "build_order_intent_plan inputs e s context =
     \<lparr>oip_market = in_market inputs, buy_exchange = base_exchange inputs,
      sell_exchange = hedge_exchange inputs, side_pair = ''buy_then_sell'',
      oip_target_qty = dstr (target_qty s), expected_profit = dstr (executable_profit_quote e),
      expected_profit_ratio = dstr (executable_profit_bps e), oip_decision_context = context\<rparr>"

definition build_reject_decision ::
    "arbitrage_inputs \<Rightarrow> string \<Rightarrow> gate_check_result list \<Rightarrow> candidate_size_result option
      \<Rightarrow> executable_edge_result option \<Rightarrow> reservation_plan option \<Rightarrow> arbitrage_decision res" where
  "build_reject_decision inputs reason checks s e r =
     andThen (build_decision_context inputs reason checks s e r) (\<lambda>context. Inr
     \<lparr>accepted = False, reason_code = reason, gate_checks = checks, candidate_size = s,
      executable_edge = e, dec_reservation_plan = r, dec_order_intent_plan = None,
      decision_context = context\<rparr>)"

section \<open>The component texts are read back\<close>

lemma int_str_neq_Nil [simp]: "int_str i \<noteq> []"
  by (simp add: int_str_def)

lemma dstr_neq_Nil [simp]: "dstr d \<noteq> []"
proof
  assume e: "dstr d = []"
  have "dparse [] = None" by code_simp
  with dparse_dstr [of d] e show False by simp
qed

lemma comp_int_components:
  assumes "components s = size_components inputs l"
  shows "comp_int (components s) ''buy_depth_levels'' = Inr (int (length (asks (base_orderbook inputs))))"
    "comp_int (components s) ''sell_depth_levels'' = Inr (int (length (bids (hedge_orderbook inputs))))"
  using assms by (simp_all add: comp_int_def comp_or_zero_def size_components_def del: py_int.simps)

lemma comp_decimal_components:
  assumes "components s = size_components inputs l"
  shows "comp_decimal (components s) ''buy_depth_notional_quote'' = Inr (sl_buy_depth_notional l)"
    "comp_decimal (components s) ''sell_depth_notional_quote'' = Inr (sl_sell_depth_notional l)"
  using assms py_decimal_dec_val
  by (simp_all add: comp_decimal_def comp_or_zero_def size_components_def dec_val_def)

lemma comp_error:
  assumes "s = \<lparr>target_qty = d0, components = [(''error'', e)]\<rparr>"
  shows "comp_int (components s) ''buy_depth_levels'' = Inr 0"
    "comp_int (components s) ''sell_depth_levels'' = Inr 0"
  using assms by (simp_all add: comp_int_def comp_or_zero_def, code_simp+)

lemma depth_passed_returns:
  assumes "compute_candidate_size inputs = Inr s"
  shows "returns (depth_passed inputs (Some s))"
  using assms
proof (cases rule: candidate_size_cases)
  case (bad e)
  then show ?thesis
    using comp_error [OF bad(1)] by (simp add: depth_passed_def required_levels_def less_max_iff_disj)
next
  case (sized l)
  then show ?thesis
    using comp_int_components [OF sized(2)] comp_decimal_components [OF sized(2)]
    by (simp add: depth_passed_def)
qed

lemma reject_returns:
  assumes "s = None \<or> (\<exists>x. s = Some x \<and> compute_candidate_size inputs = Inr x)"
  shows "\<exists>d. build_reject_decision inputs reason checks s e r = Inr d
    \<and> \<not> accepted d \<and> reason_code d = reason \<and> gate_checks d = checks \<and> candidate_size d = s
    \<and> executable_edge d = e \<and> dec_reservation_plan d = r \<and> dec_order_intent_plan d = None"
proof -
  have "returns (depth_passed inputs s)"
    using assms depth_passed_returns by (auto simp: depth_passed_def)
  then obtain b where "depth_passed inputs s = Inr b" by (auto simp: returns_iff)
  then show ?thesis by (simp add: build_reject_decision_def build_decision_context_def)
qed

end
