(* ===== verification/Reservation.thy ===== *)
theory Reservation
  imports Models
begin

text \<open>
  \<open>strategy/arbitrage_reservation.py\<close>: the balances an accepted opportunity must cover.
\<close>

definition reserve_capacity ::
    "arbitrage_inputs \<Rightarrow> candidate_size_result \<Rightarrow> executable_edge_result \<Rightarrow> reservation_plan" where
  "reserve_capacity inputs size_result edge =
     (let q_required = dadd (dadd (dadd (dadd (executable_buy_cost_quote edge) (fee_buy_quote edge))
            (buy_slippage_buffer_quote edge)) (unwind_buffer_quote edge)) (rebalance_buffer_quote edge);
          b_required = target_qty size_result;
          notional = executable_buy_cost_quote edge;
          failures =
            (if dlt (available_quote (base_balance inputs)) q_required then [''buy_quote_insufficient''] else [])
            @ (if dlt (available_base (hedge_balance inputs)) b_required then [''sell_base_insufficient''] else [])
      in \<lparr>reservation_passed = (failures = []),
          rp_reason_code = (if failures = [] then None else Some ''RESERVATION_FAILED''),
          quote_required = q_required, base_required = b_required, reserved_notional = notional,
          rp_details = [
            (''buy_quote_available'', dstr (available_quote (base_balance inputs))),
            (''sell_base_available'', dstr (available_base (hedge_balance inputs))),
            (''failures'', if failures \<noteq> [] then join '','' failures else [])]\<rparr>)"

lemma reservation_passed_iff:
  "reservation_passed (reserve_capacity inputs s e) \<longleftrightarrow>
     dval (quote_required (reserve_capacity inputs s e)) \<le> dval (available_quote (base_balance inputs))
     \<and> dval (target_qty s) \<le> dval (available_base (hedge_balance inputs))"
  by (auto simp: reserve_capacity_def Let_def dcmp)

lemma reserve_capacity_fields [simp]:
  "base_required (reserve_capacity inputs s e) = target_qty s"
  "reserved_notional (reserve_capacity inputs s e) = executable_buy_cost_quote e"
  by (simp_all add: reserve_capacity_def Let_def)

end
