(* ===== verification/Decision.thy ===== *)
theory Decision
  imports Planner Reservation PricingSpec
begin

text \<open>
  \<open>strategy/arbitrage_runtime.py\<close>: \<open>evaluate_arbitrage\<close> runs the gate, the candidate size, the depth
  check, the executable edge, the profit, cap and spread checks and the reservation, in this order, and
  stops at the first that fails. The lemmas show that it never raises, what an accepted decision
  guarantees, and that the caps and balances bound what is spent.
\<close>

definition is_risk_cap_blocked :: "arbitrage_inputs \<Rightarrow> dec \<Rightarrow> bool" where
  "is_risk_cap_blocked inputs cost =
     (if dlt (max_notional_per_order (in_risk_config inputs)) cost then True
      else if dlt (max_total_notional_per_bot (in_risk_config inputs)) cost then True
      else (case remaining_bot_notional (in_runtime_state inputs) of
          None \<Rightarrow> False
        | Some n \<Rightarrow> dlt n cost))"

definition is_depth_insufficient :: "arbitrage_inputs \<Rightarrow> candidate_size_result \<Rightarrow> bool res" where
  "is_depth_insufficient inputs s =
     andThen (comp_int (components s) ''buy_depth_levels'') (\<lambda>bl.
     andThen (comp_int (components s) ''sell_depth_levels'') (\<lambda>sl.
     andThen (comp_decimal (components s) ''buy_depth_notional_quote'') (\<lambda>bn.
     andThen (comp_decimal (components s) ''sell_depth_notional_quote'') (\<lambda>sn.
       Inr (bl < required_levels inputs \<or> sl < required_levels inputs
         \<or> dlt bn (required_notional inputs) \<or> dlt sn (required_notional inputs))))))"

definition spread_bps :: "executable_edge_result \<Rightarrow> dec res" where
  "spread_bps e = andThen (ddiv (dsub (sell_vwap e) (buy_vwap e)) (buy_vwap e))
     (\<lambda>r. Inr (dmul r (Dec 10000 0)))"

definition accept_decision ::
    "arbitrage_inputs \<Rightarrow> gate_check_result list \<Rightarrow> candidate_size_result \<Rightarrow> executable_edge_result
      \<Rightarrow> reservation_plan \<Rightarrow> arbitrage_decision res" where
  "accept_decision inputs checks s e r =
     andThen (build_decision_context inputs ''ARBITRAGE_OPPORTUNITY_FOUND'' checks (Some s) (Some e) (Some r))
     (\<lambda>context. Inr
     \<lparr>accepted = True, reason_code = ''ARBITRAGE_OPPORTUNITY_FOUND'', gate_checks = checks,
      candidate_size = Some s, executable_edge = Some e, dec_reservation_plan = Some r,
      dec_order_intent_plan = Some (build_order_intent_plan inputs e s context),
      decision_context = context\<rparr>)"

definition evaluate_edge ::
    "arbitrage_inputs \<Rightarrow> gate_check_result list \<Rightarrow> candidate_size_result \<Rightarrow> executable_edge_result
      \<Rightarrow> arbitrage_decision res" where
  "evaluate_edge inputs checks s e =
     (let cfg = in_risk_config inputs in
      if dlt (executable_profit_quote e) (min_profit_quote cfg)
      then build_reject_decision inputs ''EXECUTABLE_PROFIT_NEGATIVE_AFTER_DEPTH'' checks (Some s) (Some e) None
      else if dlt (executable_profit_bps e) (min_profit_bps cfg)
      then build_reject_decision inputs ''EXECUTABLE_PROFIT_NEGATIVE_AFTER_DEPTH'' checks (Some s) (Some e) None
      else if is_risk_cap_blocked inputs (executable_buy_cost_quote e)
      then build_reject_decision inputs ''RISK_LIMIT_BLOCKED'' checks (Some s) (Some e) None
      else andThen (spread_bps e) (\<lambda>spread.
        if dlt (max_spread_bps cfg) spread
        then build_reject_decision inputs ''RISK_LIMIT_BLOCKED'' checks (Some s) (Some e) None
        else let plan = reserve_capacity inputs s e in
          if \<not> reservation_passed plan
          then build_reject_decision inputs ''RESERVATION_FAILED'' checks (Some s) (Some e) (Some plan)
          else accept_decision inputs checks s e plan))"

definition evaluate_arbitrage :: "arbitrage_inputs \<Rightarrow> arbitrage_decision res" where
  "evaluate_arbitrage inputs =
     (let (checks, gate_reason) = validate_gate_conditions inputs in
      case gate_reason of
        Some reason \<Rightarrow> build_reject_decision inputs reason checks None None None
      | None \<Rightarrow>
          andThen (compute_candidate_size inputs) (\<lambda>s.
            if dle (target_qty s) d0
            then build_reject_decision inputs ''ORDERBOOK_DEPTH_INSUFFICIENT'' checks (Some s) None None
            else andThen (is_depth_insufficient inputs s) (\<lambda>shallow.
              if shallow
              then build_reject_decision inputs ''ORDERBOOK_DEPTH_INSUFFICIENT'' checks (Some s) None None
              else andThen (simulate_executable_edge inputs s) (\<lambda>edge.
                case edge of
                  None \<Rightarrow> build_reject_decision inputs ''EXECUTABLE_PROFIT_NEGATIVE_AFTER_DEPTH''
                            checks (Some s) None None
                | Some e \<Rightarrow> evaluate_edge inputs checks s e))))"

section \<open>Every evaluation produces a decision\<close>

lemma depth_insufficient_sized:
  assumes "components s = size_components inputs l"
  shows "is_depth_insufficient inputs s = Inr
    (int (length (asks (base_orderbook inputs))) < required_levels inputs
     \<or> int (length (bids (hedge_orderbook inputs))) < required_levels inputs
     \<or> dlt (sl_buy_depth_notional l) (required_notional inputs)
     \<or> dlt (sl_sell_depth_notional l) (required_notional inputs))"
  using comp_int_components [OF assms] comp_decimal_components [OF assms]
  by (simp add: is_depth_insufficient_def)

lemma positive_size_is_sized:
  assumes "compute_candidate_size inputs = Inr s" "\<not> dle (target_qty s) d0"
  obtains l where "size_limits_of inputs = Inr l" "components s = size_components inputs l"
    "target_qty s \<in> set (qty_candidates inputs l)"
    "\<And>q. q \<in> set (qty_candidates inputs l) \<Longrightarrow> dval (target_qty s) \<le> dval q"
    "asks (base_orderbook inputs) \<noteq> []" "bids (hedge_orderbook inputs) \<noteq> []"
  using assms(1)
proof (cases rule: candidate_size_cases)
  case (bad e)
  with assms(2) show ?thesis by (simp add: dcmp)
next
  case (sized l)
  then show ?thesis using that by blast
qed

lemma edge_of_vwaps_facts:
  assumes "edge_of_vwaps inputs q bv sv = Inr (Some e)"
  shows "buy_vwap e = bv" "sell_vwap e = sv" "executable_buy_cost_quote e = dmul bv q"
    "executable_sell_proceeds_quote e = dmul sv q" "0 < dval (dmul bv q)"
    "unwind_buffer_quote e = rc_unwind_buffer_quote (in_risk_config inputs)"
    "rebalance_buffer_quote e = rc_rebalance_buffer_quote (in_risk_config inputs)"
  using assms by (auto simp: edge_of_vwaps_def Let_def res_simps dcmp split: if_splits)

lemma simulate_edge_cases:
  assumes "simulate_executable_edge inputs s = Inr (Some e)"
  obtains bv sv where "vwap (asks (base_orderbook inputs)) (target_qty s) = Inr (Some bv)"
    "vwap (bids (hedge_orderbook inputs)) (target_qty s) = Inr (Some sv)" "0 < dval bv"
    "edge_of_vwaps inputs (target_qty s) bv sv = Inr (Some e)" "0 < dval (target_qty s)"
proof -
  from assms have q: "\<not> dle (target_qty s) d0"
    by (auto simp: simulate_executable_edge_def Let_def split: if_splits)
  with assms obtain b c where bc: "vwap (asks (base_orderbook inputs)) (target_qty s) = Inr b"
      "vwap (bids (hedge_orderbook inputs)) (target_qty s) = Inr c"
      "(case (b, c) of (Some bv, Some sv) \<Rightarrow>
          if dle bv d0 then Inr None else edge_of_vwaps inputs (target_qty s) bv sv
        | _ \<Rightarrow> Inr None) = (Inr (Some e) :: executable_edge_result option res)"
    by (auto simp: simulate_executable_edge_def Let_def andThen_eq_Inr)
  then obtain bv sv where "b = Some bv" "c = Some sv" "\<not> dle bv d0"
      "edge_of_vwaps inputs (target_qty s) bv sv = Inr (Some e)"
    by (auto split: option.splits if_splits)
  with that bc q show ?thesis by (simp add: dcmp)
qed

lemma edge_facts:
  assumes "simulate_executable_edge inputs s = Inr (Some e)"
  shows "0 < dval (buy_vwap e)" "0 < dval (executable_buy_cost_quote e)"
    "executable_buy_cost_quote e = dmul (buy_vwap e) (target_qty s)"
    "executable_sell_proceeds_quote e = dmul (sell_vwap e) (target_qty s)"
    "vwap (asks (base_orderbook inputs)) (target_qty s) = Inr (Some (buy_vwap e))"
    "vwap (bids (hedge_orderbook inputs)) (target_qty s) = Inr (Some (sell_vwap e))"
    "unwind_buffer_quote e = rc_unwind_buffer_quote (in_risk_config inputs)"
    "rebalance_buffer_quote e = rc_rebalance_buffer_quote (in_risk_config inputs)"
proof -
  from assms obtain bv sv where b: "vwap (asks (base_orderbook inputs)) (target_qty s) = Inr (Some bv)"
    "vwap (bids (hedge_orderbook inputs)) (target_qty s) = Inr (Some sv)" "0 < dval bv"
    "edge_of_vwaps inputs (target_qty s) bv sv = Inr (Some e)"
    by (rule simulate_edge_cases)
  note f = edge_of_vwaps_facts [OF b(4)]
  show "0 < dval (buy_vwap e)" "0 < dval (executable_buy_cost_quote e)"
    "executable_buy_cost_quote e = dmul (buy_vwap e) (target_qty s)"
    "executable_sell_proceeds_quote e = dmul (sell_vwap e) (target_qty s)"
    "vwap (asks (base_orderbook inputs)) (target_qty s) = Inr (Some (buy_vwap e))"
    "vwap (bids (hedge_orderbook inputs)) (target_qty s) = Inr (Some (sell_vwap e))"
    "unwind_buffer_quote e = rc_unwind_buffer_quote (in_risk_config inputs)"
    "rebalance_buffer_quote e = rc_rebalance_buffer_quote (in_risk_config inputs)"
    using b f by simp_all
qed

lemma accept_returns:
  assumes "compute_candidate_size inputs = Inr s"
  shows "\<exists>d. accept_decision inputs checks s e r = Inr d \<and> accepted d
    \<and> reason_code d = ''ARBITRAGE_OPPORTUNITY_FOUND'' \<and> gate_checks d = checks
    \<and> candidate_size d = Some s \<and> executable_edge d = Some e \<and> dec_reservation_plan d = Some r
    \<and> dec_order_intent_plan d = Some (build_order_intent_plan inputs e s (decision_context d))"
proof -
  obtain b where "depth_passed inputs (Some s) = Inr b"
    using depth_passed_returns [OF assms] by (auto simp: returns_iff)
  then show ?thesis by (simp add: accept_decision_def build_decision_context_def)
qed

text \<open>The outcome of an evaluation: which step decided, with what it had computed.\<close>

definition stage_reject ::
    "arbitrage_decision \<Rightarrow> string \<Rightarrow> candidate_size_result option \<Rightarrow> executable_edge_result option
      \<Rightarrow> reservation_plan option \<Rightarrow> bool" where
  "stage_reject d reason s e r = (\<not> accepted d \<and> reason_code d = reason \<and> candidate_size d = s
     \<and> executable_edge d = e \<and> dec_reservation_plan d = r \<and> dec_order_intent_plan d = None)"

lemma reject_stage:
  assumes "s = None \<or> (\<exists>x. s = Some x \<and> compute_candidate_size inputs = Inr x)"
    "build_reject_decision inputs reason checks s e r = Inr d"
  shows "stage_reject d reason s e r \<and> gate_checks d = checks"
  using reject_returns [OF assms(1), of reason checks e r] assms(2) by (auto simp: stage_reject_def)

lemma spread_returns: "0 < dval (buy_vwap e) \<Longrightarrow> returns (spread_bps e)"
  by (auto simp: spread_bps_def intro!: returns_andThen ddiv_returns)

lemma reject_returns_res:
  "s = None \<or> (\<exists>x. s = Some x \<and> compute_candidate_size inputs = Inr x)
    \<Longrightarrow> returns (build_reject_decision inputs reason checks s e r)"
  using reject_returns by (metis returns_iff)

lemma evaluate_edge_returns:
  assumes "compute_candidate_size inputs = Inr s" "simulate_executable_edge inputs s = Inr (Some e)"
  shows "returns (evaluate_edge inputs checks s e)"
proof -
  have "returns (accept_decision inputs checks s e r)" for r
    using accept_returns [OF assms(1)] by (metis returns_iff)
  with assms edge_facts(1) [OF assms(2)] show ?thesis
    by (auto simp: evaluate_edge_def Let_def intro!: returns_andThen reject_returns_res spread_returns)
qed

lemma evaluate_returns: "returns (evaluate_arbitrage inputs)"
proof -
  have depth: "returns (is_depth_insufficient inputs s)"
    if "compute_candidate_size inputs = Inr s" "\<not> dle (target_qty s) d0" for s
    using that by (cases rule: positive_size_is_sized [OF that]) (simp add: depth_insufficient_sized)
  show ?thesis
    unfolding evaluate_arbitrage_def Let_def
    by (auto split: prod.splits option.splits intro!: returns_andThen reject_returns_res depth
        evaluate_edge_returns)
qed

section \<open>What acceptance means\<close>

definition economics_ok :: "arbitrage_inputs \<Rightarrow> candidate_size_result \<Rightarrow> executable_edge_result \<Rightarrow> bool" where
  \<comment> \<open>profit, caps, spread and reservation, over exact values\<close>
  "economics_ok inputs s e =
     (let cfg = in_risk_config inputs; cost = dval (executable_buy_cost_quote e) in
       dval (min_profit_quote cfg) \<le> dval (executable_profit_quote e)
     \<and> dval (min_profit_bps cfg) \<le> dval (executable_profit_bps e)
     \<and> cost \<le> dval (max_notional_per_order cfg) \<and> cost \<le> dval (max_total_notional_per_bot cfg)
     \<and> (case remaining_bot_notional (in_runtime_state inputs) of None \<Rightarrow> True | Some n \<Rightarrow> cost \<le> dval n)
     \<and> (case spread_bps e of Inl _ \<Rightarrow> False | Inr b \<Rightarrow> dval b \<le> dval (max_spread_bps cfg))
     \<and> dval (quote_required (reserve_capacity inputs s e)) \<le> dval (available_quote (base_balance inputs))
     \<and> dval (target_qty s) \<le> dval (available_base (hedge_balance inputs)))"

lemma reject_not_accepted: "build_reject_decision inputs reason checks s e r = Inr d \<Longrightarrow> \<not> accepted d"
  by (auto simp: build_reject_decision_def res_simps)

lemma evaluate_edge_accepts:
  assumes "evaluate_edge inputs checks s e = Inr d"
  shows "accepted d \<longleftrightarrow> economics_ok inputs s e"
    and "accepted d \<Longrightarrow> accept_decision inputs checks s e (reserve_capacity inputs s e) = Inr d"
proof -
  have acc: "accept_decision inputs checks s e r = Inr d \<Longrightarrow> accepted d" for r
    by (auto simp: accept_decision_def res_simps)
  show "accepted d \<longleftrightarrow> economics_ok inputs s e"
    using assms acc unfolding evaluate_edge_def economics_ok_def Let_def
    by (auto simp: is_risk_cap_blocked_def res_simps reservation_passed_iff dcmp not_less
        split: if_splits option.splits sum.splits dest!: reject_not_accepted)
  show "accept_decision inputs checks s e (reserve_capacity inputs s e) = Inr d" if "accepted d"
    using assms that unfolding evaluate_edge_def Let_def
    by (auto simp: res_simps split: if_splits dest!: reject_not_accepted)
qed

lemma evaluate_accepts_iff:
  assumes "evaluate_arbitrage inputs = Inr d"
  shows "accepted d \<longleftrightarrow> snd (validate_gate_conditions inputs) = None
    \<and> (\<exists>s e. compute_candidate_size inputs = Inr s \<and> 0 < dval (target_qty s)
       \<and> is_depth_insufficient inputs s = Inr False
       \<and> simulate_executable_edge inputs s = Inr (Some e)
       \<and> economics_ok inputs s e)"
    (is "_ \<longleftrightarrow> ?R")
proof
  assume "accepted d"
  with assms show ?R unfolding evaluate_arbitrage_def Let_def
    by (auto simp: res_simps dcmp evaluate_edge_accepts split: if_splits option.splits prod.splits
        dest!: reject_not_accepted)
next
  assume ?R
  with assms show "accepted d" unfolding evaluate_arbitrage_def Let_def
    by (auto simp: dcmp evaluate_edge_accepts split: prod.splits)
qed

lemma evaluate_accepted_cases:
  assumes "evaluate_arbitrage inputs = Inr d" "accepted d"
  obtains s e where "compute_candidate_size inputs = Inr s" "0 < dval (target_qty s)"
    "is_depth_insufficient inputs s = Inr False"
    "simulate_executable_edge inputs s = Inr (Some e)" "economics_ok inputs s e"
    "accept_decision inputs (gate_check_list inputs) s e (reserve_capacity inputs s e) = Inr d"
proof -
  from assms have "\<exists>s e. compute_candidate_size inputs = Inr s \<and> 0 < dval (target_qty s)
      \<and> is_depth_insufficient inputs s = Inr False \<and> simulate_executable_edge inputs s = Inr (Some e)
      \<and> evaluate_edge inputs (gate_check_list inputs) s e = Inr d"
    unfolding evaluate_arbitrage_def Let_def
    by (auto simp: res_simps dcmp validate_gate_conditions_def split: if_splits option.splits prod.splits
        dest!: reject_not_accepted)
  then show ?thesis using that evaluate_edge_accepts assms(2) by blast
qed

text \<open>Whatever step decides, the context recorded is the one \<open>build_decision_context\<close> makes for it.\<close>

definition context_recorded :: "arbitrage_inputs \<Rightarrow> arbitrage_decision \<Rightarrow> bool" where
  "context_recorded inputs d = (build_decision_context inputs (reason_code d) (gate_checks d)
     (candidate_size d) (executable_edge d) (dec_reservation_plan d) = Inr (decision_context d))"

lemma reject_context: "build_reject_decision inputs reason checks s e r = Inr d \<Longrightarrow> context_recorded inputs d"
  by (auto simp: build_reject_decision_def context_recorded_def res_simps)

lemma accept_context: "accept_decision inputs checks s e r = Inr d \<Longrightarrow> context_recorded inputs d"
  by (auto simp: accept_decision_def context_recorded_def res_simps)

lemma evaluate_edge_context: "evaluate_edge inputs checks s e = Inr d \<Longrightarrow> context_recorded inputs d"
  unfolding evaluate_edge_def Let_def
  by (auto simp: res_simps split: if_splits dest: reject_context accept_context)

lemma evaluate_context: "evaluate_arbitrage inputs = Inr d \<Longrightarrow> context_recorded inputs d"
  unfolding evaluate_arbitrage_def Let_def
  by (auto simp: res_simps split: if_splits option.splits prod.splits
      dest: reject_context evaluate_edge_context)

lemma recorded_fields:
  assumes "context_recorded inputs d"
  shows "pget (decision_context d) ''clock_skew_ms'' = PInt (skew_ms inputs)"
    "pget (decision_context d) ''reason_code'' = PStr (reason_code d)"
    "pget (decision_context d) ''quote_pair_id'' = PStr (base_exchange inputs @ '':'' @ in_market inputs
       @ ''|'' @ hedge_exchange inputs @ '':'' @ in_market inputs)"
    "pget (decision_context d) ''reservation_passed'' =
       PBool (case dec_reservation_plan d of None \<Rightarrow> False | Some p \<Rightarrow> reservation_passed p)"
  using assms
  by (auto simp: context_recorded_def build_decision_context_def res_simps pget_Cons
      eq_commute [of _ "decision_context d"])

section \<open>Properties of an evaluation\<close>

lemma sample_accepted: "\<exists>d. evaluate_arbitrage sample_inputs = Inr d \<and> accepted d"
proof -
  have "case evaluate_arbitrage sample_inputs of Inl _ \<Rightarrow> False | Inr d \<Rightarrow> accepted d" by code_simp
  then show ?thesis by (cases "evaluate_arbitrage sample_inputs") auto
qed

text \<open>
  An evaluation always produces a decision, and it accepts exactly when every step passes. Decimals have
  unbounded exponents here, so this says that no division by zero and no failed text conversion occurs;
  Python's \<open>decimal.Overflow\<close> for results beyond 1E+999999 is outside the model.
\<close>

theorem evaluate_arbitrage_total:
  "\<exists>d. evaluate_arbitrage inputs = Inr d \<and>
     (accepted d \<longleftrightarrow> snd (validate_gate_conditions inputs) = None
      \<and> (\<exists>s e. compute_candidate_size inputs = Inr s \<and> 0 < dval (target_qty s)
         \<and> is_depth_insufficient inputs s = Inr False
         \<and> simulate_executable_edge inputs s = Inr (Some e)
         \<and> economics_ok inputs s e))"
  using evaluate_returns evaluate_accepts_iff by (metis returns_iff)

text \<open>
  What buying a quantity at an average price takes on the buying exchange, over exact numbers: the cost,
  the taker fee and the slippage buffer as basis points of the cost, and the two fixed buffers, each
  step rounded to 28 digits as the decimal context does.
\<close>

definition share_of :: "rat \<Rightarrow> dec \<Rightarrow> rat" where
  "share_of cost rate = r28 (r28 (cost * dval rate) / 10000)"

definition funds_needed :: "risk_config \<Rightarrow> rat \<Rightarrow> rat \<Rightarrow> rat" where
  "funds_needed cfg unit_price qty =
     (let cost = r28 (unit_price * qty) in
      r28 (r28 (r28 (r28 (cost + share_of cost (taker_fee_bps_buy cfg)) + share_of cost (slippage_buffer_bps cfg))
        + dval (rc_unwind_buffer_quote cfg)) + dval (rc_rebalance_buffer_quote cfg)))"

lemma bps_share:
  assumes "bps amount rate = Inr x"
  shows "dval x = share_of (dval amount) rate"
  using dval_ddiv [OF assms [unfolded bps_def]] by (simp add: share_of_def dval_dmul)

lemma edge_of_vwaps_shares:
  assumes "edge_of_vwaps inputs q bv sv = Inr (Some e)"
  shows "dval (fee_buy_quote e) = share_of (dval (executable_buy_cost_quote e)) (taker_fee_bps_buy (in_risk_config inputs))"
    "dval (buy_slippage_buffer_quote e)
      = share_of (dval (executable_buy_cost_quote e)) (slippage_buffer_bps (in_risk_config inputs))"
  using assms by (auto simp: edge_of_vwaps_def Let_def res_simps bps_share split: if_splits)

lemma reserved_quote:
  assumes "simulate_executable_edge inputs s = Inr (Some e)"
  shows "dval (quote_required (reserve_capacity inputs s e))
    = funds_needed (in_risk_config inputs) (dval (buy_vwap e)) (dval (target_qty s))"
proof -
  from assms obtain bv sv where "edge_of_vwaps inputs (target_qty s) bv sv = Inr (Some e)" by (rule simulate_edge_cases)
  note shares = edge_of_vwaps_shares [OF this]
  from shares edge_facts(3,7,8) [OF assms] show ?thesis
    by (simp add: reserve_capacity_def Let_def dval_dadd dval_dmul funds_needed_def)
qed

text \<open>
  C1. An accepted decision is funded: it carries the size, the edge simulated for it, a passed reservation and
  an order intent plan. The quote required is the cost of the size at the average price of the buying
  book, plus the taker fee, the slippage buffer and the two fixed buffers of the risk configuration; it is
  available on the buying exchange, the quantity is available on the selling exchange, and the cost is
  within the three notional caps.
\<close>

theorem accepted_decision_is_funded:
  assumes "evaluate_arbitrage inputs = Inr d" "accepted d"
  shows "\<exists>s e r p. candidate_size d = Some s \<and> executable_edge d = Some e
    \<and> dec_reservation_plan d = Some r \<and> dec_order_intent_plan d = Some p
    \<and> compute_candidate_size inputs = Inr s \<and> simulate_executable_edge inputs s = Inr (Some e)
    \<and> vwap (asks (base_orderbook inputs)) (target_qty s) = Inr (Some (buy_vwap e))
    \<and> reservation_passed r \<and> 0 < dval (target_qty s)
    \<and> dval (quote_required r) = funds_needed (in_risk_config inputs) (dval (buy_vwap e)) (dval (target_qty s))
    \<and> dval (quote_required r) \<le> dval (available_quote (base_balance inputs))
    \<and> dval (base_required r) \<le> dval (available_base (hedge_balance inputs))
    \<and> base_required r = target_qty s \<and> reserved_notional r = executable_buy_cost_quote e
    \<and> dval (reserved_notional r) = r28 (dval (buy_vwap e) * dval (target_qty s))
    \<and> dval (reserved_notional r) \<le> dval (max_notional_per_order (in_risk_config inputs))
    \<and> dval (reserved_notional r) \<le> dval (max_total_notional_per_bot (in_risk_config inputs))
    \<and> (\<forall>n. remaining_bot_notional (in_runtime_state inputs) = Some n \<longrightarrow> dval (reserved_notional r) \<le> dval n)
    \<and> dval (min_profit_quote (in_risk_config inputs)) \<le> dval (executable_profit_quote e)"
proof -
  from assms obtain s e where s: "compute_candidate_size inputs = Inr s" "0 < dval (target_qty s)"
    and e: "simulate_executable_edge inputs s = Inr (Some e)" and ok: "economics_ok inputs s e"
    and d: "accept_decision inputs (gate_check_list inputs) s e (reserve_capacity inputs s e) = Inr d"
    by (rule evaluate_accepted_cases)
  from accept_returns [OF s(1), of "gate_check_list inputs" e "reserve_capacity inputs s e"] d
  have f: "candidate_size d = Some s" "executable_edge d = Some e"
    "dec_reservation_plan d = Some (reserve_capacity inputs s e)"
    "dec_order_intent_plan d = Some (build_order_intent_plan inputs e s (decision_context d))" by auto
  have cost: "dval (executable_buy_cost_quote e) = r28 (dval (buy_vwap e) * dval (target_qty s))"
    using edge_facts(3) [OF e] by (simp add: dval_dmul)
  from ok s e cost edge_facts(5) [OF e] show ?thesis
    by (auto simp: f economics_ok_def Let_def reservation_passed_iff reserved_quote [OF e] split: option.splits sum.splits)
qed

theorem accepted_decision_is_funded_witness:
  "\<exists>d s e r p. evaluate_arbitrage sample_inputs = Inr d \<and> accepted d \<and> candidate_size d = Some s
    \<and> executable_edge d = Some e \<and> dec_reservation_plan d = Some r \<and> dec_order_intent_plan d = Some p
    \<and> reservation_passed r \<and> dval (quote_required r) \<le> 1000
    \<and> dval (quote_required r) = funds_needed sample_risk (dval (buy_vwap e)) (dval (target_qty s))"
proof -
  obtain d where d: "evaluate_arbitrage sample_inputs = Inr d" "accepted d" using sample_accepted by blast
  have "in_risk_config sample_inputs = sample_risk" "dval (available_quote (base_balance sample_inputs)) = 1000"
    by (simp_all add: sample_inputs_def sample_balance_def)
  with accepted_decision_is_funded [OF d] d show ?thesis by auto
qed

text \<open>
  The candidate size never exceeds the depth of either book, the base balance of the selling
  exchange, or what the quote budget and the order and bot caps buy.
\<close>

theorem candidate_size_within_limits:
  assumes "compute_candidate_size inputs = Inr s" "0 < dval (target_qty s)"
  shows "dval (target_qty s) \<le> dval (sum_depth_qty (asks (base_orderbook inputs)))
    \<and> dval (target_qty s) \<le> dval (sum_depth_qty (bids (hedge_orderbook inputs)))
    \<and> dval (target_qty s) \<le> dval (available_base (hedge_balance inputs))
    \<and> (\<exists>b q. gross_buy_cost_budget inputs = Inr b
        \<and> max_qty_with_quote_limit (asks (base_orderbook inputs)) b = Inr q
        \<and> dval (target_qty s) \<le> dval q)
    \<and> (\<exists>q. max_qty_with_quote_limit (asks (base_orderbook inputs))
              (max_notional_per_order (in_risk_config inputs)) = Inr q \<and> dval (target_qty s) \<le> dval q)
    \<and> (\<exists>q. max_qty_with_quote_limit (asks (base_orderbook inputs))
              (max_total_notional_per_bot (in_risk_config inputs)) = Inr q \<and> dval (target_qty s) \<le> dval q)"
proof -
  have "\<not> dle (target_qty s) d0" using assms(2) by (simp add: dcmp)
  from positive_size_is_sized [OF assms(1) this] obtain l where l: "size_limits_of inputs = Inr l"
    and le: "\<And>q. q \<in> set (qty_candidates inputs l) \<Longrightarrow> dval (target_qty s) \<le> dval q" by metis
  have q: "dval (target_qty s) \<le> dval (sl_buy_depth_qty l)" "dval (target_qty s) \<le> dval (sl_sell_depth_qty l)"
    "dval (target_qty s) \<le> dval (sl_buy_quote_qty l)"
    "dval (target_qty s) \<le> dval (available_base (hedge_balance inputs))"
    "dval (target_qty s) \<le> dval (sl_order_cap_qty l)" "dval (target_qty s) \<le> dval (sl_bot_cap_qty l)"
    by (rule le, simp add: qty_candidates_def)+
  show ?thesis using l q by (auto simp: size_limits_of_def Let_def res_simps)
qed

theorem candidate_size_within_limits_witness:
  "\<exists>s. compute_candidate_size sample_inputs = Inr s \<and> 0 < dval (target_qty s)
    \<and> dval (target_qty s) \<le> 12 / 10"
proof -
  have "case compute_candidate_size sample_inputs of Inl _ \<Rightarrow> False | Inr s \<Rightarrow> dlt d0 (target_qty s)"
    by code_simp
  then obtain s where s: "compute_candidate_size sample_inputs = Inr s" "0 < dval (target_qty s)"
    by (auto simp: dcmp split: sum.splits)
  from candidate_size_within_limits [OF s] s show ?thesis
    by (auto simp: sample_inputs_def sample_balance_def dval_def power_int_def)
qed

end
