(* ===== verification/Candidates.thy ===== *)
theory Candidates
  imports Decision
begin

text \<open>
  \<open>strategy/arbitrage_candidate_sets.py\<close>: every ordered pair of distinct candidate exchanges is
  evaluated, the accepted pair of the greatest rank (or, when none is accepted, the best rejected one)
  is selected, and the selection is recorded in the decision context. Two pair inputs of one candidate
  set are equal exactly when their exchanges are, so the code's \<open>==\<close> on them is HOL equality here.
\<close>

section \<open>Pairs and ranks\<close>

definition lookup_key :: "(string, 'a) dict \<Rightarrow> string \<Rightarrow> 'a res" where
  "lookup_key d k = (case map_of d k of None \<Rightarrow> Inl (KeyError k) | Some v \<Rightarrow> Inr v)"

definition pair_inputs :: "arbitrage_candidate_inputs \<Rightarrow> string \<Rightarrow> string \<Rightarrow> arbitrage_inputs res" where
  "pair_inputs ci buy sell =
     andThen (lookup_key (orderbooks_by_exchange ci) buy) (\<lambda>bo.
     andThen (lookup_key (orderbooks_by_exchange ci) sell) (\<lambda>ho.
     andThen (lookup_key (balances_by_exchange ci) buy) (\<lambda>bb.
     andThen (lookup_key (balances_by_exchange ci) sell) (\<lambda>hb. Inr
       \<lparr>in_bot_id = ci_bot_id ci, in_strategy_run_id = ci_strategy_run_id ci,
        in_canonical_symbol = ci_canonical_symbol ci, in_market = ci_market ci,
        base_exchange = buy, hedge_exchange = sell, base_orderbook = bo, hedge_orderbook = ho,
        base_balance = bb, hedge_balance = hb, in_risk_config = ci_risk_config ci,
        in_runtime_state = ci_runtime_state ci\<rparr>))))"

definition pair_orderbook_age_ms :: "arbitrage_inputs \<Rightarrow> int" where
  "pair_orderbook_age_ms inputs =
     max (age_ms (now (in_runtime_state inputs)) (ob_observed_at (base_orderbook inputs)))
         (age_ms (now (in_runtime_state inputs)) (ob_observed_at (hedge_orderbook inputs)))"

definition no_profit :: dec where
  "no_profit = Dec (-1000000000000000000) 0"

definition profit_quote :: "arbitrage_decision \<Rightarrow> dec" where
  "profit_quote d = (case executable_edge d of None \<Rightarrow> no_profit | Some e \<Rightarrow> executable_profit_quote e)"

definition profit_bps :: "arbitrage_decision \<Rightarrow> dec" where
  "profit_bps d = (case executable_edge d of None \<Rightarrow> no_profit | Some e \<Rightarrow> executable_profit_bps e)"

definition context_skew :: "arbitrage_decision \<Rightarrow> int res" where
  "context_skew d = py_int (por (pget (decision_context d) ''clock_skew_ms'') (PInt 0))"

datatype rank = Rank (rk_profit: dec) (rk_bps: dec) (rk_age: int) (rk_skew: int)
type_synonym entry = "arbitrage_inputs \<times> arbitrage_decision"

definition candidate_rank :: "entry \<Rightarrow> rank res" where
  \<comment> \<open>\<open>_accepted_rank\<close> and \<open>_fallback_rank\<close> have the same body\<close>
  "candidate_rank p = (case p of (inputs, d) \<Rightarrow>
     andThen (context_skew d) (\<lambda>skew.
       Inr (Rank (profit_quote d) (profit_bps d) (- pair_orderbook_age_ms inputs) (- skew))))"

fun rank_less :: "rank \<Rightarrow> rank \<Rightarrow> bool" where
  "rank_less (Rank p b a s) (Rank p' b' a' s') =
     (if \<not> deq p p' then dlt p p' else if \<not> deq b b' then dlt b b'
      else if a \<noteq> a' then a < a' else s < s')"

text \<open>\<open>max(entries, key=...)\<close>: the first entry of the greatest rank.\<close>

fun max_entry_from :: "rank \<Rightarrow> entry \<Rightarrow> entry list \<Rightarrow> entry res" where
  "max_entry_from r best [] = Inr best"
| "max_entry_from r best (x # xs) =
     andThen (candidate_rank x) (\<lambda>rx.
       if rank_less r rx then max_entry_from rx x xs else max_entry_from r best xs)"

fun max_entry :: "entry list \<Rightarrow> entry res" where
  "max_entry [] = Inl (ValueError ''max() arg is an empty sequence'')"
| "max_entry (x # xs) = andThen (candidate_rank x) (\<lambda>r. max_entry_from r x xs)"

section \<open>Summaries and selection context\<close>

definition candidate_summary :: "arbitrage_inputs \<Rightarrow> arbitrage_decision \<Rightarrow> string \<Rightarrow> obj res" where
  "candidate_summary inputs d status =
     andThen (context_skew d) (\<lambda>skew. Inr
      [(''market'', PStr (in_market inputs)),
       (''buy_exchange'', PStr (base_exchange inputs)),
       (''sell_exchange'', PStr (hedge_exchange inputs)),
       (''quote_pair_id'', PStr (raw_text (decision_context d) ''quote_pair_id'')),
       (''accepted'', PBool (accepted d)),
       (''selection_status'', PStr status),
       (''reason_code'', PStr (reason_code d)),
       (''executable_profit_quote'', edge_text executable_profit_quote (executable_edge d)),
       (''executable_profit_bps'', edge_text executable_profit_bps (executable_edge d)),
       (''max_orderbook_age_ms'', PInt (pair_orderbook_age_ms inputs)),
       (''clock_skew_ms'', PInt skew)])"

definition strs :: "string list \<Rightarrow> pyval" where
  "strs xs = PList (map PStr xs)"

definition summary_status :: "obj \<Rightarrow> string" where
  "summary_status s = raw_text s ''selection_status''"

definition selection_context ::
    "arbitrage_decision \<Rightarrow> string list \<Rightarrow> obj option \<Rightarrow> obj option \<Rightarrow> obj list \<Rightarrow> obj" where
  "selection_context d exchanges selected top_rejected summaries =
     dmerge (decision_context d)
      [(''candidate_exchanges'', strs exchanges),
       (''selected_pair'', opt_dict selected),
       (''selection'', PDict
         [(''candidate_exchanges'', strs exchanges),
          (''selected_pair'', opt_dict selected),
          (''top_rejected_candidate'', opt_dict top_rejected),
          (''evaluated_pairs'', PList (map PDict summaries)),
          (''rejected_candidates'', PList (map PDict (filter (\<lambda>s. summary_status s \<in>
             {''accepted_unselected'', ''rejected'', ''top_rejected''}) summaries))),
          (''accepted_candidate_count'',
             PInt (int (length (filter (\<lambda>s. truthy (pget s ''accepted'')) summaries))))])]"

definition plan_with_context :: "obj \<Rightarrow> order_intent_plan option \<Rightarrow> order_intent_plan option" where
  "plan_with_context c p = map_option (\<lambda>plan. plan\<lparr>oip_decision_context := c\<rparr>) p"

definition with_selection_context ::
    "arbitrage_decision \<Rightarrow> string list \<Rightarrow> obj option \<Rightarrow> obj option \<Rightarrow> obj list \<Rightarrow> arbitrage_decision" where
  "with_selection_context d exchanges selected top_rejected summaries =
     (let c = selection_context d exchanges selected top_rejected summaries
      in d\<lparr>dec_order_intent_plan := plan_with_context c (dec_order_intent_plan d), decision_context := c\<rparr>)"

section \<open>Evaluating a candidate set\<close>

fun exchange_pairs :: "string list \<Rightarrow> (string \<times> string) list" where
  "exchange_pairs xs = [(b, s). b \<leftarrow> xs, s \<leftarrow> xs, b \<noteq> s]"

definition evaluate_pair :: "arbitrage_candidate_inputs \<Rightarrow> string \<times> string \<Rightarrow> entry res" where
  "evaluate_pair ci p =
     andThen (pair_inputs ci (fst p) (snd p)) (\<lambda>inputs.
     andThen (evaluate_arbitrage inputs) (\<lambda>d. Inr (inputs, d)))"

definition selection_status :: "bool \<Rightarrow> entry \<Rightarrow> entry \<Rightarrow> string" where
  "selection_status has_selected sel x =
     (if raw_text (decision_context (snd x)) ''quote_pair_id''
           = raw_text (decision_context (snd sel)) ''quote_pair_id'' \<and> fst x = fst sel
      then (if has_selected then ''selected'' else ''top_rejected'')
      else if accepted (snd x) then ''accepted_unselected'' else ''rejected'')"

definition last_with_status :: "string \<Rightarrow> obj list \<Rightarrow> obj option" where
  \<comment> \<open>the summary the loop assigned last for this status\<close>
  "last_with_status st summaries =
     (case filter (\<lambda>s. summary_status s = st) summaries of [] \<Rightarrow> None | xs \<Rightarrow> Some (last xs))"

definition select_candidate :: "string list \<Rightarrow> entry list \<Rightarrow> arbitrage_decision res" where
  "select_candidate exchanges evaluated =
     (let accepted_entries = filter (\<lambda>x. accepted (snd x)) evaluated;
          has_selected = (accepted_entries \<noteq> [])
      in andThen (max_entry (if has_selected then accepted_entries else evaluated)) (\<lambda>sel.
         andThen (mapM (\<lambda>x. candidate_summary (fst x) (snd x) (selection_status has_selected sel x)) evaluated)
           (\<lambda>summaries. Inr (with_selection_context (snd sel) exchanges
              (last_with_status ''selected'' summaries)
              (last_with_status ''top_rejected'' summaries) summaries))))"

definition evaluate_arbitrage_candidate_set :: "arbitrage_candidate_inputs \<Rightarrow> arbitrage_decision res" where
  "evaluate_arbitrage_candidate_set ci =
     (if length (candidate_exchanges ci) < 2
      then Inl (ValueError ''candidate_exchanges must include at least two exchanges'')
      else andThen (mapM (evaluate_pair ci) (exchange_pairs (candidate_exchanges ci)))
             (select_candidate (candidate_exchanges ci)))"

section \<open>The selected entry has the greatest rank\<close>

lemma rank_less_irrefl: "\<not> rank_less r r"
  by (cases r) (auto simp: dcmp)

lemma rank_less_trans: "rank_less a b \<Longrightarrow> rank_less b c \<Longrightarrow> rank_less a c"
  by (cases a; cases b; cases c) (auto simp: dcmp split: if_splits)

lemma rank_not_less_trans: "\<not> rank_less a b \<Longrightarrow> \<not> rank_less b c \<Longrightarrow> \<not> rank_less a c"
  by (cases a; cases b; cases c) (auto simp: dcmp split: if_splits)

lemma rank_linear: "rank_less a b \<Longrightarrow> \<not> rank_less b a"
  using rank_less_trans rank_less_irrefl by blast

declare rank_less.simps [simp del]

definition outranks :: "rank \<Rightarrow> entry \<Rightarrow> bool" where
  "outranks r x = (case candidate_rank x of Inl _ \<Rightarrow> False | Inr rx \<Rightarrow> \<not> rank_less r rx)"

lemma outranks_trans: "\<not> rank_less a b \<Longrightarrow> outranks b x \<Longrightarrow> outranks a x"
  using rank_not_less_trans by (auto simp: outranks_def split: sum.splits)

lemma max_entry_from_spec:
  assumes "max_entry_from r best xs = Inr m" "candidate_rank best = Inr r"
  shows "m \<in> set (best # xs) \<and> (\<exists>rm. candidate_rank m = Inr rm \<and> \<not> rank_less rm r
    \<and> (\<forall>x \<in> set xs. outranks rm x))"
  using assms
proof (induction xs arbitrary: r best)
  case Nil
  then show ?case using rank_less_irrefl by auto
next
  case (Cons x xs)
  from Cons.prems obtain rx where rx: "candidate_rank x = Inr rx" by (auto simp: res_simps)
  show ?case
  proof (cases "rank_less r rx")
    case True
    with Cons.prems rx have "max_entry_from rx x xs = Inr m" by simp
    from Cons.IH [OF this rx] obtain rm where m: "m \<in> set (x # xs)" "candidate_rank m = Inr rm"
      "\<not> rank_less rm rx" "\<forall>y \<in> set xs. outranks rm y" by blast
    have "\<not> rank_less rm r" using m(3) rank_linear [OF True] rank_not_less_trans by blast
    moreover have "outranks rm x" using rx m(3) by (simp add: outranks_def)
    ultimately show ?thesis using m by auto
  next
    case False
    with Cons.prems rx have "max_entry_from r best xs = Inr m" by simp
    from Cons.IH [OF this Cons.prems(2)] obtain rm where m: "m \<in> set (best # xs)"
      "candidate_rank m = Inr rm" "\<not> rank_less rm r" "\<forall>y \<in> set xs. outranks rm y" by blast
    have "outranks rm x" using rx m(3) False rank_not_less_trans by (auto simp: outranks_def)
    then show ?thesis using m by auto
  qed
qed

lemma max_entry_spec:
  assumes "max_entry xs = Inr m"
  shows "m \<in> set xs \<and> (\<exists>rm. candidate_rank m = Inr rm \<and> (\<forall>x \<in> set xs. outranks rm x))"
proof (cases xs)
  case Nil
  with assms show ?thesis by simp
next
  case (Cons x ys)
  with assms obtain r where r: "candidate_rank x = Inr r" "max_entry_from r x ys = Inr m"
    by (auto simp: res_simps)
  from max_entry_from_spec [OF r(2,1)] r(1) show ?thesis by (auto simp: Cons outranks_def)
qed

lemma max_entry_from_returns:
  "\<forall>x \<in> set xs. returns (candidate_rank x) \<Longrightarrow> returns (max_entry_from r best xs)"
  by (induction xs arbitrary: r best) (auto intro!: returns_andThen)

lemma max_entry_returns: "xs \<noteq> [] \<Longrightarrow> \<forall>x \<in> set xs. returns (candidate_rank x) \<Longrightarrow> returns (max_entry xs)"
  by (cases xs) (auto intro!: returns_andThen max_entry_from_returns)

section \<open>Evaluated pairs\<close>

lemma evaluated_pair_facts:
  assumes "evaluate_pair ci p = Inr x"
  shows "evaluate_arbitrage (fst x) = Inr (snd x)" "pair_inputs ci (fst p) (snd p) = Inr (fst x)"
    "base_exchange (fst x) = fst p" "hedge_exchange (fst x) = snd p" "in_market (fst x) = ci_market ci"
  using assms by (auto simp: evaluate_pair_def pair_inputs_def res_simps)

lemma context_skew_evaluated:
  "evaluate_arbitrage inputs = Inr d \<Longrightarrow> context_skew d = Inr (skew_ms inputs)"
  by (drule evaluate_context) (auto simp: context_skew_def recorded_fields por_def)

lemma rank_evaluated:
  assumes "mapM (evaluate_pair ci) ps = Inr ev" "x \<in> set ev"
  shows "candidate_rank x = Inr (Rank (profit_quote (snd x)) (profit_bps (snd x))
    (- pair_orderbook_age_ms (fst x)) (- skew_ms (fst x)))"
proof -
  from mapM_set [OF assms] obtain p where "evaluate_pair ci p = Inr x" by blast
  from context_skew_evaluated [OF evaluated_pair_facts(1) [OF this]]
  show ?thesis by (cases x) (simp add: candidate_rank_def)
qed

lemma summary_evaluated:
  assumes "mapM (evaluate_pair ci) ps = Inr ev" "x \<in> set ev"
  shows "returns (candidate_summary (fst x) (snd x) st)"
proof -
  from mapM_set [OF assms] obtain p where "evaluate_pair ci p = Inr x" by blast
  from context_skew_evaluated [OF evaluated_pair_facts(1) [OF this]]
  show ?thesis by (simp add: candidate_summary_def)
qed

lemma select_candidate_returns:
  assumes "mapM (evaluate_pair ci) ps = Inr ev" "ev \<noteq> []"
  shows "returns (select_candidate xs ev)"
proof -
  have r: "\<forall>x \<in> set ev. returns (candidate_rank x)" using rank_evaluated [OF assms(1)] by simp
  have "returns (max_entry (if filter (\<lambda>x. accepted (snd x)) ev \<noteq> [] then filter (\<lambda>x. accepted (snd x)) ev else ev))"
    using assms(2) r by (intro max_entry_returns) auto
  then show ?thesis
    unfolding select_candidate_def Let_def
    by (intro returns_andThen) (auto intro!: mapM_returns summary_evaluated [OF assms(1)])
qed

lemma with_selection_fields [simp]:
  "accepted (with_selection_context d xs a b ss) = accepted d"
  "reason_code (with_selection_context d xs a b ss) = reason_code d"
  "executable_edge (with_selection_context d xs a b ss) = executable_edge d"
  "candidate_size (with_selection_context d xs a b ss) = candidate_size d"
  "dec_reservation_plan (with_selection_context d xs a b ss) = dec_reservation_plan d"
  "decision_context (with_selection_context d xs a b ss) = selection_context d xs a b ss"
  "dec_order_intent_plan (with_selection_context d xs a b ss) =
     plan_with_context (selection_context d xs a b ss) (dec_order_intent_plan d)"
  by (simp_all add: with_selection_context_def Let_def)

definition best_of :: "entry \<Rightarrow> entry list \<Rightarrow> bool" where
  \<comment> \<open>no entry has a greater rank\<close>
  "best_of x xs = (x \<in> set xs \<and> list_all (\<lambda>y. case (candidate_rank x, candidate_rank y) of
     (Inr rx, Inr ry) \<Rightarrow> \<not> rank_less rx ry | _ \<Rightarrow> False) xs)"

lemma best_of_max_entry: "max_entry xs = Inr m \<Longrightarrow> best_of m xs"
  using max_entry_spec [of xs m]
  by (auto simp: best_of_def list_all_iff outranks_def split: sum.splits)


lemma mapM_pairs_returns:
  assumes "\<forall>x \<in> set xs. map_of (orderbooks_by_exchange ci) x \<noteq> None \<and> map_of (balances_by_exchange ci) x \<noteq> None"
    "set ps \<subseteq> set xs \<times> set xs"
  shows "returns (mapM (evaluate_pair ci) ps)"
proof (rule mapM_returns)
  fix p assume "p \<in> set ps"
  with assms(2) have "fst p \<in> set xs" "snd p \<in> set xs" by auto
  with assms(1) have "returns (pair_inputs ci (fst p) (snd p))"
    by (fastforce simp: pair_inputs_def lookup_key_def intro!: returns_andThen split: option.splits)
  then show "returns (evaluate_pair ci p)"
    using evaluate_returns by (auto simp: evaluate_pair_def intro!: returns_andThen)
qed

lemma exchange_pairs_set: "set (exchange_pairs xs) = {(b, s). b \<in> set xs \<and> s \<in> set xs \<and> b \<noteq> s}"
  by auto

lemma candidate_set_returns:
  assumes "\<forall>x \<in> set (candidate_exchanges ci).
      map_of (orderbooks_by_exchange ci) x \<noteq> None \<and> map_of (balances_by_exchange ci) x \<noteq> None"
    and ab: "a \<in> set (candidate_exchanges ci)" "b \<in> set (candidate_exchanges ci)" "a \<noteq> b"
  shows "returns (evaluate_arbitrage_candidate_set ci)"
proof -
  let ?ps = "exchange_pairs (candidate_exchanges ci)"
  have "card {a, b} \<le> length (candidate_exchanges ci)"
    using ab by (intro order_trans [OF card_mono card_length]) auto
  then have len: "\<not> length (candidate_exchanges ci) < 2" using ab(3) by simp
  have "(a, b) \<in> set ?ps" unfolding exchange_pairs_set using ab by simp
  then have ne: "?ps \<noteq> []" by (metis empty_iff list.set(1))
  have "set ?ps \<subseteq> set (candidate_exchanges ci) \<times> set (candidate_exchanges ci)"
    unfolding exchange_pairs_set by auto
  from mapM_pairs_returns [OF assms(1) this] obtain ev where ev: "mapM (evaluate_pair ci) ?ps = Inr ev"
    by (auto simp: returns_iff)
  with ne have "ev \<noteq> []" using mapM_length [OF ev] by auto
  from select_candidate_returns [OF ev this] show ?thesis
    using len ev by (simp add: evaluate_arbitrage_candidate_set_def del: exchange_pairs.simps)
qed

definition sample_candidates :: arbitrage_candidate_inputs where
  "sample_candidates = \<lparr>ci_bot_id = ''bot-1'', ci_strategy_run_id = ''run-1'', ci_canonical_symbol = ''BTC'',
     ci_market = ''BTC-KRW'', candidate_exchanges = [''bithumb'', ''upbit''],
     orderbooks_by_exchange = [(''bithumb'', sample_buy_book), (''upbit'', sample_sell_book)],
     balances_by_exchange = [(''bithumb'', sample_balance ''bithumb'' (Dec 0 0) (Dec 1000 0)),
       (''upbit'', sample_balance ''upbit'' (Dec 12 (-1)) (Dec 0 0))],
     ci_risk_config = sample_risk, ci_runtime_state = sample_state\<rparr>"

lemma sample_candidates_facts:
  "\<forall>x \<in> set (candidate_exchanges sample_candidates).
     map_of (orderbooks_by_exchange sample_candidates) x \<noteq> None
     \<and> map_of (balances_by_exchange sample_candidates) x \<noteq> None"
  "''bithumb'' \<in> set (candidate_exchanges sample_candidates)"
  "''upbit'' \<in> set (candidate_exchanges sample_candidates)"
  by (simp_all add: sample_candidates_def)


text \<open>
  A candidate set with at least two different exchanges, each with a book and balances, is always
  decided; with fewer than two exchanges the call is refused.
\<close>

theorem candidate_set_total:
  assumes "list_all (\<lambda>x. map_of (orderbooks_by_exchange ci) x \<noteq> None
      \<and> map_of (balances_by_exchange ci) x \<noteq> None) (candidate_exchanges ci)"
  shows "(length (candidate_exchanges ci) < 2 \<longrightarrow> (\<exists>m. evaluate_arbitrage_candidate_set ci = Inl (ValueError m)))
    \<and> (1 < length (remdups (candidate_exchanges ci)) \<longrightarrow> (\<exists>d. evaluate_arbitrage_candidate_set ci = Inr d))"
proof (intro conjI impI)
  assume "length (candidate_exchanges ci) < 2"
  then show "\<exists>m. evaluate_arbitrage_candidate_set ci = Inl (ValueError m)"
    by (simp add: evaluate_arbitrage_candidate_set_def)
next
  assume l: "1 < length (remdups (candidate_exchanges ci))"
  then obtain a b r where r: "remdups (candidate_exchanges ci) = a # b # r"
    using two_elements [of "remdups (candidate_exchanges ci)"] by auto
  then have "a \<noteq> b" using distinct_remdups [of "candidate_exchanges ci"] by auto
  moreover have "a \<in> set (candidate_exchanges ci)" "b \<in> set (candidate_exchanges ci)"
    using r by (metis list.set_intros set_remdups)+
  ultimately show "\<exists>d. evaluate_arbitrage_candidate_set ci = Inr d"
    using candidate_set_returns [of ci a b] assms by (auto simp: list_all_iff returns_iff)
qed

theorem candidate_set_total_witness: "\<exists>d. evaluate_arbitrage_candidate_set sample_candidates = Inr d"
proof -
  have "list_all (\<lambda>x. map_of (orderbooks_by_exchange sample_candidates) x \<noteq> None
      \<and> map_of (balances_by_exchange sample_candidates) x \<noteq> None) (candidate_exchanges sample_candidates)"
    using sample_candidates_facts(1) by (simp add: list_all_iff)
  moreover have "1 < length (remdups (candidate_exchanges sample_candidates))"
    by (simp add: sample_candidates_def)
  ultimately show ?thesis using candidate_set_total by blast
qed

end
