(* ===== verification/PairLock.thy ===== *)
theory PairLock
  imports Candidates Lifecycle
begin

text \<open>
  \<open>strategy/arbitrage_pair_lock.py\<close>: which evaluation holds the lock of its market pair, the identity and
  payload of that lock, and how a decision changes when the lock is held by another owner (blocked)
  or was acquired. The lock store itself is \<open>redis_runtime.py\<close>.
  Also \<open>strategy/arbitrage_evaluation_payload.py\<close>, the payload published for an evaluation.
\<close>

section \<open>Identity of a pair lock\<close>

definition ACTIVE_PAIR_LOCK_LIFECYCLE_STATES :: "string list" where
  "ACTIVE_PAIR_LOCK_LIFECYCLE_STATES = [''manual_handoff'', ''unwind_in_progress'', ''recovery_required'',
     ''entry_open'', ''entry_submitting'', ''hedge_balanced'', ''intent_created'']"

definition pair_lock_owner_id :: "string \<Rightarrow> string \<Rightarrow> string" where
  "pair_lock_owner_id bot_id run_id = bot_id @ '':'' @ run_id"

definition strip_opt :: "string option \<Rightarrow> string" where
  \<comment> \<open>\<open>str(x or '').strip()\<close>\<close>
  "strip_opt x = (case x of None \<Rightarrow> [] | Some s \<Rightarrow> strip s)"

definition pair_lock_identity_from_context :: "pyval \<Rightarrow> string option \<Rightarrow> obj option" where
  "pair_lock_identity_from_context ctx market = (case ctx of
      PDict c \<Rightarrow>
        (let quote_pair = text_of c ''quote_pair_id'';
             selected = as_dict (pget c ''selected_pair'');
             m = strip_opt market;
             m' = (case selected of None \<Rightarrow> m | Some sp \<Rightarrow> if m = [] then text_of sp ''market'' else m)
         in if quote_pair = [] then None
            else Some [(''market'', PStr m'), (''quote_pair_id'', PStr quote_pair),
                       (''selected_pair'', opt_dict selected)])
    | _ \<Rightarrow> None)"

definition pair_lock_identity_from_payload :: "obj \<Rightarrow> obj option" where
  "pair_lock_identity_from_payload payload =
     (case pget payload ''decision_context'' of
        PDict c \<Rightarrow> pair_lock_identity_from_context (PDict c) (Some (text_of payload ''market''))
      | _ \<Rightarrow> None)"

definition should_hold_pair_lock :: "obj \<Rightarrow> bool" where
  "should_hold_pair_lock payload =
     (if text_of payload ''lifecycle_preview'' \<notin> set ACTIVE_PAIR_LOCK_LIFECYCLE_STATES then False
      else pair_lock_identity_from_payload payload \<noteq> None)"

definition pair_lock_acquired_at :: "pyval \<Rightarrow> string option" where
  "pair_lock_acquired_at ctx = (case ctx of
      PDict c \<Rightarrow> (case pget c ''pair_lock'' of
          PDict lock \<Rightarrow> (let t = text_of lock ''acquired_at'' in if t = [] then None else Some t)
        | _ \<Rightarrow> None)
    | _ \<Rightarrow> None)"

record pair_lock_args =
  pl_bot_id :: string
  pl_strategy_run_id :: string
  pl_owner_id :: string
  pl_market :: string
  pl_quote_pair_id :: string
  pl_lifecycle_state :: string
  pl_selected_pair :: "obj option"
  pl_acquired_at :: string
  pl_intent_id :: "string option"
  pl_recovery_trace_id :: "string option"

definition build_pair_lock_payload :: "pair_lock_args \<Rightarrow> obj" where
  "build_pair_lock_payload a =
     [(''owner_id'', PStr (pl_owner_id a)), (''bot_id'', PStr (pl_bot_id a)),
      (''strategy_run_id'', PStr (pl_strategy_run_id a)), (''market'', PStr (pl_market a)),
      (''quote_pair_id'', PStr (pl_quote_pair_id a)), (''selected_pair'', opt_dict (pl_selected_pair a)),
      (''lifecycle_state'', PStr (pl_lifecycle_state a)), (''intent_id'', opt_str (pl_intent_id a)),
      (''recovery_trace_id'', opt_str (pl_recovery_trace_id a)),
      (''acquired_at'', PStr (pl_acquired_at a))]"

section \<open>Decisions under a lock\<close>

definition build_pair_lock_blocked_decision :: "arbitrage_decision \<Rightarrow> obj option \<Rightarrow> arbitrage_decision" where
  "build_pair_lock_blocked_decision d existing =
     \<lparr>accepted = False, reason_code = ''PAIR_LOCK_ACTIVE'', gate_checks = gate_checks d,
      candidate_size = candidate_size d, executable_edge = executable_edge d,
      dec_reservation_plan = dec_reservation_plan d, dec_order_intent_plan = None,
      decision_context = dset (decision_context d) ''pair_lock''
        (PDict [(''state'', PStr ''blocked''),
                (''existing_lock'', PDict (case existing of None \<Rightarrow> [] | Some l \<Rightarrow> l))])\<rparr>"

definition attach_pair_lock_context :: "arbitrage_decision \<Rightarrow> obj \<Rightarrow> string \<Rightarrow> arbitrage_decision" where
  "attach_pair_lock_context d lock st =
     (let c = dset (decision_context d) ''pair_lock'' (PDict (dmerge [(''state'', PStr st)] lock))
      in d\<lparr>dec_order_intent_plan := plan_with_context c (dec_order_intent_plan d), decision_context := c\<rparr>)"

section \<open>The evaluation payload\<close>

definition candidate_size_payload :: "arbitrage_decision \<Rightarrow> pyval" where
  "candidate_size_payload d = (case candidate_size d of None \<Rightarrow> PNone | Some s \<Rightarrow> PDict
     [(''target_qty'', dec_val (target_qty s)),
      (''components'', PDict (map (\<lambda>(k, v). (k, PStr v)) (components s)))])"

definition executable_edge_payload :: "arbitrage_decision \<Rightarrow> pyval" where
  "executable_edge_payload d = (case executable_edge d of None \<Rightarrow> PNone | Some e \<Rightarrow> PDict
     [(''executable_buy_cost_quote'', dec_val (executable_buy_cost_quote e)),
      (''executable_sell_proceeds_quote'', dec_val (executable_sell_proceeds_quote e)),
      (''gross_profit_quote'', dec_val (gross_profit_quote e)),
      (''executable_profit_quote'', dec_val (executable_profit_quote e)),
      (''executable_profit_bps'', dec_val (executable_profit_bps e)),
      (''fee_buy_quote'', dec_val (fee_buy_quote e)),
      (''fee_sell_quote'', dec_val (fee_sell_quote e)),
      (''buy_slippage_buffer_quote'', dec_val (buy_slippage_buffer_quote e)),
      (''sell_slippage_buffer_quote'', dec_val (sell_slippage_buffer_quote e)),
      (''unwind_buffer_quote'', dec_val (unwind_buffer_quote e)),
      (''rebalance_buffer_quote'', dec_val (rebalance_buffer_quote e)),
      (''total_fee_quote'', dec_val (total_fee_quote e)),
      (''total_cost_adjustment_quote'', dec_val (total_cost_adjustment_quote e))])"

definition reservation_plan_payload :: "arbitrage_decision \<Rightarrow> pyval" where
  "reservation_plan_payload d = (case dec_reservation_plan d of None \<Rightarrow> PNone | Some r \<Rightarrow> PDict
     [(''reservation_passed'', PBool (reservation_passed r)), (''reason_code'', opt_str (rp_reason_code r)),
      (''quote_required'', dec_val (quote_required r)), (''base_required'', dec_val (base_required r)),
      (''reserved_notional'', dec_val (reserved_notional r)),
      (''details'', PDict (map (\<lambda>(k, v). (k, PStr v)) (rp_details r)))])"

definition submit_failure_preview :: "arbitrage_decision \<Rightarrow> pyval option" where
  "submit_failure_preview d =
     (if \<not> accepted d then None
      else let ok = (case dec_reservation_plan d of None \<Rightarrow> False | Some r \<Rightarrow> reservation_passed r)
        in Some (PDict
          [(''without_auto_unwind'',
             pget (classify_submit_failure_transition True ok True False False) ''next_state''),
           (''with_auto_unwind'',
             pget (classify_submit_failure_transition True ok True True False) ''next_state'')]))"

definition decision_lifecycle :: "arbitrage_decision \<Rightarrow> obj option \<Rightarrow> string" where
  "decision_lifecycle d persisted = derive_arbitrage_lifecycle_state
     \<lparr>lf_decision_accepted = accepted d, lf_has_order_intents = (persisted \<noteq> None),
      lf_has_submitted_orders = False, lf_has_open_orders = False, lf_hedge_balanced = False,
      lf_recovery_required = False, lf_unwind_in_progress = False, lf_manual_handoff = False\<rparr>"

definition opt_entry :: "string \<Rightarrow> pyval option \<Rightarrow> obj" where
  "opt_entry k v = (case v of None \<Rightarrow> [] | Some x \<Rightarrow> [(k, x)])"

definition build_arbitrage_evaluation_payload ::
    "arbitrage_decision \<Rightarrow> string \<Rightarrow> string \<Rightarrow> obj option \<Rightarrow> string option \<Rightarrow> obj option \<Rightarrow> obj" where
  "build_arbitrage_evaluation_payload d bot_id run_id persisted override submit =
     (let lifecycle = (case override of
            None \<Rightarrow> decision_lifecycle d persisted
          | Some s \<Rightarrow> if s = [] then decision_lifecycle d persisted else s)
      in [(''bot_id'', PStr bot_id), (''strategy_run_id'', PStr run_id), (''accepted'', PBool (accepted d)),
          (''reason_code'', PStr (reason_code d)), (''lifecycle_preview'', PStr lifecycle),
          (''decision_context'', PDict (decision_context d)),
          (''candidate_size'', candidate_size_payload d), (''executable_edge'', executable_edge_payload d),
          (''reservation_plan'', reservation_plan_payload d)]
         @ opt_entry ''submit_failure_preview'' (submit_failure_preview d)
         @ opt_entry ''persisted_intent'' (map_option PDict persisted)
         @ opt_entry ''submit_result'' (map_option PDict submit))"

section \<open>Facts\<close>

lemma text_of_Cons: "text_of ((k, v) # d) k' = (if k' = k then strip (py_str (por v (PStr []))) else text_of d k')"
  by (simp add: text_of_def raw_text_def pget_Cons)

lemma payload_keys [simp]:
  "pget (build_arbitrage_evaluation_payload d bot_id run_id persisted override submit) ''decision_context''
     = PDict (decision_context d)"
  "pget (build_arbitrage_evaluation_payload d bot_id run_id persisted override submit) ''accepted''
     = PBool (accepted d)"
  "pget (build_arbitrage_evaluation_payload d bot_id run_id persisted override submit) ''market'' = PNone"
  by (simp_all add: build_arbitrage_evaluation_payload_def Let_def pget_def map_of_append opt_entry_def
      map_add_def split: option.splits)

lemma decision_lifecycle_simp:
  "decision_lifecycle d persisted = (if persisted \<noteq> None then ''intent_created''
     else if accepted d then ''decision_accepted'' else ''decision_rejected'')"
  unfolding decision_lifecycle_def derive_arbitrage_lifecycle_state_def STATE_PRIORITY_def
  by (simp add: active_states_mem flag_list_def)

lemma attach_fields [simp]:
  "accepted (attach_pair_lock_context d lock st) = accepted d"
  "reason_code (attach_pair_lock_context d lock st) = reason_code d"
  "decision_context (attach_pair_lock_context d lock st) =
     dset (decision_context d) ''pair_lock'' (PDict (dmerge [(''state'', PStr st)] lock))"
  "dec_order_intent_plan (attach_pair_lock_context d lock st) = plan_with_context
     (dset (decision_context d) ''pair_lock'' (PDict (dmerge [(''state'', PStr st)] lock))) (dec_order_intent_plan d)"
  by (simp_all add: attach_pair_lock_context_def Let_def)

section \<open>Properties\<close>

text \<open>
  Publishing an evaluation keeps the pair locked exactly while something can still be open: for the
  payload of an evaluated decision, the lock is held when an intent was persisted, and released when
  none was, whatever the decision, unless the lifecycle is overridden; the pair identified is the one
  evaluated.
\<close>

theorem evaluation_payload_holds_lock:
  assumes "evaluate_arbitrage inputs = Inr d" "strip (in_market inputs) = in_market inputs"
    and "strip (base_exchange inputs @ '':'' @ in_market inputs @ ''|'' @ hedge_exchange inputs @ '':'' @ in_market inputs)
       = base_exchange inputs @ '':'' @ in_market inputs @ ''|'' @ hedge_exchange inputs @ '':'' @ in_market inputs"
  shows "should_hold_pair_lock (build_arbitrage_evaluation_payload d bot_id run_id persisted None submit)
      = (persisted \<noteq> None)
    \<and> map_option (\<lambda>i. pget i ''quote_pair_id'') (pair_lock_identity_from_payload
         (build_arbitrage_evaluation_payload d bot_id run_id persisted None submit))
      = Some (PStr (base_exchange inputs @ '':'' @ in_market inputs @ ''|'' @ hedge_exchange inputs @ '':'' @ in_market inputs))"
proof -
  let ?p = "build_arbitrage_evaluation_payload d bot_id run_id persisted None submit"
  let ?q = "base_exchange inputs @ '':'' @ in_market inputs @ ''|'' @ hedge_exchange inputs @ '':'' @ in_market inputs"
  have q: "text_of (decision_context d) ''quote_pair_id'' = ?q"
    using text_of_str [OF recorded_fields(3) [OF evaluate_context [OF assms(1)]]] assms(3) by simp
  have id: "map_option (\<lambda>i. pget i ''quote_pair_id'') (pair_lock_identity_from_payload ?p) = Some (PStr ?q)"
    unfolding pair_lock_identity_from_payload_def payload_keys pyval.case pair_lock_identity_from_context_def q Let_def
    by (simp add: pget_Cons)
  have lc: "text_of ?p ''lifecycle_preview'' = strip (decision_lifecycle d persisted)"
    by (simp add: build_arbitrage_evaluation_payload_def Let_def text_of_Cons por_def decision_lifecycle_simp)
  have "strip ''intent_created'' = ''intent_created''" "strip ''decision_accepted'' = ''decision_accepted''"
    "strip ''decision_rejected'' = ''decision_rejected''" by code_simp+
  with id lc show ?thesis
    by (auto simp: should_hold_pair_lock_def decision_lifecycle_simp ACTIVE_PAIR_LOCK_LIFECYCLE_STATES_def)
qed

theorem evaluation_payload_holds_lock_witness:
  "\<exists>d. evaluate_arbitrage sample_inputs = Inr d
    \<and> should_hold_pair_lock (build_arbitrage_evaluation_payload d ''bot-1'' ''run-1'' (Some []) None None)"
proof -
  obtain d where d: "evaluate_arbitrage sample_inputs = Inr d" using sample_accepted by blast
  have m: "strip (in_market sample_inputs) = in_market sample_inputs"
    "strip (base_exchange sample_inputs @ '':'' @ in_market sample_inputs @ ''|'' @ hedge_exchange sample_inputs
       @ '':'' @ in_market sample_inputs)
     = base_exchange sample_inputs @ '':'' @ in_market sample_inputs @ ''|'' @ hedge_exchange sample_inputs
       @ '':'' @ in_market sample_inputs" by code_simp+
  from evaluation_payload_holds_lock [OF d m] d show ?thesis by blast
qed

text \<open>
  A lock changes what is submitted and nothing else: a blocked decision is rejected with
  \<open>PAIR_LOCK_ACTIVE\<close> and has no plan, an acquired one keeps its acceptance and its plan's orders; both
  keep size, edge and reservation, and record the lock beside the context they had.
\<close>

theorem pair_lock_decisions:
  "\<not> accepted (build_pair_lock_blocked_decision d existing)
   \<and> reason_code (build_pair_lock_blocked_decision d existing) = ''PAIR_LOCK_ACTIVE''
   \<and> dec_order_intent_plan (build_pair_lock_blocked_decision d existing) = None
   \<and> accepted (attach_pair_lock_context d lock st) = accepted d
   \<and> map_option (\<lambda>p. p\<lparr>oip_decision_context := []\<rparr>) (dec_order_intent_plan (attach_pair_lock_context d lock st))
       = map_option (\<lambda>p. p\<lparr>oip_decision_context := []\<rparr>) (dec_order_intent_plan d)
   \<and> map_option oip_decision_context (dec_order_intent_plan (attach_pair_lock_context d lock st))
       = map_option (\<lambda>_. decision_context (attach_pair_lock_context d lock st)) (dec_order_intent_plan d)
   \<and> (\<forall>e \<in> {build_pair_lock_blocked_decision d existing, attach_pair_lock_context d lock st}.
       candidate_size e = candidate_size d \<and> executable_edge e = executable_edge d
       \<and> dec_reservation_plan e = dec_reservation_plan d
       \<and> (\<forall>k. k \<noteq> ''pair_lock'' \<longrightarrow> pget (decision_context e) k = pget (decision_context d) k))"
  by (auto simp: build_pair_lock_blocked_decision_def attach_pair_lock_context_def plan_with_context_def
      Let_def option.map_comp comp_def)

theorem pair_lock_decisions_witness:
  "\<exists>d. evaluate_arbitrage sample_inputs = Inr d
    \<and> candidate_size (build_pair_lock_blocked_decision d None) = candidate_size d"
proof -
  obtain d where d: "evaluate_arbitrage sample_inputs = Inr d" using sample_accepted by blast
  with pair_lock_decisions [of d None "[]" "''acquired''"] show ?thesis by auto
qed

end
