(* ===== verification/InputLoader.thy ===== *)
theory InputLoader
  imports Candidates
begin

text \<open>
  \<open>strategy/arbitrage_input_loader.py\<close>: evaluation inputs read from request payloads. Every lookup,
  conversion and parse can raise, in the order of the source. A payload's times are text (JSON has no
  other form); \<open>dict(x)\<close> accepts an object or a list of two-element lists with text keys.
\<close>

section \<open>Conversions\<close>

definition replace_Z :: "string \<Rightarrow> string" where
  \<comment> \<open>\<open>value.replace('Z', '+00:00')\<close>\<close>
  "replace_Z s = concat (map (\<lambda>c. if c = CHR ''Z'' then ''+00:00'' else [c]) s)"

definition parse_datetime :: "pyval \<Rightarrow> time res" where
  "parse_datetime v = (case v of
      PStr s \<Rightarrow> (case parse_iso (replace_Z s) of
          None \<Rightarrow> Inl (ValueError ''Invalid isoformat string'') | Some t \<Rightarrow> Inr t)
    | _ \<Rightarrow> Inl (TypeError ''datetime must be str or datetime''))"

fun py_list :: "pyval \<Rightarrow> pyval list res" where
  "py_list (PList xs) = Inr xs"
| "py_list (PDict d) = Inr (map (PStr \<circ> fst) d)"
| "py_list (PStr s) = Inr (map (\<lambda>c. PStr [c]) s)"
| "py_list _ = Inl (TypeError ''object is not iterable'')"

fun py_pair :: "pyval \<Rightarrow> (string \<times> pyval) res" where
  "py_pair (PList [PStr k, v]) = Inr (k, v)"
| "py_pair (PStr [a, b]) = Inr ([a], PStr [b])"
| "py_pair _ = Inl (TypeError ''cannot convert dictionary update sequence element'')"

fun py_dict :: "pyval \<Rightarrow> obj res" where
  "py_dict (PDict d) = Inr d"
| "py_dict (PList xs) = andThen (mapM py_pair xs) (\<lambda>ps. Inr (dmerge [] ps))"
| "py_dict (PStr s) = (if s = [] then Inr [] else Inl (ValueError ''dictionary update sequence element''))"
| "py_dict _ = Inl (TypeError ''object is not iterable'')"

definition dec_item :: "obj \<Rightarrow> string \<Rightarrow> dec res" where
  "dec_item d k = andThen (pitem d k) py_decimal"

definition int_item :: "obj \<Rightarrow> string \<Rightarrow> int res" where
  "int_item d k = andThen (pitem d k) py_int"

definition str_item :: "obj \<Rightarrow> string \<Rightarrow> string res" where
  "str_item d k = andThen (pitem d k) (\<lambda>v. Inr (py_str v))"

definition time_item :: "obj \<Rightarrow> string \<Rightarrow> time res" where
  "time_item d k = andThen (pitem d k) parse_datetime"

definition dec_or :: "obj \<Rightarrow> string \<Rightarrow> string \<Rightarrow> dec res" where
  "dec_or d k dflt = py_decimal (pget_or d k (PStr dflt))"

definition int_or :: "obj \<Rightarrow> string \<Rightarrow> int \<Rightarrow> int res" where
  "int_or d k dflt = py_int (pget_or d k (PInt dflt))"

definition bool_or :: "obj \<Rightarrow> string \<Rightarrow> bool \<Rightarrow> bool" where
  "bool_or d k dflt = truthy (pget_or d k (PBool dflt))"

definition item_of :: "pyval \<Rightarrow> string \<Rightarrow> pyval res" where
  \<comment> \<open>\<open>item[k]\<close> for an item that should be an object\<close>
  "item_of v k = (case v of PDict d \<Rightarrow> pitem d k | _ \<Rightarrow> Inl (TypeError ''indices must be integers''))"

section \<open>Snapshots\<close>

definition load_level :: "pyval \<Rightarrow> orderbook_level res" where
  "load_level v =
     andThen (andThen (item_of v ''price'') py_decimal) (\<lambda>p.
     andThen (andThen (item_of v ''quantity'') py_decimal) (\<lambda>q.
       Inr \<lparr>price = p, quantity = q\<rparr>))"

definition load_levels :: "pyval list \<Rightarrow> orderbook_level list res" where
  "load_levels = mapM load_level"

definition load_orderbook_snapshot :: "obj \<Rightarrow> orderbook_snapshot res" where
  "load_orderbook_snapshot d =
     andThen (str_item d ''exchange_name'') (\<lambda>ex.
     andThen (str_item d ''market'') (\<lambda>mk.
     andThen (time_item d ''observed_at'') (\<lambda>t.
     andThen (andThen (andThen (pitem d ''asks'') py_list) load_levels) (\<lambda>as.
     andThen (andThen (andThen (pitem d ''bids'') py_list) load_levels) (\<lambda>bs.
       Inr \<lparr>ob_exchange_name = ex, ob_market = mk, ob_observed_at = t, asks = as, bids = bs,
            connector_healthy = bool_or d ''connector_healthy'' True\<rparr>)))))"

definition load_balance_snapshot :: "obj \<Rightarrow> balance_snapshot res" where
  "load_balance_snapshot d =
     andThen (str_item d ''exchange_name'') (\<lambda>ex.
     andThen (str_item d ''base_asset'') (\<lambda>ba.
     andThen (str_item d ''quote_asset'') (\<lambda>qa.
     andThen (dec_item d ''available_base'') (\<lambda>ab.
     andThen (dec_item d ''available_quote'') (\<lambda>aq.
     andThen (time_item d ''observed_at'') (\<lambda>t.
       Inr \<lparr>bal_exchange_name = ex, base_asset = ba, quote_asset = qa, available_base = ab,
            available_quote = aq, bal_observed_at = t, is_fresh = bool_or d ''is_fresh'' True\<rparr>))))))"

definition load_risk_config :: "obj \<Rightarrow> risk_config res" where
  "load_risk_config d =
     andThen (dec_item d ''min_profit_quote'') (\<lambda>mpq.
     andThen (dec_item d ''min_profit_bps'') (\<lambda>mpb.
     andThen (int_item d ''max_clock_skew_ms'') (\<lambda>skew.
     andThen (int_item d ''max_orderbook_age_ms'') (\<lambda>oage.
     andThen (int_item d ''max_balance_age_ms'') (\<lambda>bage.
     andThen (dec_item d ''max_notional_per_order'') (\<lambda>mno.
     andThen (dec_item d ''max_total_notional_per_bot'') (\<lambda>mtn.
     andThen (dec_item d ''max_spread_bps'') (\<lambda>spread.
     andThen (int_or d ''min_orderbook_depth_levels'' 1) (\<lambda>levels.
     andThen (dec_or d ''min_available_depth_quote'' ''0'') (\<lambda>depth.
     andThen (dec_or d ''slippage_buffer_bps'' ''0'') (\<lambda>slip.
     andThen (dec_or d ''unwind_buffer_quote'' ''0'') (\<lambda>unwind.
     andThen (dec_or d ''rebalance_buffer_quote'' ''0'') (\<lambda>rebal.
     andThen (dec_or d ''taker_fee_bps_buy'' ''0'') (\<lambda>feeb.
     andThen (dec_or d ''taker_fee_bps_sell'' ''0'') (\<lambda>fees.
     andThen (int_or d ''reentry_cooldown_seconds'' 0) (\<lambda>cool.
       Inr \<lparr>min_profit_quote = mpq, min_profit_bps = mpb, max_clock_skew_ms = skew,
            max_orderbook_age_ms = oage, max_balance_age_ms = bage, max_notional_per_order = mno,
            max_total_notional_per_bot = mtn, max_spread_bps = spread,
            min_orderbook_depth_levels = levels, min_available_depth_quote = depth,
            slippage_buffer_bps = slip, rc_unwind_buffer_quote = unwind,
            rc_rebalance_buffer_quote = rebal, taker_fee_bps_buy = feeb, taker_fee_bps_sell = fees,
            reentry_cooldown_seconds = cool\<rparr>))))))))))))))))"

definition opt_item :: "(obj \<Rightarrow> string \<Rightarrow> 'a res) \<Rightarrow> obj \<Rightarrow> string \<Rightarrow> 'a option res" where
  \<comment> \<open>\<open>parse(d[k]) if d.get(k) is not None else None\<close>\<close>
  "opt_item parse d k = (if pget d k = PNone then Inr None else andThen (parse d k) (\<lambda>v. Inr (Some v)))"

definition load_runtime_state :: "obj \<Rightarrow> string \<Rightarrow> string \<Rightarrow> runtime_state res" where
  "load_runtime_state d bot_id run_id =
     andThen (time_item d ''now'') (\<lambda>t.
     andThen (int_or d ''open_order_count'' 0) (\<lambda>count.
     andThen (int_or d ''open_order_cap'' 0) (\<lambda>cap.
     andThen (opt_item time_item d ''recent_unwind_at'') (\<lambda>unwound.
     andThen (opt_item dec_item d ''remaining_bot_notional'') (\<lambda>remaining.
       Inr \<lparr>now = t, open_order_count = count, open_order_cap = cap,
            unwind_in_progress = bool_or d ''unwind_in_progress'' False,
            connector_private_healthy = bool_or d ''connector_private_healthy'' True,
            duplicate_intent_active = bool_or d ''duplicate_intent_active'' False,
            recent_unwind_at = unwound, remaining_bot_notional = remaining,
            rs_bot_id = Some (py_str (pget_or d ''bot_id'' (PStr bot_id))),
            rs_strategy_run_id = Some (py_str (pget_or d ''strategy_run_id'' (PStr run_id)))\<rparr>)))))"

section \<open>Evaluation inputs\<close>

definition dict_item :: "obj \<Rightarrow> string \<Rightarrow> obj res" where
  "dict_item d k = andThen (pitem d k) py_dict"

definition load_strategy_inputs :: "obj \<Rightarrow> arbitrage_inputs res" where
  "load_strategy_inputs p =
     andThen (dict_item p ''base_orderbook'') (\<lambda>bo.
     andThen (dict_item p ''hedge_orderbook'') (\<lambda>ho.
     andThen (dict_item p ''base_balance'') (\<lambda>bb.
     andThen (dict_item p ''hedge_balance'') (\<lambda>hb.
     andThen (dict_item p ''risk_config'') (\<lambda>risk.
     andThen (dict_item p ''runtime_state'') (\<lambda>rt.
     andThen (str_item p ''bot_id'') (\<lambda>bid.
     andThen (str_item p ''strategy_run_id'') (\<lambda>run.
     andThen (str_item p ''canonical_symbol'') (\<lambda>sym.
     andThen (str_item p ''market'') (\<lambda>mk.
     andThen (str_item p ''base_exchange'') (\<lambda>bex.
     andThen (str_item p ''hedge_exchange'') (\<lambda>hex.
     andThen (load_orderbook_snapshot bo) (\<lambda>bo'.
     andThen (load_orderbook_snapshot ho) (\<lambda>ho'.
     andThen (load_balance_snapshot bb) (\<lambda>bb'.
     andThen (load_balance_snapshot hb) (\<lambda>hb'.
     andThen (load_risk_config risk) (\<lambda>risk'.
     andThen (load_runtime_state rt bid run) (\<lambda>rt'.
       Inr \<lparr>in_bot_id = bid, in_strategy_run_id = run, in_canonical_symbol = sym, in_market = mk,
            base_exchange = bex, hedge_exchange = hex, base_orderbook = bo', hedge_orderbook = ho',
            base_balance = bb', hedge_balance = hb', in_risk_config = risk',
            in_runtime_state = rt'\<rparr>))))))))))))))))))"

definition normalize_keys :: "obj \<Rightarrow> obj" where
  "normalize_keys d = dmerge [] (map (\<lambda>(k, v). (lower (strip k), v)) d)"

fun normalize_exchanges :: "string list \<Rightarrow> pyval list \<Rightarrow> string list" where
  "normalize_exchanges seen [] = seen"
| "normalize_exchanges seen (x # xs) =
     (let ex = lower (strip (py_str x)) in
      if ex = [] \<or> ex \<in> set seen then normalize_exchanges seen xs
      else normalize_exchanges (seen @ [ex]) xs)"

definition pair_as_candidates :: "arbitrage_inputs \<Rightarrow> arbitrage_candidate_inputs" where
  "pair_as_candidates i =
     \<lparr>ci_bot_id = in_bot_id i, ci_strategy_run_id = in_strategy_run_id i,
      ci_canonical_symbol = in_canonical_symbol i, ci_market = in_market i,
      candidate_exchanges = [base_exchange i, hedge_exchange i],
      orderbooks_by_exchange = dset [(base_exchange i, base_orderbook i)] (hedge_exchange i) (hedge_orderbook i),
      balances_by_exchange = dset [(base_exchange i, base_balance i)] (hedge_exchange i) (hedge_balance i),
      ci_risk_config = in_risk_config i, ci_runtime_state = in_runtime_state i\<rparr>"

fun load_exchange_snapshots ::
    "obj \<Rightarrow> obj \<Rightarrow> string list \<Rightarrow> (string, orderbook_snapshot) dict \<Rightarrow> (string, balance_snapshot) dict
      \<Rightarrow> ((string, orderbook_snapshot) dict \<times> (string, balance_snapshot) dict) res" where
  "load_exchange_snapshots books balances [] obs bals = Inr (obs, bals)"
| "load_exchange_snapshots books balances (ex # exs) obs bals =
     (case pget books ex of
        PDict ob \<Rightarrow> (case pget balances ex of
            PDict bal \<Rightarrow>
              andThen (load_orderbook_snapshot ob) (\<lambda>o'.
              andThen (load_balance_snapshot bal) (\<lambda>b'.
                load_exchange_snapshots books balances exs (dset obs ex o') (dset bals ex b')))
          | _ \<Rightarrow> Inl (KeyError (''missing balance snapshot for '' @ ex)))
      | _ \<Rightarrow> Inl (KeyError (''missing orderbook snapshot for '' @ ex)))"

definition load_candidate_list ::
    "obj \<Rightarrow> pyval list \<Rightarrow> string \<Rightarrow> string \<Rightarrow> obj \<Rightarrow> obj \<Rightarrow> arbitrage_candidate_inputs res" where
  "load_candidate_list p exchanges bid run risk rt =
     (case (pget p ''orderbooks_by_exchange'', pget p ''balances_by_exchange'') of
        (PDict books, PDict balances) \<Rightarrow>
          (let exs = normalize_exchanges [] exchanges in
           if length exs < 2
           then Inl (ValueError ''candidate_exchanges must include at least two exchanges'')
           else andThen (load_exchange_snapshots (normalize_keys books) (normalize_keys balances) exs [] [])
             (\<lambda>(obs, bals).
              andThen (str_item p ''canonical_symbol'') (\<lambda>sym.
              andThen (str_item p ''market'') (\<lambda>mk.
              andThen (load_risk_config risk) (\<lambda>risk'.
              andThen (load_runtime_state rt bid run) (\<lambda>rt'.
                Inr \<lparr>ci_bot_id = bid, ci_strategy_run_id = run, ci_canonical_symbol = sym, ci_market = mk,
                     candidate_exchanges = exs, orderbooks_by_exchange = obs, balances_by_exchange = bals,
                     ci_risk_config = risk', ci_runtime_state = rt'\<rparr>))))))
      | _ \<Rightarrow> Inl (TypeError ''orderbooks_by_exchange and balances_by_exchange must be objects''))"

definition load_candidate_strategy_inputs :: "obj \<Rightarrow> arbitrage_candidate_inputs res" where
  "load_candidate_strategy_inputs p =
     andThen (str_item p ''bot_id'') (\<lambda>bid.
     andThen (str_item p ''strategy_run_id'') (\<lambda>run.
     andThen (dict_item p ''risk_config'') (\<lambda>risk.
     andThen (dict_item p ''runtime_state'') (\<lambda>rt.
       case pget p ''candidate_exchanges'' of
         PList exchanges \<Rightarrow> load_candidate_list p exchanges bid run risk rt
       | _ \<Rightarrow> andThen (load_strategy_inputs p) (\<lambda>i. Inr (pair_as_candidates i))))))"

definition evaluate_arbitrage_candidate_payload :: "obj \<Rightarrow> arbitrage_decision res" where
  "evaluate_arbitrage_candidate_payload p =
     andThen (load_candidate_strategy_inputs p) evaluate_arbitrage_candidate_set"

section \<open>What a loaded candidate set satisfies\<close>

lemma normalize_exchanges_distinct: "distinct seen \<Longrightarrow> distinct (normalize_exchanges seen xs)"
  by (induction seen xs rule: normalize_exchanges.induct) (auto simp: Let_def)

lemma normalize_exchanges_nonempty: "[] \<notin> set seen \<Longrightarrow> [] \<notin> set (normalize_exchanges seen xs)"
  by (induction seen xs rule: normalize_exchanges.induct)
    (simp_all add: Let_def eq_commute [of "[]" "lower _"])

lemma load_exchange_snapshots_keys:
  "load_exchange_snapshots books balances exs obs bals = Inr (obs', bals') \<Longrightarrow>
    fst ` set obs' = fst ` set obs \<union> set exs \<and> fst ` set bals' = fst ` set bals \<union> set exs"
proof (induction exs arbitrary: obs bals)
  case (Cons ex exs)
  then obtain ob bal o' b' where
    "load_exchange_snapshots books balances exs (dset obs ex o') (dset bals ex b') = Inr (obs', bals')"
    by (auto simp: res_simps split: pyval.splits)
  from Cons.IH [OF this] show ?case by (auto simp: dset_keys)
qed simp

text \<open>
  A payload that lists its candidate exchanges and loads is decided: after normalisation the
  exchanges are distinct, at least two, none empty, each with a book and balances, so the evaluation
  of the set never raises.
\<close>

theorem loaded_candidates_are_decided:
  assumes "pget p ''candidate_exchanges'' = PList xs" "load_candidate_strategy_inputs p = Inr ci"
  shows "distinct (candidate_exchanges ci) \<and> 2 \<le> length (candidate_exchanges ci)
    \<and> [] \<notin> set (candidate_exchanges ci)
    \<and> (\<exists>d. evaluate_arbitrage_candidate_payload p = Inr d)"
proof -
  from assms obtain bid run risk rt where "load_candidate_list p xs bid run risk rt = Inr ci"
    by (auto simp: load_candidate_strategy_inputs_def res_simps)
  then obtain books balances obs bals where
    len: "\<not> length (normalize_exchanges [] xs) < 2"
    and l: "load_exchange_snapshots (normalize_keys books) (normalize_keys balances)
      (normalize_exchanges [] xs) [] [] = Inr (obs, bals)"
    and ci: "candidate_exchanges ci = normalize_exchanges [] xs"
      "orderbooks_by_exchange ci = obs" "balances_by_exchange ci = bals"
    unfolding load_candidate_list_def Let_def
    by (auto simp: res_simps split: pyval.splits if_splits prod.splits)
  have d: "distinct (candidate_exchanges ci)" unfolding ci by (simp add: normalize_exchanges_distinct)
  have keys: "\<forall>x \<in> set (candidate_exchanges ci).
      map_of (orderbooks_by_exchange ci) x \<noteq> None \<and> map_of (balances_by_exchange ci) x \<noteq> None"
    using load_exchange_snapshots_keys [OF l] unfolding ci map_of_eq_None_iff by auto
  obtain a b r where abr: "candidate_exchanges ci = a # b # r"
    using two_elements [OF len] unfolding ci by blast
  with d have "a \<noteq> b" by auto
  with candidate_set_returns [OF keys, of a b] abr have "returns (evaluate_arbitrage_candidate_set ci)" by simp
  with assms(2) have "\<exists>d. evaluate_arbitrage_candidate_payload p = Inr d"
    by (auto simp: evaluate_arbitrage_candidate_payload_def returns_iff)
  moreover have "[] \<notin> set (candidate_exchanges ci)" unfolding ci by (simp add: normalize_exchanges_nonempty)
  ultimately show ?thesis using d len ci by simp
qed

definition sample_book_payload :: "string \<Rightarrow> string \<Rightarrow> string \<Rightarrow> pyval" where
  "sample_book_payload ex askp bidp = PDict
     [(''exchange_name'', PStr ex), (''market'', PStr ''BTC-KRW''),
      (''observed_at'', PStr ''2026-01-01T00:00:00Z''),
      (''asks'', PList [PDict [(''price'', PStr askp), (''quantity'', PStr ''1.5'')]]),
      (''bids'', PList [PDict [(''price'', PStr bidp), (''quantity'', PStr ''1.5'')]])]"

definition sample_balance_payload :: "string \<Rightarrow> pyval" where
  "sample_balance_payload ex = PDict
     [(''exchange_name'', PStr ex), (''base_asset'', PStr ''BTC''), (''quote_asset'', PStr ''KRW''),
      (''available_base'', PStr ''2''), (''available_quote'', PStr ''1000''),
      (''observed_at'', PStr ''2026-01-01T00:00:00Z'')]"

definition sample_risk_payload :: pyval where
  "sample_risk_payload = PDict
     [(''min_profit_quote'', PStr ''0.1''), (''min_profit_bps'', PStr ''1''),
      (''max_clock_skew_ms'', PInt 100), (''max_orderbook_age_ms'', PInt 1000),
      (''max_balance_age_ms'', PInt 5000), (''max_notional_per_order'', PStr ''500''),
      (''max_total_notional_per_bot'', PStr ''500''), (''max_spread_bps'', PStr ''500'')]"

definition sample_candidate_payload :: obj where
  "sample_candidate_payload =
     [(''bot_id'', PStr ''bot-1''), (''strategy_run_id'', PStr ''run-1''),
      (''canonical_symbol'', PStr ''BTC''), (''market'', PStr ''BTC-KRW''),
      (''candidate_exchanges'', PList [PStr ''Bithumb'', PStr '' upbit '', PStr ''BITHUMB'']),
      (''orderbooks_by_exchange'', PDict
         [(''bithumb'', sample_book_payload ''bithumb'' ''100'' ''99''), (''upbit'', sample_book_payload ''upbit'' ''104'' ''103'')]),
      (''balances_by_exchange'', PDict
         [(''bithumb'', sample_balance_payload ''bithumb''), (''upbit'', sample_balance_payload ''upbit'')]),
      (''risk_config'', sample_risk_payload),
      (''runtime_state'', PDict [(''now'', PStr ''2026-01-01T00:00:00Z'')])]"

theorem loaded_candidates_are_decided_witness:
  "\<exists>d. evaluate_arbitrage_candidate_payload sample_candidate_payload = Inr d"
proof -
  have x: "pget sample_candidate_payload ''candidate_exchanges''
      = PList [PStr ''Bithumb'', PStr '' upbit '', PStr ''BITHUMB'']"
    by (simp add: sample_candidate_payload_def pget_Cons)
  have "returns (load_candidate_strategy_inputs sample_candidate_payload)" by code_simp
  then obtain ci where "load_candidate_strategy_inputs sample_candidate_payload = Inr ci"
    by (auto simp: returns_iff)
  from loaded_candidates_are_decided [OF x this] show ?thesis by blast
qed

end
