(* ===== verification/ConfigPolicy.thy ===== *)
theory ConfigPolicy
  imports PyValue "HOL-Library.Char_ord" "HOL-Library.List_Lexorder"
begin

text \<open>
  \<open>config_apply_policy.py\<close>: how a newly assigned configuration has to be applied. The paths that
  differ between two configurations are collapsed to the sections that can be reloaded, and the policy
  is decided by whether anything else changed. The sets of the source are duplicate free lists here,
  sorted where the source sorts them (texts are ordered by code point, as in Python).
\<close>

definition HOT_RELOADABLE_SECTION_PATHS :: "string list" where
  "HOT_RELOADABLE_SECTION_PATHS =
     [''arbitrage_runtime.risk_config'', ''arbitrage_runtime.runtime_state.open_order_cap'',
      ''arbitrage_runtime.runtime_state.remaining_bot_notional'']"

definition sequence_changed :: "pyval \<Rightarrow> pyval \<Rightarrow> bool" where
  "sequence_changed a b = (case (a, b) of
      (PList xs, PList ys) \<Rightarrow> \<not> py_eq (PList xs) (PList ys) | _ \<Rightarrow> False)"

definition sub_path :: "string \<Rightarrow> string \<Rightarrow> string" where
  "sub_path prefix key = (if prefix \<noteq> [] then prefix @ ''.'' @ key else key)"

lemma pget_size: "pget d k = PDict e \<Longrightarrow> size_list (size_prod (\<lambda>x. 0) size) e
    < size_list (size_prod (\<lambda>x. 0) size) d"
proof (induction d)
  case (Cons p d)
  obtain k' v where p: "p = (k', v)" by (cases p)
  from Cons p show ?case by (cases "k' = k") (auto simp: pget_Cons)
qed simp

function diff_paths :: "obj \<Rightarrow> obj \<Rightarrow> string \<Rightarrow> string list" where
  "diff_paths previous current prefix = concat (map (\<lambda>key.
      let path = sub_path prefix key; a = pget previous key; b = pget current key in
      case (as_dict a, as_dict b) of
        (Some p, Some c) \<Rightarrow> (if a = PDict p then diff_paths p c path else [])
      | _ \<Rightarrow> if sequence_changed a b then [path] else if \<not> py_eq a b then [path] else [])
     (remdups (map fst previous @ map fst current)))"
  by pat_completeness auto
termination
  by (relation "measure (\<lambda>(p, c, x). size_list (size_prod (\<lambda>x. 0) size) p)") (auto intro: pget_size)

declare diff_paths.simps [simp del]

definition collapse_path :: "string \<Rightarrow> string" where
  "collapse_path path =
     (case filter (\<lambda>section. path = section \<or> starts_with (section @ ''.'') path) HOT_RELOADABLE_SECTION_PATHS of
        [] \<Rightarrow> path | section # _ \<Rightarrow> section)"

definition collapse_section_paths :: "string list \<Rightarrow> string list" where
  "collapse_section_paths paths = remdups (map collapse_path paths)"

definition changed_sections :: "obj option \<Rightarrow> obj \<Rightarrow> string list" where
  "changed_sections previous next_config = (case previous of
      None \<Rightarrow> [''initial_assignment'']
    | Some p \<Rightarrow>
        (let ch = sort (collapse_section_paths (diff_paths p next_config []))
         in if ch = [] then [''no_effective_change''] else ch))"

record apply_policy =
  ap_apply_policy :: string
  ap_changed_sections :: "string list"
  ap_hot_reloadable :: "string list"
  ap_restart_required :: "string list"

definition summarize_config_assignment_policy :: "obj option \<Rightarrow> obj \<Rightarrow> apply_policy" where
  "summarize_config_assignment_policy previous next_config =
     (let ch = changed_sections previous next_config in
      if ch = [''no_effective_change'']
      then \<lparr>ap_apply_policy = ''noop'', ap_changed_sections = ch, ap_hot_reloadable = [],
            ap_restart_required = []\<rparr>
      else
        let hot = filter (\<lambda>s. s \<in> set HOT_RELOADABLE_SECTION_PATHS) ch;
            restart = filter (\<lambda>s. s \<notin> set hot) ch
        in \<lparr>ap_apply_policy = (if restart \<noteq> [] then ''restart_required'' else ''hot_reload''),
            ap_changed_sections = ch, ap_hot_reloadable = hot, ap_restart_required = restart\<rparr>)"

section \<open>What the policy promises\<close>

lemma py_eq_none_left [simp]: "py_eq PNone v \<longleftrightarrow> v = PNone"
  by simp

definition in_hot_section :: "string \<Rightarrow> bool" where
  "in_hot_section path = list_ex (\<lambda>s. path = s \<or> starts_with (s @ ''.'') path) HOT_RELOADABLE_SECTION_PATHS"

lemma collapse_hot: "collapse_path path \<in> set HOT_RELOADABLE_SECTION_PATHS \<longleftrightarrow> in_hot_section path"
proof (cases "filter (\<lambda>section. path = section \<or> starts_with (section @ ''.'') path) HOT_RELOADABLE_SECTION_PATHS")
  case Nil
  then have no: "\<forall>s \<in> set HOT_RELOADABLE_SECTION_PATHS. \<not> (path = s \<or> starts_with (s @ ''.'') path)"
    unfolding filter_empty_conv .
  then have "path \<notin> set HOT_RELOADABLE_SECTION_PATHS" "\<not> in_hot_section path"
    by (auto simp: in_hot_section_def list_ex_iff)
  with Nil show ?thesis by (simp add: collapse_path_def)
next
  case (Cons s ss)
  then have "s \<in> set (filter (\<lambda>section. path = section \<or> starts_with (section @ ''.'') path) HOT_RELOADABLE_SECTION_PATHS)"
    by simp
  then have "s \<in> set HOT_RELOADABLE_SECTION_PATHS" "in_hot_section path"
    by (auto simp: in_hot_section_def list_ex_iff)
  with Cons show ?thesis by (simp add: collapse_path_def)
qed

lemma collapse_cases: "collapse_path path = path \<or> collapse_path path \<in> set HOT_RELOADABLE_SECTION_PATHS"
proof (cases "filter (\<lambda>section. path = section \<or> starts_with (section @ ''.'') path) HOT_RELOADABLE_SECTION_PATHS")
  case (Cons s ss)
  then have "s \<in> set (filter (\<lambda>section. path = section \<or> starts_with (section @ ''.'') path) HOT_RELOADABLE_SECTION_PATHS)"
    by simp
  then have "s \<in> set HOT_RELOADABLE_SECTION_PATHS" by auto
  with Cons show ?thesis by (simp add: collapse_path_def)
qed (simp add: collapse_path_def)

lemma not_special_section: "''no_effective_change'' \<notin> set HOT_RELOADABLE_SECTION_PATHS"
    "''initial_assignment'' \<notin> set HOT_RELOADABLE_SECTION_PATHS"
  by (simp_all add: HOT_RELOADABLE_SECTION_PATHS_def)

text \<open>Agreement of two configuration values, missing keys read as \<open>None\<close>.\<close>

definition differs :: "obj \<Rightarrow> obj \<Rightarrow> string \<Rightarrow> bool" where
  \<comment> \<open>some leaf below this key differs\<close>
  "differs p c key = (case (as_dict (pget p key), as_dict (pget c key)) of
      (Some p', Some c') \<Rightarrow> diff_paths p' c' key \<noteq> []
    | _ \<Rightarrow> \<not> py_eq (pget p key) (pget c key))"

lemma diff_paths_top:
  "set (diff_paths p c []) = (\<Union>key \<in> fst ` set p \<union> fst ` set c.
     (case (as_dict (pget p key), as_dict (pget c key)) of
        (Some p', Some c') \<Rightarrow> set (diff_paths p' c' key)
      | _ \<Rightarrow> if py_eq (pget p key) (pget c key) then {} else {key}))"
  apply (subst diff_paths.simps)
  apply (simp add: sub_path_def Let_def)
  apply (intro arg_cong2 [where f = "\<lambda>A B. A \<union> B"] SUP_cong refl)
   apply (auto simp: sequence_changed_def split: option.splits pyval.splits elim!: as_dict.elims)
  done

lemma sub_path_prefix: "prefix \<noteq> [] \<Longrightarrow> \<exists>r. sub_path prefix k = prefix @ ''.'' @ r"
  by (simp add: sub_path_def)

lemma diff_paths_prefix:
  "x \<in> set (diff_paths p c prefix) \<Longrightarrow> prefix \<noteq> [] \<Longrightarrow> \<exists>r. x = prefix @ ''.'' @ r"
proof (induction p c prefix arbitrary: x rule: diff_paths.induct)
  case (1 previous current prefix)
  from "1.prems"(1) obtain key where k: "key \<in> set (remdups (map fst previous @ map fst current))"
    and x: "x \<in> set (let path = sub_path prefix key; a = pget previous key; b = pget current key in
      case (as_dict a, as_dict b) of
        (Some p, Some c) \<Rightarrow> (if a = PDict p then diff_paths p c path else [])
      | _ \<Rightarrow> if sequence_changed a b then [path] else if \<not> py_eq a b then [path] else [])"
    by (subst (asm) diff_paths.simps) auto
  show ?case
  proof (cases "\<exists>p' c'. as_dict (pget previous key) = Some p' \<and> as_dict (pget current key) = Some c'
      \<and> pget previous key = PDict p'")
    case True
    then obtain p' c' where d: "as_dict (pget previous key) = Some p'" "as_dict (pget current key) = Some c'"
      "pget previous key = PDict p'" by blast
    from x d have "x \<in> set (diff_paths p' c' (sub_path prefix key))" by (simp add: Let_def)
    moreover have "sub_path prefix key \<noteq> []" using "1.prems"(2) by (simp add: sub_path_def)
    ultimately obtain r where "x = sub_path prefix key @ ''.'' @ r"
      using "1.IH" [OF k refl refl refl refl d(1) d(2) d(3)] by blast
    with "1.prems"(2) show ?thesis by (simp add: sub_path_def)
  next
    case False
    with x have "x = sub_path prefix key"
      by (auto simp: Let_def split: option.splits if_splits elim!: as_dict.elims)
    with sub_path_prefix [OF "1.prems"(2)] show ?thesis by blast
  qed
qed

lemma no_diff_no_key:
  assumes "diff_paths p c [] = []" shows "\<not> differs p c key"
proof (cases "key \<in> fst ` set p \<union> fst ` set c")
  case True
  have "set (diff_paths p c []) = {}" using assms by simp
  with True show ?thesis
    unfolding diff_paths_top by (fastforce simp: differs_def split: option.splits if_splits)
next
  case False
  then have "map_of p key = None" "map_of c key = None" by (auto simp: map_of_eq_None_iff)
  then show ?thesis by (simp add: differs_def pget_def)
qed

text \<open>
  Assigning a configuration over a previous one is a no-op exactly when no path differs (then no
  key differs), is hot reloadable exactly when every differing path lies in a reloadable section, and
  otherwise needs a restart; the changed sections are sorted, distinct and split into the two kinds.
  (No key is literally called \<open>no_effective_change\<close>, the marker of the no-op.)
\<close>

theorem config_policy_classifies:
  assumes "''no_effective_change'' \<notin> set (diff_paths p n [])"
  defines "r \<equiv> summarize_config_assignment_policy (Some p) n"
  shows "(ap_apply_policy r = ''noop'' \<longleftrightarrow> diff_paths p n [] = [])
    \<and> (ap_apply_policy r = ''noop'' \<longrightarrow> (\<forall>key. \<not> differs p n key))
    \<and> (ap_apply_policy r = ''hot_reload'' \<longleftrightarrow> diff_paths p n [] \<noteq> [] \<and> list_all in_hot_section (diff_paths p n []))
    \<and> (ap_apply_policy r = ''restart_required'' \<longleftrightarrow> list_ex (Not \<circ> in_hot_section) (diff_paths p n []))
    \<and> sorted (ap_changed_sections r) \<and> distinct (ap_changed_sections r)
    \<and> (ap_apply_policy r \<noteq> ''noop'' \<longrightarrow>
        set (ap_hot_reloadable r) \<union> set (ap_restart_required r) = set (ap_changed_sections r)
        \<and> set (ap_hot_reloadable r) \<inter> set (ap_restart_required r) = {})"
proof -
  let ?d = "diff_paths p n []"
  let ?ch = "sort (collapse_section_paths ?d)"
  have set_ch: "set ?ch = collapse_path ` set ?d" by (simp add: collapse_section_paths_def)
  have empty: "?ch = [] \<longleftrightarrow> ?d = []" using set_ch by (metis image_is_empty set_empty)
  have notnoop: "?ch \<noteq> [''no_effective_change'']"
  proof
    assume "?ch = [''no_effective_change'']"
    then have "set ?ch = {''no_effective_change''}" by simp
    then have "''no_effective_change'' \<in> collapse_path ` set ?d" unfolding set_ch by simp
    then obtain x where x: "x \<in> set ?d" "collapse_path x = ''no_effective_change''" by auto
    then have "collapse_path x \<notin> set HOT_RELOADABLE_SECTION_PATHS" using not_special_section by simp
    then have "collapse_path x = x" using collapse_cases by blast
    with x assms(1) show False by simp
  qed
  have sections: "changed_sections (Some p) n = (if ?d = [] then [''no_effective_change''] else ?ch)"
    by (simp add: changed_sections_def Let_def empty)
  have hot: "(\<forall>s \<in> set ?ch. s \<in> set HOT_RELOADABLE_SECTION_PATHS) \<longleftrightarrow> list_all in_hot_section ?d"
    unfolding set_ch by (auto simp: collapse_hot list_all_iff)
  have sd: "sorted ?ch" "distinct ?ch" by (simp_all add: collapse_section_paths_def)
  show ?thesis
  proof (cases "?d = []")
    case True
    then show ?thesis
      using no_diff_no_key [OF True] by (simp add: r_def summarize_config_assignment_policy_def sections Let_def)
  next
    case False
    have r: "r = \<lparr>ap_apply_policy = (if filter (\<lambda>s. s \<notin> set (filter (\<lambda>s. s \<in> set HOT_RELOADABLE_SECTION_PATHS) ?ch)) ?ch \<noteq> []
          then ''restart_required'' else ''hot_reload''),
        ap_changed_sections = ?ch, ap_hot_reloadable = filter (\<lambda>s. s \<in> set HOT_RELOADABLE_SECTION_PATHS) ?ch,
        ap_restart_required = filter (\<lambda>s. s \<notin> set (filter (\<lambda>s. s \<in> set HOT_RELOADABLE_SECTION_PATHS) ?ch)) ?ch\<rparr>"
      using False notnoop by (simp add: r_def summarize_config_assignment_policy_def sections Let_def)
    have nr: "filter (\<lambda>s. s \<notin> set (filter (\<lambda>s. s \<in> set HOT_RELOADABLE_SECTION_PATHS) ?ch)) ?ch = []
        \<longleftrightarrow> list_all in_hot_section ?d"
      unfolding filter_empty_conv hot [symmetric] by auto
    have ex: "list_ex (Not \<circ> in_hot_section) ?d \<longleftrightarrow> \<not> list_all in_hot_section ?d"
      by (auto simp: list_ex_iff list_all_iff)
    show ?thesis using False sd unfolding r nr ex by auto
  qed
qed

theorem config_policy_classifies_witness:
  "ap_apply_policy (summarize_config_assignment_policy
      (Some [(''arbitrage_runtime'', PDict [(''risk_config'', PDict [(''min_profit_bps'', PStr ''3'')])])])
      [(''arbitrage_runtime'', PDict [(''risk_config'', PDict [(''min_profit_bps'', PStr ''5'')])])]) = ''hot_reload''"
proof -
  let ?p = "[(''arbitrage_runtime'', PDict [(''risk_config'', PDict [(''min_profit_bps'', PStr ''3'')])])]"
  let ?n = "[(''arbitrage_runtime'', PDict [(''risk_config'', PDict [(''min_profit_bps'', PStr ''5'')])])]"
  have d: "diff_paths ?p ?n [] = [''arbitrage_runtime.risk_config.min_profit_bps'']" by code_simp
  have "''no_effective_change'' \<notin> set (diff_paths ?p ?n [])" unfolding d by simp
  moreover have "list_all in_hot_section (diff_paths ?p ?n [])" unfolding d by code_simp
  ultimately show ?thesis using config_policy_classifies [of ?p ?n] d by (metis list.distinct(1))
qed

end
