(* ===== verification/Store.thy ===== *)
theory Store
  imports ConfigPolicy PyDecText
begin

text \<open>
  The in-memory control plane store: \<open>storage/memory_mutable_store.py\<close>,
  \<open>storage/order_mutation_views.py\<close>. A row is a record of the keys the code writes. Two values come
  from the environment and are arguments of every operation that draws them: the fresh identifier
  (\<open>uuid4()\<close>) and the timestamp text. The rows a bot detail shares with the run table and the alert list
  (\<open>latest_strategy_run\<close>, \<open>recent_alerts\<close>) are references by identifier, so that a later change of the
  shared row is seen through both, as with the shared Python objects. The lock makes every operation
  atomic: it is one state transition.
\<close>

section \<open>Rows\<close>

record strategy_run =
  run_id :: string
  run_bot_id :: string
  run_strategy_name :: string
  run_mode :: string
  run_status :: string
  run_created_at :: string
  run_started_at :: "string option"
  run_stopped_at :: "string option"
  run_decision_count :: int

record order_intent =
  intent_id :: string
  int_bot_id :: string
  int_run_id :: string
  int_market :: string
  int_buy_exchange :: string
  int_sell_exchange :: string
  int_side_pair :: string
  int_target_qty :: string
  int_expected_profit :: "string option"
  int_expected_profit_ratio :: "string option"
  int_status :: string
  int_created_at :: string
  int_decision_context :: obj

record order =
  order_id :: string
  ord_intent_id :: string
  ord_bot_id :: string
  ord_run_id :: string
  ord_exchange_name :: string
  ord_exchange_order_id :: "string option"
  ord_market :: string
  ord_side :: string
  ord_requested_price :: "string option"
  ord_requested_qty :: string
  ord_status :: string
  ord_created_at :: string
  ord_submitted_at :: string
  ord_updated_at :: string
  ord_raw_payload :: obj

record fill =
  fill_id :: string
  fl_order_id :: string
  fl_intent_id :: string
  fl_bot_id :: string
  fl_run_id :: string
  fl_exchange_name :: string
  fl_exchange_trade_id :: "string option"
  fl_market :: string
  fl_side :: string
  fl_price :: string
  fl_qty :: string
  fl_fee_asset :: "string option"
  fl_fee_amount :: "string option"
  fl_order_status :: string
  fl_filled_at :: string
  fl_created_at :: string

record alert =
  alert_id :: string
  al_bot_id :: "string option"
  al_level :: string
  al_code :: string
  al_message :: string
  al_created_at :: string
  al_acknowledged_at :: "string option"

record config_version =
  config_version_id :: string
  cv_scope :: string
  cv_version_no :: int
  cv_json :: obj
  cv_checksum :: string
  cv_created_by :: "string option"
  cv_created_at :: string

record heartbeat =
  hb_created_at :: string
  hb_process_alive :: bool
  hb_market_data_alive :: bool
  hb_ordering_alive :: bool
  hb_lag_ms :: "int option"
  hb_payload :: obj

record bot_row =
  b_bot_id :: string
  b_bot_key :: string
  b_strategy_name :: string
  b_mode :: string
  b_status :: string
  b_hostname :: "string option"
  b_last_seen_at :: string
  b_assigned :: obj

record bot_detail =
  bd_bot :: bot_row
  bd_latest_heartbeat :: "heartbeat option"
  bd_latest_run :: "string option"
  bd_recent_alerts :: "string list"

record store =
  bots :: "bot_row list"
  bot_details :: "(string, bot_detail) dict"
  strategy_runs :: "(string, strategy_run) dict"
  order_intents :: "(string, order_intent) dict"
  orders :: "(string, order) dict"
  fills :: "fill list"
  heartbeats :: "(string, heartbeat list) dict"
  alerts :: "alert list"
  config_versions :: "(string, config_version list) dict"

definition empty_store :: store where
  "empty_store = \<lparr>bots = [], bot_details = [], strategy_runs = [], order_intents = [], orders = [],
     fills = [], heartbeats = [], alerts = [], config_versions = []\<rparr>"

datatype outcome = Created | Updated | Started | Stopped | NotFound | Invalid | Conflict

section \<open>Order intents, orders, fills (\<open>order_mutation_views.py\<close>)\<close>

definition VALID_ORDER_STATUSES :: "string list" where
  "VALID_ORDER_STATUSES = [''new'', ''partially_filled'', ''filled'', ''cancelled'', ''rejected'', ''expired'']"

definition TERMINAL_ORDER_STATUSES :: "string list" where
  "TERMINAL_ORDER_STATUSES = [''filled'', ''cancelled'', ''rejected'', ''expired'']"

record intent_args =
  ia_run_id :: string
  ia_market :: string
  ia_buy_exchange :: string
  ia_sell_exchange :: string
  ia_side_pair :: string
  ia_target_qty :: string
  ia_expected_profit :: "string option"
  ia_expected_profit_ratio :: "string option"
  ia_status :: string
  ia_decision_context :: "obj option"

definition new_intent :: "string \<Rightarrow> string \<Rightarrow> strategy_run \<Rightarrow> intent_args \<Rightarrow> order_intent" where
  "new_intent uid ts run a =
     \<lparr>intent_id = uid, int_bot_id = run_bot_id run, int_run_id = ia_run_id a, int_market = ia_market a,
      int_buy_exchange = ia_buy_exchange a, int_sell_exchange = ia_sell_exchange a,
      int_side_pair = ia_side_pair a, int_target_qty = ia_target_qty a,
      int_expected_profit = ia_expected_profit a, int_expected_profit_ratio = ia_expected_profit_ratio a,
      int_status = ia_status a, int_created_at = ts,
      int_decision_context = (case ia_decision_context a of None \<Rightarrow> [] | Some c \<Rightarrow> c)\<rparr>"

definition create_order_intent ::
    "string \<Rightarrow> string \<Rightarrow> intent_args \<Rightarrow> store \<Rightarrow> store \<times> outcome \<times> order_intent option" where
  "create_order_intent uid ts a s =
     (case map_of (strategy_runs s) (ia_run_id a) of
        None \<Rightarrow> (s, NotFound, None)
      | Some run \<Rightarrow>
          (let intent = new_intent uid ts run a in
           (s\<lparr>order_intents := dset (order_intents s) uid intent,
              strategy_runs := dset (strategy_runs s) (ia_run_id a)
                 (run\<lparr>run_decision_count := run_decision_count run + 1\<rparr>)\<rparr>, Created, Some intent)))"

record order_args =
  oa_intent_id :: string
  oa_exchange_name :: string
  oa_exchange_order_id :: "string option"
  oa_market :: string
  oa_side :: string
  oa_requested_price :: "string option"
  oa_requested_qty :: string
  oa_status :: string
  oa_raw_payload :: "obj option"

definition new_order :: "string \<Rightarrow> string \<Rightarrow> order_intent \<Rightarrow> order_args \<Rightarrow> order" where
  "new_order uid ts intent a =
     \<lparr>order_id = uid, ord_intent_id = oa_intent_id a, ord_bot_id = int_bot_id intent,
      ord_run_id = int_run_id intent, ord_exchange_name = oa_exchange_name a,
      ord_exchange_order_id = oa_exchange_order_id a, ord_market = oa_market a, ord_side = oa_side a,
      ord_requested_price = oa_requested_price a, ord_requested_qty = oa_requested_qty a,
      ord_status = oa_status a, ord_created_at = ts, ord_submitted_at = ts, ord_updated_at = ts,
      ord_raw_payload = (case oa_raw_payload a of None \<Rightarrow> [] | Some p \<Rightarrow> p)\<rparr>"

definition same_exchange_order :: "order_args \<Rightarrow> order \<Rightarrow> bool" where
  "same_exchange_order a ord = (ord_exchange_name ord = oa_exchange_name a
     \<and> ord_exchange_order_id ord = oa_exchange_order_id a)"

definition create_order ::
    "string \<Rightarrow> string \<Rightarrow> order_args \<Rightarrow> store \<Rightarrow> store \<times> outcome \<times> order option" where
  "create_order uid ts a s =
     (case map_of (order_intents s) (oa_intent_id a) of
        None \<Rightarrow> (s, NotFound, None)
      | Some intent \<Rightarrow>
          if oa_market a \<noteq> int_market intent then (s, Invalid, None)
          else if oa_exchange_name a \<notin> {int_buy_exchange intent, int_sell_exchange intent}
          then (s, Invalid, None)
          else
            (case (if oa_exchange_order_id a = None then None
                   else find (same_exchange_order a) (dvals (orders s))) of
               Some existing \<Rightarrow> (s, Conflict, Some existing)
             | None \<Rightarrow>
                 (let ord = new_order uid ts intent a;
                      intents' = (if int_status intent = ''created''
                         then dset (order_intents s) (oa_intent_id a) (intent\<lparr>int_status := ''submitted''\<rparr>)
                         else order_intents s)
                  in (s\<lparr>orders := dset (orders s) uid ord, order_intents := intents'\<rparr>, Created, Some ord))))"

definition normalize_status :: "string \<Rightarrow> string" where
  "normalize_status st = lower (strip st)"

definition update_order_status ::
    "string \<Rightarrow> string \<Rightarrow> string \<Rightarrow> store \<Rightarrow> store \<times> outcome \<times> order option" where
  "update_order_status ts oid st s =
     (case map_of (orders s) oid of
        None \<Rightarrow> (s, NotFound, None)
      | Some ord \<Rightarrow>
          (let new_st = normalize_status st; cur = normalize_status (ord_status ord) in
           if new_st \<notin> set VALID_ORDER_STATUSES then (s, Invalid, None)
           else if cur \<in> set TERMINAL_ORDER_STATUSES \<and> cur \<noteq> new_st then (s, Conflict, Some ord)
           else if cur = new_st then (s, Updated, Some ord)
           else let ord' = ord\<lparr>ord_status := new_st, ord_updated_at := ts\<rparr>
                in (s\<lparr>orders := dset (orders s) oid ord'\<rparr>, Updated, Some ord')))"

record fill_args =
  fa_order_id :: string
  fa_exchange_trade_id :: "string option"
  fa_price :: string
  fa_qty :: string
  fa_fee_asset :: "string option"
  fa_fee_amount :: "string option"
  fa_filled_at :: string

definition order_fills :: "fill list \<Rightarrow> string \<Rightarrow> fill list" where
  "order_fills fs oid = filter (\<lambda>f. fl_order_id f = oid) fs"

definition decimal_of :: "string \<Rightarrow> dec res" where
  \<comment> \<open>\<open>Decimal(text)\<close>\<close>
  "decimal_of t = (case dparse t of None \<Rightarrow> Inl InvalidOperation | Some d \<Rightarrow> Inr d)"

definition filled_qty_of :: "fill list \<Rightarrow> string \<Rightarrow> dec res" where
  "filled_qty_of fs oid =
     andThen (mapM (\<lambda>f. decimal_of (fl_qty f)) (order_fills fs oid))
       (\<lambda>qs. Inr (dsum_from (Dec 0 0) qs))"

definition new_fill :: "string \<Rightarrow> string \<Rightarrow> order \<Rightarrow> string \<Rightarrow> fill_args \<Rightarrow> fill" where
  "new_fill uid ts ord next_status a =
     \<lparr>fill_id = uid, fl_order_id = fa_order_id a, fl_intent_id = ord_intent_id ord,
      fl_bot_id = ord_bot_id ord, fl_run_id = ord_run_id ord,
      fl_exchange_name = ord_exchange_name ord, fl_exchange_trade_id = fa_exchange_trade_id a,
      fl_market = ord_market ord, fl_side = ord_side ord, fl_price = fa_price a, fl_qty = fa_qty a,
      fl_fee_asset = fa_fee_asset a, fl_fee_amount = fa_fee_amount a, fl_order_status = next_status,
      fl_filled_at = fa_filled_at a, fl_created_at = ts\<rparr>"

definition intent_after_fill :: "(string, order) dict \<Rightarrow> order_intent \<Rightarrow> order_intent" where
  "intent_after_fill ords intent =
     (let i1 = (if int_status intent = ''created'' then intent\<lparr>int_status := ''submitted''\<rparr> else intent);
          related = filter (\<lambda>od. ord_intent_id od = intent_id intent) (dvals ords)
      in if related \<noteq> [] \<and> list_all (\<lambda>od. ord_status od = ''filled'') related
         then i1\<lparr>int_status := ''simulated''\<rparr> else i1)"

definition apply_fill :: "string \<Rightarrow> string \<Rightarrow> order \<Rightarrow> string \<Rightarrow> fill_args \<Rightarrow> store \<Rightarrow> store \<times> fill" where
  "apply_fill uid ts ord next_status a s =
     (let orders' = dset (orders s) (fa_order_id a) (ord\<lparr>ord_status := next_status, ord_updated_at := ts\<rparr>);
          f = new_fill uid ts ord next_status a;
          intents' = (case map_of (order_intents s) (ord_intent_id ord) of
              None \<Rightarrow> order_intents s
            | Some intent \<Rightarrow> dset (order_intents s) (ord_intent_id ord) (intent_after_fill orders' intent))
      in (s\<lparr>orders := orders', fills := f # fills s, order_intents := intents'\<rparr>, f))"

definition create_fill ::
    "string \<Rightarrow> string \<Rightarrow> fill_args \<Rightarrow> store \<Rightarrow> (store \<times> outcome \<times> fill option) res" where
  "create_fill uid ts a s =
     (case map_of (orders s) (fa_order_id a) of
        None \<Rightarrow> Inr (s, NotFound, None)
      | Some ord \<Rightarrow>
          if ord_status ord \<in> set TERMINAL_ORDER_STATUSES then Inr (s, Invalid, None)
          else
            (case (if fa_exchange_trade_id a = None then None
                   else find (\<lambda>f. fl_order_id f = fa_order_id a
                          \<and> fl_exchange_trade_id f = fa_exchange_trade_id a) (fills s)) of
               Some existing \<Rightarrow> Inr (s, Conflict, Some existing)
             | None \<Rightarrow>
                 andThen (decimal_of (ord_requested_qty ord)) (\<lambda>requested.
                 andThen (filled_qty_of (fills s) (fa_order_id a)) (\<lambda>current.
                 andThen (decimal_of (fa_qty a)) (\<lambda>qty.
                   let next_qty = dadd current qty in
                   if dlt requested next_qty then Inr (s, Invalid, None)
                   else
                     let next_status = (if deq next_qty requested then ''filled'' else ''partially_filled'');
                         (s', f) = apply_fill uid ts ord next_status a s
                     in Inr (s', Created, Some f))))))"

section \<open>Strategy runs\<close>

definition is_active :: "strategy_run \<Rightarrow> bool" where
  "is_active r = (run_status r = ''created'' \<or> run_status r = ''running'')"

definition set_latest_run :: "string \<Rightarrow> string \<Rightarrow> (string, bot_detail) dict \<Rightarrow> (string, bot_detail) dict" where
  "set_latest_run bid rid ds = (case map_of ds bid of
      None \<Rightarrow> ds | Some d \<Rightarrow> dset ds bid (d\<lparr>bd_latest_run := Some rid\<rparr>))"

definition create_strategy_run ::
    "string \<Rightarrow> string \<Rightarrow> string \<Rightarrow> string \<Rightarrow> string \<Rightarrow> store \<Rightarrow> store \<times> outcome \<times> strategy_run option" where
  "create_strategy_run uid ts bid name mode s =
     (case map_of (bot_details s) bid of
        None \<Rightarrow> (s, NotFound, None)
      | Some d \<Rightarrow>
          (case find (\<lambda>r. run_bot_id r = bid \<and> is_active r) (dvals (strategy_runs s)) of
             Some existing \<Rightarrow> (s, Conflict, Some existing)
           | None \<Rightarrow>
               (let run = \<lparr>run_id = uid, run_bot_id = bid, run_strategy_name = name, run_mode = mode,
                     run_status = ''created'', run_created_at = ts, run_started_at = None,
                     run_stopped_at = None, run_decision_count = 0\<rparr>
                in (s\<lparr>strategy_runs := dset (strategy_runs s) uid run,
                      bot_details := set_latest_run bid uid (bot_details s)\<rparr>, Created, Some run))))"

definition start_strategy_run :: "string \<Rightarrow> string \<Rightarrow> store \<Rightarrow> store \<times> outcome \<times> strategy_run option" where
  "start_strategy_run ts rid s =
     (case map_of (strategy_runs s) rid of
        None \<Rightarrow> (s, NotFound, None)
      | Some run \<Rightarrow>
          if run_status run \<noteq> ''created'' then (s, Conflict, Some run)
          else if list_ex (\<lambda>r. run_bot_id r = run_bot_id run \<and> run_id r \<noteq> rid \<and> run_status r = ''running'')
                 (dvals (strategy_runs s)) then (s, Conflict, Some run)
          else let run' = run\<lparr>run_status := ''running'', run_started_at := Some ts, run_stopped_at := None\<rparr>
            in (s\<lparr>strategy_runs := dset (strategy_runs s) rid run',
                  bot_details := set_latest_run (run_bot_id run) rid (bot_details s)\<rparr>, Started, Some run'))"

definition stop_strategy_run :: "string \<Rightarrow> string \<Rightarrow> store \<Rightarrow> store \<times> outcome \<times> strategy_run option" where
  "stop_strategy_run ts rid s =
     (case map_of (strategy_runs s) rid of
        None \<Rightarrow> (s, NotFound, None)
      | Some run \<Rightarrow>
          if run_status run \<noteq> ''running'' then (s, Conflict, Some run)
          else let run' = run\<lparr>run_status := ''stopped'', run_stopped_at := Some ts\<rparr>
            in (s\<lparr>strategy_runs := dset (strategy_runs s) rid run',
                  bot_details := set_latest_run (run_bot_id run) rid (bot_details s)\<rparr>, Stopped, Some run'))"

section \<open>Alerts\<close>

definition emit_alert ::
    "string \<Rightarrow> string \<Rightarrow> string option \<Rightarrow> string \<Rightarrow> string \<Rightarrow> string \<Rightarrow> store \<Rightarrow> store \<times> alert" where
  "emit_alert uid ts bid level code message s =
     (let al = \<lparr>alert_id = uid, al_bot_id = bid, al_level = level, al_code = code, al_message = message,
            al_created_at = ts, al_acknowledged_at = None\<rparr>;
          details = (case bid of None \<Rightarrow> bot_details s | Some b \<Rightarrow>
            (case map_of (bot_details s) b of None \<Rightarrow> bot_details s
             | Some d \<Rightarrow> dset (bot_details s) b (d\<lparr>bd_recent_alerts := uid # bd_recent_alerts d\<rparr>)))
      in (s\<lparr>alerts := al # alerts s, bot_details := details\<rparr>, al))"

fun ack_first :: "string \<Rightarrow> string \<Rightarrow> alert list \<Rightarrow> alert list option" where
  "ack_first aid ts [] = None"
| "ack_first aid ts (a # as) =
     (if alert_id a = aid then Some (a\<lparr>al_acknowledged_at := Some ts\<rparr> # as)
      else map_option (\<lambda>r. a # r) (ack_first aid ts as))"

definition acknowledge_alert :: "string \<Rightarrow> string \<Rightarrow> store \<Rightarrow> store \<times> obj option" where
  "acknowledge_alert ts aid s = (case ack_first aid ts (alerts s) of
      None \<Rightarrow> (s, None)
    | Some as \<Rightarrow> (s\<lparr>alerts := as\<rparr>,
        Some [(''alert_id'', PStr aid), (''acknowledged_at'', PStr ts)]))"

section \<open>Configurations\<close>

definition scope_versions :: "store \<Rightarrow> string \<Rightarrow> config_version list" where
  "scope_versions s scope = (case map_of (config_versions s) scope of None \<Rightarrow> [] | Some vs \<Rightarrow> vs)"

definition create_config_version ::
    "string \<Rightarrow> string \<Rightarrow> string \<Rightarrow> obj \<Rightarrow> string \<Rightarrow> string option \<Rightarrow> store \<Rightarrow> store \<times> config_version" where
  "create_config_version uid ts scope json checksum author s =
     (let versions = scope_versions s scope;
          next_no = (case versions of [] \<Rightarrow> 1 | v # _ \<Rightarrow> cv_version_no v + 1);
          v = \<lparr>config_version_id = uid, cv_scope = scope, cv_version_no = next_no, cv_json = json,
               cv_checksum = checksum, cv_created_by = author, cv_created_at = ts\<rparr>
      in (s\<lparr>config_versions := dset (config_versions s) scope (v # versions)\<rparr>, v))"

fun set_first :: "('a \<Rightarrow> bool) \<Rightarrow> ('a \<Rightarrow> 'a) \<Rightarrow> 'a list \<Rightarrow> 'a list" where
  "set_first P f [] = []"
| "set_first P f (b # bs) = (if P b then f b # bs else b # set_first P f bs)"

definition set_assigned :: "string \<Rightarrow> obj \<Rightarrow> bot_detail \<Rightarrow> store \<Rightarrow> store" where
  "set_assigned bid assigned d s =
     s\<lparr>bot_details := dset (bot_details s) bid (d\<lparr>bd_bot := (bd_bot d)\<lparr>b_assigned := assigned\<rparr>\<rparr>),
       bots := set_first (\<lambda>b. b_bot_id b = bid) (\<lambda>b. b\<lparr>b_assigned := assigned\<rparr>) (bots s)\<rparr>"

definition str_list :: "string list \<Rightarrow> pyval" where
  "str_list xs = PList (map PStr xs)"

definition previous_assignment :: "store \<Rightarrow> obj \<Rightarrow> config_version option" where
  "previous_assignment s assigned =
     (let scope = text_of assigned ''config_scope'' in
      case pget assigned ''version_no'' of
        PInt n \<Rightarrow> (if scope = [] then None
                   else find (\<lambda>v. (if cv_version_no v = 0 then -1 else cv_version_no v) = n) (scope_versions s scope))
      | PBool b \<Rightarrow> (if scope = [] then None
                   else find (\<lambda>v. (if cv_version_no v = 0 then -1 else cv_version_no v) = (if b then 1 else 0))
                          (scope_versions s scope))
      | _ \<Rightarrow> None)"

definition assign_config ::
    "string \<Rightarrow> string \<Rightarrow> string \<Rightarrow> string \<Rightarrow> int \<Rightarrow> store \<Rightarrow> store \<times> obj option" where
  "assign_config uid ts bid scope version_no s =
     (case map_of (bot_details s) bid of
        None \<Rightarrow> (s, None)
      | Some d \<Rightarrow>
          (case find (\<lambda>v. cv_version_no v = version_no) (scope_versions s scope) of
             None \<Rightarrow> (s, None)
           | Some v \<Rightarrow>
               (let prev = previous_assignment s (b_assigned (bd_bot d));
                    policy = summarize_config_assignment_policy (map_option cv_json prev) (cv_json v);
                    assigned = [(''config_scope'', PStr scope), (''version_no'', PInt version_no),
                      (''config_version_id'', PStr (config_version_id v)), (''assigned_at'', PStr ts),
                      (''apply_status'', PStr ''pending''), (''acknowledged_at'', PNone),
                      (''ack_message'', PNone),
                      (''changed_sections'', str_list (ap_changed_sections policy)),
                      (''hot_reloadable_sections'', str_list (ap_hot_reloadable policy)),
                      (''restart_required_sections'', str_list (ap_restart_required policy)),
                      (''apply_policy'', PStr (ap_apply_policy policy))];
                    s' = fst (emit_alert uid ts (Some bid) ''info'' ''CONFIG_ASSIGNED''
                      (''config '' @ scope @ '' v'' @ int_str version_no @ '' assigned'')
                      (set_assigned bid assigned d s))
                in (s', Some assigned))))"

definition ack_code :: "string \<Rightarrow> string" where
  "ack_code st = (if st = ''applied'' then ''CONFIG_APPLIED''
     else if st = ''rejected'' then ''CONFIG_REJECTED'' else ''CONFIG_RESTART_REQUIRED'')"

definition acknowledge_config_assignment ::
    "string \<Rightarrow> string \<Rightarrow> string \<Rightarrow> string \<Rightarrow> string option \<Rightarrow> store \<Rightarrow> store \<times> obj option" where
  "acknowledge_config_assignment uid ts bid ack_status ack_message s =
     (case map_of (bot_details s) bid of
        None \<Rightarrow> (s, None)
      | Some d \<Rightarrow>
          (let st = lower (strip ack_status) in
           if st \<notin> {''applied'', ''rejected'', ''restart_required''} then (s, None)
           else
             let assigned = dset (dset (dset (b_assigned (bd_bot d)) ''apply_status'' (PStr st))
                    ''ack_message'' (opt_str ack_message)) ''acknowledged_at'' (PStr ts);
                 message = ''config '' @ py_str (pget assigned ''config_scope'') @ '' v''
                    @ py_str (pget assigned ''version_no'') @ '' '' @ st;
                 s' = fst (emit_alert uid ts (Some bid) (if st = ''applied'' then ''info'' else ''warn'')
                    (ack_code st) message (set_assigned bid assigned d s))
             in (s', Some assigned)))"

section \<open>Bots\<close>

definition default_assignment :: "string \<Rightarrow> store \<Rightarrow> obj" where
  "default_assignment ts s =
     (case scope_versions s ''default'' of
        v # _ \<Rightarrow> [(''config_scope'', PStr ''default''), (''version_no'', PInt (cv_version_no v)),
                  (''config_version_id'', PStr (config_version_id v))]
      | [] \<Rightarrow> [(''config_scope'', PStr ''default''), (''version_no'', PInt 1)])
     @ [(''apply_status'', PStr ''applied''), (''acknowledged_at'', PStr ts),
        (''ack_message'', PStr ''initial default config assignment''),
        (''changed_sections'', str_list [''initial_assignment'']),
        (''hot_reloadable_sections'', str_list []),
        (''restart_required_sections'', str_list [''initial_assignment'']),
        (''apply_policy'', PStr ''restart_required'')]"

definition bot_reply :: "bot_row \<Rightarrow> obj" where
  "bot_reply b = [(''bot_id'', PStr (b_bot_id b)),
     (''assigned_config_version'', PDict (b_assigned b)), (''status'', PStr (b_status b))]"

definition register_bot ::
    "string \<Rightarrow> string \<Rightarrow> string \<Rightarrow> string \<Rightarrow> string \<Rightarrow> string option \<Rightarrow> store \<Rightarrow> (store \<times> obj) res" where
  "register_bot uid ts key name mode host s =
     (case find (\<lambda>b. b_bot_key b = key) (bots s) of
        Some b \<Rightarrow>
          (let b' = b\<lparr>b_strategy_name := name, b_mode := mode, b_hostname := host, b_status := ''running'',
                      b_last_seen_at := ts\<rparr>;
               bots' = set_first (\<lambda>x. b_bot_key x = key) (\<lambda>_. b') (bots s)
           in case map_of (bot_details s) (b_bot_id b) of
                None \<Rightarrow> Inl (KeyError (b_bot_id b))
              | Some d \<Rightarrow> Inr (s\<lparr>bots := bots',
                    bot_details := dset (bot_details s) (b_bot_id b) (d\<lparr>bd_bot := b'\<rparr>)\<rparr>, bot_reply b'))
      | None \<Rightarrow>
          (let b = \<lparr>b_bot_id = uid, b_bot_key = key, b_strategy_name = name, b_mode = mode,
                    b_status = ''running'', b_hostname = host, b_last_seen_at = ts,
                    b_assigned = default_assignment ts s\<rparr>
           in Inr (s\<lparr>bots := bots s @ [b],
                 bot_details := dset (bot_details s) uid \<lparr>bd_bot = b, bd_latest_heartbeat = None,
                   bd_latest_run = None, bd_recent_alerts = []\<rparr>,
                 heartbeats := dset (heartbeats s) uid []\<rparr>, bot_reply b)))"

definition record_heartbeat ::
    "string \<Rightarrow> string \<Rightarrow> bool \<Rightarrow> bool \<Rightarrow> bool \<Rightarrow> int option \<Rightarrow> obj option \<Rightarrow> store \<Rightarrow> store \<times> obj option" where
  "record_heartbeat ts bid alive market_ok order_ok lag context s =
     (case map_of (bot_details s) bid of
        None \<Rightarrow> (s, None)
      | Some d \<Rightarrow>
          (let hb = \<lparr>hb_created_at = ts, hb_process_alive = alive, hb_market_data_alive = market_ok,
                  hb_ordering_alive = order_ok, hb_lag_ms = lag,
                  hb_payload = (case context of None \<Rightarrow> [] | Some c \<Rightarrow> c)\<rparr>;
               history = (case map_of (heartbeats s) bid of None \<Rightarrow> [] | Some h \<Rightarrow> h);
               st = (if list_ex (\<lambda>b. b_bot_id b = bid) (bots s)
                     then (if alive then ''running'' else ''failed'') else b_status (bd_bot d));
               d' = d\<lparr>bd_latest_heartbeat := Some hb,
                      bd_bot := (bd_bot d)\<lparr>b_last_seen_at := ts, b_status := st\<rparr>\<rparr>
           in (s\<lparr>heartbeats := dset (heartbeats s) bid (hb # history),
                 bot_details := dset (bot_details s) bid d',
                 bots := set_first (\<lambda>b. b_bot_id b = bid) (\<lambda>b. b\<lparr>b_last_seen_at := ts,
                    b_status := (if alive then ''running'' else ''failed'')\<rparr>) (bots s)\<rparr>,
               Some [(''bot_id'', PStr bid), (''status'', PStr st), (''recorded_at'', PStr ts)])))"

end
