(* ===== verification/StoreViews.thy ===== *)
theory StoreViews
  imports Store "HOL-Library.Multiset"
begin

text \<open>
  The queries of the store: \<open>storage/read_store.py\<close>, \<open>storage/order_views.py\<close>,
  \<open>storage/config_alert_views.py\<close>. An absent or empty query argument does not filter. Rows are sorted
  by a text key, newest first, and rows with the same key keep the order of the table. Results are
  copies (\<open>deepcopy\<close>), here values.
\<close>

section \<open>Filters and order\<close>

definition given :: "string option \<Rightarrow> bool" where
  "given v = (v \<noteq> None \<and> v \<noteq> Some [])"

definition passes :: "string option \<Rightarrow> (string \<Rightarrow> bool) \<Rightarrow> bool" where
  "passes v p = (given v \<longrightarrow> p (the v))"

definition keep_if :: "string option \<Rightarrow> (string \<Rightarrow> 'a \<Rightarrow> bool) \<Rightarrow> 'a list \<Rightarrow> 'a list" where
  \<comment> \<open>\<open>if value: rows = [row for row in rows if ...]\<close>\<close>
  "keep_if v p rows = (if given v then filter (p (the v)) rows else rows)"

definition newest :: "('a \<Rightarrow> 'k :: linorder) \<Rightarrow> 'a list \<Rightarrow> 'a list" where
  \<comment> \<open>\<open>sorted(rows, key=..., reverse=True)\<close>, which keeps the order of rows with equal keys\<close>
  "newest key rows = rev (sort_key key (rev rows))"

section \<open>Orders and fills\<close>

record fill_aggregate =
  agg_filled_qty :: string
  agg_avg_fill_price :: "string option"
  agg_fee_amount :: "string option"

definition fill_fees :: "fill list \<Rightarrow> string list" where
  "fill_fees fs = concat (map (\<lambda>f. case fl_fee_amount f of None \<Rightarrow> [] | Some t \<Rightarrow> [t]) fs)"

definition fill_notional :: "fill \<Rightarrow> dec res" where
  "fill_notional f = andThen (decimal_of (fl_price f)) (\<lambda>p. andThen (decimal_of (fl_qty f)) (\<lambda>q. Inr (dmul p q)))"

definition or_zero :: "string \<Rightarrow> string" where
  "or_zero t = (if t = [] then ''0'' else t)"

definition fill_aggregate_of :: "fill list \<Rightarrow> string \<Rightarrow> fill_aggregate res" where
  "fill_aggregate_of fs oid =
     (let own = order_fills fs oid in
      if own = [] then Inr \<lparr>agg_filled_qty = ''0'', agg_avg_fill_price = None, agg_fee_amount = None\<rparr>
      else
        andThen (mapM (\<lambda>f. decimal_of (fl_qty f)) own) (\<lambda>qs.
        andThen (mapM fill_notional own) (\<lambda>ns.
        andThen (mapM decimal_of (fill_fees own)) (\<lambda>fees.
          let total_qty = dsum_from (Dec 0 0) qs;
              total_notional = dsum_from (Dec 0 0) ns;
              total_fee = dsum_from (Dec 0 0) fees
          in andThen (if dlt (Dec 0 0) total_qty
                      then andThen (ddiv total_notional total_qty) (\<lambda>d. Inr (Some (dplain d)))
                      else Inr None) (\<lambda>avg.
             Inr \<lparr>agg_filled_qty = or_zero (dplain total_qty), agg_avg_fill_price = avg,
                  agg_fee_amount = Some (or_zero (dplain total_fee))\<rparr>)))))"

record order_query =
  oq_bot_id :: "string option"
  oq_exchange_name :: "string option"
  oq_status :: "string option"
  oq_market :: "string option"
  oq_strategy_run_id :: "string option"
  oq_created_from :: "string option"
  oq_created_to :: "string option"

record order_view =
  ov_order :: order
  ov_aggregate :: fill_aggregate

definition enrich_order :: "fill list \<Rightarrow> order \<Rightarrow> order_view res" where
  "enrich_order fs ord = andThen (fill_aggregate_of fs (order_id ord))
     (\<lambda>agg. Inr \<lparr>ov_order = ord, ov_aggregate = agg\<rparr>)"

definition list_orders :: "(string, order) dict \<Rightarrow> fill list \<Rightarrow> order_query \<Rightarrow> order_view list res" where
  "list_orders ords fs q =
     (let rows = dvals ords;
          rows = keep_if (oq_bot_id q) (\<lambda>v ord. ord_bot_id ord = v) rows;
          rows = keep_if (oq_exchange_name q) (\<lambda>v ord. ord_exchange_name ord = v) rows;
          rows = keep_if (oq_status q) (\<lambda>v ord. ord_status ord = v) rows;
          rows = keep_if (oq_market q) (\<lambda>v ord. ord_market ord = v) rows;
          rows = keep_if (oq_strategy_run_id q) (\<lambda>v ord. ord_run_id ord = v) rows;
          rows = keep_if (oq_created_from q) (\<lambda>v ord. v \<le> ord_created_at ord) rows;
          rows = keep_if (oq_created_to q) (\<lambda>v ord. ord_created_at ord \<le> v) rows
      in andThen (mapM (enrich_order fs) rows) (\<lambda>vs. Inr (newest (\<lambda>v. ord_updated_at (ov_order v)) vs)))"

record fill_query =
  fq_bot_id :: "string option"
  fq_exchange_name :: "string option"
  fq_market :: "string option"
  fq_strategy_run_id :: "string option"
  fq_order_id :: "string option"
  fq_created_from :: "string option"
  fq_created_to :: "string option"

definition list_fills :: "fill list \<Rightarrow> fill_query \<Rightarrow> fill list" where
  "list_fills fs q =
     (let rows = keep_if (fq_bot_id q) (\<lambda>v f. fl_bot_id f = v) fs;
          rows = keep_if (fq_exchange_name q) (\<lambda>v f. fl_exchange_name f = v) rows;
          rows = keep_if (fq_market q) (\<lambda>v f. fl_market f = v) rows;
          rows = keep_if (fq_strategy_run_id q) (\<lambda>v f. fl_run_id f = v) rows;
          rows = keep_if (fq_order_id q) (\<lambda>v f. fl_order_id f = v) rows;
          rows = keep_if (fq_created_from q) (\<lambda>v f. v \<le> fl_filled_at f) rows;
          rows = keep_if (fq_created_to q) (\<lambda>v f. fl_filled_at f \<le> v) rows
      in newest fl_filled_at rows)"

record order_detail =
  od_order :: order
  od_aggregate :: fill_aggregate
  od_order_intent :: "order_intent option"
  od_fills :: "fill list"

definition fills_of_order :: "string \<Rightarrow> fill_query" where
  "fills_of_order oid = \<lparr>fq_bot_id = None, fq_exchange_name = None, fq_market = None,
     fq_strategy_run_id = None, fq_order_id = Some oid, fq_created_from = None, fq_created_to = None\<rparr>"

definition get_order_detail :: "store \<Rightarrow> string \<Rightarrow> order_detail option res" where
  "get_order_detail s oid =
     (case map_of (orders s) oid of
        None \<Rightarrow> Inr None
      | Some ord \<Rightarrow>
          andThen (fill_aggregate_of (fills s) oid) (\<lambda>agg.
            Inr (Some \<lparr>od_order = ord, od_aggregate = agg,
              od_order_intent = map_of (order_intents s) (ord_intent_id ord),
              od_fills = list_fills (fills s) (fills_of_order oid)\<rparr>)))"

section \<open>Bots, runs, intents\<close>

definition list_bots :: "store \<Rightarrow> string option \<Rightarrow> string option \<Rightarrow> string option \<Rightarrow> bot_row list" where
  "list_bots s status name mode =
     keep_if mode (\<lambda>v b. b_mode b = v)
       (keep_if name (\<lambda>v b. b_strategy_name b = v)
         (keep_if status (\<lambda>v b. b_status b = v) (bots s)))"

definition get_bot_detail :: "store \<Rightarrow> string \<Rightarrow> bot_detail option" where
  "get_bot_detail s bid = map_of (bot_details s) bid"

definition or_text :: "string option \<Rightarrow> string \<Rightarrow> string" where
  "or_text a b = (if given a then the a else b)"

definition run_sort_key :: "strategy_run \<Rightarrow> string" where
  "run_sort_key r = or_text (run_started_at r)
     (or_text (Some (run_created_at r)) (or_text (run_stopped_at r) []))"

definition list_strategy_runs ::
    "store \<Rightarrow> string option \<Rightarrow> string option \<Rightarrow> string option \<Rightarrow> strategy_run list" where
  "list_strategy_runs s bid status mode =
     newest run_sort_key
       (keep_if mode (\<lambda>v r. run_mode r = v)
         (keep_if status (\<lambda>v r. run_status r = v)
           (keep_if bid (\<lambda>v r. run_bot_id r = v) (dvals (strategy_runs s)))))"

definition get_strategy_run :: "store \<Rightarrow> string \<Rightarrow> strategy_run option" where
  "get_strategy_run s rid = map_of (strategy_runs s) rid"

record intent_query =
  iq_bot_id :: "string option"
  iq_strategy_run_id :: "string option"
  iq_status :: "string option"
  iq_market :: "string option"
  iq_created_from :: "string option"
  iq_created_to :: "string option"

definition list_order_intents :: "store \<Rightarrow> intent_query \<Rightarrow> order_intent list" where
  "list_order_intents s q =
     (let rows = dvals (order_intents s);
          rows = keep_if (iq_bot_id q) (\<lambda>v i. int_bot_id i = v) rows;
          rows = keep_if (iq_strategy_run_id q) (\<lambda>v i. int_run_id i = v) rows;
          rows = keep_if (iq_status q) (\<lambda>v i. int_status i = v) rows;
          rows = keep_if (iq_market q) (\<lambda>v i. int_market i = v) rows;
          rows = keep_if (iq_created_from q) (\<lambda>v i. v \<le> int_created_at i) rows;
          rows = keep_if (iq_created_to q) (\<lambda>v i. int_created_at i \<le> v) rows
      in newest int_created_at rows)"

definition get_order_intent :: "store \<Rightarrow> string \<Rightarrow> order_intent option" where
  "get_order_intent s iid = map_of (order_intents s) iid"

section \<open>Heartbeats, alerts, configurations, counts\<close>

definition py_take :: "int \<Rightarrow> 'a list \<Rightarrow> 'a list" where
  \<comment> \<open>\<open>rows[:limit]\<close>: a negative limit drops rows from the end\<close>
  "py_take n rows = take (nat (if n < 0 then int (length rows) + n else n)) rows"

definition list_heartbeats :: "store \<Rightarrow> string \<Rightarrow> int \<Rightarrow> heartbeat list option" where
  "list_heartbeats s bid limit = map_option (py_take limit) (map_of (heartbeats s) bid)"

definition list_alerts :: "store \<Rightarrow> string option \<Rightarrow> string option \<Rightarrow> bool option \<Rightarrow> alert list" where
  "list_alerts s bid level acknowledged =
     (let rows = keep_if bid (\<lambda>v a. al_bot_id a = Some v) (alerts s);
          rows = keep_if level (\<lambda>v a. al_level a = v) rows
      in case acknowledged of None \<Rightarrow> rows
         | Some b \<Rightarrow> filter (\<lambda>a. (al_acknowledged_at a \<noteq> None) = b) rows)"

definition latest_config :: "store \<Rightarrow> string \<Rightarrow> config_version option" where
  "latest_config s scope = (case map_of (config_versions s) scope of Some (v # _) \<Rightarrow> Some v | _ \<Rightarrow> None)"

definition list_config_versions :: "store \<Rightarrow> string \<Rightarrow> config_version list" where
  "list_config_versions s scope = scope_versions s scope"

definition get_alert_detail :: "store \<Rightarrow> string \<Rightarrow> alert option" where
  "get_alert_detail s aid = find (\<lambda>a. alert_id a = aid) (alerts s)"

definition active_bot_count :: "store \<Rightarrow> nat" where
  "active_bot_count s = length (filter (\<lambda>b. b_status b = ''running'') (bots s))"

definition active_strategy_run_count :: "store \<Rightarrow> nat" where
  "active_strategy_run_count s = length (filter (\<lambda>r. run_status r = ''running'') (dvals (strategy_runs s)))"

section \<open>What a query returns\<close>

lemma keep_if_filter: "keep_if v p rows = filter (\<lambda>r. passes v (\<lambda>x. p x r)) rows"
  by (simp add: keep_if_def passes_def)

lemma newest_mset [simp]: "mset (newest key rows) = mset rows"
  by (simp add: newest_def)

lemma newest_set [simp]: "set (newest key rows) = set rows"
  by (simp add: newest_def)

lemma newest_sorted: "sorted_wrt (\<lambda>a b. key b \<le> key a) (newest key rows)"
proof -
  have "sorted_wrt (\<lambda>a b. key a \<le> key b) (sort_key key (rev rows))"
    using sorted_sort_key [of key "rev rows"] by (simp add: sorted_map)
  then show ?thesis by (simp add: newest_def sorted_wrt_rev)
qed

lemma newest_stable: "filter (\<lambda>r. key r = k) (newest key rows) = filter (\<lambda>r. key r = k) rows"
  by (simp add: newest_def rev_filter [symmetric] sort_key_stable)

definition order_selected :: "order_query \<Rightarrow> order \<Rightarrow> bool" where
  "order_selected q ord = (passes (oq_bot_id q) (\<lambda>v. ord_bot_id ord = v)
     \<and> passes (oq_exchange_name q) (\<lambda>v. ord_exchange_name ord = v)
     \<and> passes (oq_status q) (\<lambda>v. ord_status ord = v)
     \<and> passes (oq_market q) (\<lambda>v. ord_market ord = v)
     \<and> passes (oq_strategy_run_id q) (\<lambda>v. ord_run_id ord = v)
     \<and> passes (oq_created_from q) (\<lambda>v. v \<le> ord_created_at ord)
     \<and> passes (oq_created_to q) (\<lambda>v. ord_created_at ord \<le> v))"

lemma list_orders_filter: "list_orders ords fs q =
    andThen (mapM (enrich_order fs) (filter (order_selected q) (dvals ords)))
      (\<lambda>vs. Inr (newest (\<lambda>v. ord_updated_at (ov_order v)) vs))"
  by (simp add: list_orders_def keep_if_filter order_selected_def [abs_def] conj_ac)

lemma enrich_orders: "mapM (enrich_order fs) rows = Inr vs \<Longrightarrow> map ov_order vs = rows"
  by (induction rows arbitrary: vs) (auto simp: enrich_order_def res_simps)


lemma enrich_aggregate:
  "enrich_order fs ord = Inr v \<Longrightarrow> fill_aggregate_of fs (order_id (ov_order v)) = Inr (ov_aggregate v)"
  by (auto simp: enrich_order_def res_simps)

lemma sort_key_map: "map f (sort_key (\<lambda>x. k (f x)) xs) = sort_key k (map f xs)"
proof -
  have ins: "map f (insort_key (\<lambda>x. k (f x)) x ys) = insort_key k (f x) (map f ys)" for x ys
    by (induction ys) auto
  show ?thesis by (induction xs) (simp_all add: ins)
qed

lemma newest_map: "map f (newest (\<lambda>x. k (f x)) xs) = newest k (map f xs)"
  by (simp add: newest_def rev_map [symmetric] sort_key_map del: rev_map)

definition fill_texts_ok :: "fill \<Rightarrow> bool" where
  "fill_texts_ok f = (dparse (fl_price f) \<noteq> None \<and> dparse (fl_qty f) \<noteq> None
     \<and> (case fl_fee_amount f of None \<Rightarrow> True | Some t \<Rightarrow> dparse t \<noteq> None))"

lemma decimal_of_returns [simp]: "returns (decimal_of t) = (dparse t \<noteq> None)"
  by (simp add: decimal_of_def split: option.split)

lemma fill_aggregate_returns:
  assumes "list_all fill_texts_ok fs"
  shows "returns (fill_aggregate_of fs oid)"
proof -
  have ok: "\<forall>f \<in> set (order_fills fs oid). fill_texts_ok f"
    using assms by (simp add: order_fills_def list_all_iff)
  have "returns (mapM (\<lambda>f. decimal_of (fl_qty f)) (order_fills fs oid))"
    "returns (mapM fill_notional (order_fills fs oid))"
    "returns (mapM decimal_of (fill_fees (order_fills fs oid)))"
    using ok by (auto intro!: mapM_returns simp: fill_texts_ok_def fill_notional_def returns_andThen
        fill_fees_def split: option.splits)
  then obtain qs ns fees where
    "mapM (\<lambda>f. decimal_of (fl_qty f)) (order_fills fs oid) = Inr qs"
    "mapM fill_notional (order_fills fs oid) = Inr ns"
    "mapM decimal_of (fill_fees (order_fills fs oid)) = Inr fees"
    by (auto simp: returns_iff)
  moreover have "returns (ddiv a b)" if "dlt (Dec 0 0) b" for a b
    using that ddiv_returns [of b a] by (simp add: dcmp)
  ultimately show ?thesis
    by (simp add: fill_aggregate_of_def Let_def returns_andThen)
qed

text \<open>
  When the numbers stored with the fills are decimal texts, listing orders never raises; it returns
  each selected order of the table exactly once with the aggregate of its fills, the most recently
  updated first, orders of the same update time in table order.
\<close>

theorem order_listing_complete:
  assumes "list_all fill_texts_ok fs"
  shows "\<exists>vs. list_orders ords fs q = Inr vs
     \<and> mset (map ov_order vs) = mset (filter (order_selected q) (dvals ords))
     \<and> sorted_wrt (\<lambda>v w. ord_updated_at (ov_order w) \<le> ord_updated_at (ov_order v)) vs
     \<and> (\<forall>t. filter (\<lambda>ord. ord_updated_at ord = t) (map ov_order vs)
           = filter (\<lambda>ord. ord_updated_at ord = t) (filter (order_selected q) (dvals ords)))
     \<and> list_all (\<lambda>v. fill_aggregate_of fs (order_id (ov_order v)) = Inr (ov_aggregate v)) vs"
proof -
  let ?key = "\<lambda>v. ord_updated_at (ov_order v)"
  let ?rows = "filter (order_selected q) (dvals ords)"
  have "returns (mapM (enrich_order fs) ?rows)"
    using fill_aggregate_returns [OF assms]
    by (intro mapM_returns) (simp add: enrich_order_def returns_andThen)
  then obtain vs where vs: "mapM (enrich_order fs) ?rows = Inr vs" by (auto simp: returns_iff)
  have agg: "list_all (\<lambda>v. fill_aggregate_of fs (order_id (ov_order v)) = Inr (ov_aggregate v)) vs"
    using mapM_set [OF vs] enrich_aggregate by (fastforce simp: list_all_iff)
  show ?thesis
  proof (intro exI conjI)
    show "list_orders ords fs q = Inr (newest ?key vs)" by (simp add: list_orders_filter vs)
    show "mset (map ov_order (newest ?key vs)) = mset ?rows"
      by (simp only: newest_map [of ov_order ord_updated_at] newest_mset enrich_orders [OF vs])
    show "sorted_wrt (\<lambda>v w. ?key w \<le> ?key v) (newest ?key vs)" by (rule newest_sorted)
    show "\<forall>t. filter (\<lambda>ord. ord_updated_at ord = t) (map ov_order (newest ?key vs))
           = filter (\<lambda>ord. ord_updated_at ord = t) ?rows"
      by (simp only: newest_map [of ov_order ord_updated_at] newest_stable enrich_orders [OF vs] simp_thms)
    show "list_all (\<lambda>v. fill_aggregate_of fs (order_id (ov_order v)) = Inr (ov_aggregate v)) (newest ?key vs)"
      using agg by (simp add: list_all_iff)
  qed
qed

definition demo_row :: "string \<Rightarrow> string \<Rightarrow> order" where
  "demo_row oid updated = \<lparr>order_id = oid, ord_intent_id = ''i1'', ord_bot_id = ''b1'', ord_run_id = ''r1'',
     ord_exchange_name = ''bitflyer'', ord_exchange_order_id = None, ord_market = ''BTC/JPY'',
     ord_side = ''buy'', ord_requested_price = None, ord_requested_qty = ''1.0'', ord_status = ''filled'',
     ord_created_at = ''t'', ord_submitted_at = ''t'', ord_updated_at = updated, ord_raw_payload = []\<rparr>"

definition demo_fill_row :: fill where
  "demo_fill_row = new_fill ''f1'' ''t'' (demo_row ''o1'' ''t1'') ''filled''
     \<lparr>fa_order_id = ''o1'', fa_exchange_trade_id = None, fa_price = ''100.50'', fa_qty = ''1.0'',
      fa_fee_asset = None, fa_fee_amount = Some ''0.10'', fa_filled_at = ''t''\<rparr>"

definition demo_query :: order_query where
  "demo_query = \<lparr>oq_bot_id = Some ''b1'', oq_exchange_name = None, oq_status = Some ''filled'',
     oq_market = None, oq_strategy_run_id = Some [], oq_created_from = None, oq_created_to = None\<rparr>"

theorem order_listing_complete_witness:
  "\<exists>vs. list_orders [(''o1'', demo_row ''o1'' ''t1''), (''o2'', demo_row ''o2'' ''t2'')] [demo_fill_row] demo_query = Inr vs
     \<and> map (\<lambda>v. order_id (ov_order v)) vs = [''o2'', ''o1''] \<and> length vs = 2
     \<and> map (\<lambda>v. agg_avg_fill_price (ov_aggregate v)) vs = [None, Some ''100.5'']"
proof -
  let ?os = "[(''o1'', demo_row ''o1'' ''t1''), (''o2'', demo_row ''o2'' ''t2'')]"
  have "list_all fill_texts_ok [demo_fill_row]" by code_simp
  from order_listing_complete [OF this, of ?os demo_query] obtain vs where
    vs: "list_orders ?os [demo_fill_row] demo_query = Inr vs"
      "mset (map ov_order vs) = mset (filter (order_selected demo_query) (dvals ?os))" by blast
  have "length (filter (order_selected demo_query) (dvals ?os)) = 2" by code_simp
  with arg_cong [OF vs(2), of size] have "length vs = 2" by (simp only: size_mset length_map)
  moreover have "andThen (list_orders ?os [demo_fill_row] demo_query)
      (\<lambda>vs. Inr (map (\<lambda>v. order_id (ov_order v)) vs, map (\<lambda>v. agg_avg_fill_price (ov_aggregate v)) vs))
    = Inr ([''o2'', ''o1''], [None, Some ''100.5''])" by code_simp
  ultimately show ?thesis using vs(1) by simp
qed

end
