(* ===== verification/StoreInv.thy ===== *)
theory StoreInv
  imports Store DecGrid
begin

text \<open>
  The store as a state machine: one step per mutating operation of \<open>Store\<close>, in any order and with any
  arguments, and the invariants that hold of every state reached from a sound start. Assumed of the environment is only that
  a drawn identifier is not in use (\<open>uuid4\<close>). Quantities of orders and fills are texts with at most \<open>a\<close>
  decimals, not negative and less than \<open>10^28\<close> grid steps, so that sums of them are not rounded.
\<close>

section \<open>Steps\<close>

definition qty_on :: "int \<Rightarrow> string \<Rightarrow> bool" where
  "qty_on a t = (case dparse t of None \<Rightarrow> False
     | Some d \<Rightarrow> - a \<le> dexp d \<and> 0 \<le> coef d \<and> dval d < grid_max (- a))"

definition qty_val :: "string \<Rightarrow> rat" where
  "qty_val t = (case dparse t of None \<Rightarrow> 0 | Some d \<Rightarrow> dval d)"

inductive store_step :: "int \<Rightarrow> store \<Rightarrow> store \<Rightarrow> bool" for a :: int where
  intent: "map_of (order_intents s) uid = None \<Longrightarrow> store_step a s (fst (create_order_intent uid ts ia s))"
| order: "map_of (orders s) uid = None \<Longrightarrow> qty_on a (oa_requested_qty oa) \<Longrightarrow>
    store_step a s (fst (create_order uid ts oa s))"
| status: "store_step a s (fst (update_order_status ts oid st s))"
| fill: "qty_on a (fa_qty fa) \<Longrightarrow> create_fill uid ts fa s = Inr (s', r) \<Longrightarrow> store_step a s s'"
| create_run: "map_of (strategy_runs s) uid = None \<Longrightarrow>
    store_step a s (fst (create_strategy_run uid ts bid name mode s))"
| start_run: "store_step a s (fst (start_strategy_run ts rid s))"
| stop_run: "store_step a s (fst (stop_strategy_run ts rid s))"
| alert: "store_step a s (fst (emit_alert uid ts b level code message s))"
| ack_alert: "store_step a s (fst (acknowledge_alert ts aid s))"
| config: "store_step a s (fst (create_config_version uid ts scope json checksum author s))"
| assign: "store_step a s (fst (assign_config uid ts bid scope n s))"
| ack_config: "store_step a s (fst (acknowledge_config_assignment uid ts bid ast am s))"
| register: "map_of (bot_details s) uid = None \<Longrightarrow> register_bot uid ts key name mode host s = Inr (s', r) \<Longrightarrow>
    store_step a s s'"
| heartbeat: "store_step a s (fst (record_heartbeat ts bid p m od lag ctx s))"

section \<open>Invariants\<close>

text \<open>
  What is kept: run identifiers and the single active run per bot, fills within the requested quantity of
  an existing order, consecutive version numbers per configuration scope (newest first), and a detail for
  every bot. A store that meets them is a sound start: the empty store is one, and so is the sample store
  the program starts with (\<open>SampleStore\<close>).
\<close>

definition runs_unique :: "(string, strategy_run) dict \<Rightarrow> bool" where
  "runs_unique d = ((\<forall>k r. map_of d k = Some r \<longrightarrow> run_id r = k) \<and>
     (\<forall>k k' r r'. map_of d k = Some r \<longrightarrow> map_of d k' = Some r' \<longrightarrow> is_active r \<longrightarrow> is_active r' \<longrightarrow>
        run_bot_id r = run_bot_id r' \<longrightarrow> k = k'))"

definition runs_ok :: "(string, strategy_run) dict \<Rightarrow> bool" where
  "runs_ok d = (distinct (map fst d) \<and> runs_unique d)"

definition fill_sum :: "fill list \<Rightarrow> string \<Rightarrow> rat" where
  "fill_sum fs oid = sum_list (map (\<lambda>f. qty_val (fl_qty f)) (order_fills fs oid))"

definition fills_ok :: "int \<Rightarrow> (string, order) dict \<Rightarrow> fill list \<Rightarrow> bool" where
  "fills_ok a ords fs = (list_all (\<lambda>f. map_of ords (fl_order_id f) \<noteq> None \<and> qty_on a (fl_qty f)) fs
     \<and> (\<forall>k ord. map_of ords k = Some ord \<longrightarrow>
          qty_on a (ord_requested_qty ord) \<and> fill_sum fs k \<le> qty_val (ord_requested_qty ord)))"

fun newest_first :: "config_version list \<Rightarrow> bool" where
  "newest_first [] = True"
| "newest_first [v] = True"
| "newest_first (v # w # vs) = (cv_version_no v = cv_version_no w + 1 \<and> newest_first (w # vs))"

definition configs_ok :: "(string, config_version list) dict \<Rightarrow> bool" where
  "configs_ok d = (\<forall>k vs. map_of d k = Some vs \<longrightarrow> newest_first vs \<and> list_all (\<lambda>v. cv_scope v = k) vs)"

definition bots_ok :: "bot_row list \<Rightarrow> (string, bot_detail) dict \<Rightarrow> bool" where
  "bots_ok bs ds = (list_all (\<lambda>b. map_of ds (b_bot_id b) \<noteq> None) bs
     \<and> (\<forall>k d. map_of ds k = Some d \<longrightarrow> b_bot_id (bd_bot d) = k))"

definition sound_start :: "int \<Rightarrow> store \<Rightarrow> bool" where
  "sound_start a s = (runs_ok (strategy_runs s) \<and> fills_ok a (orders s) (fills s) \<and> configs_ok (config_versions s)
     \<and> bots_ok (bots s) (bot_details s))"

inductive reachable :: "int \<Rightarrow> store \<Rightarrow> bool" for a :: int where
  start: "sound_start a s \<Longrightarrow> reachable a s"
| step: "reachable a s \<Longrightarrow> store_step a s s' \<Longrightarrow> reachable a s'"

lemma empty_store_sound: "sound_start a empty_store"
  by (simp add: sound_start_def empty_store_def runs_ok_def runs_unique_def fills_ok_def configs_ok_def bots_ok_def)

lemma reachable_empty: "reachable a empty_store"
  by (rule reachable.start) (rule empty_store_sound)

text \<open>
  The contract of an invariant: every operation keeps it; a store invariant also holds of every sound
  start, and so of every reachable store.
\<close>

locale kept_by_steps =
  fixes a :: int and I :: "store \<Rightarrow> bool"
  assumes kept: "store_step a s s' \<Longrightarrow> I s \<Longrightarrow> I s'"
begin

lemma holds_after: "(store_step a)\<^sup>*\<^sup>* s s' \<Longrightarrow> I s \<Longrightarrow> I s'"
  by (induction rule: rtranclp_induct) (auto intro: kept)

end

locale store_invariant = kept_by_steps +
  assumes initial: "sound_start a s \<Longrightarrow> I s"
begin

lemma holds: "reachable a s \<Longrightarrow> I s"
  by (induction rule: reachable.induct) (erule initial, rule kept)

end

lemma set_dvals: "map_of d k = Some v \<Longrightarrow> v \<in> set (dvals d)"
  using map_of_SomeD [of d k v] by (force simp: dvals_def)

lemma find_None_dvals: "find P (dvals d) = None \<Longrightarrow> map_of d k = Some v \<Longrightarrow> \<not> P v"
  using set_dvals by (fastforce simp: find_None_iff)

section \<open>Runs: at most one active run per bot\<close>

lemma runs_unique_update:
  assumes "runs_unique d" "map_of d k = Some r" "run_id r' = run_id r" "run_bot_id r' = run_bot_id r"
    "is_active r' \<Longrightarrow> is_active r"
  shows "runs_unique (dset d k r')"
  using assms unfolding runs_unique_def by (simp add: fun_upd_apply split: if_split) metis

lemma runs_unique_new:
  assumes "runs_unique d" "run_id r = k"
    "\<And>k' r'. map_of d k' = Some r' \<Longrightarrow> is_active r' \<Longrightarrow> run_bot_id r' \<noteq> run_bot_id r"
  shows "runs_unique (dset d k r)"
  using assms unfolding runs_unique_def by (simp add: fun_upd_apply split: if_split) metis

lemma runs_ok_update [inv_intro]:
  assumes "runs_ok d" "map_of d k = Some r" "run_id r' = run_id r" "run_bot_id r' = run_bot_id r"
    "is_active r' \<Longrightarrow> is_active r"
  shows "runs_ok (dset d k r')"
  using assms by (simp add: runs_ok_def distinct_dset runs_unique_update)

lemma runs_ok_new [inv_intro]:
  assumes "runs_ok d" "run_id r = k"
    "\<And>k' r'. map_of d k' = Some r' \<Longrightarrow> is_active r' \<Longrightarrow> run_bot_id r' \<noteq> run_bot_id r"
  shows "runs_ok (dset d k r)"
proof -
  from assms(1) have "distinct (map fst d)" "runs_unique d" by (simp_all add: runs_ok_def)
  from this(1) runs_unique_new [OF this(2) assms(2,3)] show ?thesis
    by (simp add: runs_ok_def distinct_dset)
qed

lemma create_run_ok:
  "runs_ok (strategy_runs s) \<Longrightarrow> runs_ok (strategy_runs (fst (create_strategy_run uid ts bid name mode s)))"
  unfolding create_strategy_run_def Let_def
  by (auto split: option.splits intro!: runs_ok_new dest: find_None_dvals)

lemma run_ops_ok:
  "runs_ok (strategy_runs s) \<Longrightarrow> runs_ok (strategy_runs (fst (start_strategy_run ts rid s)))"
  "runs_ok (strategy_runs s) \<Longrightarrow> runs_ok (strategy_runs (fst (stop_strategy_run ts rid s)))"
  "runs_ok (strategy_runs s) \<Longrightarrow> runs_ok (strategy_runs (fst (create_order_intent uid ts ia s)))"
  unfolding start_strategy_run_def stop_strategy_run_def create_order_intent_def Let_def
  by (auto split: option.splits intro!: runs_ok_update simp: is_active_def)

lemma runs_unchanged:
  "strategy_runs (fst (create_order uid ts oa s)) = strategy_runs s"
  "strategy_runs (fst (update_order_status ts oid st s)) = strategy_runs s"
  "strategy_runs (fst (emit_alert uid ts b level code message s)) = strategy_runs s"
  "strategy_runs (fst (acknowledge_alert ts aid s)) = strategy_runs s"
  "strategy_runs (fst (create_config_version uid ts scope json checksum author s)) = strategy_runs s"
  "strategy_runs (fst (assign_config uid ts bid scope n s)) = strategy_runs s"
  "strategy_runs (fst (acknowledge_config_assignment uid ts bid ast am s)) = strategy_runs s"
  "strategy_runs (fst (record_heartbeat ts bid p m od lag ctx s)) = strategy_runs s"
  "create_fill uid ts fa s = Inr (s', r) \<Longrightarrow> strategy_runs s' = strategy_runs s"
  "register_bot uid ts key name mode host s = Inr (s', q) \<Longrightarrow> strategy_runs s' = strategy_runs s"
  by (auto simp: create_order_def update_order_status_def emit_alert_def acknowledge_alert_def
      create_config_version_def assign_config_def acknowledge_config_assignment_def record_heartbeat_def
      create_fill_def register_bot_def apply_fill_def set_assigned_def Let_def res_simps
      split: option.splits if_splits prod.splits)

lemma step_runs_ok: "store_step a s s' \<Longrightarrow> runs_ok (strategy_runs s) \<Longrightarrow> runs_ok (strategy_runs s')"
  by (induction rule: store_step.induct) (simp_all add: runs_unchanged create_run_ok run_ops_ok)

interpretation runs: store_invariant a "\<lambda>s. runs_ok (strategy_runs s)" for a
  by unfold_locales (rule step_runs_ok, simp_all add: sound_start_def)

lemmas reachable_runs_ok = runs.holds

section \<open>Orders belong to their intent\<close>

definition order_matches :: "order_intent \<Rightarrow> order \<Rightarrow> bool" where
  "order_matches i ord = (ord_market ord = int_market i
     \<and> ord_exchange_name ord \<in> {int_buy_exchange i, int_sell_exchange i}
     \<and> ord_bot_id ord = int_bot_id i \<and> ord_run_id ord = int_run_id i)"

text \<open>Orders the starting store already had are in \<open>old\<close>: the sample store has one without an intent.\<close>

definition orders_ok ::
    "(string, order) dict \<Rightarrow> (string, order_intent) dict \<Rightarrow> (string, order) dict \<Rightarrow> bool" where
  "orders_ok old ints ords = (\<forall>k ord. map_of ords k = Some ord \<and> map_of old k = None \<longrightarrow>
     (\<exists>i. map_of ints (ord_intent_id ord) = Some i \<and> order_matches i ord))"

definition same_terms :: "order_intent \<Rightarrow> order_intent \<Rightarrow> bool" where
  "same_terms i j = (int_market i = int_market j \<and> int_buy_exchange i = int_buy_exchange j
     \<and> int_sell_exchange i = int_sell_exchange j \<and> int_bot_id i = int_bot_id j \<and> int_run_id i = int_run_id j)"

lemma orders_ok_intent_update [inv_intro]:
  assumes "orders_ok old ints ords" "map_of ints k = Some i" "same_terms i j"
  shows "orders_ok old (dset ints k j) ords"
  using assms unfolding orders_ok_def order_matches_def same_terms_def by fastforce

lemma orders_ok_intent_new [inv_intro]:
  assumes "orders_ok old ints ords" "map_of ints k = None"
  shows "orders_ok old (dset ints k j) ords"
  using assms unfolding orders_ok_def by fastforce

lemma orders_ok_order [inv_intro]:
  assumes "orders_ok old ints ords" "map_of ints (ord_intent_id ord) = Some i" "order_matches i ord"
  shows "orders_ok old ints (dset ords k ord)"
  using assms unfolding orders_ok_def by (auto split: if_splits)

lemma intent_after_fill_terms [simp]: "same_terms i (intent_after_fill ords i)"
  by (simp add: intent_after_fill_def same_terms_def Let_def)

lemma orders_ok_same_order [inv_intro]:
  assumes "orders_ok old ints ords" "map_of ords k = Some ord" "ord_intent_id ord' = ord_intent_id ord"
    "ord_market ord' = ord_market ord" "ord_exchange_name ord' = ord_exchange_name ord"
    "ord_bot_id ord' = ord_bot_id ord" "ord_run_id ord' = ord_run_id ord"
  shows "orders_ok old ints (dset ords k ord')"
proof (cases "map_of old k")
  case None
  with assms obtain i where "map_of ints (ord_intent_id ord) = Some i" "order_matches i ord"
    unfolding orders_ok_def by blast
  with assms show ?thesis by (intro orders_ok_order) (auto simp: order_matches_def)
next
  case (Some x)
  with assms(1) show ?thesis by (auto simp: orders_ok_def split: if_splits)
qed

lemma order_ops_ok:
  "orders_ok old (order_intents s) (orders s) \<Longrightarrow>
    orders_ok old (order_intents (fst (update_order_status ts oid st s))) (orders (fst (update_order_status ts oid st s)))"
  "orders_ok old (order_intents s) (orders s) \<Longrightarrow> map_of (order_intents s) uid = None \<Longrightarrow>
    orders_ok old (order_intents (fst (create_order_intent uid ts ia s))) (orders s)"
  unfolding update_order_status_def create_order_intent_def Let_def
  by (auto split: option.splits intro!: orders_ok_same_order orders_ok_intent_new)

lemma create_order_ok:
  assumes "orders_ok old (order_intents s) (orders s)"
  shows "orders_ok old (order_intents (fst (create_order uid ts oa s))) (orders (fst (create_order uid ts oa s)))"
proof (cases "map_of (order_intents s) (oa_intent_id oa)")
  case None
  with assms show ?thesis by (simp add: create_order_def)
next
  case (Some i)
  have m: "oa_market oa = int_market i \<Longrightarrow> oa_exchange_name oa \<in> {int_buy_exchange i, int_sell_exchange i} \<Longrightarrow>
      orders_ok old (order_intents s) (dset (orders s) uid (new_order uid ts i oa))"
    using assms Some by (intro orders_ok_order) (auto simp: new_order_def order_matches_def)
  have u: "same_terms i (i\<lparr>int_status := st\<rparr>)" for st by (simp add: same_terms_def)
  show ?thesis
    using assms Some m orders_ok_intent_update [OF m Some u]
    by (auto simp: create_order_def Let_def split: option.splits)
qed

lemma create_fill_cases:
  assumes "create_fill uid ts fa s = Inr (s', oc, f)"
  obtains (kept) "s' = s" "oc \<noteq> Created"
  | (filled) ord requested current qty where "map_of (orders s) (fa_order_id fa) = Some ord"
      "ord_status ord \<notin> set TERMINAL_ORDER_STATUSES"
      "decimal_of (ord_requested_qty ord) = Inr requested"
      "filled_qty_of (fills s) (fa_order_id fa) = Inr current" "decimal_of (fa_qty fa) = Inr qty"
      "\<not> dlt requested (dadd current qty)" "oc = Created" "f = Some (snd (apply_fill uid ts ord
         (if deq (dadd current qty) requested then ''filled'' else ''partially_filled'') fa s))"
      "s' = fst (apply_fill uid ts ord
         (if deq (dadd current qty) requested then ''filled'' else ''partially_filled'') fa s)"
proof -
  have case_out: "thesis" if "map_of (orders s) (fa_order_id fa) = None"
    using that assms kept by (auto simp: create_fill_def)
  show ?thesis
  proof (cases "map_of (orders s) (fa_order_id fa)")
    case None then show ?thesis by (rule case_out)
  next
    case (Some ord)
    show ?thesis
    proof (cases "ord_status ord \<in> set TERMINAL_ORDER_STATUSES")
      case True
      with Some assms kept show ?thesis by (auto simp: create_fill_def)
    next
      case False
      show ?thesis
      proof (cases "if fa_exchange_trade_id fa = None then None else find (\<lambda>f. fl_order_id f = fa_order_id fa
          \<and> fl_exchange_trade_id f = fa_exchange_trade_id fa) (fills s)")
        case conflict: (Some existing)
        with Some False assms have "s' = s" "oc = Conflict" by (simp_all add: create_fill_def)
        with kept show ?thesis by simp
      next
        case None
        with Some False assms obtain requested current qty where d:
          "decimal_of (ord_requested_qty ord) = Inr requested"
          "filled_qty_of (fills s) (fa_order_id fa) = Inr current" "decimal_of (fa_qty fa) = Inr qty"
          and r: "(let next_qty = dadd current qty in
             if dlt requested next_qty then Inr (s, Invalid, None)
             else let next_status = (if deq next_qty requested then ''filled'' else ''partially_filled'');
                      (s', f) = apply_fill uid ts ord next_status fa s
                  in Inr (s', Created, Some f)) = (Inr (s', oc, f) :: (store \<times> outcome \<times> fill option) res)"
          unfolding create_fill_def by (auto simp only: option.case andThen_eq_Inr if_False)
        show ?thesis
        proof (cases "dlt requested (dadd current qty)")
          case True
          with r kept show ?thesis by (simp add: Let_def)
        next
          case ok: False
          with r filled [OF Some False d] show ?thesis
            by (simp add: Let_def split: prod.splits)
        qed
      qed
    qed
  qed
qed

lemma apply_fill_orders_ok:
  assumes "orders_ok old (order_intents s) (orders s)" "map_of (orders s) (fa_order_id fa) = Some ord"
  shows "orders_ok old (order_intents (fst (apply_fill uid ts ord st fa s))) (orders (fst (apply_fill uid ts ord st fa s)))"
proof -
  have "orders_ok old (order_intents s) (dset (orders s) (fa_order_id fa) (ord\<lparr>ord_status := st, ord_updated_at := ts\<rparr>))"
    using assms by (intro orders_ok_same_order) auto
  then show ?thesis
    by (auto simp: apply_fill_def Let_def split: option.splits intro!: orders_ok_intent_update)
qed

lemma create_fill_orders_ok:
  "orders_ok old (order_intents s) (orders s) \<Longrightarrow> create_fill uid ts fa s = Inr (s', r) \<Longrightarrow>
    orders_ok old (order_intents s') (orders s')"
  by (cases r) (auto elim!: create_fill_cases intro!: apply_fill_orders_ok)

lemma orders_unchanged:
  "orders (fst (emit_alert uid ts b level code message s)) = orders s"
  "orders (fst (acknowledge_alert ts aid s)) = orders s"
  "orders (fst (create_config_version uid ts scope json checksum author s)) = orders s"
  "orders (fst (assign_config uid ts bid scope n s)) = orders s"
  "orders (fst (acknowledge_config_assignment uid ts bid ast am s)) = orders s"
  "orders (fst (record_heartbeat ts bid p m od lag ctx s)) = orders s"
  "orders (fst (create_strategy_run uid ts bid name mode s)) = orders s"
  "orders (fst (start_strategy_run ts rid s)) = orders s"
  "orders (fst (stop_strategy_run ts rid s)) = orders s"
  "orders (fst (create_order_intent uid ts ia s)) = orders s"
  "register_bot uid ts key name mode host s = Inr (s', q) \<Longrightarrow> orders s' = orders s"
  by (auto simp: emit_alert_def acknowledge_alert_def
      create_config_version_def assign_config_def acknowledge_config_assignment_def record_heartbeat_def
      create_strategy_run_def start_strategy_run_def stop_strategy_run_def create_order_intent_def
      register_bot_def set_assigned_def Let_def res_simps
      split: option.splits if_splits prod.splits)

lemma intents_unchanged:
  "order_intents (fst (emit_alert uid ts b level code message s)) = order_intents s"
  "order_intents (fst (acknowledge_alert ts aid s)) = order_intents s"
  "order_intents (fst (create_config_version uid ts scope json checksum author s)) = order_intents s"
  "order_intents (fst (assign_config uid ts bid scope n s)) = order_intents s"
  "order_intents (fst (acknowledge_config_assignment uid ts bid ast am s)) = order_intents s"
  "order_intents (fst (record_heartbeat ts bid p m od lag ctx s)) = order_intents s"
  "order_intents (fst (create_strategy_run uid ts bid name mode s)) = order_intents s"
  "order_intents (fst (start_strategy_run ts rid s)) = order_intents s"
  "order_intents (fst (stop_strategy_run ts rid s)) = order_intents s"
  "register_bot uid ts key name mode host s = Inr (s', q) \<Longrightarrow> order_intents s' = order_intents s"
  by (auto simp: emit_alert_def acknowledge_alert_def
      create_config_version_def assign_config_def acknowledge_config_assignment_def record_heartbeat_def
      create_strategy_run_def start_strategy_run_def stop_strategy_run_def
      register_bot_def set_assigned_def Let_def res_simps
      split: option.splits if_splits prod.splits)

lemma step_orders_ok:
  "store_step a s s' \<Longrightarrow> orders_ok old (order_intents s) (orders s) \<Longrightarrow> orders_ok old (order_intents s') (orders s')"
  by (induction rule: store_step.induct)
    (simp_all only: order_ops_ok create_order_ok create_fill_orders_ok orders_unchanged intents_unchanged)

interpretation order_table: kept_by_steps a "\<lambda>s. orders_ok old (order_intents s) (orders s)" for a old
  by unfold_locales (rule step_orders_ok)

section \<open>Filled quantities never exceed the requested quantity\<close>

lemma qty_onD:
  assumes "qty_on a t"
  obtains d where "decimal_of t = Inr d" "dparse t = Some d" "qty_val t = dval d" "grid (- a) (dval d)"
    "0 \<le> dval d" "dval d < grid_max (- a)"
proof -
  from assms obtain d where d: "dparse t = Some d" "- a \<le> dexp d" "0 \<le> coef d" "dval d < grid_max (- a)"
    by (auto simp: qty_on_def split: option.splits)
  moreover have "0 \<le> dval d" using d(3) by (simp add: dval_def)
  ultimately show ?thesis using that by (simp add: decimal_of_def qty_val_def grid_dval)
qed

lemma qty_val_nonneg: "qty_on a t \<Longrightarrow> 0 \<le> qty_val t"
  by (auto elim!: qty_onD)

lemma dsum_exact:
  assumes "\<forall>q \<in> set qs. grid (- a) (dval q) \<and> 0 \<le> dval q" "grid (- a) (dval t)" "0 \<le> dval t"
    "dval t + sum_list (map dval qs) \<le> grid_max (- a)"
  shows "dval (dsum_from t qs) = dval t + sum_list (map dval qs)"
  using assms
proof (induction qs arbitrary: t)
  case (Cons q qs)
  have nn: "0 \<le> sum_list (map dval qs)" using Cons.prems(1) by (intro sum_list_nonneg) auto
  have q: "grid (- a) (dval q)" "0 \<le> dval q" using Cons.prems(1) by auto
  have t: "dval (dadd t q) = dval t + dval q"
    unfolding dval_dadd using Cons.prems(2-4) q nn by (intro r28_grid [of "- a"] grid_add) auto
  have "dval (dsum_from (dadd t q) qs) = dval (dadd t q) + sum_list (map dval qs)"
  proof (rule Cons.IH)
    show "grid (- a) (dval (dadd t q))" unfolding t by (rule grid_add [OF Cons.prems(2) q(1)])
  qed (use Cons.prems q t in auto)
  then show ?case using t by simp
qed simp

lemma mapM_decimal:
  "list_all (\<lambda>f. qty_on a (fl_qty f)) fs \<Longrightarrow>
    \<exists>qs. mapM (\<lambda>f. decimal_of (fl_qty f)) fs = Inr qs
      \<and> (\<forall>q \<in> set qs. grid (- a) (dval q) \<and> 0 \<le> dval q)
      \<and> sum_list (map dval qs) = sum_list (map (\<lambda>f. qty_val (fl_qty f)) fs)"
proof (induction fs)
  case (Cons f fs)
  then obtain qs where qs: "mapM (\<lambda>f. decimal_of (fl_qty f)) fs = Inr qs"
    "\<forall>q \<in> set qs. grid (- a) (dval q) \<and> 0 \<le> dval q"
    "sum_list (map dval qs) = sum_list (map (\<lambda>f. qty_val (fl_qty f)) fs)" by auto
  from Cons.prems have "qty_on a (fl_qty f)" by simp
  then obtain d where "decimal_of (fl_qty f) = Inr d" "qty_val (fl_qty f) = dval d" "grid (- a) (dval d)" "0 \<le> dval d"
    by (auto elim: qty_onD)
  with qs show ?case by (intro exI [of _ "d # qs"]) simp
qed simp

lemma filled_qty_exact:
  assumes "list_all (\<lambda>f. qty_on a (fl_qty f)) (order_fills fs oid)" "fill_sum fs oid \<le> grid_max (- a)"
  shows "\<exists>c. filled_qty_of fs oid = Inr c \<and> dval c = fill_sum fs oid \<and> grid (- a) (dval c)"
proof -
  from mapM_decimal [OF assms(1)] obtain qs where
    m: "mapM (\<lambda>f. decimal_of (fl_qty f)) (order_fills fs oid) = Inr qs"
    and q: "\<forall>q \<in> set qs. grid (- a) (dval q) \<and> 0 \<le> dval q"
    and sm: "sum_list (map dval qs) = fill_sum fs oid" by (auto simp: fill_sum_def)
  have "dval (dsum_from (Dec 0 0) qs) = dval (Dec 0 0) + sum_list (map dval qs)"
    using q sm assms(2) by (intro dsum_exact [where a = a]) auto
  moreover have "grid (- a) (sum_list (map dval qs))" using q by (induction qs) auto
  ultimately show ?thesis using m sm by (auto simp: filled_qty_of_def)
qed

lemma fill_sum_Cons: "fill_sum (f # fs) oid = (if fl_order_id f = oid then qty_val (fl_qty f) else 0) + fill_sum fs oid"
  by (simp add: fill_sum_def order_fills_def)

lemma order_fills_on: "list_all (\<lambda>f. P f \<and> qty_on a (fl_qty f)) fs \<Longrightarrow> list_all (\<lambda>f. qty_on a (fl_qty f)) (order_fills fs oid)"
  by (auto simp: list_all_iff order_fills_def)

lemma apply_fill_fields:
  "orders (fst (apply_fill uid ts ord st fa s)) = dset (orders s) (fa_order_id fa) (ord\<lparr>ord_status := st, ord_updated_at := ts\<rparr>)"
  "fills (fst (apply_fill uid ts ord st fa s)) = new_fill uid ts ord st fa # fills s"
  by (simp_all add: apply_fill_def Let_def)

lemma new_fill_fields [simp]: "fl_order_id (new_fill uid ts ord st fa) = fa_order_id fa"
    "fl_qty (new_fill uid ts ord st fa) = fa_qty fa" "fl_order_status (new_fill uid ts ord st fa) = st"
  by (simp_all add: new_fill_def)

text \<open>On the grid the decimal comparisons of \<open>create_fill\<close> are the comparisons of the exact quantities.\<close>

lemma dlt_dadd_grid:
  assumes "grid (- a) (dval c)" "grid (- a) (dval q)" "0 \<le> dval c" "0 \<le> dval q" "dval d < grid_max (- a)"
  shows "dlt d (dadd c q) = (dval d < dval c + dval q)"
    and "\<not> dlt d (dadd c q) \<Longrightarrow> deq (dadd c q) d = (dval c + dval q = dval d)"
proof -
  have "dlt d (dadd c q) = (dval d < dval c + dval q)
      \<and> (\<not> dlt d (dadd c q) \<longrightarrow> deq (dadd c q) d = (dval c + dval q = dval d))"
  proof (cases "dval c + dval q \<le> grid_max (- a)")
    case True
    then have "dval (dadd c q) = dval c + dval q"
      unfolding dval_dadd using assms by (intro r28_grid [of "- a"] grid_add) simp_all
    then show ?thesis by (simp add: dcmp)
  next
    case False
    have "grid_max (- a) = dval (Dec (10 ^ 28) (- a))" by (simp add: grid_max_def dval_def)
    then have g: "r28 (grid_max (- a)) = grid_max (- a)"
      using r28_fits [of "Dec (10 ^ 28) (- a)"] by (simp add: fits_def prec_def)
    have "grid_max (- a) \<le> dval (dadd c q)"
      unfolding dval_dadd using r28_mono [of "grid_max (- a)" "dval c + dval q"] False g by simp
    with False assms(5) show ?thesis by (simp add: dcmp)
  qed
  then show "dlt d (dadd c q) = (dval d < dval c + dval q)"
    and "\<not> dlt d (dadd c q) \<Longrightarrow> deq (dadd c q) d = (dval c + dval q = dval d)" by simp_all
qed

lemma fill_decimals:
  assumes "fills_ok a (orders s) (fills s)" "qty_on a (fa_qty fa)" "map_of (orders s) (fa_order_id fa) = Some ord"
  obtains d c q where "decimal_of (ord_requested_qty ord) = Inr d"
    "filled_qty_of (fills s) (fa_order_id fa) = Inr c" "decimal_of (fa_qty fa) = Inr q"
    "dlt d (dadd c q) = (qty_val (ord_requested_qty ord) < fill_sum (fills s) (fa_order_id fa) + qty_val (fa_qty fa))"
    "\<not> dlt d (dadd c q) \<longrightarrow> deq (dadd c q) d =
       (fill_sum (fills s) (fa_order_id fa) + qty_val (fa_qty fa) = qty_val (ord_requested_qty ord))"
proof -
  from assms(1,3) have on: "qty_on a (ord_requested_qty ord)"
    and le: "fill_sum (fills s) (fa_order_id fa) \<le> qty_val (ord_requested_qty ord)"
    and fl: "list_all (\<lambda>f. qty_on a (fl_qty f)) (order_fills (fills s) (fa_order_id fa))"
    by (auto simp: fills_ok_def intro: order_fills_on)
  from on obtain d where d: "decimal_of (ord_requested_qty ord) = Inr d" "qty_val (ord_requested_qty ord) = dval d"
    "dval d < grid_max (- a)" by (auto elim: qty_onD)
  from assms(2) obtain q where q: "decimal_of (fa_qty fa) = Inr q" "qty_val (fa_qty fa) = dval q"
    "grid (- a) (dval q)" "0 \<le> dval q" by (auto elim: qty_onD)
  from filled_qty_exact [OF fl] le d obtain c where c: "filled_qty_of (fills s) (fa_order_id fa) = Inr c"
    "dval c = fill_sum (fills s) (fa_order_id fa)" "grid (- a) (dval c)" by auto
  have c0: "0 \<le> dval c"
    unfolding c(2) fill_sum_def using fl qty_val_nonneg by (intro sum_list_nonneg) (auto simp: list_all_iff)
  from dlt_dadd_grid [OF c(3) q(3) c0 q(4) d(3)] that [OF d(1) c(1) q(1)] show ?thesis
    by (simp add: c(2) d(2) q(2))
qed

text \<open>A fill of an open order with a new trade identifier: exactly when it fits, it is created.\<close>

definition known_trade :: "fill_args \<Rightarrow> fill list \<Rightarrow> bool" where
  "known_trade fa fs = (fa_exchange_trade_id fa \<noteq> None \<and>
     list_ex (\<lambda>f. fl_order_id f = fa_order_id fa \<and> fl_exchange_trade_id f = fa_exchange_trade_id fa) fs)"

lemma create_fill_exact:
  assumes "fills_ok a (orders s) (fills s)" "qty_on a (fa_qty fa)" "map_of (orders s) (fa_order_id fa) = Some ord"
    "ord_status ord \<notin> set TERMINAL_ORDER_STATUSES" "\<not> known_trade fa (fills s)"
  shows "create_fill uid ts fa s =
    (let filled = fill_sum (fills s) (fa_order_id fa) + qty_val (fa_qty fa);
         requested = qty_val (ord_requested_qty ord)
     in if requested < filled then Inr (s, Invalid, None)
        else let r = apply_fill uid ts ord (if filled = requested then ''filled'' else ''partially_filled'') fa s
             in Inr (fst r, Created, Some (snd r)))"
proof -
  from assms(5) have "(if fa_exchange_trade_id fa = None then None else find (\<lambda>f. fl_order_id f = fa_order_id fa
          \<and> fl_exchange_trade_id f = fa_exchange_trade_id fa) (fills s)) = None"
    by (auto simp: known_trade_def find_None_iff list_ex_iff)
  moreover obtain d c q where "decimal_of (ord_requested_qty ord) = Inr d"
    "filled_qty_of (fills s) (fa_order_id fa) = Inr c" "decimal_of (fa_qty fa) = Inr q"
    and n: "dlt d (dadd c q) = (qty_val (ord_requested_qty ord) < fill_sum (fills s) (fa_order_id fa) + qty_val (fa_qty fa))"
    "\<not> dlt d (dadd c q) \<longrightarrow> deq (dadd c q) d =
       (fill_sum (fills s) (fa_order_id fa) + qty_val (fa_qty fa) = qty_val (ord_requested_qty ord))"
    by (rule fill_decimals [OF assms(1-3)])
  ultimately show ?thesis
    using assms(3,4) n(2) by (simp add: create_fill_def Let_def n(1) case_prod_beta)
qed

text \<open>A created fill adds its exact quantity, and the new status says whether the order is complete.\<close>

lemma created_fill_sum:
  assumes "fills_ok a (orders s) (fills s)" "qty_on a (fa_qty fa)" "create_fill uid ts fa s = Inr (s', Created, f)"
  obtains ord where "map_of (orders s) (fa_order_id fa) = Some ord"
    "ord_status ord \<notin> set TERMINAL_ORDER_STATUSES"
    "fill_sum (fills s) (fa_order_id fa) + qty_val (fa_qty fa) \<le> qty_val (ord_requested_qty ord)"
    "s' = fst (apply_fill uid ts ord
       (if fill_sum (fills s) (fa_order_id fa) + qty_val (fa_qty fa) = qty_val (ord_requested_qty ord)
        then ''filled'' else ''partially_filled'') fa s)"
  using assms(3)
proof (cases rule: create_fill_cases)
  case kept
  then show ?thesis by simp
next
  case (filled ord requested current qty)
  obtain d c q where d: "decimal_of (ord_requested_qty ord) = Inr d"
    "filled_qty_of (fills s) (fa_order_id fa) = Inr c" "decimal_of (fa_qty fa) = Inr q"
    and n: "dlt d (dadd c q) = (qty_val (ord_requested_qty ord) < fill_sum (fills s) (fa_order_id fa) + qty_val (fa_qty fa))"
    "\<not> dlt d (dadd c q) \<longrightarrow> deq (dadd c q) d =
       (fill_sum (fills s) (fa_order_id fa) + qty_val (fa_qty fa) = qty_val (ord_requested_qty ord))"
    by (rule fill_decimals [OF assms(1,2) filled(1)])
  from d filled(3-5) have "requested = d" "current = c" "qty = q" by simp_all
  with n filled(6,9) that [OF filled(1,2)] show ?thesis by simp
qed

lemma fills_ok_order_update [inv_intro]:
  assumes "fills_ok a ords fs" "map_of ords k = Some ord" "ord_requested_qty ord' = ord_requested_qty ord"
  shows "fills_ok a (dset ords k ord') fs"
  using assms unfolding fills_ok_def by (auto simp: list_all_iff split: if_splits)

lemma fills_ok_new_order [inv_intro]:
  assumes "fills_ok a ords fs" "map_of ords k = None" "qty_on a (ord_requested_qty ord)"
  shows "fills_ok a (dset ords k ord) fs"
proof -
  have "order_fills fs k = []"
    using assms(1,2) by (auto simp: fills_ok_def order_fills_def list_all_iff filter_empty_conv)
  then have "fill_sum fs k = 0" by (simp add: fill_sum_def)
  with assms qty_val_nonneg show ?thesis by (auto simp: fills_ok_def list_all_iff)
qed

lemma fills_ok_fill:
  assumes "fills_ok a (orders s) (fills s)" "qty_on a (fa_qty fa)" "create_fill uid ts fa s = Inr (s', r)"
  shows "fills_ok a (orders s') (fills s')"
proof -
  obtain oc f where r: "r = (oc, f)" by (cases r)
  show ?thesis
  proof (cases "oc = Created")
    case False
    with assms(3) r have "s' = s" by (auto elim: create_fill_cases)
    with assms(1) show ?thesis by simp
  next
    case True
    with assms r obtain ord st where o: "map_of (orders s) (fa_order_id fa) = Some ord"
      and le: "fill_sum (fills s) (fa_order_id fa) + qty_val (fa_qty fa) \<le> qty_val (ord_requested_qty ord)"
      and s': "s' = fst (apply_fill uid ts ord st fa s)"
      by (metis created_fill_sum)
    from fills_ok_order_update [OF assms(1) o]
    have "fills_ok a (orders s') (fills s)" unfolding s' apply_fill_fields by simp
    with o le assms(2) show ?thesis
      unfolding s' fills_ok_def apply_fill_fields by (auto simp: fill_sum_Cons split: if_splits)
  qed
qed

lemma fills_unchanged:
  "fills (fst (emit_alert uid ts b level code message s)) = fills s"
  "fills (fst (acknowledge_alert ts aid s)) = fills s"
  "fills (fst (create_config_version uid ts scope json checksum author s)) = fills s"
  "fills (fst (assign_config uid ts bid scope n s)) = fills s"
  "fills (fst (acknowledge_config_assignment uid ts bid ast am s)) = fills s"
  "fills (fst (record_heartbeat ts bid p m od lag ctx s)) = fills s"
  "fills (fst (create_strategy_run uid ts bid name mode s)) = fills s"
  "fills (fst (start_strategy_run ts rid s)) = fills s"
  "fills (fst (stop_strategy_run ts rid s)) = fills s"
  "fills (fst (create_order_intent uid ts ia s)) = fills s"
  "fills (fst (create_order uid ts oa s)) = fills s"
  "fills (fst (update_order_status ts oid st s)) = fills s"
  "register_bot uid ts key name mode host s = Inr (s', q) \<Longrightarrow> fills s' = fills s"
  by (auto simp: emit_alert_def acknowledge_alert_def
      create_config_version_def assign_config_def acknowledge_config_assignment_def record_heartbeat_def
      create_strategy_run_def start_strategy_run_def stop_strategy_run_def create_order_intent_def
      create_order_def update_order_status_def register_bot_def set_assigned_def Let_def res_simps
      split: option.splits if_splits prod.splits)

lemma update_status_fills_ok:
  "fills_ok a (orders s) fs \<Longrightarrow> fills_ok a (orders (fst (update_order_status ts oid st s))) fs"
  unfolding update_order_status_def Let_def
  by (auto split: option.splits intro!: fills_ok_order_update)

lemma create_order_fills_ok:
  "fills_ok a (orders s) fs \<Longrightarrow> map_of (orders s) uid = None \<Longrightarrow> qty_on a (oa_requested_qty oa) \<Longrightarrow>
    fills_ok a (orders (fst (create_order uid ts oa s))) fs"
  unfolding create_order_def Let_def
  by (auto split: option.splits intro!: fills_ok_new_order simp: new_order_def)

lemma step_fills_ok:
  "store_step a s s' \<Longrightarrow> fills_ok a (orders s) (fills s) \<Longrightarrow> fills_ok a (orders s') (fills s')"
  by (induction rule: store_step.induct)
    (simp_all only: update_status_fills_ok create_order_fills_ok fills_ok_fill orders_unchanged fills_unchanged)

interpretation fill_table: store_invariant a "\<lambda>s. fills_ok a (orders s) (fills s)" for a
  by unfold_locales (rule step_fills_ok, simp_all add: sound_start_def)

lemmas reachable_fills_ok = fill_table.holds

section \<open>Terminal orders stay terminal\<close>

lemma normalize_terminal: "st \<in> set TERMINAL_ORDER_STATUSES \<Longrightarrow> normalize_status st = st"
proof -
  have "list_all (\<lambda>st. normalize_status st = st) TERMINAL_ORDER_STATUSES" by code_simp
  then show "st \<in> set TERMINAL_ORDER_STATUSES \<Longrightarrow> ?thesis" by (simp add: list_all_iff)
qed

definition keeps_terminal :: "(string, order) dict \<Rightarrow> (string, order) dict \<Rightarrow> bool" where
  "keeps_terminal ords ords' = (\<forall>k ord. map_of ords k = Some ord \<longrightarrow>
     (\<exists>ord'. map_of ords' k = Some ord' \<and> ord_requested_qty ord' = ord_requested_qty ord
        \<and> ord_intent_id ord' = ord_intent_id ord
        \<and> (ord_status ord \<in> set TERMINAL_ORDER_STATUSES \<longrightarrow> ord' = ord)))"

lemma keeps_terminal_refl [simp]: "keeps_terminal ords ords"
  by (simp add: keeps_terminal_def)

lemma keeps_terminal_new: "map_of ords k = None \<Longrightarrow> keeps_terminal ords (dset ords k ord)"
  by (auto simp: keeps_terminal_def)

lemma keeps_terminal_update:
  "map_of ords k = Some ord \<Longrightarrow> ord_status ord \<notin> set TERMINAL_ORDER_STATUSES \<Longrightarrow>
    ord_requested_qty ord' = ord_requested_qty ord \<Longrightarrow> ord_intent_id ord' = ord_intent_id ord \<Longrightarrow>
    keeps_terminal ords (dset ords k ord')"
  by (auto simp: keeps_terminal_def)

lemma update_status_terminal: "keeps_terminal (orders s) (orders (fst (update_order_status ts oid st s)))"
proof (cases "map_of (orders s) oid")
  case None
  then show ?thesis by (simp add: update_order_status_def)
next
  case (Some ord)
  then show ?thesis
    using normalize_terminal [of "ord_status ord"]
    by (auto simp: update_order_status_def Let_def intro!: keeps_terminal_update)
qed

lemma create_order_terminal:
  "map_of (orders s) uid = None \<Longrightarrow> keeps_terminal (orders s) (orders (fst (create_order uid ts oa s)))"
  by (auto simp: create_order_def Let_def intro!: keeps_terminal_new split: option.splits)

lemma create_fill_terminal:
  "create_fill uid ts fa s = Inr (s', r) \<Longrightarrow> keeps_terminal (orders s) (orders s')"
  by (cases r) (auto elim!: create_fill_cases intro!: keeps_terminal_update simp: apply_fill_fields)

lemma keeps_terminal_trans [trans]:
  "keeps_terminal o1 o2 \<Longrightarrow> keeps_terminal o2 o3 \<Longrightarrow> keeps_terminal o1 o3"
  unfolding keeps_terminal_def by metis

lemma step_keeps_terminal: "store_step a s s' \<Longrightarrow> keeps_terminal (orders s) (orders s')"
  by (induction rule: store_step.induct)
    (simp_all only: update_status_terminal create_order_terminal create_fill_terminal orders_unchanged
      keeps_terminal_refl)

lemma steps_keep_terminal: "(store_step a)\<^sup>*\<^sup>* s s' \<Longrightarrow> keeps_terminal (orders s) (orders s')"
proof (induction rule: rtranclp_induct)
  case (step s1 s2)
  then show ?case by (blast intro: keeps_terminal_trans step_keeps_terminal)
qed simp

end
