(* ===== verification/StoreBots.thy ===== *)
theory StoreBots
  imports StoreInv
begin

text \<open>
  The store's configurations and bots as state: version numbers of a scope are consecutive, and every
  bot of the bot table has a detail with its identifier, so that registering again does not raise.
\<close>

section \<open>Configuration versions\<close>

lemma create_config_ok:
  "configs_ok (config_versions s) \<Longrightarrow>
    configs_ok (config_versions (fst (create_config_version uid ts scope json checksum author s)))"
  unfolding create_config_version_def scope_versions_def Let_def configs_ok_def
  by (auto split: option.splits list.splits if_splits)

lemma configs_unchanged:
  "config_versions (fst (emit_alert uid ts b level code message s)) = config_versions s"
  "config_versions (fst (acknowledge_alert ts aid s)) = config_versions s"
  "config_versions (fst (assign_config uid ts bid scope n s)) = config_versions s"
  "config_versions (fst (acknowledge_config_assignment uid ts bid ast am s)) = config_versions s"
  "config_versions (fst (record_heartbeat ts bid p m od lag ctx s)) = config_versions s"
  "config_versions (fst (create_strategy_run uid ts bid name mode s)) = config_versions s"
  "config_versions (fst (start_strategy_run ts rid s)) = config_versions s"
  "config_versions (fst (stop_strategy_run ts rid s)) = config_versions s"
  "config_versions (fst (create_order_intent uid ts ia s)) = config_versions s"
  "config_versions (fst (create_order uid ts oa s)) = config_versions s"
  "config_versions (fst (update_order_status ts oid st s)) = config_versions s"
  "create_fill uid ts fa s = Inr (s', r) \<Longrightarrow> config_versions s' = config_versions s"
  "register_bot uid ts key name mode host s = Inr (s', q) \<Longrightarrow> config_versions s' = config_versions s"
  by (auto simp: emit_alert_def acknowledge_alert_def
      assign_config_def acknowledge_config_assignment_def record_heartbeat_def
      create_strategy_run_def start_strategy_run_def stop_strategy_run_def create_order_intent_def
      create_order_def update_order_status_def create_fill_def apply_fill_def register_bot_def
      set_assigned_def Let_def res_simps
      split: option.splits if_splits prod.splits)

lemma step_configs_ok: "store_step a s s' \<Longrightarrow> configs_ok (config_versions s) \<Longrightarrow> configs_ok (config_versions s')"
  by (induction rule: store_step.induct) (simp_all only: create_config_ok configs_unchanged)

text \<open>The numbers of a scope's versions, oldest first, count up from the oldest.\<close>

lemma newest_first_tail: "newest_first (v # vs) \<Longrightarrow> newest_first vs"
  by (cases vs) auto

lemma newest_first_head: "newest_first (v # vs) \<Longrightarrow> cv_version_no v = cv_version_no (last (v # vs)) + int (length vs)"
  by (induction vs arbitrary: v) auto

lemma newest_first_numbers:
  "newest_first vs \<Longrightarrow> rev (map cv_version_no vs) = map (\<lambda>i. cv_version_no (last vs) + int i) [0..<length vs]"
proof (induction vs)
  case (Cons v vs)
  with newest_first_head [OF Cons.prems] newest_first_tail [OF Cons.prems] show ?case by (cases "vs = []") simp_all
qed simp

interpretation configs: store_invariant a "\<lambda>s. configs_ok (config_versions s)" for a
  by unfold_locales (rule step_configs_ok, simp_all add: sound_start_def)

lemmas reachable_configs_ok = configs.holds

section \<open>Bots have their detail\<close>

lemma set_first_ids: "(\<And>b. P b \<Longrightarrow> b_bot_id (f b) = b_bot_id b) \<Longrightarrow> map b_bot_id (set_first P f bs) = map b_bot_id bs"
  by (induction bs) auto

lemma bots_ok_map: "bots_ok bs ds = (list_all (\<lambda>k. map_of ds k \<noteq> None) (map b_bot_id bs)
     \<and> (\<forall>k d. map_of ds k = Some d \<longrightarrow> b_bot_id (bd_bot d) = k))"
  by (simp add: bots_ok_def list.pred_map comp_def)

lemma bots_ok_ids: "map b_bot_id bs' = map b_bot_id bs \<Longrightarrow> bots_ok bs ds \<Longrightarrow> bots_ok bs' ds"
  by (auto simp only: bots_ok_map)

lemma bots_ok_detail [inv_intro]:
  "bots_ok bs ds \<Longrightarrow> b_bot_id (bd_bot d) = k \<Longrightarrow> bots_ok bs (dset ds k d)"
  by (auto simp: bots_ok_def list_all_iff)

lemma bots_ok_known: "bots_ok bs ds \<Longrightarrow> map_of ds k = Some d \<Longrightarrow> b_bot_id (bd_bot d) = k"
  by (simp add: bots_ok_def)

lemma bots_ok_latest: "bots_ok bs ds \<Longrightarrow> bots_ok bs (set_latest_run bid rid ds)"
  by (auto simp: set_latest_run_def split: option.splits intro!: bots_ok_detail dest: bots_ok_known)

lemma emit_alert_bots_ok:
  "bots_ok (bots s) (bot_details s) \<Longrightarrow>
    bots_ok (bots (fst (emit_alert uid ts b level code message s))) (bot_details (fst (emit_alert uid ts b level code message s)))"
  by (auto simp: emit_alert_def Let_def split: option.splits intro!: bots_ok_detail dest: bots_ok_known)

lemma set_assigned_bots_ok:
  "bots_ok (bots s) (bot_details s) \<Longrightarrow> map_of (bot_details s) bid = Some d \<Longrightarrow>
    bots_ok (bots (set_assigned bid x d s)) (bot_details (set_assigned bid x d s))"
  by (auto simp: set_assigned_def set_first_ids intro!: bots_ok_ids [of _ "bots s"] bots_ok_detail dest: bots_ok_known)

lemma config_bots_ok:
  "bots_ok (bots s) (bot_details s) \<Longrightarrow>
    bots_ok (bots (fst (assign_config uid ts bid scope n s))) (bot_details (fst (assign_config uid ts bid scope n s)))"
  "bots_ok (bots s) (bot_details s) \<Longrightarrow>
    bots_ok (bots (fst (acknowledge_config_assignment uid ts bid ast am s)))
      (bot_details (fst (acknowledge_config_assignment uid ts bid ast am s)))"
  unfolding assign_config_def acknowledge_config_assignment_def Let_def
  by (auto split: option.splits intro!: emit_alert_bots_ok set_assigned_bots_ok)

lemma heartbeat_bots_ok:
  "bots_ok (bots s) (bot_details s) \<Longrightarrow>
    bots_ok (bots (fst (record_heartbeat ts bid p m od lag ctx s))) (bot_details (fst (record_heartbeat ts bid p m od lag ctx s)))"
  by (auto simp: record_heartbeat_def Let_def set_first_ids split: option.splits
      intro!: bots_ok_ids [of _ "bots s"] bots_ok_detail dest: bots_ok_known)

lemma set_first_found:
  "find P bs = Some b \<Longrightarrow> g b' = g b \<Longrightarrow> map g (set_first P (\<lambda>_. b') bs) = map g bs"
  by (induction bs) (auto split: if_splits)

lemma register_bots_ok:
  assumes "bots_ok (bots s) (bot_details s)" "register_bot uid ts key name mode host s = Inr (s', q)"
  shows "bots_ok (bots s') (bot_details s')"
proof (cases "find (\<lambda>b. b_bot_key b = key) (bots s)")
  case None
  with assms show ?thesis
    by (auto simp: register_bot_def Let_def bots_ok_def list_all_iff split: if_splits)
next
  case (Some b)
  define b' where "b' = b\<lparr>b_strategy_name := name, b_mode := mode, b_hostname := host,
    b_status := ''running'', b_last_seen_at := ts\<rparr>"
  from assms(2) Some obtain d where d: "map_of (bot_details s) (b_bot_id b) = Some d"
    and s': "s' = s\<lparr>bots := set_first (\<lambda>x. b_bot_key x = key) (\<lambda>_. b') (bots s),
      bot_details := dset (bot_details s) (b_bot_id b) (d\<lparr>bd_bot := b'\<rparr>)\<rparr>"
    by (simp add: register_bot_def Let_def b'_def split: option.splits)
  have "map b_bot_id (set_first (\<lambda>x. b_bot_key x = key) (\<lambda>_. b') (bots s)) = map b_bot_id (bots s)"
    by (rule set_first_found [OF Some]) (simp add: b'_def)
  from bots_ok_ids [OF this bots_ok_detail [OF assms(1), of "d\<lparr>bd_bot := b'\<rparr>" "b_bot_id b"]]
  show ?thesis by (simp add: s' b'_def)
qed

lemma bots_unchanged:
  "bots (fst (acknowledge_alert ts aid s)) = bots s"
  "bots (fst (create_config_version uid ts scope json checksum author s)) = bots s"
  "bots (fst (create_strategy_run uid ts bid name mode s)) = bots s"
  "bots (fst (start_strategy_run ts rid s)) = bots s"
  "bots (fst (stop_strategy_run ts rid s)) = bots s"
  "bots (fst (create_order_intent uid ts ia s)) = bots s"
  "bots (fst (create_order uid ts oa s)) = bots s"
  "bots (fst (update_order_status ts oid st s)) = bots s"
  "create_fill uid ts fa s = Inr (s', r) \<Longrightarrow> bots s' = bots s"
  "bot_details (fst (acknowledge_alert ts aid s)) = bot_details s"
  "bot_details (fst (create_config_version uid ts scope json checksum author s)) = bot_details s"
  "bot_details (fst (create_order_intent uid ts ia s)) = bot_details s"
  "bot_details (fst (create_order uid ts oa s)) = bot_details s"
  "bot_details (fst (update_order_status ts oid st s)) = bot_details s"
  "create_fill uid ts fa s = Inr (s', r) \<Longrightarrow> bot_details s' = bot_details s"
  by (auto simp: acknowledge_alert_def create_config_version_def
      create_strategy_run_def start_strategy_run_def stop_strategy_run_def create_order_intent_def
      create_order_def update_order_status_def create_fill_def apply_fill_def Let_def res_simps
      split: option.splits if_splits prod.splits)

lemma run_ops_bots_ok:
  "bots_ok bs (bot_details s) \<Longrightarrow> bots_ok bs (bot_details (fst (create_strategy_run uid ts bid name mode s)))"
  "bots_ok bs (bot_details s) \<Longrightarrow> bots_ok bs (bot_details (fst (start_strategy_run ts rid s)))"
  "bots_ok bs (bot_details s) \<Longrightarrow> bots_ok bs (bot_details (fst (stop_strategy_run ts rid s)))"
  unfolding create_strategy_run_def start_strategy_run_def stop_strategy_run_def Let_def
  by (auto split: option.splits intro!: bots_ok_latest)

lemma step_bots_ok:
  "store_step a s s' \<Longrightarrow> bots_ok (bots s) (bot_details s) \<Longrightarrow> bots_ok (bots s') (bot_details s')"
  by (induction rule: store_step.induct)
    (simp_all only: emit_alert_bots_ok config_bots_ok heartbeat_bots_ok register_bots_ok run_ops_bots_ok bots_unchanged)

interpretation bot_table: store_invariant a "\<lambda>s. bots_ok (bots s) (bot_details s)" for a
  by unfold_locales (rule step_bots_ok, simp_all add: sound_start_def)

lemmas reachable_bots_ok = bot_table.holds

end
