(* ===== verification/StoreClaims.thy ===== *)
theory StoreClaims
  imports StoreBots
begin

text \<open>
  What the store promises its clients, stated on the stores reachable from a sound start, and a small run
  of the store that shows each promise at work.
\<close>

section \<open>A run of the store\<close>

definition after_res :: "(store \<times> 'b) res \<Rightarrow> store" where
  "after_res r = (case r of Inl _ \<Rightarrow> empty_store | Inr (s, _) \<Rightarrow> s)"

definition demo_intent_args :: intent_args where
  "demo_intent_args = \<lparr>ia_run_id = ''r1'', ia_market = ''BTC/JPY'', ia_buy_exchange = ''bitflyer'',
     ia_sell_exchange = ''coincheck'', ia_side_pair = ''buy_sell'', ia_target_qty = ''1.0'',
     ia_expected_profit = None, ia_expected_profit_ratio = None, ia_status = ''created'',
     ia_decision_context = None\<rparr>"

definition demo_order_args :: order_args where
  "demo_order_args = \<lparr>oa_intent_id = ''i1'', oa_exchange_name = ''bitflyer'', oa_exchange_order_id = None,
     oa_market = ''BTC/JPY'', oa_side = ''buy'', oa_requested_price = None, oa_requested_qty = ''1.0'',
     oa_status = ''new'', oa_raw_payload = None\<rparr>"

definition demo_fill_args :: "string \<Rightarrow> string \<Rightarrow> fill_args" where
  "demo_fill_args trade qty = \<lparr>fa_order_id = ''o1'', fa_exchange_trade_id = Some trade, fa_price = ''100'',
     fa_qty = qty, fa_fee_asset = None, fa_fee_amount = None, fa_filled_at = ''t''\<rparr>"

definition demo_bot :: store where
  "demo_bot = after_res (register_bot ''b1'' ''t0'' ''key'' ''arb'' ''shadow'' None
     (fst (create_config_version ''c2'' ''t0'' ''default'' [] ''x'' None
       (fst (create_config_version ''c1'' ''t0'' ''default'' [] ''x'' None empty_store)))))"

definition demo_running :: store where
  "demo_running = fst (start_strategy_run ''t1'' ''r1''
     (fst (create_strategy_run ''r1'' ''t1'' ''b1'' ''arb'' ''shadow'' demo_bot)))"

definition demo_ordered :: store where
  "demo_ordered = fst (create_order ''o1'' ''t2'' demo_order_args
     (fst (create_order_intent ''i1'' ''t2'' demo_intent_args demo_running)))"

definition demo_part :: store where
  "demo_part = after_res (create_fill ''f1'' ''t3'' (demo_fill_args ''x1'' ''0.4'') demo_ordered)"

definition demo_full :: store where
  "demo_full = after_res (create_fill ''f2'' ''t4'' (demo_fill_args ''x2'' ''0.60'') demo_part)"

lemma reachable_fill:
  assumes "reachable a s" "qty_on a (fa_qty fa)" "isl (create_fill uid ts fa s) = False"
  shows "reachable a (after_res (create_fill uid ts fa s))"
proof (cases "create_fill uid ts fa s")
  case (Inr r)
  then obtain s' q where "create_fill uid ts fa s = Inr (s', q)" by (cases r) simp
  with assms(1,2) show ?thesis by (auto simp: after_res_def intro: reachable.step store_step.fill)
qed (use assms in simp)

lemma reachable_register:
  assumes "reachable a s" "map_of (bot_details s) uid = None"
    "isl (register_bot uid ts key name mode host s) = False"
  shows "reachable a (after_res (register_bot uid ts key name mode host s))"
proof (cases "register_bot uid ts key name mode host s")
  case (Inr r)
  then obtain s' q where "register_bot uid ts key name mode host s = Inr (s', q)" by (cases r) simp
  with assms(1,2) show ?thesis by (auto simp: after_res_def intro: reachable.step store_step.register)
qed (use assms in simp)

lemma demo_bot_reachable: "reachable 8 demo_bot"
  unfolding demo_bot_def
  by (rule reachable_register, rule reachable.step, rule reachable.step, rule reachable_empty,
      rule store_step.config, rule store_step.config) code_simp+

lemma demo_running_reachable: "reachable 8 demo_running"
  unfolding demo_running_def
  by (rule reachable.step, rule reachable.step, rule demo_bot_reachable, rule store_step.create_run, code_simp,
      rule store_step.start_run)

lemma demo_ordered_reachable: "reachable 8 demo_ordered"
  unfolding demo_ordered_def
  by (rule reachable.step, rule reachable.step, rule demo_running_reachable, rule store_step.intent, code_simp,
      rule store_step.order) code_simp+

lemma demo_part_reachable: "reachable 8 demo_part"
  unfolding demo_part_def by (rule reachable_fill, rule demo_ordered_reachable) code_simp+

lemma demo_full_reachable: "reachable 8 demo_full"
  unfolding demo_full_def by (rule reachable_fill, rule demo_part_reachable) code_simp+

section \<open>Runs\<close>

text \<open>
  C17. In every reachable store a bot has at most one active (created or running) run, and creating
  another one for it is refused as a conflict that leaves the store as it was.
\<close>

theorem one_active_run_per_bot:
  assumes "reachable a s" "map_of (strategy_runs s) k = Some r" "is_active r"
    "map_of (bot_details s) (run_bot_id r) \<noteq> None"
  shows "(\<forall>k' r'. map_of (strategy_runs s) k' = Some r' \<and> is_active r' \<and> run_bot_id r' = run_bot_id r \<longrightarrow> k' = k)
    \<and> create_strategy_run uid ts (run_bot_id r) name mode s = (s, Conflict, Some r)"
proof
  show u: "\<forall>k' r'. map_of (strategy_runs s) k' = Some r' \<and> is_active r' \<and> run_bot_id r' = run_bot_id r \<longrightarrow> k' = k"
    using reachable_runs_ok [OF assms(1)] assms(2,3) unfolding runs_ok_def runs_unique_def by metis
  let ?P = "\<lambda>x. run_bot_id x = run_bot_id r \<and> is_active x"
  from assms(2) have "r \<in> set (dvals (strategy_runs s))" by (rule set_dvals)
  with assms(3) obtain x where x: "find ?P (dvals (strategy_runs s)) = Some x"
    by (cases "find ?P (dvals (strategy_runs s))") (auto simp: find_None_iff)
  then have "x \<in> set (dvals (strategy_runs s))" "?P x" by (auto simp: find_Some_iff)
  moreover from calculation reachable_runs_ok [OF assms(1)] obtain k' where "map_of (strategy_runs s) k' = Some x"
    unfolding runs_ok_def dvals_def by (auto dest: map_of_is_SomeI)
  ultimately have "x = r" using u assms(2) by auto
  with x assms(4) show "create_strategy_run uid ts (run_bot_id r) name mode s = (s, Conflict, Some r)"
    by (auto simp: create_strategy_run_def)
qed

text \<open>Equal results at the running bot: the theorem's conclusion, and what the operations return there.\<close>

theorem one_active_run_per_bot_witness:
  "\<exists>r. map_of (strategy_runs demo_running) ''r1'' = Some r \<and> is_active r
     \<and> create_strategy_run ''r2'' ''t9'' (run_bot_id r) ''arb'' ''shadow'' demo_running = (demo_running, Conflict, Some r)"
proof -
  have "list_ex (\<lambda>(k, r). k = ''r1'' \<and> map_of (strategy_runs demo_running) k = Some r \<and> is_active r
      \<and> map_of (bot_details demo_running) (run_bot_id r) \<noteq> None) (strategy_runs demo_running)" by code_simp
  then obtain r where "map_of (strategy_runs demo_running) ''r1'' = Some r" "is_active r"
    "map_of (bot_details demo_running) (run_bot_id r) \<noteq> None" by (auto simp: list_ex_iff)
  with one_active_run_per_bot [OF demo_running_reachable this, of "''r2''" "''t9''" "''arb''" "''shadow''"]
  show ?thesis by blast
qed

section \<open>Orders and fills\<close>

lemma fill_step:
  assumes "qty_on a (fa_qty fa)" "isl (create_fill uid ts fa s) = False"
  shows "store_step a s (after_res (create_fill uid ts fa s))"
  using assms by (cases "create_fill uid ts fa s") (auto simp: after_res_def intro: store_step.fill)

lemma demo_full_steps: "(store_step 8)\<^sup>*\<^sup>* demo_running demo_full"
proof -
  let ?s = "fst (create_order_intent ''i1'' ''t2'' demo_intent_args demo_running)"
  have "store_step 8 demo_running ?s" by (rule store_step.intent) code_simp
  moreover have "store_step 8 ?s demo_ordered"
    unfolding demo_ordered_def by (rule store_step.order) code_simp+
  moreover have "store_step 8 demo_ordered demo_part"
    unfolding demo_part_def by (rule fill_step) code_simp+
  moreover have "store_step 8 demo_part demo_full"
    unfolding demo_full_def by (rule fill_step) code_simp+
  ultimately show ?thesis by (iprover intro: converse_rtranclp_into_rtranclp rtranclp.rtrancl_refl)
qed

text \<open>
  C16. From any store whatever: every order created since names an intent of the store, and trades that
  intent's market, on one of its two exchanges, for its bot and run.
\<close>

theorem orders_match_their_intent:
  assumes "(store_step a)\<^sup>*\<^sup>* s0 s" "map_of (orders s) k = Some ord" "map_of (orders s0) k = None"
  shows "\<exists>i. map_of (order_intents s) (ord_intent_id ord) = Some i \<and> ord_market ord = int_market i
     \<and> (ord_exchange_name ord = int_buy_exchange i \<or> ord_exchange_name ord = int_sell_exchange i)
     \<and> ord_bot_id ord = int_bot_id i \<and> ord_run_id ord = int_run_id i"
proof -
  have "orders_ok (orders s0) (order_intents s0) (orders s0)" by (auto simp: orders_ok_def)
  from order_table.holds_after [OF assms(1) this] assms(2,3) show ?thesis
    by (fastforce simp: orders_ok_def order_matches_def)
qed

theorem orders_match_their_intent_witness:
  "\<exists>ord i. map_of (orders demo_full) ''o1'' = Some ord \<and> map_of (order_intents demo_full) (ord_intent_id ord) = Some i
     \<and> ord_market ord = int_market i \<and> ord_status ord = ''filled'' \<and> int_status i = ''simulated''"
proof -
  have "list_ex (\<lambda>(k, ord). k = ''o1'' \<and> map_of (orders demo_full) k = Some ord \<and> ord_status ord = ''filled''
      \<and> map_option int_status (map_of (order_intents demo_full) (ord_intent_id ord)) = Some ''simulated'')
    (orders demo_full)" by code_simp
  then obtain ord where "map_of (orders demo_full) ''o1'' = Some ord" "ord_status ord = ''filled''"
    "map_option int_status (map_of (order_intents demo_full) (ord_intent_id ord)) = Some ''simulated''"
    by (auto simp: list_ex_iff)
  moreover have "map_of (orders demo_running) ''o1'' = None" by code_simp
  ultimately show ?thesis using orders_match_their_intent [OF demo_full_steps] by fastforce
qed

text \<open>
  C4. A fill of an open order, with a trade identifier not seen for it: exactly when the exact sum of
  the order's fills and the new quantity is at most the requested quantity, the fill is recorded, the
  sum of the fills is that total, and the order is \<open>filled\<close> when the total is the requested quantity
  and \<open>partially_filled\<close> otherwise. Else it is refused and nothing changes.
\<close>

theorem fill_recorded_iff_it_fits:
  assumes "reachable a s" "qty_on a (fa_qty fa)" "map_of (orders s) (fa_order_id fa) = Some ord"
    "ord_status ord \<notin> set TERMINAL_ORDER_STATUSES" "\<not> known_trade fa (fills s)"
  shows "let filled = fill_sum (fills s) (fa_order_id fa) + qty_val (fa_qty fa);
             requested = qty_val (ord_requested_qty ord)
         in if requested < filled then create_fill uid ts fa s = Inr (s, Invalid, None)
            else \<exists>s' f ord'. create_fill uid ts fa s = Inr (s', Created, Some f)
              \<and> fill_sum (fills s') (fa_order_id fa) = filled
              \<and> map_of (orders s') (fa_order_id fa) = Some ord'
              \<and> ord_status ord' = (if filled = requested then ''filled'' else ''partially_filled'')"
  using create_fill_exact [OF reachable_fills_ok [OF assms(1)] assms(2-5), of uid ts]
  by (simp add: Let_def apply_fill_fields fill_sum_Cons)

theorem fill_recorded_iff_it_fits_witness:
  "create_fill ''f3'' ''t5'' (demo_fill_args ''x9'' ''0.61'') demo_part = Inr (demo_part, Invalid, None)"
proof -
  have q: "qty_on 8 (fa_qty (demo_fill_args ''x9'' ''0.61''))" "\<not> known_trade (demo_fill_args ''x9'' ''0.61'') (fills demo_part)"
    by code_simp+
  have "list_ex (\<lambda>(k, ord). k = fa_order_id (demo_fill_args ''x9'' ''0.61'')
      \<and> map_of (orders demo_part) k = Some ord \<and> ord_status ord \<notin> set TERMINAL_ORDER_STATUSES
      \<and> qty_val (ord_requested_qty ord) < fill_sum (fills demo_part) k + qty_val (fa_qty (demo_fill_args ''x9'' ''0.61'')))
    (orders demo_part)" by code_simp
  then obtain ord where ord: "map_of (orders demo_part) (fa_order_id (demo_fill_args ''x9'' ''0.61'')) = Some ord"
    "ord_status ord \<notin> set TERMINAL_ORDER_STATUSES"
    "qty_val (ord_requested_qty ord) < fill_sum (fills demo_part) (fa_order_id (demo_fill_args ''x9'' ''0.61''))
       + qty_val (fa_qty (demo_fill_args ''x9'' ''0.61''))"
    unfolding list_ex_iff by blast
  from fill_recorded_iff_it_fits [OF demo_part_reachable q(1) ord(1,2) q(2), of "''f3''" "''t5''"] ord(3)
  show ?thesis by (simp add: Let_def)
qed

text \<open>
  C25. Whatever steps follow, an order that is filled, cancelled, rejected or expired stays exactly as
  it is, an open order keeps its requested quantity and its intent, and no order is ever lost.
\<close>

theorem terminal_orders_are_final:
  assumes "(store_step a)\<^sup>*\<^sup>* s s'" "map_of (orders s) k = Some ord"
  shows "\<exists>ord'. map_of (orders s') k = Some ord' \<and> ord_requested_qty ord' = ord_requested_qty ord
     \<and> ord_intent_id ord' = ord_intent_id ord
     \<and> (ord_status ord \<in> {''filled'', ''cancelled'', ''rejected'', ''expired''} \<longrightarrow> ord' = ord)"
  using steps_keep_terminal [OF assms(1)] assms(2) unfolding keeps_terminal_def
  by (simp add: TERMINAL_ORDER_STATUSES_def)

theorem terminal_orders_are_final_witness:
  "\<exists>ord. map_of (orders demo_full) ''o1'' = Some ord \<and> ord_status ord = ''filled''
     \<and> map_of (orders (fst (update_order_status ''t9'' ''o1'' ''cancelled'' demo_full))) ''o1'' = Some ord"
proof -
  have "list_ex (\<lambda>(k, ord). k = ''o1'' \<and> map_of (orders demo_full) k = Some ord \<and> ord_status ord = ''filled'')
    (orders demo_full)" by code_simp
  then obtain ord where o: "map_of (orders demo_full) ''o1'' = Some ord" "ord_status ord = ''filled''"
    by (auto simp: list_ex_iff)
  have "(store_step 8)\<^sup>*\<^sup>* demo_full (fst (update_order_status ''t9'' ''o1'' ''cancelled'' demo_full))"
    by (intro r_into_rtranclp store_step.status)
  from terminal_orders_are_final [OF this o(1)] o show ?thesis by auto
qed

section \<open>Configurations and bots\<close>

text \<open>
  In every reachable store the versions of a configuration scope, oldest first, are numbered one after the
  other from the oldest, and the next version created for the scope takes the next number (1 for a new
  scope).
\<close>

theorem config_versions_count_up:
  assumes "reachable a s"
  shows "let vs = scope_versions s scope; oldest = (if vs = [] then 1 else cv_version_no (last vs)) in
    rev (map cv_version_no vs) = map (\<lambda>i. oldest + int i) [0..<length vs]
    \<and> cv_version_no (snd (create_config_version uid ts scope json checksum author s)) = oldest + int (length vs)"
proof -
  have n: "newest_first (scope_versions s scope)"
    using reachable_configs_ok [OF assms] by (auto simp: configs_ok_def scope_versions_def split: option.split)
  from newest_first_numbers [OF n] n show ?thesis
    by (cases "scope_versions s scope")
      (simp_all add: create_config_version_def Let_def newest_first_head)
qed

theorem config_versions_count_up_witness:
  "map cv_version_no (scope_versions demo_full ''default'') = [2, 1]
   \<and> cv_version_no (snd (create_config_version ''c3'' ''t'' ''default'' [] ''x'' None demo_full)) = 3"
proof -
  have "map cv_version_no (scope_versions demo_full ''default'') = [2, 1]" by code_simp
  with config_versions_count_up [OF demo_full_reachable, of "''default''" "''c3''" "''t''" "[]" "''x''" None]
  show ?thesis by (auto simp: Let_def map_eq_Cons_conv)
qed

text \<open>
  In a reachable store registering a bot never raises, every registered bot has a detail under its
  identifier, and registering a key again returns the identifier the bot has.
\<close>

theorem registering_returns:
  assumes "reachable a s"
  shows "\<exists>s' b. register_bot uid ts key name mode host s = Inr (s', bot_reply b) \<and> b \<in> set (bots s')
     \<and> b_bot_key b = key
     \<and> (\<forall>old. find (\<lambda>x. b_bot_key x = key) (bots s) = Some old \<longrightarrow> b_bot_id b = b_bot_id old)"
proof (cases "find (\<lambda>x. b_bot_key x = key) (bots s)")
  case None
  then show ?thesis by (auto simp: register_bot_def Let_def)
next
  case (Some old)
  then have old: "old \<in> set (bots s)" "b_bot_key old = key" by (auto simp: find_Some_iff)
  with reachable_bots_ok [OF assms] obtain d where d: "map_of (bot_details s) (b_bot_id old) = Some d"
    by (auto simp: bots_ok_def list_all_iff)
  have "b' \<in> set (set_first P (\<lambda>_. b') bs)" if "find P bs = Some b" for P b b' and bs :: "bot_row list"
    using that by (induction bs) (auto split: if_splits)
  from this [OF Some] old d Some show ?thesis by (auto simp: register_bot_def Let_def)
qed

theorem registering_returns_witness:
  "\<exists>s' b. register_bot ''b9'' ''t9'' ''key'' ''arb2'' ''live'' None demo_full = Inr (s', bot_reply b)
     \<and> b_bot_id b = ''b1''"
proof -
  have "map_option b_bot_id (find (\<lambda>x. b_bot_key x = ''key'') (bots demo_full)) = Some ''b1''" by code_simp
  with registering_returns [OF demo_full_reachable, of "''b9''" "''t9''" "''key''" "''arb2''" "''live''" None]
  show ?thesis by auto
qed

end
