(* ===== verification/Execution.thy ===== *)
theory Execution
  imports Decision Lifecycle StoreViews StoreInv
begin

text \<open>
  From a decision to orders: \<open>persist_order_intent_plan\<close> of \<open>strategy/arbitrage_runtime.py\<close>,
  \<open>strategy/arbitrage_execution.py\<close>, \<open>strategy/execution_mode_metadata.py\<close> and
  \<open>strategy/arbitrage_execution_adapter.py\<close>. The code works on any \<open>ControlPlaneStoreProtocol\<close>; here
  the operations it calls are a record of functions on a state of any type, and the last section
  supplies the in-memory store. The texts drawn from the environment are arguments: \<open>hex n\<close> is the
  n-th \<open>uuid4().hex[:10]\<close> of a call and \<open>clock n\<close> the time text of its n-th fill.
\<close>

section \<open>The store the execution calls\<close>

record 's order_ops =
  op_create_intent :: "intent_args \<Rightarrow> 's \<Rightarrow> 's \<times> outcome \<times> order_intent option"
  op_create_order :: "order_args \<Rightarrow> 's \<Rightarrow> 's \<times> outcome \<times> order option"
  op_create_fill :: "fill_args \<Rightarrow> 's \<Rightarrow> 's \<times> (outcome \<times> fill option) res"
  op_order_detail :: "string \<Rightarrow> 's \<Rightarrow> order_detail option res"

fun outcome_text :: "outcome \<Rightarrow> string" where
  "outcome_text Created = ''created''"
| "outcome_text Updated = ''updated''"
| "outcome_text Started = ''started''"
| "outcome_text Stopped = ''stopped''"
| "outcome_text NotFound = ''not_found''"
| "outcome_text Invalid = ''invalid''"
| "outcome_text Conflict = ''conflict''"

definition plan_intent_args :: "string \<Rightarrow> order_intent_plan \<Rightarrow> intent_args" where
  "plan_intent_args rid plan = \<lparr>ia_run_id = rid, ia_market = oip_market plan, ia_buy_exchange = buy_exchange plan,
     ia_sell_exchange = sell_exchange plan, ia_side_pair = side_pair plan, ia_target_qty = oip_target_qty plan,
     ia_expected_profit = Some (expected_profit plan),
     ia_expected_profit_ratio = Some (expected_profit_ratio plan), ia_status = ''created'',
     ia_decision_context = Some (oip_decision_context plan)\<rparr>"

definition persist_order_intent_plan ::
    "'s order_ops \<Rightarrow> arbitrage_decision \<Rightarrow> string \<Rightarrow> 's \<Rightarrow> 's \<times> string \<times> order_intent option" where
  "persist_order_intent_plan ops d rid s =
     (if \<not> accepted d then (s, ''rejected'', None)
      else case dec_order_intent_plan d of
        None \<Rightarrow> (s, ''rejected'', None)
      | Some plan \<Rightarrow>
          (case op_create_intent ops (plan_intent_args rid plan) s of
             (s', oc, i) \<Rightarrow> (s', outcome_text oc, i)))"

section \<open>Submitting (\<open>arbitrage_execution.py\<close>)\<close>

record submit_result =
  sr_outcome :: string
  sr_lifecycle_preview :: string
  sr_recovery_required :: bool
  sr_unwind_in_progress :: bool
  sr_created_orders :: "order list"
  sr_created_fills :: "fill list"
  sr_details :: obj

definition as_payload :: "submit_result \<Rightarrow> obj" where
  "as_payload r = [(''outcome'', PStr (sr_outcome r)), (''lifecycle_preview'', PStr (sr_lifecycle_preview r)),
     (''recovery_required'', PBool (sr_recovery_required r)),
     (''unwind_in_progress'', PBool (sr_unwind_in_progress r)),
     (''created_orders'', PList (map (\<lambda>ord. PDict [(''order_id'', PStr (order_id ord)),
        (''exchange_name'', PStr (ord_exchange_name ord)), (''side'', PStr (ord_side ord)),
        (''status'', PStr (ord_status ord))]) (sr_created_orders r))),
     (''created_fills'', PList (map (\<lambda>f. PDict [(''fill_id'', PStr (fill_id f)),
        (''order_id'', PStr (fl_order_id f)), (''exchange_name'', PStr (fl_exchange_name f)),
        (''fill_qty'', PStr (fl_qty f)), (''order_status'', PStr (fl_order_status f))]) (sr_created_fills r))),
     (''details'', PDict (sr_details r))]"

definition submit_failure_result :: "bool \<Rightarrow> obj \<Rightarrow> order list \<Rightarrow> submit_result" where
  "submit_failure_result auto_unwind details created =
     (let t = classify_submit_failure_transition True True True auto_unwind False
      in \<lparr>sr_outcome = ''submit_failed'', sr_lifecycle_preview = py_str (pget t ''next_state''),
          sr_recovery_required = truthy (pget t ''recovery_required''),
          sr_unwind_in_progress = truthy (pget t ''unwind_in_progress''),
          sr_created_orders = created, sr_created_fills = [], sr_details = details\<rparr>)"

definition simulated_order_args :: "string \<Rightarrow> order_intent \<Rightarrow> string \<times> string \<Rightarrow> order_args" where
  "simulated_order_args hex intent leg =
     \<lparr>oa_intent_id = intent_id intent, oa_exchange_name = fst leg,
      oa_exchange_order_id = Some (''sim-'' @ snd leg @ ''-'' @ hex), oa_market = int_market intent,
      oa_side = snd leg, oa_requested_price = None, oa_requested_qty = int_target_qty intent,
      oa_status = ''new'', oa_raw_payload = Some [(''submission_mode'', PStr ''simulated''),
        (''side'', PStr (snd leg)), (''intent_id'', PStr (intent_id intent))]\<rparr>"

datatype 'a legs_result = Legs 'a | Failed_leg string outcome

fun create_legs :: "'s order_ops \<Rightarrow> (nat \<Rightarrow> string) \<Rightarrow> order_intent \<Rightarrow> nat \<Rightarrow> (string \<times> string) list \<Rightarrow>
    order list \<Rightarrow> 's \<Rightarrow> 's \<times> order list \<times> unit legs_result" where
  "create_legs ops hex intent n [] created s = (s, created, Legs ())"
| "create_legs ops hex intent n (leg # legs) created s =
     (case op_create_order ops (simulated_order_args (hex n) intent leg) s of
        (s', Created, Some ord) \<Rightarrow> create_legs ops hex intent (Suc n) legs (created @ [ord]) s'
      | (s', oc, _) \<Rightarrow> (s', created, Failed_leg (snd leg) oc))"

definition simulated_fill_args :: "string \<Rightarrow> string \<Rightarrow> nat \<Rightarrow> order \<times> string \<Rightarrow> fill_args" where
  "simulated_fill_args hex clock index spec =
     \<lparr>fa_order_id = order_id (fst spec),
      fa_exchange_trade_id = Some (''sim-fill-'' @ int_str (int index) @ ''-'' @ hex),
      fa_price = snd spec, fa_qty = ord_requested_qty (fst spec), fa_fee_asset = None,
      fa_fee_amount = Some ''0'', fa_filled_at = clock\<rparr>"

fun fill_legs :: "'s order_ops \<Rightarrow> (nat \<Rightarrow> string) \<Rightarrow> (nat \<Rightarrow> string) \<Rightarrow> nat \<Rightarrow> (order \<times> string) list \<Rightarrow>
    fill list \<Rightarrow> 's \<Rightarrow> 's \<times> (fill list legs_result) res" where
  "fill_legs ops hex clock n [] fs s = (s, Inr (Legs fs))"
| "fill_legs ops hex clock n (spec # specs) fs s =
     (case op_create_fill ops (simulated_fill_args (hex n) (clock n) n spec) s of
        (s', Inl e) \<Rightarrow> (s', Inl e)
      | (s', Inr (Created, Some f)) \<Rightarrow> fill_legs ops hex clock (Suc n) specs (fs @ [f]) s'
      | (s', Inr (oc, _)) \<Rightarrow> (s', Inr (Failed_leg (ord_side (fst spec)) oc)))"

definition refresh_order :: "'s order_ops \<Rightarrow> 's \<Rightarrow> order \<Rightarrow> order res" where
  "refresh_order ops s ord =
     (if order_id ord = [] then Inr ord
      else andThen (op_order_detail ops (order_id ord) s)
        (\<lambda>d. Inr (case d of None \<Rightarrow> ord | Some x \<Rightarrow> od_order x)))"

definition refresh_orders :: "'s order_ops \<Rightarrow> 's \<Rightarrow> order list \<Rightarrow> order list res" where
  "refresh_orders ops s ords = mapM (refresh_order ops s) ords"

definition or_success :: "string \<Rightarrow> string" where
  "or_success m = (if m = [] then ''simulate_success'' else m)"

definition fill_created ::
    "'s order_ops \<Rightarrow> (nat \<Rightarrow> string) \<Rightarrow> (nat \<Rightarrow> string) \<Rightarrow> string \<Rightarrow> bool \<Rightarrow> executable_edge_result \<Rightarrow>
      order list \<Rightarrow> 's \<Rightarrow> 's \<times> submit_result res" where
  "fill_created ops hex clock mode auto_unwind edge created s =
     (case fill_legs ops hex clock 1 (zip created [dstr (buy_vwap edge), dstr (sell_vwap edge)]) [] s of
        (s', Inl e) \<Rightarrow> (s', Inl e)
      | (s', Inr (Failed_leg side oc)) \<Rightarrow>
          (s', Inr (submit_failure_result auto_unwind [(''mode'', PStr mode), (''failed_leg'', PStr side),
             (''fill_outcome'', PStr (outcome_text oc))] created))
      | (s', Inr (Legs fs)) \<Rightarrow>
          (s', andThen (refresh_orders ops s' created) (\<lambda>refreshed.
             Inr \<lparr>sr_outcome = ''filled'', sr_lifecycle_preview = ''hedge_balanced'',
               sr_recovery_required = False, sr_unwind_in_progress = False,
               sr_created_orders = refreshed, sr_created_fills = fs,
               sr_details = [(''mode'', PStr mode), (''filled_leg_count'', PInt (int (length fs)))]\<rparr>)))"

definition submit_arbitrage_orders ::
    "'s order_ops \<Rightarrow> (nat \<Rightarrow> string) \<Rightarrow> (nat \<Rightarrow> string) \<Rightarrow> arbitrage_decision \<Rightarrow> order_intent \<Rightarrow> string \<Rightarrow>
      bool \<Rightarrow> 's \<Rightarrow> 's \<times> submit_result res" where
  "submit_arbitrage_orders ops hex clock d intent execution_mode auto_unwind s =
     (let mode = lower (strip execution_mode) in
      if mode = ''simulate_failure''
      then (s, Inr (submit_failure_result auto_unwind [(''mode'', PStr mode), (''failed_leg'', PStr ''pre_submit''),
             (''reason'', PStr ''simulated submit failure'')] []))
      else case create_legs ops hex intent 0
               [(int_buy_exchange intent, ''buy''), (int_sell_exchange intent, ''sell'')] [] s of
        (s', created, Failed_leg side oc) \<Rightarrow>
          (s', Inr (submit_failure_result auto_unwind [(''mode'', PStr (or_success mode)),
             (''failed_leg'', PStr side), (''store_outcome'', PStr (outcome_text oc))] created))
      | (s', created, Legs _) \<Rightarrow>
          if mode = ''simulate_fill''
          then (case executable_edge d of
              None \<Rightarrow> (s', Inr (submit_failure_result auto_unwind [(''mode'', PStr mode),
                 (''reason'', PStr ''missing executable edge'')] created))
            | Some edge \<Rightarrow> fill_created ops (\<lambda>n. hex (Suc n)) clock mode auto_unwind edge created s')
          else (s', Inr \<lparr>sr_outcome = ''submitted'', sr_lifecycle_preview = ''entry_submitting'',
             sr_recovery_required = False, sr_unwind_in_progress = False, sr_created_orders = created,
             sr_created_fills = [], sr_details = [(''mode'', PStr (or_success mode)),
               (''submitted_leg_count'', PInt (int (length created)))]\<rparr>))"

section \<open>Execution modes and adapters\<close>

record execution_mode_metadata =
  em_normalized_mode :: string
  em_path_kind :: string
  em_temporary_path :: bool
  em_summary :: string

definition KNOWN_MODES :: "string list" where
  "KNOWN_MODES = [''simulate_success'', ''simulate_failure'', ''simulate_fill'', ''private_http'',
     ''private_connectors'', ''private_stub'']"

definition describe_execution_mode :: "string \<Rightarrow> execution_mode_metadata" where
  "describe_execution_mode mode =
     (let m = or_success (lower (strip mode));
          m = (if m \<in> set KNOWN_MODES then m else ''simulate_failure'')
      in if m = ''private_http'' then \<lparr>em_normalized_mode = m, em_path_kind = ''temporary_external_delegate'',
           em_temporary_path = True, em_summary =
             ''private_http delegates order submission to an external executor and remains a temporary live path''\<rparr>
         else if m = ''private_connectors'' then \<lparr>em_normalized_mode = m,
           em_path_kind = ''integrated_private_connectors'', em_temporary_path = False, em_summary =
             ''private_connectors submits limit orders through in-process private exchange connectors''\<rparr>
         else if m = ''private_stub'' then \<lparr>em_normalized_mode = m, em_path_kind = ''stubbed_private_connector'',
           em_temporary_path = True, em_summary = ''private_stub is a non-live placeholder execution path''\<rparr>
         else \<lparr>em_normalized_mode = m, em_path_kind = ''simulated'', em_temporary_path = False,
           em_summary = ''simulate_* modes do not submit live orders''\<rparr>)"

datatype execution_adapter =
    SimulatedAdapter string
  | PrivateStubAdapter
  | PrivateHttpAdapter "string option" int "string option"
  | PrivateConnectorsAdapter

definition build_arbitrage_execution_adapter ::
    "string \<Rightarrow> string option \<Rightarrow> int \<Rightarrow> string option \<Rightarrow> execution_adapter" where
  "build_arbitrage_execution_adapter mode url timeout_ms token =
     (let m = or_success (lower (strip mode)) in
      if m = ''private_http'' then PrivateHttpAdapter url timeout_ms token
      else if m = ''private_connectors'' then PrivateConnectorsAdapter
      else if m = ''private_stub'' then PrivateStubAdapter
      else SimulatedAdapter m)"

definition stub_submit :: "bool \<Rightarrow> submit_result" where
  "stub_submit auto_unwind =
     (let t = classify_submit_failure_transition True True True auto_unwind False
      in \<lparr>sr_outcome = ''submit_failed'', sr_lifecycle_preview = py_str (pget t ''next_state''),
          sr_recovery_required = truthy (pget t ''recovery_required''),
          sr_unwind_in_progress = truthy (pget t ''unwind_in_progress''),
          sr_created_orders = [], sr_created_fills = [],
          sr_details = [(''mode'', PStr ''private_stub''),
            (''reason'', PStr ''private execution adapter not implemented''),
            (''adapter_name'', PStr ''private_stub'')]\<rparr>)"

section \<open>The in-memory store as the store of the execution\<close>

text \<open>The state is the store and the number of identifiers drawn so far; \<open>uid n\<close> is the n-th \<open>uuid4()\<close>
  and \<open>ts n\<close> the time text of the n-th operation.\<close>

datatype mem = Mem (drawn: nat) (mem_store: store)

definition mem_ops :: "(nat \<Rightarrow> string) \<Rightarrow> (nat \<Rightarrow> string) \<Rightarrow> mem order_ops" where
  "mem_ops uid ts = \<lparr>
     op_create_intent = (\<lambda>a m. case create_order_intent (uid (drawn m)) (ts (drawn m)) a (mem_store m) of
        (s', r) \<Rightarrow> (Mem (Suc (drawn m)) s', r)),
     op_create_order = (\<lambda>a m. case create_order (uid (drawn m)) (ts (drawn m)) a (mem_store m) of
        (s', r) \<Rightarrow> (Mem (Suc (drawn m)) s', r)),
     op_create_fill = (\<lambda>a m. case create_fill (uid (drawn m)) (ts (drawn m)) a (mem_store m) of
        Inl e \<Rightarrow> (m, Inl e) | Inr (s', r) \<Rightarrow> (Mem (Suc (drawn m)) s', Inr r)),
     op_order_detail = (\<lambda>oid m. get_order_detail (mem_store m) oid)\<rparr>"


section \<open>What the execution needs of a store\<close>

definition leg_args :: "order_intent \<Rightarrow> order_args \<Rightarrow> bool" where
  "leg_args i a = (oa_intent_id a = intent_id i \<and> oa_market a = int_market i
     \<and> oa_exchange_name a \<in> {int_buy_exchange i, int_sell_exchange i}
     \<and> oa_requested_qty a = int_target_qty i \<and> oa_status a = ''new'')"

definition leg_order :: "order_args \<Rightarrow> order \<Rightarrow> bool" where
  "leg_order a ord = (ord_requested_qty ord = oa_requested_qty a \<and> ord_side ord = oa_side a
     \<and> ord_exchange_name ord = oa_exchange_name a \<and> ord_market ord = oa_market a)"

definition same_leg :: "order \<Rightarrow> order \<Rightarrow> bool" where
  "same_leg x y = (order_id y = order_id x \<and> ord_side y = ord_side x \<and> ord_exchange_name y = ord_exchange_name x
     \<and> ord_market y = ord_market x \<and> ord_requested_qty y = ord_requested_qty x)"

definition fill_on :: "fill \<Rightarrow> order \<Rightarrow> bool" where
  \<comment> \<open>the fill is one of the order, on its side, exchange and market\<close>
  "fill_on f x = (fl_order_id f = order_id x \<and> fl_side f = ord_side x \<and> fl_exchange_name f = ord_exchange_name x
     \<and> fl_market f = ord_market x)"

definition full_fill_args :: "order \<Rightarrow> fill_args \<Rightarrow> bool" where
  "full_fill_args ord a = (fa_order_id a = order_id ord \<and> fa_qty a = ord_requested_qty ord
     \<and> dparse (fa_price a) \<noteq> None \<and> (case fa_fee_amount a of None \<Rightarrow> True | Some t \<Rightarrow> dparse t \<noteq> None))"

text \<open>
  The contract: \<open>accepts i\<close> says that the store holds the intent \<open>i\<close>, \<open>seen\<close> that an exchange order
  identifier is in use, \<open>untouched ord\<close> that the order is open and has no fill, \<open>filled ord\<close> that the
  order is stored as filled.
\<close>

locale order_store =
  fixes ops :: "'s order_ops"
    and good :: "'s \<Rightarrow> bool"
    and accepts :: "order_intent \<Rightarrow> 's \<Rightarrow> bool"
    and seen :: "string \<Rightarrow> string \<Rightarrow> 's \<Rightarrow> bool"
    and untouched :: "order \<Rightarrow> 's \<Rightarrow> bool"
    and filled :: "order \<Rightarrow> 's \<Rightarrow> bool"
  assumes creates: "good s \<Longrightarrow> accepts i s \<Longrightarrow> leg_args i a \<Longrightarrow> oa_exchange_order_id a = Some e \<Longrightarrow>
      \<not> seen (oa_exchange_name a) e s \<Longrightarrow>
      \<exists>s' ord. op_create_order ops a s = (s', Created, Some ord) \<and> good s' \<and> accepts i s' \<and> untouched ord s'
        \<and> leg_order a ord \<and> (\<forall>x. untouched x s \<longrightarrow> untouched x s' \<and> order_id x \<noteq> order_id ord)
        \<and> (\<forall>ex e'. seen ex e' s' \<longrightarrow> seen ex e' s \<or> e' = e)"
    and fills_up: "good s \<Longrightarrow> untouched ord s \<Longrightarrow> full_fill_args ord fa \<Longrightarrow>
      \<exists>s' f. op_create_fill ops fa s = (s', Inr (Created, Some f)) \<and> good s' \<and> filled ord s'
        \<and> fill_on f ord \<and> fl_qty f = fa_qty fa \<and> fl_price f = fa_price fa
        \<and> (\<forall>x. untouched x s \<and> order_id x \<noteq> order_id ord \<longrightarrow> untouched x s')
        \<and> (\<forall>x. filled x s \<longrightarrow> filled x s')"
    and shows_filled: "good s \<Longrightarrow> filled x s \<Longrightarrow> order_id x \<noteq> [] \<and> (\<exists>d. op_order_detail ops (order_id x) s = Inr (Some d)
        \<and> ord_status (od_order d) = ''filled'' \<and> same_leg x (od_order d))"
begin

text \<open>Both legs are created when their exchange order identifiers are new.\<close>

lemma both_legs:
  assumes "good s" "accepts i s" "\<not> seen (int_buy_exchange i) (''sim-buy-'' @ hex 0) s"
    "\<not> seen (int_sell_exchange i) (''sim-sell-'' @ hex 1) s"
  obtains s' b c where "create_legs ops hex i 0 [(int_buy_exchange i, ''buy''), (int_sell_exchange i, ''sell'')] [] s
      = (s', [b, c], Legs ())" "good s'" "untouched b s'" "untouched c s'" "order_id b \<noteq> order_id c"
    "ord_requested_qty b = int_target_qty i" "ord_requested_qty c = int_target_qty i"
    "ord_exchange_name b = int_buy_exchange i" "ord_exchange_name c = int_sell_exchange i"
    "ord_side b = ''buy''" "ord_side c = ''sell''" "ord_market b = int_market i" "ord_market c = int_market i"
proof -
  define a where "a = simulated_order_args (hex 0) i (int_buy_exchange i, ''buy'')"
  define a' where "a' = simulated_order_args (hex 1) i (int_sell_exchange i, ''sell'')"
  define e where "e = ''sim-buy-'' @ hex 0"
  define e' where "e' = ''sim-sell-'' @ hex 1"
  have args: "leg_args i a" "leg_args i a'" "oa_exchange_order_id a = Some e" "oa_exchange_order_id a' = Some e'"
    "oa_exchange_name a = int_buy_exchange i" "oa_exchange_name a' = int_sell_exchange i"
    by (simp_all add: leg_args_def simulated_order_args_def a_def a'_def e_def e'_def)
  have ne: "e \<noteq> e'" by (simp add: e_def e'_def)
  have "\<not> seen (oa_exchange_name a) e s" using assms(3) unfolding args e_def .
  from creates [OF assms(1,2) args(1,3) this] obtain s1 b where
    b: "op_create_order ops a s = (s1, Created, Some b)" "good s1" "accepts i s1" "untouched b s1" "leg_order a b"
      "\<forall>ex e'. seen ex e' s1 \<longrightarrow> seen ex e' s \<or> e' = e" by blast
  have "\<not> seen (oa_exchange_name a') e' s1" using b(6) assms(4) ne unfolding args e'_def by blast
  from creates [OF b(2,3) args(2,4) this] obtain s2 c where
    c: "op_create_order ops a' s1 = (s2, Created, Some c)" "good s2" "untouched c s2" "leg_order a' c"
      "\<forall>x. untouched x s1 \<longrightarrow> untouched x s2 \<and> order_id x \<noteq> order_id c" by blast
  show ?thesis
  proof (rule that [of s2 b c])
    show "create_legs ops hex i 0 [(int_buy_exchange i, ''buy''), (int_sell_exchange i, ''sell'')] [] s
      = (s2, [b, c], Legs ())" using b(1) c(1) by (simp add: a_def a'_def)
  qed (use b c in \<open>auto simp: leg_order_def simulated_order_args_def a_def a'_def\<close>)
qed

text \<open>In the default mode both legs are then open and untouched.\<close>

lemma submits:
  assumes "good s" "accepts i s" "\<not> seen (int_buy_exchange i) (''sim-buy-'' @ hex 0) s"
    "\<not> seen (int_sell_exchange i) (''sim-sell-'' @ hex 1) s"
    "lower (strip mode) \<notin> {''simulate_failure'', ''simulate_fill''}"
  shows "\<exists>s' r b c. submit_arbitrage_orders ops hex clock d i mode unwind s = (s', Inr r)
     \<and> sr_outcome r = ''submitted'' \<and> \<not> sr_recovery_required r \<and> sr_created_orders r = [b, c]
     \<and> good s' \<and> untouched b s' \<and> untouched c s'
     \<and> ord_requested_qty b = int_target_qty i \<and> ord_requested_qty c = int_target_qty i
     \<and> ord_exchange_name b = int_buy_exchange i \<and> ord_exchange_name c = int_sell_exchange i
     \<and> ord_side b = ''buy'' \<and> ord_side c = ''sell''"
proof -
  obtain s' b c where legs:
    "create_legs ops hex i 0 [(int_buy_exchange i, ''buy''), (int_sell_exchange i, ''sell'')] [] s = (s', [b, c], Legs ())"
    and o: "good s'" "untouched b s'" "untouched c s'" "order_id b \<noteq> order_id c"
    "ord_requested_qty b = int_target_qty i" "ord_requested_qty c = int_target_qty i"
    "ord_exchange_name b = int_buy_exchange i" "ord_exchange_name c = int_sell_exchange i"
    "ord_side b = ''buy''" "ord_side c = ''sell''"
    by (rule both_legs [OF assms(1-4)])
  from assms(5) show ?thesis unfolding submit_arbitrage_orders_def legs Let_def
    using o by (intro exI [of _ s'] exI [of _ "\<lparr>sr_outcome = ''submitted'', sr_lifecycle_preview = ''entry_submitting'',
             sr_recovery_required = False, sr_unwind_in_progress = False, sr_created_orders = [b, c],
             sr_created_fills = [], sr_details = [(''mode'', PStr (or_success (lower (strip mode)))),
               (''submitted_leg_count'', PInt (int (length [b, c])))]\<rparr>"] exI [of _ b] exI [of _ c]) simp
qed

text \<open>In the filling mode both legs are filled for the whole quantity and shown as filled.\<close>

lemma both_fills:
  assumes "good s" "untouched b s" "untouched c s" "order_id b \<noteq> order_id c"
    "dparse pb \<noteq> None" "dparse pc \<noteq> None"
  obtains s' f g where "fill_legs ops hex clock 1 [(b, pb), (c, pc)] [] s = (s', Inr (Legs [f, g]))" "good s'"
    "filled b s'" "filled c s'" "fill_on f b" "fill_on g c"
    "fl_qty f = ord_requested_qty b" "fl_qty g = ord_requested_qty c" "fl_price f = pb" "fl_price g = pc"
proof -
  define a where "a = simulated_fill_args (hex 1) (clock 1) 1 (b, pb)"
  define a' where "a' = simulated_fill_args (hex 2) (clock 2) 2 (c, pc)"
  have zero: "dparse ''0'' \<noteq> None" by code_simp
  have args: "full_fill_args b a" "full_fill_args c a'" "fa_qty a = ord_requested_qty b" "fa_qty a' = ord_requested_qty c"
    "fa_price a = pb" "fa_price a' = pc"
    using assms(5,6) zero by (simp_all add: full_fill_args_def simulated_fill_args_def a_def a'_def)
  from fills_up [OF assms(1,2) args(1)] obtain s1 f where
    f: "op_create_fill ops a s = (s1, Inr (Created, Some f))" "good s1" "filled b s1"
      "fill_on f b" "fl_qty f = fa_qty a" "fl_price f = fa_price a" "\<forall>x. untouched x s \<and> order_id x \<noteq> order_id b \<longrightarrow> untouched x s1"
    by blast
  from f(7) assms(3,4) have "untouched c s1" by metis
  from fills_up [OF f(2) this args(2)] obtain s2 g where
    g: "op_create_fill ops a' s1 = (s2, Inr (Created, Some g))" "good s2" "filled c s2"
      "fill_on g c" "fl_qty g = fa_qty a'" "fl_price g = fa_price a'" "\<forall>x. filled x s1 \<longrightarrow> filled x s2"
    by blast
  show ?thesis
  proof (rule that [of s2 f g])
    show "fill_legs ops hex clock 1 [(b, pb), (c, pc)] [] s = (s2, Inr (Legs [f, g]))"
      using f(1) g(1) by (simp add: a_def a'_def numeral_2_eq_2)
  qed (use f g args in auto)
qed

lemma refreshed_filled:
  assumes "good s" "filled x s"
  shows "\<exists>y. refresh_order ops s x = Inr y \<and> ord_status y = ''filled'' \<and> same_leg x y"
  using shows_filled [OF assms] by (auto simp: refresh_order_def)

lemma fills:
  assumes "good s" "accepts i s" "\<not> seen (int_buy_exchange i) (''sim-buy-'' @ hex 0) s"
    "\<not> seen (int_sell_exchange i) (''sim-sell-'' @ hex 1) s"
    "lower (strip mode) = ''simulate_fill''" "executable_edge d = Some edge"
  shows "\<exists>s' r x y b c f g. submit_arbitrage_orders ops hex clock d i mode unwind s = (s', Inr r)
     \<and> sr_outcome r = ''filled'' \<and> sr_lifecycle_preview r = ''hedge_balanced'' \<and> \<not> sr_recovery_required r
     \<and> sr_created_orders r = [b, c] \<and> ord_status b = ''filled'' \<and> ord_status c = ''filled'' \<and> order_id b \<noteq> order_id c
     \<and> ord_side b = ''buy'' \<and> ord_exchange_name b = int_buy_exchange i \<and> ord_market b = int_market i
     \<and> ord_side c = ''sell'' \<and> ord_exchange_name c = int_sell_exchange i \<and> ord_market c = int_market i
     \<and> sr_created_fills r = [f, g] \<and> fill_on f b \<and> fill_on g c
     \<and> fl_qty f = int_target_qty i \<and> fl_qty g = int_target_qty i
     \<and> fl_price f = dstr (buy_vwap edge) \<and> fl_price g = dstr (sell_vwap edge)
     \<and> good s' \<and> filled x s' \<and> filled y s' \<and> same_leg x b \<and> same_leg y c"
proof -
  obtain s1 b c where legs:
    "create_legs ops hex i 0 [(int_buy_exchange i, ''buy''), (int_sell_exchange i, ''sell'')] [] s = (s1, [b, c], Legs ())"
    and o: "good s1" "untouched b s1" "untouched c s1" "order_id b \<noteq> order_id c"
    "ord_requested_qty b = int_target_qty i" "ord_requested_qty c = int_target_qty i"
    "ord_exchange_name b = int_buy_exchange i" "ord_exchange_name c = int_sell_exchange i"
    "ord_side b = ''buy''" "ord_side c = ''sell''" "ord_market b = int_market i" "ord_market c = int_market i"
    by (rule both_legs [OF assms(1-4)])
  have p: "dparse (dstr x) \<noteq> None" for x by (simp add: dparse_dstr)
  obtain s2 f g where fl: "fill_legs ops (\<lambda>n. hex (Suc n)) clock 1
      [(b, dstr (buy_vwap edge)), (c, dstr (sell_vwap edge))] [] s1 = (s2, Inr (Legs [f, g]))" "good s2"
    "filled b s2" "filled c s2" "fill_on f b" "fill_on g c"
    "fl_qty f = ord_requested_qty b" "fl_qty g = ord_requested_qty c"
    "fl_price f = dstr (buy_vwap edge)" "fl_price g = dstr (sell_vwap edge)"
    by (rule both_fills [OF o(1-4) p p])
  obtain b' where b': "refresh_order ops s2 b = Inr b'" "ord_status b' = ''filled''" "same_leg b b'"
    using refreshed_filled [OF fl(2,3)] by blast
  obtain c' where c': "refresh_order ops s2 c = Inr c'" "ord_status c' = ''filled''" "same_leg c c'"
    using refreshed_filled [OF fl(2,4)] by blast
  define r where "r = \<lparr>sr_outcome = ''filled'', sr_lifecycle_preview = ''hedge_balanced'',
    sr_recovery_required = False, sr_unwind_in_progress = False, sr_created_orders = [b', c'],
    sr_created_fills = [f, g], sr_details = [(''mode'', PStr ''simulate_fill''), (''filled_leg_count'', PInt 2)]\<rparr>"
  have "submit_arbitrage_orders ops hex clock d i mode unwind s = (s2, Inr r)"
    unfolding submit_arbitrage_orders_def legs Let_def
    using fl(1) b'(1) c'(1) assms(5,6) by (simp add: fill_created_def refresh_orders_def r_def)
  moreover have "sr_outcome r = ''filled''" "sr_lifecycle_preview r = ''hedge_balanced''" "\<not> sr_recovery_required r"
    "sr_created_orders r = [b', c']" "sr_created_fills r = [f, g]" by (simp_all add: r_def)
  ultimately show ?thesis using b' c' fl o
    by (intro exI [of _ s2] exI [of _ r] exI [of _ b] exI [of _ c] exI [of _ b'] exI [of _ c'] exI [of _ f] exI [of _ g])
       (simp add: same_leg_def fill_on_def)
qed

end

end
