(* ===== verification/ExecutionStore.thy ===== *)
theory ExecutionStore
  imports Execution StoreClaims
begin

text \<open>
  The in-memory store meets the contract \<open>order_store\<close> of the execution, and what submitting a decision
  therefore does to the store.
\<close>

section \<open>The in-memory store meets the contract\<close>

definition mem_good :: "int \<Rightarrow> (nat \<Rightarrow> string) \<Rightarrow> mem \<Rightarrow> bool" where
  "mem_good a uid m = (reachable a (mem_store m) \<and> list_all fill_texts_ok (fills (mem_store m)) \<and> inj uid
     \<and> (\<forall>n \<ge> drawn m. map_of (orders (mem_store m)) (uid n) = None) \<and> (\<forall>n. uid n \<noteq> []))"

definition mem_accepts :: "int \<Rightarrow> order_intent \<Rightarrow> mem \<Rightarrow> bool" where
  "mem_accepts a i m = (qty_on a (int_target_qty i) \<and>
     (\<exists>j. map_of (order_intents (mem_store m)) (intent_id i) = Some j \<and> same_terms i j))"

definition mem_seen :: "string \<Rightarrow> string \<Rightarrow> mem \<Rightarrow> bool" where
  "mem_seen ex e m = (\<exists>k ord. (k, ord) \<in> set (orders (mem_store m)) \<and> ord_exchange_name ord = ex
     \<and> ord_exchange_order_id ord = Some e)"

definition mem_untouched :: "order \<Rightarrow> mem \<Rightarrow> bool" where
  "mem_untouched ord m = (map_of (orders (mem_store m)) (order_id ord) = Some ord \<and> ord_status ord = ''new''
     \<and> order_fills (fills (mem_store m)) (order_id ord) = [] \<and> order_id ord \<noteq> [])"

definition mem_filled :: "order \<Rightarrow> mem \<Rightarrow> bool" where
  "mem_filled x m = (order_id x \<noteq> [] \<and> (\<exists>ord. map_of (orders (mem_store m)) (order_id x) = Some ord
     \<and> ord_status ord = ''filled'' \<and> same_leg x ord))"

lemma same_terms_trans: "same_terms i j \<Longrightarrow> same_terms j k \<Longrightarrow> same_terms i k"
  by (simp add: same_terms_def)

lemma mem_creates:
  assumes good: "mem_good a uid m" and acc: "mem_accepts a i m" and leg: "leg_args i oa"
    and e: "oa_exchange_order_id oa = Some e" and new: "\<not> mem_seen (oa_exchange_name oa) e m"
  shows "\<exists>m' ord. op_create_order (mem_ops uid ts) oa m = (m', Created, Some ord) \<and> mem_good a uid m'
    \<and> mem_accepts a i m' \<and> mem_untouched ord m' \<and> leg_order oa ord
    \<and> (\<forall>x. mem_untouched x m \<longrightarrow> mem_untouched x m' \<and> order_id x \<noteq> order_id ord)
    \<and> (\<forall>ex e'. mem_seen ex e' m' \<longrightarrow> mem_seen ex e' m \<or> e' = e)"
proof -
  define s where "s = mem_store m"
  define n where "n = drawn m"
  from acc obtain j where q: "qty_on a (int_target_qty i)" and j: "map_of (order_intents s) (intent_id i) = Some j"
    "same_terms i j" by (auto simp: mem_accepts_def s_def)
  define ord where "ord = new_order (uid n) (ts n) j oa"
  define ints where "ints = (if int_status j = ''created''
     then dset (order_intents s) (intent_id i) (j\<lparr>int_status := ''submitted''\<rparr>) else order_intents s)"
  define s' where "s' = s\<lparr>orders := dset (orders s) (uid n) ord, order_intents := ints\<rparr>"
  have fresh: "map_of (orders s) (uid n) = None" and R: "reachable a s" and inj: "inj uid"
    and texts: "list_all fill_texts_ok (fills s)" and ne: "\<And>n. uid n \<noteq> []"
    and later: "\<And>k. n \<le> k \<Longrightarrow> map_of (orders s) (uid k) = None"
    using good by (simp_all add: mem_good_def s_def n_def)
  have "find (same_exchange_order oa) (dvals (orders s)) = None"
    using new e by (auto simp: find_None_iff same_exchange_order_def mem_seen_def s_def dvals_def)
  then have cr: "create_order (uid n) (ts n) oa s = (s', Created, Some ord)"
    using leg j by (auto simp: create_order_def leg_args_def same_terms_def Let_def s'_def ord_def ints_def)
  have "reachable a s'"
    using reachable.step [OF R store_step.order [OF fresh, where oa = oa and ts = "ts n" and a = a]] cr leg q by (simp add: leg_args_def)
  moreover have "map_of (orders s') (uid k) = None" if "Suc n \<le> k" for k
    using later [of k] that inj by (auto simp: s'_def inj_eq)
  ultimately have good': "mem_good a uid (Mem (Suc n) s')"
    using texts inj ne by (simp add: mem_good_def s'_def)
  have no_fills: "order_fills (fills s) (uid n) = []"
    using reachable_fills_ok [OF R] fresh by (auto simp: fills_ok_def order_fills_def list_all_iff filter_empty_conv)
  have flds: "order_id ord = uid n" "ord_status ord = ''new''" "leg_order oa ord"
    "ord_exchange_order_id ord = Some e" "ord_exchange_name ord = oa_exchange_name oa"
    using leg e by (simp_all add: ord_def new_order_def leg_args_def leg_order_def)
  show ?thesis
  proof (intro exI conjI allI impI)
    show "op_create_order (mem_ops uid ts) oa m = (Mem (Suc n) s', Created, Some ord)"
      using cr by (simp add: mem_ops_def n_def s_def)
    show "mem_good a uid (Mem (Suc n) s')" by (rule good')
    show "mem_accepts a i (Mem (Suc n) s')"
      using j q by (auto simp: mem_accepts_def s'_def ints_def same_terms_def)
    show "mem_untouched ord (Mem (Suc n) s')"
      using flds no_fills ne by (simp add: mem_untouched_def s'_def)
    show "leg_order oa ord" by (rule flds)
    show "mem_untouched x (Mem (Suc n) s')" "order_id x \<noteq> order_id ord" if "mem_untouched x m" for x
      using that fresh flds by (auto simp: mem_untouched_def s'_def s_def)
    show "mem_seen ex e' m \<or> e' = e" if "mem_seen ex e' (Mem (Suc n) s')" for ex e'
    proof -
      from that obtain k x where x: "(k, x) \<in> set (orders s')" "ord_exchange_name x = ex"
        "ord_exchange_order_id x = Some e'" by (auto simp: mem_seen_def)
      then have "x = ord \<or> (k, x) \<in> set (orders s)"
        using set_dset_subset [of "orders s" "uid n" ord] by (auto simp: s'_def)
      with x flds show ?thesis by (auto simp: mem_seen_def s_def)
    qed
  qed
qed

lemma mem_fills_up:
  assumes good: "mem_good a uid m" and un: "mem_untouched ord m" and full: "full_fill_args ord fa"
  shows "\<exists>m' f. op_create_fill (mem_ops uid ts) fa m = (m', Inr (Created, Some f)) \<and> mem_good a uid m'
    \<and> mem_filled ord m' \<and> fill_on f ord \<and> fl_qty f = fa_qty fa \<and> fl_price f = fa_price fa
    \<and> (\<forall>x. mem_untouched x m \<and> order_id x \<noteq> order_id ord \<longrightarrow> mem_untouched x m')
    \<and> (\<forall>x. mem_filled x m \<longrightarrow> mem_filled x m')"
proof -
  define s where "s = mem_store m"
  define n where "n = drawn m"
  have R: "reachable a s" and inj: "inj uid" and texts: "list_all fill_texts_ok (fills s)"
    and ne: "\<And>n. uid n \<noteq> []" and later: "\<And>k. n \<le> k \<Longrightarrow> map_of (orders s) (uid k) = None"
    using good by (simp_all add: mem_good_def s_def n_def)
  from un full have o: "map_of (orders s) (fa_order_id fa) = Some ord" "ord_status ord = ''new''"
    "order_fills (fills s) (fa_order_id fa) = []" "fa_order_id fa = order_id ord" "order_id ord \<noteq> []"
    by (auto simp: mem_untouched_def full_fill_args_def s_def)
  have F: "fills_ok a (orders s) (fills s)" by (rule reachable_fills_ok [OF R])
  with o(1) full have q: "qty_on a (fa_qty fa)" by (auto simp: fills_ok_def full_fill_args_def)
  have nt: "ord_status ord \<notin> set TERMINAL_ORDER_STATUSES" using o(2) by (simp add: TERMINAL_ORDER_STATUSES_def)
  have nk: "\<not> known_trade fa (fills s)"
    using o(3) by (auto simp: known_trade_def list_ex_iff order_fills_def filter_empty_conv)
  have z: "fill_sum (fills s) (fa_order_id fa) = 0" using o(3) by (simp add: fill_sum_def)
  define r where "r = apply_fill (uid n) (ts n) ord ''filled'' fa s"
  have cf: "create_fill (uid n) (ts n) fa s = Inr (fst r, Created, Some (snd r))"
    using create_fill_exact [OF F q o(1) nt nk, of "uid n" "ts n"] z full
    by (simp add: Let_def full_fill_args_def r_def)
  have R': "reachable a (fst r)" using reachable.step [OF R store_step.fill [OF q cf]] .
  have flds: "orders (fst r) = dset (orders s) (order_id ord) (ord\<lparr>ord_status := ''filled'', ord_updated_at := ts n\<rparr>)"
    "fills (fst r) = snd r # fills s" "fl_order_id (snd r) = order_id ord" "fl_qty (snd r) = fa_qty fa"
    "fl_price (snd r) = fa_price fa" "fill_on (snd r) ord" "fl_fee_amount (snd r) = fa_fee_amount fa"
    using o(4) by (simp_all add: r_def apply_fill_def Let_def new_fill_def fill_on_def)
  have tx: "fill_texts_ok (snd r)"
  proof -
    from q have "dparse (fa_qty fa) \<noteq> None" by (auto simp: qty_on_def split: option.splits)
    with full show ?thesis by (auto simp: fill_texts_ok_def full_fill_args_def flds)
  qed
  have "map_of (orders (fst r)) (uid k) = None" if "Suc n \<le> k" for k
    using later [of k] that o(1,4) by (auto simp: flds)
  with R' tx texts inj ne have good': "mem_good a uid (Mem (Suc n) (fst r))"
    by (simp add: mem_good_def flds)
  show ?thesis
  proof (intro exI conjI allI impI)
    show "op_create_fill (mem_ops uid ts) fa m = (Mem (Suc n) (fst r), Inr (Created, Some (snd r)))"
      using cf by (simp add: mem_ops_def s_def n_def)
    show "mem_good a uid (Mem (Suc n) (fst r))" by (rule good')
    show "mem_filled ord (Mem (Suc n) (fst r))" using o(5) by (simp add: mem_filled_def flds same_leg_def)
    show "fill_on (snd r) ord" "fl_qty (snd r) = fa_qty fa" "fl_price (snd r) = fa_price fa" by (rule flds)+
    show "mem_untouched x (Mem (Suc n) (fst r))" if "mem_untouched x m \<and> order_id x \<noteq> order_id ord" for x
      using that by (auto simp: mem_untouched_def flds s_def order_fills_def)
    show "mem_filled x (Mem (Suc n) (fst r))" if "mem_filled x m" for x
      using that o(1,4) by (auto simp: mem_filled_def flds s_def same_leg_def)
  qed
qed

lemma mem_shows_filled:
  assumes "mem_good a uid m" "mem_filled x m"
  shows "order_id x \<noteq> [] \<and> (\<exists>d. op_order_detail (mem_ops uid ts) (order_id x) m = Inr (Some d)
    \<and> ord_status (od_order d) = ''filled'' \<and> same_leg x (od_order d))"
proof -
  from assms obtain ord agg where "map_of (orders (mem_store m)) (order_id x) = Some ord" "ord_status ord = ''filled''"
    "same_leg x ord" "order_id x \<noteq> []" "fill_aggregate_of (fills (mem_store m)) (order_id x) = Inr agg"
    using fill_aggregate_returns [of "fills (mem_store m)" "order_id x"]
    by (auto simp: mem_filled_def mem_good_def returns_iff)
  then show ?thesis by (simp add: mem_ops_def get_order_detail_def)
qed

interpretation memory: order_store "mem_ops uid ts" "mem_good a uid" "mem_accepts a" mem_seen mem_untouched mem_filled
  for uid ts a
  by unfold_locales (rule mem_creates, assumption+, rule mem_fills_up, assumption+, rule mem_shows_filled)

section \<open>Submitting a decision\<close>

text \<open>
  C26. Filling mode, on any reachable store that holds the intent with a decimal target quantity and has
  not seen the drawn exchange order identifiers: the submission succeeds, reports \<open>hedge_balanced\<close>, and
  returns two filled orders, both stored as filled: one that buys the market of the intent on its buying exchange and one
  that sells it on its selling exchange. Each has one fill, on the same side and exchange, for the whole target
  quantity at the volume weighted price of its leg, so that the position is hedged.
\<close>

theorem simulated_fill_is_balanced:
  assumes "mem_good a uid m" "mem_accepts a i m"
    "\<not> mem_seen (int_buy_exchange i) (''sim-buy-'' @ hex 0) m"
    "\<not> mem_seen (int_sell_exchange i) (''sim-sell-'' @ hex 1) m"
    "lower (strip mode) = ''simulate_fill''" "executable_edge d = Some edge"
  shows "\<exists>m' r b c f g. submit_arbitrage_orders (mem_ops uid ts) hex clock d i mode unwind m = (m', Inr r)
     \<and> sr_outcome r = ''filled'' \<and> sr_lifecycle_preview r = ''hedge_balanced'' \<and> \<not> sr_recovery_required r
     \<and> sr_created_orders r = [b, c] \<and> ord_status b = ''filled'' \<and> ord_status c = ''filled'' \<and> order_id b \<noteq> order_id c
     \<and> ord_side b = ''buy'' \<and> ord_exchange_name b = int_buy_exchange i \<and> ord_market b = int_market i
     \<and> ord_side c = ''sell'' \<and> ord_exchange_name c = int_sell_exchange i \<and> ord_market c = int_market i
     \<and> sr_created_fills r = [f, g] \<and> fill_on f b \<and> fill_on g c
     \<and> fl_qty f = int_target_qty i \<and> fl_qty g = int_target_qty i
     \<and> fl_price f = dstr (buy_vwap edge) \<and> fl_price g = dstr (sell_vwap edge)
     \<and> mem_good a uid m' \<and> mem_filled b m' \<and> mem_filled c m'"
proof -
  have stored: "mem_filled x m' \<Longrightarrow> same_leg x b \<Longrightarrow> mem_filled b m'" for x b m' by (auto simp: mem_filled_def same_leg_def)
  from memory.fills [OF assms, where ts = ts and clock = clock and unwind = unwind] show ?thesis
  proof (elim exE conjE, goal_cases)
    case (1 m' r x y b c f g)
    from stored [OF 1(23,25)] stored [OF 1(24,26)] 1 show ?case
      by (intro exI [of _ m'] exI [of _ r] exI [of _ b] exI [of _ c] exI [of _ f] exI [of _ g]) (simp only: simp_thms)
  qed
qed

definition demo_intent :: order_intent where
  "demo_intent = new_intent ''i1'' ''t2'' (the (map_of (strategy_runs demo_running) ''r1'')) demo_intent_args"

definition demo_mem :: mem where
  "demo_mem = Mem 0 (fst (create_order_intent ''i1'' ''t2'' demo_intent_args demo_running))"

definition demo_uid :: "nat \<Rightarrow> string" where
  "demo_uid n = CHR ''o'' # replicate n (CHR ''x'')"

lemma demo_mem_good: "mem_good 8 demo_uid demo_mem"
proof -
  have "reachable 8 (mem_store demo_mem)"
    unfolding demo_mem_def mem.sel
    by (rule reachable.step, rule demo_running_reachable, rule store_step.intent) code_simp
  moreover have "list_all fill_texts_ok (fills (mem_store demo_mem))" "orders (mem_store demo_mem) = []"
    by code_simp+
  moreover have "inj demo_uid" by (rule injI) (simp add: demo_uid_def replicate_eq_replicate)
  ultimately show ?thesis by (simp add: mem_good_def demo_uid_def)
qed

lemma demo_mem_accepts: "mem_accepts 8 demo_intent demo_mem"
proof -
  have "qty_on 8 (int_target_qty demo_intent)"
    "map_option (same_terms demo_intent) (map_of (order_intents (mem_store demo_mem)) (intent_id demo_intent)) = Some True"
    by code_simp+
  then show ?thesis by (auto simp: mem_accepts_def)
qed

lemma demo_mem_seen: "\<not> mem_seen ex e demo_mem"
proof -
  have "orders (mem_store demo_mem) = []" by code_simp
  then show ?thesis by (simp add: mem_seen_def)
qed

definition demo_edge :: executable_edge_result where
  "demo_edge = \<lparr>executable_buy_cost_quote = Dec 100 0, executable_sell_proceeds_quote = Dec 105 0,
     gross_profit_quote = Dec 5 0, executable_profit_quote = Dec 5 0, executable_profit_bps = Dec 500 0,
     buy_vwap = Dec 1005 (-1), sell_vwap = Dec 105 0, fee_buy_quote = Dec 0 0, fee_sell_quote = Dec 0 0,
     buy_slippage_buffer_quote = Dec 0 0, sell_slippage_buffer_quote = Dec 0 0, unwind_buffer_quote = Dec 0 0,
     rebalance_buffer_quote = Dec 0 0, total_fee_quote = Dec 0 0, total_cost_adjustment_quote = Dec 0 0,
     edge_passed = True\<rparr>"

definition demo_decision :: arbitrage_decision where
  "demo_decision = \<lparr>accepted = True, reason_code = ''ACCEPTED'', gate_checks = [], candidate_size = None,
     executable_edge = Some demo_edge, dec_reservation_plan = None, dec_order_intent_plan = None,
     decision_context = []\<rparr>"

theorem simulated_fill_is_balanced_witness:
  "\<exists>m' r f g. submit_arbitrage_orders (mem_ops demo_uid (\<lambda>n. ''t'')) (\<lambda>n. ''0a'') (\<lambda>n. ''t'') demo_decision
       demo_intent '' Simulate_Fill '' True demo_mem = (m', Inr r)
     \<and> sr_outcome r = ''filled'' \<and> sr_created_fills r = [f, g] \<and> fl_qty f = ''1.0'' \<and> fl_qty g = ''1.0''
     \<and> fl_side f = ''buy'' \<and> fl_side g = ''sell''"
proof -
  have m: "lower (strip '' Simulate_Fill '') = ''simulate_fill''" "executable_edge demo_decision = Some demo_edge"
    by code_simp+
  have q: "int_target_qty demo_intent = ''1.0''" by code_simp
  from simulated_fill_is_balanced [OF demo_mem_good demo_mem_accepts, where hex = "\<lambda>n. ''0a''"
      and ts = "\<lambda>n. ''t''" and clock = "\<lambda>n. ''t''" and unwind = True, OF demo_mem_seen demo_mem_seen m]
  show ?thesis by (elim exE conjE) (intro exI conjI, assumption+, simp_all add: fill_on_def q)
qed

text \<open>
  In every other mode but failure the submission opens one order on each leg, for the target
  quantity, without fills, and asks for no recovery.
\<close>

theorem submission_opens_both_legs:
  assumes "mem_good a uid m" "mem_accepts a i m"
    "\<not> mem_seen (int_buy_exchange i) (''sim-buy-'' @ hex 0) m"
    "\<not> mem_seen (int_sell_exchange i) (''sim-sell-'' @ hex 1) m"
    "lower (strip mode) \<notin> {''simulate_failure'', ''simulate_fill''}"
  shows "\<exists>m' r b c. submit_arbitrage_orders (mem_ops uid ts) hex clock d i mode unwind m = (m', Inr r)
     \<and> sr_outcome r = ''submitted'' \<and> \<not> sr_recovery_required r \<and> sr_created_orders r = [b, c]
     \<and> mem_good a uid m' \<and> mem_untouched b m' \<and> mem_untouched c m'
     \<and> ord_requested_qty b = int_target_qty i \<and> ord_requested_qty c = int_target_qty i
     \<and> ord_exchange_name b = int_buy_exchange i \<and> ord_exchange_name c = int_sell_exchange i
     \<and> ord_side b = ''buy'' \<and> ord_side c = ''sell''"
  by (rule memory.submits [OF assms])

theorem submission_opens_both_legs_witness:
  "\<exists>m' r b c. submit_arbitrage_orders (mem_ops demo_uid (\<lambda>n. ''t'')) (\<lambda>n. ''0a'') (\<lambda>n. ''t'') demo_decision
       demo_intent [] True demo_mem = (m', Inr r)
     \<and> sr_outcome r = ''submitted'' \<and> sr_created_orders r = [b, c]
     \<and> ord_requested_qty b = ''1.0'' \<and> ord_requested_qty c = ''1.0''"
proof -
  have m: "lower (strip []) \<notin> {''simulate_failure'', ''simulate_fill''}" by simp
  have q: "int_target_qty demo_intent = ''1.0''" by code_simp
  from submission_opens_both_legs [OF demo_mem_good demo_mem_accepts, where hex = "\<lambda>n. ''0a''"
      and ts = "\<lambda>n. ''t''" and clock = "\<lambda>n. ''t''" and unwind = True and d = demo_decision,
      OF demo_mem_seen demo_mem_seen m] q
  show ?thesis by metis
qed

definition honest :: "bool \<Rightarrow> submit_result \<Rightarrow> bool" where
  "honest unwind r = ((sr_outcome r \<in> {''submitted'', ''filled''} \<and> \<not> sr_recovery_required r \<and> \<not> sr_unwind_in_progress r)
     \<or> (sr_outcome r = ''submit_failed'' \<and> sr_recovery_required r \<and> sr_unwind_in_progress r = unwind
        \<and> sr_lifecycle_preview r = (if unwind then ''unwind_in_progress'' else ''recovery_required'')))"

lemma honest_failed: "honest unwind (submit_failure_result unwind details created)"
  by (simp add: honest_def submit_failure_result_def Let_def classify_submit_failure_transition_def
      submit_transition_def pget_Cons)

lemma honest_success: "st \<in> {''submitted'', ''filled''} \<Longrightarrow> honest unwind \<lparr>sr_outcome = st, sr_lifecycle_preview = p,
    sr_recovery_required = False, sr_unwind_in_progress = False, sr_created_orders = os,
    sr_created_fills = fs, sr_details = ds\<rparr>"
  by (simp add: honest_def)

lemma honest_fill_created: "fill_created ops hex clock mode unwind edge created s = (s', Inr r) \<Longrightarrow> honest unwind r"
  unfolding fill_created_def
  by (auto split: prod.splits sum.splits legs_result.splits simp: res_simps intro!: honest_failed honest_success)

lemma simulated_honest:
  assumes "submit_arbitrage_orders ops hex clock d i mode unwind s = (s', Inr r)"
  shows "honest unwind r"
proof -
  define mode' where "mode' = lower (strip mode)"
  obtain s1 created lr where legs: "create_legs ops hex i 0
      [(int_buy_exchange i, ''buy''), (int_sell_exchange i, ''sell'')] [] s = (s1, created, lr)" by (metis prod_cases3)
  show ?thesis
  proof (cases "mode' = ''simulate_failure''")
    case True
    with assms honest_failed show ?thesis by (auto simp: submit_arbitrage_orders_def mode'_def Let_def)
  next
    case False
    show ?thesis
    proof (cases lr)
      case (Legs u)
      with False legs assms show ?thesis
        by (auto simp: submit_arbitrage_orders_def mode'_def Let_def split: if_splits option.splits
            intro: honest_failed honest_success honest_fill_created)
    next
      case (Failed_leg side oc)
      with False legs assms honest_failed show ?thesis
        by (auto simp: submit_arbitrage_orders_def mode'_def Let_def)
    qed
  qed
qed

end
