(* ===== verification/RequestGuard.thy ===== *)
theory RequestGuard
  imports PyValue PyTime "HOL-Library.Sublist"
begin

text \<open>
  The guard of the write endpoints: \<open>request_guard.py\<close>. The clock reading (\<open>monotonic()\<close>) is an argument
  of the operation that takes it, in seconds as a rational. The limiter reads the clock before it takes its
  lock, so the operation under the lock is atomic but the readings need not come in lock order.
\<close>

section \<open>Bearer tokens\<close>

definition parse_bearer_token :: "string option \<Rightarrow> string option" where
  "parse_bearer_token header =
     (case header of
        None \<Rightarrow> None
      | Some h \<Rightarrow>
          if h = [] then None
          else let scheme = takeWhile (\<lambda>c. c \<noteq> CHR '' '') h;
                   token = strip (drop (Suc (length scheme)) h)
               in if lower (strip scheme) \<noteq> ''bearer'' then None
                  else if token = [] then None else Some token)"

record guard_config =
  admin_token :: "string option"
  cfg_window_ms :: int
  cfg_max_requests :: int

definition auth_enabled :: "guard_config \<Rightarrow> bool" where
  "auth_enabled c = (admin_token c \<noteq> None \<and> admin_token c \<noteq> Some [])"

definition rate_limit_enabled :: "guard_config \<Rightarrow> bool" where
  "rate_limit_enabled c = (0 < cfg_window_ms c \<and> 0 < cfg_max_requests c)"

definition ascii :: "string \<Rightarrow> bool" where
  "ascii s = list_all (\<lambda>ch. (of_char ch :: nat) < 128) s"

definition compare_digest :: "string \<Rightarrow> string \<Rightarrow> bool res" where
  \<comment> \<open>\<open>hmac.compare_digest\<close> accepts only ASCII text\<close>
  "compare_digest a b =
     (if ascii a \<and> ascii b then Inr (a = b)
      else Inl (TypeError ''comparing strings with non-ASCII characters is not supported''))"

definition authenticate :: "guard_config \<Rightarrow> string option \<Rightarrow> bool res" where
  "authenticate c header =
     (if \<not> auth_enabled c then Inr True
      else case parse_bearer_token header of
        None \<Rightarrow> Inr False
      | Some token \<Rightarrow> (case admin_token c of
            None \<Rightarrow> Inr False
          | Some admin \<Rightarrow> compare_digest token admin))"

text \<open>
  With a configured ASCII token, a header \<open>Bearer <token>\<close> (any case of the scheme, any space around
  the token) is let through exactly when the token is the configured one; a header of another form is
  refused; and the check raises exactly on a token with a character outside ASCII.
\<close>

theorem bearer_token_decides:
  assumes "admin_token c = Some admin" "admin \<noteq> []" "ascii admin"
  shows "authenticate c header = (case parse_bearer_token header of
       None \<Rightarrow> Inr False
     | Some token \<Rightarrow> if ascii token then Inr (token = admin)
         else Inl (TypeError ''comparing strings with non-ASCII characters is not supported''))
   \<and> (lower scheme = ''bearer'' \<and> CHR '' '' \<notin> set scheme \<and> strip token = token \<and> token \<noteq> [] \<longrightarrow>
      parse_bearer_token (Some (scheme @ CHR '' '' # token)) = Some token)"
proof
  show "authenticate c header = (case parse_bearer_token header of
       None \<Rightarrow> Inr False
     | Some token \<Rightarrow> if ascii token then Inr (token = admin)
         else Inl (TypeError ''comparing strings with non-ASCII characters is not supported''))"
    using assms by (auto simp: authenticate_def auth_enabled_def compare_digest_def split: option.split)
  show "lower scheme = ''bearer'' \<and> CHR '' '' \<notin> set scheme \<and> strip token = token \<and> token \<noteq> [] \<longrightarrow>
      parse_bearer_token (Some (scheme @ CHR '' '' # token)) = Some token"
  proof
    assume a: "lower scheme = ''bearer'' \<and> CHR '' '' \<notin> set scheme \<and> strip token = token \<and> token \<noteq> []"
    have tw: "takeWhile (\<lambda>ch. ch \<noteq> CHR '' '') (scheme @ CHR '' '' # token) = scheme"
      using a by (subst takeWhile_append2) auto
    have "lower (strip scheme) = strip (lower scheme)" by (simp only: strip_lower)
    also have "\<dots> = ''bearer''" using a by (simp add: strip_def is_ws_def)
    finally show "parse_bearer_token (Some (scheme @ CHR '' '' # token)) = Some token"
      using a by (simp add: parse_bearer_token_def tw Let_def)
  qed
qed

definition demo_guard :: guard_config where
  "demo_guard = \<lparr>admin_token = Some ''s3cret'', cfg_window_ms = 1000, cfg_max_requests = 2\<rparr>"

theorem bearer_token_decides_witness:
  "authenticate demo_guard (Some ''BEARER s3cret'') = Inr True
   \<and> authenticate demo_guard (Some ''Bearer s3cre'') = Inr False \<and> authenticate demo_guard None = Inr False"
proof -
  have a: "admin_token demo_guard = Some ''s3cret''" "ascii ''s3cret''" "ascii ''s3cre''"
    "lower ''BEARER'' = ''bearer''" "lower ''Bearer'' = ''bearer''"
    "strip ''s3cret'' = ''s3cret''" "strip ''s3cre'' = ''s3cre''" by code_simp+
  have p: "parse_bearer_token None = None" by (simp add: parse_bearer_token_def)
  note b = bearer_token_decides [OF a(1) _ a(2)]
  show ?thesis
    using b [of "Some ''BEARER s3cret''" "''BEARER''" "''s3cret''"] b [of "Some ''Bearer s3cre''" "''Bearer''" "''s3cre''"]
      b [of None] by (simp add: a p)
qed

section \<open>The request window\<close>

record rate_limiter =
  rl_window_ms :: int
  rl_max_requests :: int
  rl_entries :: "(string, int list) dict"

definition new_limiter :: "int \<Rightarrow> int \<Rightarrow> rate_limiter" where
  "new_limiter window_ms max_requests =
     \<lparr>rl_window_ms = max window_ms 0, rl_max_requests = max max_requests 0, rl_entries = []\<rparr>"

definition rl_enabled :: "rate_limiter \<Rightarrow> bool" where
  "rl_enabled l = (0 < rl_window_ms l \<and> 0 < rl_max_requests l)"

definition clock_ms :: "rat \<Rightarrow> int" where
  \<comment> \<open>\<open>int(monotonic() * 1000)\<close>\<close>
  "clock_ms seconds = trunc (fl (seconds * 1000))"

definition client_queue :: "rate_limiter \<Rightarrow> string \<Rightarrow> int list" where
  "client_queue l client = (case map_of (rl_entries l) client of None \<Rightarrow> [] | Some q \<Rightarrow> q)"

text \<open>
  One call that read \<open>seconds\<close> from the clock and then entered the lock.
\<close>

definition check_and_consume :: "rat \<Rightarrow> string \<Rightarrow> rate_limiter \<Rightarrow> rate_limiter \<times> int option" where
  "check_and_consume seconds client l =
     (if \<not> rl_enabled l then (l, None)
      else let now_ms = clock_ms seconds;
               cutoff = now_ms - rl_window_ms l;
               q = dropWhile (\<lambda>t. t \<le> cutoff) (client_queue l client)
           in if rl_max_requests l \<le> int (length q)
              then (l\<lparr>rl_entries := dset (rl_entries l) client q\<rparr>,
                    Some (max 1 (rl_window_ms l - (now_ms - hd q))))
              else (l\<lparr>rl_entries := dset (rl_entries l) client (q @ [now_ms])\<rparr>, None))"

section \<open>Runs of the limiter\<close>

text \<open>The requests of one process in the order in which they enter the lock, each with the clock reading
  it took before, and for each whether it was let through.\<close>

fun limiter_run :: "(rat \<times> string) list \<Rightarrow> rate_limiter \<Rightarrow> rate_limiter \<times> bool list" where
  "limiter_run [] l = (l, [])"
| "limiter_run ((t, client) # reqs) l =
     (case check_and_consume t client l of
        (l', verdict) \<Rightarrow> (case limiter_run reqs l' of (l'', bs) \<Rightarrow> (l'', (verdict = None) # bs)))"

fun accepted_times :: "string \<Rightarrow> (rat \<times> string) list \<Rightarrow> bool list \<Rightarrow> int list" where
  "accepted_times c ((t, client) # reqs) (b # bs) =
     (if b \<and> client = c then [clock_ms t] else []) @ accepted_times c reqs bs"
| "accepted_times c _ _ = []"

definition in_window :: "int \<Rightarrow> int \<Rightarrow> int list \<Rightarrow> nat" where
  \<comment> \<open>how many of the times lie in the window of width \<open>w\<close> that ends at \<open>t\<close>\<close>
  "in_window w t xs = length (filter (\<lambda>x. t - w < x \<and> x \<le> t) xs)"

text \<open>
  Threads that wait for the lock hold readings that may be older than one already used. \<open>late d a b\<close>: a
  request \<open>b\<close> behind \<open>a\<close> in the lock order read the clock at most \<open>d\<close> milliseconds earlier.
\<close>

definition late :: "int \<Rightarrow> rat \<times> string \<Rightarrow> rat \<times> string \<Rightarrow> bool" where
  "late d a b = (clock_ms (fst a) \<le> clock_ms (fst b) + d)"

text \<open>The state after some requests, for one client: \<open>past\<close> are the times at which it was let through and
  \<open>seen\<close> bounds the readings used; its queue holds them but for a first part outside the window of \<open>seen\<close>.\<close>

definition tracks :: "int \<Rightarrow> rate_limiter \<Rightarrow> string \<Rightarrow> int list \<Rightarrow> int \<Rightarrow> bool" where
  "tracks d l c past seen =
     ((\<exists>gone. past = gone @ client_queue l c \<and> (\<forall>x \<in> set gone. x \<le> seen - rl_window_ms l))
      \<and> (\<forall>t. int (in_window (rl_window_ms l - d) t past) \<le> rl_max_requests l))"

lemma check_other: "client \<noteq> c \<Longrightarrow> check_and_consume t client l = (l', v) \<Longrightarrow>
    client_queue l' c = client_queue l c \<and> rl_window_ms l' = rl_window_ms l
      \<and> rl_max_requests l' = rl_max_requests l \<and> rl_enabled l' = rl_enabled l"
  by (auto simp: check_and_consume_def client_queue_def Let_def rl_enabled_def split: if_splits)

lemma in_window_append: "in_window w t (xs @ ys) = in_window w t xs + in_window w t ys"
  by (simp add: in_window_def)

lemma in_window_le: "in_window w t xs \<le> length xs"
  by (simp add: in_window_def)

lemma in_window_past: "(\<And>x. x \<in> set xs \<Longrightarrow> x \<le> t - w) \<Longrightarrow> in_window w t xs = 0"
  by (fastforce simp: in_window_def filter_empty_conv)

lemma tracks_request:
  assumes tr: "tracks d l c past seen" and en: "rl_enabled l" and late: "seen \<le> clock_ms t + d" and d: "0 \<le> d"
    and step: "check_and_consume t c l = (l', v)"
  shows "tracks d l' c (past @ (if v = None then [clock_ms t] else [])) (max seen (clock_ms t)) \<and> rl_enabled l'
     \<and> rl_window_ms l' = rl_window_ms l \<and> rl_max_requests l' = rl_max_requests l"
proof -
  define now_ms where "now_ms = clock_ms t"
  define w where "w = rl_window_ms l"
  define mx where "mx = rl_max_requests l"
  define old where "old = takeWhile (\<lambda>x. x \<le> now_ms - w) (client_queue l c)"
  define q where "q = dropWhile (\<lambda>x. x \<le> now_ms - w) (client_queue l c)"
  from tr obtain gone where gone: "past = gone @ client_queue l c" "\<forall>x \<in> set gone. x \<le> seen - w"
    and few: "int (in_window (w - d) u past) \<le> mx" for u
    by (auto simp: tracks_def w_def mx_def)
  have past: "past = (gone @ old) @ q" by (simp add: gone(1) old_def q_def)
  have old: "\<forall>x \<in> set (gone @ old). x \<le> max seen now_ms - w"
    using gone(2) by (auto simp: old_def dest!: set_takeWhileD)
  show ?thesis
  proof (cases "mx \<le> int (length q)")
    case True
    then have l': "l' = l\<lparr>rl_entries := dset (rl_entries l) c q\<rparr>" "v \<noteq> None"
      using step en by (auto simp: check_and_consume_def Let_def now_ms_def w_def mx_def q_def)
    have "client_queue l' c = q" by (simp add: l' client_queue_def)
    with past old few l' have "tracks d l' c past (max seen now_ms)"
      by (auto simp: tracks_def w_def mx_def)
    with l' en show ?thesis by (auto simp: rl_enabled_def now_ms_def)
  next
    case False
    then have l': "l' = l\<lparr>rl_entries := dset (rl_entries l) c (q @ [now_ms])\<rparr>" "v = None"
      using step en by (auto simp: check_and_consume_def Let_def now_ms_def w_def mx_def q_def)
    have "int (in_window (w - d) u (past @ [now_ms])) \<le> mx" for u
    proof (cases "u - (w - d) < now_ms \<and> now_ms \<le> u")
      case True
      have "x \<le> u - (w - d)" if "x \<in> set (gone @ old)" for x
        using old that True late d by (fastforce simp: now_ms_def)
      then have "in_window (w - d) u (gone @ old) = 0" by (rule in_window_past)
      with in_window_le [of "w - d" u "q @ [now_ms]"] False show ?thesis
        unfolding past append_assoc [of "gone @ old"] in_window_append [of _ _ "gone @ old"] by simp
    next
      case False
      then have "in_window (w - d) u [now_ms] = 0" by (simp add: in_window_def)
      with few [of u] show ?thesis by (simp add: in_window_append)
    qed
    moreover have "past @ [now_ms] = (gone @ old) @ client_queue l' c" by (simp add: past l' client_queue_def)
    ultimately have "tracks d l' c (past @ [now_ms]) (max seen now_ms)"
      unfolding tracks_def using old l' by (auto simp: w_def mx_def)
    with l' en show ?thesis by (simp add: rl_enabled_def now_ms_def)
  qed
qed

lemma tracks_later: "tracks d l c past seen \<Longrightarrow> seen \<le> seen' \<Longrightarrow> tracks d l c past seen'"
  unfolding tracks_def by (fastforce intro: order_trans [OF _ diff_right_mono])

lemma tracks_other:
  "tracks d l c past seen \<Longrightarrow> client \<noteq> c \<Longrightarrow> check_and_consume t client l = (l', v) \<Longrightarrow> tracks d l' c past seen"
  using check_other [of client c t l l' v] by (auto simp: tracks_def)

lemma limiter_run_tracks:
  assumes "tracks d l c past seen" "rl_enabled l" "0 \<le> d" "sorted_wrt (late d) reqs"
    "\<forall>r \<in> set reqs. seen \<le> clock_ms (fst r) + d" "limiter_run reqs l = (l', bs)"
  shows "\<exists>seen'. tracks d l' c (past @ accepted_times c reqs bs) seen' \<and> rl_window_ms l' = rl_window_ms l
     \<and> rl_max_requests l' = rl_max_requests l"
  using assms
proof (induction reqs arbitrary: l past seen bs)
  case Nil
  then show ?case by auto
next
  case (Cons r reqs)
  obtain t client where r: "r = (t, client)" by (cases r)
  obtain l1 v where s: "check_and_consume t client l = (l1, v)" by (cases "check_and_consume t client l")
  obtain l2 bs' where rest: "limiter_run reqs l1 = (l2, bs')" by (cases "limiter_run reqs l1")
  have eq: "l' = l2" "bs = (v = None) # bs'" using Cons.prems(6) by (auto simp: r s rest)
  have now: "seen \<le> clock_ms t + d" using Cons.prems(5) r by simp
  have later: "\<forall>r \<in> set reqs. max seen (clock_ms t) \<le> clock_ms (fst r) + d"
    using Cons.prems(4,5) by (simp add: r late_def)
  let ?new = "if v = None \<and> client = c then [clock_ms t] else []"
  have "tracks d l1 c (past @ ?new) (max seen (clock_ms t)) \<and> rl_enabled l1 \<and> rl_window_ms l1 = rl_window_ms l
     \<and> rl_max_requests l1 = rl_max_requests l"
  proof (cases "client = c")
    case True
    with tracks_request [OF Cons.prems(1,2) now Cons.prems(3)] s show ?thesis by simp
  next
    case False
    with tracks_other [OF tracks_later [OF Cons.prems(1), of "max seen (clock_ms t)"] False s] check_other [OF False s]
      Cons.prems(2) show ?thesis by simp
  qed
  then show ?case
    using Cons.IH [of l1 "past @ ?new" "max seen (clock_ms t)" bs'] Cons.prems(3,4) later rest
    by (auto simp: eq r)
qed

text \<open>
  C23. From a fresh, enabled limiter, whatever the clients send: when no request enters the lock with a
  reading more than \<open>d\<close> milliseconds older than one used before it, then in every window of the configured
  width less \<open>d\<close> at most \<open>max_requests\<close> requests of a client are let through. With readings in lock order
  (\<open>d = 0\<close>) this is the configured limit; the clock is read outside the lock, and with \<open>d > 0\<close> the
  configured window itself can be overfull, as the example below shows.
\<close>

theorem window_limit_holds:
  assumes "0 < window_ms" "0 < max_requests" "0 \<le> d" "sorted_wrt (late d) reqs"
    "limiter_run reqs (new_limiter window_ms max_requests) = (l', bs)"
  shows "int (in_window (window_ms - d) t (accepted_times c reqs bs)) \<le> max_requests"
proof (cases reqs)
  case Nil
  with assms(2) show ?thesis by (simp add: in_window_def)
next
  case (Cons r reqs')
  let ?l = "new_limiter window_ms max_requests"
  have "tracks d ?l c [] (clock_ms (fst r))"
    using assms(2) by (auto simp: tracks_def new_limiter_def client_queue_def in_window_def)
  moreover have "rl_enabled ?l" using assms(1,2) by (simp add: rl_enabled_def new_limiter_def)
  moreover have "\<forall>r' \<in> set reqs. clock_ms (fst r) \<le> clock_ms (fst r') + d"
    using assms(3,4) by (auto simp: Cons late_def)
  ultimately obtain seen' where "tracks d l' c ([] @ accepted_times c reqs bs) seen'"
    "rl_window_ms l' = window_ms" "rl_max_requests l' = max_requests"
    using limiter_run_tracks [OF _ _ assms(3,4) _ assms(5)] assms(1,2) by (fastforce simp: new_limiter_def)
  then show ?thesis by (simp add: tracks_def)
qed

definition demo_race :: "(rat \<times> string) list" where
  \<comment> \<open>two requests at 900 ms, then one that read 1900 ms enters the lock before one that read 1899 ms\<close>
  "demo_race = [(9 / 10, ''a''), (9 / 10, ''a''), (19 / 10, ''b''), (19 / 10, ''a''), (1899 / 1000, ''a'')]"

theorem window_limit_holds_witness:
  "accepted_times ''a'' demo_race (snd (limiter_run demo_race (new_limiter 1000 2))) = [900, 900, 1900, 1899]
   \<and> in_window 1000 1899 [900, 900, 1900, 1899] = 3
   \<and> int (in_window (1000 - 1) 1899 (accepted_times ''a'' demo_race (snd (limiter_run demo_race (new_limiter 1000 2))))) \<le> 2"
proof (intro conjI)
  have c: "clock_ms (9 / 10) = 900" "clock_ms (19 / 10) = 1900" "clock_ms (1899 / 1000) = 1899" by code_simp+
  have "sorted_wrt (late 1) demo_race" by (simp add: demo_race_def late_def c)
  from window_limit_holds [OF _ _ _ this, of 1000 2 _ _ 1899 "''a''"]
  show "int (in_window (1000 - 1) 1899 (accepted_times ''a'' demo_race (snd (limiter_run demo_race (new_limiter 1000 2))))) \<le> 2"
    by (metis prod.collapse zero_less_numeral zero_le_one)
qed code_simp+

text \<open>
  C40. A refused client that waits for the time it is told, without another request of its own, is let
  through at its next request.
\<close>

theorem retry_after_suffices:
  assumes "check_and_consume t client l = (l', Some retry)" "clock_ms t + retry \<le> clock_ms t'"
    "int (length (client_queue l client)) \<le> rl_max_requests l"
  shows "\<exists>l''. check_and_consume t' client l' = (l'', None) \<and> 0 < retry"
proof -
  define q where "q = dropWhile (\<lambda>x. x \<le> clock_ms t - rl_window_ms l) (client_queue l client)"
  from assms(1) have en: "rl_enabled l" and full: "rl_max_requests l \<le> int (length q)"
    and l': "l' = l\<lparr>rl_entries := dset (rl_entries l) client q\<rparr>"
    and rt: "retry = max 1 (rl_window_ms l - (clock_ms t - hd q))"
    by (auto simp: check_and_consume_def Let_def q_def split: if_splits)
  from en full obtain x q' where q: "q = x # q'" by (cases q) (auto simp: rl_enabled_def)
  have le: "length q \<le> length (client_queue l client)" unfolding q_def by (rule length_dropWhile_le)
  have "x \<le> clock_ms t' - rl_window_ms l" using assms(2) rt q by simp
  then have "length (dropWhile (\<lambda>x. x \<le> clock_ms t' - rl_window_ms l) q) \<le> length q'"
    using length_dropWhile_le [of _ q'] by (simp add: q)
  with le assms(3) q en show ?thesis
    by (auto simp: check_and_consume_def Let_def l' client_queue_def rl_enabled_def rt)
qed

theorem retry_after_suffices_witness:
  "\<exists>l' retry l''. check_and_consume (6 / 5) ''a'' (fst (check_and_consume 1 ''a'' (new_limiter 1000 1))) = (l', Some retry)
     \<and> check_and_consume 2 ''a'' l' = (l'', None)"
proof -
  let ?l = "fst (check_and_consume 1 ''a'' (new_limiter 1000 1))"
  have c: "clock_ms 1 = 1000" "clock_ms (6 / 5) = 1200" "clock_ms 2 = 2000" by code_simp+
  have q: "client_queue ?l ''a'' = [1000]" "rl_max_requests ?l = 1"
    by (simp_all add: check_and_consume_def Let_def c rl_enabled_def new_limiter_def client_queue_def)
  have "check_and_consume (6 / 5) ''a'' ?l = (fst (check_and_consume (6 / 5) ''a'' ?l), Some 800)"
    by (simp add: check_and_consume_def Let_def c rl_enabled_def new_limiter_def client_queue_def)
  from retry_after_suffices [OF this, of 2] show ?thesis
    using \<open>check_and_consume (6 / 5) ''a'' ?l = _\<close> by (auto simp: c q)
qed

end
