(* ===== verification/RateLimit.thy ===== *)
theory RateLimit
  imports PyValue PyTime
begin

text \<open>
  The token bucket of the market data requests and the retry delays: \<open>rate_limit.py\<close>. Floats are the
  rationals they denote, every operation rounded to 53 bits (no overflow or subnormal numbers). The
  clock readings of one call are a list; a call that needs more readings than it is given has not
  returned, which is the value \<open>None\<close>.
\<close>

section \<open>Policies\<close>

record rate_limit_policy =
  rp_name :: string
  rp_rate_per_sec :: rat
  rp_burst :: int

definition rp_enabled :: "rate_limit_policy \<Rightarrow> bool" where
  "rp_enabled p = (0 < rp_rate_per_sec p \<and> 0 < rp_burst p)"

record backoff_policy =
  bo_initial_delay_ms :: int
  bo_max_delay_ms :: int

definition delay_seconds :: "backoff_policy \<Rightarrow> int \<Rightarrow> rat" where
  "delay_seconds p attempt =
     fl (of_int (min (max (bo_initial_delay_ms p) 0 * 2 ^ nat (max attempt 0)) (max (bo_max_delay_ms p) 0)) / 1000)"

definition backoff_as_dict :: "backoff_policy \<Rightarrow> obj" where
  "backoff_as_dict p = [(''initial_delay_ms'', PInt (bo_initial_delay_ms p)), (''max_delay_ms'', PInt (bo_max_delay_ms p))]"

section \<open>The token bucket\<close>

record bucket =
  tokens :: rat
  updated_at :: rat

definition new_bucket :: "rate_limit_policy \<Rightarrow> rat \<Rightarrow> bucket" where
  "new_bucket p t = \<lparr>tokens = fl (of_int (max (rp_burst p) 0)), updated_at = t\<rparr>"

definition refill :: "rate_limit_policy \<Rightarrow> rat \<Rightarrow> bucket \<Rightarrow> bucket" where
  "refill p t b =
     (let elapsed = max (fl (t - updated_at b)) 0
      in \<lparr>tokens = min (fl (of_int (rp_burst p))) (fl (tokens b + fl (elapsed * rp_rate_per_sec p))),
          updated_at = t\<rparr>)"

definition sleep_seconds :: "rate_limit_policy \<Rightarrow> bucket \<Rightarrow> rat" where
  "sleep_seconds p b = fl (fl (1 - tokens b) / rp_rate_per_sec p)"

fun acquire_loop :: "rate_limit_policy \<Rightarrow> rat list \<Rightarrow> rat \<Rightarrow> bucket \<Rightarrow> (bucket \<times> rat) option" where
  "acquire_loop p [] waited b = None"
| "acquire_loop p (t # ts) waited b =
     (let b1 = refill p t b in
      if 1 \<le> tokens b1 then Some (b1\<lparr>tokens := fl (tokens b1 - 1)\<rparr>, waited)
      else let s = sleep_seconds p b1
           in acquire_loop p ts (if 0 < s then fl (waited + s) else waited) b1)"

definition acquire :: "rate_limit_policy \<Rightarrow> rat list \<Rightarrow> bucket \<Rightarrow> (bucket \<times> rat) option" where
  "acquire p ts b = (if \<not> rp_enabled p then Some (b, 0) else acquire_loop p ts 0 b)"

section \<open>Facts of rounding\<close>

lemma repr_rnd:
  assumes "2 \<le> b" "0 < p"
  shows "repr b p (rnd b p x)"
proof -
  have pos: "repr b p (rnd b p y)" if y: "0 < y" for y
  proof -
    have B: "of_int (int (b ^ (p - 1))) \<le> y / ulp b p y" "y / ulp b p y \<le> of_int (int (b ^ p))"
      using ulp_bounds [OF assms(1) y assms(2)] by simp_all
    from rhe_ge_int [OF B(1)] rhe_le_int [OF B(2)]
    have "int (b ^ (p - 1)) \<le> rhe (y / ulp b p y)" "rhe (y / ulp b p y) \<le> int (b ^ p)" .
    moreover have "(0 :: int) \<le> int (b ^ (p - 1))" by simp
    ultimately have "\<bar>rhe (y / ulp b p y)\<bar> \<le> int (b ^ p)" by linarith
    with y show ?thesis unfolding repr_def by (auto simp: rnd_def Let_def ulp_def)
  qed
  have neg: "repr b p (- y)" if "repr b p y" for y
    using that unfolding repr_def by (metis abs_minus_cancel mult_minus_left of_int_minus)
  consider "x = 0" | "0 < x" | "0 < - x" by linarith
  then show ?thesis
  proof cases
    case 1
    show ?thesis unfolding repr_def 1 by (intro exI [of _ 0]) simp
  next
    case 3
    from neg [OF pos [OF this]] show ?thesis by (simp add: rnd_uminus)
  qed (rule pos)
qed

lemma fl_fl [simp]: "fl (fl x) = fl x"
  unfolding fl_def by (rule rnd_exact [OF _ _ repr_rnd]) simp_all

lemma fl_nonneg: "0 \<le> x \<Longrightarrow> 0 \<le> fl x"
  using fl_mono [of 0 x] by simp

lemma fl_lower:
  assumes "0 \<le> x"
  shows "x * (1 - 1 / 2 ^ 53) \<le> fl x"
proof -
  from assms fl_rel_err [of x] have "\<bar>fl x - x\<bar> \<le> x / 2 ^ 53" by simp
  then have "x - x / 2 ^ 53 \<le> fl x" by (simp only: abs_le_iff) linarith
  then show ?thesis by (simp only: right_diff_distrib mult_1_right times_divide_eq_right)
qed

lemma fl_seconds_mono: "i \<le> j \<Longrightarrow> fl (of_int i / 1000) \<le> fl (of_int j / 1000)"
  by (intro fl_mono divide_right_mono) simp_all

lemma fl_one [simp]: "fl 1 = 1"
  by code_simp

lemma fl_almost_one: "1 - 1 / 2 ^ 60 \<le> x \<Longrightarrow> 1 \<le> fl x"
proof -
  have "fl (1 - 1 / 2 ^ 60) = 1" by code_simp
  then show "1 - 1 / 2 ^ 60 \<le> x \<Longrightarrow> 1 \<le> fl x" using fl_mono [of "1 - 1 / 2 ^ 60" x] by simp
qed

section \<open>The bucket stays within its bounds\<close>

definition bucket_ok :: "rate_limit_policy \<Rightarrow> bucket \<Rightarrow> bool" where
  "bucket_ok p b = (0 \<le> tokens b \<and> tokens b \<le> fl (of_int (rp_burst p)))"

lemma burst_one: "rp_enabled p \<Longrightarrow> 1 \<le> fl (of_int (rp_burst p))"
  using fl_mono [of 1 "of_int (rp_burst p)"] by (simp add: rp_enabled_def)

lemma new_bucket_ok: "rp_enabled p \<Longrightarrow> bucket_ok p (new_bucket p t)"
  by (simp add: bucket_ok_def new_bucket_def rp_enabled_def fl_nonneg)

lemma refill_ok:
  assumes "rp_enabled p" "bucket_ok p b"
  shows "bucket_ok p (refill p t b)" "tokens b \<le> tokens (refill p t b) \<or> tokens b \<noteq> fl (tokens b)"
proof -
  have r: "0 \<le> rp_rate_per_sec p" using assms(1) by (simp add: rp_enabled_def)
  then have inc: "0 \<le> fl (max (fl (t - updated_at b)) 0 * rp_rate_per_sec p)" by (intro fl_nonneg) simp
  with assms burst_one [OF assms(1)] show "bucket_ok p (refill p t b)"
    by (auto simp: bucket_ok_def refill_def Let_def intro!: fl_nonneg)
  show "tokens b \<le> tokens (refill p t b) \<or> tokens b \<noteq> fl (tokens b)"
    using assms(2) inc fl_mono [of "tokens b" "tokens b + fl (max (fl (t - updated_at b)) 0 * rp_rate_per_sec p)"]
    by (auto simp: bucket_ok_def refill_def Let_def)
qed

lemma acquire_loop_ok:
  "rp_enabled p \<Longrightarrow> bucket_ok p b \<Longrightarrow> acquire_loop p ts w b = Some (b', w') \<Longrightarrow> bucket_ok p b'"
proof (induction ts arbitrary: w b)
  case (Cons t ts)
  have r: "bucket_ok p (refill p t b)" by (rule refill_ok [OF Cons.prems(1,2)])
  show ?case
  proof (cases "1 \<le> tokens (refill p t b)")
    case True
    have "fl (tokens (refill p t b) - 1) \<le> fl (fl (of_int (rp_burst p)))"
      using r by (intro fl_mono) (simp add: bucket_ok_def)
    with True Cons.prems(3) fl_nonneg [of "tokens (refill p t b) - 1"] show ?thesis
      by (auto simp: bucket_ok_def Let_def)
  next
    case False
    with Cons.IH [OF Cons.prems(1) r] Cons.prems(3) show ?thesis by (simp add: Let_def)
  qed
qed simp

section \<open>A call returns after at most two sleeps\<close>

fun slept :: "rate_limit_policy \<Rightarrow> rat list \<Rightarrow> bucket \<Rightarrow> bool" where
  \<comment> \<open>every sleep between two readings lasts at least the time that was asked for\<close>
  "slept p (t # u # ts) b =
     (let b1 = refill p t b
      in (tokens b1 < 1 \<longrightarrow> t + sleep_seconds p b1 \<le> u) \<and> slept p (u # ts) b1)"
| "slept p _ b = True"

definition loss :: rat where
  "loss = 1 - (1 - 1 / 2 ^ 53) ^ 3"

lemma refill_after_sleep:
  assumes p: "rp_enabled p" and b: "0 \<le> tokens b" "tokens b < 1" and u: "updated_at b + sleep_seconds p b \<le> u"
  shows "1 \<le> tokens (refill p u b) \<or> fl (1 - (1 - tokens b) * loss) \<le> tokens (refill p u b)"
proof -
  let ?k = "1 - 1 / 2 ^ 53 :: rat"
  let ?r = "rp_rate_per_sec p"
  have r: "0 < ?r" using p by (simp add: rp_enabled_def)
  have m: "(1 - tokens b) * ?k \<le> fl (1 - tokens b)" using b by (intro fl_lower) simp
  then have m0: "0 \<le> fl (1 - tokens b)" using b by (intro fl_nonneg) simp
  have "fl (1 - tokens b) / ?r * ?k \<le> sleep_seconds p b"
    unfolding sleep_seconds_def using m0 r by (intro fl_lower) simp
  moreover have "(1 - tokens b) * ?k / ?r * ?k \<le> fl (1 - tokens b) / ?r * ?k"
    using m r by (intro mult_right_mono divide_right_mono) simp_all
  ultimately have s: "(1 - tokens b) * ?k / ?r * ?k \<le> sleep_seconds p b" by linarith
  have s0: "0 \<le> sleep_seconds p b" unfolding sleep_seconds_def using m0 r by (intro fl_nonneg) simp
  have "fl (sleep_seconds p b) \<le> fl (u - updated_at b)" using u by (intro fl_mono) simp
  then have e: "sleep_seconds p b \<le> max (fl (u - updated_at b)) 0" by (simp add: sleep_seconds_def)
  have "sleep_seconds p b * ?r * ?k \<le> fl (sleep_seconds p b * ?r)" using s0 r by (intro fl_lower) simp
  also have "\<dots> \<le> fl (max (fl (u - updated_at b)) 0 * ?r)"
    using e r by (intro fl_mono mult_right_mono) simp_all
  finally have i: "sleep_seconds p b * ?r * ?k \<le> fl (max (fl (u - updated_at b)) 0 * ?r)" .
  have "(1 - tokens b) * ?k / ?r * ?k * ?r * ?k \<le> sleep_seconds p b * ?r * ?k"
    using s r by (intro mult_right_mono) simp_all
  moreover have "(1 - tokens b) * ?k / ?r * ?k * ?r * ?k = (1 - tokens b) * ?k ^ 3"
    using r by (simp add: power3_eq_cube)
  ultimately have "1 - (1 - tokens b) * loss \<le> tokens b + fl (max (fl (u - updated_at b)) 0 * ?r)"
    using i by (simp add: loss_def right_diff_distrib)
  from fl_mono [OF this] burst_one [OF p] show ?thesis
    by (auto simp: refill_def Let_def min_def)
qed

lemma second_sleep:
  assumes "rp_enabled p" "tokens b < 1" "fl (1 - loss) \<le> tokens b" "updated_at b + sleep_seconds p b \<le> u"
  shows "1 \<le> tokens (refill p u b)"
proof -
  have n: "0 \<le> (1 - loss :: rat)" "0 \<le> loss" "(1 - (1 - loss) * (1 - 1 / 2 ^ 53)) * loss \<le> 1 / 2 ^ 60"
    by (simp_all add: loss_def power3_eq_cube)
  have x: "(1 - loss) * (1 - 1 / 2 ^ 53) \<le> tokens b" using fl_lower [OF n(1)] assms(3) by linarith
  with n have x0: "0 \<le> tokens b" by (simp add: loss_def power3_eq_cube)
  have "(1 - tokens b) * loss \<le> (1 - (1 - loss) * (1 - 1 / 2 ^ 53)) * loss"
    using x n(2) by (intro mult_right_mono) simp_all
  with n(3) have "1 \<le> fl (1 - (1 - tokens b) * loss)" by (intro fl_almost_one) linarith
  with refill_after_sleep [OF assms(1) x0 assms(2,4)] show ?thesis by linarith
qed

lemma refill_updated [simp]: "updated_at (refill p t b) = t"
  by (simp add: refill_def Let_def)

text \<open>
  C28. With an enabled policy, a call of \<open>acquire\<close> on a bucket within its bounds returns after at most
  three clock readings, hence two sleeps, when every sleep lasts at least the time asked for, in
  spite of the rounding of floats; and the bucket stays between zero and the burst.
\<close>

theorem acquire_returns_after_two_sleeps:
  assumes "rp_enabled p" "bucket_ok p b" "slept p [t0, t1, t2] b"
  shows "\<exists>b' waited. acquire p [t0, t1, t2] b = Some (b', waited) \<and> bucket_ok p b'"
proof -
  define b0 where "b0 = refill p t0 b"
  define b1 where "b1 = refill p t1 b0"
  have ok: "bucket_ok p b0" unfolding b0_def by (rule refill_ok [OF assms(1,2)])
  have "\<exists>r. acquire_loop p [t0, t1, t2] 0 b = Some r"
  proof (cases "1 \<le> tokens b0")
    case True
    then show ?thesis by (simp add: Let_def b0_def)
  next
    case f0: False
    with assms(3) have t1: "updated_at b0 + sleep_seconds p b0 \<le> t1" by (simp add: Let_def b0_def)
    show ?thesis
    proof (cases "1 \<le> tokens b1")
      case True
      with f0 show ?thesis by (simp add: Let_def b0_def b1_def)
    next
      case f1: False
      from ok have x: "0 \<le> tokens b0" by (simp add: bucket_ok_def)
      have "0 \<le> loss" by (simp add: loss_def power3_eq_cube)
      then have "fl (1 - loss) \<le> fl (1 - (1 - tokens b0) * loss)"
        using x by (intro fl_mono) (simp add: algebra_simps)
      with refill_after_sleep [OF assms(1) x _ t1] f0 f1 have g: "fl (1 - loss) \<le> tokens b1" by (simp add: b1_def)
      from f0 f1 assms(3) have "updated_at b1 + sleep_seconds p b1 \<le> t2" by (simp add: Let_def b0_def b1_def)
      from second_sleep [OF assms(1) _ g this] f1 have "1 \<le> tokens (refill p t2 b1)" by simp
      with f0 f1 show ?thesis by (simp add: Let_def b0_def b1_def)
    qed
  qed
  then obtain b' w where "acquire_loop p [t0, t1, t2] 0 b = Some (b', w)" by auto
  with acquire_loop_ok [OF assms(1,2) this] assms(1) show ?thesis
    by (simp add: acquire_def del: acquire_loop.simps)
qed

definition demo_policy :: rate_limit_policy where
  "demo_policy = \<lparr>rp_name = ''book'', rp_rate_per_sec = 3, rp_burst = 1\<rparr>"

theorem acquire_returns_after_two_sleeps_witness:
  "\<exists>b' waited. acquire demo_policy [0, 1 / 2, 1] \<lparr>tokens = 0, updated_at = 0\<rparr> = Some (b', waited)
     \<and> bucket_ok demo_policy b' \<and> \<not> 1 \<le> tokens (refill demo_policy 0 \<lparr>tokens = 0, updated_at = 0\<rparr>)"
proof -
  have "rp_enabled demo_policy" "bucket_ok demo_policy \<lparr>tokens = 0, updated_at = 0\<rparr>"
    "slept demo_policy [0, 1 / 2, 1] \<lparr>tokens = 0, updated_at = 0\<rparr>"
    "\<not> 1 \<le> tokens (refill demo_policy 0 \<lparr>tokens = 0, updated_at = 0\<rparr>)" by code_simp+
  with acquire_returns_after_two_sleeps [OF this(1-3)] show ?thesis by blast
qed

text \<open>
  The retry delay is never longer than the configured maximum, never negative, and does not shrink
  from one attempt to the next.
\<close>

theorem backoff_delay_bounds:
  assumes "a \<le> b"
  shows "0 \<le> delay_seconds p a \<and> delay_seconds p a \<le> delay_seconds p b
    \<and> delay_seconds p b \<le> fl (of_int (max (bo_max_delay_ms p) 0) / 1000)"
proof -
  let ?i = "max (bo_initial_delay_ms p) 0"
  let ?m = "max (bo_max_delay_ms p) 0"
  have "?i * 2 ^ nat (max a 0) \<le> ?i * 2 ^ nat (max b 0)"
    using assms by (intro mult_left_mono power_increasing) (auto simp: nat_mono)
  then have le: "min (?i * 2 ^ nat (max a 0)) ?m \<le> min (?i * 2 ^ nat (max b 0)) ?m" by (rule min.mono) simp
  have "0 \<le> min (?i * 2 ^ nat (max a 0)) ?m" by simp
  then have "0 \<le> delay_seconds p a" unfolding delay_seconds_def by (intro fl_nonneg) simp
  moreover have "delay_seconds p a \<le> delay_seconds p b"
    unfolding delay_seconds_def by (rule fl_seconds_mono [OF le])
  moreover have "delay_seconds p b \<le> fl (of_int ?m / 1000)"
    unfolding delay_seconds_def by (rule fl_seconds_mono) simp
  ultimately show ?thesis by blast
qed

theorem backoff_delay_bounds_witness:
  "delay_seconds \<lparr>bo_initial_delay_ms = 100, bo_max_delay_ms = 1000\<rparr> 2
     \<le> delay_seconds \<lparr>bo_initial_delay_ms = 100, bo_max_delay_ms = 1000\<rparr> 9
   \<and> delay_seconds \<lparr>bo_initial_delay_ms = 100, bo_max_delay_ms = 1000\<rparr> 9 \<le> fl 1"
  using backoff_delay_bounds [of 2 9 "\<lparr>bo_initial_delay_ms = 100, bo_max_delay_ms = 1000\<rparr>"] by simp

end
