(* ===== verification/Json.thy ===== *)
theory Json
  imports PyValue
begin

text \<open>
  \<open>json.dumps(value, separators=(",", ":"), ensure_ascii=True)\<close> and \<open>json.loads\<close> on the values the
  program stores: null, booleans, integers, texts, lists and dictionaries. Texts are of 8-bit characters;
  a number with a fraction or an exponent and an escape beyond \<open>\u00ff\<close> are outside this domain and
  are not read. The reader takes fuel; the length of the text is enough, as the round trip shows.
\<close>

section \<open>Writing\<close>

abbreviation (input) quote :: char where "quote \<equiv> CHR 0x22"

abbreviation (input) backslash :: char where "backslash \<equiv> CHR 0x5C"

definition hex2 :: "nat \<Rightarrow> string" where
  "hex2 n = [hex_digit (n div 16), hex_digit (n mod 16)]"

definition json_char :: "char \<Rightarrow> string" where
  "json_char c = (let n = (of_char c :: nat) in
     if c = quote \<or> c = backslash then [backslash, c]
     else if n = 10 then [backslash, CHR ''n'']
     else if n = 13 then [backslash, CHR ''r'']
     else if n = 9 then [backslash, CHR ''t'']
     else if n = 8 then [backslash, CHR ''b'']
     else if n = 12 then [backslash, CHR ''f'']
     else if 32 \<le> n \<and> n < 127 then [c]
     else [backslash, CHR ''u'', CHR ''0'', CHR ''0''] @ hex2 n)"

definition json_str :: "string \<Rightarrow> string" where
  "json_str s = quote # concat (map json_char s) @ [quote]"

fun dumps :: "pyval \<Rightarrow> string" where
  "dumps PNone = ''null''"
| "dumps (PBool b) = (if b then ''true'' else ''false'')"
| "dumps (PInt i) = int_str i"
| "dumps (PStr s) = json_str s"
| "dumps (PList xs) = CHR ''['' # join '','' (map dumps xs) @ '']''"
| "dumps (PDict d) = CHR ''{'' # join '','' (map (\<lambda>p. json_str (fst p) @ CHR '':'' # dumps (snd p)) d) @ ''}''"

section \<open>Reading\<close>

definition json_ws :: "char \<Rightarrow> bool" where
  "json_ws c = (c = CHR '' '' \<or> (of_char c :: nat) \<in> {9, 10, 13})"

definition skip_ws :: "string \<Rightarrow> string" where
  "skip_ws s = dropWhile json_ws s"

definition hex_val :: "char \<Rightarrow> nat option" where
  "hex_val c = (let n = (of_char c :: nat) in
     if 48 \<le> n \<and> n \<le> 57 then Some (n - 48)
     else if 97 \<le> n \<and> n \<le> 102 then Some (n - 87)
     else if 65 \<le> n \<and> n \<le> 70 then Some (n - 55) else None)"

definition unescape :: "char \<Rightarrow> char option" where
  "unescape c = (if c = quote \<or> c = backslash \<or> c = CHR ''/'' then Some c
     else if c = CHR ''n'' then Some (char_of (10 :: nat))
     else if c = CHR ''r'' then Some (char_of (13 :: nat))
     else if c = CHR ''t'' then Some (char_of (9 :: nat))
     else if c = CHR ''b'' then Some (char_of (8 :: nat))
     else if c = CHR ''f'' then Some (char_of (12 :: nat)) else None)"

definition unhex :: "char \<Rightarrow> char \<Rightarrow> char \<Rightarrow> char \<Rightarrow> char option" where
  "unhex a b c d = (case (hex_val a, hex_val b, hex_val c, hex_val d) of
       (Some 0, Some 0, Some h, Some l) \<Rightarrow> Some (char_of (16 * h + l))
     | _ \<Rightarrow> None)"

definition cons_fst :: "'a \<Rightarrow> ('a list \<times> 'b) option \<Rightarrow> ('a list \<times> 'b) option" where
  "cons_fst x r = map_option (\<lambda>(xs, y). (x # xs, y)) r"

fun read_str :: "string \<Rightarrow> (string \<times> string) option" where
  "read_str [] = None"
| "read_str (c # cs) =
     (if c = quote then Some ([], cs)
      else if c = backslash then
        (case cs of
           [] \<Rightarrow> None
         | e # ds \<Rightarrow>
             if e = CHR ''u'' then
               (case ds of h1 # h2 # h3 # h4 # r \<Rightarrow>
                  (case unhex h1 h2 h3 h4 of None \<Rightarrow> None | Some x \<Rightarrow> cons_fst x (read_str r))
                | _ \<Rightarrow> None)
             else (case unescape e of None \<Rightarrow> None | Some x \<Rightarrow> cons_fst x (read_str ds)))
      else if (of_char c :: nat) < 32 then None
      else cons_fst c (read_str cs))"

definition is_digit :: "char \<Rightarrow> bool" where
  "is_digit c = (digit_val c \<noteq> None)"

definition no_float :: "string \<Rightarrow> bool" where
  "no_float r = (case r of [] \<Rightarrow> True | c # _ \<Rightarrow> c \<noteq> CHR ''.'' \<and> c \<noteq> CHR ''e'' \<and> c \<noteq> CHR ''E'')"

definition read_nat :: "string \<Rightarrow> (int \<times> string) option" where
  "read_nat s = (let ds = (if take 1 s = ''0'' then ''0'' else takeWhile is_digit s); r = drop (length ds) s
     in case nat_of_str ds of None \<Rightarrow> None | Some n \<Rightarrow> if no_float r then Some (n, r) else None)"

definition read_num :: "string \<Rightarrow> (pyval \<times> string) option" where
  "read_num s = (case s of
       [] \<Rightarrow> None
     | c # cs \<Rightarrow> if c = CHR ''-'' then map_option (\<lambda>(n, r). (PInt (- n), r)) (read_nat cs)
         else map_option (\<lambda>(n, r). (PInt n, r)) (read_nat s))"

definition dict_of :: "(string \<times> pyval) list \<Rightarrow> obj" where
  "dict_of ps = foldl (\<lambda>d p. dset d (fst p) (snd p)) [] ps"

fun read_val :: "nat \<Rightarrow> string \<Rightarrow> (pyval \<times> string) option"
  and read_elems :: "nat \<Rightarrow> string \<Rightarrow> (pyval list \<times> string) option"
  and read_members :: "nat \<Rightarrow> string \<Rightarrow> ((string \<times> pyval) list \<times> string) option" where
  "read_val 0 s = None"
| "read_val (Suc n) s =
     (case skip_ws s of
        [] \<Rightarrow> None
      | c # cs \<Rightarrow>
          if c = quote then map_option (\<lambda>(t, r). (PStr t, r)) (read_str cs)
          else if c = CHR ''['' then
            (case skip_ws cs of
               [] \<Rightarrow> None
             | d # ds \<Rightarrow> if d = CHR '']'' then Some (PList [], ds)
                 else map_option (\<lambda>(xs, r). (PList xs, r)) (read_elems n cs))
          else if c = CHR ''{'' then
            (case skip_ws cs of
               [] \<Rightarrow> None
             | d # ds \<Rightarrow> if d = CHR ''}'' then Some (PDict [], ds)
                 else map_option (\<lambda>(ps, r). (PDict (dict_of ps), r)) (read_members n cs))
          else if starts_with ''null'' (c # cs) then Some (PNone, drop 4 (c # cs))
          else if starts_with ''true'' (c # cs) then Some (PBool True, drop 4 (c # cs))
          else if starts_with ''false'' (c # cs) then Some (PBool False, drop 5 (c # cs))
          else read_num (c # cs))"
| "read_elems 0 s = None"
| "read_elems (Suc n) s =
     (case read_val n s of
        None \<Rightarrow> None
      | Some (v, r) \<Rightarrow>
          (case skip_ws r of
             [] \<Rightarrow> None
           | c # cs \<Rightarrow> if c = CHR '']'' then Some ([v], cs)
               else if c = CHR '','' then cons_fst v (read_elems n cs) else None))"
| "read_members 0 s = None"
| "read_members (Suc n) s =
     (case skip_ws s of
        [] \<Rightarrow> None
      | q # qs \<Rightarrow>
          if q \<noteq> quote then None
          else (case read_str qs of
             None \<Rightarrow> None
           | Some (k, r) \<Rightarrow>
               (case skip_ws r of
                  [] \<Rightarrow> None
                | c # cs \<Rightarrow>
                    if c \<noteq> CHR '':'' then None
                    else (case read_val n cs of
                       None \<Rightarrow> None
                     | Some (v, r') \<Rightarrow>
                         (case skip_ws r' of
                            [] \<Rightarrow> None
                          | d # ds \<Rightarrow> if d = CHR ''}'' then Some ([(k, v)], ds)
                              else if d = CHR '','' then cons_fst (k, v) (read_members n ds) else None)))))"

definition loads :: "string \<Rightarrow> pyval option" where
  "loads s = (case read_val (Suc (length s)) s of
       None \<Rightarrow> None
     | Some (v, r) \<Rightarrow> if skip_ws r = [] then Some v else None)"

section \<open>Texts are read back\<close>

lemma hex_val_digit: "k < 16 \<Longrightarrow> hex_val (hex_digit k) = Some k"
  by (auto simp: hex_val_def hex_digit_def Let_def)

lemma unhex_hex: "unhex (CHR ''0'') (CHR ''0'') (hex_digit (of_char c div 16)) (hex_digit (of_char c mod 16)) = Some c"
proof -
  have z: "hex_val (CHR ''0'') = Some 0" by (simp add: hex_val_def)
  have "of_char c < (16 * 16 :: nat)" by simp
  then have "(of_char c :: nat) div 16 < 16" by (rule less_mult_imp_div_less)
  moreover have "(of_char c :: nat) mod 16 < 16" by simp
  ultimately have "hex_val (hex_digit (of_char c div 16)) = Some (of_char c div 16)"
    "hex_val (hex_digit (of_char c mod 16)) = Some (of_char c mod 16)" by (simp_all only: hex_val_digit)
  moreover have "16 * (of_char c div 16) + of_char c mod 16 = (of_char c :: nat)" by simp
  ultimately show ?thesis by (simp add: unhex_def z)
qed

definition short_escape :: "char \<Rightarrow> bool" where
  "short_escape c = (c = quote \<or> c = backslash \<or> (of_char c :: nat) \<in> {8, 9, 10, 12, 13})"

lemma of_char_eqD: "of_char c = (k :: nat) \<Longrightarrow> c = char_of k"
  by auto

lemma short_escape:
  assumes "short_escape c"
  shows "\<exists>e. json_char c = [backslash, e] \<and> e \<noteq> CHR ''u'' \<and> unescape e = Some c"
proof -
  consider "c = quote" | "c = backslash" | k where "c = char_of k" "k \<in> {8, 9, 10, 12, 13 :: nat}"
    using assms of_char_eqD unfolding short_escape_def by blast
  then show ?thesis by cases (auto simp: json_char_def unescape_def Let_def)
qed

lemma read_str_char: "read_str (json_char c @ r) = cons_fst c (read_str r)"
proof (cases "short_escape c")
  case True
  from short_escape [OF this] show ?thesis by auto
next
  case False
  then have n: "c \<noteq> quote" "c \<noteq> backslash" "(of_char c :: nat) \<notin> {8, 9, 10, 12, 13}"
    by (auto simp: short_escape_def)
  show ?thesis
  proof (cases "32 \<le> (of_char c :: nat) \<and> (of_char c :: nat) < 127")
    case True
    with n have "json_char c = [c]" by (auto simp: json_char_def Let_def)
    with n True show ?thesis by simp
  next
    case f: False
    with n have "json_char c = [backslash, CHR ''u'', CHR ''0'', CHR ''0''] @ hex2 (of_char c)"
      unfolding json_char_def Let_def by (simp only: if_False insert_iff empty_iff de_Morgan_disj simp_thms)
    then show ?thesis by (simp add: hex2_def unhex_hex)
  qed
qed

lemma read_str_json: "read_str (concat (map json_char s) @ quote # r) = Some (s, r)"
  by (induction s) (simp_all add: read_str_char cons_fst_def)

section \<open>Integers are read back\<close>

definition ends :: "string \<Rightarrow> bool" where
  "ends r = (r = [] \<or> hd r \<in> {CHR '','', CHR '']'', CHR ''}''})"

lemma ends_facts: "ends r \<Longrightarrow> no_float r \<and> takeWhile is_digit r = []"
  by (cases r) (auto simp: ends_def no_float_def is_digit_def digit_val_def)

lemma nat_str_first: "0 < n \<Longrightarrow> hd (nat_str n) \<noteq> CHR ''0''"
proof (induction n rule: nat_str.induct)
  case (1 n)
  show ?case
  proof (cases "n < 10")
    case True
    then have "digit_val (hd (nat_str n)) = Some n" using 1 by (subst nat_str.simps) simp
    with 1 show ?thesis by (auto simp: digit_val_def)
  next
    case False
    then have "nat_str n = nat_str (n div 10) @ [digit_char (n mod 10)]" by (subst nat_str.simps) simp
    with False 1 show ?thesis by simp
  qed
qed

lemma read_nat_str:
  assumes "0 \<le> n" "ends r"
  shows "read_nat (nat_str n @ r) = Some (n, r)"
proof (cases "n = 0")
  case True
  have "nat_str 0 = ''0''" by code_simp
  moreover have "nat_of_str ''0'' = Some 0" by code_simp
  ultimately show ?thesis using ends_facts [OF assms(2)] True by (simp add: read_nat_def Let_def)
next
  case False
  with assms nat_str_first [of n] have first: "take 1 (nat_str n @ r) \<noteq> ''0''"
    by (cases "nat_str n") auto
  have all: "\<forall>c \<in> set (nat_str n). is_digit c" using nat_str_digits [OF assms(1)] by (auto simp: is_digit_def)
  then have "takeWhile is_digit (nat_str n @ r) = nat_str n"
    using ends_facts [OF assms(2)] by (simp add: takeWhile_append2)
  with first ends_facts [OF assms(2)] assms(1) show ?thesis by (simp add: read_nat_def Let_def)
qed

lemma digit_not_special: "is_digit c \<Longrightarrow> c \<noteq> CHR ''-'' \<and> c \<noteq> quote \<and> c \<noteq> CHR ''['' \<and> c \<noteq> CHR ''{''
    \<and> c \<noteq> CHR ''n'' \<and> c \<noteq> CHR ''t'' \<and> c \<noteq> CHR ''f'' \<and> \<not> json_ws c"
proof -
  assume d: "is_digit c"
  have "json_ws c \<Longrightarrow> is_ws c" by (auto simp: json_ws_def is_ws_def)
  with d digit_val_facts(1) [of c] have "\<not> json_ws c" by (auto simp: is_digit_def)
  moreover have "\<not> is_digit (CHR ''-'')" "\<not> is_digit quote" "\<not> is_digit (CHR ''['')" "\<not> is_digit (CHR ''{'')"
    "\<not> is_digit (CHR ''n'')" "\<not> is_digit (CHR ''t'')" "\<not> is_digit (CHR ''f'')"
    by (simp_all add: is_digit_def digit_val_def)
  ultimately show ?thesis using d by blast
qed

lemma int_str_first: "\<exists>c cs. int_str i = c # cs \<and> (c = CHR ''-'' \<or> is_digit c)"
proof (cases "i < 0")
  case True then show ?thesis by (simp add: int_str_def)
next
  case False
  then obtain c cs where c: "nat_str i = c # cs" by (cases "nat_str i") auto
  then have "is_digit c" using nat_str_digits [of i c] False by (simp add: is_digit_def)
  with c False show ?thesis by (simp add: int_str_def)
qed

lemma read_num_str: "ends r \<Longrightarrow> read_num (int_str i @ r) = Some (PInt i, r)"
proof (cases "i < 0")
  case True
  assume "ends r"
  with True read_nat_str [of "- i" r] show ?thesis by (simp add: int_str_def read_num_def)
next
  case False
  assume r: "ends r"
  obtain c cs where c: "nat_str i = c # cs" by (cases "nat_str i") auto
  then have "c \<noteq> CHR ''-''" using nat_str_digits [of i c] False digit_not_special [of c] by (auto simp: is_digit_def)
  with False c read_nat_str [of i r] r show ?thesis by (simp add: int_str_def read_num_def)
qed

section \<open>Values are read back\<close>

fun json_ok :: "pyval \<Rightarrow> bool" where
  \<comment> \<open>a dictionary has each key once\<close>
  "json_ok (PList xs) = list_all json_ok xs"
| "json_ok (PDict d) = (distinct (map fst d) \<and> list_all (\<lambda>p. json_ok (snd p)) d)"
| "json_ok _ = True"

lemma dict_of_distinct: "distinct (map fst ps) \<Longrightarrow> dict_of ps = ps"
proof -
  have new: "dset d k v = d @ [(k, v)]" if "k \<notin> fst ` set d" for d and k :: string and v :: pyval
    using that by (induction d) auto
  have "foldl (\<lambda>d p. dset d (fst p) (snd p)) d ps = d @ ps"
    if "distinct (map fst (d @ ps))" for d and ps :: "(string \<times> pyval) list"
    using that
  proof (induction ps arbitrary: d)
    case (Cons p ps)
    then show ?case using Cons.IH [of "d @ [p]"] by (simp add: new)
  qed simp
  from this [of "[]" ps] show "distinct (map fst ps) \<Longrightarrow> dict_of ps = ps" by (simp add: dict_of_def)
qed

text \<open>The first character of a written value tells its kind and is not one the list and dictionary
  readers look for.\<close>

lemma dumps_first: "\<exists>c cs. dumps v = c # cs \<and> \<not> json_ws c \<and> c \<noteq> CHR '']'' \<and> c \<noteq> CHR ''}''"
proof (cases v)
  case (PInt i)
  from int_str_first [of i] obtain c cs where c: "int_str i = c # cs" "c = CHR ''-'' \<or> is_digit c" by blast
  have "c \<noteq> CHR '']'' \<and> c \<noteq> CHR ''}'' \<and> \<not> json_ws c"
  proof -
    have "\<not> is_digit (CHR '']'')" "\<not> is_digit (CHR ''}'')" "\<not> json_ws (CHR ''-'')"
      by (simp_all add: is_digit_def digit_val_def json_ws_def)
    with c(2) digit_not_special [of c] show ?thesis by auto
  qed
  with c(1) PInt show ?thesis by simp
qed (auto simp: json_ws_def json_str_def)

lemma dumps_skip: "skip_ws (dumps v @ r) = dumps v @ r"
  using dumps_first [of v] by (auto simp: skip_ws_def)

lemma ends_sep: "ends (CHR '','' # r)" "ends (CHR '']'' # r)" "ends (CHR ''}'' # r)" "ends []"
  by (simp_all add: ends_def)

lemma skip_sep [simp]: "skip_ws (CHR '','' # r) = CHR '','' # r" "skip_ws (CHR '']'' # r) = CHR '']'' # r"
    "skip_ws (CHR ''}'' # r) = CHR ''}'' # r" "skip_ws (CHR '':'' # r) = CHR '':'' # r"
    "skip_ws (quote # r) = quote # r" "skip_ws [] = []"
    "skip_ws (CHR ''['' # r) = CHR ''['' # r" "skip_ws (CHR ''{'' # r) = CHR ''{'' # r"
  by (simp_all add: skip_ws_def json_ws_def)

definition reads_back :: "pyval \<Rightarrow> bool" where
  "reads_back v = (\<forall>n r. ends r \<longrightarrow> length (dumps v) \<le> n \<longrightarrow> read_val n (dumps v @ r) = Some (v, r))"

lemma reads_backD: "reads_back v \<Longrightarrow> ends r \<Longrightarrow> length (dumps v) \<le> n \<Longrightarrow> read_val n (dumps v @ r) = Some (v, r)"
  by (simp add: reads_back_def)

lemma reads_backI:
  assumes "\<And>m r. ends r \<Longrightarrow> length (dumps v) \<le> Suc m \<Longrightarrow> read_val (Suc m) (dumps v @ r) = Some (v, r)"
  shows "reads_back v"
  unfolding reads_back_def
proof (intro allI impI)
  fix n and r :: string
  assume r: "ends r" "length (dumps v) \<le> n"
  with dumps_first [of v] obtain m where "n = Suc m" by (cases n) auto
  with assms r show "read_val n (dumps v @ r) = Some (v, r)" by simp
qed

lemma read_elems_join:
  "xs \<noteq> [] \<Longrightarrow> list_all reads_back xs \<Longrightarrow> length (join '','' (map dumps xs)) < n \<Longrightarrow>
    read_elems n (join '','' (map dumps xs) @ CHR '']'' # r) = Some (xs, r)"
proof (induction xs arbitrary: n)
  case (Cons x xs)
  from Cons.prems(3) obtain m where n: "n = Suc m" by (cases n) auto
  show ?case
  proof (cases xs)
    case Nil
    with Cons.prems reads_backD [of x "CHR '']'' # r" m] show ?thesis by (simp add: n ends_sep)
  next
    case (Cons y ys)
    let ?t = "join '','' (map dumps xs)"
    have len: "length (dumps x) \<le> m" "length ?t < m" using Cons.prems(3) by (auto simp: n Cons)
    have "read_val m (dumps x @ CHR '','' # ?t @ CHR '']'' # r) = Some (x, CHR '','' # ?t @ CHR '']'' # r)"
      using Cons.prems(2) len by (intro reads_backD) (simp_all add: ends_sep)
    moreover have "read_elems m (?t @ CHR '']'' # r) = Some (xs, r)"
      using Cons.IH [of m] Cons.prems(2) len Cons by simp
    ultimately show ?thesis using Cons by (simp add: n cons_fst_def)
  qed
qed simp

abbreviation (input) member :: "string \<times> pyval \<Rightarrow> string" where
  "member p \<equiv> json_str (fst p) @ CHR '':'' # dumps (snd p)"

lemma read_key: "read_str (concat (map json_char k) @ quote # r) = Some (k, r)"
  by (rule read_str_json)

lemma read_members_join:
  "d \<noteq> [] \<Longrightarrow> list_all (\<lambda>p. reads_back (snd p)) d \<Longrightarrow> length (join '','' (map (\<lambda>p. member p) d)) < n \<Longrightarrow>
    read_members n (join '','' (map (\<lambda>p. member p) d) @ CHR ''}'' # r) = Some (d, r)"
proof (induction d arbitrary: n)
  case (Cons p d)
  from Cons.prems(3) obtain m where n: "n = Suc m" by (cases n) auto
  obtain k v where p: "p = (k, v)" by (cases p)
  show ?case
  proof (cases d)
    case Nil
    with Cons.prems reads_backD [of v "CHR ''}'' # r" m] show ?thesis
      by (simp add: n p ends_sep json_str_def read_key)
  next
    case (Cons q ds)
    let ?t = "join '','' (map (\<lambda>p. member p) d)"
    have len: "length (dumps v) \<le> m" "length ?t < m" using Cons.prems(3) by (auto simp: n p Cons)
    have "read_val m (dumps v @ CHR '','' # ?t @ CHR ''}'' # r) = Some (v, CHR '','' # ?t @ CHR ''}'' # r)"
      using Cons.prems(2) len by (intro reads_backD) (simp_all add: ends_sep p)
    moreover have "read_members m (?t @ CHR ''}'' # r) = Some (d, r)"
      using Cons.IH [of m] Cons.prems(2) len Cons by simp
    ultimately show ?thesis using Cons by (simp add: n p cons_fst_def json_str_def read_key)
  qed
qed simp

lemma join_first: "xs \<noteq> [] \<Longrightarrow> \<exists>r. join s xs = hd xs @ r"
  by (cases xs; cases "tl xs") auto

lemma read_list:
  assumes "list_all reads_back xs" "xs \<noteq> []"
  shows "reads_back (PList xs)"
  unfolding reads_back_def
proof (intro allI impI)
  fix n and r :: string
  assume r: "ends r" and len: "length (dumps (PList xs)) \<le> n"
  from len obtain m where n: "n = Suc m" by (cases n) auto
  have "read_elems m (join '','' (map dumps xs) @ CHR '']'' # r) = Some (xs, r)"
    using assms len by (intro read_elems_join) (simp_all add: n)
  moreover obtain c cs where "join '','' (map dumps xs) = c # cs" "\<not> json_ws c" "c \<noteq> CHR '']''"
    using join_first [of "map dumps xs" "'',''"] assms(2) dumps_first [of "hd xs"] by (auto simp: hd_map)
  ultimately show "read_val n (dumps (PList xs) @ r) = Some (PList xs, r)"
    by (simp add: n) (simp add: skip_ws_def)
qed

lemma read_dict:
  assumes "list_all (\<lambda>p. reads_back (snd p)) d" "d \<noteq> []" "distinct (map fst d)"
  shows "reads_back (PDict d)"
  unfolding reads_back_def
proof (intro allI impI)
  fix n and r :: string
  assume r: "ends r" and len: "length (dumps (PDict d)) \<le> n"
  from len obtain m where n: "n = Suc m" by (cases n) auto
  have "read_members m (join '','' (map (\<lambda>p. member p) d) @ CHR ''}'' # r) = Some (d, r)"
    using assms len by (intro read_members_join) (simp_all add: n)
  moreover obtain cs where "join '','' (map (\<lambda>p. member p) d) = quote # cs"
    using join_first [of "map (\<lambda>p. member p) d" "'',''"] assms(2) by (auto simp: hd_map json_str_def)
  ultimately show "read_val n (dumps (PDict d) @ r) = Some (PDict d, r)"
    using dict_of_distinct [OF assms(3)] by (simp add: n)
qed

lemma read_int: "reads_back (PInt i)"
  unfolding reads_back_def
proof (intro allI impI)
  fix n and r :: string
  assume r: "ends r" and len: "length (dumps (PInt i)) \<le> n"
  from int_str_first [of i] obtain c cs where c: "int_str i = c # cs" "c = CHR ''-'' \<or> is_digit c" by blast
  from len c obtain m where n: "n = Suc m" by (cases n) auto
  have nc: "c \<noteq> quote" "c \<noteq> CHR ''[''" "c \<noteq> CHR ''{''" "c \<noteq> CHR ''n''" "c \<noteq> CHR ''t''" "c \<noteq> CHR ''f''"
    using c(2) digit_not_special [of c] by auto
  have "skip_ws (c # cs @ r) = c # cs @ r" using dumps_skip [of "PInt i" r] c by simp
  then show "read_val n (dumps (PInt i) @ r) = Some (PInt i, r)"
    using nc read_num_str [OF r, of i] c by (simp add: n starts_with_def)
qed

lemma read_back: "json_ok v \<Longrightarrow> reads_back v"
proof (induction v rule: dumps.induct)
  case 1
  show ?case by (rule reads_backI) (simp add: skip_ws_def json_ws_def starts_with_def)
next
  case (2 b)
  show ?case by (rule reads_backI) (simp add: skip_ws_def json_ws_def starts_with_def)
next
  case (3 i)
  show ?case by (rule read_int)
next
  case (4 s)
  show ?case by (rule reads_backI) (simp add: json_str_def read_str_json)
next
  case (5 xs)
  then show ?case
  proof (cases "xs = []")
    case True
    then show ?thesis by (intro reads_backI) simp
  next
    case False
    with 5 show ?thesis by (intro read_list) (auto simp: list_all_iff)
  qed
next
  case (6 d)
  then show ?case
  proof (cases "d = []")
    case True
    then show ?thesis by (intro reads_backI) (simp add: dict_of_def)
  next
    case False
    with 6 show ?thesis by (intro read_dict) (auto simp: list_all_iff)
  qed
qed

theorem loads_dumps: "json_ok v \<Longrightarrow> loads (dumps v) = Some v"
  using reads_backD [OF read_back, of v "[]" "Suc (length (dumps v))"]
  by (simp add: loads_def ends_sep)

text \<open>A written dictionary has no space around it.\<close>

lemma strip_dumps_dict: "strip (dumps (PDict d)) = dumps (PDict d)"
proof -
  have f: "\<not> is_ws (CHR ''{'')" "\<not> is_ws (CHR ''}'')" by (simp_all add: is_ws_def)
  then show ?thesis by (simp add: strip_def)
qed

section \<open>What is read is well formed\<close>

lemma json_ok_dset: "json_ok (PDict d) \<Longrightarrow> json_ok v \<Longrightarrow> json_ok (PDict (dset d k v))"
  using set_dset_subset [of d k v] by (fastforce simp: distinct_dset list_all_iff)

lemma json_ok_dmerge: "json_ok (PDict d) \<Longrightarrow> list_all (\<lambda>p. json_ok (snd p)) e \<Longrightarrow> json_ok (PDict (dmerge d e))"
proof (induction d e rule: dmerge.induct)
  case (2 d k v e)
  then show ?case by (simp add: json_ok_dset del: json_ok.simps)
qed simp

lemma json_ok_dict_of:
  assumes "list_all (\<lambda>p. json_ok (snd p)) ps"
  shows "json_ok (PDict (dict_of ps))"
proof -
  have "json_ok (PDict d) \<Longrightarrow> list_all (\<lambda>p. json_ok (snd p)) ps
      \<Longrightarrow> json_ok (PDict (foldl (\<lambda>d p. dset d (fst p) (snd p)) d ps))" for d
    by (induction ps arbitrary: d) (simp_all add: json_ok_dset del: json_ok.simps(2))
  with assms show ?thesis by (simp add: dict_of_def del: json_ok.simps(2)) simp
qed

lemma read_num_ok: "read_num s = Some (v, r) \<Longrightarrow> json_ok v"
  by (auto simp: read_num_def split: list.splits if_splits)

lemma cons_fst_Some: "cons_fst x m = Some (ys, r) \<longleftrightarrow> (\<exists>xs. m = Some (xs, r) \<and> ys = x # xs)"
  by (auto simp: cons_fst_def)

lemma map_option_pair: "map_option (\<lambda>(x, r). (f x, r)) m = Some (v, r) \<longleftrightarrow> (\<exists>x. m = Some (x, r) \<and> v = f x)"
  by (cases m) auto

lemma read_val_ok:
  assumes read: "read_val (Suc n) s = Some (v, r)"
    and elems: "\<And>s vs r. read_elems n s = Some (vs, r) \<Longrightarrow> list_all json_ok vs"
    and members: "\<And>s ps r. read_members n s = Some (ps, r) \<Longrightarrow> list_all (\<lambda>p. json_ok (snd p)) ps"
  shows "json_ok v"
proof -
  obtain c cs where s: "skip_ws s = c # cs" using read by (cases "skip_ws s") simp_all
  show ?thesis
  proof (cases "c = quote \<or> c = CHR ''['' \<or> c = CHR ''{''")
    case False
    with read s show ?thesis by (auto split: if_splits dest: read_num_ok)
  next
    case True
    then consider "c = quote" | "c = CHR ''[''" "c \<noteq> quote" | "c = CHR ''{''" "c \<noteq> quote" by blast
    then show ?thesis
    proof cases
      case 1
      with read s show ?thesis by (auto simp: map_option_pair)
    next
      case 2
      with read s show ?thesis by (cases "skip_ws cs") (auto simp: map_option_pair split: if_splits dest: elems)
    next
      case 3
      with read s show ?thesis
        by (cases "skip_ws cs", auto simp: map_option_pair simp del: json_ok.simps(2) split: if_splits
            dest: members intro: json_ok_dict_of) simp
    qed
  qed
qed

lemma read_elems_ok:
  assumes read: "read_elems (Suc n) s = Some (vs, r)"
    and val: "\<And>s v r. read_val n s = Some (v, r) \<Longrightarrow> json_ok v"
    and elems: "\<And>s vs r. read_elems n s = Some (vs, r) \<Longrightarrow> list_all json_ok vs"
  shows "list_all json_ok vs"
proof -
  obtain v r' c cs where "read_val n s = Some (v, r')" "skip_ws r' = c # cs"
    using read by (auto split: option.splits list.splits)
  with read show ?thesis by (auto simp: cons_fst_Some split: if_splits dest: val elems)
qed

lemma read_members_ok:
  assumes read: "read_members (Suc n) s = Some (ps, r)"
    and val: "\<And>s v r. read_val n s = Some (v, r) \<Longrightarrow> json_ok v"
    and members: "\<And>s ps r. read_members n s = Some (ps, r) \<Longrightarrow> list_all (\<lambda>p. json_ok (snd p)) ps"
  shows "list_all (\<lambda>p. json_ok (snd p)) ps"
proof -
  obtain q qs where s: "skip_ws s = q # qs" using read by (cases "skip_ws s") simp_all
  with read have q: "q = quote" by (auto split: if_splits)
  with read s obtain k r1 where k: "read_str qs = Some (k, r1)" by (cases "read_str qs") auto
  with read s q obtain c cs where c: "skip_ws r1 = c # cs" by (cases "skip_ws r1") simp_all
  with read s q k have "c = CHR '':''" by (auto split: if_splits)
  with read s q k c obtain v r2 where v: "read_val n cs = Some (v, r2)" by (cases "read_val n cs") auto
  with read s q k c \<open>c = CHR '':''\<close> obtain d ds where d: "skip_ws r2 = d # ds" by (cases "skip_ws r2") simp_all
  from read s q k c \<open>c = CHR '':''\<close> v d show ?thesis
    by (auto simp: cons_fst_Some split: if_splits dest: val members)
qed

lemma read_wellformed:
  "(\<forall>s v r. read_val n s = Some (v, r) \<longrightarrow> json_ok v)
   \<and> (\<forall>s vs r. read_elems n s = Some (vs, r) \<longrightarrow> list_all json_ok vs)
   \<and> (\<forall>s ps r. read_members n s = Some (ps, r) \<longrightarrow> list_all (\<lambda>p. json_ok (snd p)) ps)"
proof (induction n)
  case (Suc n)
  with read_val_ok [of n] read_elems_ok [of n] read_members_ok [of n] show ?case by blast
qed simp

lemma loads_wellformed: "loads s = Some v \<Longrightarrow> json_ok v"
proof -
  assume "loads s = Some v"
  then obtain r where "read_val (Suc (length s)) s = Some (v, r)"
    by (cases "read_val (Suc (length s)) s") (auto simp: loads_def simp del: read_val.simps split: if_splits)
  then show "json_ok v" using read_wellformed by blast
qed

end
