(* ===== verification/RedisClient.thy ===== *)
theory RedisClient
  imports PyValue
begin

text \<open>
  The protocol and the connection pool of \<open>redis_client.py\<close>. Byte strings are lists of 8-bit characters.
  A text is sent in UTF-8; how received bytes become a text (\<open>bytes.decode\<close>) is the argument \<open>dec\<close>.
  The reader takes fuel; \<open>None\<close> is running out of it, which more fuel than bytes excludes. Sockets, TLS
  and the parsing of the URL are not modelled; a connection is its number.
\<close>

section \<open>Commands\<close>

definition utf8_char :: "char \<Rightarrow> string" where
  "utf8_char c = (let n = (of_char c :: nat) in
     if n < 128 then [c] else [char_of (192 + n div 64), char_of (128 + n mod 64)])"

definition utf8 :: "string \<Rightarrow> string" where
  "utf8 s = concat (map utf8_char s)"

definition crlf :: string where
  "crlf = [char_of (13 :: nat), char_of (10 :: nat)]"

definition encode_bulk_string :: "pyval \<Rightarrow> string" where
  "encode_bulk_string v =
     (let payload = (case v of PNone \<Rightarrow> [] | _ \<Rightarrow> utf8 (py_str v))
      in CHR ''$'' # int_str (int (length payload)) @ crlf @ payload @ crlf)"

definition encode_command :: "pyval list \<Rightarrow> string" where
  "encode_command parts =
     CHR ''*'' # int_str (int (length parts)) @ crlf @ concat (map encode_bulk_string parts)"

section \<open>Replies\<close>

datatype reply = RNil | RStr string | RInt int | RBool bool | RList "reply list"

definition read_line :: "string \<Rightarrow> (string \<times> string) res" where
  "read_line s = (let line = takeWhile (\<lambda>c. c \<noteq> char_of (10 :: nat)) s in
     if length line < length s \<and> line \<noteq> [] \<and> last line = char_of (13 :: nat)
     then Inr (butlast line, drop (Suc (length line)) s)
     else Inl (RuntimeError ''malformed redis response line''))"

definition read_exact :: "nat \<Rightarrow> string \<Rightarrow> (string \<times> string) res" where
  "read_exact k s = (if length s < k then Inl (RuntimeError ''unexpected end of redis response'')
     else Inr (take k s, drop k s))"

definition int_line :: "string \<Rightarrow> (int \<times> string) res" where
  "int_line s = andThen (read_line s) (\<lambda>(l, r).
     case int_of_str l of None \<Rightarrow> Inl (ValueError ''invalid literal for int()'') | Some i \<Rightarrow> Inr (i, r))"

definition read_bulk :: "(string \<Rightarrow> string) \<Rightarrow> string \<Rightarrow> (reply \<times> string) res" where
  "read_bulk dec s = andThen (int_line s) (\<lambda>(k, r).
     if k < 0 then Inr (RNil, r)
     else andThen (read_exact (nat k) r) (\<lambda>(payload, r').
          andThen (read_exact 2 r') (\<lambda>(_, r''). Inr (RStr (dec payload), r''))))"

definition read_simple :: "(string \<Rightarrow> string) \<Rightarrow> char \<Rightarrow> string \<Rightarrow> (reply \<times> string) res" where
  \<comment> \<open>every reply but an array\<close>
  "read_simple dec p r =
     (if p = CHR ''+'' then andThen (read_line r) (\<lambda>(l, r'). Inr (RStr (dec l), r'))
      else if p = CHR ''-'' then andThen (read_line r) (\<lambda>(l, r'). Inl (RuntimeError (dec l)))
      else if p = CHR '':'' then andThen (int_line r) (\<lambda>(i, r'). Inr (RInt i, r'))
      else if p = CHR ''$'' then read_bulk dec r
      else if p = CHR ''_'' then andThen (read_exact 2 r) (\<lambda>(_, r'). Inr (RNil, r'))
      else if p = CHR ''#'' then andThen (read_exact 1 r) (\<lambda>(b, r').
        andThen (read_exact 2 r') (\<lambda>(_, r''). Inr (RBool (b = ''t''), r'')))
      else Inl (RuntimeError ''unsupported redis response prefix''))"

fun read_response :: "(string \<Rightarrow> string) \<Rightarrow> nat \<Rightarrow> string \<Rightarrow> (reply \<times> string) res option"
  and read_many :: "(string \<Rightarrow> string) \<Rightarrow> nat \<Rightarrow> nat \<Rightarrow> string \<Rightarrow> (reply list \<times> string) res option" where
  "read_response dec 0 s = None"
| "read_response dec (Suc n) s =
     (case s of
        [] \<Rightarrow> Some (Inl (RuntimeError ''redis connection closed''))
      | p # r \<Rightarrow>
          if p = CHR ''*'' then
            (case int_line r of
               Inl e \<Rightarrow> Some (Inl e)
             | Inr (k, r') \<Rightarrow>
                 if k < 0 then Some (Inr (RNil, r'))
                 else map_option (\<lambda>m. andThen m (\<lambda>(vs, r''). Inr (RList vs, r''))) (read_many dec n (nat k) r'))
          else Some (read_simple dec p r))"
| "read_many dec n 0 s = Some (Inr ([], s))"
| "read_many dec 0 (Suc k) s = None"
| "read_many dec (Suc n) (Suc k) s =
     (case read_response dec n s of
        None \<Rightarrow> None
      | Some (Inl e) \<Rightarrow> Some (Inl e)
      | Some (Inr (v, r)) \<Rightarrow>
          map_option (\<lambda>m. andThen m (\<lambda>(vs, r'). Inr (v # vs, r'))) (read_many dec n k r))"

section \<open>The reader never runs out of fuel\<close>

lemma read_line_shorter: "read_line s = Inr (l, r) \<Longrightarrow> length r < length s"
  by (auto simp: read_line_def Let_def split: if_splits)

lemma read_exact_shorter: "read_exact k s = Inr (l, r) \<Longrightarrow> length r \<le> length s"
  by (auto simp: read_exact_def split: if_splits)

lemma int_line_shorter: "int_line s = Inr (i, r) \<Longrightarrow> length r < length s"
  by (auto simp: int_line_def res_simps split: option.splits dest: read_line_shorter)

lemma read_simple_shorter: "read_simple dec p s = Inr (v, r) \<Longrightarrow> length r \<le> length s"
  by (auto simp: read_simple_def read_bulk_def res_simps split: if_splits
      dest!: read_line_shorter read_exact_shorter int_line_shorter)

lemma read_response_shorter:
  "read_response dec n s = Some (Inr (v, r)) \<Longrightarrow> length r < length s"
  "read_many dec n k s = Some (Inr (vs, r)) \<Longrightarrow> length r \<le> length s"
proof (induction dec n s and dec n k s arbitrary: v r and vs r rule: read_response_read_many.induct)
  case (2 dec n s)
  show ?case
  proof (cases s)
    case Nil
    with 2(2) show ?thesis by simp
  next
    case (Cons p s')
    show ?thesis
    proof (cases "p = CHR ''*''")
      case False
      with 2(2) Cons show ?thesis by (auto dest: read_simple_shorter)
    next
      case True
      with 2(2) Cons obtain k r' where k: "int_line s' = Inr (k, r')" by (cases "int_line s'") auto
      from int_line_shorter [OF k] have "length r' < length s'" .
      moreover have "length r \<le> length r'"
        using 2(2) Cons True k 2(1) [OF Cons True k refl] by (auto simp: res_simps split: if_splits)
      ultimately show ?thesis using Cons by simp
    qed
  qed
next
  case (5 dec n k s)
  from 5(3) obtain v1 r1 where v1: "read_response dec n s = Some (Inr (v1, r1))"
    by (auto split: option.splits sum.splits)
  from 5(1) [OF v1] have l1: "length r1 < length s" .
  from 5(3) v1 obtain vs' where "read_many dec n k r1 = Some (Inr (vs', r))" by (auto simp: res_simps)
  from 5(2) [OF v1 refl refl this] l1 show ?case by simp
qed auto

lemma read_response_enough:
  "length s < n \<Longrightarrow> read_response dec n s \<noteq> None"
  "length s + 1 < n \<Longrightarrow> read_many dec n k s \<noteq> None"
proof (induction dec n s and dec n k s rule: read_response_read_many.induct)
  case (2 dec n s)
  show ?case
  proof (cases s)
    case (Cons p s')
    show ?thesis
    proof (cases "p = CHR ''*''")
      case True
      show ?thesis
      proof (cases "int_line s'")
        case (Inr q)
        obtain k r' where k: "int_line s' = Inr (k, r')" using Inr by (cases q) simp
        from int_line_shorter [OF k] have "length r' + 1 < n" using 2(2) Cons by simp
        with 2(1) [OF Cons True k refl] Cons True k show ?thesis by simp
      qed (use Cons True in simp)
    qed (use Cons in simp)
  qed simp
next
  case (5 dec n k s)
  then have "read_response dec n s \<noteq> None" by simp
  then obtain m where m: "read_response dec n s = Some m" by blast
  show ?case
  proof (cases m)
    case (Inr q)
    obtain v r where q: "q = (v, r)" by (cases q)
    from read_response_shorter(1) [OF m [unfolded Inr q]] 5(3) have "length r + 1 < n" by simp
    with 5(2) [OF m Inr q [symmetric]] m show ?thesis by (simp add: Inr q)
  qed (use m in simp)
qed auto

section \<open>A command is read back as its parts\<close>

lemma int_line_int_str: "int_line (int_str i @ crlf @ r) = Inr (i, r)"
proof -
  have nl: "char_of (10 :: nat) \<notin> set (int_str i)"
  proof
    assume "char_of (10 :: nat) \<in> set (int_str i)"
    then have "char_of (10 :: nat) = CHR ''-'' \<or> char_of (10 :: nat) \<in> set (nat_str \<bar>i\<bar>)"
      by (auto simp: int_str_def split: if_splits)
    moreover have "char_of (10 :: nat) \<noteq> CHR ''-''" by (simp add: char_of_def)
    ultimately have "char_of (10 :: nat) \<in> set (nat_str \<bar>i\<bar>)" by blast
    from nat_str_digits [OF _ this] digit_val_facts(1) [of "char_of (10 :: nat)"]
    show False by (simp add: is_ws_def)
  qed
  then have "takeWhile (\<lambda>c. c \<noteq> char_of (10 :: nat)) (int_str i @ crlf @ r) = int_str i @ [char_of (13 :: nat)]"
    by (subst takeWhile_append2) (auto simp: crlf_def)
  then have "read_line (int_str i @ crlf @ r) = Inr (int_str i, r)"
    by (simp add: read_line_def Let_def crlf_def)
  then show ?thesis by (simp add: int_line_def)
qed

definition part_text :: "pyval \<Rightarrow> string" where
  "part_text v = (if v = PNone then [] else py_str v)"

lemma bulk_read:
  assumes "\<And>s. dec (utf8 s) = s"
  shows "read_response dec (Suc n) (encode_bulk_string v @ r) = Some (Inr (RStr (part_text v), r))"
proof -
  define payload where "payload = (case v of PNone \<Rightarrow> [] | _ \<Rightarrow> utf8 (py_str v))"
  have u: "utf8 [] = []" by (simp add: utf8_def)
  have pl: "dec payload = part_text v"
    using assms [of "[]"] by (cases v) (simp_all add: payload_def part_text_def assms u)
  have e: "encode_bulk_string v @ r = CHR ''$'' # (int_str (int (length payload)) @ crlf @ payload @ crlf @ r)"
    by (simp add: encode_bulk_string_def payload_def Let_def)
  have "read_exact (length payload) (payload @ crlf @ r) = Inr (payload, crlf @ r)"
    "read_exact 2 (crlf @ r) = Inr (crlf, r)" by (simp_all add: read_exact_def crlf_def)
  then show ?thesis unfolding e
    by (simp add: read_simple_def read_bulk_def int_line_int_str pl)
qed

lemma bulks_read:
  assumes "\<And>s. dec (utf8 s) = s"
  shows "length parts < n \<Longrightarrow> read_many dec n (length parts) (concat (map encode_bulk_string parts) @ r)
     = Some (Inr (map (\<lambda>v. RStr (part_text v)) parts, r))"
proof (induction parts arbitrary: n)
  case (Cons v parts)
  then obtain m where n: "n = Suc (Suc m)" by (cases n; cases "n - 1") auto
  with Cons.IH [of "Suc m"] Cons.prems bulk_read [of dec m v] assms show ?case by simp
qed simp

lemma bulk_length: "4 \<le> length (encode_bulk_string v)"
  by (simp add: encode_bulk_string_def Let_def crlf_def)

lemma parts_length: "length parts \<le> length (concat (map encode_bulk_string parts))"
proof (induction parts)
  case (Cons v parts)
  with bulk_length [of v] show ?case by simp
qed simp

text \<open>
  C24. Whatever the parts of a command contain, line ends included, the reader reads the encoded command
  back as exactly its parts and leaves the bytes after it: the framing cannot be broken by a payload.
  And on any bytes the reader returns a reply or an error, it never runs on.
\<close>

theorem command_round_trip:
  assumes "\<And>s. dec (utf8 s) = s" "length (encode_command parts @ rest) < n"
  shows "read_response dec n (encode_command parts @ rest)
      = Some (Inr (RList (map (\<lambda>v. RStr (part_text v)) parts), rest))
    \<and> (\<exists>r. read_response dec (Suc (length bytes)) bytes = Some r)"
proof
  from assms(2) obtain m where n: "n = Suc m" by (cases n) auto
  have "length parts < m"
    using assms(2) parts_length [of parts] by (simp add: n encode_command_def crlf_def)
  then show "read_response dec n (encode_command parts @ rest)
      = Some (Inr (RList (map (\<lambda>v. RStr (part_text v)) parts), rest))"
    using bulks_read [OF assms(1), of parts m rest]
    by (simp add: n encode_command_def int_line_int_str [of _ "_ @ rest"] del: append_assoc)
       (simp add: int_line_int_str [of "int (length parts)" "concat (map encode_bulk_string parts) @ rest"])
  show "\<exists>r. read_response dec (Suc (length bytes)) bytes = Some r"
    using read_response_enough(1) [of bytes "Suc (length bytes)" dec] by blast
qed

text \<open>Decoding of the two-byte sequences that \<open>utf8\<close> writes.\<close>

fun latin1_dec :: "string \<Rightarrow> string" where
  "latin1_dec [] = []"
| "latin1_dec [c] = [c]"
| "latin1_dec (c # d # r) = (if (of_char c :: nat) < 128 then c # latin1_dec (d # r)
     else char_of (64 * (of_char c - 192) + (of_char d - 128) :: nat) # latin1_dec r)"

lemma latin1_dec_char: "latin1_dec (utf8_char c @ r) = c # latin1_dec r"
proof (cases "(of_char c :: nat) < 128")
  case True
  then show ?thesis by (cases r) (simp_all add: utf8_char_def)
next
  case False
  have l: "(of_char c :: nat) < 256" by simp
  have "(of_char c :: nat) div 64 < 4" by (rule less_mult_imp_div_less) simp
  moreover have "2 \<le> (of_char c :: nat) div 64" using False by (simp add: less_eq_div_iff_mult_less_eq)
  moreover have "64 * (of_char c div 64) + of_char c mod 64 = (of_char c :: nat)" by simp
  ultimately show ?thesis using False by (simp add: utf8_char_def Let_def)
qed

lemma latin1_dec_utf8: "latin1_dec (utf8 s) = s"
proof (induction s)
  case (Cons c s)
  then show ?case using latin1_dec_char [of c "utf8 s"] by (simp add: utf8_def)
qed (simp add: utf8_def)

theorem command_round_trip_witness:
  "read_response latin1_dec 100 (encode_command [PStr ''SET'', PStr (''k'' @ crlf @ ''$1''), PInt 7] @ ''+OK'')
     = Some (Inr (RList [RStr ''SET'', RStr (''k'' @ crlf @ ''$1''), RStr ''7''], ''+OK''))"
proof -
  have "length (encode_command [PStr ''SET'', PStr (''k'' @ crlf @ ''$1''), PInt 7] @ ''+OK'') < 100" by code_simp
  from command_round_trip [OF latin1_dec_utf8 this] have
    "read_response latin1_dec 100 (encode_command [PStr ''SET'', PStr (''k'' @ crlf @ ''$1''), PInt 7] @ ''+OK'')
     = Some (Inr (RList (map (\<lambda>v. RStr (part_text v)) [PStr ''SET'', PStr (''k'' @ crlf @ ''$1''), PInt 7]), ''+OK''))"
    by blast
  moreover have "int_str 7 = ''7''" by code_simp
  ultimately show ?thesis by (simp add: part_text_def)
qed

section \<open>The connection pool\<close>

record pool =
  pl_max :: int
  pl_idle :: "nat list"
  pl_open :: int
  pl_next :: nat

definition new_pool :: "int \<Rightarrow> pool" where
  "new_pool max_connections = \<lparr>pl_max = max 1 max_connections, pl_idle = [], pl_open = 0, pl_next = 0\<rparr>"

definition acquire_connection :: "pool \<Rightarrow> (pool \<times> nat) option" where
  \<comment> \<open>one turn of the waiting loop; \<open>None\<close> is to wait for another turn\<close>
  "acquire_connection p =
     (if pl_idle p \<noteq> [] then Some (p\<lparr>pl_idle := butlast (pl_idle p)\<rparr>, last (pl_idle p))
      else if pl_open p < pl_max p
      then Some (p\<lparr>pl_open := pl_open p + 1, pl_next := Suc (pl_next p)\<rparr>, pl_next p)
      else None)"

definition release_connection :: "nat \<Rightarrow> pool \<Rightarrow> pool" where
  "release_connection c p = p\<lparr>pl_idle := pl_idle p @ [c]\<rparr>"

definition discard_connection :: "pool \<Rightarrow> pool" where
  "discard_connection p = p\<lparr>pl_open := max 0 (pl_open p - 1)\<rparr>"

definition close_pool :: "pool \<Rightarrow> pool" where
  "close_pool p = p\<lparr>pl_idle := [], pl_open := 0\<rparr>"

text \<open>The threads' use of the pool; the second component is the set of connections in use.\<close>

inductive pool_step :: "pool \<times> nat set \<Rightarrow> pool \<times> nat set \<Rightarrow> bool" where
  acquire: "acquire_connection p = Some (p', c) \<Longrightarrow> pool_step (p, used) (p', insert c used)"
| release: "c \<in> used \<Longrightarrow> pool_step (p, used) (release_connection c p, used - {c})"
| discard: "c \<in> used \<Longrightarrow> pool_step (p, used) (discard_connection p, used - {c})"
| close: "used = {} \<Longrightarrow> pool_step (p, used) (close_pool p, used)"

inductive_cases pool_stepE: "pool_step (p, used) (p', used')"

definition pool_ok :: "int \<Rightarrow> pool \<Rightarrow> nat set \<Rightarrow> bool" where
  "pool_ok m p used = (pl_max p = m \<and> finite used \<and> distinct (pl_idle p) \<and> set (pl_idle p) \<inter> used = {}
     \<and> (\<forall>c \<in> set (pl_idle p) \<union> used. c < pl_next p)
     \<and> pl_open p = int (length (pl_idle p)) + int (card used) \<and> pl_open p \<le> m)"

lemma acquire_ok: "pool_ok m p used \<Longrightarrow> acquire_connection p = Some (p', c) \<Longrightarrow>
    c \<notin> used \<and> pool_ok m p' (insert c used)"
proof -
  assume ok: "pool_ok m p used" and a: "acquire_connection p = Some (p', c)"
  show ?thesis
  proof (cases "pl_idle p = []")
    case True
    with ok a show ?thesis by (auto simp: acquire_connection_def pool_ok_def split: if_splits)
  next
    case False
    then obtain xs x where xs: "pl_idle p = xs @ [x]" by (metis append_butlast_last_id)
    with ok a show ?thesis by (auto simp: acquire_connection_def pool_ok_def)
  qed
qed

lemma card_remove_one: "finite used \<Longrightarrow> c \<in> used \<Longrightarrow> int (card (used - {c})) = int (card used) - 1"
proof -
  assume f: "finite used" "c \<in> used"
  then have "0 < card used" by (auto simp: card_gt_0_iff)
  with f show ?thesis by (simp add: card_Diff_singleton)
qed

lemma release_ok:
  assumes "pool_ok m p used" "c \<in> used"
  shows "pool_ok m (release_connection c p) (used - {c})"
proof -
  have "set (pl_idle p @ [c]) \<inter> (used - {c}) = {}" "distinct (pl_idle p @ [c])"
    "\<forall>x \<in> set (pl_idle p @ [c]) \<union> (used - {c}). x < pl_next p"
    using assms by (auto simp: pool_ok_def)
  moreover have "int (card (used - {c})) = int (card used) - 1"
    by (rule card_remove_one) (use assms in \<open>simp_all add: pool_ok_def\<close>)
  ultimately show ?thesis using assms
    unfolding pool_ok_def release_connection_def by (simp del: card_Diff_insert card_Diff_singleton card_Diff_singleton_if)
qed

lemma discard_ok:
  assumes "pool_ok m p used" "c \<in> used"
  shows "pool_ok m (discard_connection p) (used - {c})"
proof -
  have "set (pl_idle p) \<inter> (used - {c}) = {}" "\<forall>x \<in> set (pl_idle p) \<union> (used - {c}). x < pl_next p"
    using assms by (auto simp: pool_ok_def)
  moreover have "int (card (used - {c})) = int (card used) - 1"
    by (rule card_remove_one) (use assms in \<open>simp_all add: pool_ok_def\<close>)
  moreover have "0 \<le> int (card (used - {c}))" by (rule of_nat_0_le_iff)
  ultimately show ?thesis using assms
    unfolding pool_ok_def discard_connection_def by (simp del: card_Diff_insert card_Diff_singleton card_Diff_singleton_if)
qed

lemma close_ok: "pool_ok m p {} \<Longrightarrow> pool_ok m (close_pool p) {}"
  by (simp add: close_pool_def pool_ok_def)

lemma pool_step_ok: "pool_step (p, used) (p', used') \<Longrightarrow> pool_ok m p used \<Longrightarrow> pool_ok m p' used'"
proof (erule pool_stepE)
  fix c
  assume "acquire_connection p = Some (p', c)" "pool_ok m p used" "used' = insert c used"
  then show ?thesis using acquire_ok by blast
qed (simp_all only: release_ok discard_ok close_ok)

text \<open>
  C35. However threads acquire, release and discard connections, and as long as the pool is closed only
  when none is in use: never more than the maximum are in use or idle together, a connection is in use
  by one thread at a time, and acquiring waits only when the maximum number is in use.
\<close>

theorem pool_limits_connections:
  assumes "pool_step\<^sup>*\<^sup>* (new_pool n, {}) (p, used)"
  shows "int (length (pl_idle p)) + int (card used) \<le> max 1 n
    \<and> (acquire_connection p = None \<longleftrightarrow> int (card used) = max 1 n)
    \<and> (\<forall>p' c. acquire_connection p = Some (p', c) \<longrightarrow> c \<notin> used)"
proof -
  have "pool_ok (max 1 n) (new_pool n) {}" by (simp add: pool_ok_def new_pool_def)
  with assms have ok: "pool_ok (max 1 n) p used"
    by (induction "(p, used)" arbitrary: p used rule: rtranclp_induct) (auto intro: pool_step_ok)
  then have "\<forall>p' c. acquire_connection p = Some (p', c) \<longrightarrow> c \<notin> used" using acquire_ok by blast
  moreover have "acquire_connection p = None \<longleftrightarrow> int (card used) = max 1 n"
    using ok by (cases "pl_idle p") (auto simp: pool_ok_def acquire_connection_def)
  ultimately show ?thesis using ok by (simp add: pool_ok_def)
qed

theorem pool_limits_connections_witness:
  "\<exists>p used. pool_step\<^sup>*\<^sup>* (new_pool 1, {}) (p, used) \<and> card used = 1 \<and> acquire_connection p = None"
proof -
  have a: "acquire_connection (new_pool 1) = Some (\<lparr>pl_max = 1, pl_idle = [], pl_open = 1, pl_next = 1\<rparr>, 0)"
    by (simp add: acquire_connection_def new_pool_def)
  let ?p = "\<lparr>pl_max = 1, pl_idle = [], pl_open = 1, pl_next = 1\<rparr>"
  have s: "pool_step\<^sup>*\<^sup>* (new_pool 1, {}) (?p, {0})" using pool_step.acquire [OF a, of "{}"] by auto
  from pool_limits_connections [OF s] have "acquire_connection ?p = None" by simp
  with s show ?thesis by (intro exI [of _ ?p] exI [of _ "{0}"]) simp
qed

text \<open>Closing while a connection is in use forgets it: with a maximum of one, two are then in use.\<close>

lemma closing_forgets_connections:
  "\<exists>p1 c1 p2 c2. acquire_connection (new_pool 1) = Some (p1, c1)
     \<and> acquire_connection (close_pool p1) = Some (p2, c2) \<and> c1 \<noteq> c2"
  by (simp add: acquire_connection_def new_pool_def close_pool_def)

end
