(* ===== verification/RedisRuntime.thy ===== *)
theory RedisRuntime
  imports Json RedisClient PyTime StoreViews "HOL-Library.State_Monad"
begin

text \<open>
  \<open>redis_runtime.py\<close>: the shared state in Redis. The server is not part of the program: \<open>exec\<close> is the
  effect of one command on it and its reply or error (\<open>RedisClient.execute\<close>), and every operation takes
  it as its first argument. An operation is a computation in the state monad, over the last error of
  the runtime, the server and the number of texts drawn from the environment (event identifiers, time
  texts). A failed command and the nil reply both read as \<open>RNil\<close>, as both are \<open>None\<close> in the code. Log
  lines are left out.
\<close>

section \<open>State\<close>

record redis_config =
  rc_url :: string
  rc_client :: bool
  rc_cli :: bool
  rc_prefix :: string
  rc_service :: string
  rc_uid :: "nat \<Rightarrow> string"
  rc_now :: "nat \<Rightarrow> string"

record 'r redis_state =
  rs_error :: "string option"
  rs_server :: 'r
  rs_drawn :: nat

type_synonym 'r server = "string list \<Rightarrow> 'r \<Rightarrow> 'r \<times> reply res"

type_synonym ('r, 'a) redis = "('r redis_state, 'a) state"

record redis_info =
  ri_configured :: bool
  ri_cli_available :: bool
  ri_enabled :: bool
  ri_key_prefix :: string
  ri_state :: string

definition state_name :: "redis_config \<Rightarrow> 'r redis_state \<Rightarrow> string" where
  "state_name cfg s =
     (if rc_url cfg = [] then ''not_configured''
      else if \<not> rc_client cfg then ''invalid_config''
      else if rs_error s \<noteq> None \<and> rs_error s \<noteq> Some [] then ''degraded'' else ''enabled'')"

definition info_enabled :: "redis_config \<Rightarrow> bool" where
  "info_enabled cfg = (rc_url cfg \<noteq> [] \<and> rc_client cfg)"

definition runtime_info :: "redis_config \<Rightarrow> 'r redis_state \<Rightarrow> redis_info" where
  "runtime_info cfg s = \<lparr>ri_configured = (rc_url cfg \<noteq> []), ri_cli_available = rc_cli cfg,
     ri_enabled = info_enabled cfg, ri_key_prefix = rc_prefix cfg, ri_state = state_name cfg s\<rparr>"

definition info_as_dict :: "redis_info \<Rightarrow> obj" where
  "info_as_dict i = [(''configured'', PBool (ri_configured i)), (''cli_available'', PBool (ri_cli_available i)),
     (''enabled'', PBool (ri_enabled i)), (''key_prefix'', PStr (ri_key_prefix i)), (''state'', PStr (ri_state i))]"

section \<open>Commands\<close>

definition draw_now :: "redis_config \<Rightarrow> ('r, string) redis" where
  "draw_now cfg = do {
     s \<leftarrow> State_Monad.get;
     _ \<leftarrow> State_Monad.set (s\<lparr>rs_drawn := Suc (rs_drawn s)\<rparr>);
     State_Monad.return (rc_now cfg (rs_drawn s)) }"

definition draw_uid :: "redis_config \<Rightarrow> ('r, string) redis" where
  "draw_uid cfg = do {
     s \<leftarrow> State_Monad.get;
     _ \<leftarrow> State_Monad.set (s\<lparr>rs_drawn := Suc (rs_drawn s)\<rparr>);
     State_Monad.return (rc_uid cfg (rs_drawn s)) }"

fun exc_text :: "pyexc \<Rightarrow> string" where
  "exc_text (ValueError m) = m"
| "exc_text (TypeError m) = m"
| "exc_text (KeyError m) = repr_str m"
| "exc_text (RuntimeError m) = m"
| "exc_text DivisionByZero = ''division by zero''"
| "exc_text InvalidOperation = ''invalid operation''"

definition client_execute :: "'r server \<Rightarrow> string list \<Rightarrow> ('r, reply res) redis" where
  \<comment> \<open>\<open>client.execute\<close>, and the record it leaves of the failure or success\<close>
  "client_execute exec cmd = State (\<lambda>s. case exec cmd (rs_server s) of
     (r, Inl e) \<Rightarrow> (Inl e, s\<lparr>rs_server := r, rs_error := Some (exc_text e)\<rparr>)
   | (r, Inr v) \<Rightarrow> (Inr v, s\<lparr>rs_server := r, rs_error := None\<rparr>))"

definition execute :: "'r server \<Rightarrow> redis_config \<Rightarrow> string list \<Rightarrow> ('r, reply) redis" where
  "execute exec cfg cmd =
     (if \<not> rc_client cfg then State_Monad.return RNil
      else do {
        r \<leftarrow> client_execute exec cmd;
        State_Monad.return (case r of Inl e \<Rightarrow> RNil | Inr v \<Rightarrow> v) })"

definition redis_key :: "redis_config \<Rightarrow> string list \<Rightarrow> string" where
  "redis_key cfg parts = join '':'' (rc_prefix cfg # parts)"

definition set_json :: "'r server \<Rightarrow> redis_config \<Rightarrow> string list \<Rightarrow> obj \<Rightarrow> int option \<Rightarrow> ('r, bool) redis" where
  "set_json exec cfg parts payload ttl = do {
     r \<leftarrow> execute exec cfg ([''SET'', redis_key cfg parts, dumps (PDict payload)]
            @ (case ttl of None \<Rightarrow> [] | Some t \<Rightarrow> [''EX'', int_str t]));
     State_Monad.return (r = RStr ''OK'') }"

definition json_object :: "reply \<Rightarrow> obj option" where
  "json_object r = (case r of
       RStr raw \<Rightarrow> let t = strip raw in
         if t = [] then None
         else (case loads t of Some v \<Rightarrow> as_dict v | None \<Rightarrow> None)
     | _ \<Rightarrow> None)"

definition get_json_by_full_key :: "'r server \<Rightarrow> redis_config \<Rightarrow> string \<Rightarrow> ('r, obj option) redis" where
  "get_json_by_full_key exec cfg key = do {
     r \<leftarrow> execute exec cfg [''GET'', key];
     State_Monad.return (json_object r) }"

definition get_json :: "'r server \<Rightarrow> redis_config \<Rightarrow> string list \<Rightarrow> ('r, obj option) redis" where
  "get_json exec cfg parts = do {
     r \<leftarrow> execute exec cfg [''GET'', redis_key cfg parts];
     State_Monad.return (json_object r) }"

definition event_envelope ::
    "redis_config \<Rightarrow> string \<Rightarrow> string \<Rightarrow> string \<Rightarrow> obj \<Rightarrow> string option \<Rightarrow> obj" where
  "event_envelope cfg uid ts event_type payload trace =
     [(''event_id'', PStr (''evt_'' @ uid)), (''event_type'', PStr event_type), (''event_version'', PInt 1),
      (''occurred_at'', PStr ts), (''producer'', PStr (rc_service cfg)), (''trace_id'', opt_str trace),
      (''payload'', PDict payload)]"

definition append_event ::
    "'r server \<Rightarrow> redis_config \<Rightarrow> string \<Rightarrow> string \<Rightarrow> obj \<Rightarrow> string option \<Rightarrow> ('r, bool) redis" where
  "append_event exec cfg stream event_type payload trace = do {
     uid \<leftarrow> draw_uid cfg;
     ts \<leftarrow> draw_now cfg;
     r \<leftarrow> execute exec cfg [''XADD'', redis_key cfg [''stream'', stream], ''MAXLEN'', ''~'', ''1000'', ''*'', ''event'',
            dumps (PDict (event_envelope cfg uid ts event_type payload trace))];
     State_Monad.return (case r of RStr t \<Rightarrow> t \<noteq> [] | _ \<Rightarrow> False) }"

definition run_if :: "bool \<Rightarrow> ('r, 'a) redis \<Rightarrow> ('r, unit) redis" where
  "run_if b m = (if b then do { _ \<leftarrow> m; State_Monad.return () } else State_Monad.return ())"

section \<open>Mirrored state\<close>

definition BOT_STATE_TTL_SECONDS :: int where "BOT_STATE_TTL_SECONDS = 120"

definition MARKET_ORDERBOOK_TTL_SECONDS :: int where "MARKET_ORDERBOOK_TTL_SECONDS = 15"

definition PAIR_LOCK_TTL_SECONDS :: int where "PAIR_LOCK_TTL_SECONDS = 180"

definition sync_bot_state ::
    "'r server \<Rightarrow> redis_config \<Rightarrow> string \<Rightarrow> obj \<Rightarrow> string option \<Rightarrow> ('r, unit) redis" where
  "sync_bot_state exec cfg bot_key payload trace = do {
     ok \<leftarrow> set_json exec cfg [''bot'', bot_key, ''state''] payload (Some BOT_STATE_TTL_SECONDS);
     run_if ok (append_event exec cfg ''bot_events'' ''bot.state.updated''
       [(''bot_key'', PStr bot_key), (''bot_id'', pget payload ''bot_id'')] trace) }"

definition sync_strategy_run_state ::
    "'r server \<Rightarrow> redis_config \<Rightarrow> string \<Rightarrow> obj \<Rightarrow> string option \<Rightarrow> ('r, unit) redis" where
  "sync_strategy_run_state exec cfg rid payload trace = do {
     ok \<leftarrow> set_json exec cfg [''strategy_run'', rid, ''state''] payload None;
     run_if ok (append_event exec cfg ''strategy_events'' ''strategy_run.state.updated''
       [(''run_id'', PStr rid), (''bot_id'', pget payload ''bot_id''), (''status'', pget payload ''status'')] trace) }"

definition sync_latest_config ::
    "'r server \<Rightarrow> redis_config \<Rightarrow> string \<Rightarrow> obj \<Rightarrow> string option \<Rightarrow> ('r, unit) redis" where
  "sync_latest_config exec cfg scope payload trace = do {
     ok \<leftarrow> set_json exec cfg [''config'', scope, ''latest''] payload None;
     run_if ok (append_event exec cfg ''strategy_events'' ''config.latest.updated''
       [(''config_scope'', PStr scope), (''version_no'', pget payload ''version_no''),
        (''config_version_id'', pget payload ''config_version_id'')] trace) }"

definition sync_arbitrage_evaluation ::
    "'r server \<Rightarrow> redis_config \<Rightarrow> string \<Rightarrow> obj \<Rightarrow> string option \<Rightarrow> bool \<Rightarrow> ('r, unit) redis" where
  "sync_arbitrage_evaluation exec cfg rid payload trace publish = do {
     ts \<leftarrow> draw_now cfg;
     let stored = dset (dset payload ''strategy_run_id'' (PStr rid)) ''cached_at'' (PStr ts);
     ok \<leftarrow> set_json exec cfg [''strategy_run'', rid, ''latest_evaluation''] stored None;
     run_if (ok \<and> publish) (append_event exec cfg ''strategy_events'' ''strategy.arbitrage_latest_evaluation.updated''
       [(''run_id'', PStr rid), (''accepted'', pget stored ''accepted''), (''reason_code'', pget stored ''reason_code''),
        (''lifecycle_preview'', pget stored ''lifecycle_preview'')] trace) }"

definition get_arbitrage_evaluation :: "'r server \<Rightarrow> redis_config \<Rightarrow> string \<Rightarrow> ('r, obj option) redis" where
  "get_arbitrage_evaluation exec cfg rid = get_json exec cfg [''strategy_run'', rid, ''latest_evaluation'']"

definition recovered_lifecycle :: "obj \<Rightarrow> obj \<Rightarrow> string" where
  "recovered_lifecycle current trace_obj =
     (let st = low_text trace_obj ''status''; lifecycle = text_of trace_obj ''lifecycle_state'' in
      if st \<in> {''resolved'', ''cancelled''} then ''closed''
      else if st = ''handoff_required'' then ''manual_handoff''
      else if lifecycle \<noteq> [] then lifecycle else raw_text current ''lifecycle_preview'')"

definition sync_arbitrage_evaluation_recovery_state ::
    "'r server \<Rightarrow> redis_config \<Rightarrow> string \<Rightarrow> obj \<Rightarrow> string option \<Rightarrow> ('r, obj option) redis" where
  "sync_arbitrage_evaluation_recovery_state exec cfg rid trace_obj trace = do {
     found \<leftarrow> get_arbitrage_evaluation exec cfg rid;
     (case found of
        None \<Rightarrow> State_Monad.return None
      | Some current \<Rightarrow> do {
          let payload = dmerge current
            [(''lifecycle_preview'', PStr (recovered_lifecycle current trace_obj)),
             (''recovery_trace_id'', pget trace_obj ''recovery_trace_id''),
             (''recovery_status'', pget trace_obj ''status''),
             (''recovery_lifecycle_state'', pget trace_obj ''lifecycle_state''),
             (''recovery_updated_at'', pget trace_obj ''updated_at'')];
          _ \<leftarrow> sync_arbitrage_evaluation exec cfg rid payload trace True;
          get_arbitrage_evaluation exec cfg rid }) }"

definition publish_order_event ::
    "'r server \<Rightarrow> redis_config \<Rightarrow> string \<Rightarrow> obj \<Rightarrow> string option \<Rightarrow> ('r, bool) redis" where
  "publish_order_event exec cfg event_type payload trace =
     append_event exec cfg ''order_events'' event_type payload trace"

definition publish_alert_event ::
    "'r server \<Rightarrow> redis_config \<Rightarrow> string \<Rightarrow> obj \<Rightarrow> string option \<Rightarrow> ('r, bool) redis" where
  "publish_alert_event exec cfg event_type payload trace =
     append_event exec cfg ''alert_events'' event_type payload trace"

definition sync_market_orderbook_top ::
    "'r server \<Rightarrow> redis_config \<Rightarrow> string \<Rightarrow> string \<Rightarrow> obj \<Rightarrow> string option \<Rightarrow> int option \<Rightarrow> ('r, unit) redis" where
  "sync_market_orderbook_top exec cfg exchange market payload trace ttl = do {
     ok \<leftarrow> set_json exec cfg [''market'', ''orderbook_top'', exchange, market] payload
       (Some (case ttl of Some t \<Rightarrow> if t = 0 then MARKET_ORDERBOOK_TTL_SECONDS else t
                        | None \<Rightarrow> MARKET_ORDERBOOK_TTL_SECONDS));
     run_if ok (append_event exec cfg ''market_events'' ''market.orderbook_top.updated''
       [(''exchange'', PStr exchange), (''market'', PStr market), (''stale'', pget payload ''stale''),
        (''source_type'', pget payload ''source_type''), (''exchange_age_ms'', pget payload ''exchange_age_ms'')] trace) }"

definition get_market_orderbook_top ::
    "'r server \<Rightarrow> redis_config \<Rightarrow> string \<Rightarrow> string \<Rightarrow> ('r, obj option) redis" where
  "get_market_orderbook_top exec cfg exchange market =
     get_json exec cfg [''market'', ''orderbook_top'', exchange, market]"

section \<open>Recovery traces\<close>

definition sync_recovery_trace ::
    "'r server \<Rightarrow> redis_config \<Rightarrow> string \<Rightarrow> obj \<Rightarrow> string option \<Rightarrow> ('r, unit) redis" where
  "sync_recovery_trace exec cfg tid payload trace = do {
     ts \<leftarrow> draw_now cfg;
     let stored = dset (dset payload ''recovery_trace_id'' (PStr tid)) ''updated_at'' (PStr ts);
     ok \<leftarrow> set_json exec cfg [''recovery_trace'', tid] stored None;
     run_if ok (append_event exec cfg ''strategy_events'' ''strategy.recovery_trace.updated''
       [(''recovery_trace_id'', PStr tid), (''run_id'', pget stored ''run_id''), (''bot_id'', pget stored ''bot_id''),
        (''status'', pget stored ''status''), (''lifecycle_state'', pget stored ''lifecycle_state'')] trace) }"

definition get_recovery_trace :: "'r server \<Rightarrow> redis_config \<Rightarrow> string \<Rightarrow> ('r, obj option) redis" where
  "get_recovery_trace exec cfg tid = get_json exec cfg [''recovery_trace'', tid]"

definition trace_event :: "string \<Rightarrow> obj \<Rightarrow> obj" where
  "trace_event tid payload = [(''recovery_trace_id'', PStr tid), (''run_id'', pget payload ''run_id''),
     (''bot_id'', pget payload ''bot_id''), (''status'', pget payload ''status''),
     (''lifecycle_state'', pget payload ''lifecycle_state'')]"

definition transition_recovery_trace ::
    "'r server \<Rightarrow> redis_config \<Rightarrow> string \<Rightarrow> string \<Rightarrow> string \<Rightarrow> obj option \<Rightarrow> string option \<Rightarrow> string option \<Rightarrow>
      ('r, obj option) redis" where
  "transition_recovery_trace exec cfg tid status lifecycle patch trace event_type = do {
     found \<leftarrow> get_recovery_trace exec cfg tid;
     (case found of
        None \<Rightarrow> State_Monad.return None
      | Some current \<Rightarrow>
          if low_text current ''status'' \<in> {''resolved'', ''cancelled''}
          then State_Monad.return (Some (dset current ''_conflict'' (PStr ''terminal'')))
          else do {
            let payload = dmerge (dset (dset current ''status'' (PStr status)) ''lifecycle_state'' (PStr lifecycle))
              (case patch of None \<Rightarrow> [] | Some p \<Rightarrow> p);
            _ \<leftarrow> sync_recovery_trace exec cfg tid payload trace;
            _ \<leftarrow> (let rid = text_of payload ''run_id'' in
               if rid = [] then State_Monad.return ()
               else do {
                 latest \<leftarrow> get_recovery_trace exec cfg tid;
                 (case latest of None \<Rightarrow> State_Monad.return ()
                  | Some l \<Rightarrow> do {
                      _ \<leftarrow> sync_arbitrage_evaluation_recovery_state exec cfg rid l trace;
                      State_Monad.return () }) });
            _ \<leftarrow> (case event_type of
               None \<Rightarrow> State_Monad.return ()
             | Some e \<Rightarrow> run_if (e \<noteq> []) (append_event exec cfg ''strategy_events'' e (trace_event tid payload) trace));
            get_recovery_trace exec cfg tid }) }"

section \<open>Pair locks\<close>

definition get_pair_lock :: "'r server \<Rightarrow> redis_config \<Rightarrow> string \<Rightarrow> string \<Rightarrow> ('r, obj option) redis" where
  "get_pair_lock exec cfg market qid = get_json exec cfg [''pair_lock'', market, qid]"

definition effective_ttl :: "int option \<Rightarrow> int" where
  "effective_ttl ttl = max 1 (case ttl of None \<Rightarrow> PAIR_LOCK_TTL_SECONDS
     | Some t \<Rightarrow> if t = 0 then PAIR_LOCK_TTL_SECONDS else t)"

definition lock_to_store :: "string \<Rightarrow> string \<Rightarrow> string \<Rightarrow> int \<Rightarrow> obj \<Rightarrow> obj" where
  "lock_to_store market qid ts ttl payload =
     (let p = dmerge payload [(''market'', PStr market), (''quote_pair_id'', PStr qid),
                (''updated_at'', PStr ts), (''ttl_seconds'', PInt ttl)]
      in if truthy (pget p ''acquired_at'') then p else dset p ''acquired_at'' (PStr ts))"

definition same_lock_owner :: "obj \<Rightarrow> obj \<Rightarrow> bool" where
  \<comment> \<open>\<open>same_owner or same_run\<close>: the holder of the lock asks again\<close>
  "same_lock_owner requested existing =
     ((text_of requested ''owner_id'' \<noteq> [] \<and> text_of existing ''owner_id'' = text_of requested ''owner_id'')
      \<or> (text_of requested ''strategy_run_id'' \<noteq> [] \<and> text_of requested ''bot_id'' \<noteq> []
         \<and> text_of existing ''strategy_run_id'' = text_of requested ''strategy_run_id''
         \<and> text_of existing ''bot_id'' = text_of requested ''bot_id''))"

definition lock_event :: "string \<Rightarrow> string \<Rightarrow> obj \<Rightarrow> obj" where
  "lock_event market qid p = [(''market'', PStr market), (''quote_pair_id'', PStr qid),
     (''strategy_run_id'', PStr (text_of p ''strategy_run_id'')), (''bot_id'', PStr (text_of p ''bot_id'')),
     (''lifecycle_state'', pget p ''lifecycle_state'')]"

definition acquire_pair_lock ::
    "'r server \<Rightarrow> redis_config \<Rightarrow> string \<Rightarrow> string \<Rightarrow> obj \<Rightarrow> string option \<Rightarrow> int option \<Rightarrow>
      ('r, string \<times> obj option) redis" where
  "acquire_pair_lock exec cfg market qid payload trace ttl =
     (if \<not> rc_client cfg then State_Monad.return (''disabled'', None)
      else do {
        ts \<leftarrow> draw_now cfg;
        let stored = lock_to_store market qid ts (effective_ttl ttl) payload;
        existing \<leftarrow> get_pair_lock exec cfg market qid;
        (case existing of
           Some held \<Rightarrow>
             if same_lock_owner stored held then do {
               ok \<leftarrow> set_json exec cfg [''pair_lock'', market, qid] stored (Some (effective_ttl ttl));
               if ok then do {
                 _ \<leftarrow> append_event exec cfg ''strategy_events'' ''strategy.pair_lock.refreshed''
                   (lock_event market qid stored) trace;
                 State_Monad.return (''refreshed'', Some stored) }
               else State_Monad.return (''failed'', Some held) }
             else do {
               _ \<leftarrow> append_event exec cfg ''strategy_events'' ''strategy.pair_lock.conflict''
                 [(''market'', PStr market), (''quote_pair_id'', PStr qid),
                  (''requested_strategy_run_id'', PStr (text_of stored ''strategy_run_id'')),
                  (''requested_bot_id'', PStr (text_of stored ''bot_id'')),
                  (''existing_strategy_run_id'', pget held ''strategy_run_id''),
                  (''existing_bot_id'', pget held ''bot_id'')] trace;
               State_Monad.return (''conflict'', Some held) }
         | None \<Rightarrow> do {
             r \<leftarrow> client_execute exec [''SET'', redis_key cfg [''pair_lock'', market, qid], dumps (PDict stored),
                    ''NX'', ''EX'', int_str (effective_ttl ttl)];
             (case r of
                Inl e \<Rightarrow> State_Monad.return (''failed'', None)
              | Inr v \<Rightarrow>
                  if v = RStr ''OK'' then do {
                    _ \<leftarrow> append_event exec cfg ''strategy_events'' ''strategy.pair_lock.acquired''
                      (lock_event market qid stored) trace;
                    State_Monad.return (''acquired'', Some stored) }
                  else do {
                    held \<leftarrow> get_pair_lock exec cfg market qid;
                    State_Monad.return (''conflict'', held) }) }) })"

record release_args =
  ra_strategy_run_id :: "string option"
  ra_bot_id :: "string option"
  ra_owner_id :: "string option"

definition given_text :: "string option \<Rightarrow> string" where
  "given_text t = (case t of None \<Rightarrow> [] | Some x \<Rightarrow> x)"

definition release_matches :: "release_args \<Rightarrow> obj \<Rightarrow> bool" where
  "release_matches a held =
     ((given_text (ra_owner_id a) \<noteq> [] \<and> text_of held ''owner_id'' = given_text (ra_owner_id a))
      \<or> (given_text (ra_strategy_run_id a) \<noteq> [] \<and> given_text (ra_bot_id a) \<noteq> []
         \<and> text_of held ''strategy_run_id'' = strip (given_text (ra_strategy_run_id a))
         \<and> text_of held ''bot_id'' = strip (given_text (ra_bot_id a))))"

definition release_identified :: "release_args \<Rightarrow> bool" where
  "release_identified a = (ra_owner_id a \<noteq> None \<or> ra_strategy_run_id a \<noteq> None \<and> ra_bot_id a \<noteq> None)"

definition deleted_one :: "reply \<Rightarrow> bool" where
  \<comment> \<open>\<open>int(deleted or 0) == 1\<close> on the integer reply of \<open>DEL\<close>\<close>
  "deleted_one v = (v = RInt 1)"

definition release_pair_lock ::
    "'r server \<Rightarrow> redis_config \<Rightarrow> string \<Rightarrow> string \<Rightarrow> release_args \<Rightarrow> string option \<Rightarrow>
      ('r, string \<times> obj option) redis" where
  "release_pair_lock exec cfg market qid a trace =
     (if \<not> rc_client cfg then State_Monad.return (''disabled'', None)
      else do {
        existing \<leftarrow> get_pair_lock exec cfg market qid;
        (case existing of
           None \<Rightarrow> State_Monad.return (''missing'', None)
         | Some held \<Rightarrow>
             if release_identified a \<and> \<not> release_matches a held then do {
               _ \<leftarrow> append_event exec cfg ''strategy_events'' ''strategy.pair_lock.release_failed''
                 [(''market'', PStr market), (''quote_pair_id'', PStr qid),
                  (''requested_strategy_run_id'', opt_str (ra_strategy_run_id a)),
                  (''requested_bot_id'', opt_str (ra_bot_id a)),
                  (''existing_strategy_run_id'', pget held ''strategy_run_id''),
                  (''existing_bot_id'', pget held ''bot_id''), (''reason'', PStr ''owner_mismatch'')] trace;
               State_Monad.return (''conflict'', Some held) }
             else do {
               r \<leftarrow> client_execute exec [''DEL'', redis_key cfg [''pair_lock'', market, qid]];
               (case r of
                  Inl e \<Rightarrow> State_Monad.return (''failed'', Some held)
                | Inr v \<Rightarrow>
                    if deleted_one v then do {
                      _ \<leftarrow> append_event exec cfg ''strategy_events'' ''strategy.pair_lock.released''
                        [(''market'', PStr market), (''quote_pair_id'', PStr qid),
                         (''strategy_run_id'', pget held ''strategy_run_id''), (''bot_id'', pget held ''bot_id'')] trace;
                      State_Monad.return (''released'', Some held) }
                    else do {
                      _ \<leftarrow> append_event exec cfg ''strategy_events'' ''strategy.pair_lock.release_failed''
                        [(''market'', PStr market), (''quote_pair_id'', PStr qid),
                         (''strategy_run_id'', pget held ''strategy_run_id''), (''bot_id'', pget held ''bot_id''),
                         (''reason'', PStr ''delete_missed'')] trace;
                      State_Monad.return (''failed'', Some held) }) }) })"

end
