(* ===== verification/RedisQueries.thy ===== *)
theory RedisQueries
  imports RedisRuntime InputLoader
begin

text \<open>
  The queries of \<open>redis_runtime.py\<close>: scanning keys, the lists of recovery traces, pair locks,
  evaluations and order books, and the event streams. The scan loop asks the server until it returns
  the cursor 0, which the server may never do: it takes fuel, and \<open>More\<close> is running out of it.
\<close>

section \<open>Scanning keys\<close>

datatype 'a fetched = Fetched (the_fetched: 'a) | Fetch_failed | More

fun reply_val :: "reply \<Rightarrow> pyval" where
  "reply_val RNil = PNone"
| "reply_val (RStr s) = PStr s"
| "reply_val (RInt i) = PInt i"
| "reply_val (RBool b) = PBool b"
| "reply_val (RList vs) = PList (map reply_val vs)"

fun add_new_keys :: "reply list \<Rightarrow> string list \<Rightarrow> string list" where
  "add_new_keys [] keys = keys"
| "add_new_keys (RStr k # vs) keys = add_new_keys vs (if k \<in> set keys then keys else keys @ [k])"
| "add_new_keys (_ # vs) keys = add_new_keys vs keys"

fun scan_loop :: "'r server \<Rightarrow> redis_config \<Rightarrow> string \<Rightarrow> nat \<Rightarrow> string \<Rightarrow> string list \<Rightarrow>
    ('r, string list fetched) redis" where
  "scan_loop exec cfg pattern 0 cursor keys = State_Monad.return More"
| "scan_loop exec cfg pattern (Suc n) cursor keys = do {
     r \<leftarrow> execute exec cfg [''SCAN'', cursor, ''MATCH'', pattern, ''COUNT'', ''100''];
     (case r of
        RList [next, RList batch] \<Rightarrow>
          let keys' = add_new_keys batch keys in
          if py_str (reply_val next) = ''0'' then State_Monad.return (Fetched keys')
          else scan_loop exec cfg pattern n (py_str (reply_val next)) keys'
      | _ \<Rightarrow> State_Monad.return Fetch_failed) }"

definition scan_keys :: "'r server \<Rightarrow> redis_config \<Rightarrow> nat \<Rightarrow> string \<Rightarrow> ('r, string list fetched) redis" where
  "scan_keys exec cfg fuel pattern =
     (if \<not> info_enabled cfg then State_Monad.return Fetch_failed
      else scan_loop exec cfg pattern fuel ''0'' [])"

fun load_rows :: "'r server \<Rightarrow> redis_config \<Rightarrow> string \<Rightarrow> (string \<Rightarrow> bool) \<Rightarrow> string list \<Rightarrow> ('r, obj list) redis" where
  \<comment> \<open>\<open>wanted\<close> looks at the key before its value is read\<close>
  "load_rows exec cfg prefix wanted [] = State_Monad.return []"
| "load_rows exec cfg prefix wanted (k # ks) =
     (if \<not> starts_with prefix k \<or> \<not> wanted (drop (length prefix) k) then load_rows exec cfg prefix wanted ks
      else do {
        row \<leftarrow> get_json_by_full_key exec cfg k;
        rows \<leftarrow> load_rows exec cfg prefix wanted ks;
        State_Monad.return (case row of None \<Rightarrow> rows | Some r \<Rightarrow> r # rows) })"

definition page :: "int \<Rightarrow> 'a list \<Rightarrow> 'a list" where
  "page limit rows = take (nat (max 1 (min limit 100))) rows"

definition time_field :: "obj \<Rightarrow> string \<Rightarrow> time option" where
  "time_field item k = (case pget item k of
       PStr s \<Rightarrow> if s = [] then None else parse_iso (replace_Z s)
     | _ \<Rightarrow> None)"

definition time_key :: "string \<Rightarrow> string \<Rightarrow> obj \<Rightarrow> time" where
  "time_key f g item = (case time_field item f of Some t \<Rightarrow> t
     | None \<Rightarrow> (case time_field item g of Some t \<Rightarrow> t | None \<Rightarrow> 0))"

definition wants :: "string \<Rightarrow> string \<Rightarrow> bool" where
  \<comment> \<open>an empty filter text selects everything\<close>
  "wants filter_text value = (filter_text = [] \<or> value = filter_text)"

section \<open>Recovery traces and pair locks\<close>

record trace_query =
  tq_bot_id :: "string option"
  tq_run_id :: "string option"
  tq_status :: "string option"
  tq_lifecycle :: "string option"

definition trace_selected :: "trace_query \<Rightarrow> obj \<Rightarrow> bool" where
  "trace_selected q p = (wants (given_text (tq_bot_id q)) (raw_text p ''bot_id'')
     \<and> wants (given_text (tq_run_id q)) (raw_text p ''run_id'')
     \<and> wants (lower (strip (given_text (tq_status q)))) (low_text p ''status'')
     \<and> wants (lower (strip (given_text (tq_lifecycle q)))) (low_text p ''lifecycle_state''))"

definition list_recovery_traces ::
    "'r server \<Rightarrow> redis_config \<Rightarrow> nat \<Rightarrow> int \<Rightarrow> trace_query \<Rightarrow> ('r, obj list fetched) redis" where
  "list_recovery_traces exec cfg fuel limit q = do {
     keys \<leftarrow> scan_keys exec cfg fuel (redis_key cfg [''recovery_trace'', ''*'']);
     (case keys of
        Fetched ks \<Rightarrow> do {
          rows \<leftarrow> load_rows exec cfg (redis_key cfg [''recovery_trace''] @ '':'') (\<lambda>_. True) ks;
          State_Monad.return (Fetched (page limit
            (newest (time_key ''updated_at'' ''created_at'') (filter (trace_selected q) rows)))) }
      | Fetch_failed \<Rightarrow> State_Monad.return Fetch_failed
      | More \<Rightarrow> State_Monad.return More) }"

definition blocking_query :: "string option \<Rightarrow> string option \<Rightarrow> string \<Rightarrow> trace_query" where
  "blocking_query bid rid st = \<lparr>tq_bot_id = bid, tq_run_id = rid, tq_status = Some st, tq_lifecycle = None\<rparr>"

definition first_row :: "obj list \<Rightarrow> obj option" where
  "first_row rows = (case rows of [] \<Rightarrow> None | r # _ \<Rightarrow> Some r)"

definition get_blocking_recovery_trace ::
    "'r server \<Rightarrow> redis_config \<Rightarrow> nat \<Rightarrow> string option \<Rightarrow> string option \<Rightarrow> ('r, obj option fetched) redis" where
  \<comment> \<open>\<open>Fetch_failed\<close> is the \<open>RuntimeError\<close> of the code\<close>
  "get_blocking_recovery_trace exec cfg fuel bid rid = do {
     a \<leftarrow> list_recovery_traces exec cfg fuel 10 (blocking_query bid rid ''handoff_required'');
     (case a of
        Fetched xs \<Rightarrow> do {
          b \<leftarrow> list_recovery_traces exec cfg fuel 10 (blocking_query bid rid ''active'');
          State_Monad.return (case b of
              Fetched ys \<Rightarrow> Fetched (first_row (newest (time_key ''updated_at'' ''created_at'') (xs @ ys)))
            | Fetch_failed \<Rightarrow> Fetch_failed
            | More \<Rightarrow> More) }
      | Fetch_failed \<Rightarrow> State_Monad.return Fetch_failed
      | More \<Rightarrow> State_Monad.return More) }"

definition list_pair_locks ::
    "'r server \<Rightarrow> redis_config \<Rightarrow> nat \<Rightarrow> string option \<Rightarrow> int \<Rightarrow> ('r, obj list fetched) redis" where
  "list_pair_locks exec cfg fuel market limit = do {
     keys \<leftarrow> scan_keys exec cfg fuel (redis_key cfg [''pair_lock'', ''*'']);
     (case keys of
        Fetched ks \<Rightarrow> do {
          rows \<leftarrow> load_rows exec cfg (redis_key cfg [''pair_lock''] @ '':'') (\<lambda>_. True) ks;
          State_Monad.return (Fetched (page limit (newest (time_key ''updated_at'' ''acquired_at'')
            (filter (\<lambda>p. wants (strip (given_text market)) (text_of p ''market'')) rows)))) }
      | Fetch_failed \<Rightarrow> State_Monad.return Fetch_failed
      | More \<Rightarrow> State_Monad.return More) }"

section \<open>Evaluations and order books\<close>

record evaluation_query =
  eq_bot_id :: "string option"
  eq_accepted :: "bool option"
  eq_lifecycle_preview :: "string option"
  eq_reason_code :: "string option"

definition evaluation_selected :: "evaluation_query \<Rightarrow> obj \<Rightarrow> bool" where
  "evaluation_selected q p = (wants (given_text (eq_bot_id q)) (raw_text p ''bot_id'')
     \<and> (case eq_accepted q of None \<Rightarrow> True | Some b \<Rightarrow> pget p ''accepted'' = PBool b)
     \<and> wants (strip (given_text (eq_lifecycle_preview q))) (raw_text p ''lifecycle_preview'')
     \<and> wants (strip (given_text (eq_reason_code q))) (raw_text p ''reason_code''))"

definition list_arbitrage_evaluations ::
    "'r server \<Rightarrow> redis_config \<Rightarrow> nat \<Rightarrow> int \<Rightarrow> evaluation_query \<Rightarrow> ('r, obj list fetched) redis" where
  "list_arbitrage_evaluations exec cfg fuel limit q = do {
     keys \<leftarrow> scan_keys exec cfg fuel (redis_key cfg [''strategy_run'', ''*'', ''latest_evaluation'']);
     (case keys of
        Fetched ks \<Rightarrow> do {
          rows \<leftarrow> load_rows exec cfg (redis_key cfg [''strategy_run''] @ '':'') (\<lambda>_. True) ks;
          State_Monad.return (Fetched (page limit
            (newest (time_key ''cached_at'' ''cached_at'') (filter (evaluation_selected q) rows)))) }
      | Fetch_failed \<Rightarrow> State_Monad.return Fetch_failed
      | More \<Rightarrow> State_Monad.return More) }"

definition top_key_selected :: "string \<Rightarrow> string \<Rightarrow> string \<Rightarrow> bool" where
  "top_key_selected exchange market suffix =
     (CHR '':'' \<in> set suffix
      \<and> wants exchange (lower (strip (takeWhile (\<lambda>c. c \<noteq> CHR '':'') suffix)))
      \<and> wants market (upper (strip (drop 1 (dropWhile (\<lambda>c. c \<noteq> CHR '':'') suffix)))))"

definition list_market_orderbook_tops ::
    "'r server \<Rightarrow> redis_config \<Rightarrow> nat \<Rightarrow> string option \<Rightarrow> string option \<Rightarrow> int \<Rightarrow> ('r, obj list fetched) redis" where
  "list_market_orderbook_tops exec cfg fuel exchange market limit = do {
     keys \<leftarrow> scan_keys exec cfg fuel (redis_key cfg [''market'', ''orderbook_top'', ''*'']);
     (case keys of
        Fetched ks \<Rightarrow> do {
          rows \<leftarrow> load_rows exec cfg (redis_key cfg [''market'', ''orderbook_top''] @ '':'')
            (top_key_selected (lower (strip (given_text exchange))) (upper (strip (given_text market)))) ks;
          State_Monad.return (Fetched (page limit (newest (\<lambda>p. raw_text p ''received_at'') rows))) }
      | Fetch_failed \<Rightarrow> State_Monad.return Fetch_failed
      | More \<Rightarrow> State_Monad.return More) }"

section \<open>Event streams\<close>

definition parse_stream_entry :: "reply \<Rightarrow> obj option" where
  "parse_stream_entry entry = (case entry of
       RList [RStr sid, RList (_ # RStr text # _)] \<Rightarrow>
         (case loads text of Some (PDict d) \<Rightarrow> Some (dmerge [(''stream_id'', PStr sid)] d) | _ \<Rightarrow> None)
     | _ \<Rightarrow> None)"

definition parse_stream_entries :: "reply list \<Rightarrow> obj list" where
  "parse_stream_entries vs = concat (map (\<lambda>v. case parse_stream_entry v of None \<Rightarrow> [] | Some e \<Rightarrow> [e]) vs)"

definition list_stream_events ::
    "'r server \<Rightarrow> redis_config \<Rightarrow> string \<Rightarrow> int \<Rightarrow> string option \<Rightarrow> ('r, obj list option) redis" where
  "list_stream_events exec cfg stream limit before = do {
     r \<leftarrow> execute exec cfg [''XREVRANGE'', redis_key cfg [''stream'', stream],
            (if given_text before = [] then ''+'' else CHR ''('' # strip (given_text before)), ''-'', ''COUNT'', int_str limit];
     State_Monad.return (case r of RList vs \<Rightarrow> Some (parse_stream_entries vs) | _ \<Rightarrow> None) }"

definition reply_int :: "reply \<Rightarrow> int option" where
  "reply_int r = (case r of RInt i \<Rightarrow> Some i | RBool b \<Rightarrow> Some (if b then 1 else 0)
     | RStr s \<Rightarrow> int_of_str s | _ \<Rightarrow> None)"

definition stream_summary :: "string \<Rightarrow> int \<Rightarrow> obj option \<Rightarrow> obj option \<Rightarrow> obj" where
  "stream_summary stream len newest_event oldest_event =
     (let len' = (if len = 0 \<and> (newest_event \<noteq> None \<or> oldest_event \<noteq> None) then 1 else len);
          n = (if newest_event = None then oldest_event else newest_event);
          oldest = (if oldest_event = None then n else oldest_event);
          field = (\<lambda>ev k. case ev of None \<Rightarrow> PNone | Some e \<Rightarrow> if e = [] then PNone else pget e k)
      in [(''stream_name'', PStr stream), (''length'', PInt len'),
          (''newest_stream_id'', field n ''stream_id''), (''newest_occurred_at'', field n ''occurred_at''),
          (''oldest_stream_id'', field oldest ''stream_id''), (''oldest_occurred_at'', field oldest ''occurred_at'')])"

definition get_stream_summary :: "'r server \<Rightarrow> redis_config \<Rightarrow> string \<Rightarrow> ('r, obj option) redis" where
  "get_stream_summary exec cfg stream = do {
     let key = redis_key cfg [''stream'', stream];
     len \<leftarrow> execute exec cfg [''XLEN'', key];
     (case reply_int len of
        None \<Rightarrow> State_Monad.return None
      | Some n \<Rightarrow> do {
          newest_rows \<leftarrow> list_stream_events exec cfg stream 1 None;
          oldest \<leftarrow> execute exec cfg [''XRANGE'', key, ''-'', ''+'', ''COUNT'', ''1''];
          State_Monad.return (case oldest of
              RList vs \<Rightarrow> Some (stream_summary stream n
                 (case newest_rows of Some (e # _) \<Rightarrow> Some e | _ \<Rightarrow> None)
                 (case vs of [] \<Rightarrow> None | v # _ \<Rightarrow> parse_stream_entry v))
            | _ \<Rightarrow> None) }) }"

end
