(* ===== verification/Recovery.thy ===== *)
theory Recovery
  imports RedisQueries "HOL-Library.Product_Lexorder"
begin

text \<open>
  The decisions of \<open>recovery_runtime.py\<close>: what happens to an active recovery trace. The checks read the
  trace (a JSON object), the store and the time, and change nothing; \<open>trace_action\<close> is the decision of
  \<open>_process_trace\<close> once the reconciliation is recorded. Every place that reads the time has a reading of
  its own, \<open>clock i\<close>.
\<close>

section \<open>Settings\<close>

definition KNOWN_ORDER_STATUSES :: "string list" where
  "KNOWN_ORDER_STATUSES = [''new'', ''submitted'', ''partially_filled'', ''filled'', ''cancelled'', ''rejected'',
     ''expired'', ''failed'']"

definition RECOVERY_TERMINAL_STATUSES :: "string list" where
  "RECOVERY_TERMINAL_STATUSES = [''filled'', ''cancelled'', ''rejected'', ''expired'', ''failed'']"

definition TERMINAL_FAILURE_ORDER_STATUSES :: "string list" where
  "TERMINAL_FAILURE_ORDER_STATUSES = [''cancelled'', ''rejected'', ''expired'', ''failed'']"

definition TERMINAL_INTENT_STATUSES :: "string list" where
  "TERMINAL_INTENT_STATUSES = [''filled'', ''closed'', ''simulated'', ''cancelled'', ''expired'', ''rejected'']"

record recovery_config =
  rv_enabled :: bool
  rv_interval_ms :: int
  rv_handoff_after :: int
  rv_submit_timeout :: int
  rv_mismatch_count :: int
  rv_stale_after :: int
  rv_store_mutable :: bool \<comment> \<open>\<open>read_store.supports_mutation\<close>\<close>

definition make_recovery_config :: "bool \<Rightarrow> int \<Rightarrow> int \<Rightarrow> int \<Rightarrow> int \<Rightarrow> int \<Rightarrow> bool \<Rightarrow> recovery_config" where
  "make_recovery_config on interval handoff submit mismatch stale mutable =
     \<lparr>rv_enabled = on, rv_interval_ms = max interval 250, rv_handoff_after = max handoff 0,
      rv_submit_timeout = max submit 1, rv_mismatch_count = max mismatch 1, rv_stale_after = max stale 1,
      rv_store_mutable = mutable\<rparr>"

section \<open>Reading a trace\<close>

definition parse_time :: "pyval \<Rightarrow> time option" where
  "parse_time v = (case v of PStr s \<Rightarrow> if s = [] then None else parse_iso (replace_Z s) | _ \<Rightarrow> None)"

definition parse_decimal_opt :: "pyval \<Rightarrow> dec option" where
  "parse_decimal_opt v = (if v = PNone then None else dparse (py_str v))"

definition parse_int_opt :: "pyval \<Rightarrow> int option" where
  "parse_int_opt v = (case v of PNone \<Rightarrow> None | PBool b \<Rightarrow> Some (if b then 1 else 0) | PInt i \<Rightarrow> Some i
     | _ \<Rightarrow> int_of_str (py_str v))"

fun statuses_from :: "string list \<Rightarrow> pyval list \<Rightarrow> (string \<times> string) list option" where
  "statuses_from seen [] = Some []"
| "statuses_from seen (v # vs) =
     (case v of
        PDict d \<Rightarrow>
          (case (pget d ''order_id'', pget d ''status'') of
             (PStr oid, PStr st) \<Rightarrow>
               (let o' = strip oid; st' = lower (strip st) in
                if o' = [] \<or> st' = [] \<or> st' \<notin> set KNOWN_ORDER_STATUSES \<or> o' \<in> set seen then None
                else map_option (\<lambda>r. (o', st') # r) (statuses_from (o' # seen) vs))
           | _ \<Rightarrow> None)
      | _ \<Rightarrow> None)"

definition observed_order_statuses :: "pyval \<Rightarrow> (string \<times> string) list option" where
  "observed_order_statuses v = (case v of PList vs \<Rightarrow> statuses_from [] vs | _ \<Rightarrow> None)"

fun string_ids_from :: "string list \<Rightarrow> pyval list \<Rightarrow> string list option" where
  "string_ids_from seen [] = Some []"
| "string_ids_from seen (v # vs) =
     (case v of
        PStr s \<Rightarrow> if strip s = [] \<or> strip s \<in> set seen then None
                 else map_option (\<lambda>r. strip s # r) (string_ids_from (strip s # seen) vs)
      | _ \<Rightarrow> None)"

definition observed_string_ids :: "pyval \<Rightarrow> string list option" where
  "observed_string_ids v = (case v of PList vs \<Rightarrow> string_ids_from [] vs | _ \<Rightarrow> None)"

record observed_balance =
  ob_exchange :: string
  ob_asset :: string
  ob_free :: dec
  ob_locked :: dec

definition balance_of_item :: "obj \<Rightarrow> observed_balance option" where
  "balance_of_item d =
     (case (pget d ''exchange_name'', pget d ''asset'', parse_decimal_opt (pget d ''free''), parse_decimal_opt (pget d ''locked'')) of
        (PStr e, PStr a, Some free, Some locked) \<Rightarrow>
          if strip e = [] \<or> strip a = [] \<or> dlt free (Dec 0 0) \<or> dlt locked (Dec 0 0) then None
          else Some \<lparr>ob_exchange = strip e, ob_asset = upper (strip a), ob_free = free, ob_locked = locked\<rparr>
      | _ \<Rightarrow> None)"

fun balances_from :: "(string \<times> string) list \<Rightarrow> pyval list \<Rightarrow> observed_balance list option" where
  "balances_from seen [] = Some []"
| "balances_from seen (v # vs) =
     (case v of
        PDict d \<Rightarrow>
          (case balance_of_item d of
             None \<Rightarrow> None
           | Some b \<Rightarrow>
               if (ob_exchange b, ob_asset b) \<in> set seen then None
               else map_option (\<lambda>r. b # r) (balances_from ((ob_exchange b, ob_asset b) # seen) vs))
      | _ \<Rightarrow> None)"

definition observed_balances :: "pyval \<Rightarrow> observed_balance list option" where
  "observed_balances v = (case v of PList vs \<Rightarrow> balances_from [] vs | _ \<Rightarrow> None)"

definition trace_intent_id :: "obj \<Rightarrow> string" where
  "trace_intent_id trace =
     (if text_of trace ''linked_unwind_action_id'' \<noteq> [] then text_of trace ''linked_unwind_action_id''
      else text_of trace ''intent_id'')"

definition age_seconds :: "time \<Rightarrow> time \<Rightarrow> int" where
  \<comment> \<open>\<open>max(0, int((now - t).total_seconds()))\<close>\<close>
  "age_seconds nw t = max 0 (trunc (total_seconds (nw - t)))"

definition or_else :: "'a option \<Rightarrow> 'a option \<Rightarrow> 'a option" where
  "or_else a b = (case a of None \<Rightarrow> b | Some x \<Rightarrow> Some x)"

definition trace_age_seconds :: "time \<Rightarrow> obj \<Rightarrow> int option" where
  "trace_age_seconds nw trace =
     map_option (age_seconds nw)
       (or_else (parse_time (pget trace ''opened_at'')) (parse_time (pget trace ''created_at'')))"

definition sorted_texts :: "string list \<Rightarrow> string list" where
  "sorted_texts xs = sort (remdups xs)"

section \<open>Checks of the reconciliation\<close>

text \<open>A check returns the reason and the summary of a handoff, or nothing.\<close>

type_synonym check = "(string \<times> string) option"

definition open_count :: "obj \<Rightarrow> int option" where
  "open_count trace = parse_int_opt (pget trace ''reconciliation_open_order_count'')"

definition residual :: "obj \<Rightarrow> dec option" where
  "residual trace = parse_decimal_opt (pget trace ''reconciliation_residual_exposure_quote'')"

definition is_zero :: "dec option \<Rightarrow> bool" where
  "is_zero d = (case d of None \<Rightarrow> False | Some x \<Rightarrow> deq x (Dec 0 0))"

definition matched_zero :: "obj \<Rightarrow> bool" where
  \<comment> \<open>the guard the checks of a matched result share: no open orders and no residual exposure\<close>
  "matched_zero trace = (low_text trace ''reconciliation_result'' = ''matched''
     \<and> open_count trace = Some 0 \<and> is_zero (residual trace))"

definition invalid_core_fields :: "time \<Rightarrow> obj \<Rightarrow> string list" where
  "invalid_core_fields nw trace =
     (let raw = pget trace ''reconciliation_open_order_count'';
          at_raw = pget trace ''reconciliation_observed_at'';
          streak_raw = pget trace ''reconciliation_mismatch_streak''
      in (if as_bool raw \<noteq> None \<or> (case parse_int_opt raw of None \<Rightarrow> True | Some i \<Rightarrow> i < 0)
          then [''open_order_count''] else [])
       @ (if (case residual trace of None \<Rightarrow> True | Some d \<Rightarrow> dlt d (Dec 0 0)) then [''residual_exposure_quote''] else [])
       @ (if at_raw \<noteq> PNone \<and> (case parse_time at_raw of None \<Rightarrow> True | Some t \<Rightarrow> nw < t) then [''observed_at''] else [])
       @ (if low_text trace ''reconciliation_result'' = ''mismatch'' \<and> has_key trace ''reconciliation_mismatch_streak''
             \<and> (as_bool streak_raw \<noteq> None \<or> (case parse_int_opt streak_raw of None \<Rightarrow> True | Some i \<Rightarrow> i < 0))
          then [''mismatch_streak''] else []))"

definition invalid_result_reason :: "time \<Rightarrow> obj \<Rightarrow> check" where
  "invalid_result_reason nw trace =
     (let result = low_text trace ''reconciliation_result'' in
      if result \<notin> {''matched'', ''mismatch''} then
        (if \<not> has_key trace ''reconciliation_result'' \<and> result = [] then
           (if list_ex (\<lambda>p. starts_with ''reconciliation_'' (fst p) \<and> fst p \<noteq> ''reconciliation_result'') trace
            then Some (''reconciliation_result_invalid'',
                       ''reconciliation result is missing while reconciliation fields are present'')
            else None)
         else Some (''reconciliation_result_invalid'', ''reconciliation result contains invalid result value''))
      else (let bad = invalid_core_fields nw trace in
        if bad = [] then None
        else Some (''reconciliation_result_invalid'',
               ''reconciliation result contains invalid core fields: '' @ join '', '' bad)))"

definition stale_reason :: "recovery_config \<Rightarrow> time \<Rightarrow> obj \<Rightarrow> check" where
  "stale_reason cfg nw trace =
     (if \<not> matched_zero trace then None
      else (case parse_time (pget trace ''reconciliation_observed_at'') of
          None \<Rightarrow> Some (''reconciliation_observation_missing'',
                    ''reconciliation matched result is missing observation timestamp'')
        | Some t \<Rightarrow> if age_seconds nw t < rv_stale_after cfg then None
            else Some (''reconciliation_observation_stale'',
                   ''reconciliation matched result is older than automatic resolution threshold'')))"

definition invalid_field :: "obj \<Rightarrow> string \<Rightarrow> (pyval \<Rightarrow> 'a list option) \<Rightarrow> bool" where
  "invalid_field trace k f = (pget trace k \<noteq> PNone \<and> f (pget trace k) = None)"

definition invalid_evidence_reason :: "obj \<Rightarrow> check" where
  "invalid_evidence_reason trace =
     (if low_text trace ''reconciliation_result'' \<notin> {''matched'', ''mismatch''} then None
      else if open_count trace = None \<or> residual trace = None then None
      else (let bad =
            (if invalid_field trace ''reconciliation_observed_order_ids'' observed_string_ids then [''observed_order_ids''] else [])
          @ (if invalid_field trace ''reconciliation_observed_fill_ids'' observed_string_ids then [''observed_fill_ids''] else [])
          @ (if invalid_field trace ''reconciliation_observed_order_statuses'' observed_order_statuses
             then [''observed_order_statuses''] else [])
          @ (if invalid_field trace ''reconciliation_observed_balances'' observed_balances then [''observed_balances''] else [])
        in if bad = [] then None
           else Some (''reconciliation_evidence_invalid'',
                  ''reconciliation matched result contains invalid evidence fields: '' @ join '', '' bad)))"

definition nonempty :: "'a list option \<Rightarrow> bool" where
  "nonempty r = (case r of None \<Rightarrow> False | Some xs \<Rightarrow> xs \<noteq> [])"

definition evidence_reason :: "obj \<Rightarrow> check" where
  "evidence_reason trace =
     (if \<not> matched_zero trace then None
      else if nonempty (observed_string_ids (pget trace ''reconciliation_observed_fill_ids''))
           \<or> nonempty (observed_order_statuses (pget trace ''reconciliation_observed_order_statuses''))
           \<or> nonempty (observed_balances (pget trace ''reconciliation_observed_balances'')) then None
      else Some (''reconciliation_evidence_missing'',
             ''reconciliation matched result is missing fill, status, or balance evidence''))"

definition trace_statuses :: "obj \<Rightarrow> string list" where
  "trace_statuses trace =
     (case observed_order_statuses (pget trace ''reconciliation_observed_order_statuses'') of
        None \<Rightarrow> [] | Some rows \<Rightarrow> map (\<lambda>r. lower (strip (snd r))) rows)"

definition status_reason :: "obj \<Rightarrow> check" where
  "status_reason trace =
     (if \<not> matched_zero trace then None
      else (let failed = sorted_texts (filter (\<lambda>st. st \<in> set TERMINAL_FAILURE_ORDER_STATUSES) (trace_statuses trace));
                live = sorted_texts (filter (\<lambda>st. st \<notin> set RECOVERY_TERMINAL_STATUSES) (trace_statuses trace))
            in if failed \<noteq> [] then Some (''reconciliation_terminal_failure_status_conflict'',
                 ''reconciliation matched result conflicts with terminal failure order statuses: '' @ join '', '' failed)
               else if live \<noteq> [] then Some (''reconciliation_open_order_status_conflict'',
                 ''reconciliation matched result conflicts with non-terminal observed order statuses: '' @ join '', '' live)
               else None))"

definition intent_exchanges :: "store \<Rightarrow> obj \<Rightarrow> string list" where
  "intent_exchanges s trace =
     (let iid = trace_intent_id trace in
      if iid = [] then []
      else (case map_of (order_intents s) iid of
          None \<Rightarrow> []
        | Some i \<Rightarrow> remdups (filter (\<lambda>e. e \<noteq> []) [strip (int_buy_exchange i), strip (int_sell_exchange i)])))"

definition market_parts :: "char \<Rightarrow> string \<Rightarrow> string list" where
  "market_parts sep market = filter (\<lambda>p. p \<noteq> []) (map strip (split_char sep market))"

definition market_assets :: "string \<Rightarrow> string list" where
  "market_assets market =
     (if market = [] then []
      else if length (market_parts (CHR ''-'') market) = 2 then remdups (market_parts (CHR ''-'') market)
      else if length (market_parts (CHR ''/'') market) = 2 then remdups (market_parts (CHR ''/'') market)
      else [])"

definition intent_assets :: "store \<Rightarrow> obj \<Rightarrow> string list" where
  "intent_assets s trace =
     (let iid = trace_intent_id trace in
      if iid = [] then []
      else (case map_of (order_intents s) iid of None \<Rightarrow> [] | Some i \<Rightarrow> market_assets (upper (strip (int_market i)))))"

definition balance_pairs :: "string list \<Rightarrow> string list \<Rightarrow> (string \<times> string) list" where
  "balance_pairs exchanges assets = sort (remdups (List.product exchanges assets))"

definition pair_text :: "string \<times> string \<Rightarrow> string" where
  "pair_text p = fst p @ (if snd p = [] then [] else CHR '':'' # snd p)"

definition locked_text :: "observed_balance \<Rightarrow> string" where
  "locked_text b = ob_exchange b @ '':'' @ ob_asset b @ '' locked='' @ dstr (ob_locked b)"

definition relevant_balances :: "string list \<Rightarrow> string list \<Rightarrow> observed_balance list \<Rightarrow> observed_balance list" where
  "relevant_balances exchanges assets rows =
     filter (\<lambda>b. strip (ob_exchange b) \<in> set exchanges \<and> upper (strip (ob_asset b)) \<in> set assets) rows"

definition missing_pairs :: "string list \<Rightarrow> string list \<Rightarrow> observed_balance list \<Rightarrow> (string \<times> string) list" where
  "missing_pairs exchanges assets rows =
     filter (\<lambda>p. p \<notin> set (map (\<lambda>b. (strip (ob_exchange b), upper (strip (ob_asset b)))) rows))
       (balance_pairs exchanges assets)"

definition balance_reason :: "store \<Rightarrow> obj \<Rightarrow> check" where
  "balance_reason s trace =
     (if \<not> matched_zero trace then None
      else (let exchanges = intent_exchanges s trace; assets = intent_assets s trace in
        if length exchanges < 2 then Some (''reconciliation_context_missing'',
             ''reconciliation matched result is missing complete intent exchange context'')
        else if assets = [] then Some (''reconciliation_market_context_missing'',
             ''reconciliation matched result is missing intent market asset context'')
        else (case observed_balances (pget trace ''reconciliation_observed_balances'') of
            Some (b # bs) \<Rightarrow>
              (let rows = relevant_balances exchanges assets (b # bs);
                   missing = missing_pairs exchanges assets rows;
                   locked = filter (\<lambda>r. dlt (Dec 0 0) (ob_locked r)) rows
               in if missing \<noteq> [] then Some (''reconciliation_balance_evidence_incomplete'',
                    ''reconciliation matched result is missing observed balances for exchange/assets: ''
                      @ join '', '' (map pair_text missing))
                  else if locked = [] then None
                  else Some (''reconciliation_balance_locked'',
                    ''reconciliation matched result still has locked balances: '' @ join '', '' (map locked_text locked)))
          | _ \<Rightarrow> Some (''reconciliation_balance_evidence_incomplete'',
               ''reconciliation matched result is missing observed balances for exchange/assets: ''
                 @ join '', '' (map (\<lambda>p. fst p @ CHR '':'' # snd p) (balance_pairs exchanges assets))))))"

definition resolution_reason :: "obj \<Rightarrow> string option" where
  "resolution_reason trace =
     (if low_text trace ''reconciliation_result'' \<noteq> ''matched'' then None
      else (case (open_count trace, residual trace) of
          (Some n, Some d) \<Rightarrow>
            if n < 0 then None
            else if n = 0 \<and> deq d (Dec 0 0) then Some ''reconciliation_matched_zero_residual'' else None
        | _ \<Rightarrow> None))"

definition open_orders_terminal_reason :: "int \<Rightarrow> string list \<Rightarrow> check" where
  "open_orders_terminal_reason n statuses =
     (if 0 < n \<and> statuses \<noteq> [] \<and> n \<le> int (length statuses) then
        (if list_all (\<lambda>st. st \<in> set TERMINAL_FAILURE_ORDER_STATUSES) statuses
         then Some (''reconciliation_open_orders_terminal_failure'',
           ''reconciliation reports open orders but observed order statuses are all terminal failures'')
         else if list_all (\<lambda>st. st \<in> set RECOVERY_TERMINAL_STATUSES) statuses
         then Some (''reconciliation_open_orders_terminal_status_conflict'',
           ''reconciliation reports open orders but observed order statuses are all terminal'')
         else None)
      else None)"

definition no_open_orders_reason :: "dec option \<Rightarrow> string list \<Rightarrow> check" where
  \<comment> \<open>a mismatch that reports no open orders\<close>
  "no_open_orders_reason d statuses =
     (let live = sorted_texts (filter (\<lambda>st. st \<notin> set RECOVERY_TERMINAL_STATUSES) statuses) in
      if live \<noteq> [] then Some (''reconciliation_zero_open_orders_status_conflict'',
        ''reconciliation reports no open orders but observed order statuses are non-terminal: '' @ join '', '' live)
      else (case d of
          None \<Rightarrow> None
        | Some r \<Rightarrow>
            if deq r (Dec 0 0) then Some (''reconciliation_mismatch_zero_residual_conflict'',
              ''reconciliation reports mismatch even though no open orders or residual exposure remain'')
            else if dlt (Dec 0 0) r then Some (''reconciliation_mismatch_residual_without_orders'',
              ''reconciliation reports no open orders while residual exposure remains'')
            else None))"

definition mismatch_reason :: "recovery_config \<Rightarrow> obj \<Rightarrow> check" where
  "mismatch_reason cfg trace =
     (if low_text trace ''reconciliation_result'' \<noteq> ''mismatch'' then None
      else if (case parse_int_opt (pget trace ''reconciliation_mismatch_streak'') of None \<Rightarrow> False
               | Some k \<Rightarrow> rv_mismatch_count cfg \<le> k)
      then Some (''reconciliation_mismatch_repeated'',
        ''reconciliation mismatch repeated beyond automatic recovery threshold'')
      else (case open_count trace of
          None \<Rightarrow> None
        | Some n \<Rightarrow>
            (case open_orders_terminal_reason n (trace_statuses trace) of
               Some r \<Rightarrow> Some r
             | None \<Rightarrow> if n = 0 then no_open_orders_reason (residual trace) (trace_statuses trace) else None)))"

section \<open>The linked unwind order\<close>

definition linked_order :: "store \<Rightarrow> obj \<Rightarrow> order option res" where
  "linked_order s trace =
     (let oid = text_of trace ''linked_unwind_order_id'' in
      if oid = [] then Inr None
      else andThen (get_order_detail s oid) (\<lambda>d. Inr (map_option od_order d)))"

definition unwind_failure_status :: "store \<Rightarrow> obj \<Rightarrow> string option res" where
  "unwind_failure_status s trace = andThen (linked_order s trace) (\<lambda>ord. Inr (case ord of
       None \<Rightarrow> None
     | Some x \<Rightarrow> let st = lower (strip (ord_status x)) in
         if st \<in> set TERMINAL_FAILURE_ORDER_STATUSES then Some st else None))"

definition order_observed_at :: "order \<Rightarrow> time option" where
  "order_observed_at x = or_else (parse_time (PStr (ord_updated_at x)))
     (or_else (parse_time (PStr (ord_submitted_at x))) (parse_time (PStr (ord_created_at x))))"

definition unwind_order_stale :: "recovery_config \<Rightarrow> time \<Rightarrow> store \<Rightarrow> obj \<Rightarrow> (string \<times> int) option res" where
  "unwind_order_stale cfg nw s trace = andThen (linked_order s trace) (\<lambda>ord. Inr (case ord of
       None \<Rightarrow> None
     | Some x \<Rightarrow> let st = lower (strip (ord_status x)) in
         if st \<in> set RECOVERY_TERMINAL_STATUSES then None
         else (case order_observed_at x of
             None \<Rightarrow> None
           | Some t \<Rightarrow> if age_seconds nw t < rv_submit_timeout cfg then None else Some (st, age_seconds nw t))))"

section \<open>The decision\<close>

datatype trace_action = Handoff string "string option" | Resolve string | No_change

fun first_some :: "'a option list \<Rightarrow> 'a option" where
  "first_some [] = None"
| "first_some (x # xs) = (case x of None \<Rightarrow> first_some xs | Some y \<Rightarrow> Some y)"

definition reconciliation_checks :: "recovery_config \<Rightarrow> (nat \<Rightarrow> time) \<Rightarrow> store \<Rightarrow> obj \<Rightarrow> check list" where
  "reconciliation_checks cfg clock s trace =
     [invalid_result_reason (clock 0) trace, stale_reason cfg (clock 1) trace, invalid_evidence_reason trace,
      evidence_reason trace, status_reason trace, balance_reason s trace]"

definition order_is_active :: "order \<Rightarrow> bool" where
  "order_is_active x = (lower (strip (ord_status x)) \<notin> set RECOVERY_TERMINAL_STATUSES)"

definition timeout_action :: "recovery_config \<Rightarrow> time \<Rightarrow> order list \<Rightarrow> obj \<Rightarrow> trace_action" where
  "timeout_action cfg nw ords trace =
     (if \<not> list_ex order_is_active ords \<and> is_zero (parse_decimal_opt (pget trace ''residual_exposure_quote''))
      then Resolve ''no_active_orders_and_zero_residual''
      else (case trace_age_seconds nw trace of
          None \<Rightarrow> No_change
        | Some age \<Rightarrow>
            if rv_handoff_after cfg < age \<and> \<not> truthy (pget trace ''manual_handoff_required'')
            then Handoff ''recovery_timeout_exceeded'' None else No_change))"

definition unwind_action :: "recovery_config \<Rightarrow> (nat \<Rightarrow> time) \<Rightarrow> store \<Rightarrow> order list \<Rightarrow> obj \<Rightarrow> trace_action res" where
  "unwind_action cfg clock s ords trace =
     andThen (unwind_failure_status s trace) (\<lambda>f. case f of
         Some st \<Rightarrow> Inr (Handoff ''unwind_order_terminal_without_resolution''
           (Some (''linked unwind order became terminal without resolution: '' @ st)))
       | None \<Rightarrow>
           andThen (unwind_order_stale cfg (clock 2) s trace) (\<lambda>u. Inr (case u of
               Some (st, age) \<Rightarrow> Handoff ''unwind_order_timeout_exceeded''
                 (Some (''linked unwind order remained non-terminal beyond submit timeout: status='' @ st
                        @ '' age_seconds='' @ int_str age))
             | None \<Rightarrow> timeout_action cfg (clock 3) ords trace)))"

definition trace_action :: "recovery_config \<Rightarrow> (nat \<Rightarrow> time) \<Rightarrow> store \<Rightarrow> order list \<Rightarrow> obj \<Rightarrow> trace_action res" where
  "trace_action cfg clock s ords trace =
     (case first_some (reconciliation_checks cfg clock s trace) of
        Some (reason, summary) \<Rightarrow> Inr (Handoff reason (Some summary))
      | None \<Rightarrow>
          (case resolution_reason trace of
             Some reason \<Rightarrow> Inr (Resolve reason)
           | None \<Rightarrow>
               (case mismatch_reason cfg trace of
                  Some (reason, summary) \<Rightarrow> Inr (Handoff reason (Some summary))
                | None \<Rightarrow> unwind_action cfg clock s ords trace)))"

end
