(* ===== verification/Reconciliation.thy ===== *)
theory Reconciliation
  imports Recovery
begin

text \<open>
  \<open>recovery_reconciliation_polling.py\<close>: the snapshot a private exchange connector gives of the orders of
  a recovery trace, and what the checks of \<open>Recovery\<close> make of it. A connector is a parameter: the data
  of its answer to an order status query and to a balance query, \<open>None\<close> when the outcome is not \<open>ok\<close>
  or the data is not an object.
\<close>

record connector =
  cn_order_status :: "string \<Rightarrow> string \<Rightarrow> obj option"
  cn_balances :: "obj option"

type_synonym connectors = "(string \<times> connector) list"

section \<open>Orders\<close>

record observation =
  obs_order_ids :: "string list"
  obs_statuses :: "(string \<times> string) list"
  obs_open :: int
  obs_net :: dec
  obs_price :: "dec option"

definition no_observation :: observation where
  "no_observation = \<lparr>obs_order_ids = [], obs_statuses = [], obs_open = 0, obs_net = Dec 0 0, obs_price = None\<rparr>"

definition dec_or :: "dec option \<Rightarrow> dec option \<Rightarrow> dec option" where
  \<comment> \<open>\<open>a or b\<close> on optional decimals: zero is false\<close>
  "dec_or a b = (case a of None \<Rightarrow> b | Some x \<Rightarrow> if deq x (Dec 0 0) then b else Some x)"

definition opt_text :: "string option \<Rightarrow> string" where
  "opt_text t = (case t of None \<Rightarrow> [] | Some x \<Rightarrow> strip x)"

definition dec_text_opt :: "string option \<Rightarrow> dec option" where
  "dec_text_opt t = (case t of None \<Rightarrow> None | Some x \<Rightarrow> dparse x)"

definition order_market_text :: "string \<Rightarrow> order \<Rightarrow> string" where
  "order_market_text market x = upper (strip (if ord_market x = [] then market else ord_market x))"

definition queried_payload :: "connectors \<Rightarrow> string \<Rightarrow> order \<Rightarrow> obj option" where
  \<comment> \<open>the usable answer for one order, if any\<close>
  "queried_payload cns market x =
     (case map_of cns (strip (ord_exchange_name x)) of
        None \<Rightarrow> None
      | Some cn \<Rightarrow>
          if opt_text (ord_exchange_order_id x) = [] \<or> strip (order_id x) = [] \<or> order_market_text market x = [] then None
          else (case cn_order_status cn (opt_text (ord_exchange_order_id x)) (order_market_text market x) of
              None \<Rightarrow> None
            | Some payload \<Rightarrow> if low_text payload ''status'' = [] then None else Some payload))"

definition observed_qty :: "obj \<Rightarrow> order_view \<Rightarrow> dec" where
  "observed_qty payload v = (case parse_decimal_opt (pget payload ''filled_qty'') of
       Some q \<Rightarrow> q
     | None \<Rightarrow> (case dec_or (dparse (agg_filled_qty (ov_aggregate v))) (Some (Dec 0 0)) of
         Some q \<Rightarrow> q | None \<Rightarrow> Dec 0 0))"

definition observed_price :: "obj \<Rightarrow> order_view \<Rightarrow> dec option" where
  "observed_price payload v =
     dec_or (dec_or (parse_decimal_opt (pget payload ''avg_fill_price'')) (parse_decimal_opt (pget payload ''requested_price'')))
       (dec_text_opt (ord_requested_price (ov_order v)))"

definition observed_side :: "obj \<Rightarrow> order \<Rightarrow> string" where
  "observed_side payload x =
     lower (strip (py_str (por (PStr (ord_side x)) (por (pget payload ''side'') (PStr [])))))"

definition observe_order :: "connectors \<Rightarrow> string \<Rightarrow> order_view \<Rightarrow> observation \<Rightarrow> observation" where
  "observe_order cns market v a =
     (let x = ov_order v in
      case queried_payload cns market x of
        None \<Rightarrow> a
      | Some payload \<Rightarrow>
          (let st = low_text payload ''status''; oid = strip (order_id x); q = observed_qty payload v;
               side = observed_side payload x
           in \<lparr>obs_order_ids = obs_order_ids a @ [oid], obs_statuses = obs_statuses a @ [(oid, st)],
               obs_open = obs_open a + (if st \<in> set RECOVERY_TERMINAL_STATUSES then 0 else 1),
               obs_net = (if side = ''buy'' then dadd (obs_net a) q else if side = ''sell'' then dsub (obs_net a) q else obs_net a),
               obs_price = (case observed_price payload v of None \<Rightarrow> obs_price a
                  | Some p \<Rightarrow> if dlt (Dec 0 0) p then Some p else obs_price a)\<rparr>))"

fun observe_orders :: "connectors \<Rightarrow> string \<Rightarrow> order_view list \<Rightarrow> observation \<Rightarrow> observation" where
  "observe_orders cns market [] a = a"
| "observe_orders cns market (v # vs) a = observe_orders cns market vs (observe_order cns market v a)"

section \<open>Balances\<close>

definition decimal_text :: "dec \<Rightarrow> string res" where
  \<comment> \<open>\<open>_decimal_text\<close>: \<open>quantize\<close> raises when the integer has more digits than the context\<close>
  "decimal_text d = (let n = dnormalize d in
     if 0 \<le> dexp n then
       (let i = coef n * 10 ^ nat (dexp n) in if prec < ndig i then Inl InvalidOperation else Inr (int_str i))
     else Inr (dformat_f n))"

definition balance_row :: "string \<Rightarrow> string list \<Rightarrow> obj \<Rightarrow> observed_balance option" where
  "balance_row e assets item =
     (let asset = upper (strip (py_str (por (pget item ''currency'') (por (pget item ''asset'') (PStr []))))) in
      if assets \<noteq> [] \<and> asset \<notin> set assets then None
      else (case (parse_decimal_opt (por (pget item ''available'') (por (pget item ''free'') (PStr ''0''))),
                  parse_decimal_opt (por (pget item ''locked'') (por (pget item ''in_use'')
                    (por (pget item ''limit'') (PStr ''0''))))) of
          (Some free, Some locked) \<Rightarrow>
            if dlt free (Dec 0 0) \<or> dlt locked (Dec 0 0) then None
            else Some \<lparr>ob_exchange = e, ob_asset = asset, ob_free = free, ob_locked = locked\<rparr>
        | _ \<Rightarrow> None))"

fun add_balances :: "string \<Rightarrow> string list \<Rightarrow> pyval list \<Rightarrow> observed_balance list \<Rightarrow> observed_balance list" where
  "add_balances e assets [] rows = rows"
| "add_balances e assets (v # vs) rows =
     (case v of
        PDict item \<Rightarrow>
          (case balance_row e assets item of
             None \<Rightarrow> add_balances e assets vs rows
           | Some b \<Rightarrow> add_balances e assets vs
               (if (e, ob_asset b) \<in> set (map (\<lambda>r. (ob_exchange r, ob_asset r)) rows) then rows else rows @ [b]))
      | _ \<Rightarrow> add_balances e assets vs rows)"

fun collect_balances :: "connectors \<Rightarrow> string list \<Rightarrow> string list \<Rightarrow> observed_balance list \<Rightarrow> observed_balance list" where
  "collect_balances cns assets [] rows = rows"
| "collect_balances cns assets (e # es) rows =
     (case map_of cns e of
        None \<Rightarrow> collect_balances cns assets es rows
      | Some cn \<Rightarrow>
          (case cn_balances cn of
             None \<Rightarrow> collect_balances cns assets es rows
           | Some payload \<Rightarrow>
               (case pget payload ''items'' of
                  PList items \<Rightarrow> collect_balances cns assets es (add_balances e assets items rows)
                | _ \<Rightarrow> collect_balances cns assets es rows)))"

definition balance_value :: "observed_balance \<Rightarrow> pyval res" where
  "balance_value b = andThen (decimal_text (ob_free b)) (\<lambda>f. andThen (decimal_text (ob_locked b)) (\<lambda>l.
     Inr (PDict [(''exchange_name'', PStr (ob_exchange b)), (''asset'', PStr (ob_asset b)), (''free'', PStr f), (''locked'', PStr l)])))"

section \<open>The snapshot\<close>

definition first_market :: "order_view list \<Rightarrow> string" where
  "first_market vs = (case filter (\<lambda>m. m \<noteq> []) (map (\<lambda>v. strip (ord_market (ov_order v))) vs) of
     [] \<Rightarrow> [] | m # _ \<Rightarrow> upper m)"

definition order_exchanges :: "order_view list \<Rightarrow> string list" where
  "order_exchanges vs = remdups (filter (\<lambda>e. e \<noteq> []) (map (\<lambda>v. strip (ord_exchange_name (ov_order v))) vs))"

definition fill_ids :: "fill list \<Rightarrow> string list" where
  "fill_ids fs = filter (\<lambda>i. i \<noteq> []) (map (\<lambda>f. strip (fill_id f)) fs)"

definition residual_quote :: "obj \<Rightarrow> observation \<Rightarrow> dec option" where
  "residual_quote trace a =
     (if deq (obs_net a) (Dec 0 0) then Some (Dec 0 0)
      else (case obs_price a of
          Some p \<Rightarrow> Some (dmul (dabs (obs_net a)) p)
        | None \<Rightarrow> map_option dabs (parse_decimal_opt (pget trace ''residual_exposure_quote''))))"

definition status_value :: "string \<times> string \<Rightarrow> pyval" where
  "status_value p = PDict [(''order_id'', PStr (fst p)), (''status'', PStr (snd p))]"

definition snapshot_patch ::
    "string \<Rightarrow> observation \<Rightarrow> dec \<Rightarrow> string \<Rightarrow> string list \<Rightarrow> pyval list \<Rightarrow> obj" where
  "snapshot_patch ts a residual_dec residual_txt fids balances =
     (let matched = (obs_open a = 0 \<and> deq residual_dec (Dec 0 0)) in
      [(''reconciliation_result'', PStr (if matched then ''matched'' else ''mismatch'')),
       (''reconciliation_open_order_count'', PInt (obs_open a)),
       (''reconciliation_residual_exposure_quote'', PStr residual_txt),
       (''reconciliation_observed_at'', PStr ts),
       (''reconciliation_source'', PStr ''auto_private_connectors''),
       (''reconciliation_summary'', PStr ''auto reconciliation from private exchange connectors''),
       (''reconciliation_reason'', PStr (if matched then ''private_connectors_zero_residual''
          else ''private_connectors_residual_or_open_orders'')),
       (''reconciliation_observed_order_ids'', PList (map PStr (obs_order_ids a))),
       (''reconciliation_observed_fill_ids'', PList (map PStr fids)),
       (''reconciliation_observed_order_statuses'', PList (map status_value (obs_statuses a))),
       (''reconciliation_observed_balances'', PList balances)])"

definition build_auto_reconciliation_snapshot ::
    "string \<Rightarrow> connectors \<Rightarrow> obj \<Rightarrow> order_view list \<Rightarrow> fill list \<Rightarrow> obj option res" where
  "build_auto_reconciliation_snapshot ts cns trace vs fs =
     (if vs = [] \<or> cns = [] then Inr None
      else (let market = first_market vs; assets = market_assets market; exchanges = order_exchanges vs in
        if exchanges = [] then Inr None
        else (let a = observe_orders cns market vs no_observation in
          if obs_statuses a = [] then Inr None
          else andThen (mapM balance_value (collect_balances cns assets (sorted_texts exchanges) [])) (\<lambda>balances.
            (case residual_quote trace a of
               None \<Rightarrow> Inr None
             | Some r \<Rightarrow> andThen (decimal_text r) (\<lambda>t.
                 Inr (Some (snapshot_patch ts a r t (fill_ids fs) balances))))))))"

end
