(* ===== verification/Platform.thy ===== *)
theory Platform
  imports RedisQueries
begin

text \<open>
  What the background loops of the control plane share: the Redis runtime, the store, and computations
  over both. A loop keeps its own counters in a record that extends \<open>platform\<close>. A computation returns
  a value, an exception or \<open>Out_of_fuel\<close> (a key scan that did not end within the fuel).
\<close>

section \<open>State\<close>

record 'r platform =
  pf_redis :: "'r redis_state"
  pf_store :: store

type_synonym ('r, 'x, 'a) task = "(('r, 'x) platform_scheme, 'a) state"

datatype 'a run = Returned 'a | Raised pyexc | Out_of_fuel

section \<open>Computations\<close>

definition on_redis :: "('r, 'a) redis \<Rightarrow> ('r, 'x, 'a) task" where
  "on_redis m = State (\<lambda>s. case run_state m (pf_redis s) of (a, r) \<Rightarrow> (a, s\<lparr>pf_redis := r\<rparr>))"

definition reading :: "(('r, 'x) platform_scheme \<Rightarrow> 'a) \<Rightarrow> ('r, 'x, 'a) task" where
  "reading f = State (\<lambda>s. (f s, s))"

definition changing :: "(('r, 'x) platform_scheme \<Rightarrow> ('r, 'x) platform_scheme) \<Rightarrow> ('r, 'x, unit) task" where
  "changing f = State (\<lambda>s. ((), f s))"

definition and_then :: "('s, 'a run) state \<Rightarrow> ('a \<Rightarrow> ('s, 'b run) state) \<Rightarrow> ('s, 'b run) state" where
  \<comment> \<open>the next statement, unless an exception is on its way\<close>
  "and_then m f = do {
     r \<leftarrow> m;
     (case r of Returned a \<Rightarrow> f a | Raised e \<Rightarrow> State_Monad.return (Raised e)
      | Out_of_fuel \<Rightarrow> State_Monad.return Out_of_fuel) }"

definition finished :: "('s, unit run) state" where
  "finished = State_Monad.return (Returned ())"

definition of_res :: "'a res \<Rightarrow> 'a run" where
  "of_res r = (case r of Inl e \<Rightarrow> Raised e | Inr a \<Rightarrow> Returned a)"

definition of_fetched :: "string \<Rightarrow> 'a fetched \<Rightarrow> 'a run" where
  "of_fetched msg r = (case r of Fetched a \<Rightarrow> Returned a | Fetch_failed \<Rightarrow> Raised (RuntimeError msg) | More \<Rightarrow> Out_of_fuel)"

definition then_done :: "('s, 'a) state \<Rightarrow> ('s, unit run) state" where
  "then_done m = do { _ \<leftarrow> m; finished }"

fun for_each :: "(nat \<Rightarrow> bool) \<Rightarrow> (nat \<Rightarrow> 'a \<Rightarrow> ('s, unit run) state) \<Rightarrow> nat \<Rightarrow> 'a list \<Rightarrow> ('s, unit run) state" where
  \<comment> \<open>the loop body on each item in turn, until the stop event is seen before an item\<close>
  "for_each stop f i [] = finished"
| "for_each stop f i (x # xs) = (if stop i then finished else and_then (f i x) (\<lambda>_. for_each stop f (Suc i) xs))"

section \<open>Alerts\<close>

definition raise_alert :: "redis_config \<Rightarrow> string option \<Rightarrow> string \<Rightarrow> string \<Rightarrow> string \<Rightarrow> ('r, 'x, alert) task" where
  "raise_alert cfg bid level code message = do {
     uid \<leftarrow> on_redis (draw_uid cfg);
     ts \<leftarrow> on_redis (draw_now cfg);
     State (\<lambda>s. case emit_alert uid ts bid level code message (pf_store s) of (st, al) \<Rightarrow> (al, s\<lparr>pf_store := st\<rparr>)) }"

definition non_blank :: "string \<Rightarrow> string option" where
  \<comment> \<open>\<open>text or None\<close>\<close>
  "non_blank t = (if t = [] then None else Some t)"

section \<open>Running a computation\<close>

named_theorems run_task \<open>the run of a computation\<close>

lemma run_on_redis [run_task]:
  "run_state (on_redis m) s = (case run_state m (pf_redis s) of (a, r) \<Rightarrow> (a, s\<lparr>pf_redis := r\<rparr>))"
  by (simp add: on_redis_def)

lemma run_reading [run_task]: "run_state (reading f) s = (f s, s)"
  by (simp add: reading_def)

lemma run_changing [run_task]: "run_state (changing f) s = ((), f s)"
  by (simp add: changing_def)

lemma run_finished [run_task]: "run_state finished s = (Returned (), s)"
  by (simp add: finished_def)

lemma run_then_done [run_task]: "run_state (then_done m) s = (Returned (), snd (run_state m s))"
  by (simp add: then_done_def run_finished split: prod.split)

lemma run_and_then [run_task]: "run_state (and_then m f) s = (case run_state m s of (r, s') \<Rightarrow>
    (case r of Returned a \<Rightarrow> run_state (f a) s' | Raised e \<Rightarrow> (Raised e, s') | Out_of_fuel \<Rightarrow> (Out_of_fuel, s')))"
  by (simp add: and_then_def split: prod.split run.split)

end
