(* ===== verification/RecoveryRuntime.thy ===== *)
theory RecoveryRuntime
  imports Reconciliation Platform
begin

text \<open>
  The effects of \<open>recovery_runtime.py\<close>: one tick of the recovery loop over Redis, the store and the
  runtime's counters. A computation works on the record \<open>recovery_state\<close> and returns a value, an
  exception or \<open>Out_of_fuel\<close> (a key scan that did not end within the fuel). The stop event of the
  thread is an argument; the thread itself (start, wait, join) is not modelled. Log lines are left out.
\<close>

section \<open>State\<close>

record 'r recovery_state = "'r platform" +
  vs_running :: bool
  vs_last_success_at :: "string option"
  vs_last_error_at :: "string option"
  vs_last_error_message :: "string option"
  vs_last_resolution_at :: "string option"
  vs_last_handoff_at :: "string option"
  vs_processed :: int
  vs_resolved :: int
  vs_handoff :: int
  vs_skipped :: int
  vs_failure :: int

type_synonym ('r, 'a) recovery = "('r recovery_state, 'a) state"

definition new_recovery_state :: "'r redis_state \<Rightarrow> store \<Rightarrow> 'r recovery_state" where
  "new_recovery_state r st = \<lparr>pf_redis = r, pf_store = st, vs_running = False, vs_last_success_at = None,
     vs_last_error_at = None, vs_last_error_message = None, vs_last_resolution_at = None, vs_last_handoff_at = None,
     vs_processed = 0, vs_resolved = 0, vs_handoff = 0, vs_skipped = 0, vs_failure = 0\<rparr>"

definition recovery_state_name :: "recovery_config \<Rightarrow> redis_config \<Rightarrow> 'r recovery_state \<Rightarrow> string" where
  "recovery_state_name rcfg cfg s =
     (if \<not> rv_enabled rcfg then ''disabled''
      else if \<not> info_enabled cfg then ''redis_unavailable''
      else if vs_running s then ''running''
      else if 0 < vs_failure s \<and> vs_processed s = 0 then ''degraded'' else ''idle'')"

section \<open>Alerts, counters\<close>

definition record_skip :: "('r, unit) recovery" where
  "record_skip = changing (\<lambda>s. s\<lparr>vs_skipped := vs_skipped s + 1\<rparr>)"

section \<open>Closing a trace\<close>

definition link_evaluation :: "'r server \<Rightarrow> redis_config \<Rightarrow> string \<Rightarrow> string \<Rightarrow> ('r, obj option) redis" where
  \<comment> \<open>the stored trace, after its state has been copied to the evaluation of its run\<close>
  "link_evaluation exec cfg tid rid =
     (if rid = [] then State_Monad.return None
      else do {
        latest \<leftarrow> get_recovery_trace exec cfg tid;
        (case latest of None \<Rightarrow> State_Monad.return None
         | Some l \<Rightarrow> do {
             _ \<leftarrow> sync_arbitrage_evaluation_recovery_state exec cfg rid l None;
             State_Monad.return (Some l) }) })"

definition resolved_payload :: "string \<Rightarrow> string \<Rightarrow> obj \<Rightarrow> obj" where
  "resolved_payload ts reason trace =
     dmerge trace [(''status'', PStr ''resolved''), (''lifecycle_state'', PStr ''closed''),
       (''manual_handoff_required'', PBool False),
       (''residual_exposure_quote'',
          if reason = ''reconciliation_matched_zero_residual'' then
            (if pget trace ''reconciliation_residual_exposure_quote'' = PNone then PStr ''0''
             else PStr (py_str (pget trace ''reconciliation_residual_exposure_quote'')))
          else pget trace ''residual_exposure_quote''),
       (''closed_at'', PStr ts), (''resolution_reason'', PStr reason)]"

definition store_trace :: "'r server \<Rightarrow> redis_config \<Rightarrow> string \<Rightarrow> obj \<Rightarrow> string \<Rightarrow> obj \<Rightarrow> ('r, unit) redis" where
  \<comment> \<open>the trace, the evaluation linked to it, and the event\<close>
  "store_trace exec cfg tid payload event_type event = do {
     _ \<leftarrow> sync_recovery_trace exec cfg tid payload None;
     _ \<leftarrow> link_evaluation exec cfg tid (text_of payload ''run_id'');
     _ \<leftarrow> append_event exec cfg ''strategy_events'' event_type event None;
     State_Monad.return () }"

definition resolve_trace :: "'r server \<Rightarrow> redis_config \<Rightarrow> obj \<Rightarrow> string \<Rightarrow> ('r, unit) recovery" where
  "resolve_trace exec cfg trace reason = do {
     ts \<leftarrow> on_redis (draw_now cfg);
     let payload = resolved_payload ts reason trace;
     let tid = raw_text trace ''recovery_trace_id'';
     _ \<leftarrow> on_redis (store_trace exec cfg tid payload ''strategy.recovery_trace.resolved''
       [(''recovery_trace_id'', PStr tid), (''run_id'', pget payload ''run_id''), (''bot_id'', pget payload ''bot_id''),
        (''resolution_reason'', PStr reason)]);
     at_time \<leftarrow> on_redis (draw_now cfg);
     changing (\<lambda>s. s\<lparr>vs_resolved := vs_resolved s + 1, vs_last_resolution_at := Some at_time\<rparr>) }"

definition alert_if :: "bool \<Rightarrow> redis_config \<Rightarrow> string option \<Rightarrow> string \<Rightarrow> string \<Rightarrow> string \<Rightarrow> ('r, 'x, alert option) task" where
  \<comment> \<open>an alert, if the store can be written\<close>
  "alert_if mutable cfg bid level code message =
     (if mutable then do { al \<leftarrow> raise_alert cfg bid level code message; State_Monad.return (Some al) }
      else State_Monad.return None)"

definition handoff_payload :: "alert option \<Rightarrow> string \<Rightarrow> string option \<Rightarrow> obj \<Rightarrow> obj" where
  "handoff_payload al reason summary trace =
     dmerge trace [(''status'', PStr ''handoff_required''), (''lifecycle_state'', PStr ''manual_handoff''),
       (''manual_handoff_required'', PBool True), (''incident_code'', PStr ''ARB-302 MANUAL_HANDOFF_REQUIRED''),
       (''alert_id'', opt_str (map_option alert_id al)), (''handoff_reason'', PStr reason),
       (''summary'', PStr (if given_text summary = [] then raw_text trace ''summary'' else given_text summary))]"

definition handoff_alert_text :: "string option \<Rightarrow> string" where
  "handoff_alert_text summary = (if given_text summary = [] then ''recovery trace exceeded auto-recovery window''
     else given_text summary)"

definition store_handoff :: "'r server \<Rightarrow> redis_config \<Rightarrow> string \<Rightarrow> obj \<Rightarrow> alert option \<Rightarrow> ('r, unit) redis" where
  "store_handoff exec cfg tid payload al = do {
     _ \<leftarrow> sync_recovery_trace exec cfg tid payload None;
     _ \<leftarrow> link_evaluation exec cfg tid (text_of payload ''run_id'');
     _ \<leftarrow> (case al of None \<Rightarrow> State_Monad.return False
      | Some a \<Rightarrow> publish_alert_event exec cfg ''alert.created''
          [(''alert_id'', PStr (alert_id a)), (''bot_id'', opt_str (al_bot_id a)), (''level'', PStr (al_level a)),
           (''code'', PStr (al_code a))] None);
     _ \<leftarrow> append_event exec cfg ''strategy_events'' ''strategy.recovery_trace.handoff_required''
       [(''recovery_trace_id'', PStr tid), (''run_id'', pget payload ''run_id''), (''bot_id'', pget payload ''bot_id''),
        (''incident_code'', pget payload ''incident_code'')] None;
     State_Monad.return () }"

definition mark_handoff_required ::
    "'r server \<Rightarrow> redis_config \<Rightarrow> recovery_config \<Rightarrow> obj \<Rightarrow> string \<Rightarrow> string option \<Rightarrow> ('r, unit) recovery" where
  "mark_handoff_required exec cfg rcfg trace reason summary = do {
     al \<leftarrow> alert_if (rv_store_mutable rcfg) cfg (non_blank (raw_text trace ''bot_id'')) ''critical'' ''ARBITRAGE_MANUAL_HANDOFF_REQUIRED''
       (handoff_alert_text summary);
     _ \<leftarrow> on_redis (store_handoff exec cfg (raw_text trace ''recovery_trace_id'') (handoff_payload al reason summary trace) al);
     at_time \<leftarrow> on_redis (draw_now cfg);
     changing (\<lambda>s. s\<lparr>vs_handoff := vs_handoff s + 1, vs_last_handoff_at := Some at_time\<rparr>) }"

section \<open>Orders of a trace\<close>

definition orders_of :: "store \<Rightarrow> string \<Rightarrow> string \<Rightarrow> order_view list res" where
  "orders_of s bid rid = list_orders (orders s) (fills s)
     \<lparr>oq_bot_id = non_blank bid, oq_exchange_name = None, oq_status = None, oq_market = None,
      oq_strategy_run_id = non_blank rid, oq_created_from = None, oq_created_to = None\<rparr>"

definition related_orders :: "store \<Rightarrow> string \<Rightarrow> string \<Rightarrow> string \<Rightarrow> order_view list res" where
  "related_orders s bid rid iid = andThen (orders_of s bid rid) (\<lambda>vs.
     Inr (if iid = [] then vs else filter (\<lambda>v. ord_intent_id (ov_order v) = iid) vs))"

definition related_fills :: "store \<Rightarrow> obj \<Rightarrow> fill list" where
  "related_fills s trace =
     filter (\<lambda>f. strip (fl_intent_id f) = trace_intent_id trace)
       (list_fills (fills s) \<lparr>fq_bot_id = non_blank (raw_text trace ''bot_id''), fq_exchange_name = None, fq_market = None,
          fq_strategy_run_id = non_blank (raw_text trace ''run_id''), fq_order_id = None, fq_created_from = None,
          fq_created_to = None\<rparr>)"

definition intent_is_terminal :: "store \<Rightarrow> string \<Rightarrow> bool" where
  "intent_is_terminal s iid =
     (iid \<noteq> [] \<and> (case map_of (order_intents s) iid of None \<Rightarrow> False
        | Some i \<Rightarrow> lower (strip (int_status i)) \<in> set TERMINAL_INTENT_STATUSES))"

definition order_opened_at :: "order \<Rightarrow> time option" where
  "order_opened_at x = or_else (parse_time (PStr (ord_submitted_at x)))
     (or_else (parse_time (PStr (ord_created_at x))) (parse_time (PStr (ord_updated_at x))))"

fun earliest :: "time list \<Rightarrow> time option" where
  "earliest [] = None"
| "earliest (t # ts) = (case earliest ts of None \<Rightarrow> Some t | Some u \<Rightarrow> Some (min t u))"

definition oldest_open_order :: "store \<Rightarrow> string \<Rightarrow> string \<Rightarrow> time option res" where
  "oldest_open_order s bid rid = andThen (orders_of s bid rid) (\<lambda>vs.
     Inr (earliest (concat (map (\<lambda>x. case order_opened_at x of None \<Rightarrow> [] | Some t \<Rightarrow> [t])
       (filter order_is_active (map ov_order vs))))))"

section \<open>Recording a reconciliation\<close>

definition int_or_zero :: "pyval \<Rightarrow> int" where
  "int_or_zero v = (case parse_int_opt v of None \<Rightarrow> 0 | Some i \<Rightarrow> i)"

definition reconciliation_counters :: "string \<Rightarrow> bool \<Rightarrow> obj \<Rightarrow> obj" where
  "reconciliation_counters ts matched trace =
     [(''reconciliation_attempt_count'', PInt (int_or_zero (pget trace ''reconciliation_attempt_count'') + 1)),
      (''reconciliation_matched_count'', PInt (int_or_zero (pget trace ''reconciliation_matched_count'') + (if matched then 1 else 0))),
      (''reconciliation_mismatch_count'', PInt (int_or_zero (pget trace ''reconciliation_mismatch_count'') + (if matched then 0 else 1))),
      (''reconciliation_mismatch_streak'',
         PInt (if matched then 0 else int_or_zero (pget trace ''reconciliation_mismatch_streak'') + 1)),
      (''reconciliation_updated_at'', PStr ts)]"

definition recorded_trace :: "string \<Rightarrow> obj \<Rightarrow> obj \<Rightarrow> obj" where
  "recorded_trace ts patch trace =
     dmerge trace (dmerge patch (reconciliation_counters ts (raw_text patch ''reconciliation_result'' = ''matched'') trace))"

definition wants_reconciliation :: "connectors \<Rightarrow> order_view list \<Rightarrow> obj \<Rightarrow> bool" where
  "wants_reconciliation cns vs trace =
     (\<not> (low_text trace ''reconciliation_result'' \<noteq> []
         \<and> low_text trace ''reconciliation_source'' \<notin> {[], ''auto_private_connectors''})
      \<and> vs \<noteq> [] \<and> cns \<noteq> [] \<and> trace_intent_id trace \<noteq> [])"

definition record_reconciliation :: "'r server \<Rightarrow> redis_config \<Rightarrow> obj \<Rightarrow> obj \<Rightarrow> ('r, obj) redis" where
  "record_reconciliation exec cfg patch trace = do {
     ts \<leftarrow> draw_now cfg;
     let tid = text_of trace ''recovery_trace_id'';
     let updated = recorded_trace ts patch trace;
     _ \<leftarrow> sync_recovery_trace exec cfg tid updated None;
     latest \<leftarrow> link_evaluation exec cfg tid (text_of updated ''run_id'');
     let result = (case latest of None \<Rightarrow> updated | Some l \<Rightarrow> l);
     _ \<leftarrow> append_event exec cfg ''strategy_events'' ''strategy.recovery_trace.reconciliation_auto_recorded''
       [(''recovery_trace_id'', PStr tid), (''run_id'', pget result ''run_id''), (''bot_id'', pget result ''bot_id''),
        (''matched'', PBool (raw_text patch ''reconciliation_result'' = ''matched'')),
        (''open_order_count'', pget result ''reconciliation_open_order_count''),
        (''source'', PStr ''auto_private_connectors'')] None;
     State_Monad.return result }"

definition auto_record_reconciliation ::
    "'r server \<Rightarrow> redis_config \<Rightarrow> connectors \<Rightarrow> order_view list \<Rightarrow> obj \<Rightarrow> ('r, obj run) recovery" where
  "auto_record_reconciliation exec cfg cns vs trace =
     (if \<not> wants_reconciliation cns vs trace then State_Monad.return (Returned trace)
      else do {
        ts \<leftarrow> on_redis (draw_now cfg);
        s \<leftarrow> reading pf_store;
        (case build_auto_reconciliation_snapshot ts cns trace vs (related_fills s trace) of
           Inl e \<Rightarrow> State_Monad.return (Raised e)
         | Inr None \<Rightarrow> State_Monad.return (Returned trace)
         | Inr (Some patch) \<Rightarrow> do {
             updated \<leftarrow> on_redis (record_reconciliation exec cfg patch trace);
             State_Monad.return (Returned updated) }) })"

section \<open>One trace\<close>

definition perform :: "'r server \<Rightarrow> redis_config \<Rightarrow> recovery_config \<Rightarrow> obj \<Rightarrow> trace_action \<Rightarrow> ('r, unit) recovery" where
  "perform exec cfg rcfg trace act = (case act of
       Handoff reason summary \<Rightarrow> mark_handoff_required exec cfg rcfg trace reason summary
     | Resolve reason \<Rightarrow> resolve_trace exec cfg trace reason
     | No_change \<Rightarrow> record_skip)"

definition count_processed :: "('r, unit) recovery" where
  "count_processed = changing (\<lambda>s. s\<lparr>vs_processed := vs_processed s + 1\<rparr>)"

definition decide_trace ::
    "'r server \<Rightarrow> redis_config \<Rightarrow> recovery_config \<Rightarrow> (nat \<Rightarrow> time) \<Rightarrow> order list \<Rightarrow> obj \<Rightarrow> ('r, unit run) recovery" where
  "decide_trace exec cfg rcfg clock ords trace = do {
     s \<leftarrow> reading pf_store;
     (case trace_action rcfg clock s ords trace of
        Inl e \<Rightarrow> State_Monad.return (Raised e)
      | Inr act \<Rightarrow> then_done (perform exec cfg rcfg trace act)) }"

definition process_trace ::
    "'r server \<Rightarrow> redis_config \<Rightarrow> recovery_config \<Rightarrow> connectors \<Rightarrow> (nat \<Rightarrow> time) \<Rightarrow> obj \<Rightarrow> ('r, unit run) recovery" where
  "process_trace exec cfg rcfg cns clock trace = do {
     _ \<leftarrow> count_processed;
     (if raw_text trace ''recovery_trace_id'' = [] then then_done record_skip
      else do {
        s \<leftarrow> reading pf_store;
        (case related_orders s (raw_text trace ''bot_id'') (raw_text trace ''run_id'') (trace_intent_id trace) of
           Inl e \<Rightarrow> State_Monad.return (Raised e)
         | Inr vs \<Rightarrow> and_then (auto_record_reconciliation exec cfg cns vs trace)
             (decide_trace exec cfg rcfg clock (map ov_order vs))) }) }"

section \<open>Evaluations\<close>

definition TERMINAL_SYNC_CANDIDATE_STATES :: "string list" where
  "TERMINAL_SYNC_CANDIDATE_STATES = [''entry_submitting'', ''entry_open'', ''hedge_balanced'', ''unwind_in_progress'']"

definition blocking_trace ::
    "'r server \<Rightarrow> redis_config \<Rightarrow> nat \<Rightarrow> string \<Rightarrow> string \<Rightarrow> ('r, obj option run) recovery" where
  "blocking_trace exec cfg fuel bid rid = do {
     r \<leftarrow> on_redis (get_blocking_recovery_trace exec cfg fuel (non_blank bid) (non_blank rid));
     State_Monad.return (of_fetched ''failed to read blocking recovery traces'' r) }"

definition close_evaluation :: "'r server \<Rightarrow> redis_config \<Rightarrow> obj \<Rightarrow> string \<Rightarrow> string \<Rightarrow> string \<Rightarrow> nat \<Rightarrow> ('r, unit) redis" where
  "close_evaluation exec cfg item rid bid iid n = do {
     _ \<leftarrow> sync_arbitrage_evaluation exec cfg rid (dset item ''lifecycle_preview'' (PStr ''closed'')) None True;
     _ \<leftarrow> append_event exec cfg ''strategy_events'' ''strategy.arbitrage_cycle_closed''
       [(''run_id'', PStr rid), (''bot_id'', PStr bid), (''intent_id'', PStr iid), (''order_count'', PInt (int n)),
        (''source'', PStr ''recovery_runtime'')] None;
     State_Monad.return () }"

definition all_closed :: "order_view list \<Rightarrow> bool" where
  "all_closed vs = (vs \<noteq> [] \<and> \<not> list_ex order_is_active (map ov_order vs))"

definition sync_terminal_item :: "'r server \<Rightarrow> redis_config \<Rightarrow> nat \<Rightarrow> obj \<Rightarrow> ('r, unit run) recovery" where
  "sync_terminal_item exec cfg fuel item =
     (if low_text item ''lifecycle_preview'' \<notin> set TERMINAL_SYNC_CANDIDATE_STATES then finished
      else (case pget item ''persisted_intent'' of
          PDict intent \<Rightarrow>
            (let rid = text_of item ''strategy_run_id''; bid = text_of item ''bot_id''; iid = text_of intent ''intent_id'' in
             if rid = [] \<or> bid = [] \<or> iid = [] then finished
             else and_then (blocking_trace exec cfg fuel bid rid) (\<lambda>blocking.
               if blocking \<noteq> None then finished
               else do {
                 s \<leftarrow> reading pf_store;
                 (if \<not> intent_is_terminal s iid then finished
                  else (case related_orders s bid rid iid of
                      Inl e \<Rightarrow> State_Monad.return (Raised e)
                    | Inr vs \<Rightarrow>
                        if all_closed vs then then_done (on_redis (close_evaluation exec cfg item rid bid iid (length vs)))
                        else finished)) }))
        | _ \<Rightarrow> finished))"

definition timeout_payload :: "recovery_config \<Rightarrow> string \<Rightarrow> string \<Rightarrow> string \<Rightarrow> string \<Rightarrow> time \<Rightarrow> int \<Rightarrow> obj" where
  "timeout_payload rcfg tid ts bid rid oldest age =
     [(''recovery_trace_id'', PStr tid), (''run_id'', PStr rid), (''bot_id'', PStr bid), (''intent_id'', PNone),
      (''status'', PStr ''active''), (''lifecycle_state'', PStr ''recovery_required''),
      (''incident_code'', PStr ''ARB-201 HEDGE_TIMEOUT''), (''reason_code'', PStr ''ORDER_SUBMIT_FAILED''),
      (''manual_handoff_required'', PBool False), (''auto_unwind_allowed'', PBool False),
      (''opened_at'', PStr ts), (''created_at'', PStr ts), (''oldest_submitted_at'', PStr (iso_z oldest)),
      (''submit_timeout_seconds'', PInt (rv_submit_timeout rcfg)), (''submit_timeout_age_seconds'', PInt age),
      (''summary'', PStr ''entry_submitting exceeded submit timeout window'')]"

definition create_submit_timeout_trace ::
    "'r server \<Rightarrow> redis_config \<Rightarrow> recovery_config \<Rightarrow> string \<Rightarrow> string \<Rightarrow> time \<Rightarrow> int \<Rightarrow> ('r, unit) recovery" where
  "create_submit_timeout_trace exec cfg rcfg bid rid oldest age = do {
     uid \<leftarrow> on_redis (draw_uid cfg);
     ts \<leftarrow> on_redis (draw_now cfg);
     let tid = ''rt_'' @ uid;
     _ \<leftarrow> on_redis (sync_recovery_trace exec cfg tid (timeout_payload rcfg tid ts bid rid oldest age) None);
     _ \<leftarrow> on_redis (link_evaluation exec cfg tid rid);
     _ \<leftarrow> on_redis (append_event exec cfg ''strategy_events'' ''strategy.recovery_trace.submit_timeout_opened''
       [(''recovery_trace_id'', PStr tid), (''run_id'', PStr rid), (''bot_id'', PStr bid),
        (''incident_code'', PStr ''ARB-201 HEDGE_TIMEOUT''), (''submit_timeout_age_seconds'', PInt age)] None);
     _ \<leftarrow> alert_if (rv_store_mutable rcfg) cfg (Some bid) ''error'' ''ARBITRAGE_SUBMIT_TIMEOUT''
       ''entry_submitting exceeded submit timeout window'';
     State_Monad.return () }"

definition submit_timeout_item ::
    "'r server \<Rightarrow> redis_config \<Rightarrow> recovery_config \<Rightarrow> nat \<Rightarrow> time \<Rightarrow> obj \<Rightarrow> ('r, unit run) recovery" where
  "submit_timeout_item exec cfg rcfg fuel nw item =
     (if low_text item ''lifecycle_preview'' \<noteq> ''entry_submitting'' then finished
      else (let rid = text_of item ''strategy_run_id''; bid = text_of item ''bot_id'' in
        if rid = [] \<or> bid = [] then finished
        else and_then (blocking_trace exec cfg fuel bid rid) (\<lambda>blocking.
          if blocking \<noteq> None then finished
          else do {
            s \<leftarrow> reading pf_store;
            (case oldest_open_order s bid rid of
               Inl e \<Rightarrow> State_Monad.return (Raised e)
             | Inr None \<Rightarrow> finished
             | Inr (Some oldest) \<Rightarrow>
                 if age_seconds nw oldest < rv_submit_timeout rcfg then finished
                 else then_done (create_submit_timeout_trace exec cfg rcfg bid rid oldest (age_seconds nw oldest))) })))"

section \<open>One tick\<close>

definition no_filter :: evaluation_query where
  "no_filter = \<lparr>eq_bot_id = None, eq_accepted = None, eq_lifecycle_preview = None, eq_reason_code = None\<rparr>"

definition each_evaluation ::
    "'r server \<Rightarrow> redis_config \<Rightarrow> nat \<Rightarrow> (nat \<Rightarrow> obj \<Rightarrow> ('r, unit run) recovery) \<Rightarrow> ('r, unit run) recovery" where
  "each_evaluation exec cfg fuel f = do {
     r \<leftarrow> on_redis (list_arbitrage_evaluations exec cfg fuel 100 no_filter);
     and_then (State_Monad.return (of_fetched ''failed to list arbitrage evaluations'' r)) (for_each (\<lambda>_. False) f 0) }"

definition active_traces :: trace_query where
  "active_traces = \<lparr>tq_bot_id = None, tq_run_id = None, tq_status = Some ''active'', tq_lifecycle = None\<rparr>"

record recovery_env =
  re_fuel :: nat
  re_eval_clock :: "nat \<Rightarrow> time"
  re_clock :: "nat \<Rightarrow> nat \<Rightarrow> time"
  re_stop :: "nat \<Rightarrow> bool"
  re_stopping :: bool

definition tick_body ::
    "'r server \<Rightarrow> redis_config \<Rightarrow> recovery_config \<Rightarrow> connectors \<Rightarrow> recovery_env \<Rightarrow> ('r, unit run) recovery" where
  "tick_body exec cfg rcfg cns env =
     and_then (each_evaluation exec cfg (re_fuel env) (\<lambda>_. sync_terminal_item exec cfg (re_fuel env))) (\<lambda>_.
     and_then (each_evaluation exec cfg (re_fuel env)
       (\<lambda>i. submit_timeout_item exec cfg rcfg (re_fuel env) (re_eval_clock env i))) (\<lambda>_. do {
       r \<leftarrow> on_redis (list_recovery_traces exec cfg (re_fuel env) 100 active_traces);
       and_then (State_Monad.return (of_fetched ''failed to list active recovery traces'' r))
         (for_each (re_stop env) (\<lambda>i. process_trace exec cfg rcfg cns (re_clock env i)) 0) }))"

definition tick ::
    "'r server \<Rightarrow> redis_config \<Rightarrow> recovery_config \<Rightarrow> connectors \<Rightarrow> recovery_env \<Rightarrow> ('r, unit run) recovery" where
  "tick exec cfg rcfg cns env =
     (if \<not> info_enabled cfg then then_done record_skip
      else do {
        r \<leftarrow> tick_body exec cfg rcfg cns env;
        (case r of
           Out_of_fuel \<Rightarrow> State_Monad.return Out_of_fuel
         | Returned _ \<Rightarrow> do {
             ts \<leftarrow> on_redis (draw_now cfg);
             then_done (changing (\<lambda>s. s\<lparr>vs_last_success_at := Some ts, vs_last_error_message := None\<rparr>)) }
         | Raised e \<Rightarrow>
             if re_stopping env then then_done (changing (\<lambda>s. s\<lparr>vs_last_error_message := None\<rparr>))
             else do {
               ts \<leftarrow> on_redis (draw_now cfg);
               then_done (changing (\<lambda>s. s\<lparr>vs_failure := vs_failure s + 1, vs_last_error_at := Some ts,
                 vs_last_error_message := Some (exc_text e)\<rparr>)) }) })"

end
