(* ===== verification/RecoveryClaims.thy ===== *)
theory RecoveryClaims
  imports Recovery
begin

text \<open>
  When an active recovery trace is resolved, handed to an operator or left alone: consequences of
  \<open>Recovery.trace_action\<close>.
\<close>

section \<open>Ages in whole seconds\<close>

lemma fl_of_int: "0 \<le> q \<Longrightarrow> q \<le> 2 ^ 53 \<Longrightarrow> fl (of_int q) = of_int q"
proof -
  assume "0 \<le> q" "q \<le> 2 ^ 53"
  then have "repr 2 53 (of_int q)" unfolding repr_def by (intro exI [of _ q] exI [of _ 0]) simp
  then show ?thesis unfolding fl_def by (intro rnd_exact) simp_all
qed

lemma seconds_exact:
  assumes "0 \<le> us" "us \<le> 2 * 10 ^ 15"
  shows "trunc (total_seconds us) = us div 1000000"
proof -
  define q r where "q = us div 1000000" and "r = us mod 1000000"
  have us: "us = q * 1000000 + r" and r: "0 \<le> r" "r \<le> 999999" by (simp_all add: q_def r_def)
  have q: "0 \<le> q" "q \<le> 2 * 10 ^ 9" using assms by (simp_all add: q_def)
  define x :: rat where "x = of_int us / 1000000"
  have x: "x = of_int q + of_int r / 1000000" using us by (simp add: x_def)
  have q': "(0 :: rat) \<le> of_int q" "(of_int q :: rat) \<le> 2000000000"
    using q by simp_all
  have r': "(0 :: rat) \<le> of_int r" "(of_int r :: rat) \<le> 999999" using r by simp_all
  have "fl (of_int q) \<le> fl x" by (rule fl_mono) (use x r' in simp)
  then have lo: "of_int q \<le> fl x" using fl_of_int [of q] q by simp
  have "\<bar>fl x - x\<bar> \<le> x / 9007199254740992" using fl_rel_err [of x] x q' r' by simp
  with x q' r' have "fl x < of_int q + 1" by linarith
  with lo have "\<lfloor>fl x\<rfloor> = q" by (intro floor_unique) simp_all
  moreover have "0 \<le> fl x" using lo q' by linarith
  ultimately show ?thesis by (simp add: trunc_def total_seconds_def x_def q_def)
qed

lemma age_seconds_exact:
  assumes "t \<le> nw" "nw - t \<le> 2 * 10 ^ 15"
  shows "age_seconds nw t = (nw - t) div 1000000"
  using seconds_exact [of "nw - t"] assms by (simp add: age_seconds_def pos_imp_zdiv_nonneg_iff)

lemma young_in_microseconds:
  assumes "age_seconds nw t < n" "nw - t \<le> 2 * 10 ^ 15"
  shows "nw - t < n * 1000000"
proof (cases "t \<le> nw")
  case True
  with assms age_seconds_exact [of t nw] show ?thesis by simp
next
  case False
  have "0 \<le> age_seconds nw t" by (simp add: age_seconds_def)
  with assms(1) False show ?thesis by simp
qed

section \<open>Checks that pass\<close>

lemma first_some_None: "first_some xs = None \<longleftrightarrow> list_all (\<lambda>x. x = None) xs"
  by (induction xs) (auto split: option.splits)

lemma balance_of_item_nonneg: "balance_of_item d = Some b \<Longrightarrow> \<not> dlt (ob_locked b) (Dec 0 0)"
  by (auto simp: balance_of_item_def split: pyval.splits option.splits if_splits)

lemma balances_from_nonneg:
  "balances_from seen vs = Some rows \<Longrightarrow> b \<in> set rows \<Longrightarrow> \<not> dlt (ob_locked b) (Dec 0 0)"
proof (induction vs arbitrary: seen rows)
  case (Cons v vs)
  then show ?case by (auto split: pyval.splits option.splits if_splits) (metis balance_of_item_nonneg)
qed simp

lemma observed_balances_nonneg:
  "observed_balances v = Some rows \<Longrightarrow> b \<in> set rows \<Longrightarrow> 0 \<le> dval (ob_locked b)"
  using balances_from_nonneg by (fastforce simp: observed_balances_def dcmp split: pyval.splits)

lemma in_balance_pairs: "p \<in> set (balance_pairs es as) \<longleftrightarrow> fst p \<in> set es \<and> snd p \<in> set as"
  by (cases p) (simp add: balance_pairs_def)

definition evidence_rows :: "obj \<Rightarrow> observed_balance list" where
  "evidence_rows trace = (case observed_balances (pget trace ''reconciliation_observed_balances'') of
     None \<Rightarrow> [] | Some rows \<Rightarrow> rows)"

lemma balance_reason_passes:
  assumes "balance_reason s trace = None" "matched_zero trace" "e \<in> set (intent_exchanges s trace)"
    "a \<in> set (intent_assets s trace)"
  shows "list_ex (\<lambda>b. strip (ob_exchange b) = e \<and> upper (strip (ob_asset b)) = a \<and> dval (ob_locked b) = 0) (evidence_rows trace)"
proof -
  let ?es = "intent_exchanges s trace" and ?as = "intent_assets s trace"
  obtain rows where rows: "observed_balances (pget trace ''reconciliation_observed_balances'') = Some rows" "rows \<noteq> []"
    using assms by (auto simp: balance_reason_def Let_def split: option.splits list.splits if_splits)
  from assms(1,2) rows have missing: "missing_pairs ?es ?as (relevant_balances ?es ?as rows) = []"
    and unlocked: "filter (\<lambda>r. dlt (Dec 0 0) (ob_locked r)) (relevant_balances ?es ?as rows) = []"
    by (auto simp: balance_reason_def Let_def split: list.splits if_splits)
  from assms(3,4) have "(e, a) \<in> set (balance_pairs ?es ?as)" by (simp add: in_balance_pairs)
  with missing obtain b where b: "b \<in> set (relevant_balances ?es ?as rows)" "strip (ob_exchange b) = e" "upper (strip (ob_asset b)) = a"
    by (auto simp: missing_pairs_def filter_empty_conv)
  from b(1) have in_rows: "b \<in> set rows" by (simp add: relevant_balances_def)
  from unlocked b(1) have "\<not> dlt (Dec 0 0) (ob_locked b)" by (auto simp: filter_empty_conv)
  with observed_balances_nonneg [OF rows(1) in_rows] have "dval (ob_locked b) = 0" by (simp add: dcmp)
  with b(2,3) in_rows rows(1) show ?thesis by (auto simp: list_ex_iff evidence_rows_def)
qed

lemma balance_reason_context:
  assumes "balance_reason s trace = None" "matched_zero trace"
  shows "length (intent_exchanges s trace) = 2 \<and> intent_assets s trace \<noteq> []"
proof -
  have "length (intent_exchanges s trace) \<le> 2"
  proof -
    have "length (remdups (filter P [x, y])) \<le> 2" for P and x y :: string
      by (simp add: order_trans [OF length_remdups_leq])
    then show ?thesis by (simp add: intent_exchanges_def Let_def split: option.split)
  qed
  with assms show ?thesis by (auto simp: balance_reason_def Let_def split: if_splits)
qed

lemma sorted_texts_empty: "sorted_texts xs = [] \<longleftrightarrow> xs = []"
  by (metis set_empty set_remdups set_sort sorted_texts_def)

lemma status_reason_passes:
  assumes "status_reason trace = None" "matched_zero trace"
  shows "list_all (\<lambda>st. st = ''filled'') (trace_statuses trace)"
proof -
  from assms have "list_all (\<lambda>st. st \<in> set RECOVERY_TERMINAL_STATUSES \<and> st \<notin> set TERMINAL_FAILURE_ORDER_STATUSES) (trace_statuses trace)"
    by (auto simp: status_reason_def Let_def sorted_texts_empty filter_empty_conv list_all_iff split: if_splits)
  then show ?thesis
    by (auto simp: list_all_iff RECOVERY_TERMINAL_STATUSES_def TERMINAL_FAILURE_ORDER_STATUSES_def)
qed

section \<open>Decisions\<close>

lemma unwind_action_cases:
  assumes "unwind_action cfg clock s ords trace = Inr act"
  shows "(\<exists>x y. act = Handoff x y) \<or> (unwind_failure_status s trace = Inr None
    \<and> unwind_order_stale cfg (clock 2) s trace = Inr None \<and> act = timeout_action cfg (clock 3) ords trace)"
proof (cases "unwind_failure_status s trace")
  case (Inr f)
  show ?thesis
  proof (cases f)
    case None
    show ?thesis
    proof (cases "unwind_order_stale cfg (clock 2) s trace")
      case u: (Inr u)
      with assms Inr None show ?thesis by (cases u) (auto simp: unwind_action_def)
    qed (use assms Inr None in \<open>simp add: unwind_action_def\<close>)
  qed (use assms Inr in \<open>auto simp: unwind_action_def\<close>)
qed (use assms in \<open>simp add: unwind_action_def\<close>)

lemma action_cases:
  assumes "trace_action cfg clock s ords trace = Inr act"
  obtains (handoff) reason summary where "act = Handoff reason summary"
    | (matched) reason where "act = Resolve reason" "resolution_reason trace = Some reason"
        "first_some (reconciliation_checks cfg clock s trace) = None"
    | (timeout) "act = timeout_action cfg (clock 3) ords trace" "resolution_reason trace = None"
        "mismatch_reason cfg trace = None" "first_some (reconciliation_checks cfg clock s trace) = None"
        "unwind_failure_status s trace = Inr None" "unwind_order_stale cfg (clock 2) s trace = Inr None"
proof (cases "first_some (reconciliation_checks cfg clock s trace)")
  case (Some r)
  with assms handoff show ?thesis by (cases r) (auto simp: trace_action_def)
next
  case checks: None
  show ?thesis
  proof (cases "resolution_reason trace")
    case (Some r)
    with assms checks matched show ?thesis by (auto simp: trace_action_def)
  next
    case resolution: None
    show ?thesis
    proof (cases "mismatch_reason cfg trace")
      case (Some r)
      with assms checks resolution handoff show ?thesis by (cases r) (auto simp: trace_action_def)
    next
      case mismatch: None
      with assms checks resolution have "unwind_action cfg clock s ords trace = Inr act" by (simp add: trace_action_def)
      then show ?thesis using checks resolution mismatch handoff timeout unwind_action_cases by blast
    qed
  qed
qed

lemma resolution_matched_zero:
  "resolution_reason trace = Some r \<Longrightarrow> matched_zero trace \<and> r = ''reconciliation_matched_zero_residual''"
  by (auto simp: resolution_reason_def matched_zero_def is_zero_def split: option.splits if_splits)

lemma invalid_result_passes:
  assumes "invalid_result_reason nw trace = None" "matched_zero trace"
    "parse_time (pget trace ''reconciliation_observed_at'') = Some t"
  shows "t \<le> nw"
  using assms by (auto simp: invalid_result_reason_def invalid_core_fields_def matched_zero_def parse_time_def Let_def
      split: if_splits)

definition clock_ok :: "(nat \<Rightarrow> time) \<Rightarrow> obj \<Rightarrow> bool" where
  \<comment> \<open>the observation lies within some sixty years of the clock, where whole seconds are exact in floats\<close>
  "clock_ok clock trace = (case parse_time (pget trace ''reconciliation_observed_at'') of None \<Rightarrow> True
     | Some t \<Rightarrow> clock 1 - t \<le> 2000000000000000)"

section \<open>A concrete trace\<close>

definition demo_recovery :: recovery_config where
  "demo_recovery = make_recovery_config True 1000 60 15 2 15 True"

definition demo_recovery_intent :: order_intent where
  "demo_recovery_intent = \<lparr>intent_id = ''i1'', int_bot_id = ''b1'', int_run_id = ''r1'', int_market = ''btc-jpy'',
     int_buy_exchange = ''alpha'', int_sell_exchange = ''beta'', int_side_pair = ''buy_sell'', int_target_qty = ''1'',
     int_expected_profit = None, int_expected_profit_ratio = None, int_status = ''submitted'', int_created_at = ''t'',
     int_decision_context = []\<rparr>"

definition demo_recovery_store :: store where
  "demo_recovery_store = empty_store\<lparr>order_intents := [(''i1'', demo_recovery_intent)]\<rparr>"

definition demo_balance :: "string \<Rightarrow> string \<Rightarrow> pyval" where
  "demo_balance e a = PDict [(''exchange_name'', PStr e), (''asset'', PStr a), (''free'', PStr ''1''), (''locked'', PStr ''0'')]"

definition demo_matched :: obj where
  "demo_matched = [(''recovery_trace_id'', PStr ''rt_1''), (''intent_id'', PStr ''i1''), (''reconciliation_result'', PStr ''matched''),
     (''reconciliation_open_order_count'', PInt 0), (''reconciliation_residual_exposure_quote'', PStr ''0''),
     (''reconciliation_observed_at'', PStr ''2026-01-01T00:00:00Z''),
     (''reconciliation_observed_balances'', PList [demo_balance ''alpha'' ''BTC'', demo_balance ''alpha'' ''JPY'',
        demo_balance ''beta'' ''BTC'', demo_balance ''beta'' ''JPY''])]"

definition demo_clock :: "nat \<Rightarrow> time" where
  "demo_clock i = 1767225601000000"

lemma demo_matched_resolves:
  "trace_action demo_recovery demo_clock demo_recovery_store [] demo_matched = Inr (Resolve ''reconciliation_matched_zero_residual'')"
  by code_simp

section \<open>Claims\<close>

text \<open>
  C5. Automatic resolution is safe. A recovery trace is resolved without an operator only in two cases.
  Either its reconciliation matched: no open orders and no residual exposure are reported, the
  observation is not in the future and younger than the configured limit, every observed order is
  filled, and for both exchanges and every asset of the intent a balance was observed with nothing
  locked. Or none of its orders is active, its own residual exposure is zero, and the linked unwind
  order neither failed nor hangs.
\<close>

theorem automatic_resolution_is_safe:
  assumes "trace_action cfg clock s ords trace = Inr (Resolve reason)"
    and "clock_ok clock trace"
  shows "(reason = ''reconciliation_matched_zero_residual'' \<and> matched_zero trace
      \<and> (\<exists>t. parse_time (pget trace ''reconciliation_observed_at'') = Some t \<and> t \<le> clock 0
            \<and> clock 1 - t < rv_stale_after cfg * 1000000)
      \<and> list_all (\<lambda>st. st = ''filled'') (trace_statuses trace)
      \<and> length (intent_exchanges s trace) = 2 \<and> intent_assets s trace \<noteq> []
      \<and> list_all (\<lambda>e. list_all (\<lambda>a. list_ex (\<lambda>b. strip (ob_exchange b) = e \<and> upper (strip (ob_asset b)) = a
            \<and> dval (ob_locked b) = 0) (evidence_rows trace)) (intent_assets s trace)) (intent_exchanges s trace))
    \<or> (reason = ''no_active_orders_and_zero_residual'' \<and> \<not> list_ex order_is_active ords
      \<and> is_zero (parse_decimal_opt (pget trace ''residual_exposure_quote''))
      \<and> unwind_failure_status s trace = Inr None \<and> unwind_order_stale cfg (clock 2) s trace = Inr None)"
  using assms(1)
proof (cases rule: action_cases)
  case (matched r)
  then have r: "reason = ''reconciliation_matched_zero_residual''" "matched_zero trace"
    using resolution_matched_zero by auto
  from matched have passed: "invalid_result_reason (clock 0) trace = None" "stale_reason cfg (clock 1) trace = None"
    "status_reason trace = None" "balance_reason s trace = None"
    by (simp_all add: first_some_None reconciliation_checks_def del: first_some.simps)
  from passed(2) r(2) obtain t where t: "parse_time (pget trace ''reconciliation_observed_at'') = Some t"
    "age_seconds (clock 1) t < rv_stale_after cfg"
    by (auto simp: stale_reason_def split: option.splits if_splits)
  with assms(2) have "clock 1 - t < rv_stale_after cfg * 1000000" by (intro young_in_microseconds) (auto simp: clock_ok_def)
  moreover have "t \<le> clock 0" using invalid_result_passes passed(1) r(2) t(1) by blast
  moreover have "list_all (\<lambda>e. list_all (\<lambda>a. list_ex (\<lambda>b. strip (ob_exchange b) = e \<and> upper (strip (ob_asset b)) = a
      \<and> dval (ob_locked b) = 0) (evidence_rows trace)) (intent_assets s trace)) (intent_exchanges s trace)"
    using balance_reason_passes [OF passed(4) r(2)] by (simp add: list_all_iff)
  ultimately show ?thesis
    using r t(1) status_reason_passes [OF passed(3) r(2)] balance_reason_context [OF passed(4) r(2)] by blast
next
  case timeout
  then show ?thesis by (auto simp: timeout_action_def split: if_splits option.splits)
qed simp

lemma automatic_resolution_is_safe_witness:
  "trace_action demo_recovery demo_clock demo_recovery_store [] demo_matched = Inr (Resolve ''reconciliation_matched_zero_residual'')
   \<and> clock_ok demo_clock demo_matched \<and> matched_zero demo_matched"
proof -
  have clock: "clock_ok demo_clock demo_matched" by code_simp
  from automatic_resolution_is_safe [OF demo_matched_resolves clock] demo_matched_resolves clock show ?thesis by simp
qed

text \<open>
  C30. No trace is left alone for ever. When the runtime leaves an active trace as it is, the trace still
  has an active order or a residual exposure that is not known to be zero, its linked unwind order is
  neither failed nor overdue, and the trace is not older than the handoff time (unless it carries no
  readable opening time or already asks for an operator).
\<close>

theorem unchanged_trace_is_young:
  assumes "trace_action cfg clock s ords trace = Inr No_change"
  shows "(list_ex order_is_active ords \<or> \<not> is_zero (parse_decimal_opt (pget trace ''residual_exposure_quote'')))
    \<and> unwind_failure_status s trace = Inr None \<and> unwind_order_stale cfg (clock 2) s trace = Inr None
    \<and> \<not> matched_zero trace
    \<and> (trace_age_seconds (clock 3) trace = None \<or> the (trace_age_seconds (clock 3) trace) \<le> rv_handoff_after cfg
       \<or> truthy (pget trace ''manual_handoff_required''))"
  using assms
proof (cases rule: action_cases)
  case timeout
  have "\<not> matched_zero trace"
  proof
    assume "matched_zero trace"
    with timeout(2) show False
      by (auto simp: resolution_reason_def matched_zero_def is_zero_def split: option.splits)
  qed
  with timeout show ?thesis by (auto simp: timeout_action_def split: if_splits option.splits)
qed simp_all

lemma unchanged_trace_is_young_witness:
  "trace_age_seconds (demo_clock 3) [(''recovery_trace_id'', PStr ''rt_1''), (''residual_exposure_quote'', PStr ''5''),
     (''opened_at'', PStr ''2026-01-01T00:00:00Z'')] = Some 1
   \<and> \<not> is_zero (parse_decimal_opt (PStr ''5''))"
proof -
  let ?trace = "[(''recovery_trace_id'', PStr ''rt_1''), (''residual_exposure_quote'', PStr ''5''),
     (''opened_at'', PStr ''2026-01-01T00:00:00Z'')]"
  have act: "trace_action demo_recovery demo_clock demo_recovery_store [] ?trace = Inr No_change" by code_simp
  from unchanged_trace_is_young [OF act] have "\<not> is_zero (parse_decimal_opt (PStr ''5''))" by (simp add: pget_def)
  moreover have "trace_age_seconds (demo_clock 3) ?trace = Some 1" by code_simp
  ultimately show ?thesis by simp
qed

end
