(* ===== verification/RedisLock.thy ===== *)
theory RedisLock
  imports RedisRuntime
begin

text \<open>
  What the pair locks and the stored objects of \<open>RedisRuntime\<close> guarantee, on a server that does what
  the Redis documentation says of the commands used. \<open>view r k\<close> is the text stored at key \<open>k\<close>. The
  contract describes a server that answers every command and on which no key expires while one
  operation runs; the last section shows what an expiry between two commands of a release can do.
\<close>

section \<open>The server\<close>

definition stored_reply :: "string option \<Rightarrow> reply" where
  "stored_reply t = (case t of None \<Rightarrow> RNil | Some s \<Rightarrow> RStr s)"

definition lock_key :: "redis_config \<Rightarrow> string \<Rightarrow> string \<Rightarrow> string" where
  "lock_key cfg market qid = redis_key cfg [''pair_lock'', market, qid]"

lemma lock_key_not_stream: "lock_key cfg market qid \<noteq> redis_key cfg [''stream'', st]"
  by (simp add: lock_key_def redis_key_def)

lemma json_ok_stored: "json_ok (PDict payload) \<Longrightarrow> json_ok (PDict (lock_to_store market qid ts ttl payload))"
  by (simp add: lock_to_store_def Let_def json_ok_dset json_ok_dmerge del: json_ok.simps(2) dmerge.simps)

lemma dumps_dict_nonempty: "dumps (PDict d) \<noteq> []"
  by simp

lemma stored_text_reads: "json_ok (PDict d) \<Longrightarrow> json_object (stored_reply (Some (dumps (PDict d)))) = Some d"
  using loads_dumps [of "PDict d"] by (simp add: json_object_def stored_reply_def strip_dumps_dict Let_def
      dumps_dict_nonempty del: dumps.simps)

lemma json_object_ok:
  assumes "json_object r = Some d"
  shows "json_ok (PDict d)"
proof -
  obtain raw where raw: "r = RStr raw" using assms by (cases r) (simp_all add: json_object_def)
  with assms obtain v where v: "loads (strip raw) = Some v" "as_dict v = Some d"
    by (auto simp: json_object_def Let_def split: if_splits option.splits)
  from v(2) have "v = PDict d" by (cases v) simp_all
  with loads_wellformed [OF v(1)] show ?thesis by simp
qed

lemma text_of_stored: "k \<notin> {''market'', ''quote_pair_id'', ''updated_at'', ''ttl_seconds'', ''acquired_at''}
    \<Longrightarrow> text_of (lock_to_store market qid ts ttl payload) k = text_of payload k"
  by (auto simp: text_of_def raw_text_def pget_def lock_to_store_def Let_def)

lemma same_owner_stored:
  "same_lock_owner (lock_to_store market qid ts ttl payload) h = same_lock_owner payload h"
  by (simp add: same_lock_owner_def text_of_stored)

definition keeps :: "('r \<Rightarrow> string \<Rightarrow> string option) \<Rightarrow> string \<Rightarrow> ('r, 'a) redis \<Rightarrow> bool" where
  \<comment> \<open>the computation leaves what is stored at the key\<close>
  "keeps view k m = (\<forall>s :: 'r redis_state. view (rs_server (snd (run_state m s))) k = view (rs_server s) k)"

lemma keeps_return: "keeps view k (State_Monad.return x)"
  by (simp add: keeps_def)

lemma keeps_bind: "keeps view k m \<Longrightarrow> (\<And>x. keeps view k (f x)) \<Longrightarrow> keeps view k (State_Monad.bind m f)"
  by (simp add: keeps_def split: prod.splits) (metis snd_conv)

lemma keeps_draw_now: "keeps view k (draw_now cfg)"
  by (simp add: keeps_def draw_now_def)

lemma keeps_run_if: "keeps view k m \<Longrightarrow> keeps view k (run_if b m)"
  by (auto simp: run_if_def intro: keeps_bind keeps_return)

locale redis_server =
  fixes exec :: "'r server"
    and view :: "'r \<Rightarrow> string \<Rightarrow> string option"
  assumes get: "\<exists>r'. exec [''GET'', k] r = (r', Inr (stored_reply (view r k))) \<and> view r' = view r"
    and set: "\<exists>r'. exec [''SET'', k, t] r = (r', Inr (RStr ''OK'')) \<and> view r' = (view r)(k \<mapsto> t)"
    and set_ex: "\<exists>r'. exec [''SET'', k, t, ''EX'', e] r = (r', Inr (RStr ''OK'')) \<and> view r' = (view r)(k \<mapsto> t)"
    and set_nx: "\<exists>r'. exec [''SET'', k, t, ''NX'', ''EX'', e] r
        = (r', Inr (if view r k = None then RStr ''OK'' else RNil))
        \<and> view r' = (if view r k = None then (view r)(k \<mapsto> t) else view r)"
    and del: "\<exists>r'. exec [''DEL'', k] r = (r', Inr (RInt (if view r k = None then 0 else 1)))
        \<and> view r' = (view r)(k := None)"
    and xadd: "\<exists>r' v. exec (''XADD'' # k # args) r = (r', v) \<and> (\<forall>k'. k' \<noteq> k \<longrightarrow> view r' k' = view r k')"
begin

lemma run_get:
  assumes "rc_client cfg"
  shows "\<exists>s'. run_state (get_json exec cfg parts) s = (json_object (stored_reply (view (rs_server s) (redis_key cfg parts))), s')
     \<and> view (rs_server s') = view (rs_server s) \<and> rs_drawn s' = rs_drawn s"
proof -
  obtain r' where "exec [''GET'', redis_key cfg parts] (rs_server s)
      = (r', Inr (stored_reply (view (rs_server s) (redis_key cfg parts))))" "view r' = view (rs_server s)"
    using get by blast
  with assms show ?thesis by (simp add: get_json_def execute_def client_execute_def)
qed

lemma run_set:
  assumes "rc_client cfg"
  shows "\<exists>s'. run_state (set_json exec cfg parts payload ttl) s = (True, s')
     \<and> view (rs_server s') = (view (rs_server s))(redis_key cfg parts \<mapsto> dumps (PDict payload)) \<and> rs_drawn s' = rs_drawn s"
proof (cases ttl)
  case None
  obtain r' where "exec [''SET'', redis_key cfg parts, dumps (PDict payload)] (rs_server s) = (r', Inr (RStr ''OK''))"
    "view r' = (view (rs_server s))(redis_key cfg parts \<mapsto> dumps (PDict payload))" using set by blast
  with assms None show ?thesis by (simp add: set_json_def execute_def client_execute_def del: dumps.simps)
next
  case (Some t)
  obtain r' where "exec [''SET'', redis_key cfg parts, dumps (PDict payload), ''EX'', int_str t] (rs_server s) = (r', Inr (RStr ''OK''))"
    "view r' = (view (rs_server s))(redis_key cfg parts \<mapsto> dumps (PDict payload))" using set_ex by blast
  with assms Some show ?thesis by (simp add: set_json_def execute_def client_execute_def del: dumps.simps)
qed

lemma run_event:
  assumes "rc_client cfg"
  shows "\<exists>b s'. run_state (append_event exec cfg stream ev payload trace) s = (b, s')
     \<and> (\<forall>k. k \<noteq> redis_key cfg [''stream'', stream] \<longrightarrow> view (rs_server s') k = view (rs_server s) k)"
proof -
  define args where "args = [''MAXLEN'', ''~'', ''1000'', ''*'', ''event'', dumps (PDict (event_envelope cfg
    (rc_uid cfg (rs_drawn s)) (rc_now cfg (Suc (rs_drawn s))) ev payload trace))]"
  obtain r' v where x: "exec (''XADD'' # redis_key cfg [''stream'', stream] # args) (rs_server s) = (r', v)"
    "\<forall>k. k \<noteq> redis_key cfg [''stream'', stream] \<longrightarrow> view r' k = view (rs_server s) k" using xadd by blast
  have "\<exists>b. run_state (append_event exec cfg stream ev payload trace) s
      = (b, s\<lparr>rs_drawn := Suc (Suc (rs_drawn s)), rs_server := r',
               rs_error := (case v of Inl e \<Rightarrow> Some (exc_text e) | Inr w \<Rightarrow> None)\<rparr>)"
    using assms x(1) by (cases v, simp_all add: append_event_def execute_def client_execute_def draw_uid_def
        draw_now_def args_def del: dumps.simps, blast)
  with x(2) show ?thesis by (elim exE) simp
qed

lemma run_event_on:
  assumes "rc_client cfg"
  shows "\<exists>b s'. run_state (append_event exec cfg stream ev payload trace) (s\<lparr>rs_server := r, rs_error := e\<rparr>) = (b, s')
     \<and> (\<forall>k. k \<noteq> redis_key cfg [''stream'', stream] \<longrightarrow> view (rs_server s') k = view r k)"
  using run_event [OF assms, of stream ev payload trace "s\<lparr>rs_server := r, rs_error := e\<rparr>"] by simp

lemma acquire_other_held:
  assumes "rc_client cfg" and held: "json_object (stored_reply (view (rs_server s) (lock_key cfg market qid))) = Some h"
    and other: "\<not> same_lock_owner payload h"
  shows "\<exists>s'. run_state (acquire_pair_lock exec cfg market qid payload trace ttl) s = ((''conflict'', Some h), s')
     \<and> view (rs_server s') (lock_key cfg market qid) = view (rs_server s) (lock_key cfg market qid)"
proof -
  let ?s = "s\<lparr>rs_drawn := Suc (rs_drawn s)\<rparr>"
  let ?p = "lock_to_store market qid (rc_now cfg (rs_drawn s)) (effective_ttl ttl) payload"
  obtain s1 where g: "run_state (get_json exec cfg [''pair_lock'', market, qid]) ?s = (Some h, s1)"
    "view (rs_server s1) = view (rs_server s)"
    using run_get [OF assms(1), of "[''pair_lock'', market, qid]" ?s] held by (auto simp: lock_key_def)
  obtain b s2 where e: "run_state (append_event exec cfg ''strategy_events'' ''strategy.pair_lock.conflict''
      [(''market'', PStr market), (''quote_pair_id'', PStr qid),
       (''requested_strategy_run_id'', PStr (text_of ?p ''strategy_run_id'')),
       (''requested_bot_id'', PStr (text_of ?p ''bot_id'')),
       (''existing_strategy_run_id'', pget h ''strategy_run_id''),
       (''existing_bot_id'', pget h ''bot_id'')] trace) s1 = (b, s2)"
    "\<forall>k. k \<noteq> redis_key cfg [''stream'', ''strategy_events''] \<longrightarrow> view (rs_server s2) k = view (rs_server s1) k"
    using run_event [OF assms(1)] by blast
  from e(2) lock_key_not_stream have "view (rs_server s2) (lock_key cfg market qid) = view (rs_server s) (lock_key cfg market qid)"
    by (simp add: g(2))
  with assms(1) g(1) e(1) other show ?thesis
    by (simp add: acquire_pair_lock_def draw_now_def get_pair_lock_def same_owner_stored Let_def del: dumps.simps)
qed

lemma acquire_own_held:
  assumes "rc_client cfg" and held: "json_object (stored_reply (view (rs_server s) (lock_key cfg market qid))) = Some h"
    and own: "same_lock_owner payload h"
    and p: "p = lock_to_store market qid (rc_now cfg (rs_drawn s)) (effective_ttl ttl) payload"
  shows "\<exists>s'. run_state (acquire_pair_lock exec cfg market qid payload trace ttl) s = ((''refreshed'', Some p), s')
     \<and> view (rs_server s') (lock_key cfg market qid) = Some (dumps (PDict p))"
proof -
  let ?s = "s\<lparr>rs_drawn := Suc (rs_drawn s)\<rparr>"
  obtain s1 where g: "run_state (get_json exec cfg [''pair_lock'', market, qid]) ?s = (Some h, s1)"
    using run_get [OF assms(1), of "[''pair_lock'', market, qid]" ?s] held by (auto simp: lock_key_def)
  obtain s2 where w: "run_state (set_json exec cfg [''pair_lock'', market, qid] p (Some (effective_ttl ttl))) s1 = (True, s2)"
    "view (rs_server s2) = (view (rs_server s1))(lock_key cfg market qid \<mapsto> dumps (PDict p))"
    using run_set [OF assms(1)] unfolding lock_key_def by blast
  obtain b s3 where e: "run_state (append_event exec cfg ''strategy_events'' ''strategy.pair_lock.refreshed''
      (lock_event market qid p) trace) s2 = (b, s3)"
    "\<forall>k. k \<noteq> redis_key cfg [''stream'', ''strategy_events''] \<longrightarrow> view (rs_server s3) k = view (rs_server s2) k"
    using run_event [OF assms(1)] by blast
  from e(2) lock_key_not_stream w(2) have "view (rs_server s3) (lock_key cfg market qid) = Some (dumps (PDict p))"
    by simp
  moreover from own p have "same_lock_owner p h" by (simp add: same_owner_stored)
  ultimately show ?thesis using assms(1) g w(1) e(1)
    by (simp add: acquire_pair_lock_def draw_now_def get_pair_lock_def flip: p del: dumps.simps)
qed

lemma acquire_free:
  assumes "rc_client cfg" and free: "view (rs_server s) (lock_key cfg market qid) = None"
    and p: "p = lock_to_store market qid (rc_now cfg (rs_drawn s)) (effective_ttl ttl) payload"
  shows "\<exists>s'. run_state (acquire_pair_lock exec cfg market qid payload trace ttl) s = ((''acquired'', Some p), s')
     \<and> view (rs_server s') (lock_key cfg market qid) = Some (dumps (PDict p))"
proof -
  let ?s = "s\<lparr>rs_drawn := Suc (rs_drawn s)\<rparr>"
  obtain s1 where g: "run_state (get_json exec cfg [''pair_lock'', market, qid]) ?s = (None, s1)"
    "view (rs_server s1) = view (rs_server s)"
    using run_get [OF assms(1), of "[''pair_lock'', market, qid]" ?s] free
    by (auto simp: lock_key_def stored_reply_def json_object_def)
  obtain r' where w: "exec [''SET'', lock_key cfg market qid, dumps (PDict p), ''NX'', ''EX'', int_str (effective_ttl ttl)]
      (rs_server s1) = (r', Inr (RStr ''OK''))" "view r' = (view (rs_server s))(lock_key cfg market qid \<mapsto> dumps (PDict p))"
    using set_nx [of "lock_key cfg market qid" "dumps (PDict p)" "int_str (effective_ttl ttl)" "rs_server s1"] free g(2)
    by auto
  obtain b s3 where e: "run_state (append_event exec cfg ''strategy_events'' ''strategy.pair_lock.acquired''
      (lock_event market qid p) trace) (s1\<lparr>rs_server := r', rs_error := None\<rparr>) = (b, s3)"
    "\<forall>k. k \<noteq> redis_key cfg [''stream'', ''strategy_events''] \<longrightarrow> view (rs_server s3) k = view r' k"
    using run_event_on [OF assms(1)] by blast
  from e(2) lock_key_not_stream w(2) have "view (rs_server s3) (lock_key cfg market qid) = Some (dumps (PDict p))"
    by simp
  with assms(1) g(1) w(1) e(1) show ?thesis
    by (simp add: acquire_pair_lock_def draw_now_def get_pair_lock_def client_execute_def
        flip: p lock_key_def del: dumps.simps)
qed

lemma acquire_unreadable:
  assumes "rc_client cfg" and was: "view (rs_server s) (lock_key cfg market qid) = Some t"
    and bad: "json_object (stored_reply (Some t)) = None"
  shows "\<exists>s'. run_state (acquire_pair_lock exec cfg market qid payload trace ttl) s = ((''conflict'', None), s')
     \<and> view (rs_server s') (lock_key cfg market qid) = Some t"
proof -
  let ?s = "s\<lparr>rs_drawn := Suc (rs_drawn s)\<rparr>"
  let ?p = "lock_to_store market qid (rc_now cfg (rs_drawn s)) (effective_ttl ttl) payload"
  obtain s1 where g: "run_state (get_json exec cfg [''pair_lock'', market, qid]) ?s = (None, s1)"
    "view (rs_server s1) = view (rs_server s)"
    using run_get [OF assms(1), of "[''pair_lock'', market, qid]" ?s] was bad by (auto simp: lock_key_def)
  obtain r' where w: "exec [''SET'', lock_key cfg market qid, dumps (PDict ?p), ''NX'', ''EX'', int_str (effective_ttl ttl)]
      (rs_server s1) = (r', Inr RNil)" "view r' = view (rs_server s)"
    using set_nx [of "lock_key cfg market qid" "dumps (PDict ?p)" "int_str (effective_ttl ttl)" "rs_server s1"] was g(2)
    by auto
  obtain s2 where h: "run_state (get_json exec cfg [''pair_lock'', market, qid]) (s1\<lparr>rs_server := r', rs_error := None\<rparr>)
      = (None, s2)" "view (rs_server s2) = view r'"
    using run_get [OF assms(1), of "[''pair_lock'', market, qid]" "s1\<lparr>rs_server := r', rs_error := None\<rparr>"] was bad w(2)
    by (auto simp: lock_key_def)
  from assms(1) g(1) w(1) h w(2) was show ?thesis
    by (simp add: acquire_pair_lock_def draw_now_def get_pair_lock_def client_execute_def Let_def
        flip: lock_key_def del: dumps.simps)
qed

lemma release_other_held:
  assumes "rc_client cfg" and held: "json_object (stored_reply (view (rs_server s) (lock_key cfg market qid))) = Some h"
    and other: "release_identified a" "\<not> release_matches a h"
  shows "\<exists>s'. run_state (release_pair_lock exec cfg market qid a trace) s = ((''conflict'', Some h), s')
     \<and> view (rs_server s') (lock_key cfg market qid) = view (rs_server s) (lock_key cfg market qid)"
proof -
  obtain s1 where g: "run_state (get_json exec cfg [''pair_lock'', market, qid]) s = (Some h, s1)"
    "view (rs_server s1) = view (rs_server s)"
    using run_get [OF assms(1), of "[''pair_lock'', market, qid]" s] held by (auto simp: lock_key_def)
  obtain b s2 where e: "run_state (append_event exec cfg ''strategy_events'' ''strategy.pair_lock.release_failed''
      [(''market'', PStr market), (''quote_pair_id'', PStr qid),
       (''requested_strategy_run_id'', opt_str (ra_strategy_run_id a)), (''requested_bot_id'', opt_str (ra_bot_id a)),
       (''existing_strategy_run_id'', pget h ''strategy_run_id''), (''existing_bot_id'', pget h ''bot_id''),
       (''reason'', PStr ''owner_mismatch'')] trace) s1 = (b, s2)"
    "\<forall>k. k \<noteq> redis_key cfg [''stream'', ''strategy_events''] \<longrightarrow> view (rs_server s2) k = view (rs_server s1) k"
    using run_event [OF assms(1)] by blast
  from e(2) lock_key_not_stream have "view (rs_server s2) (lock_key cfg market qid) = view (rs_server s) (lock_key cfg market qid)"
    by (simp add: g(2))
  with assms(1) g(1) e(1) other show ?thesis by (simp add: release_pair_lock_def get_pair_lock_def)
qed

lemma release_own_held:
  assumes "rc_client cfg" and held: "json_object (stored_reply (view (rs_server s) (lock_key cfg market qid))) = Some h"
    and own: "release_matches a h \<or> \<not> release_identified a"
  shows "\<exists>s'. run_state (release_pair_lock exec cfg market qid a trace) s = ((''released'', Some h), s')
     \<and> view (rs_server s') (lock_key cfg market qid) = None"
proof -
  from held have was: "view (rs_server s) (lock_key cfg market qid) \<noteq> None"
    by (cases "view (rs_server s) (lock_key cfg market qid)") (simp_all add: stored_reply_def json_object_def)
  obtain s1 where g: "run_state (get_json exec cfg [''pair_lock'', market, qid]) s = (Some h, s1)"
    "view (rs_server s1) = view (rs_server s)"
    using run_get [OF assms(1), of "[''pair_lock'', market, qid]" s] held by (auto simp: lock_key_def)
  obtain r' where w: "exec [''DEL'', lock_key cfg market qid] (rs_server s1) = (r', Inr (RInt 1))"
    "view r' = (view (rs_server s))(lock_key cfg market qid := None)"
    using del [of "lock_key cfg market qid" "rs_server s1"] was g(2) by auto
  obtain b s3 where e: "run_state (append_event exec cfg ''strategy_events'' ''strategy.pair_lock.released''
      [(''market'', PStr market), (''quote_pair_id'', PStr qid),
       (''strategy_run_id'', pget h ''strategy_run_id''), (''bot_id'', pget h ''bot_id'')] trace)
      (s1\<lparr>rs_server := r', rs_error := None\<rparr>) = (b, s3)"
    "\<forall>k. k \<noteq> redis_key cfg [''stream'', ''strategy_events''] \<longrightarrow> view (rs_server s3) k = view r' k"
    using run_event_on [OF assms(1)] by blast
  from e(2) lock_key_not_stream w(2) have "view (rs_server s3) (lock_key cfg market qid) = None" by simp
  moreover from own have "(release_identified a \<and> \<not> release_matches a h) = False" by blast
  ultimately show ?thesis using assms(1) g(1) w(1) e(1)
    by (simp add: release_pair_lock_def get_pair_lock_def client_execute_def deleted_one_def flip: lock_key_def) blast
qed

lemma keeps_execute_get: "keeps view k (execute exec cfg [''GET'', k'])"
proof (unfold keeps_def, intro allI)
  fix s :: "'r redis_state"
  obtain r' where "exec [''GET'', k'] (rs_server s) = (r', Inr (stored_reply (view (rs_server s) k')))"
    "view r' = view (rs_server s)" using get by blast
  then show "view (rs_server (snd (run_state (execute exec cfg [''GET'', k']) s))) k = view (rs_server s) k"
    by (simp add: execute_def client_execute_def)
qed

lemma keeps_get_json: "keeps view k (get_json exec cfg parts)"
  unfolding get_json_def by (rule keeps_bind [OF keeps_execute_get keeps_return])

lemma keeps_set_json:
  assumes "k \<noteq> redis_key cfg parts"
  shows "keeps view k (set_json exec cfg parts payload ttl)"
proof (cases "rc_client cfg")
  case True
  show ?thesis unfolding keeps_def
  proof
    fix s :: "'r redis_state"
    obtain s' where "run_state (set_json exec cfg parts payload ttl) s = (True, s')"
      "view (rs_server s') = (view (rs_server s))(redis_key cfg parts \<mapsto> dumps (PDict payload))"
      using run_set [OF True] by blast
    with assms show "view (rs_server (snd (run_state (set_json exec cfg parts payload ttl) s))) k = view (rs_server s) k"
      by simp
  qed
next
  case False
  then show ?thesis by (simp add: keeps_def set_json_def execute_def)
qed

lemma keeps_append_event:
  assumes "k \<noteq> redis_key cfg [''stream'', stream]"
  shows "keeps view k (append_event exec cfg stream ev payload trace)"
proof (cases "rc_client cfg")
  case True
  show ?thesis unfolding keeps_def
  proof
    fix s :: "'r redis_state"
    obtain b s' where "run_state (append_event exec cfg stream ev payload trace) s = (b, s')"
      "\<forall>k. k \<noteq> redis_key cfg [''stream'', stream] \<longrightarrow> view (rs_server s') k = view (rs_server s) k"
      using run_event [OF True] by blast
    with assms show "view (rs_server (snd (run_state (append_event exec cfg stream ev payload trace) s))) k = view (rs_server s) k"
      by simp
  qed
next
  case False
  then show ?thesis by (simp add: keeps_def append_event_def execute_def draw_uid_def draw_now_def)
qed

lemmas keeps_intros = keeps_return keeps_bind keeps_get_json keeps_set_json keeps_append_event keeps_run_if keeps_draw_now

lemma keeps_sync_arbitrage_evaluation:
  "k \<noteq> redis_key cfg [''strategy_run'', rid, ''latest_evaluation''] \<Longrightarrow> k \<noteq> redis_key cfg [''stream'', ''strategy_events'']
    \<Longrightarrow> keeps view k (sync_arbitrage_evaluation exec cfg rid payload trace publish)"
  by (auto simp: sync_arbitrage_evaluation_def Let_def intro!: keeps_intros)

lemma keeps_sync_evaluation_recovery:
  "k \<noteq> redis_key cfg [''strategy_run'', rid, ''latest_evaluation''] \<Longrightarrow> k \<noteq> redis_key cfg [''stream'', ''strategy_events'']
    \<Longrightarrow> keeps view k (sync_arbitrage_evaluation_recovery_state exec cfg rid tr trace)"
  by (auto simp: sync_arbitrage_evaluation_recovery_state_def get_arbitrage_evaluation_def Let_def
      intro!: keeps_intros keeps_sync_arbitrage_evaluation split: option.split)

end

section \<open>A key-value server\<close>

definition kv_exec :: "(string \<Rightarrow> string option) server" where
  "kv_exec cmd m = (case cmd of
       [c, k] \<Rightarrow>
         if c = ''GET'' then (m, Inr (stored_reply (m k)))
         else if c = ''DEL'' then (m(k := None), Inr (RInt (if m k = None then 0 else 1)))
         else (m, Inl (RuntimeError ''ERR''))
     | [c, k, t] \<Rightarrow> if c = ''SET'' then (m(k \<mapsto> t), Inr (RStr ''OK'')) else (m, Inl (RuntimeError ''ERR''))
     | [c, k, t, x, e] \<Rightarrow> if c = ''SET'' then (m(k \<mapsto> t), Inr (RStr ''OK'')) else (m, Inl (RuntimeError ''ERR''))
     | [c, k, t, n, x, e] \<Rightarrow>
         if c \<noteq> ''SET'' then (m, Inl (RuntimeError ''ERR''))
         else if m k = None then (m(k \<mapsto> t), Inr (RStr ''OK'')) else (m, Inr RNil)
     | _ \<Rightarrow> (m, Inr (RStr ''1-0'')))"

definition kv_view :: "(string \<Rightarrow> string option) \<Rightarrow> string \<Rightarrow> string option" where
  "kv_view m = m"

lemma kv_event: "\<exists>v. kv_exec (''XADD'' # k # args) m = (m, v)"
  by (auto simp: kv_exec_def split: list.splits)

interpretation kv: redis_server kv_exec kv_view
proof unfold_locales
  show "\<exists>r' v. kv_exec (''XADD'' # k # args) r = (r', v)
      \<and> (\<forall>k'. k' \<noteq> k \<longrightarrow> kv_view r' k' = kv_view r k')" for k args r
    using kv_event by blast
qed (auto simp: kv_exec_def kv_view_def)

section \<open>Sequences of lock requests\<close>

datatype lock_op = Acquire obj "int option" | Release release_args

fun run_lock_op :: "'r server \<Rightarrow> redis_config \<Rightarrow> string \<Rightarrow> string \<Rightarrow> string option \<Rightarrow> lock_op \<Rightarrow>
    ('r, string \<times> obj option) redis" where
  "run_lock_op exec cfg market qid trace (Acquire payload ttl) = acquire_pair_lock exec cfg market qid payload trace ttl"
| "run_lock_op exec cfg market qid trace (Release a) = release_pair_lock exec cfg market qid a trace"

fun run_lock_ops :: "'r server \<Rightarrow> redis_config \<Rightarrow> string \<Rightarrow> string \<Rightarrow> string option \<Rightarrow> lock_op list \<Rightarrow>
    ('r, (string \<times> obj option) list) redis" where
  "run_lock_ops exec cfg market qid trace [] = State_Monad.return []"
| "run_lock_ops exec cfg market qid trace (x # xs) = do {
     y \<leftarrow> run_lock_op exec cfg market qid trace x;
     ys \<leftarrow> run_lock_ops exec cfg market qid trace xs;
     State_Monad.return (y # ys) }"

fun foreign_op :: "obj \<Rightarrow> lock_op \<Rightarrow> bool" where
  \<comment> \<open>a request that does not come from the holder \<open>h\<close> of the lock\<close>
  "foreign_op h (Acquire payload ttl) = (\<not> same_lock_owner payload h)"
| "foreign_op h (Release a) = (release_identified a \<and> \<not> release_matches a h)"

lemma foreign_op_keeps_lock:
  assumes "redis_server exec view" and "rc_client cfg" and "foreign_op h x"
    and "json_object (stored_reply (view (rs_server s) (lock_key cfg market qid))) = Some h"
  shows "\<exists>s'. run_state (run_lock_op exec cfg market qid trace x) s = ((''conflict'', Some h), s')
     \<and> view (rs_server s') (lock_key cfg market qid) = view (rs_server s) (lock_key cfg market qid)"
proof (cases x)
  case (Acquire payload ttl)
  with assms redis_server.acquire_other_held [OF assms(1,2,4)] show ?thesis by simp
next
  case (Release a)
  with assms redis_server.release_other_held [OF assms(1,2,4)] show ?thesis by simp
qed

section \<open>A concrete configuration\<close>

definition demo_cfg :: redis_config where
  "demo_cfg = \<lparr>rc_url = ''redis://localhost'', rc_client = True, rc_cli = False, rc_prefix = ''p'', rc_service = ''s'',
     rc_uid = (\<lambda>i. ''u''), rc_now = (\<lambda>i. ''now'')\<rparr>"

lemma demo_cfg_client: "rc_client demo_cfg"
  by (simp add: demo_cfg_def)

lemma demo_cfg_now: "rc_now demo_cfg i = ''now''"
  by (simp add: demo_cfg_def)

definition demo_owner :: "string \<Rightarrow> obj" where
  "demo_owner w = [(''owner_id'', PStr w)]"

definition demo_locked :: "string \<Rightarrow> (string \<Rightarrow> string option) redis_state" where
  \<comment> \<open>\<open>w\<close> holds the lock of one market and quote pair\<close>
  "demo_locked w = \<lparr>rs_error = None, rs_server = [lock_key demo_cfg ''BTC/JPY'' ''q1'' \<mapsto> dumps (PDict (demo_owner w))],
     rs_drawn = 0\<rparr>"

lemma demo_locked_holds:
  "json_object (stored_reply (kv_view (rs_server (demo_locked w)) (lock_key demo_cfg ''BTC/JPY'' ''q1''))) = Some (demo_owner w)"
  using stored_text_reads [of "demo_owner w"] by (simp add: demo_locked_def demo_owner_def kv_view_def del: dumps.simps)

lemma demo_other_owner: "\<not> same_lock_owner (demo_owner ''b'') (demo_owner ''a'')"
  by code_simp

section \<open>Claims\<close>

text \<open>
  C18. The pair lock excludes. Asking for the lock of a market and quote pair acquires it exactly when
  nothing is stored under its key, refreshes it exactly when the stored lock is the requester's own (by
  owner identifier, or by run and bot), and is a conflict in every other case, also when the stored
  text is not a lock that can be read. Acquired or refreshed, the key holds the requested lock and
  reads back as it; a conflict leaves the key as it was.
\<close>

theorem pair_lock_excludes:
  assumes "redis_server exec view" and "rc_client cfg" and "json_ok (PDict payload)"
    and "run_state (acquire_pair_lock exec cfg market qid payload trace ttl) s = ((outcome, lock), s')"
    and "was = view (rs_server s) (lock_key cfg market qid)" and "held = json_object (stored_reply was)"
    and "p = lock_to_store market qid (rc_now cfg (rs_drawn s)) (effective_ttl ttl) payload"
  shows "(outcome = ''acquired'') = (was = None)
    \<and> (outcome = ''refreshed'') = (\<exists>h. held = Some h \<and> same_lock_owner payload h)
    \<and> (outcome = ''conflict'') = (was \<noteq> None \<and> (\<forall>h. held \<noteq> Some h \<or> \<not> same_lock_owner payload h))
    \<and> lock = (if outcome = ''conflict'' then held else Some p)
    \<and> view (rs_server s') (lock_key cfg market qid) = (if outcome = ''conflict'' then was else Some (dumps (PDict p)))
    \<and> json_object (stored_reply (view (rs_server s') (lock_key cfg market qid))) = lock"
proof -
  from assms(3,7) have rd: "json_object (stored_reply (Some (dumps (PDict p)))) = Some p"
    by (simp add: stored_text_reads json_ok_stored del: json_ok.simps dumps.simps)
  note laws = assms(1,2)
  show ?thesis
  proof (cases "was = None")
    case True
    with redis_server.acquire_free [OF laws, of s market qid p ttl payload trace] assms(4-7) rd
    show ?thesis by (auto simp: stored_reply_def json_object_def simp del: dumps.simps)
  next
    case False
    then obtain t where t: "was = Some t" "view (rs_server s) (lock_key cfg market qid) = Some t"
      using assms(5) by auto
    show ?thesis
    proof (cases held)
      case None
      with redis_server.acquire_unreadable [OF laws, of s market qid t payload trace ttl] assms(4-6) t
      show ?thesis by auto
    next
      case (Some h)
      then have "json_object (stored_reply (Some t)) = Some h" using assms(5,6) t by simp
      with Some redis_server.acquire_other_held [OF laws, of s market qid h payload trace ttl]
        redis_server.acquire_own_held [OF laws, of s market qid h payload p ttl trace] assms(4-7) t rd
      show ?thesis by (cases "same_lock_owner payload h") (auto simp del: dumps.simps)
    qed
  qed
qed

lemma pair_lock_excludes_witness:
  "fst (fst (run_state (acquire_pair_lock kv_exec demo_cfg ''BTC/JPY'' ''q1'' (demo_owner ''b'') None None) (demo_locked ''a'')))
     = ''conflict''"
proof -
  obtain oc lk s' where r: "run_state (acquire_pair_lock kv_exec demo_cfg ''BTC/JPY'' ''q1'' (demo_owner ''b'') None None)
      (demo_locked ''a'') = ((oc, lk), s')" by (metis prod.collapse)
  have ok: "json_ok (PDict (demo_owner ''b''))" by (simp add: demo_owner_def)
  have "kv_view (rs_server (demo_locked ''a'')) (lock_key demo_cfg ''BTC/JPY'' ''q1'') \<noteq> None"
    by (simp add: demo_locked_def kv_view_def)
  with pair_lock_excludes [where exec = kv_exec and view = kv_view, OF kv.redis_server_axioms demo_cfg_client ok r refl refl refl]
  have "oc = ''conflict''" unfolding demo_locked_holds using demo_other_owner by simp
  with r show ?thesis by simp
qed

text \<open>
  C2. A held lock survives every other client. While a lock that reads as \<open>h\<close> is stored, any sequence of
  requests to acquire or release it that do not come from its holder is refused request by request,
  each one told who holds the lock, and leaves the stored lock as it is.
\<close>

theorem held_lock_survives:
  assumes "redis_server exec view" and "rc_client cfg"
    and "json_object (stored_reply (view (rs_server s) (lock_key cfg market qid))) = Some h"
    and "list_all (foreign_op h) ops"
    and "run_state (run_lock_ops exec cfg market qid trace ops) s = (rs, s')"
  shows "rs = replicate (length ops) (''conflict'', Some h)
    \<and> view (rs_server s') (lock_key cfg market qid) = view (rs_server s) (lock_key cfg market qid)"
  using assms(3-5)
proof (induction ops arbitrary: s rs)
  case (Cons x xs)
  from Cons.prems have x: "foreign_op h x" by simp
  obtain s1 where s1: "run_state (run_lock_op exec cfg market qid trace x) s = ((''conflict'', Some h), s1)"
    "view (rs_server s1) (lock_key cfg market qid) = view (rs_server s) (lock_key cfg market qid)"
    using foreign_op_keeps_lock [OF assms(1,2) x Cons.prems(1)] by blast
  obtain ys s2 where ys: "run_state (run_lock_ops exec cfg market qid trace xs) s1 = (ys, s2)"
    by (cases "run_state (run_lock_ops exec cfg market qid trace xs) s1")
  with Cons.prems s1(1) have "rs = (''conflict'', Some h) # ys" "s' = s2" by simp_all
  moreover from Cons.IH [of s1 ys] Cons.prems(1,2) s1(2) ys \<open>s' = s2\<close>
  have "ys = replicate (length xs) (''conflict'', Some h)
    \<and> view (rs_server s2) (lock_key cfg market qid) = view (rs_server s1) (lock_key cfg market qid)" by simp
  ultimately show ?case using s1(2) by simp
qed simp

lemma held_lock_survives_witness:
  "fst (run_state (run_lock_ops kv_exec demo_cfg ''BTC/JPY'' ''q1'' None
      [Acquire (demo_owner ''b'') None, Release \<lparr>ra_strategy_run_id = None, ra_bot_id = None, ra_owner_id = Some ''b''\<rparr>])
      (demo_locked ''a'')) = replicate 2 (''conflict'', Some (demo_owner ''a''))"
proof -
  let ?ops = "[Acquire (demo_owner ''b'') None, Release \<lparr>ra_strategy_run_id = None, ra_bot_id = None, ra_owner_id = Some ''b''\<rparr>]"
  have f: "list_all (foreign_op (demo_owner ''a'')) ?ops" by code_simp
  show ?thesis
    using held_lock_survives [where exec = kv_exec and view = kv_view, OF kv.redis_server_axioms demo_cfg_client demo_locked_holds f,
        of None "fst (run_state (run_lock_ops kv_exec demo_cfg ''BTC/JPY'' ''q1'' None ?ops) (demo_locked ''a''))"
          "snd (run_state (run_lock_ops kv_exec demo_cfg ''BTC/JPY'' ''q1'' None ?ops) (demo_locked ''a''))"]
    by (simp only: prod.collapse numeral_2_eq_2) simp
qed

text \<open>
  The holder frees the lock. A release that names the holder of the stored lock (by owner, or by run
  and bot), or names nobody, removes it and returns it, and the next client that asks acquires the lock.
\<close>

theorem owner_frees_the_lock:
  assumes "redis_server exec view" and "rc_client cfg"
    and "json_object (stored_reply (view (rs_server s) (lock_key cfg market qid))) = Some h"
    and "release_matches a h \<or> \<not> release_identified a"
  shows "map fst (fst (run_state (run_lock_ops exec cfg market qid trace [Release a, Acquire payload ttl]) s))
      = [''released'', ''acquired'']"
proof -
  obtain s1 where s1: "run_state (release_pair_lock exec cfg market qid a trace) s = ((''released'', Some h), s1)"
    "view (rs_server s1) (lock_key cfg market qid) = None"
    using redis_server.release_own_held [OF assms] by blast
  obtain p s2 where "run_state (acquire_pair_lock exec cfg market qid payload trace ttl) s1 = ((''acquired'', p), s2)"
    using redis_server.acquire_free [OF assms(1,2) s1(2) refl] by blast
  with s1(1) show ?thesis by simp
qed

lemma owner_frees_the_lock_witness:
  "map fst (fst (run_state (run_lock_ops kv_exec demo_cfg ''BTC/JPY'' ''q1'' None
      [Release \<lparr>ra_strategy_run_id = None, ra_bot_id = None, ra_owner_id = Some ''a''\<rparr>, Acquire (demo_owner ''b'') None])
      (demo_locked ''a''))) = [''released'', ''acquired'']"
proof -
  have "release_matches \<lparr>ra_strategy_run_id = None, ra_bot_id = None, ra_owner_id = Some ''a''\<rparr> (demo_owner ''a'')" by code_simp
  then show ?thesis
    using owner_frees_the_lock [where exec = kv_exec and view = kv_view, OF kv.redis_server_axioms demo_cfg_client demo_locked_holds] by blast
qed

text \<open>
  Stored objects are read back. An object written under a key (with or without a time to live) is
  what the next read of the key returns, for every object of texts, integers, truth values, lists and
  objects whose keys are distinct: escapes, empty objects and blanks included.
\<close>

theorem stored_object_reads_back:
  assumes "redis_server exec view" and "rc_client cfg" and "json_ok (PDict payload)"
  shows "fst (run_state (do { ok \<leftarrow> set_json exec cfg parts payload ttl; found \<leftarrow> get_json exec cfg parts;
      State_Monad.return (ok, found) }) s) = (True, Some payload)"
proof -
  obtain s1 where s1: "run_state (set_json exec cfg parts payload ttl) s = (True, s1)"
    "view (rs_server s1) = (view (rs_server s))(redis_key cfg parts \<mapsto> dumps (PDict payload))"
    using redis_server.run_set [OF assms(1,2)] by blast
  obtain s2 where "run_state (get_json exec cfg parts) s1
      = (json_object (stored_reply (view (rs_server s1) (redis_key cfg parts))), s2)"
    using redis_server.run_get [OF assms(1,2)] by blast
  with s1 stored_text_reads [OF assms(3)] show ?thesis by (simp del: dumps.simps)
qed

lemma stored_object_reads_back_witness:
  "fst (run_state (do { ok \<leftarrow> set_json kv_exec demo_cfg [''bot'', ''b''] (demo_owner ''a'') (Some 120);
      found \<leftarrow> get_json kv_exec demo_cfg [''bot'', ''b'']; State_Monad.return (ok, found) }) (demo_locked ''a''))
     = (True, Some (demo_owner ''a''))"
  by (rule stored_object_reads_back [where exec = kv_exec and view = kv_view, OF kv.redis_server_axioms demo_cfg_client]) (simp add: demo_owner_def)

text \<open>
  What is read from Redis is well formed: an object accepted from a reply has each key once, at every level
  of nesting. Texts with fractions or \<open>NaN\<close> are outside the JSON read here.
\<close>

theorem read_object_wellformed:
  assumes "json_object r = Some d"
  shows "json_ok (PDict d) \<and> json_object (RStr (dumps (PDict d))) = Some d"
  using json_object_ok [OF assms] stored_text_reads [of d] by (simp add: stored_reply_def del: json_ok.simps dumps.simps)

lemma read_object_wellformed_witness:
  "json_object (RStr (dumps (PDict (demo_owner ''a'')))) = Some (demo_owner ''a'') \<and> json_ok (PDict (demo_owner ''a''))"
proof -
  have "json_object (RStr (dumps (PDict (demo_owner ''a'')))) = Some (demo_owner ''a'')"
    using stored_text_reads [of "demo_owner ''a''"] by (simp add: demo_owner_def stored_reply_def del: dumps.simps)
  with read_object_wellformed [OF this] show ?thesis by blast
qed

section \<open>An expiry between the commands of a release\<close>

definition late_exec :: "string \<Rightarrow> string \<Rightarrow> ((string \<Rightarrow> string option) \<times> bool) server" where
  \<comment> \<open>a server on which, after the first command, the text at \<open>k\<close> expires and another client stores \<open>t\<close>\<close>
  "late_exec k t cmd = (\<lambda>(m, fresh). case kv_exec cmd m of (m', v) \<Rightarrow> ((if fresh then m'(k \<mapsto> t) else m', False), v))"

text \<open>
  \<open>release_pair_lock\<close> reads the lock and deletes it in two commands. When the lock it read expires in
  between and another client acquires it, the release of the first owner deletes the second one's lock
  and reports success.
\<close>

lemma release_deletes_successor:
  assumes "rc_client cfg" and k: "k = lock_key cfg market qid" and m: "m k = Some (dumps (PDict h))" and ok: "json_ok (PDict h)"
    and own: "release_matches a h" and s: "rs_server s = (m, True)"
  shows "\<exists>s'. run_state (release_pair_lock (late_exec k t) cfg market qid a trace) s = ((''released'', Some h), s')
    \<and> fst (rs_server s') k = None"
proof -
  let ?s1 = "s\<lparr>rs_server := (m(k \<mapsto> t), False), rs_error := None\<rparr>"
  have g: "run_state (get_json (late_exec k t) cfg [''pair_lock'', market, qid]) s = (Some h, ?s1)"
    using assms(1) k m s stored_text_reads [OF ok]
    by (simp add: get_json_def execute_def client_execute_def late_exec_def kv_exec_def lock_key_def del: dumps.simps)
  show ?thesis using assms(1) g own
    by (simp add: release_pair_lock_def get_pair_lock_def client_execute_def late_exec_def kv_exec_def deleted_one_def
        append_event_def execute_def draw_uid_def draw_now_def k [unfolded lock_key_def] del: dumps.simps)
qed

end
