(* ===== verification/RedisTraces.thy ===== *)
theory RedisTraces
  imports RedisLock RedisQueries
begin

text \<open>
  The recovery traces kept in Redis, on a server with the contract of \<open>RedisLock.redis_server\<close>: what a
  transition of a trace stores, and that a resolved or cancelled trace stays as it is.
\<close>

definition trace_key :: "redis_config \<Rightarrow> string \<Rightarrow> string" where
  "trace_key cfg tid = redis_key cfg [''recovery_trace'', tid]"

lemma trace_key_others:
  "trace_key cfg tid \<noteq> redis_key cfg [''stream'', st]"
  "trace_key cfg tid \<noteq> redis_key cfg [''strategy_run'', rid, x]"
  by (simp_all add: trace_key_def redis_key_def)

definition stored_trace :: "string \<Rightarrow> string \<Rightarrow> obj \<Rightarrow> obj" where
  "stored_trace tid ts payload = dset (dset payload ''recovery_trace_id'' (PStr tid)) ''updated_at'' (PStr ts)"

definition moved_trace :: "string \<Rightarrow> string \<Rightarrow> obj option \<Rightarrow> obj \<Rightarrow> obj" where
  "moved_trace status lifecycle patch current =
     dmerge (dset (dset current ''status'' (PStr status)) ''lifecycle_state'' (PStr lifecycle))
       (case patch of None \<Rightarrow> [] | Some p \<Rightarrow> p)"

lemma json_ok_moved:
  "json_ok (PDict current) \<Longrightarrow> list_all (\<lambda>p. json_ok (snd p)) (case patch of None \<Rightarrow> [] | Some p \<Rightarrow> p)
    \<Longrightarrow> json_ok (PDict (stored_trace tid ts (moved_trace status lifecycle patch current)))"
  by (simp add: stored_trace_def moved_trace_def json_ok_dset json_ok_dmerge del: json_ok.simps(2))

definition after_move :: "'r server \<Rightarrow> redis_config \<Rightarrow> string \<Rightarrow> string option \<Rightarrow> string option \<Rightarrow> obj \<Rightarrow> ('r, obj option) redis" where
  \<comment> \<open>the steps of a transition once the new trace is built\<close>
  "after_move exec cfg tid trace event_type payload = do {
     _ \<leftarrow> sync_recovery_trace exec cfg tid payload trace;
     _ \<leftarrow> (if text_of payload ''run_id'' = [] then State_Monad.return () else do {
        latest \<leftarrow> get_recovery_trace exec cfg tid;
        (case latest of None \<Rightarrow> State_Monad.return ()
         | Some l \<Rightarrow> do {
             _ \<leftarrow> sync_arbitrage_evaluation_recovery_state exec cfg (text_of payload ''run_id'') l trace;
             State_Monad.return () }) });
     _ \<leftarrow> (case event_type of None \<Rightarrow> State_Monad.return ()
      | Some e \<Rightarrow> run_if (e \<noteq> []) (append_event exec cfg ''strategy_events'' e (trace_event tid payload) trace));
     get_recovery_trace exec cfg tid }"

lemma run_state_bind: "run_state (State_Monad.bind m f) s = (case run_state m s of (a, s') \<Rightarrow> run_state (f a) s')"
  by simp

context redis_server
begin

lemma run_sync_recovery_trace:
  assumes "rc_client cfg"
  shows "\<exists>s'. run_state (sync_recovery_trace exec cfg tid payload trace) s = ((), s')
    \<and> view (rs_server s') (trace_key cfg tid) = Some (dumps (PDict (stored_trace tid (rc_now cfg (rs_drawn s)) payload)))"
proof -
  let ?s = "s\<lparr>rs_drawn := Suc (rs_drawn s)\<rparr>"
  let ?p = "stored_trace tid (rc_now cfg (rs_drawn s)) payload"
  let ?e = "[(''recovery_trace_id'', PStr tid), (''run_id'', pget ?p ''run_id''), (''bot_id'', pget ?p ''bot_id''),
        (''status'', pget ?p ''status''), (''lifecycle_state'', pget ?p ''lifecycle_state'')]"
  obtain s1 where s1: "run_state (set_json exec cfg [''recovery_trace'', tid] ?p None) ?s = (True, s1)"
    "view (rs_server s1) = (view (rs_server ?s))(redis_key cfg [''recovery_trace'', tid] \<mapsto> dumps (PDict ?p))"
    using run_set [OF assms] by blast
  obtain b s2 where s2: "run_state (append_event exec cfg ''strategy_events'' ''strategy.recovery_trace.updated'' ?e trace) s1
      = (b, s2)" "\<forall>k. k \<noteq> redis_key cfg [''stream'', ''strategy_events''] \<longrightarrow> view (rs_server s2) k = view (rs_server s1) k"
    using run_event [OF assms] by blast
  from s2(2) s1(2) trace_key_others(1) have "view (rs_server s2) (trace_key cfg tid) = Some (dumps (PDict ?p))"
    by (simp add: trace_key_def del: dumps.simps)
  with s1(1) s2(1) show ?thesis
    by (simp add: sync_recovery_trace_def draw_now_def run_if_def Let_def flip: stored_trace_def del: dumps.simps)
qed

lemma keeps_trace_events:
  "keeps view (trace_key cfg tid)
     (case event_type of None \<Rightarrow> State_Monad.return ()
      | Some e \<Rightarrow> run_if (e \<noteq> []) (append_event exec cfg ''strategy_events'' e x trace))"
  by (auto intro!: keeps_intros simp: trace_key_others split: option.split)

lemma keeps_trace_evaluation:
  "keeps view (trace_key cfg tid)
     (if rid = [] then State_Monad.return () else do {
        latest \<leftarrow> get_recovery_trace exec cfg tid;
        (case latest of None \<Rightarrow> State_Monad.return ()
         | Some l \<Rightarrow> do {
             _ \<leftarrow> sync_arbitrage_evaluation_recovery_state exec cfg rid l trace;
             State_Monad.return () }) })"
  by (auto intro!: keeps_intros keeps_sync_evaluation_recovery simp: trace_key_others get_recovery_trace_def
      split: option.split)

lemma run_after_keeping:
  assumes "keeps view k m" and "view (rs_server s) k = Some t"
  shows "\<exists>x s'. run_state m s = (x, s') \<and> view (rs_server s') k = Some t"
  using assms by (cases "run_state m s") (metis keeps_def snd_conv)

lemma run_transition:
  assumes "rc_client cfg"
    and current: "json_object (stored_reply (view (rs_server s) (trace_key cfg tid))) = Some current"
    and open_trace: "low_text current ''status'' \<notin> {''resolved'', ''cancelled''}"
    and p: "p = moved_trace status lifecycle patch current"
    and stored: "json_object (stored_reply (Some (dumps (PDict (stored_trace tid (rc_now cfg (rs_drawn s)) p))))) = Some q"
  shows "\<exists>s'. run_state (transition_recovery_trace exec cfg tid status lifecycle patch trace event_type) s = (Some q, s')
    \<and> view (rs_server s') (trace_key cfg tid) = Some (dumps (PDict (stored_trace tid (rc_now cfg (rs_drawn s)) p)))"
proof -
  let ?t = "dumps (PDict (stored_trace tid (rc_now cfg (rs_drawn s)) p))"
  obtain s1 where s1: "run_state (get_recovery_trace exec cfg tid) s = (Some current, s1)" "rs_drawn s1 = rs_drawn s"
    using run_get [OF assms(1), of "[''recovery_trace'', tid]" s] current
    by (auto simp: get_recovery_trace_def trace_key_def)
  obtain s2 where s2: "run_state (sync_recovery_trace exec cfg tid p trace) s1 = ((), s2)"
    "view (rs_server s2) (trace_key cfg tid) = Some ?t"
    using run_sync_recovery_trace [OF assms(1), of tid p trace s1] s1(2) by auto
  obtain x3 s3 where s3: "run_state (if text_of p ''run_id'' = [] then State_Monad.return () else do {
        latest \<leftarrow> get_recovery_trace exec cfg tid;
        (case latest of None \<Rightarrow> State_Monad.return ()
         | Some l \<Rightarrow> do {
             _ \<leftarrow> sync_arbitrage_evaluation_recovery_state exec cfg (text_of p ''run_id'') l trace;
             State_Monad.return () }) }) s2 = (x3, s3)" "view (rs_server s3) (trace_key cfg tid) = Some ?t"
    using run_after_keeping [OF keeps_trace_evaluation s2(2)] by blast
  obtain x4 s4 where s4: "run_state (case event_type of None \<Rightarrow> State_Monad.return ()
      | Some e \<Rightarrow> run_if (e \<noteq> []) (append_event exec cfg ''strategy_events'' e (trace_event tid p) trace)) s3 = (x4, s4)"
    "view (rs_server s4) (trace_key cfg tid) = Some ?t"
    using run_after_keeping [OF keeps_trace_events s3(2)] by blast
  obtain s5 where s5: "run_state (get_recovery_trace exec cfg tid) s4 = (Some q, s5)" "view (rs_server s5) = view (rs_server s4)"
    using run_get [OF assms(1), of "[''recovery_trace'', tid]" s4] s4(2) stored
    by (auto simp: get_recovery_trace_def trace_key_def simp del: dumps.simps)
  have "transition_recovery_trace exec cfg tid status lifecycle patch trace event_type = do {
     found \<leftarrow> get_recovery_trace exec cfg tid;
     (case found of
        None \<Rightarrow> State_Monad.return None
      | Some current \<Rightarrow>
          if low_text current ''status'' \<in> {''resolved'', ''cancelled''}
          then State_Monad.return (Some (dset current ''_conflict'' (PStr ''terminal'')))
          else after_move exec cfg tid trace event_type (moved_trace status lifecycle patch current)) }"
    by (unfold transition_recovery_trace_def after_move_def moved_trace_def Let_def) (rule refl)
  moreover have "run_state (after_move exec cfg tid trace event_type p) s1 = (Some q, s5)"
    by (simp only: after_move_def run_state_bind s2(1) s3(1) s4(1) s5(1) prod.case)
  ultimately show ?thesis using s1(1) s4(2) s5(2) open_trace p by simp
qed

end

section \<open>Claims\<close>

text \<open>
  A closed recovery trace stays closed. Moving a trace whose stored status is resolved or cancelled
  (in any case, with blanks around it) changes nothing in Redis, whatever status, patch or event the
  caller gives, and returns the stored trace marked as a terminal conflict.
\<close>

theorem closed_trace_stays:
  assumes "redis_server exec view" and "rc_client cfg"
    and "json_object (stored_reply (view (rs_server s) (trace_key cfg tid))) = Some current"
    and "low_text current ''status'' \<in> {''resolved'', ''cancelled''}"
    and "run_state (transition_recovery_trace exec cfg tid status lifecycle patch trace event_type) s = (result, s')"
  shows "result = Some (dset current ''_conflict'' (PStr ''terminal''))
    \<and> view (rs_server s') = view (rs_server s)"
proof -
  obtain s1 where "run_state (get_recovery_trace exec cfg tid) s = (Some current, s1)"
    "view (rs_server s1) = view (rs_server s)"
    using redis_server.run_get [OF assms(1,2), of "[''recovery_trace'', tid]" s] assms(3)
    by (auto simp: get_recovery_trace_def trace_key_def)
  with assms(4,5) show ?thesis by (auto simp: transition_recovery_trace_def)
qed

definition demo_trace :: obj where
  "demo_trace = [(''recovery_trace_id'', PStr ''t1''), (''run_id'', PStr ''r1''), (''status'', PStr '' Resolved '')]"

definition demo_traces :: "string \<Rightarrow> (string \<Rightarrow> string option) redis_state" where
  "demo_traces st = \<lparr>rs_error = None, rs_server = [trace_key demo_cfg ''t1'' \<mapsto> dumps (PDict (dset demo_trace ''status'' (PStr st)))],
     rs_drawn = 0\<rparr>"

lemma demo_traces_hold:
  "json_object (stored_reply (kv_view (rs_server (demo_traces st)) (trace_key demo_cfg ''t1''))) = Some (dset demo_trace ''status'' (PStr st))"
  using stored_text_reads [of "dset demo_trace ''status'' (PStr st)"]
  by (simp add: demo_traces_def demo_trace_def kv_view_def del: dumps.simps)

lemma closed_trace_stays_witness:
  "fst (run_state (transition_recovery_trace kv_exec demo_cfg ''t1'' ''active'' ''entry'' None None None) (demo_traces '' Resolved ''))
     = Some (dset (dset demo_trace ''status'' (PStr '' Resolved '')) ''_conflict'' (PStr ''terminal''))"
proof -
  have closed: "low_text (dset demo_trace ''status'' (PStr '' Resolved '')) ''status'' \<in> {''resolved'', ''cancelled''}"
    by code_simp
  show ?thesis
    using closed_trace_stays [where exec = kv_exec and view = kv_view, OF kv.redis_server_axioms demo_cfg_client demo_traces_hold closed]
    by (metis prod.collapse)
qed

text \<open>
  C29. An open recovery trace moves. Moving a trace that is neither resolved nor cancelled stores the
  stored trace with the new status and lifecycle state, the caller's patch over them, its own
  identifier and the time, and returns exactly what is then stored; the updates of the linked
  evaluation and the events that follow do not disturb it.
\<close>

theorem open_trace_moves:
  assumes "redis_server exec view" and "rc_client cfg"
    and "json_object (stored_reply (view (rs_server s) (trace_key cfg tid))) = Some current"
    and "low_text current ''status'' \<notin> {''resolved'', ''cancelled''}"
    and "list_all (\<lambda>p. json_ok (snd p)) (case patch of None \<Rightarrow> [] | Some p \<Rightarrow> p)"
    and "run_state (transition_recovery_trace exec cfg tid status lifecycle patch trace event_type) s = (result, s')"
    and "q = stored_trace tid (rc_now cfg (rs_drawn s)) (moved_trace status lifecycle patch current)"
  shows "result = Some q \<and> json_object (stored_reply (view (rs_server s') (trace_key cfg tid))) = Some q
    \<and> pget q ''recovery_trace_id'' = PStr tid \<and> pget q ''updated_at'' = PStr (rc_now cfg (rs_drawn s))"
proof -
  from stored_text_reads [OF json_ok_moved [OF json_object_ok [OF assms(3)] assms(5)]]
  have rd: "json_object (stored_reply (Some (dumps (PDict q)))) = Some q" unfolding assms(7) .
  from rd assms(6,7) redis_server.run_transition [OF assms(1-4) refl, of status lifecycle patch q trace event_type]
  show ?thesis by (auto simp: stored_trace_def pget_def simp del: dumps.simps)
qed

lemma open_trace_moves_witness:
  "fst (run_state (transition_recovery_trace kv_exec demo_cfg ''t1'' ''handoff_required'' ''entry'' None None (Some ''e''))
      (demo_traces ''active''))
     = Some (stored_trace ''t1'' ''now'' (moved_trace ''handoff_required'' ''entry'' None (dset demo_trace ''status'' (PStr ''active''))))"
proof -
  have open_trace: "low_text (dset demo_trace ''status'' (PStr ''active'')) ''status'' \<notin> {''resolved'', ''cancelled''}"
    by code_simp
  have patch: "list_all (\<lambda>p. json_ok (snd p)) (case None of None \<Rightarrow> [] | Some p \<Rightarrow> (p :: obj))" by simp
  show ?thesis
    using open_trace_moves [where exec = kv_exec and view = kv_view, OF kv.redis_server_axioms demo_cfg_client demo_traces_hold open_trace patch _ refl]
    by (metis prod.collapse demo_cfg_now)
qed

end
