(* ===== verification/RecoveryEffects.thy ===== *)
theory RecoveryEffects
  imports RecoveryRuntime RecoveryClaims RedisTraces
begin

text \<open>
  What a tick of the recovery loop does: the counters of the runtime over any sequence of ticks, on any
  server, and what a decision stores, on a server with the contract of \<open>RedisLock.redis_server\<close>.
\<close>

section \<open>Counters\<close>

record counters =
  c_processed :: int
  c_resolved :: int
  c_handoff :: int
  c_skipped :: int
  c_failure :: int

definition counters_of :: "'r recovery_state \<Rightarrow> counters" where
  "counters_of s = \<lparr>c_processed = vs_processed s, c_resolved = vs_resolved s, c_handoff = vs_handoff s,
     c_skipped = vs_skipped s, c_failure = vs_failure s\<rparr>"

definition quiet :: "('r, 'a) recovery \<Rightarrow> bool" where
  \<comment> \<open>the counters stay\<close>
  "quiet m = (\<forall>s :: 'r recovery_state. counters_of (snd (run_state m s)) = counters_of s)"

lemma quiet_return: "quiet (State_Monad.return x)"
  by (simp add: quiet_def)

lemma quiet_bind: "quiet m \<Longrightarrow> (\<And>x. quiet (f x)) \<Longrightarrow> quiet (State_Monad.bind m f)"
  by (simp add: quiet_def split: prod.splits) (metis snd_conv)

lemma quiet_and_then: "quiet m \<Longrightarrow> (\<And>x. quiet (f x)) \<Longrightarrow> quiet (and_then m f)"
  unfolding and_then_def by (rule quiet_bind) (simp_all add: quiet_return split: run.split)

lemma quiet_on_redis: "quiet (on_redis m)"
  by (simp add: quiet_def run_task counters_of_def split: prod.split)

lemma quiet_reading: "quiet (reading f)"
  by (simp add: quiet_def run_task)

lemma quiet_finished: "quiet finished"
  by (simp add: quiet_def run_task)

lemma quiet_then_done: "quiet m \<Longrightarrow> quiet (then_done m)"
  by (simp add: quiet_def run_task)

lemma quiet_raise_alert: "quiet (raise_alert cfg bid level code message)"
  unfolding raise_alert_def
  by (intro quiet_bind quiet_on_redis) (simp add: quiet_def counters_of_def split: prod.split)

lemma quiet_alert_if: "quiet (alert_if mutable cfg bid level code message)"
  by (simp add: alert_if_def quiet_bind quiet_return quiet_raise_alert)

lemmas quiet_intros = quiet_alert_if quiet_return quiet_bind quiet_and_then quiet_on_redis quiet_reading quiet_finished
  quiet_then_done quiet_raise_alert

lemma quiet_for_each: "(\<And>i x. quiet (f i x)) \<Longrightarrow> quiet (for_each stop f i xs)"
  by (induction xs arbitrary: i) (simp_all add: quiet_intros)

lemma quiet_auto_record: "quiet (auto_record_reconciliation exec cfg cns vs trace)"
  by (auto simp: auto_record_reconciliation_def intro!: quiet_intros split: sum.split option.split)

lemma quiet_blocking_trace: "quiet (blocking_trace exec cfg fuel bid rid)"
  unfolding blocking_trace_def by (intro quiet_intros)

lemma quiet_sync_terminal_item: "quiet (sync_terminal_item exec cfg fuel item)"
  by (auto simp: sync_terminal_item_def Let_def intro!: quiet_intros quiet_blocking_trace split: pyval.split sum.split)

lemma quiet_create_submit_timeout_trace: "quiet (create_submit_timeout_trace exec cfg rcfg bid rid oldest age)"
  unfolding create_submit_timeout_trace_def Let_def by (intro quiet_intros)

lemma quiet_submit_timeout_item: "quiet (submit_timeout_item exec cfg rcfg fuel nw item)"
  by (auto simp: submit_timeout_item_def Let_def intro!: quiet_intros quiet_blocking_trace
      quiet_create_submit_timeout_trace split: sum.split option.split)

lemma quiet_each_evaluation: "(\<And>i x. quiet (f i x)) \<Longrightarrow> quiet (each_evaluation exec cfg fuel f)"
  unfolding each_evaluation_def by (intro quiet_intros quiet_for_each)

section \<open>One trace counts once\<close>

definition adds :: "('r, 'a) recovery \<Rightarrow> (counters \<Rightarrow> counters) \<Rightarrow> bool" where
  "adds m f = (\<forall>s :: 'r recovery_state. counters_of (snd (run_state m s)) = f (counters_of s))"

lemma adds_after_quiet: "quiet m \<Longrightarrow> (\<And>x. adds (f x) h) \<Longrightarrow> adds (State_Monad.bind m f) h"
  by (simp add: quiet_def adds_def split: prod.splits) (metis snd_conv)

lemma adds_then_done: "adds m f \<Longrightarrow> adds (then_done m) f"
  by (simp add: adds_def run_task)

definition count_handoff :: "counters \<Rightarrow> counters" where
  "count_handoff c = c\<lparr>c_handoff := c_handoff c + 1\<rparr>"

definition count_resolved :: "counters \<Rightarrow> counters" where
  "count_resolved c = c\<lparr>c_resolved := c_resolved c + 1\<rparr>"

definition count_skipped :: "counters \<Rightarrow> counters" where
  "count_skipped c = c\<lparr>c_skipped := c_skipped c + 1\<rparr>"

lemma adds_record_skip: "adds record_skip count_skipped"
  by (simp add: adds_def record_skip_def run_task counters_of_def count_skipped_def)

lemma adds_resolve_trace: "adds (resolve_trace exec cfg trace reason) count_resolved"
  unfolding resolve_trace_def Let_def
  by (intro adds_after_quiet quiet_on_redis) (simp add: adds_def run_task counters_of_def count_resolved_def)

lemma adds_mark_handoff: "adds (mark_handoff_required exec cfg rcfg trace reason summary) count_handoff"
  unfolding mark_handoff_required_def
  by (intro adds_after_quiet quiet_on_redis quiet_alert_if)
     (simp add: adds_def run_task counters_of_def count_handoff_def)

lemmas adds_facts = adds_record_skip [unfolded adds_def, rule_format] adds_resolve_trace [unfolded adds_def, rule_format]
  adds_mark_handoff [unfolded adds_def, rule_format]

definition decided_once :: "counters \<Rightarrow> counters \<Rightarrow> bool" where
  "decided_once c c' = (c' \<in> {count_resolved c, count_handoff c, count_skipped c})"

lemma perform_counts: "decided_once (counters_of s) (counters_of (snd (run_state (perform exec cfg rcfg trace act) s)))"
  by (cases act) (simp_all add: perform_def decided_once_def adds_facts)

lemma decide_trace_counts:
  assumes "run_state (decide_trace exec cfg rcfg clock ords trace) s = (r, s')"
  shows "(r = Returned () \<and> decided_once (counters_of s) (counters_of s'))
    \<or> ((\<exists>e. r = Raised e) \<and> counters_of s' = counters_of s)"
proof (cases "trace_action rcfg clock (pf_store s) ords trace")
  case (Inl e)
  with assms show ?thesis by (auto simp: decide_trace_def run_task)
next
  case (Inr act)
  with assms perform_counts [of s exec cfg rcfg trace act] show ?thesis by (auto simp: decide_trace_def run_task)
qed

definition processed_one :: "counters \<Rightarrow> counters" where
  "processed_one c = c\<lparr>c_processed := c_processed c + 1\<rparr>"

lemma process_trace_counts:
  assumes "run_state (process_trace exec cfg rcfg cns clock trace) s = (r, s')"
  shows "(r = Returned () \<and> decided_once (processed_one (counters_of s)) (counters_of s'))
    \<or> ((\<exists>e. r = Raised e \<or> r = Out_of_fuel) \<and> counters_of s' = processed_one (counters_of s))"
proof -
  let ?s = "s\<lparr>vs_processed := vs_processed s + 1\<rparr>"
  have c: "counters_of ?s = processed_one (counters_of s)" by (simp add: counters_of_def processed_one_def)
  show ?thesis
  proof (cases "raw_text trace ''recovery_trace_id'' = []")
    case True
    with assms have "r = Returned ()" "s' = snd (run_state record_skip ?s)"
      by (simp_all add: process_trace_def count_processed_def run_task)
    with c show ?thesis by (simp add: adds_facts decided_once_def)
  next
    case False
    show ?thesis
    proof (cases "related_orders (pf_store s) (raw_text trace ''bot_id'') (raw_text trace ''run_id'') (trace_intent_id trace)")
      case (Inl e)
      with False assms c show ?thesis by (auto simp: process_trace_def count_processed_def run_task)
    next
      case (Inr vs)
      obtain a t where a: "run_state (auto_record_reconciliation exec cfg cns vs trace) ?s = (a, t)"
        by (metis prod.collapse)
      from quiet_auto_record have t: "counters_of t = processed_one (counters_of s)"
        using a c by (metis quiet_def snd_conv)
      from False Inr assms a have "(case a of Returned x \<Rightarrow> run_state (decide_trace exec cfg rcfg clock (map ov_order vs) x) t
          | Raised e \<Rightarrow> (Raised e, t) | Out_of_fuel \<Rightarrow> (Out_of_fuel, t)) = (r, s')"
        by (simp add: process_trace_def count_processed_def run_task)
      with t show ?thesis using decide_trace_counts [of exec cfg rcfg clock "map ov_order vs" _ t r s']
        by (cases a) auto
    qed
  qed
qed

section \<open>Ticks\<close>

definition decided :: "counters \<Rightarrow> int" where
  "decided c = c_resolved c + c_handoff c + c_skipped c"

definition counted :: "counters \<Rightarrow> counters \<Rightarrow> int \<Rightarrow> bool" where
  \<comment> \<open>every trace taken up is decided once, but for the last \<open>n\<close>\<close>
  "counted c c' n = (c_failure c' = c_failure c
     \<and> c_resolved c \<le> c_resolved c' \<and> c_handoff c \<le> c_handoff c' \<and> c_skipped c \<le> c_skipped c'
     \<and> decided c' - decided c \<le> c_processed c' - c_processed c
     \<and> c_processed c' - c_processed c \<le> decided c' - decided c + n)"

lemma counted_refl: "0 \<le> n \<Longrightarrow> counted c c n"
  by (simp add: counted_def)

lemma counted_trans: "counted a b 0 \<Longrightarrow> counted b c n \<Longrightarrow> counted a c n"
  by (simp add: counted_def)

definition missed :: "'a run \<Rightarrow> int" where
  "missed r = (case r of Returned _ \<Rightarrow> 0 | _ \<Rightarrow> 1)"

lemma missed_nonneg [simp]: "0 \<le> missed r"
  by (simp add: missed_def split: run.split)

lemma processed_counted: "decided_once (processed_one c) c' \<Longrightarrow> counted c c' 0"
  by (auto simp: decided_once_def counted_def decided_def processed_one_def count_resolved_def count_handoff_def count_skipped_def)

lemma process_trace_counted:
  "run_state (process_trace exec cfg rcfg cns clock trace) s = (r, s') \<Longrightarrow> counted (counters_of s) (counters_of s') (missed r)"
  using process_trace_counts [of exec cfg rcfg cns clock trace s r s']
  by (auto simp: missed_def processed_counted) (auto simp: counted_def decided_def processed_one_def)

lemma for_each_counted:
  "run_state (for_each stop (\<lambda>i. process_trace exec cfg rcfg cns (clock i)) i traces) s = (r, s')
    \<Longrightarrow> counted (counters_of s) (counters_of s') (missed r)"
proof (induction traces arbitrary: i s)
  case Nil
  then show ?case by (auto simp: run_task counted_refl)
next
  case (Cons x xs)
  show ?case
  proof (cases "stop i")
    case True
    with Cons.prems show ?thesis by (auto simp: run_task counted_refl)
  next
    case False
    obtain q t where q: "run_state (process_trace exec cfg rcfg cns (clock i) x) s = (q, t)" by (metis prod.collapse)
    note c = process_trace_counted [OF q]
    show ?thesis
    proof (cases q)
      case (Returned u)
      with Cons.prems False q have "run_state (for_each stop (\<lambda>i. process_trace exec cfg rcfg cns (clock i)) (Suc i) xs) t = (r, s')"
        by (simp add: run_task)
      from Cons.IH [OF this] c Returned show ?thesis by (auto simp: missed_def intro: counted_trans)
    qed (use Cons.prems False q c in \<open>auto simp: run_task missed_def\<close>)
  qed
qed

lemma quiet_run: "quiet m \<Longrightarrow> run_state m s = (a, s') \<Longrightarrow> counters_of s' = counters_of s"
  by (metis quiet_def snd_conv)

lemma tick_body_counted:
  assumes "run_state (tick_body exec cfg rcfg cns env) s = (r, s')"
  shows "counted (counters_of s) (counters_of s') (missed r)"
proof -
  obtain a t where a: "run_state (each_evaluation exec cfg (re_fuel env) (\<lambda>_. sync_terminal_item exec cfg (re_fuel env))) s = (a, t)"
    by (metis prod.collapse)
  have t: "counters_of t = counters_of s" by (rule quiet_run [OF quiet_each_evaluation a]) (rule quiet_sync_terminal_item)
  obtain b u where b: "run_state (each_evaluation exec cfg (re_fuel env)
      (\<lambda>i. submit_timeout_item exec cfg rcfg (re_fuel env) (re_eval_clock env i))) t = (b, u)"
    by (metis prod.collapse)
  have u: "counters_of u = counters_of s"
    using quiet_run [OF quiet_each_evaluation b] quiet_submit_timeout_item t by metis
  obtain l v where l: "run_state (on_redis (list_recovery_traces exec cfg (re_fuel env) 100 active_traces)) u = (l, v)"
    by (metis prod.collapse)
  have v: "counters_of v = counters_of s" using quiet_run [OF quiet_on_redis l] u by simp
  show ?thesis
  proof (cases "a = Returned () \<and> b = Returned ()")
    case False
    with assms a b t u show ?thesis
      by (cases a; cases b) (auto simp: tick_body_def run_task counted_refl)
  next
    case ab: True
    show ?thesis
    proof (cases l)
      case (Fetched traces)
      with assms a b l ab have "run_state (for_each (re_stop env) (\<lambda>i. process_trace exec cfg rcfg cns (re_clock env i)) 0 traces) v = (r, s')"
        by (simp add: tick_body_def run_task of_fetched_def split: prod.splits)
      from for_each_counted [OF this] v show ?thesis by simp
    qed (use assms a b l ab v in \<open>auto simp: tick_body_def run_task of_fetched_def counted_refl split: prod.splits\<close>)
  qed
qed

lemma tick_counted:
  assumes "run_state (tick exec cfg rcfg cns env) s = (Returned (), s')" and "\<not> re_stopping env"
  shows "c_resolved (counters_of s) \<le> c_resolved (counters_of s') \<and> c_handoff (counters_of s) \<le> c_handoff (counters_of s')
    \<and> c_skipped (counters_of s) \<le> c_skipped (counters_of s') \<and> c_failure (counters_of s) \<le> c_failure (counters_of s')
    \<and> c_resolved (counters_of s') - c_resolved (counters_of s) + (c_handoff (counters_of s') - c_handoff (counters_of s))
        \<le> c_processed (counters_of s') - c_processed (counters_of s)
    \<and> c_processed (counters_of s') - c_processed (counters_of s)
        \<le> decided (counters_of s') - decided (counters_of s) + (c_failure (counters_of s') - c_failure (counters_of s))"
proof (cases "info_enabled cfg")
  case False
  with assms(1) have "s' = snd (run_state record_skip s)" by (simp add: tick_def run_task)
  then show ?thesis by (simp add: adds_facts count_skipped_def decided_def)
next
  case True
  obtain r t where r: "run_state (tick_body exec cfg rcfg cns env) s = (r, t)" by (metis prod.collapse)
  note c = tick_body_counted [OF r]
  show ?thesis
  proof (cases r)
    case (Returned x)
    with assms(1) True r have "counters_of s' = counters_of t"
      by (auto simp: tick_def run_task counters_of_def split: prod.splits)
    with c Returned show ?thesis by (simp add: counted_def missed_def decided_def)
  next
    case (Raised e)
    with assms True r have "counters_of s' = (counters_of t)\<lparr>c_failure := c_failure (counters_of t) + 1\<rparr>"
      by (auto simp: tick_def run_task counters_of_def split: prod.splits)
    with c Raised show ?thesis by (simp add: counted_def missed_def decided_def)
  next
    case Out_of_fuel
    with assms(1) True r show ?thesis by (simp add: tick_def)
  qed
qed

inductive recovery_reach :: "'r server \<Rightarrow> redis_config \<Rightarrow> recovery_config \<Rightarrow> connectors \<Rightarrow> 'r recovery_state \<Rightarrow> bool"
  for exec cfg rcfg cns where
  start: "recovery_reach exec cfg rcfg cns (new_recovery_state r st)"
| others: "recovery_reach exec cfg rcfg cns s \<Longrightarrow> recovery_reach exec cfg rcfg cns (s\<lparr>pf_redis := r, pf_store := st, vs_running := b\<rparr>)"
| tick: "recovery_reach exec cfg rcfg cns s \<Longrightarrow> run_state (tick exec cfg rcfg cns env) s = (Returned (), s') \<Longrightarrow>
     \<not> re_stopping env \<Longrightarrow> recovery_reach exec cfg rcfg cns s'"

section \<open>Claims\<close>

text \<open>
  C31. The counters of the recovery runtime account for every trace. Over any sequence of ticks, with any
  server and any changes of Redis and the store in between, the traces resolved and handed off never
  exceed the traces taken up, and every trace taken up was resolved, handed off, skipped or ended its
  tick with a counted failure.
\<close>

theorem recovery_counters_balance:
  assumes "recovery_reach exec cfg rcfg cns s"
  shows "0 \<le> vs_resolved s \<and> 0 \<le> vs_handoff s \<and> 0 \<le> vs_skipped s \<and> 0 \<le> vs_failure s
    \<and> vs_resolved s + vs_handoff s \<le> vs_processed s
    \<and> vs_processed s \<le> vs_resolved s + vs_handoff s + vs_skipped s + vs_failure s"
  using assms
proof (induction rule: recovery_reach.induct)
  case (tick s env s')
  from tick_counted [OF tick.hyps(2,3)] tick.IH show ?case by (simp add: counters_of_def decided_def)
qed (simp_all add: new_recovery_state_def)

definition demo_env :: recovery_env where
  "demo_env = \<lparr>re_fuel = 3, re_eval_clock = (\<lambda>i. 0), re_clock = (\<lambda>i k. 0), re_stop = (\<lambda>i. False), re_stopping = False\<rparr>"

definition demo_ticked :: "(string \<Rightarrow> string option) recovery_state" where
  \<comment> \<open>a tick on a server that does not answer the scan\<close>
  "demo_ticked = snd (run_state (tick kv_exec demo_cfg demo_recovery [] demo_env) (new_recovery_state (demo_locked ''a'') empty_store))"

lemma recovery_counters_balance_witness:
  "vs_failure demo_ticked = 1 \<and> vs_processed demo_ticked \<le> vs_resolved demo_ticked + vs_handoff demo_ticked
     + vs_skipped demo_ticked + vs_failure demo_ticked"
proof -
  have "case run_state (tick kv_exec demo_cfg demo_recovery [] demo_env) (new_recovery_state (demo_locked ''a'') empty_store) of
      (Returned _, s) \<Rightarrow> vs_failure s = 1 | _ \<Rightarrow> False" by code_simp
  then have run: "run_state (tick kv_exec demo_cfg demo_recovery [] demo_env) (new_recovery_state (demo_locked ''a'') empty_store)
      = (Returned (), demo_ticked)" and failure: "vs_failure demo_ticked = 1"
    by (auto simp: demo_ticked_def split: prod.splits run.splits)
  have "recovery_reach kv_exec demo_cfg demo_recovery [] demo_ticked"
  proof (rule recovery_reach.tick [OF recovery_reach.start])
    show "run_state (tick kv_exec demo_cfg demo_recovery [] demo_env) (new_recovery_state (demo_locked ''a'') empty_store)
        = (Returned (), demo_ticked)" by (rule run)
    show "\<not> re_stopping demo_env" by (simp add: demo_env_def)
  qed
  from recovery_counters_balance [OF this] have "vs_processed demo_ticked
      \<le> vs_resolved demo_ticked + vs_handoff demo_ticked + vs_skipped demo_ticked + vs_failure demo_ticked" by blast
  with failure show ?thesis by blast
qed

section \<open>What a decision stores\<close>

lemma json_ok_map_of: "json_ok (PDict d) \<Longrightarrow> map_of d k = Some v \<Longrightarrow> json_ok v"
  by (auto dest!: map_of_SomeD simp: list_all_iff)

lemma json_ok_pget: "json_ok (PDict d) \<Longrightarrow> json_ok (pget d k)"
  by (auto simp: pget_def split: option.split intro: json_ok_map_of simp del: json_ok.simps(2))

lemma json_ok_resolved: "json_ok (PDict trace) \<Longrightarrow> json_ok (PDict (stored_trace tid ts (resolved_payload ts' reason trace)))"
  by (simp add: stored_trace_def resolved_payload_def json_ok_dset json_ok_dmerge json_ok_pget del: json_ok.simps(2) dmerge.simps)

lemma json_ok_opt_str: "json_ok (opt_str v)"
  by (cases v) simp_all

lemma json_ok_handoff: "json_ok (PDict trace) \<Longrightarrow> json_ok (PDict (stored_trace tid ts (handoff_payload al reason summary trace)))"
  by (simp add: stored_trace_def handoff_payload_def json_ok_dset json_ok_dmerge json_ok_pget json_ok_opt_str del: json_ok.simps(2) dmerge.simps)

definition alerted :: "bool \<Rightarrow> string option \<Rightarrow> alert option \<Rightarrow> store \<Rightarrow> store \<Rightarrow> bool" where
  \<comment> \<open>a critical alert joins the alerts of a store that can be written\<close>
  "alerted mutable bid alo s s' = (case alo of
      None \<Rightarrow> \<not> mutable \<and> s' = s
    | Some al \<Rightarrow> mutable \<and> alerts s' = al # alerts s \<and> al_level al = ''critical''
        \<and> al_code al = ''ARBITRAGE_MANUAL_HANDOFF_REQUIRED'' \<and> al_bot_id al = bid)"

lemma run_alert_if:
  assumes "run_state (alert_if mutable cfg bid ''critical'' ''ARBITRAGE_MANUAL_HANDOFF_REQUIRED'' message) s = (alo, s1)"
  shows "alerted mutable bid alo (pf_store s) (pf_store s1)"
  using assms
  by (cases mutable) (auto simp: alerted_def alert_if_def raise_alert_def run_task draw_uid_def draw_now_def emit_alert_def Let_def
      split: prod.splits)

context redis_server
begin

lemma keeps_link_evaluation: "keeps view (trace_key cfg tid) (link_evaluation exec cfg tid rid)"
  by (auto simp: link_evaluation_def get_recovery_trace_def trace_key_others intro!: keeps_intros keeps_sync_evaluation_recovery
      split: option.split)

lemma keeps_strategy_event: "keeps view (trace_key cfg tid) (append_event exec cfg stream ev payload trace)"
  by (rule keeps_append_event) (rule trace_key_others)

lemma run_sync_then:
  assumes "rc_client cfg" and "keeps view (trace_key cfg tid) m"
  shows "view (rs_server (snd (run_state (do { _ \<leftarrow> sync_recovery_trace exec cfg tid payload None; m }) s))) (trace_key cfg tid)
    = Some (dumps (PDict (stored_trace tid (rc_now cfg (rs_drawn s)) payload)))"
proof -
  obtain s1 where "run_state (sync_recovery_trace exec cfg tid payload None) s = ((), s1)"
    "view (rs_server s1) (trace_key cfg tid) = Some (dumps (PDict (stored_trace tid (rc_now cfg (rs_drawn s)) payload)))"
    using run_sync_recovery_trace [OF assms(1)] by blast
  with assms(2) show ?thesis by (simp add: keeps_def del: dumps.simps)
qed

lemma run_store_trace:
  "rc_client cfg \<Longrightarrow> view (rs_server (snd (run_state (store_trace exec cfg tid payload ev event) s))) (trace_key cfg tid)
    = Some (dumps (PDict (stored_trace tid (rc_now cfg (rs_drawn s)) payload)))"
  unfolding store_trace_def by (rule run_sync_then) (intro keeps_intros keeps_link_evaluation trace_key_others | assumption)+

lemma run_store_handoff:
  "rc_client cfg \<Longrightarrow> view (rs_server (snd (run_state (store_handoff exec cfg tid payload al) s))) (trace_key cfg tid)
    = Some (dumps (PDict (stored_trace tid (rc_now cfg (rs_drawn s)) payload)))"
  unfolding store_handoff_def publish_alert_event_def
  by (rule run_sync_then) (cases al; auto intro!: keeps_intros keeps_link_evaluation simp: trace_key_others)+

lemma run_resolve_trace:
  assumes "rc_client cfg" and "tid = raw_text trace ''recovery_trace_id''"
  shows "\<exists>t1 t2 s'. run_state (resolve_trace exec cfg trace reason) s = ((), s') \<and> pf_store s' = pf_store s
    \<and> view (rs_server (pf_redis s')) (trace_key cfg tid)
        = Some (dumps (PDict (stored_trace tid t2 (resolved_payload t1 reason trace))))"
proof -
  let ?r = "(pf_redis s)\<lparr>rs_drawn := Suc (rs_drawn (pf_redis s))\<rparr>"
  let ?p = "resolved_payload (rc_now cfg (rs_drawn (pf_redis s))) reason trace"
  let ?m = "store_trace exec cfg tid ?p ''strategy.recovery_trace.resolved''
       [(''recovery_trace_id'', PStr tid), (''run_id'', pget ?p ''run_id''), (''bot_id'', pget ?p ''bot_id''),
        (''resolution_reason'', PStr reason)]"
  obtain u r1 where m: "run_state ?m ?r = (u, r1)" by (metis prod.collapse)
  have "view (rs_server (snd (run_state ?m ?r))) (trace_key cfg tid)
      = Some (dumps (PDict (stored_trace tid (rc_now cfg (rs_drawn ?r)) ?p)))"
    by (rule run_store_trace [OF assms(1)])
  then have v: "view (rs_server r1) (trace_key cfg tid)
      = Some (dumps (PDict (stored_trace tid (rc_now cfg (rs_drawn ?r)) ?p)))" by (simp only: m snd_conv)
  define s' where "s' = s\<lparr>pf_redis := r1\<lparr>rs_drawn := Suc (rs_drawn r1)\<rparr>, vs_resolved := vs_resolved s + 1,
           vs_last_resolution_at := Some (rc_now cfg (rs_drawn r1))\<rparr>"
  have s': "pf_store s' = pf_store s" "rs_server (pf_redis s') = rs_server r1" by (simp_all add: s'_def)
  have "run_state (resolve_trace exec cfg trace reason) s = ((), s')"
    using m unfolding assms(2) by (simp add: resolve_trace_def run_task draw_now_def Let_def s'_def)
  with v show ?thesis unfolding s'(2) [symmetric] using s'(1) by blast
qed

lemma run_mark_handoff:
  assumes "rc_client cfg" and "tid = raw_text trace ''recovery_trace_id''"
  shows "\<exists>al t s'. run_state (mark_handoff_required exec cfg rcfg trace reason summary) s = ((), s')
    \<and> alerted (rv_store_mutable rcfg) (non_blank (raw_text trace ''bot_id'')) al (pf_store s) (pf_store s')
    \<and> view (rs_server (pf_redis s')) (trace_key cfg tid)
        = Some (dumps (PDict (stored_trace tid t (handoff_payload al reason summary trace))))"
proof -
  obtain al s1 where al: "run_state (alert_if (rv_store_mutable rcfg) cfg (non_blank (raw_text trace ''bot_id'')) ''critical''
      ''ARBITRAGE_MANUAL_HANDOFF_REQUIRED'' (handoff_alert_text summary)) s = (al, s1)" by (metis prod.collapse)
  note a = run_alert_if [OF al]
  obtain u r1 where m: "run_state (store_handoff exec cfg tid (handoff_payload al reason summary trace) al) (pf_redis s1) = (u, r1)"
    by (metis prod.collapse)
  have "view (rs_server (snd (run_state (store_handoff exec cfg tid (handoff_payload al reason summary trace) al) (pf_redis s1))))
      (trace_key cfg tid)
      = Some (dumps (PDict (stored_trace tid (rc_now cfg (rs_drawn (pf_redis s1))) (handoff_payload al reason summary trace))))"
    by (rule run_store_handoff [OF assms(1)])
  then have v: "view (rs_server r1) (trace_key cfg tid)
      = Some (dumps (PDict (stored_trace tid (rc_now cfg (rs_drawn (pf_redis s1))) (handoff_payload al reason summary trace))))"
    by (simp only: m snd_conv)
  define s' where "s' = s1\<lparr>pf_redis := r1\<lparr>rs_drawn := Suc (rs_drawn r1)\<rparr>, vs_handoff := vs_handoff s1 + 1,
           vs_last_handoff_at := Some (rc_now cfg (rs_drawn r1))\<rparr>"
  have s': "pf_store s' = pf_store s1" "rs_server (pf_redis s') = rs_server r1" by (simp_all add: s'_def)
  have "run_state (mark_handoff_required exec cfg rcfg trace reason summary) s = ((), s')"
    using m al unfolding assms(2) by (simp add: mark_handoff_required_def run_task draw_now_def s'_def)
  with v show ?thesis unfolding s'(2) [symmetric] using s'(1) a by (intro exI [of _ al] exI [of _ "rc_now cfg (rs_drawn (pf_redis s1))"] exI [of _ s']) simp
qed

end

text \<open>
  C8. A decision is carried out. Deciding a stored trace never raises once the decision is reached, and
  does exactly what was decided: a resolution leaves the trace stored as resolved and closed with its
  reason, and the store untouched; a handoff leaves it stored as waiting for an operator with its
  reason and, when the store can be written, raises one critical alert for the bot that the stored trace
  names (otherwise the trace names none and the store stays); and no change changes neither Redis nor the store.
\<close>

theorem decision_is_carried_out:
  assumes "redis_server exec view" and "rc_client cfg" and "json_ok (PDict trace)"
    and "trace_action rcfg clock (pf_store s) ords trace = Inr act"
    and "run_state (decide_trace exec cfg rcfg clock ords trace) s = (r, s')"
    and "stored = json_object (stored_reply (view (rs_server (pf_redis s')) (trace_key cfg (raw_text trace ''recovery_trace_id''))))"
  shows "r = Returned () \<and> (case act of
      Resolve reason \<Rightarrow> pf_store s' = pf_store s
        \<and> (\<exists>q. stored = Some q \<and> pget q ''status'' = PStr ''resolved'' \<and> pget q ''lifecycle_state'' = PStr ''closed''
              \<and> pget q ''resolution_reason'' = PStr reason)
    | Handoff reason summary \<Rightarrow>
        (\<exists>q. stored = Some q \<and> pget q ''status'' = PStr ''handoff_required'' \<and> pget q ''handoff_reason'' = PStr reason
              \<and> (if rv_store_mutable rcfg
                  then \<exists>al. pget q ''alert_id'' = PStr (alert_id al) \<and> alerts (pf_store s') = al # alerts (pf_store s)
                    \<and> al_level al = ''critical'' \<and> al_bot_id al = non_blank (raw_text trace ''bot_id'')
                  else pget q ''alert_id'' = PNone \<and> pf_store s' = pf_store s))
    | No_change \<Rightarrow> pf_store s' = pf_store s \<and> pf_redis s' = pf_redis s)"
proof -
  from assms(4,5) have r: "r = Returned ()" and s': "s' = snd (run_state (perform exec cfg rcfg trace act) s)"
    by (auto simp: decide_trace_def run_task)
  show ?thesis
  proof (cases act)
    case (Resolve reason)
    obtain t1 t2 u where u: "run_state (resolve_trace exec cfg trace reason) s = ((), u)" "pf_store u = pf_store s"
      "view (rs_server (pf_redis u)) (trace_key cfg (raw_text trace ''recovery_trace_id''))
        = Some (dumps (PDict (stored_trace (raw_text trace ''recovery_trace_id'') t2 (resolved_payload t1 reason trace))))"
      using redis_server.run_resolve_trace [OF assms(1,2) refl] by blast
    from s' Resolve u(1) have "s' = u" by (simp add: perform_def)
    with assms(6) u(3) stored_text_reads [OF json_ok_resolved [OF assms(3)]]
    have "stored = Some (stored_trace (raw_text trace ''recovery_trace_id'') t2 (resolved_payload t1 reason trace))"
      by (simp del: dumps.simps)
    with Resolve r u(2) \<open>s' = u\<close> show ?thesis by (simp add: stored_trace_def resolved_payload_def)
  next
    case (Handoff reason summary)
    obtain al t u where u: "run_state (mark_handoff_required exec cfg rcfg trace reason summary) s = ((), u)"
      "alerted (rv_store_mutable rcfg) (non_blank (raw_text trace ''bot_id'')) al (pf_store s) (pf_store u)"
      "view (rs_server (pf_redis u)) (trace_key cfg (raw_text trace ''recovery_trace_id''))
        = Some (dumps (PDict (stored_trace (raw_text trace ''recovery_trace_id'') t (handoff_payload al reason summary trace))))"
      using redis_server.run_mark_handoff [OF assms(1,2) refl] by blast
    from s' Handoff u(1) have "s' = u" by (simp add: perform_def)
    with assms(6) u(3) stored_text_reads [OF json_ok_handoff [OF assms(3)]]
    have "stored = Some (stored_trace (raw_text trace ''recovery_trace_id'') t (handoff_payload al reason summary trace))"
      by (simp del: dumps.simps)
    with Handoff r u(2) \<open>s' = u\<close> show ?thesis
      by (cases al) (simp_all add: stored_trace_def handoff_payload_def alerted_def)
  next
    case No_change
    with r s' show ?thesis by (simp add: perform_def record_skip_def run_task)
  qed
qed

lemma decision_is_carried_out_witness:
  "fst (run_state (decide_trace kv_exec demo_cfg demo_recovery demo_clock [] demo_matched)
      (new_recovery_state (demo_locked ''a'') demo_recovery_store)) = Returned ()"
proof -
  have ok: "json_ok (PDict demo_matched)" by (simp add: demo_matched_def demo_balance_def)
  have act: "trace_action demo_recovery demo_clock (pf_store (new_recovery_state (demo_locked ''a'') demo_recovery_store)) [] demo_matched
      = Inr (Resolve ''reconciliation_matched_zero_residual'')"
    using demo_matched_resolves by (simp add: new_recovery_state_def)
  show ?thesis
    by (rule conjunct1 [OF decision_is_carried_out [where exec = kv_exec and view = kv_view,
          OF kv.redis_server_axioms demo_cfg_client ok act prod.collapse [symmetric] refl]])
qed

end
