(* ===== verification/ReconciliationClaims.thy ===== *)
theory ReconciliationClaims
  imports Reconciliation RecoveryClaims
begin

text \<open>
  What a recorded snapshot says of the orders that were queried: the counts and the exposure that the
  checks of \<open>Recovery\<close> read from the trace are the ones observed.
\<close>

section \<open>Decimal texts\<close>

lemma dval_strip_zeros: "dval (strip_zeros n c e) = dval (Dec c e)"
proof (induction n c e rule: strip_zeros.induct)
  case (2 n c e)
  show ?case
  proof (cases "c mod 10 = 0")
    case True
    then have "c = 10 * (c div 10)" by auto
    then have "(of_int c :: rat) = 10 * of_int (c div 10)" by (metis of_int_mult of_int_numeral)
    moreover have "(10 :: rat) powi (e + 1) = 10 powi e * 10" by (simp add: power_int_add)
    ultimately show ?thesis using True 2 by (simp add: dval_def)
  qed simp
qed simp

lemma dval_dnormalize: "dval (dnormalize d) = r28 (dval d)"
  by (auto simp: dnormalize_def Let_def dval_strip_zeros dval_dfix [symmetric] dval_0_iff [THEN iffD2])

lemma r28_eq_0: "r28 x = 0 \<longleftrightarrow> x = 0"
proof -
  have "r28 (- x) = - r28 x" by (simp add: r28_def rnd_uminus)
  then show ?thesis using r28_pos [of x] r28_pos [of "- x"] by (cases x "0 :: rat" rule: linorder_cases) auto
qed

lemma decimal_text_reads:
  assumes "decimal_text d = Inr t"
  shows "\<exists>q. dparse t = Some q \<and> dval q = r28 (dval d)"
proof (cases "0 \<le> dexp (dnormalize d)")
  case True
  let ?n = "dnormalize d"
  have "dval ?n = of_int (coef ?n * 10 ^ nat (dexp ?n))" using True by (simp add: dval_def power_int_def)
  with assms True show ?thesis
    by (auto simp: decimal_text_def Let_def dparse_int_str dval_dnormalize split: if_splits)
next
  case False
  with assms show ?thesis by (auto simp: decimal_text_def Let_def dparse_dformat_f dval_dnormalize)
qed

section \<open>Observed orders\<close>

definition live_statuses :: "(string \<times> string) list \<Rightarrow> int" where
  "live_statuses ps = int (length (filter (\<lambda>p. snd p \<notin> set RECOVERY_TERMINAL_STATUSES) ps))"

definition observation_ok :: "observation \<Rightarrow> bool" where
  "observation_ok a = (obs_order_ids a = map fst (obs_statuses a) \<and> obs_open a = live_statuses (obs_statuses a))"

lemma observe_order_ok: "observation_ok a \<Longrightarrow> observation_ok (observe_order cns market v a)"
  by (auto simp: observe_order_def observation_ok_def live_statuses_def Let_def split: option.split)

lemma observe_orders_ok: "observation_ok a \<Longrightarrow> observation_ok (observe_orders cns market vs a)"
  by (induction vs arbitrary: a) (simp_all add: observe_order_ok)

lemma no_observation_ok: "observation_ok no_observation"
  by (simp add: observation_ok_def no_observation_def live_statuses_def)

section \<open>Claims\<close>

text \<open>
  C34. A recorded snapshot is faithful. Read back from the trace it is recorded in, the number of open
  orders is the number of queried orders whose observed status is not terminal, one order identifier
  stands for each observed status, the residual exposure is the one computed from the fills up to one
  decimal rounding, and the reconciliation counts as matched without open orders and exposure
  exactly when no queried order is open and the computed exposure is zero.
\<close>

theorem snapshot_is_faithful:
  assumes "build_auto_reconciliation_snapshot ts cns trace vs fs = Inr (Some patch)"
    and "a = observe_orders cns (first_market vs) vs no_observation"
    and "merged = dmerge trace patch"
  shows "obs_statuses a \<noteq> [] \<and> obs_order_ids a = map fst (obs_statuses a)
    \<and> open_count merged = Some (live_statuses (obs_statuses a))
    \<and> (\<exists>r q. residual_quote trace a = Some r \<and> residual merged = Some q \<and> dval q = r28 (dval r)
        \<and> (matched_zero merged = (live_statuses (obs_statuses a) = 0 \<and> dval r = 0)))"
proof -
  obtain balances r t where b: "obs_statuses a \<noteq> []" "residual_quote trace a = Some r" "decimal_text r = Inr t"
    "patch = snapshot_patch ts a r t (fill_ids fs) balances"
    using assms(1) unfolding build_auto_reconciliation_snapshot_def Let_def assms(2)
    by (auto simp: res_simps split: if_splits option.splits)
  obtain q where q: "dparse t = Some q" "dval q = r28 (dval r)" using decimal_text_reads [OF b(3)] by blast
  have ok: "observation_ok a" unfolding assms(2) by (rule observe_orders_ok [OF no_observation_ok])
  have m: "pget merged ''reconciliation_result'' = PStr (if obs_open a = 0 \<and> deq r (Dec 0 0) then ''matched'' else ''mismatch'')"
    "pget merged ''reconciliation_open_order_count'' = PInt (obs_open a)"
    "pget merged ''reconciliation_residual_exposure_quote'' = PStr t"
    by (simp_all add: assms(3) b(4) snapshot_patch_def Let_def)
  have count: "open_count merged = Some (live_statuses (obs_statuses a))"
    using ok m(2) by (simp add: open_count_def parse_int_opt_def observation_ok_def)
  have res: "residual merged = Some q" using m(3) q(1) by (simp add: residual_def parse_decimal_opt_def)
  have lower_ids: "lower (strip ''matched'') = ''matched''" "lower (strip ''mismatch'') = ''mismatch''" by code_simp+
  have "low_text merged ''reconciliation_result'' = (if obs_open a = 0 \<and> deq r (Dec 0 0) then ''matched'' else ''mismatch'')"
    using m(1) by (simp add: low_text_def text_of_str lower_ids)
  then have "matched_zero merged = (live_statuses (obs_statuses a) = 0 \<and> dval r = 0)"
    using count res q(2) ok by (simp add: matched_zero_def is_zero_def dcmp r28_eq_0 observation_ok_def)
  with b(1,2) ok count res q(2) show ?thesis by (auto simp: observation_ok_def)
qed

definition demo_recovery_order :: "string \<Rightarrow> string \<Rightarrow> string \<Rightarrow> order_view" where
  "demo_recovery_order oid e side = \<lparr>ov_order = \<lparr>order_id = oid, ord_intent_id = ''i1'', ord_bot_id = ''b1'', ord_run_id = ''r1'',
     ord_exchange_name = e, ord_exchange_order_id = Some oid, ord_market = ''btc-jpy'', ord_side = side,
     ord_requested_price = None, ord_requested_qty = ''1'', ord_status = ''submitted'', ord_created_at = ''t'',
     ord_submitted_at = ''t'', ord_updated_at = ''t'', ord_raw_payload = []\<rparr>,
     ov_aggregate = \<lparr>agg_filled_qty = ''0'', agg_avg_fill_price = None, agg_fee_amount = None\<rparr>\<rparr>"

definition demo_connector :: connector where
  "demo_connector = \<lparr>cn_order_status = (\<lambda>oid market. Some [(''status'', PStr ''filled''), (''filled_qty'', PStr ''1.0'')]),
     cn_balances = None\<rparr>"

definition demo_snapshot :: "obj option res" where
  "demo_snapshot = build_auto_reconciliation_snapshot ''t'' [(''alpha'', demo_connector), (''beta'', demo_connector)] []
     [demo_recovery_order ''o1'' ''alpha'' ''buy'', demo_recovery_order ''o2'' ''beta'' ''sell''] []"

lemma snapshot_is_faithful_witness:
  "\<exists>patch. demo_snapshot = Inr (Some patch) \<and> open_count (dmerge [] patch) = Some 0"
proof -
  have "(case demo_snapshot of Inr (Some p) \<Rightarrow> True | _ \<Rightarrow> False)" by code_simp
  then obtain patch where patch: "demo_snapshot = Inr (Some patch)" by (auto split: sum.splits option.splits)
  have live: "live_statuses (obs_statuses (observe_orders [(''alpha'', demo_connector), (''beta'', demo_connector)]
      (first_market [demo_recovery_order ''o1'' ''alpha'' ''buy'', demo_recovery_order ''o2'' ''beta'' ''sell''])
      [demo_recovery_order ''o1'' ''alpha'' ''buy'', demo_recovery_order ''o2'' ''beta'' ''sell''] no_observation)) = 0"
    by code_simp
  from snapshot_is_faithful [OF patch [unfolded demo_snapshot_def] refl refl] patch live show ?thesis by auto
qed

end
