(* ===== verification/StrategyExecution.thy ===== *)
theory StrategyExecution
  imports Platform Execution PairLock
begin

text \<open>
  \<open>strategy_runtime_execution.py\<close>: a persisted intent is submitted, its orders, fills and evaluation are
  published, the pair lock is kept or released, and a failed submission opens a recovery trace. The
  execution adapter is a parameter: a function on the store that may raise. Identifiers and times drawn
  by the store and by the adapter come from the same numbering as those of the Redis runtime, so no
  identifier is drawn twice. Log lines are left out.
\<close>

section \<open>The store\<close>

type_synonym adapter = "arbitrage_decision \<Rightarrow> order_intent \<Rightarrow> bool \<Rightarrow> mem \<Rightarrow> mem \<times> submit_result res"

definition on_store :: "(mem \<Rightarrow> mem \<times> 'a) \<Rightarrow> ('r, 'x, 'a) task" where
  "on_store f = State (\<lambda>s. case f (Mem (rs_drawn (pf_redis s)) (pf_store s)) of
     (m, a) \<Rightarrow> (a, s\<lparr>pf_redis := (pf_redis s)\<lparr>rs_drawn := drawn m\<rparr>, pf_store := mem_store m\<rparr>))"

definition simulated_adapter :: "redis_config \<Rightarrow> string \<Rightarrow> adapter" where
  "simulated_adapter cfg mode d i auto_unwind m =
     submit_arbitrage_orders (mem_ops (rc_uid cfg) (rc_now cfg)) (\<lambda>n. rc_uid cfg (drawn m + n)) (\<lambda>n. rc_now cfg (drawn m + n))
       d i mode auto_unwind m"

definition intent_row :: "order_intent \<Rightarrow> obj" where
  "intent_row i = [(''intent_id'', PStr (intent_id i)), (''bot_id'', PStr (int_bot_id i)),
     (''strategy_run_id'', PStr (int_run_id i)), (''market'', PStr (int_market i)),
     (''buy_exchange'', PStr (int_buy_exchange i)), (''sell_exchange'', PStr (int_sell_exchange i)),
     (''side_pair'', PStr (int_side_pair i)), (''target_qty'', PStr (int_target_qty i)),
     (''expected_profit'', opt_str (int_expected_profit i)), (''expected_profit_ratio'', opt_str (int_expected_profit_ratio i)),
     (''status'', PStr (int_status i)), (''created_at'', PStr (int_created_at i)),
     (''decision_context'', PDict (int_decision_context i))]"

section \<open>The lock of a decision\<close>

record lock_request =
  lk_bot_id :: string
  lk_run_id :: string
  lk_lifecycle :: string
  lk_intent_id :: "string option"
  lk_recovery_trace_id :: "string option"

definition pair_lock_payload :: "string \<Rightarrow> pyval \<Rightarrow> lock_request \<Rightarrow> (string \<times> string \<times> obj) option" where
  "pair_lock_payload nw ctx q = (case pair_lock_identity_from_context ctx None of
      None \<Rightarrow> None
    | Some identity \<Rightarrow>
        (let market = text_of identity ''market''; qid = text_of identity ''quote_pair_id'' in
         if market = [] \<or> qid = [] then None
         else Some (market, qid, build_pair_lock_payload
           \<lparr>pl_bot_id = lk_bot_id q, pl_strategy_run_id = lk_run_id q,
            pl_owner_id = pair_lock_owner_id (lk_bot_id q) (lk_run_id q), pl_market = market, pl_quote_pair_id = qid,
            pl_lifecycle_state = lk_lifecycle q, pl_selected_pair = as_dict (pget identity ''selected_pair''),
            pl_acquired_at = (case pair_lock_acquired_at ctx of None \<Rightarrow> nw | Some t \<Rightarrow> t),
            pl_intent_id = lk_intent_id q, pl_recovery_trace_id = lk_recovery_trace_id q\<rparr>)))"

definition owner_release :: "string \<Rightarrow> release_args" where
  "owner_release owner = \<lparr>ra_strategy_run_id = None, ra_bot_id = None, ra_owner_id = Some owner\<rparr>"

definition sync_pair_lock ::
    "'r server \<Rightarrow> redis_config \<Rightarrow> pyval \<Rightarrow> string \<Rightarrow> lock_request \<Rightarrow> ('r, unit) redis" where
  "sync_pair_lock exec cfg ctx trace q =
     (if \<not> info_enabled cfg then State_Monad.return ()
      else do {
        nw \<leftarrow> draw_now cfg;
        (case pair_lock_payload nw ctx q of
           None \<Rightarrow> State_Monad.return ()
         | Some (market, qid, payload) \<Rightarrow>
             if should_hold_pair_lock [(''market'', PStr market), (''decision_context'', por ctx (PDict [])),
                  (''lifecycle_preview'', PStr (lk_lifecycle q))]
             then do {
               _ \<leftarrow> acquire_pair_lock exec cfg market qid payload (Some trace) None;
               State_Monad.return () }
             else do {
               _ \<leftarrow> release_pair_lock exec cfg market qid (owner_release (raw_text payload ''owner_id'')) (Some trace);
               State_Monad.return () }) })"

section \<open>Closing after the fills\<close>

definition EXECUTION_TERMINAL_ORDER_STATUSES :: "string list" where
  "EXECUTION_TERMINAL_ORDER_STATUSES = [''filled'', ''cancelled'', ''rejected'', ''expired'', ''failed'']"

definition EXECUTION_TERMINAL_INTENT_STATUSES :: "string list" where
  "EXECUTION_TERMINAL_INTENT_STATUSES = [''filled'', ''closed'', ''simulated'']"

definition orders_of_run :: "store \<Rightarrow> string \<Rightarrow> order_view list res" where
  "orders_of_run s rid = list_orders (orders s) (fills s) \<lparr>oq_bot_id = None, oq_exchange_name = None, oq_status = None,
     oq_market = None, oq_strategy_run_id = non_blank rid, oq_created_from = None, oq_created_to = None\<rparr>"

definition order_settled :: "order_view \<Rightarrow> bool" where
  "order_settled v = (lower (strip (ord_status (ov_order v))) \<in> set EXECUTION_TERMINAL_ORDER_STATUSES)"

definition maybe_close_after_terminal_fill :: "store \<Rightarrow> order_intent \<Rightarrow> obj \<Rightarrow> obj res" where
  "maybe_close_after_terminal_fill s intent payload =
     (if raw_text payload ''lifecycle_preview'' \<noteq> ''hedge_balanced'' \<or> intent_id intent = [] then Inr payload
      else (case get_order_intent s (intent_id intent) of
          None \<Rightarrow> Inr payload
        | Some latest \<Rightarrow>
            if lower (strip (int_status latest)) \<notin> set EXECUTION_TERMINAL_INTENT_STATUSES then Inr payload
            else andThen (orders_of_run s (int_run_id latest)) (\<lambda>vs.
              let related = filter (\<lambda>v. ord_intent_id (ov_order v) = intent_id intent) vs in
              Inr (if related = [] \<or> \<not> list_all order_settled related then payload
                   else dset payload ''lifecycle_preview'' (PStr ''closed'')))))"

section \<open>Submitting a persisted intent\<close>

record execution_outcome =
  xo_status :: string
  xo_latest_payload :: obj
  xo_recovery_trace_id :: "string option"
  xo_error_message :: "string option"

record execution_call =
  xc_decision :: arbitrage_decision
  xc_intent :: order_intent
  xc_run_id :: string
  xc_bot_id :: string
  xc_trace_id :: string
  xc_auto_unwind :: bool

definition order_created_event :: "order \<Rightarrow> obj" where
  "order_created_event x = [(''order_id'', PStr (order_id x)), (''order_intent_id'', PStr (ord_intent_id x)),
     (''bot_id'', PStr (ord_bot_id x)), (''exchange_name'', PStr (ord_exchange_name x)), (''status'', PStr (ord_status x))]"

definition fill_created_event :: "fill \<Rightarrow> obj" where
  "fill_created_event f = [(''fill_id'', PStr (fill_id f)), (''order_id'', PStr (fl_order_id f)),
     (''bot_id'', PStr (fl_bot_id f)), (''exchange_name'', PStr (fl_exchange_name f)),
     (''order_status'', PStr (fl_order_status f))]"

fun publish_all :: "'r server \<Rightarrow> redis_config \<Rightarrow> string \<Rightarrow> string \<Rightarrow> obj list \<Rightarrow> ('r, unit) redis" where
  "publish_all exec cfg ev trace [] = State_Monad.return ()"
| "publish_all exec cfg ev trace (e # es) = do {
     _ \<leftarrow> publish_order_event exec cfg ev e (Some trace);
     publish_all exec cfg ev trace es }"

definition context_of :: "obj \<Rightarrow> pyval" where
  "context_of payload = (case pget payload ''decision_context'' of PDict c \<Rightarrow> PDict c | _ \<Rightarrow> PNone)"

definition submit_failure_message :: "submit_result \<Rightarrow> string" where
  "submit_failure_message r =
     (if text_of (sr_details r) ''reason'' = [] then ''arbitrage runtime submit failed'' else text_of (sr_details r) ''reason'')"

definition lock_of_call :: "execution_call \<Rightarrow> string \<Rightarrow> string option \<Rightarrow> lock_request" where
  "lock_of_call c lifecycle tid = \<lparr>lk_bot_id = xc_bot_id c, lk_run_id = xc_run_id c, lk_lifecycle = lifecycle,
     lk_intent_id = non_blank (intent_id (xc_intent c)), lk_recovery_trace_id = tid\<rparr>"

definition publish_submission :: "'r server \<Rightarrow> redis_config \<Rightarrow> execution_call \<Rightarrow> submit_result \<Rightarrow> ('r, unit) redis" where
  "publish_submission exec cfg c r = do {
     _ \<leftarrow> publish_all exec cfg ''order.created'' (xc_trace_id c) (map order_created_event (sr_created_orders r));
     publish_all exec cfg ''fill.created'' (xc_trace_id c) (map fill_created_event (sr_created_fills r)) }"

definition submitted_payload :: "execution_call \<Rightarrow> submit_result \<Rightarrow> obj" where
  "submitted_payload c r = build_arbitrage_evaluation_payload (xc_decision c) (xc_bot_id c) (xc_run_id c)
     (Some (intent_row (xc_intent c))) (Some (sr_lifecycle_preview r)) (Some (as_payload r))"

definition publish_evaluation :: "'r server \<Rightarrow> redis_config \<Rightarrow> execution_call \<Rightarrow> obj \<Rightarrow> ('r, unit) redis" where
  "publish_evaluation exec cfg c payload = do {
     _ \<leftarrow> sync_arbitrage_evaluation exec cfg (xc_run_id c) payload (Some (xc_trace_id c)) True;
     sync_pair_lock exec cfg (context_of payload) (xc_trace_id c) (lock_of_call c (raw_text payload ''lifecycle_preview'') None) }"

definition count_entries :: "submit_result \<Rightarrow> obj" where
  "count_entries r = [(''order_count'', PInt (int (length (sr_created_orders r)))),
     (''fill_count'', PInt (int (length (sr_created_fills r))))]"

definition run_entries :: "execution_call \<Rightarrow> obj" where
  "run_entries c = [(''run_id'', PStr (xc_run_id c)), (''bot_id'', PStr (xc_bot_id c)),
     (''intent_id'', PStr (intent_id (xc_intent c)))]"

definition report_submitted :: "'r server \<Rightarrow> redis_config \<Rightarrow> execution_call \<Rightarrow> submit_result \<Rightarrow> obj \<Rightarrow> ('r, unit) redis" where
  "report_submitted exec cfg c r payload = do {
     _ \<leftarrow> run_if (sr_outcome r = ''filled'' \<and> pget payload ''lifecycle_preview'' = PStr ''closed'')
       (append_event exec cfg ''strategy_events'' ''strategy.arbitrage_cycle_closed''
         (run_entries c @ count_entries r @ [(''source'', PStr ''runtime_loop'')]) (Some (xc_trace_id c)));
     _ \<leftarrow> append_event exec cfg ''strategy_events''
       (if sr_outcome r = ''filled'' then ''strategy.arbitrage_fills_simulated'' else ''strategy.arbitrage_orders_submitted'')
       (run_entries c @ count_entries r @ [(''lifecycle_preview'', PStr (sr_lifecycle_preview r)),
          (''source'', PStr ''runtime_loop'')]) (Some (xc_trace_id c));
     State_Monad.return () }"

definition failed_trace :: "string \<Rightarrow> string \<Rightarrow> alert \<Rightarrow> execution_call \<Rightarrow> submit_result \<Rightarrow> obj" where
  "failed_trace tid ts al c r =
     [(''recovery_trace_id'', PStr tid), (''run_id'', PStr (xc_run_id c)), (''bot_id'', PStr (xc_bot_id c)),
      (''intent_id'', PStr (intent_id (xc_intent c))), (''status'', PStr ''active''),
      (''lifecycle_state'', PStr (sr_lifecycle_preview r)), (''incident_code'', PStr ''ARB-201 HEDGE_TIMEOUT''),
      (''reason_code'', PStr (reason_code (xc_decision c))), (''manual_handoff_required'', PBool False),
      (''auto_unwind_allowed'', PBool (xc_auto_unwind c)), (''created_at'', PStr ts),
      (''alert_id'', PStr (alert_id al)), (''submit_result'', PDict (as_payload r))]"

definition link_failed_trace ::
    "'r server \<Rightarrow> redis_config \<Rightarrow> execution_call \<Rightarrow> string \<Rightarrow> obj \<Rightarrow> ('r, obj) redis" where
  \<comment> \<open>the payload after the stored trace, if it can be read, was copied to the evaluation\<close>
  "link_failed_trace exec cfg c tid payload = do {
     latest \<leftarrow> get_recovery_trace exec cfg tid;
     (case latest of
        None \<Rightarrow> State_Monad.return payload
      | Some l \<Rightarrow> do {
          synced \<leftarrow> sync_arbitrage_evaluation_recovery_state exec cfg (xc_run_id c) l (Some (xc_trace_id c));
          State_Monad.return (case synced of None \<Rightarrow> payload | Some p \<Rightarrow> p) }) }"

definition open_failed_trace ::
    "'r server \<Rightarrow> redis_config \<Rightarrow> execution_call \<Rightarrow> submit_result \<Rightarrow> obj \<Rightarrow> alert \<Rightarrow> string \<Rightarrow> string \<Rightarrow> ('r, obj) redis" where
  "open_failed_trace exec cfg c r payload al tid ts = do {
     _ \<leftarrow> sync_recovery_trace exec cfg tid (failed_trace tid ts al c r) (Some (xc_trace_id c));
     latest \<leftarrow> link_failed_trace exec cfg c tid payload;
     _ \<leftarrow> sync_pair_lock exec cfg (context_of latest) (xc_trace_id c)
       (lock_of_call c (py_str (por (pget latest ''lifecycle_preview'') (PStr (sr_lifecycle_preview r)))) (Some tid));
     _ \<leftarrow> publish_alert_event exec cfg ''alert.created''
       [(''alert_id'', PStr (alert_id al)), (''bot_id'', opt_str (al_bot_id al)), (''level'', PStr (al_level al)),
        (''code'', PStr (al_code al))] (Some (xc_trace_id c));
     _ \<leftarrow> append_event exec cfg ''strategy_events'' ''strategy.arbitrage_submit_failed''
       (run_entries c @ [(''lifecycle_preview'', PStr (sr_lifecycle_preview r)),
         (''auto_unwind_on_failure'', PBool (xc_auto_unwind c)), (''recovery_trace_id'', PStr tid),
         (''source'', PStr ''runtime_loop'')]) (Some (xc_trace_id c));
     State_Monad.return latest }"

definition submission_failed ::
    "'r server \<Rightarrow> redis_config \<Rightarrow> execution_call \<Rightarrow> submit_result \<Rightarrow> obj \<Rightarrow> ('r, 'x, execution_outcome) task" where
  "submission_failed exec cfg c r payload = do {
     al \<leftarrow> raise_alert cfg (Some (xc_bot_id c)) ''error'' ''ARBITRAGE_SUBMIT_FAILED'' (submit_failure_message r);
     uid \<leftarrow> on_redis (draw_uid cfg);
     ts \<leftarrow> on_redis (draw_now cfg);
     latest \<leftarrow> on_redis (open_failed_trace exec cfg c r payload al (''rt_'' @ uid) ts);
     State_Monad.return \<lparr>xo_status = ''submit_failed'', xo_latest_payload = latest,
       xo_recovery_trace_id = Some (''rt_'' @ uid), xo_error_message = Some (submit_failure_message r)\<rparr> }"

definition report_submission ::
    "'r server \<Rightarrow> redis_config \<Rightarrow> execution_call \<Rightarrow> submit_result \<Rightarrow> obj \<Rightarrow> ('r, 'x, execution_outcome) task" where
  "report_submission exec cfg c r payload = do {
     _ \<leftarrow> on_redis (publish_evaluation exec cfg c payload);
     (if sr_outcome r \<in> {''submitted'', ''filled''} then do {
        _ \<leftarrow> on_redis (report_submitted exec cfg c r payload);
        State_Monad.return \<lparr>xo_status = ''submitted'', xo_latest_payload = payload, xo_recovery_trace_id = None,
          xo_error_message = None\<rparr> }
      else submission_failed exec cfg c r payload) }"

definition execute_persisted_arbitrage_intent ::
    "'r server \<Rightarrow> redis_config \<Rightarrow> adapter \<Rightarrow> execution_call \<Rightarrow> ('r, 'x, execution_outcome run) task" where
  "execute_persisted_arbitrage_intent exec cfg adapter c = do {
     submitted \<leftarrow> on_store (adapter (xc_decision c) (xc_intent c) (xc_auto_unwind c));
     (case submitted of
        Inl e \<Rightarrow> State_Monad.return (Raised e)
      | Inr r \<Rightarrow> do {
          _ \<leftarrow> on_redis (publish_submission exec cfg c r);
          s \<leftarrow> reading pf_store;
          (case maybe_close_after_terminal_fill s (xc_intent c) (submitted_payload c r) of
             Inl e \<Rightarrow> State_Monad.return (Raised e)
           | Inr payload \<Rightarrow> do {
               out \<leftarrow> report_submission exec cfg c r payload;
               State_Monad.return (Returned out) }) }) }"

end
