(* ===== verification/BalanceSources.thy ===== *)
theory BalanceSources
  imports InputLoader Store
begin

text \<open>
  Where the inputs of an evaluation come from. \<open>market_data_freshness.py\<close>: the time at which a market
  snapshot counts as observed. \<open>strategy/arbitrage_balance_sources.py\<close>: the balances of the candidate
  exchanges, from the configuration or from the private exchanges. A private exchange is a parameter:
  its answer to a balance query. Each argument \<open>nw\<close> is the text of a clock reading (\<open>_iso_now\<close>).
\<close>

section \<open>When a snapshot was observed (\<open>market_data_freshness.py\<close>)\<close>

definition normalize_iso_text :: "pyval \<Rightarrow> string option" where
  "normalize_iso_text v = (case v of
      PStr s \<Rightarrow> (let t = strip s in if t = [] then None else map_option iso_z (parse_iso (replace_Z t)))
    | _ \<Rightarrow> None)"

definition choose_freshness_observed_at :: "string \<Rightarrow> obj \<Rightarrow> string option \<Rightarrow> string \<times> string" where
  "choose_freshness_observed_at nw snapshot fallback =
     (case normalize_iso_text (pget snapshot ''freshness_observed_at'') of
        Some t \<Rightarrow> (t, if text_of snapshot ''freshness_observed_at_source'' = [] then ''explicit''
                       else text_of snapshot ''freshness_observed_at_source'')
      | None \<Rightarrow>
          (let sent = normalize_iso_text (pget snapshot ''exchange_timestamp'');
               received = normalize_iso_text (pget snapshot ''received_at'')
           in if low_text snapshot ''exchange'' = ''coinone'' \<and> low_text snapshot ''source_type'' = ''public_ws''
                 \<and> received \<noteq> None
              then (the received, ''received_at'')
              else (case sent of
                  Some t \<Rightarrow> (t, ''exchange_timestamp'')
                | None \<Rightarrow> (case received of
                    Some t \<Rightarrow> (t, ''received_at'')
                  | None \<Rightarrow> (case normalize_iso_text (opt_str fallback) of
                      Some t \<Rightarrow> (t, ''fallback_now'')
                    | None \<Rightarrow> (nw, ''fallback_now''))))))"

definition snapshot_sort_datetime :: "string \<Rightarrow> obj option \<Rightarrow> time option" where
  "snapshot_sort_datetime nw snapshot = (case snapshot of
      None \<Rightarrow> None
    | Some d \<Rightarrow> parse_iso (replace_Z (fst (choose_freshness_observed_at nw d None))))"

section \<open>Modes\<close>

definition normalized_exchange :: "pyval \<Rightarrow> string" where
  "normalized_exchange v = lower (strip (py_str (por v (PStr []))))"

definition runtime_mode :: "strategy_run \<Rightarrow> bot_detail \<Rightarrow> string" where
  "runtime_mode run detail =
     (let run_md = lower (strip (run_mode run)); bot_md = lower (strip (b_mode (bd_bot detail)))
      in if run_md \<noteq> [] then run_md else if bot_md \<noteq> [] then bot_md else ''dry_run'')"

definition configured_balance_source :: "obj \<Rightarrow> string \<Rightarrow> string" where
  "configured_balance_source spec mode =
     (if low_text spec ''balance_source'' \<noteq> [] then low_text spec ''balance_source''
      else if mode = ''live'' then ''private_exchange'' else ''runtime_config'')"

section \<open>Balances\<close>

record balance_load =
  bl_snapshots :: "(string, obj) dict option"
  bl_sources :: "(string, string) dict option"
  bl_skip_reason :: "string option"
  bl_detail :: "string option"

definition balances_failed :: "string \<Rightarrow> string \<Rightarrow> balance_load" where
  "balances_failed reason detail =
     \<lparr>bl_snapshots = None, bl_sources = None, bl_skip_reason = Some reason, bl_detail = Some detail\<rparr>"

definition balances_loaded :: "(string, obj) dict \<Rightarrow> (string, string) dict \<Rightarrow> balance_load" where
  "balances_loaded snapshots sources =
     \<lparr>bl_snapshots = Some snapshots, bl_sources = Some sources, bl_skip_reason = None, bl_detail = None\<rparr>"

record balance_fields =
  bf_exchange :: string
  bf_base :: string
  bf_quote :: string
  bf_available_base :: pyval
  bf_available_quote :: pyval
  bf_observed_at :: string
  bf_is_fresh :: bool
  bf_source :: string

definition balance_payload :: "string \<Rightarrow> balance_fields \<Rightarrow> obj" where
  "balance_payload nw f =
     [(''exchange_name'', PStr (bf_exchange f)), (''base_asset'', PStr (bf_base f)), (''quote_asset'', PStr (bf_quote f)),
      (''available_base'', PStr (py_str (bf_available_base f))), (''available_quote'', PStr (py_str (bf_available_quote f))),
      (''observed_at'', PStr (if bf_observed_at f = [] then nw else bf_observed_at f)),
      (''is_fresh'', PBool (bf_is_fresh f)), (''source_type'', PStr (bf_source f))]"

definition not_dict :: "pyval \<Rightarrow> bool" where
  "not_dict v = (as_dict v = None)"

definition dict_or_empty :: "pyval \<Rightarrow> obj" where
  \<comment> \<open>\<open>dict(v)\<close> of a value checked to be an object\<close>
  "dict_or_empty v = (case v of PDict d \<Rightarrow> d | _ \<Rightarrow> [])"

definition config_balance_specs :: "obj \<Rightarrow> string list \<Rightarrow> string + (string, obj) dict" where
  "config_balance_specs spec candidates = (case pget spec ''exchange_balances'' of
      PDict raw \<Rightarrow>
        (let given_in = normalize_keys raw;
             missing = filter (\<lambda>ex. not_dict (pget given_in ex)) candidates
         in if missing \<noteq> [] then Inl (''missing exchange_balances for: '' @ join '', '' missing)
            else Inr (dmerge [] (map (\<lambda>ex. (ex, dict_or_empty (pget given_in ex))) candidates)))
    | _ \<Rightarrow>
        (let base_ex = normalized_exchange (pget spec ''base_exchange'');
             hedge_ex = normalized_exchange (pget spec ''hedge_exchange'')
         in if base_ex = [] \<or> hedge_ex = []
            then Inl ''base_exchange and hedge_exchange are required when exchange_balances is absent''
            else if not_dict (pget spec ''base_balance'') \<or> not_dict (pget spec ''hedge_balance'')
            then Inl ''base_balance and hedge_balance must be objects''
            else (let normalized = dset [(base_ex, dict_or_empty (pget spec ''base_balance''))] hedge_ex
                        (dict_or_empty (pget spec ''hedge_balance''));
                      missing = filter (\<lambda>ex. map_of normalized ex = None) candidates
                  in if missing \<noteq> [] then Inl (''missing exchange-specific balances for: '' @ join '', '' missing)
                     else Inr normalized)))"

fun config_balances ::
    "(nat \<Rightarrow> string) \<Rightarrow> string \<Rightarrow> string \<Rightarrow> nat \<Rightarrow> (string, obj) dict \<Rightarrow> (string, obj) dict \<Rightarrow> (string, string) dict \<Rightarrow> balance_load" where
  "config_balances nw base quote i [] snapshots sources = balances_loaded snapshots sources"
| "config_balances nw base quote i ((ex, payload) # rest) snapshots sources =
     (if pget payload ''available_base'' = PNone \<or> pget payload ''available_quote'' = PNone
      then balances_failed ''RUNTIME_INPUTS_INVALID''
        (''balance payload must include available_base and available_quote: '' @ ex)
      else config_balances nw base quote (Suc i) rest
        (dset snapshots ex (balance_payload (nw i) \<lparr>bf_exchange = ex, bf_base = base, bf_quote = quote,
           bf_available_base = pget payload ''available_base'', bf_available_quote = pget payload ''available_quote'',
           bf_observed_at = py_str (por (pget payload ''observed_at'') (PStr (nw i))),
           bf_is_fresh = bool_or payload ''is_fresh'' True, bf_source = ''runtime_config''\<rparr>))
        (dset sources ex ''runtime_config''))"

definition load_runtime_config_balance_snapshots ::
    "(nat \<Rightarrow> string) \<Rightarrow> obj \<Rightarrow> string list \<Rightarrow> string \<Rightarrow> string \<Rightarrow> balance_load" where
  "load_runtime_config_balance_snapshots nw spec candidates base quote =
     (case config_balance_specs spec candidates of
        Inl problem \<Rightarrow> balances_failed ''RUNTIME_INPUTS_INVALID'' problem
      | Inr specs \<Rightarrow> config_balances nw base quote 0 specs [] [])"

fun index_balance_items :: "obj list \<Rightarrow> (string, obj) dict \<Rightarrow> (string, obj) dict" where
  "index_balance_items [] indexed = indexed"
| "index_balance_items (item # items) indexed =
     (let currency = upper (text_of item ''currency'') in
      index_balance_items items
        (if currency = [] \<or> map_of indexed currency \<noteq> None then indexed else dset indexed currency item))"

record private_result =
  pr_outcome :: string
  pr_data :: pyval
  pr_error_code :: "string option"
  pr_reason :: "string option"

definition or_given :: "string option \<Rightarrow> string \<Rightarrow> string" where
  \<comment> \<open>\<open>text or default\<close>\<close>
  "or_given t dflt = (case t of None \<Rightarrow> dflt | Some x \<Rightarrow> if x = [] then dflt else x)"

definition available_of :: "(string, obj) dict \<Rightarrow> string \<Rightarrow> pyval" where
  "available_of indexed asset = (case map_of indexed asset of
      None \<Rightarrow> PStr ''0'' | Some item \<Rightarrow> pget_or item ''available'' (PStr ''0''))"

definition unavailable :: "string \<Rightarrow> balance_load" where
  "unavailable = balances_failed ''BALANCE_SNAPSHOT_UNAVAILABLE''"

fun private_balances ::
    "(nat \<Rightarrow> string) \<Rightarrow> (string, private_result) dict \<Rightarrow> string \<Rightarrow> string \<Rightarrow> nat \<Rightarrow> string list \<Rightarrow> (string, obj) dict \<Rightarrow>
      (string, string) dict \<Rightarrow> balance_load" where
  "private_balances nw privates base quote i [] snapshots sources = balances_loaded snapshots sources"
| "private_balances nw privates base quote i (ex # rest) snapshots sources =
     (case map_of privates ex of
        None \<Rightarrow> unavailable (''private balance connector not configured for: '' @ ex)
      | Some answer \<Rightarrow>
          if pr_outcome answer \<noteq> ''ok''
          then unavailable (ex @ '' get_balances failed: ''
            @ or_given (pr_error_code answer) (or_given (Some (pr_outcome answer)) ''unknown'') @ '': ''
            @ or_given (pr_reason answer) ''private balance fetch failed'')
          else (case pget (dict_or_empty (pr_data answer)) ''items'' of
              PList items \<Rightarrow>
                (let indexed = index_balance_items (concat (map (\<lambda>v. case v of PDict d \<Rightarrow> [d] | _ \<Rightarrow> []) items)) []
                 in private_balances nw privates base quote (Suc i) rest
                   (dset snapshots ex (balance_payload (nw i) \<lparr>bf_exchange = ex, bf_base = base, bf_quote = quote,
                      bf_available_base = available_of indexed (upper (strip base)),
                      bf_available_quote = available_of indexed (upper (strip quote)),
                      bf_observed_at = nw i, bf_is_fresh = True, bf_source = ''private_exchange''\<rparr>))
                   (dset sources ex ''private_exchange''))
            | _ \<Rightarrow> unavailable (ex @ '' get_balances returned invalid payload'')))"

definition load_private_exchange_balance_snapshots ::
    "(nat \<Rightarrow> string) \<Rightarrow> (string, private_result) dict option \<Rightarrow> string list \<Rightarrow> string \<Rightarrow> string \<Rightarrow> balance_load" where
  "load_private_exchange_balance_snapshots nw privates candidates base quote = (case privates of
      None \<Rightarrow> unavailable ''private_exchange_connectors are required for private_exchange balance source''
    | Some ps \<Rightarrow> private_balances nw ps base quote 0 candidates [] [])"

definition load_balance_snapshots ::
    "(nat \<Rightarrow> string) \<Rightarrow> (string, private_result) dict option \<Rightarrow> obj \<Rightarrow> string list \<Rightarrow> string \<Rightarrow> string \<Rightarrow> strategy_run \<Rightarrow>
      bot_detail \<Rightarrow> balance_load" where
  "load_balance_snapshots nw privates spec candidates base quote run detail =
     (let mode = runtime_mode run detail; source = configured_balance_source spec mode in
      if mode = ''live'' \<and> source = ''runtime_config''
      then balances_failed ''RUNTIME_INPUTS_INVALID'' ''balance_source=runtime_config is not allowed for live mode''
      else if source = ''private_exchange''
      then load_private_exchange_balance_snapshots nw privates candidates base quote
      else if source = ''runtime_config'' then load_runtime_config_balance_snapshots nw spec candidates base quote
      else balances_failed ''RUNTIME_INPUTS_INVALID'' (''unsupported balance_source: '' @ source))"

end
