(* ===== verification/RuntimeLoader.thy ===== *)
theory RuntimeLoader
  imports BalanceSources RedisRuntime
begin

text \<open>
  \<open>strategy/arbitrage_runtime_loader.py\<close>: the evaluation payload of a strategy run, from its configuration,
  the order books the connector and Redis hold, and the balances. The connector is the function
  \<open>get_cached_orderbook_top\<close> (every connector of the program has it, so the uncached fallback is left
  out). A stored configuration is an object by its type, so \<open>CONFIG_INVALID\<close> cannot arise.
\<close>

section \<open>Snapshots\<close>

type_synonym cached_reader = "string \<Rightarrow> string \<Rightarrow> obj option"

definition newer_snapshot :: "string \<Rightarrow> string \<Rightarrow> obj option \<Rightarrow> obj option \<Rightarrow> obj option" where
  "newer_snapshot nw_left nw_right left right =
     (case (left, right) of
        (None, _) \<Rightarrow> right
      | (_, None) \<Rightarrow> left
      | (Some _, Some _) \<Rightarrow>
          (case (snapshot_sort_datetime nw_left left, snapshot_sort_datetime nw_right right) of
             (None, _) \<Rightarrow> right
           | (_, None) \<Rightarrow> left
           | (Some a, Some b) \<Rightarrow> if b \<le> a then left else right))"

definition cached_orderbook_snapshot ::
    "'r server \<Rightarrow> redis_config \<Rightarrow> cached_reader \<Rightarrow> string \<Rightarrow> string \<Rightarrow> ('r, obj option) redis" where
  "cached_orderbook_snapshot exec cfg cached exchange market = do {
     stored \<leftarrow> (if info_enabled cfg then get_market_orderbook_top exec cfg exchange market else State_Monad.return None);
     nw_left \<leftarrow> draw_now cfg;
     nw_right \<leftarrow> draw_now cfg;
     State_Monad.return (newer_snapshot nw_left nw_right (cached exchange market) stored) }"

fun cached_snapshots ::
    "'r server \<Rightarrow> redis_config \<Rightarrow> cached_reader \<Rightarrow> string \<Rightarrow> string list \<Rightarrow> (string, obj) dict \<Rightarrow> string list \<Rightarrow>
      ('r, (string, obj) dict \<times> string list) redis" where
  \<comment> \<open>the snapshots found, and the exchanges without one\<close>
  "cached_snapshots exec cfg cached market [] found missing = State_Monad.return (found, missing)"
| "cached_snapshots exec cfg cached market (ex # exs) found missing = do {
     snapshot \<leftarrow> cached_orderbook_snapshot exec cfg cached ex market;
     (case snapshot of
        None \<Rightarrow> cached_snapshots exec cfg cached market exs found (missing @ [ex])
      | Some d \<Rightarrow> cached_snapshots exec cfg cached market exs (dset found ex d) missing) }"

definition level_of :: "pyval \<Rightarrow> pyval option" where
  "level_of raw = (case raw of
      PDict d \<Rightarrow>
        if pget d ''price'' = PNone \<or> pget d ''quantity'' = PNone then None
        else Some (PDict [(''price'', PStr (py_str (pget d ''price''))), (''quantity'', PStr (py_str (pget d ''quantity'')))])
    | _ \<Rightarrow> None)"

definition usable_levels :: "pyval \<Rightarrow> pyval list" where
  "usable_levels raw = (case raw of
      PList xs \<Rightarrow> concat (map (\<lambda>x. case level_of x of None \<Rightarrow> [] | Some l \<Rightarrow> [l]) xs)
    | _ \<Rightarrow> [])"

definition snapshot_levels :: "obj \<Rightarrow> string \<Rightarrow> string \<Rightarrow> string \<Rightarrow> pyval list res" where
  "snapshot_levels snapshot side price_key quantity_key =
     (if usable_levels (pget snapshot side) \<noteq> [] then Inr (usable_levels (pget snapshot side))
      else andThen (pitem snapshot price_key) (\<lambda>p. andThen (pitem snapshot quantity_key) (\<lambda>q.
        Inr [PDict [(''price'', PStr (py_str p)), (''quantity'', PStr (py_str q))]])))"

definition snapshot_orderbook :: "string \<Rightarrow> string \<Rightarrow> obj \<Rightarrow> obj res" where
  "snapshot_orderbook nw nw_fallback snapshot =
     (let (observed, source) = choose_freshness_observed_at nw snapshot (Some nw_fallback) in
      andThen (pitem snapshot ''exchange'') (\<lambda>ex.
      andThen (pitem snapshot ''market'') (\<lambda>mk.
      andThen (snapshot_levels snapshot ''asks'' ''best_ask'' ''ask_volume'') (\<lambda>as.
      andThen (snapshot_levels snapshot ''bids'' ''best_bid'' ''bid_volume'') (\<lambda>bs.
        Inr [(''exchange_name'', PStr (py_str ex)), (''market'', PStr (py_str mk)), (''observed_at'', PStr observed),
          (''observed_at_source'', PStr source), (''exchange_timestamp'', pget snapshot ''exchange_timestamp''),
          (''received_at'', pget snapshot ''received_at''), (''exchange_age_ms'', pget snapshot ''exchange_age_ms''),
          (''source_type'', pget snapshot ''source_type''), (''stale'', pget snapshot ''stale''),
          (''freshness_observed_at'', PStr observed), (''freshness_observed_at_source'', PStr source),
          (''asks'', PList as), (''bids'', PList bs),
          (''connector_healthy'', PBool (bool_or snapshot ''connector_healthy'' True))])))))"

fun snapshot_orderbooks :: "(nat \<Rightarrow> string) \<Rightarrow> nat \<Rightarrow> (string, obj) dict \<Rightarrow> obj res" where
  "snapshot_orderbooks nw i [] = Inr []"
| "snapshot_orderbooks nw i ((ex, d) # rest) =
     andThen (snapshot_orderbook (nw (2 * i + 1)) (nw (2 * i)) d) (\<lambda>ob.
     andThen (snapshot_orderbooks nw (Suc i) rest) (\<lambda>obs. Inr ((ex, PDict ob) # obs)))"

section \<open>Runtime state\<close>

definition ACTIVE_INTENT_STATUSES :: "string list" where
  "ACTIVE_INTENT_STATUSES = [''created'', ''submitted'']"

definition ACTIVE_ORDER_STATUSES :: "string list" where
  "ACTIVE_ORDER_STATUSES = [''created'', ''submitted'', ''new'', ''open'', ''partially_filled'']"

definition run_intents :: "store \<Rightarrow> string \<Rightarrow> order_intent list" where
  "run_intents s rid = list_order_intents s \<lparr>iq_bot_id = None, iq_strategy_run_id = Some rid, iq_status = None,
     iq_market = None, iq_created_from = None, iq_created_to = None\<rparr>"

definition run_orders :: "store \<Rightarrow> string \<Rightarrow> order_view list res" where
  "run_orders s rid = list_orders (orders s) (fills s) \<lparr>oq_bot_id = None, oq_exchange_name = None, oq_status = None,
     oq_market = None, oq_strategy_run_id = Some rid, oq_created_from = None, oq_created_to = None\<rparr>"

definition heartbeat_ordering_alive :: "bot_detail \<Rightarrow> bool" where
  "heartbeat_ordering_alive detail = (case bd_latest_heartbeat detail of None \<Rightarrow> True | Some h \<Rightarrow> hb_ordering_alive h)"

definition runtime_defaults :: "string \<Rightarrow> store \<Rightarrow> bot_detail \<Rightarrow> strategy_run \<Rightarrow> obj \<Rightarrow> obj res" where
  "runtime_defaults nw s detail run spec =
     (let rid = run_id run in
      andThen (run_orders s rid) (\<lambda>vs.
      andThen (py_int (por (pget_or spec ''open_order_cap'' (PInt 0)) (PInt 0))) (\<lambda>cap.
        Inr [(''now'', PStr nw),
          (''open_order_count'', PInt (int (length (filter (\<lambda>v. ord_status (ov_order v) \<in> set ACTIVE_ORDER_STATUSES) vs)))),
          (''open_order_cap'', PInt cap), (''unwind_in_progress'', PBool (bool_or spec ''unwind_in_progress'' False)),
          (''connector_private_healthy'', PBool (bool_or spec ''connector_private_healthy'' (heartbeat_ordering_alive detail))),
          (''duplicate_intent_active'',
             PBool (list_ex (\<lambda>i. int_status i \<in> set ACTIVE_INTENT_STATUSES) (run_intents s rid))),
          (''recent_unwind_at'', pget spec ''recent_unwind_at''),
          (''remaining_bot_notional'', pget spec ''remaining_bot_notional''),
          (''bot_id'', PStr (run_bot_id run)), (''strategy_run_id'', PStr rid)])))"

section \<open>The payload\<close>

record load_result =
  lr_payload :: "obj option"
  lr_skip_reason :: "string option"
  lr_detail :: "string option"

definition skipped :: "string \<Rightarrow> string \<Rightarrow> load_result" where
  "skipped reason detail = \<lparr>lr_payload = None, lr_skip_reason = Some reason, lr_detail = Some detail\<rparr>"

definition loaded :: "obj \<Rightarrow> load_result" where
  "loaded payload = \<lparr>lr_payload = Some payload, lr_skip_reason = None, lr_detail = None\<rparr>"

fun add_exchanges :: "pyval list \<Rightarrow> string list \<Rightarrow> string list" where
  "add_exchanges [] exs = exs"
| "add_exchanges (v # vs) exs =
     (let ex = normalized_exchange v in add_exchanges vs (if ex \<noteq> [] \<and> ex \<notin> set exs then exs @ [ex] else exs))"

definition candidate_exchange_list :: "obj \<Rightarrow> string list" where
  "candidate_exchange_list spec = add_exchanges
     ((case pget spec ''candidate_exchanges'' of PList xs \<Rightarrow> xs | _ \<Rightarrow> [])
       @ [pget spec ''base_exchange'', pget spec ''hedge_exchange'']) []"

definition missing_fields :: "obj \<Rightarrow> string list" where
  "missing_fields spec = filter (\<lambda>k. text_of spec k = []) [''canonical_symbol'', ''market'', ''base_asset'', ''quote_asset'']
     @ (if length (candidate_exchange_list spec) < 2 then [''candidate_exchanges''] else [])"

definition runtime_spec_of :: "store \<Rightarrow> strategy_run \<Rightarrow> load_result + bot_detail \<times> obj" where
  \<comment> \<open>the checked configuration of a run, or why it is skipped\<close>
  "runtime_spec_of s run =
     (let bid = strip (run_bot_id run) in
      if bid = [] then Inl (skipped ''BOT_NOT_FOUND'' ''strategy run is missing bot_id'')
      else (case get_bot_detail s bid of
          None \<Rightarrow> Inl (skipped ''BOT_NOT_FOUND'' ''bot detail not found'')
        | Some detail \<Rightarrow>
            (case previous_assignment s (b_assigned (bd_bot detail)) of
               None \<Rightarrow> Inl (skipped ''CONFIG_NOT_FOUND'' ''assigned config version not found'')
             | Some version \<Rightarrow>
                 (case pget (cv_json version) ''arbitrage_runtime'' of
                    PDict spec \<Rightarrow>
                      if pget spec ''enabled'' = PBool False
                      then Inl (skipped ''RUNTIME_DISABLED'' ''arbitrage runtime is disabled by config'')
                      else if missing_fields spec \<noteq> []
                      then Inl (skipped ''RUNTIME_INPUTS_INVALID''
                        (''missing required fields: '' @ join '', '' (missing_fields spec)))
                      else if not_dict (pget spec ''risk_config'')
                      then Inl (skipped ''RUNTIME_INPUTS_INVALID'' ''risk_config must be an object'')
                      else if not_dict (por (pget spec ''runtime_state'') (PDict []))
                      then Inl (skipped ''RUNTIME_INPUTS_INVALID'' ''runtime_state must be an object'')
                      else Inr (detail, spec)
                  | _ \<Rightarrow> Inl (skipped ''RUNTIME_INPUTS_MISSING'' ''config_json.arbitrage_runtime is required'')))))"

definition primary_exchange :: "obj \<Rightarrow> string \<Rightarrow> string \<Rightarrow> string" where
  "primary_exchange spec k dflt =
     (if normalized_exchange (pget spec k) = [] then dflt else normalized_exchange (pget spec k))"

definition str_dict :: "(string, string) dict \<Rightarrow> obj" where
  "str_dict d = map (\<lambda>(k, v). (k, PStr v)) d"

definition dict_dict :: "(string, obj) dict \<Rightarrow> obj" where
  "dict_dict d = map (\<lambda>(k, v). (k, PDict v)) d"

definition runtime_payload ::
    "string \<Rightarrow> store \<Rightarrow> bot_detail \<Rightarrow> strategy_run \<Rightarrow> obj \<Rightarrow> obj \<Rightarrow> (string, obj) dict \<Rightarrow> (string, string) dict \<Rightarrow> obj res" where
  "runtime_payload nw s detail run spec books balances sources =
     (let exs = candidate_exchange_list spec;
          base_ex = primary_exchange spec ''base_exchange'' (exs ! 0);
          hedge_ex = primary_exchange spec ''hedge_exchange'' (exs ! 1)
      in andThen (pitem books base_ex) (\<lambda>base_book.
         andThen (pitem books hedge_ex) (\<lambda>hedge_book.
         andThen (pitem (dict_dict balances) base_ex) (\<lambda>base_bal.
         andThen (pitem (dict_dict balances) hedge_ex) (\<lambda>hedge_bal.
         andThen (runtime_defaults nw s detail run (dict_or_empty (por (pget spec ''runtime_state'') (PDict [])))) (\<lambda>rt.
           Inr [(''bot_id'', PStr (strip (run_bot_id run))), (''strategy_run_id'', PStr (run_id run)),
             (''canonical_symbol'', PStr (text_of spec ''canonical_symbol'')), (''market'', PStr (text_of spec ''market'')),
             (''candidate_exchanges'', PList (map PStr exs)), (''orderbooks_by_exchange'', PDict books),
             (''balances_by_exchange'', PDict (dict_dict balances)), (''base_exchange'', PStr base_ex),
             (''hedge_exchange'', PStr hedge_ex), (''base_orderbook'', base_book), (''hedge_orderbook'', hedge_book),
             (''base_balance'', base_bal), (''hedge_balance'', hedge_bal),
             (''risk_config'', PDict (dict_or_empty (pget spec ''risk_config''))), (''runtime_state'', PDict rt),
             (''balance_sources_by_exchange'', PDict (str_dict sources))]))))))"

record runtime_sources =
  src_cached :: cached_reader
  src_privates :: "(string, private_result) dict option"

definition assemble_payload ::
    "(nat \<Rightarrow> string) \<Rightarrow> runtime_sources \<Rightarrow> store \<Rightarrow> bot_detail \<Rightarrow> strategy_run \<Rightarrow> obj \<Rightarrow> (string, obj) dict \<Rightarrow> load_result res" where
  \<comment> \<open>everything after the snapshots are found; \<open>nw i\<close> is the i-th clock reading\<close>
  "assemble_payload nw src s detail run spec found =
     andThen (snapshot_orderbooks (\<lambda>i. nw (3 * i + 1)) 0 found) (\<lambda>books.
       let balances = load_balance_snapshots (\<lambda>i. nw (3 * i + 2)) (src_privates src) spec (candidate_exchange_list spec)
             (text_of spec ''base_asset'') (text_of spec ''quote_asset'') run detail
       in (case bl_snapshots balances of
             None \<Rightarrow> Inr \<lparr>lr_payload = None, lr_skip_reason = bl_skip_reason balances, lr_detail = bl_detail balances\<rparr>
           | Some bals \<Rightarrow>
               andThen (runtime_payload (nw 0) s detail run spec books bals
                 (case bl_sources balances of None \<Rightarrow> [] | Some d \<Rightarrow> d)) (\<lambda>p. Inr (loaded p))))"

definition draw_clock :: "redis_config \<Rightarrow> nat \<Rightarrow> ('r, nat \<Rightarrow> string) redis" where
  \<comment> \<open>the next \<open>n\<close> clock readings\<close>
  "draw_clock cfg n = do {
     s \<leftarrow> State_Monad.get;
     _ \<leftarrow> State_Monad.set (s\<lparr>rs_drawn := rs_drawn s + n\<rparr>);
     State_Monad.return (\<lambda>i. rc_now cfg (rs_drawn s + i)) }"

definition load_arbitrage_runtime_payload ::
    "'r server \<Rightarrow> redis_config \<Rightarrow> runtime_sources \<Rightarrow> store \<Rightarrow> strategy_run \<Rightarrow> ('r, load_result res) redis" where
  "load_arbitrage_runtime_payload exec cfg src s run =
     (case runtime_spec_of s run of
        Inl r \<Rightarrow> State_Monad.return (Inr r)
      | Inr (detail, spec) \<Rightarrow> do {
          (found, missing) \<leftarrow> cached_snapshots exec cfg (src_cached src) (text_of spec ''market'')
            (candidate_exchange_list spec) [] [];
          (if missing \<noteq> []
           then State_Monad.return (Inr (skipped ''MARKET_SNAPSHOT_NOT_FOUND''
             (''cached orderbook snapshot not found for: '' @ join '', '' missing)))
           else do {
             nw \<leftarrow> draw_clock cfg (6 * length (candidate_exchange_list spec) + 3);
             State_Monad.return (assemble_payload nw src s detail run spec found) }) })"

end
