(* ===== verification/StrategyRuntime.thy ===== *)
theory StrategyRuntime
  imports StrategyExecution RuntimeLoader Candidates
begin

text \<open>
  \<open>strategy_runtime.py\<close>: one tick of the strategy loop. For every running arbitrage run the pair lock is
  reconciled, runs with an open recovery trace are skipped, the inputs are loaded and evaluated, an
  accepted decision takes the pair lock, is published, persisted and submitted. The thread (start, stop
  and the waiting between ticks) is not modelled; the stop event is an argument. Log lines are left out.
\<close>

section \<open>Configuration and state\<close>

definition SUPPORTED_EXECUTION_MODES :: "string list" where
  "SUPPORTED_EXECUTION_MODES = [''simulate_success'', ''simulate_failure'', ''simulate_fill'', ''private_http'',
     ''private_connectors'', ''private_stub'']"

record strategy_config =
  sc_enabled :: bool
  sc_interval_ms :: int
  sc_persist_intent :: bool
  sc_execution_enabled :: bool
  sc_execution_mode :: string
  sc_auto_unwind :: bool
  sc_adapter_name :: string
  sc_supports_mutation :: bool

definition supported_mode :: "string \<Rightarrow> string" where
  "supported_mode mode =
     (let m = or_success (lower (strip mode)) in if m \<in> set SUPPORTED_EXECUTION_MODES then m else ''simulate_failure'')"

definition make_strategy_config ::
    "bool \<Rightarrow> int \<Rightarrow> bool \<Rightarrow> bool \<Rightarrow> string \<Rightarrow> bool \<Rightarrow> string \<Rightarrow> bool \<Rightarrow> strategy_config" where
  "make_strategy_config enabled interval persist execution mode auto_unwind adapter_name mutable =
     \<lparr>sc_enabled = enabled, sc_interval_ms = max interval 250, sc_persist_intent = persist, sc_execution_enabled = execution,
      sc_execution_mode = supported_mode mode, sc_auto_unwind = auto_unwind, sc_adapter_name = adapter_name,
      sc_supports_mutation = mutable\<rparr>"

record 'r strategy_state = "'r platform" +
  ss_running :: bool
  ss_last_success_at :: "string option"
  ss_last_error_at :: "string option"
  ss_last_error_message :: "string option"
  ss_last_skip_at :: "string option"
  ss_last_skip_reason :: "string option"
  ss_evaluated :: int
  ss_accepted :: int
  ss_rejected :: int
  ss_persisted :: int
  ss_submit_attempt :: int
  ss_submit_success :: int
  ss_submit_failure :: int
  ss_skipped :: int
  ss_failure :: int

type_synonym ('r, 'a) strategy = "('r strategy_state, 'a) state"

definition new_strategy_state :: "'r redis_state \<Rightarrow> store \<Rightarrow> 'r strategy_state" where
  "new_strategy_state r st = \<lparr>pf_redis = r, pf_store = st, ss_running = False, ss_last_success_at = None,
     ss_last_error_at = None, ss_last_error_message = None, ss_last_skip_at = None, ss_last_skip_reason = None,
     ss_evaluated = 0, ss_accepted = 0, ss_rejected = 0, ss_persisted = 0, ss_submit_attempt = 0, ss_submit_success = 0,
     ss_submit_failure = 0, ss_skipped = 0, ss_failure = 0\<rparr>"

definition strategy_state_name :: "strategy_config \<Rightarrow> 'r strategy_state \<Rightarrow> string" where
  "strategy_state_name c s =
     (if \<not> sc_enabled c then ''disabled'' else if ss_running s then ''running''
      else if 0 < ss_failure s \<and> ss_evaluated s = 0 then ''degraded'' else ''idle'')"

definition strategy_info :: "strategy_config \<Rightarrow> 'r strategy_state \<Rightarrow> obj" where
  "strategy_info c s =
     (let em = describe_execution_mode (sc_execution_mode c) in
      [(''enabled'', PBool (sc_enabled c)), (''interval_ms'', PInt (sc_interval_ms c)),
       (''persist_intent'', PBool (sc_persist_intent c)), (''execution_enabled'', PBool (sc_execution_enabled c)),
       (''execution_mode'', PStr (sc_execution_mode c)), (''execution_adapter'', PStr (sc_adapter_name c)),
       (''execution_path_kind'', PStr (em_path_kind em)), (''execution_path_temporary'', PBool (em_temporary_path em)),
       (''execution_path_summary'', PStr (em_summary em)), (''auto_unwind_on_failure'', PBool (sc_auto_unwind c)),
       (''running'', PBool (ss_running s)), (''state'', PStr (strategy_state_name c s)),
       (''last_success_at'', opt_str (ss_last_success_at s)), (''last_error_at'', opt_str (ss_last_error_at s)),
       (''last_error_message'', opt_str (ss_last_error_message s)), (''last_skip_at'', opt_str (ss_last_skip_at s)),
       (''last_skip_reason'', opt_str (ss_last_skip_reason s)), (''evaluated_count'', PInt (ss_evaluated s)),
       (''accepted_count'', PInt (ss_accepted s)), (''rejected_count'', PInt (ss_rejected s)),
       (''persisted_intent_count'', PInt (ss_persisted s)), (''submit_attempt_count'', PInt (ss_submit_attempt s)),
       (''submit_success_count'', PInt (ss_submit_success s)), (''submit_failure_count'', PInt (ss_submit_failure s)),
       (''skipped_count'', PInt (ss_skipped s)), (''failure_count'', PInt (ss_failure s))])"

section \<open>Counters\<close>

definition record_success :: "redis_config \<Rightarrow> bool \<Rightarrow> ('r, unit) strategy" where
  "record_success cfg ok = do {
     ts \<leftarrow> on_redis (draw_now cfg);
     changing (\<lambda>s. s\<lparr>ss_evaluated := ss_evaluated s + 1, ss_accepted := ss_accepted s + (if ok then 1 else 0),
       ss_rejected := ss_rejected s + (if ok then 0 else 1), ss_last_success_at := Some ts, ss_last_error_message := None\<rparr>) }"

definition skip_run :: "redis_config \<Rightarrow> string \<Rightarrow> string option \<Rightarrow> ('r, unit run) strategy" where
  "skip_run cfg reason detail = do {
     ts \<leftarrow> on_redis (draw_now cfg);
     then_done (changing (\<lambda>s. s\<lparr>ss_skipped := ss_skipped s + 1, ss_last_skip_at := Some ts,
       ss_last_skip_reason := Some (case detail of None \<Rightarrow> reason | Some d \<Rightarrow> reason @ '': '' @ d),
       ss_last_error_message := None\<rparr>)) }"

definition record_failure :: "redis_config \<Rightarrow> pyexc \<Rightarrow> ('r, unit run) strategy" where
  "record_failure cfg e = do {
     ts \<leftarrow> on_redis (draw_now cfg);
     then_done (changing (\<lambda>s. s\<lparr>ss_failure := ss_failure s + 1, ss_last_error_at := Some ts,
       ss_last_error_message := Some (exc_text e)\<rparr>)) }"

section \<open>Pair locks of a run\<close>

record run_call =
  cl_run_id :: string
  cl_bot_id :: string
  cl_trace_id :: string

definition lock_for :: "run_call \<Rightarrow> string \<Rightarrow> string option \<Rightarrow> string option \<Rightarrow> lock_request" where
  "lock_for c lifecycle iid tid = \<lparr>lk_bot_id = cl_bot_id c, lk_run_id = cl_run_id c, lk_lifecycle = lifecycle,
     lk_intent_id = iid, lk_recovery_trace_id = tid\<rparr>"

definition payload_intent_id :: "obj \<Rightarrow> string option res" where
  \<comment> \<open>\<open>str(dict(payload.get('persisted_intent') or {}).get('intent_id') or '') or None\<close>\<close>
  "payload_intent_id payload = andThen (py_dict (por (pget payload ''persisted_intent'') (PDict [])))
     (\<lambda>d. Inr (non_blank (raw_text d ''intent_id'')))"

definition refresh_or_release ::
    "'r server \<Rightarrow> redis_config \<Rightarrow> run_call \<Rightarrow> obj \<Rightarrow> string \<Rightarrow> string \<Rightarrow> ('r, unit res) redis" where
  "refresh_or_release exec cfg c latest market qid =
     (if should_hold_pair_lock latest
      then (case payload_intent_id latest of
          Inl e \<Rightarrow> State_Monad.return (Inl e)
        | Inr iid \<Rightarrow> do {
            nw \<leftarrow> draw_now cfg;
            (case pair_lock_payload nw (PDict (dict_or_empty (pget latest ''decision_context'')))
                (lock_for c (raw_text latest ''lifecycle_preview'') iid (non_blank (raw_text latest ''recovery_trace_id''))) of
               None \<Rightarrow> State_Monad.return (Inr ())
             | Some (mk, q, payload) \<Rightarrow> do {
                 _ \<leftarrow> acquire_pair_lock exec cfg mk q payload (Some (cl_trace_id c)) None;
                 State_Monad.return (Inr ()) }) })
      else do {
        _ \<leftarrow> release_pair_lock exec cfg market qid (owner_release (pair_lock_owner_id (cl_bot_id c) (cl_run_id c)))
          (Some (cl_trace_id c));
        State_Monad.return (Inr ()) })"

definition reconcile_pair_lock :: "'r server \<Rightarrow> redis_config \<Rightarrow> run_call \<Rightarrow> ('r, unit res) redis" where
  "reconcile_pair_lock exec cfg c =
     (if \<not> info_enabled cfg then State_Monad.return (Inr ())
      else do {
        found \<leftarrow> get_arbitrage_evaluation exec cfg (cl_run_id c);
        (case found of
           None \<Rightarrow> State_Monad.return (Inr ())
         | Some latest \<Rightarrow>
             (case pair_lock_identity_from_payload latest of
                None \<Rightarrow> State_Monad.return (Inr ())
              | Some identity \<Rightarrow>
                  (let market = text_of identity ''market''; qid = text_of identity ''quote_pair_id'' in
                   if market = [] \<or> qid = [] then State_Monad.return (Inr ())
                   else refresh_or_release exec cfg c latest market qid))) })"

definition acquire_pair_lock_for_decision ::
    "'r server \<Rightarrow> redis_config \<Rightarrow> run_call \<Rightarrow> arbitrage_decision \<Rightarrow> ('r, arbitrage_decision \<times> bool) redis" where
  \<comment> \<open>the decision to go on with, and whether the lock is held for it\<close>
  "acquire_pair_lock_for_decision exec cfg c d = do {
     nw \<leftarrow> draw_now cfg;
     (case pair_lock_payload nw (PDict (decision_context d)) (lock_for c ''decision_accepted'' None None) of
        None \<Rightarrow> State_Monad.return (d, False)
      | Some (market, qid, payload) \<Rightarrow>
          if \<not> info_enabled cfg then State_Monad.return (d, False)
          else do {
            (outcome, existing) \<leftarrow> acquire_pair_lock exec cfg market qid payload (Some (cl_trace_id c)) None;
            State_Monad.return
              (if outcome \<in> {''acquired'', ''refreshed''} then (attach_pair_lock_context d payload ''acquired'', True)
               else if outcome \<in> {''conflict'', ''failed''}
               then (build_pair_lock_blocked_decision d (Some (case existing of
                       Some held \<Rightarrow> held
                     | None \<Rightarrow> [(''market'', PStr market), (''quote_pair_id'', PStr qid), (''state'', PStr ''acquire_failed'')])),
                     False)
               else (d, False)) }) }"

definition refresh_pair_lock_after_persist ::
    "'r server \<Rightarrow> redis_config \<Rightarrow> run_call \<Rightarrow> arbitrage_decision \<Rightarrow> string \<Rightarrow> ('r, unit) redis" where
  "refresh_pair_lock_after_persist exec cfg c d iid = do {
     nw \<leftarrow> draw_now cfg;
     (case pair_lock_payload nw (PDict (decision_context d)) (lock_for c ''intent_created'' (Some iid) None) of
        None \<Rightarrow> State_Monad.return ()
      | Some (market, qid, payload) \<Rightarrow>
          run_if (info_enabled cfg) (acquire_pair_lock exec cfg market qid payload (Some (cl_trace_id c)) None)) }"

definition release_pair_lock_for_decision ::
    "'r server \<Rightarrow> redis_config \<Rightarrow> run_call \<Rightarrow> arbitrage_decision \<Rightarrow> ('r, unit) redis" where
  "release_pair_lock_for_decision exec cfg c d = do {
     nw \<leftarrow> draw_now cfg;
     (case pair_lock_payload nw (PDict (decision_context d)) (lock_for c ''closed'' None None) of
        None \<Rightarrow> State_Monad.return ()
      | Some (market, qid, payload) \<Rightarrow>
          run_if (info_enabled cfg) (release_pair_lock exec cfg market qid
            (owner_release (pair_lock_owner_id (cl_bot_id c) (cl_run_id c))) (Some (cl_trace_id c)))) }"

section \<open>What changed since the last evaluation\<close>

definition sub_value :: "obj \<Rightarrow> string \<Rightarrow> string \<Rightarrow> pyval" where
  \<comment> \<open>\<open>d[k].get(k') if isinstance(d.get(k), dict) else None\<close>\<close>
  "sub_value d k k' = (case pget d k of PDict e \<Rightarrow> pget e k' | _ \<Rightarrow> PNone)"

definition semantic_projection :: "obj \<Rightarrow> obj" where
  "semantic_projection p =
     [(''accepted'', pget p ''accepted''), (''reason_code'', pget p ''reason_code''),
      (''lifecycle_preview'', pget p ''lifecycle_preview''),
      (''persisted_intent_id'', sub_value p ''persisted_intent'' ''intent_id''),
      (''target_qty'', sub_value p ''candidate_size'' ''target_qty''),
      (''executable_profit_quote'', sub_value p ''executable_edge'' ''executable_profit_quote''),
      (''reservation_passed'', sub_value p ''reservation_plan'' ''reservation_passed''),
      (''submit_outcome'', sub_value p ''submit_result'' ''outcome'')]"

definition evaluation_changed :: "'r server \<Rightarrow> redis_config \<Rightarrow> string \<Rightarrow> obj \<Rightarrow> ('r, bool) redis" where
  "evaluation_changed exec cfg rid payload = do {
     previous \<leftarrow> get_arbitrage_evaluation exec cfg rid;
     State_Monad.return (case previous of
         None \<Rightarrow> True
       | Some p \<Rightarrow> \<not> py_eq (PDict (semantic_projection p)) (PDict (semantic_projection payload))) }"

section \<open>Evaluating a run\<close>

record runtime_env =
  en_sources :: runtime_sources
  en_adapter :: adapter
  en_fuel :: nat
  en_stop :: "nat \<Rightarrow> bool"

definition may_persist :: "strategy_config \<Rightarrow> arbitrage_decision \<Rightarrow> bool" where
  "may_persist sc d = (sc_persist_intent sc \<and> sc_supports_mutation sc \<and> accepted d)"

definition publish_decision ::
    "'r server \<Rightarrow> redis_config \<Rightarrow> strategy_config \<Rightarrow> run_call \<Rightarrow> arbitrage_decision \<Rightarrow> ('r, unit) redis" where
  "publish_decision exec cfg sc c d = do {
     let payload = build_arbitrage_evaluation_payload d (cl_bot_id c) (cl_run_id c) None None None;
     changed \<leftarrow> evaluation_changed exec cfg (cl_run_id c) payload;
     _ \<leftarrow> sync_arbitrage_evaluation exec cfg (cl_run_id c) payload (Some (cl_trace_id c)) changed;
     run_if changed (append_event exec cfg ''strategy_events'' ''strategy.arbitrage_evaluated''
       [(''run_id'', PStr (cl_run_id c)), (''bot_id'', PStr (cl_bot_id c)), (''accepted'', PBool (accepted d)),
        (''reason_code'', PStr (reason_code d)), (''lifecycle_preview'', pget payload ''lifecycle_preview''),
        (''persist_intent'', PBool (sc_persist_intent sc \<and> sc_supports_mutation sc)),
        (''source'', PStr ''runtime_loop'')] (Some (cl_trace_id c))) }"

definition publish_intent ::
    "'r server \<Rightarrow> redis_config \<Rightarrow> run_call \<Rightarrow> arbitrage_decision \<Rightarrow> order_intent \<Rightarrow> ('r, unit) redis" where
  "publish_intent exec cfg c d i = do {
     _ \<leftarrow> sync_arbitrage_evaluation exec cfg (cl_run_id c)
       (build_arbitrage_evaluation_payload d (cl_bot_id c) (cl_run_id c) (Some (intent_row i)) None None)
       (Some (cl_trace_id c)) True;
     _ \<leftarrow> publish_order_event exec cfg ''order_intent.created''
       [(''intent_id'', PStr (intent_id i)), (''bot_id'', PStr (int_bot_id i)), (''strategy_run_id'', PStr (int_run_id i)),
        (''market'', PStr (int_market i))] (Some (cl_trace_id c));
     _ \<leftarrow> append_event exec cfg ''strategy_events'' ''strategy.arbitrage_intent_persisted''
       [(''run_id'', PStr (cl_run_id c)), (''bot_id'', PStr (cl_bot_id c)), (''intent_id'', PStr (intent_id i)),
        (''market'', PStr (int_market i)), (''source'', PStr ''runtime_loop'')] (Some (cl_trace_id c));
     State_Monad.return () }"

definition record_submission :: "redis_config \<Rightarrow> execution_outcome \<Rightarrow> ('r, unit run) strategy" where
  "record_submission cfg out =
     (if xo_status out = ''submitted'' then do {
        ts \<leftarrow> on_redis (draw_now cfg);
        then_done (changing (\<lambda>s. s\<lparr>ss_submit_success := ss_submit_success s + 1, ss_last_success_at := Some ts\<rparr>)) }
      else then_done (changing (\<lambda>s. s\<lparr>ss_submit_failure := ss_submit_failure s + 1,
        ss_last_error_message := Some (or_given (xo_error_message out) ''arbitrage runtime submit failed'')\<rparr>)))"

definition submit_intent ::
    "'r server \<Rightarrow> redis_config \<Rightarrow> strategy_config \<Rightarrow> adapter \<Rightarrow> run_call \<Rightarrow> arbitrage_decision \<Rightarrow> order_intent \<Rightarrow>
      ('r, unit run) strategy" where
  "submit_intent exec cfg sc adapter c d i =
     (if \<not> sc_execution_enabled sc then finished
      else do {
        _ \<leftarrow> changing (\<lambda>s. s\<lparr>ss_submit_attempt := ss_submit_attempt s + 1\<rparr>);
        and_then (execute_persisted_arbitrage_intent exec cfg adapter \<lparr>xc_decision = d, xc_intent = i,
            xc_run_id = cl_run_id c, xc_bot_id = cl_bot_id c, xc_trace_id = cl_trace_id c,
            xc_auto_unwind = sc_auto_unwind sc\<rparr>)
          (record_submission cfg) })"

definition count_persisted :: "redis_config \<Rightarrow> ('r, unit) strategy" where
  "count_persisted cfg = do {
     ts \<leftarrow> on_redis (draw_now cfg);
     changing (\<lambda>s. s\<lparr>ss_persisted := ss_persisted s + 1, ss_last_success_at := Some ts, ss_last_error_message := None\<rparr>) }"

definition persist_decision ::
    "'r server \<Rightarrow> redis_config \<Rightarrow> strategy_config \<Rightarrow> adapter \<Rightarrow> run_call \<Rightarrow> arbitrage_decision \<Rightarrow> bool \<Rightarrow>
      ('r, unit run) strategy" where
  "persist_decision exec cfg sc adapter c d held = do {
     persisted \<leftarrow> on_store (persist_order_intent_plan (mem_ops (rc_uid cfg) (rc_now cfg)) d (cl_run_id c));
     (case persisted of
        (outcome, Some i) \<Rightarrow>
          if outcome = ''created'' then do {
            _ \<leftarrow> on_redis (run_if held (refresh_pair_lock_after_persist exec cfg c d (intent_id i)));
            _ \<leftarrow> on_redis (publish_intent exec cfg c d i);
            _ \<leftarrow> count_persisted cfg;
            submit_intent exec cfg sc adapter c d i }
          else then_done (on_redis (run_if held (release_pair_lock_for_decision exec cfg c d)))
      | (outcome, None) \<Rightarrow> then_done (on_redis (run_if held (release_pair_lock_for_decision exec cfg c d)))) }"

definition carry_out_decision ::
    "'r server \<Rightarrow> redis_config \<Rightarrow> strategy_config \<Rightarrow> adapter \<Rightarrow> run_call \<Rightarrow> arbitrage_decision \<Rightarrow> ('r, unit run) strategy" where
  "carry_out_decision exec cfg sc adapter c evaluated = do {
     (d, held) \<leftarrow> (if may_persist sc evaluated then on_redis (acquire_pair_lock_for_decision exec cfg c evaluated)
                    else State_Monad.return (evaluated, False));
     _ \<leftarrow> on_redis (publish_decision exec cfg sc c d);
     _ \<leftarrow> record_success cfg (accepted d);
     (if may_persist sc d then persist_decision exec cfg sc adapter c d held else finished) }"

definition entry_block :: "obj \<Rightarrow> (string \<times> string) option res" where
  \<comment> \<open>why the loaded runtime state forbids a new evaluation\<close>
  "entry_block payload = (case pget payload ''runtime_state'' of
      PDict rt \<Rightarrow>
        if truthy (pget rt ''unwind_in_progress'')
        then Inr (Some (''UNWIND_IN_PROGRESS'', ''existing recovery flow is active''))
        else andThen (py_int (por (pget_or rt ''open_order_count'' (PInt 0)) (PInt 0))) (\<lambda>n.
          Inr (if truthy (pget rt ''duplicate_intent_active'') \<or> 0 < n
               then Some (''ACTIVE_ENTRY_PRESENT'', ''existing intent or open orders block new evaluation'') else None))
    | _ \<Rightarrow> Inr None)"

definition evaluate_loaded ::
    "'r server \<Rightarrow> redis_config \<Rightarrow> strategy_config \<Rightarrow> adapter \<Rightarrow> run_call \<Rightarrow> load_result \<Rightarrow> ('r, unit run) strategy" where
  "evaluate_loaded exec cfg sc adapter c r = (case lr_payload r of
      None \<Rightarrow> skip_run cfg (or_given (lr_skip_reason r) ''SKIPPED'') (lr_detail r)
    | Some payload \<Rightarrow>
        (case entry_block payload of
           Inl e \<Rightarrow> State_Monad.return (Raised e)
         | Inr (Some (reason, detail)) \<Rightarrow> skip_run cfg reason (Some detail)
         | Inr None \<Rightarrow>
             (case evaluate_arbitrage_candidate_payload payload of
                Inl e \<Rightarrow> record_failure cfg e
              | Inr d \<Rightarrow> carry_out_decision exec cfg sc adapter c d)))"

definition blocking_skip :: "obj \<Rightarrow> string \<times> string" where
  "blocking_skip trace =
     ((if low_text trace ''status'' = ''handoff_required'' then ''MANUAL_HANDOFF_ACTIVE'' else ''RECOVERY_TRACE_ACTIVE''),
      ''recovery_trace_id='' @ raw_text trace ''recovery_trace_id'')"

definition load_and_evaluate ::
    "'r server \<Rightarrow> redis_config \<Rightarrow> strategy_config \<Rightarrow> runtime_env \<Rightarrow> run_call \<Rightarrow> strategy_run \<Rightarrow> ('r, unit run) strategy" where
  "load_and_evaluate exec cfg sc env c run = do {
     s \<leftarrow> reading pf_store;
     r \<leftarrow> on_redis (load_arbitrage_runtime_payload exec cfg (en_sources env) s run);
     (case r of
        Inl e \<Rightarrow> State_Monad.return (Raised e)
      | Inr l \<Rightarrow> evaluate_loaded exec cfg sc (en_adapter env) c l) }"

definition evaluate_unblocked ::
    "'r server \<Rightarrow> redis_config \<Rightarrow> strategy_config \<Rightarrow> runtime_env \<Rightarrow> run_call \<Rightarrow> strategy_run \<Rightarrow> ('r, unit run) strategy" where
  "evaluate_unblocked exec cfg sc env c run =
     (if \<not> info_enabled cfg then load_and_evaluate exec cfg sc env c run
      else do {
        blocking \<leftarrow> on_redis (get_blocking_recovery_trace exec cfg (en_fuel env) (Some (cl_bot_id c)) None);
        (case blocking of
           More \<Rightarrow> State_Monad.return Out_of_fuel
         | Fetch_failed \<Rightarrow> skip_run cfg ''RECOVERY_TRACE_READ_FAILED'' (Some ''failed to read blocking recovery trace'')
         | Fetched (Some trace) \<Rightarrow>
             if trace = [] then load_and_evaluate exec cfg sc env c run
             else skip_run cfg (fst (blocking_skip trace)) (Some (snd (blocking_skip trace)))
         | Fetched None \<Rightarrow> load_and_evaluate exec cfg sc env c run) })"

definition evaluate_run ::
    "'r server \<Rightarrow> redis_config \<Rightarrow> strategy_config \<Rightarrow> runtime_env \<Rightarrow> strategy_run \<Rightarrow> ('r, unit run) strategy" where
  "evaluate_run exec cfg sc env run = do {
     uid \<leftarrow> on_redis (draw_uid cfg);
     let c = \<lparr>cl_run_id = run_id run, cl_bot_id = run_bot_id run, cl_trace_id = ''strategy-runtime-'' @ uid\<rparr>;
     r \<leftarrow> on_redis (reconcile_pair_lock exec cfg c);
     (case r of
        Inl e \<Rightarrow> State_Monad.return (Raised e)
      | Inr _ \<Rightarrow> evaluate_unblocked exec cfg sc env c run) }"

definition arbitrage_runs :: "store \<Rightarrow> strategy_run list" where
  "arbitrage_runs s = filter (\<lambda>r. run_strategy_name r = ''arbitrage'') (list_strategy_runs s None (Some ''running'') None)"

definition strategy_tick ::
    "'r server \<Rightarrow> redis_config \<Rightarrow> strategy_config \<Rightarrow> runtime_env \<Rightarrow> ('r, unit run) strategy" where
  "strategy_tick exec cfg sc env = do {
     s \<leftarrow> reading pf_store;
     for_each (en_stop env) (\<lambda>_. evaluate_run exec cfg sc env) 0 (arbitrage_runs s) }"

end
