(* ===== verification/StrategyLocks.thy ===== *)
theory StrategyLocks
  imports StrategyRuntime RedisTraces
begin

text \<open>
  A lock that another run holds stops an evaluation: on a server with the contract of
  \<open>RedisLock.redis_server\<close> that also answers scans without changing what is stored, no step of
  \<open>evaluate_run\<close> touches the lock of another owner, and no intent for its pair is stored.
\<close>

section \<open>Whose lock\<close>

definition owner_fields :: "string \<Rightarrow> string \<Rightarrow> obj" where
  "owner_fields bid rid = [(''owner_id'', PStr (pair_lock_owner_id bid rid)), (''bot_id'', PStr bid),
     (''strategy_run_id'', PStr rid)]"

definition own_or_free :: "('r \<Rightarrow> string \<Rightarrow> string option) \<Rightarrow> string \<Rightarrow> string \<Rightarrow> string \<Rightarrow> 'r \<Rightarrow> bool" where
  \<comment> \<open>nothing is stored at the key, or a lock of the run\<close>
  "own_or_free view bid rid k r = (case view r k of None \<Rightarrow> True
     | Some t \<Rightarrow> (case json_object (stored_reply (Some t)) of None \<Rightarrow> False
         | Some h \<Rightarrow> same_lock_owner (owner_fields bid rid) h))"

lemma own_or_free_view: "view r' k = view r k \<Longrightarrow> own_or_free view bid rid k r' = own_or_free view bid rid k r"
  by (simp add: own_or_free_def)

lemma lock_payload_owner:
  "pl_bot_id a = bid \<Longrightarrow> pl_strategy_run_id a = rid \<Longrightarrow> pl_owner_id a = pair_lock_owner_id bid rid
    \<Longrightarrow> same_lock_owner (build_pair_lock_payload a) h = same_lock_owner (owner_fields bid rid) h"
  by (simp add: same_lock_owner_def build_pair_lock_payload_def owner_fields_def text_of_Cons)

lemma pair_lock_payload_owner:
  "pair_lock_payload nw ctx q = Some (market, qid, payload) \<Longrightarrow> lk_bot_id q = bid \<Longrightarrow> lk_run_id q = rid
    \<Longrightarrow> same_lock_owner payload h = same_lock_owner (owner_fields bid rid) h"
  by (auto simp: pair_lock_payload_def Let_def lock_payload_owner split: option.splits if_splits)

lemma lock_payload_raw_owner:
  "pair_lock_payload nw ctx q = Some (market, qid, payload)
    \<Longrightarrow> raw_text payload ''owner_id'' = pair_lock_owner_id (lk_bot_id q) (lk_run_id q)"
  by (auto simp: pair_lock_payload_def Let_def build_pair_lock_payload_def raw_text_def pget_Cons por_def
      split: option.splits if_splits)

lemma owner_nonempty: "pair_lock_owner_id bid rid \<noteq> []"
  by (simp add: pair_lock_owner_id_def)

lemma text_of_strip: "text_of d k = raw \<Longrightarrow> strip raw = raw"
  by (auto simp: text_of_def strip_idem)

lemma owner_release_own:
  assumes "release_matches (owner_release (pair_lock_owner_id bid rid)) h"
  shows "same_lock_owner (owner_fields bid rid) h"
proof -
  from assms have "text_of h ''owner_id'' = pair_lock_owner_id bid rid"
    by (simp add: release_matches_def owner_release_def given_text_def)
  with text_of_strip [OF this] owner_nonempty [of bid rid] show ?thesis
    by (simp add: same_lock_owner_def owner_fields_def text_of_Cons por_def)
qed

section \<open>Careful computations\<close>

definition careful :: "('r \<Rightarrow> string \<Rightarrow> string option) \<Rightarrow> string \<Rightarrow> string \<Rightarrow> string \<Rightarrow> ('r, 'a) redis \<Rightarrow> bool" where
  \<comment> \<open>what is stored at the key stays unless the key is free or holds a lock of the run\<close>
  "careful view bid rid k m = (\<forall>s :: 'r redis_state. \<not> own_or_free view bid rid k (rs_server s) \<longrightarrow>
     view (rs_server (snd (run_state m s))) k = view (rs_server s) k)"

lemma careful_keeps: "keeps view k m \<Longrightarrow> careful view bid rid k m"
  by (simp add: careful_def keeps_def)

lemma careful_bind:
  assumes "careful view bid rid k m" and "\<And>x. careful view bid rid k (f x)"
  shows "careful view bid rid k (State_Monad.bind m f)"
  unfolding careful_def
proof (intro allI impI)
  fix s :: "'a redis_state"
  assume foreign: "\<not> own_or_free view bid rid k (rs_server s)"
  obtain x t where m: "run_state m s = (x, t)" by (metis prod.collapse)
  from assms(1) foreign m have t: "view (rs_server t) k = view (rs_server s) k" by (metis careful_def snd_conv)
  with foreign have "\<not> own_or_free view bid rid k (rs_server t)" by (simp add: own_or_free_def)
  with assms(2) have "view (rs_server (snd (run_state (f x) t))) k = view (rs_server t) k" by (simp add: careful_def)
  with m t show "view (rs_server (snd (run_state (State_Monad.bind m f) s))) k = view (rs_server s) k" by simp
qed

lemma careful_return: "careful view bid rid k (State_Monad.return x)"
  by (simp add: careful_def)

lemma careful_run_if: "careful view bid rid k m \<Longrightarrow> careful view bid rid k (run_if b m)"
  by (auto simp: run_if_def intro: careful_bind careful_return)

lemma careful_draw_now: "careful view bid rid k (draw_now cfg)"
  by (rule careful_keeps [OF keeps_draw_now])

lemma careful_draw_uid: "careful view bid rid k (draw_uid cfg)"
  by (simp add: careful_def draw_uid_def)

lemma careful_draw_clock: "careful view bid rid k (draw_clock cfg n)"
  by (simp add: careful_def draw_clock_def)

lemma lock_key_others:
  "lock_key cfg market qid \<noteq> redis_key cfg [''stream'', st]"
  "lock_key cfg market qid \<noteq> redis_key cfg [''strategy_run'', rid, x]"
  "lock_key cfg market qid \<noteq> redis_key cfg [''recovery_trace'', tid]"
  by (simp_all add: lock_key_def redis_key_def)

locale scanning_server = redis_server +
  assumes scan: "\<exists>r' v. exec [''SCAN'', cursor, ''MATCH'', pattern, ''COUNT'', n] r = (r', v) \<and> view r' = view r"

context redis_server
begin

lemma keeps_client_execute:
  assumes "\<And>r. \<exists>r' v. exec cmd r = (r', v) \<and> view r' k = view r k"
  shows "keeps view k (client_execute exec cmd)"
  unfolding keeps_def
proof
  fix s :: "'r redis_state"
  obtain r' v where "exec cmd (rs_server s) = (r', v)" "view r' k = view (rs_server s) k" using assms by blast
  then show "view (rs_server (snd (run_state (client_execute exec cmd) s))) k = view (rs_server s) k"
    by (simp add: client_execute_def split: sum.split)
qed

lemma keeps_set_nx: "k \<noteq> k' \<Longrightarrow> keeps view k (client_execute exec [''SET'', k', t, ''NX'', ''EX'', e])"
  using set_nx [of k' t e] by (intro keeps_client_execute) (metis fun_upd_other)

lemma keeps_del: "k \<noteq> k' \<Longrightarrow> keeps view k (client_execute exec [''DEL'', k'])"
  using del [of k'] by (intro keeps_client_execute) (metis fun_upd_other)

lemma keeps_acquire:
  "k \<noteq> lock_key cfg market qid \<Longrightarrow> k \<noteq> redis_key cfg [''stream'', ''strategy_events'']
    \<Longrightarrow> keeps view k (acquire_pair_lock exec cfg market qid payload trace ttl)"
  unfolding lock_key_def
  by (auto simp: acquire_pair_lock_def get_pair_lock_def Let_def intro!: keeps_intros keeps_set_nx split: option.split sum.split)

lemma keeps_release:
  "k \<noteq> lock_key cfg market qid \<Longrightarrow> k \<noteq> redis_key cfg [''stream'', ''strategy_events'']
    \<Longrightarrow> keeps view k (release_pair_lock exec cfg market qid a trace)"
  unfolding lock_key_def
  by (auto simp: release_pair_lock_def get_pair_lock_def intro!: keeps_intros keeps_del split: option.split sum.split)

lemma acquire_foreign:
  assumes "rc_client cfg" and foreign: "\<not> own_or_free view bid rid (lock_key cfg market qid) (rs_server s)"
    and owner: "\<And>h. same_lock_owner payload h = same_lock_owner (owner_fields bid rid) h"
  shows "\<exists>held s'. run_state (acquire_pair_lock exec cfg market qid payload trace ttl) s = ((''conflict'', held), s')
    \<and> view (rs_server s') (lock_key cfg market qid) = view (rs_server s) (lock_key cfg market qid)"
proof -
  from foreign obtain t where t: "view (rs_server s) (lock_key cfg market qid) = Some t"
    by (auto simp: own_or_free_def split: option.splits)
  show ?thesis
  proof (cases "json_object (stored_reply (Some t))")
    case None
    from acquire_unreadable [OF assms(1) t this, of payload trace ttl] t show ?thesis by auto
  next
    case (Some h)
    with foreign t owner have "\<not> same_lock_owner payload h" by (simp add: own_or_free_def)
    with acquire_other_held [OF assms(1), of s market qid h payload trace ttl] Some t show ?thesis by auto
  qed
qed

lemma release_unreadable:
  assumes "rc_client cfg" and was: "view (rs_server s) (lock_key cfg market qid) = Some t"
    and bad: "json_object (stored_reply (Some t)) = None"
  shows "view (rs_server (snd (run_state (release_pair_lock exec cfg market qid a trace) s))) (lock_key cfg market qid) = Some t"
proof -
  obtain s1 where g: "run_state (get_json exec cfg [''pair_lock'', market, qid]) s = (None, s1)"
    "view (rs_server s1) = view (rs_server s)"
    using run_get [OF assms(1), of "[''pair_lock'', market, qid]" s] was bad by (auto simp: lock_key_def)
  with assms(1) was show ?thesis by (simp add: release_pair_lock_def get_pair_lock_def)
qed

lemma release_foreign:
  assumes "rc_client cfg" and foreign: "\<not> own_or_free view bid rid (lock_key cfg market qid) (rs_server s)"
  shows "view (rs_server (snd (run_state (release_pair_lock exec cfg market qid
      (owner_release (pair_lock_owner_id bid rid)) trace) s))) (lock_key cfg market qid)
    = view (rs_server s) (lock_key cfg market qid)"
proof -
  from foreign obtain t where t: "view (rs_server s) (lock_key cfg market qid) = Some t"
    by (auto simp: own_or_free_def split: option.splits)
  show ?thesis
  proof (cases "json_object (stored_reply (Some t))")
    case None
    with release_unreadable [OF assms(1) t] t show ?thesis by simp
  next
    case (Some h)
    with foreign t have "\<not> same_lock_owner (owner_fields bid rid) h" by (simp add: own_or_free_def)
    with owner_release_own have "\<not> release_matches (owner_release (pair_lock_owner_id bid rid)) h" by blast
    moreover have "release_identified (owner_release (pair_lock_owner_id bid rid))"
      by (simp add: release_identified_def owner_release_def)
    ultimately show ?thesis using release_other_held [OF assms(1)] Some t by (metis snd_conv)
  qed
qed

lemma careful_acquire:
  assumes "rc_client cfg" and "k \<noteq> redis_key cfg [''stream'', ''strategy_events'']"
    and "\<And>h. same_lock_owner payload h = same_lock_owner (owner_fields bid rid) h"
  shows "careful view bid rid k (acquire_pair_lock exec cfg market qid payload trace ttl)"
proof (cases "k = lock_key cfg market qid")
  case True
  with acquire_foreign [OF assms(1) _ assms(3)] show ?thesis unfolding careful_def by (metis snd_conv)
next
  case False
  with assms(2) show ?thesis by (intro careful_keeps keeps_acquire)
qed

lemma careful_release:
  assumes "rc_client cfg" and "k \<noteq> redis_key cfg [''stream'', ''strategy_events'']"
  shows "careful view bid rid k (release_pair_lock exec cfg market qid (owner_release (pair_lock_owner_id bid rid)) trace)"
proof (cases "k = lock_key cfg market qid")
  case True
  with release_foreign [OF assms(1)] show ?thesis by (simp add: careful_def)
next
  case False
  with assms(2) show ?thesis by (intro careful_keeps keeps_release)
qed

section \<open>Steps that only read, and steps that write other keys\<close>

lemmas careful_intros = careful_bind careful_return careful_run_if careful_draw_now

lemma careful_get_json: "careful view bid rid k (get_json exec cfg parts)"
  by (rule careful_keeps [OF keeps_get_json])

lemma careful_event: "careful view bid rid (lock_key cfg market qid) (append_event exec cfg stream ev payload trace)"
  by (rule careful_keeps [OF keeps_append_event [OF lock_key_others(1)]])

lemma careful_sync_evaluation:
  "careful view bid rid (lock_key cfg market qid) (sync_arbitrage_evaluation exec cfg rid' payload trace publish)"
  by (rule careful_keeps [OF keeps_sync_arbitrage_evaluation]) (rule lock_key_others)+

lemma careful_sync_recovery_state:
  "careful view bid rid (lock_key cfg market qid) (sync_arbitrage_evaluation_recovery_state exec cfg rid' tr trace)"
  by (rule careful_keeps [OF keeps_sync_evaluation_recovery]) (rule lock_key_others)+

lemma careful_sync_recovery_trace:
  "careful view bid rid (lock_key cfg market qid) (sync_recovery_trace exec cfg tid payload trace)"
  by (rule careful_keeps) (auto simp: sync_recovery_trace_def Let_def lock_key_others intro!: keeps_intros)

lemma careful_publish_all:
  "careful view bid rid (lock_key cfg market qid) (publish_all exec cfg ev trace es)"
  by (induction es) (auto simp: publish_order_event_def intro!: careful_intros careful_event)

lemmas careful_steps = careful_intros careful_draw_uid careful_draw_clock careful_get_json careful_event careful_sync_evaluation
  careful_sync_recovery_state careful_sync_recovery_trace careful_publish_all

lemma careful_cached_snapshots: "careful view bid rid k (cached_snapshots exec cfg cached market exs found missing)"
  by (induction exs arbitrary: found missing)
     (auto simp: cached_orderbook_snapshot_def get_market_orderbook_top_def intro!: careful_intros careful_get_json split: option.split)

lemma careful_load: "careful view bid rid k (load_arbitrage_runtime_payload exec cfg src st run)"
  by (auto simp: load_arbitrage_runtime_payload_def intro!: careful_intros careful_cached_snapshots careful_draw_clock split: sum.split)

lemma careful_publish_decision: "careful view bid rid (lock_key cfg market qid) (publish_decision exec cfg sc c d)"
  by (auto simp: publish_decision_def evaluation_changed_def get_arbitrage_evaluation_def Let_def intro!: careful_steps)

lemma careful_publish_intent: "careful view bid rid (lock_key cfg market qid) (publish_intent exec cfg c d i)"
  by (auto simp: publish_intent_def publish_order_event_def intro!: careful_steps)

lemma careful_report_submitted: "careful view bid rid (lock_key cfg market qid) (report_submitted exec cfg c r payload)"
  by (auto simp: report_submitted_def intro!: careful_steps)

lemma careful_publish_submission: "careful view bid rid (lock_key cfg market qid) (publish_submission exec cfg c r)"
  by (auto simp: publish_submission_def intro!: careful_steps)

section \<open>Steps on the lock of the run\<close>

lemma careful_lock_request:
  assumes "rc_client cfg" and "pair_lock_payload nw ctx q = Some (mk, qd, payload)" "lk_bot_id q = bid" "lk_run_id q = rid"
  shows "careful view bid rid (lock_key cfg market qid) (acquire_pair_lock exec cfg mk qd payload trace ttl)"
  by (rule careful_acquire [OF assms(1) lock_key_others(1)]) (rule pair_lock_payload_owner [OF assms(2-4)])

lemmas careful_release_own = careful_release [OF _ lock_key_others(1)]

lemma careful_refresh_or_release:
  "rc_client cfg \<Longrightarrow> careful view (cl_bot_id c) (cl_run_id c) (lock_key cfg market qid) (refresh_or_release exec cfg c latest mk qd)"
  by (auto simp: refresh_or_release_def lock_for_def intro!: careful_intros careful_release_own elim!: careful_lock_request
      split: sum.split option.split)

lemma careful_reconcile:
  "rc_client cfg \<Longrightarrow> careful view (cl_bot_id c) (cl_run_id c) (lock_key cfg market qid) (reconcile_pair_lock exec cfg c)"
  by (auto simp: reconcile_pair_lock_def get_arbitrage_evaluation_def Let_def
      intro!: careful_intros careful_get_json careful_refresh_or_release split: option.split)

lemma careful_acquire_for_decision:
  "rc_client cfg \<Longrightarrow> careful view (cl_bot_id c) (cl_run_id c) (lock_key cfg market qid) (acquire_pair_lock_for_decision exec cfg c d)"
  by (auto simp: acquire_pair_lock_for_decision_def lock_for_def intro!: careful_intros elim!: careful_lock_request
      split: option.split)

lemma careful_refresh_after_persist:
  "rc_client cfg \<Longrightarrow> careful view (cl_bot_id c) (cl_run_id c) (lock_key cfg market qid)
     (refresh_pair_lock_after_persist exec cfg c d iid)"
  by (auto simp: refresh_pair_lock_after_persist_def lock_for_def intro!: careful_intros elim!: careful_lock_request
      split: option.split)

lemma careful_release_for_decision:
  "rc_client cfg \<Longrightarrow> careful view (cl_bot_id c) (cl_run_id c) (lock_key cfg market qid) (release_pair_lock_for_decision exec cfg c d)"
  by (auto simp: release_pair_lock_for_decision_def intro!: careful_intros careful_release_own split: option.split)

lemma careful_sync_pair_lock:
  "rc_client cfg \<Longrightarrow> lk_bot_id q = bid \<Longrightarrow> lk_run_id q = rid
    \<Longrightarrow> careful view bid rid (lock_key cfg market qid) (sync_pair_lock exec cfg ctx trace q)"
  by (auto simp: sync_pair_lock_def lock_payload_raw_owner intro!: careful_intros careful_release_own elim!: careful_lock_request
      split: option.split)

end

context scanning_server
begin

lemma keeps_execute_scan: "keeps view k (execute exec cfg [''SCAN'', cursor, ''MATCH'', pattern, ''COUNT'', n])"
proof -
  have "keeps view k (client_execute exec [''SCAN'', cursor, ''MATCH'', pattern, ''COUNT'', n])"
    by (rule keeps_client_execute) (use scan in metis)
  then show ?thesis by (auto simp: execute_def intro!: keeps_intros)
qed

lemma keeps_scan_loop: "keeps view k (scan_loop exec cfg pattern fuel cursor keys)"
  by (induction fuel arbitrary: cursor keys)
     (auto simp: Let_def intro!: keeps_intros keeps_execute_scan split: reply.split list.split)

lemma keeps_scan_keys: "keeps view k (scan_keys exec cfg fuel pattern)"
  by (auto simp: scan_keys_def intro!: keeps_intros keeps_scan_loop)

lemma keeps_get_json_by_full_key: "keeps view k (get_json_by_full_key exec cfg key)"
  unfolding get_json_by_full_key_def by (rule keeps_bind [OF keeps_execute_get keeps_return])

lemma keeps_load_rows: "keeps view k (load_rows exec cfg prefix wanted ks)"
  by (induction ks) (auto intro!: keeps_intros keeps_get_json_by_full_key)

lemma keeps_list_recovery_traces: "keeps view k (list_recovery_traces exec cfg fuel limit q)"
  by (auto simp: list_recovery_traces_def intro!: keeps_intros keeps_scan_keys keeps_load_rows split: fetched.split)

lemma careful_blocking_trace: "careful view bid rid k (get_blocking_recovery_trace exec cfg fuel b q)"
  by (rule careful_keeps) (auto simp: get_blocking_recovery_trace_def intro!: keeps_intros keeps_list_recovery_traces split: fetched.split)

end

section \<open>Intents of a pair\<close>

definition context_lock :: "redis_config \<Rightarrow> obj \<Rightarrow> string option" where
  \<comment> \<open>the key of the lock of the pair a decision context names\<close>
  "context_lock cfg c = (case pair_lock_identity_from_context (PDict c) None of
      None \<Rightarrow> None
    | Some identity \<Rightarrow>
        (if text_of identity ''market'' = [] \<or> text_of identity ''quote_pair_id'' = [] then None
         else Some (lock_key cfg (text_of identity ''market'') (text_of identity ''quote_pair_id''))))"

definition pair_intents :: "redis_config \<Rightarrow> string \<Rightarrow> store \<Rightarrow> string set" where
  "pair_intents cfg k st = {iid. \<exists>i. map_of (order_intents st) iid = Some i \<and> context_lock cfg (int_decision_context i) = Some k}"

definition well_planned :: "arbitrage_decision \<Rightarrow> bool" where
  "well_planned d = (\<forall>plan. dec_order_intent_plan d = Some plan \<longrightarrow> oip_decision_context plan = decision_context d)"

lemma pair_lock_payload_key:
  "pair_lock_payload nw (PDict c) q = (case context_lock cfg c of None \<Rightarrow> None | Some k \<Rightarrow> pair_lock_payload nw (PDict c) q)"
  "pair_lock_payload nw (PDict c) q = Some (market, qid, payload) \<Longrightarrow> context_lock cfg c = Some (lock_key cfg market qid)"
  by (auto simp: pair_lock_payload_def context_lock_def Let_def split: option.splits if_splits)

lemma context_lock_attached: "context_lock cfg (dset c ''pair_lock'' v) = context_lock cfg c"
  by (simp add: context_lock_def pair_lock_identity_from_context_def text_of_def raw_text_def)

lemma well_planned_attached: "well_planned (attach_pair_lock_context d lock st)"
  by (auto simp: well_planned_def plan_with_context_def)

lemma well_planned_blocked: "well_planned (build_pair_lock_blocked_decision d held)"
  by (simp add: well_planned_def build_pair_lock_blocked_decision_def)

lemma well_planned_selected: "evaluate_arbitrage_candidate_set ci = Inr d \<Longrightarrow> well_planned d"
  by (auto simp: evaluate_arbitrage_candidate_set_def select_candidate_def with_selection_context_def well_planned_def
      plan_with_context_def Let_def res_simps split: if_splits)

lemma well_planned_evaluated: "evaluate_arbitrage_candidate_payload payload = Inr d \<Longrightarrow> well_planned d"
  by (auto simp: evaluate_arbitrage_candidate_payload_def res_simps dest: well_planned_selected)

lemma created_intents:
  "pair_intents cfg k (fst (create_order_intent uid ts a st)) \<subseteq>
     (if context_lock cfg (case ia_decision_context a of None \<Rightarrow> [] | Some c \<Rightarrow> c) = Some k then insert uid (pair_intents cfg k st)
      else pair_intents cfg k st)"
  by (auto simp: create_order_intent_def pair_intents_def new_intent_def Let_def split: option.splits if_splits)

lemma persisted_intents:
  assumes "well_planned d" and "context_lock cfg (decision_context d) \<noteq> Some k"
  shows "pair_intents cfg k (mem_store (fst (persist_order_intent_plan (mem_ops uid ts) d rid m))) \<subseteq> pair_intents cfg k (mem_store m)"
proof (cases "accepted d \<and> dec_order_intent_plan d \<noteq> None")
  case True
  then obtain plan where plan: "dec_order_intent_plan d = Some plan" by blast
  with assms have "oip_decision_context plan = decision_context d" by (simp add: well_planned_def)
  with plan True assms(2) created_intents [of cfg k "uid (drawn m)" "ts (drawn m)" "plan_intent_args rid plan" "mem_store m"]
  show ?thesis by (auto simp: persist_order_intent_plan_def mem_ops_def plan_intent_args_def split: prod.splits)
qed (auto simp: persist_order_intent_plan_def)

section \<open>Safe computations\<close>

definition safe :: "('r \<Rightarrow> string \<Rightarrow> string option) \<Rightarrow> redis_config \<Rightarrow> string \<Rightarrow> string \<Rightarrow> string \<Rightarrow> ('r, 'x, 'a) task \<Rightarrow> bool" where
  \<comment> \<open>while the key holds the lock of another run, the lock stays and its pair gets no intent\<close>
  "safe view cfg bid rid k m = (\<forall>s :: ('r, 'x) platform_scheme. \<not> own_or_free view bid rid k (rs_server (pf_redis s)) \<longrightarrow>
     view (rs_server (pf_redis (snd (run_state m s)))) k = view (rs_server (pf_redis s)) k
     \<and> pair_intents cfg k (pf_store (snd (run_state m s))) \<subseteq> pair_intents cfg k (pf_store s))"

lemma safe_bind_value:
  assumes "safe view cfg bid rid k m"
    and "\<And>s. \<not> own_or_free view bid rid k (rs_server (pf_redis s)) \<Longrightarrow> safe view cfg bid rid k (f (fst (run_state m s)))"
  shows "safe view cfg bid rid k (State_Monad.bind m f)"
  unfolding safe_def
proof (intro allI impI)
  fix s :: "('a, 'b) platform_scheme"
  assume foreign: "\<not> own_or_free view bid rid k (rs_server (pf_redis s))"
  obtain x t where m: "run_state m s = (x, t)" by (metis prod.collapse)
  from assms(1) foreign m have t: "view (rs_server (pf_redis t)) k = view (rs_server (pf_redis s)) k"
    "pair_intents cfg k (pf_store t) \<subseteq> pair_intents cfg k (pf_store s)" by (metis safe_def snd_conv)+
  with foreign have "\<not> own_or_free view bid rid k (rs_server (pf_redis t))" by (simp add: own_or_free_def)
  moreover from assms(2) [OF foreign] m have "safe view cfg bid rid k (f x)" by simp
  ultimately have "view (rs_server (pf_redis (snd (run_state (f x) t)))) k = view (rs_server (pf_redis t)) k"
    "pair_intents cfg k (pf_store (snd (run_state (f x) t))) \<subseteq> pair_intents cfg k (pf_store t)" by (simp_all add: safe_def)
  with m t show "view (rs_server (pf_redis (snd (run_state (State_Monad.bind m f) s)))) k = view (rs_server (pf_redis s)) k
    \<and> pair_intents cfg k (pf_store (snd (run_state (State_Monad.bind m f) s))) \<subseteq> pair_intents cfg k (pf_store s)"
    by auto
qed

lemma safe_bind:
  "safe view cfg bid rid k m \<Longrightarrow> (\<And>x. safe view cfg bid rid k (f x)) \<Longrightarrow> safe view cfg bid rid k (State_Monad.bind m f)"
  by (rule safe_bind_value)

lemma safe_return: "safe view cfg bid rid k (State_Monad.return x)"
  by (simp add: safe_def)

lemma safe_finished: "safe view cfg bid rid k finished"
  by (simp add: safe_def run_task)

lemma safe_reading: "safe view cfg bid rid k (reading f)"
  by (simp add: safe_def run_task)

lemma safe_and_then: "safe view cfg bid rid k m \<Longrightarrow> (\<And>x. safe view cfg bid rid k (f x)) \<Longrightarrow> safe view cfg bid rid k (and_then m f)"
  unfolding and_then_def by (rule safe_bind) (simp_all add: safe_return split: run.split)

lemma safe_on_redis: "careful view bid rid k m \<Longrightarrow> safe view cfg bid rid k (on_redis m)"
  by (auto simp: safe_def careful_def run_task split: prod.split)

lemma safe_changing: "(\<And>s. pf_redis (f s) = pf_redis s) \<Longrightarrow> (\<And>s. pf_store (f s) = pf_store s) \<Longrightarrow> safe view cfg bid rid k (changing f)"
  by (simp add: safe_def run_task)

lemma safe_then_done: "safe view cfg bid rid k m \<Longrightarrow> safe view cfg bid rid k (then_done m)"
  by (simp add: safe_def run_task)

lemma safe_on_store:
  "(\<And>m. pair_intents cfg k (mem_store (fst (f m))) \<subseteq> pair_intents cfg k (mem_store m)) \<Longrightarrow> safe view cfg bid rid k (on_store f)"
  unfolding safe_def on_store_def by (simp split: prod.split) (metis fst_conv mem.sel(2))

lemma safe_raise_alert: "safe view cfg bid rid k (raise_alert cfg' b level code message)"
  unfolding raise_alert_def
  by (intro safe_bind safe_on_redis careful_draw_uid careful_draw_now)
     (auto simp: safe_def emit_alert_def pair_intents_def Let_def split: prod.split)

lemmas safe_intros = safe_bind safe_return safe_finished safe_reading safe_and_then safe_then_done safe_raise_alert


definition adapter_safe :: "redis_config \<Rightarrow> string \<Rightarrow> adapter \<Rightarrow> bool" where
  \<comment> \<open>submitting an intent stores no other\<close>
  "adapter_safe cfg k adapter = (\<forall>d i b m. pair_intents cfg k (mem_store (fst (adapter d i b m))) \<subseteq> pair_intents cfg k (mem_store m))"

context redis_server
begin

lemma safe_execute:
  assumes "rc_client cfg" and "adapter_safe cfg (lock_key cfg market qid) adapter"
    and "xc_bot_id c = bid" "xc_run_id c = rid"
  shows "safe view cfg bid rid (lock_key cfg market qid) (execute_persisted_arbitrage_intent exec cfg adapter c)"
proof -
  have lock: "careful view bid rid (lock_key cfg market qid) (sync_pair_lock exec cfg ctx trace (lock_of_call c lifecycle tid))"
    for ctx trace lifecycle tid
    by (rule careful_sync_pair_lock [OF assms(1)]) (simp_all add: lock_of_call_def assms(3,4))
  have link: "careful view bid rid (lock_key cfg market qid) (link_failed_trace exec cfg c tid payload)" for tid payload
    by (auto simp: link_failed_trace_def get_recovery_trace_def intro!: careful_steps split: option.split)
  have failed: "careful view bid rid (lock_key cfg market qid) (open_failed_trace exec cfg c r payload al tid ts)" for r payload al tid ts
    by (auto simp: open_failed_trace_def publish_alert_event_def intro!: careful_steps lock link)
  have evaluation: "careful view bid rid (lock_key cfg market qid) (publish_evaluation exec cfg c payload)" for payload
    by (auto simp: publish_evaluation_def intro!: careful_steps lock)
  show ?thesis
    by (auto simp: execute_persisted_arbitrage_intent_def report_submission_def submission_failed_def
        intro!: safe_intros safe_on_redis careful_draw_uid careful_draw_now failed evaluation careful_report_submitted
          careful_publish_submission safe_on_store assms(2) [unfolded adapter_safe_def, rule_format] split: sum.split)
qed

lemma safe_submit_intent:
  assumes "rc_client cfg" and "adapter_safe cfg (lock_key cfg market qid) adapter"
  shows "safe view cfg (cl_bot_id c) (cl_run_id c) (lock_key cfg market qid) (submit_intent exec cfg sc adapter c d i)"
proof -
  have "safe view cfg (cl_bot_id c) (cl_run_id c) (lock_key cfg market qid) (record_submission cfg out)" for out
    by (auto simp: record_submission_def intro!: safe_intros safe_on_redis careful_draw_now safe_changing)
  then show ?thesis
    by (auto simp: submit_intent_def intro!: safe_intros safe_changing safe_execute assms)
qed

lemma safe_persist_decision:
  assumes "rc_client cfg" and "adapter_safe cfg (lock_key cfg market qid) adapter"
    and "well_planned d" "context_lock cfg (decision_context d) \<noteq> Some (lock_key cfg market qid)"
  shows "safe view cfg (cl_bot_id c) (cl_run_id c) (lock_key cfg market qid) (persist_decision exec cfg sc adapter c d held)"
proof -
  have counted: "safe view cfg (cl_bot_id c) (cl_run_id c) (lock_key cfg market qid) (count_persisted cfg)"
    by (auto simp: count_persisted_def intro!: safe_intros safe_on_redis careful_draw_now safe_changing)
  show ?thesis
    by (auto simp: persist_decision_def intro!: safe_intros safe_on_redis safe_on_store persisted_intents [OF assms(3,4)] counted
        safe_submit_intent [OF assms(1,2)] careful_run_if careful_refresh_after_persist careful_release_for_decision assms(1)
        careful_publish_intent split: option.split prod.split)
qed

lemma acquire_decision_foreign:
  assumes "rc_client cfg" and "info_enabled cfg" and "context_lock cfg (decision_context d) = Some k"
    and "\<not> own_or_free view (cl_bot_id c) (cl_run_id c) k (rs_server s)"
  shows "\<not> accepted (fst (fst (run_state (acquire_pair_lock_for_decision exec cfg c d) s)))"
proof -
  let ?s = "s\<lparr>rs_drawn := Suc (rs_drawn s)\<rparr>"
  obtain market qid payload where q: "pair_lock_payload (rc_now cfg (rs_drawn s)) (PDict (decision_context d))
      (lock_for c ''decision_accepted'' None None) = Some (market, qid, payload)"
    using assms(3) by (auto simp: context_lock_def pair_lock_payload_def Let_def split: option.splits if_splits)
  with assms(3) pair_lock_payload_key(2) have k: "k = lock_key cfg market qid" by fastforce
  from assms(4) k have foreign: "\<not> own_or_free view (cl_bot_id c) (cl_run_id c) (lock_key cfg market qid) (rs_server ?s)" by simp
  have owner: "same_lock_owner payload h = same_lock_owner (owner_fields (cl_bot_id c) (cl_run_id c)) h" for h
    by (rule pair_lock_payload_owner [OF q]) (simp_all add: lock_for_def)
  obtain held t where "run_state (acquire_pair_lock exec cfg market qid payload (Some (cl_trace_id c)) None) ?s = ((''conflict'', held), t)"
    using acquire_foreign [OF assms(1) foreign owner, of "Some (cl_trace_id c)" None] by blast
  with q assms(2) show ?thesis
    by (simp add: acquire_pair_lock_for_decision_def draw_now_def build_pair_lock_blocked_decision_def)
qed

lemma acquired_decision:
  assumes "well_planned d"
  shows "well_planned (fst (fst (run_state (acquire_pair_lock_for_decision exec cfg c d) s)))
    \<and> context_lock cfg (decision_context (fst (fst (run_state (acquire_pair_lock_for_decision exec cfg c d) s))))
        = context_lock cfg (decision_context d)"
proof -
  have "context_lock cfg (decision_context (build_pair_lock_blocked_decision d held)) = context_lock cfg (decision_context d)" for held
    by (simp add: build_pair_lock_blocked_decision_def context_lock_attached)
  with assms show ?thesis
    by (simp add: acquire_pair_lock_for_decision_def draw_now_def well_planned_attached well_planned_blocked context_lock_attached
        split: option.split prod.split)
qed

lemma safe_carry_out:
  assumes "rc_client cfg" and "info_enabled cfg" and "adapter_safe cfg (lock_key cfg market qid) adapter" and "well_planned d"
  shows "safe view cfg (cl_bot_id c) (cl_run_id c) (lock_key cfg market qid) (carry_out_decision exec cfg sc adapter c d)"
proof -
  let ?safe = "safe view cfg (cl_bot_id c) (cl_run_id c) (lock_key cfg market qid)"
  have success: "?safe (record_success cfg ok)" for ok
    by (auto simp: record_success_def intro!: safe_intros safe_on_redis careful_draw_now safe_changing)
  have rest: "?safe (do { _ \<leftarrow> on_redis (publish_decision exec cfg sc c x); _ \<leftarrow> record_success cfg (accepted x);
      (if may_persist sc x then persist_decision exec cfg sc adapter c x held else finished) })"
    if x: "\<not> may_persist sc x \<or> (well_planned x \<and> context_lock cfg (decision_context x) \<noteq> Some (lock_key cfg market qid))" for x held
    using x by (auto intro!: safe_intros safe_on_redis careful_publish_decision success safe_persist_decision assms(1,3))
  have acquired: "\<not> may_persist sc x \<or> (well_planned x \<and> context_lock cfg (decision_context x) \<noteq> Some (lock_key cfg market qid))"
    if foreign: "\<not> own_or_free view (cl_bot_id c) (cl_run_id c) (lock_key cfg market qid) (rs_server r)"
      and x: "x = fst (fst (run_state (acquire_pair_lock_for_decision exec cfg c d) r))" for x r
    using acquire_decision_foreign [OF assms(1,2) _ foreign, of d] acquired_decision [OF assms(4), of cfg c r] x
    by (auto simp: may_persist_def)
  show ?thesis
  proof (cases "may_persist sc d")
    case False
    with rest [of d False] show ?thesis by (simp add: carry_out_decision_def)
  next
    case True
    have "?safe (case fst (run_state (on_redis (acquire_pair_lock_for_decision exec cfg c d)) s) of (x, held) \<Rightarrow>
        do { _ \<leftarrow> on_redis (publish_decision exec cfg sc c x); _ \<leftarrow> record_success cfg (accepted x);
          (if may_persist sc x then persist_decision exec cfg sc adapter c x held else finished) })"
      if "\<not> own_or_free view (cl_bot_id c) (cl_run_id c) (lock_key cfg market qid) (rs_server (pf_redis s))"
      for s :: "'r strategy_state"
    proof -
      obtain x held r where x: "run_state (acquire_pair_lock_for_decision exec cfg c d) (pf_redis s) = ((x, held), r)"
        by (metis prod.collapse)
      then have "x = fst (fst (run_state (acquire_pair_lock_for_decision exec cfg c d) (pf_redis s)))" by simp
      note go = rest [OF acquired [OF that this], of held]
      from x have "fst (run_state (on_redis (acquire_pair_lock_for_decision exec cfg c d)) s) = (x, held)"
        by (simp add: run_on_redis)
      then show ?thesis by (simp only: case_prod_conv) (rule go)
    qed
    with True show ?thesis unfolding carry_out_decision_def
      by (auto intro!: safe_bind_value safe_on_redis careful_acquire_for_decision assms(1))
  qed
qed

end

context scanning_server
begin

lemma safe_evaluate_run:
  assumes "rc_client cfg" and "info_enabled cfg" and "adapter_safe cfg (lock_key cfg market qid) (en_adapter env)"
  shows "safe view cfg (run_bot_id run) (run_id run) (lock_key cfg market qid) (evaluate_run exec cfg sc env run)"
proof -
  have loaded: "safe view cfg (cl_bot_id c) (cl_run_id c) (lock_key cfg market qid) (load_and_evaluate exec cfg sc env c run)" for c
    by (auto simp: load_and_evaluate_def evaluate_loaded_def skip_run_def record_failure_def
        intro!: safe_intros safe_on_redis careful_load careful_draw_now safe_changing safe_carry_out well_planned_evaluated assms
        split: sum.split option.split)
  have unblocked: "safe view cfg (cl_bot_id c) (cl_run_id c) (lock_key cfg market qid) (evaluate_unblocked exec cfg sc env c run)" for c
    by (auto simp: evaluate_unblocked_def skip_run_def
        intro!: safe_intros safe_on_redis careful_blocking_trace careful_draw_now safe_changing loaded split: fetched.split option.split)
  have call: "safe view cfg bid rid k (case r of Inl e \<Rightarrow> State_Monad.return (Raised e)
      | Inr _ \<Rightarrow> evaluate_unblocked exec cfg sc env c run)"
    if "cl_bot_id c = bid" "cl_run_id c = rid" "k = lock_key cfg market qid" for r c bid rid k
    using unblocked [of c] that by (simp add: safe_return split: sum.split)
  show ?thesis unfolding evaluate_run_def Let_def
    by (intro safe_bind safe_on_redis careful_draw_uid call)
       (use careful_reconcile [OF assms(1), of "\<lparr>cl_run_id = run_id run, cl_bot_id = run_bot_id run, cl_trace_id = _\<rparr>"] in simp_all)
qed

end

interpretation kvs: scanning_server kv_exec kv_view
  by unfold_locales (simp add: kv_exec_def)

end
