(* ===== verification/StrategyDemo.thy ===== *)
theory StrategyDemo
  imports StrategyLocks
begin

text \<open>
  A concrete setting for the witnesses about the strategy loop: a server that keeps a table and answers
  scans, and a store with one bot whose running arbitrage run is configured to trade BTC-KRW between two
  exchanges at a profit.
\<close>

section \<open>A server that keeps a table\<close>

definition table_exec :: "(string, string) dict server" where
  "table_exec cmd m = (case cmd of
       [c, k] \<Rightarrow>
         if c = ''GET'' then (m, Inr (stored_reply (map_of m k)))
         else if c = ''DEL'' then (ddel m k, Inr (RInt (if map_of m k = None then 0 else 1)))
         else (m, Inl (RuntimeError ''ERR''))
     | [c, k, t] \<Rightarrow> if c = ''SET'' then (dset m k t, Inr (RStr ''OK'')) else (m, Inl (RuntimeError ''ERR''))
     | [c, k, t, x, e] \<Rightarrow> if c = ''SET'' then (dset m k t, Inr (RStr ''OK'')) else (m, Inl (RuntimeError ''ERR''))
     | [c, k, t, p, x, e] \<Rightarrow>
         if c = ''SCAN'' then (m, Inr (RList [RStr ''0'', RList (map (\<lambda>(k, _). RStr k) (filter (\<lambda>(k, _). starts_with (butlast p) k) m))]))
         else if c \<noteq> ''SET'' then (m, Inl (RuntimeError ''ERR''))
         else if map_of m k = None then (dset m k t, Inr (RStr ''OK'')) else (m, Inr RNil)
     | _ \<Rightarrow> (m, Inr (RStr ''1-0'')))"

interpretation tables: scanning_server table_exec map_of
proof unfold_locales
  show "\<exists>r' v. table_exec (''XADD'' # k # args) r = (r', v) \<and> (\<forall>k'. k' \<noteq> k \<longrightarrow> map_of r' k' = map_of r k')" for k args r
  proof -
    have "\<exists>v. table_exec (''XADD'' # k # args) r = (r, v)" by (auto simp: table_exec_def split: list.splits)
    then show ?thesis by blast
  qed
qed (auto simp: table_exec_def)

section \<open>A run that trades\<close>

definition demo_trade_cfg :: redis_config where
  "demo_trade_cfg = demo_cfg\<lparr>rc_now := (\<lambda>i. ''2026-01-01T00:00:00Z''), rc_uid := (\<lambda>i. int_str (int i))\<rparr>"

definition demo_trade_spec :: obj where
  "demo_trade_spec = [(''canonical_symbol'', PStr ''BTC''), (''market'', PStr ''BTC-KRW''), (''base_asset'', PStr ''BTC''),
     (''quote_asset'', PStr ''KRW''), (''candidate_exchanges'', PList [PStr ''bithumb'', PStr ''upbit'']),
     (''exchange_balances'', PDict [(''bithumb'', sample_balance_payload ''bithumb''), (''upbit'', sample_balance_payload ''upbit'')]),
     (''risk_config'', sample_risk_payload), (''runtime_state'', PDict [(''open_order_cap'', PInt 2)])]"

definition demo_trade_run :: strategy_run where
  "demo_trade_run = \<lparr>run_id = ''r1'', run_bot_id = ''b1'', run_strategy_name = ''arbitrage'', run_mode = ''dry_run'',
     run_status = ''running'', run_created_at = ''t'', run_started_at = None, run_stopped_at = None, run_decision_count = 0\<rparr>"

definition demo_trade_bot :: bot_detail where
  "demo_trade_bot = \<lparr>bd_bot = \<lparr>b_bot_id = ''b1'', b_bot_key = ''k'', b_strategy_name = ''arbitrage'', b_mode = ''dry_run'',
     b_status = ''running'', b_hostname = None, b_last_seen_at = ''t'',
     b_assigned = [(''config_scope'', PStr ''c''), (''version_no'', PInt 1)]\<rparr>,
     bd_latest_heartbeat = None, bd_latest_run = None, bd_recent_alerts = []\<rparr>"

definition demo_trade_store :: store where
  "demo_trade_store = empty_store\<lparr>bots := [bd_bot demo_trade_bot], bot_details := [(''b1'', demo_trade_bot)],
     strategy_runs := [(''r1'', demo_trade_run)],
     config_versions := [(''c'', [\<lparr>config_version_id = ''cv'', cv_scope = ''c'', cv_version_no = 1,
        cv_json = [(''arbitrage_runtime'', PDict demo_trade_spec)], cv_checksum = ''x'', cv_created_by = None, cv_created_at = ''t''\<rparr>])]\<rparr>"

definition demo_top :: "string \<Rightarrow> string \<Rightarrow> string \<Rightarrow> obj" where
  "demo_top ex ask bid = [(''exchange'', PStr ex), (''market'', PStr ''BTC-KRW''), (''best_ask'', PStr ask), (''best_bid'', PStr bid),
     (''ask_volume'', PStr ''1.5''), (''bid_volume'', PStr ''1.5''), (''received_at'', PStr ''2026-01-01T00:00:00Z''),
     (''exchange_timestamp'', PStr ''2026-01-01T00:00:00Z'')]"

definition demo_sources :: runtime_sources where
  "demo_sources = \<lparr>src_cached = (\<lambda>ex m. if ex = ''bithumb'' then Some (demo_top ex ''100'' ''99'')
     else if ex = ''upbit'' then Some (demo_top ex ''104'' ''103'') else None), src_privates = None\<rparr>"

definition demo_table :: "(string, string) dict \<Rightarrow> (string, string) dict redis_state" where
  "demo_table m = \<lparr>rs_error = None, rs_server = m, rs_drawn = 0\<rparr>"

definition demo_strategy_config :: strategy_config where
  "demo_strategy_config = make_strategy_config True 1000 True True ''simulate_fill'' False ''simulated'' True"

definition demo_runtime_env :: runtime_env where
  "demo_runtime_env = \<lparr>en_sources = demo_sources, en_adapter = simulated_adapter demo_trade_cfg ''simulate_fill'',
     en_fuel = 3, en_stop = (\<lambda>i. False)\<rparr>"

end
