(* ===== verification/StrategySafety.thy ===== *)
theory StrategySafety
  imports StrategyDemo
begin

text \<open>
  What an evaluation of a run may store: no intent for a pair whose lock another run holds, and an
  accepted decision always names the lock of the market of its run. The simulated adapter stores no
  intent. And on which balances a live run trades: the amounts its exchanges answered.
\<close>

section \<open>The simulated adapter\<close>

lemma pair_intents_status:
  assumes "map_of (order_intents st) j = Some i" and "int_decision_context i' = int_decision_context i"
    and "order_intents st' = dset (order_intents st) j i'"
  shows "pair_intents cfg k st' \<subseteq> pair_intents cfg k st"
  using assms by (auto simp: pair_intents_def split: if_splits)

lemma intent_after_fill_context: "int_decision_context (intent_after_fill ords i) = int_decision_context i"
  by (simp add: intent_after_fill_def Let_def)

lemma created_order_intents: "pair_intents cfg k (fst (create_order uid ts a st)) \<subseteq> pair_intents cfg k st"
proof (cases "map_of (order_intents st) (oa_intent_id a)")
  case (Some i)
  show ?thesis
  proof (cases "order_intents (fst (create_order uid ts a st)) = order_intents st")
    case True
    then show ?thesis by (simp add: pair_intents_def)
  next
    case False
    with Some have "order_intents (fst (create_order uid ts a st))
        = dset (order_intents st) (oa_intent_id a) (i\<lparr>int_status := ''submitted''\<rparr>)"
      by (auto simp: create_order_def Let_def split: option.splits if_splits)
    with Some show ?thesis by (intro pair_intents_status) simp_all
  qed
qed (simp add: create_order_def)

lemma applied_fill_intents: "pair_intents cfg k (fst (apply_fill uid ts x next a st)) \<subseteq> pair_intents cfg k st"
proof (cases "map_of (order_intents st) (ord_intent_id x)")
  case None
  then show ?thesis by (simp add: apply_fill_def pair_intents_def Let_def)
next
  case (Some i)
  then show ?thesis
    by (intro pair_intents_status [OF Some intent_after_fill_context]) (simp add: apply_fill_def Let_def)
qed

lemma created_fill_intents:
  "create_fill uid ts a st = Inr (st', r) \<Longrightarrow> pair_intents cfg k st' \<subseteq> pair_intents cfg k st"
  by (cases r) (use applied_fill_intents in \<open>blast elim: create_fill_cases\<close>)

lemma leg_intents: "pair_intents cfg k (mem_store (fst (create_legs (mem_ops uid ts) hex i n legs created m))) \<subseteq> pair_intents cfg k (mem_store m)"
proof (induction legs arbitrary: n created m)
  case (Cons leg legs)
  obtain st oc x where c: "create_order (uid (drawn m)) (ts (drawn m)) (simulated_order_args (hex n) i leg) (mem_store m) = (st, oc, x)"
    by (metis prod.collapse)
  have st: "pair_intents cfg k st \<subseteq> pair_intents cfg k (mem_store m)"
    using created_order_intents [of cfg k "uid (drawn m)" "ts (drawn m)" "simulated_order_args (hex n) i leg" "mem_store m"] c by simp
  have "pair_intents cfg k (mem_store (fst (create_legs (mem_ops uid ts) hex i (Suc n) legs (created @ [y]) (Mem (Suc (drawn m)) st))))
      \<subseteq> pair_intents cfg k st" for y
    using Cons.IH [of "Suc n" "created @ [y]" "Mem (Suc (drawn m)) st"] by simp
  with st c show ?case by (cases oc; cases x) (auto simp: mem_ops_def)
qed simp

lemma fill_intents: "pair_intents cfg k (mem_store (fst (fill_legs (mem_ops uid ts) hex clock n specs fs m))) \<subseteq> pair_intents cfg k (mem_store m)"
proof (induction specs arbitrary: n fs m)
  case (Cons spec specs)
  show ?case
  proof (cases "create_fill (uid (drawn m)) (ts (drawn m)) (simulated_fill_args (hex n) (clock n) n spec) (mem_store m)")
    case (Inl e)
    then show ?thesis by (simp add: mem_ops_def)
  next
    case (Inr c)
    obtain st oc x where c: "c = (st, oc, x)" by (metis prod.collapse)
    have st: "pair_intents cfg k st \<subseteq> pair_intents cfg k (mem_store m)"
      using created_fill_intents Inr c by blast
    have "pair_intents cfg k (mem_store (fst (fill_legs (mem_ops uid ts) hex clock (Suc n) specs (fs @ [y]) (Mem (Suc (drawn m)) st))))
        \<subseteq> pair_intents cfg k st" for y
      using Cons.IH [of "Suc n" "fs @ [y]" "Mem (Suc (drawn m)) st"] by simp
    with st Inr c show ?thesis by (cases oc; cases x) (auto simp: mem_ops_def)
  qed
qed simp

lemma filled_intents: "pair_intents cfg k (mem_store (fst (fill_created (mem_ops uid ts) hex clock mode b edge created m)))
    \<subseteq> pair_intents cfg k (mem_store m)"
  using fill_intents [of cfg k uid ts hex clock 1 "zip created [dstr (buy_vwap edge), dstr (sell_vwap edge)]" "[]" m]
  by (auto simp: fill_created_def split: prod.split sum.split legs_result.split)

lemma submitted_intents: "pair_intents cfg k (mem_store (fst (submit_arbitrage_orders (mem_ops uid ts) hex clock d i mode b m)))
    \<subseteq> pair_intents cfg k (mem_store m)"
proof -
  obtain m' created r where legs: "create_legs (mem_ops uid ts) hex i 0
      [(int_buy_exchange i, ''buy''), (int_sell_exchange i, ''sell'')] [] m = (m', created, r)" by (metis prod.collapse)
  with leg_intents [of cfg k uid ts hex i 0 "[(int_buy_exchange i, ''buy''), (int_sell_exchange i, ''sell'')]" "[]" m]
  have m': "pair_intents cfg k (mem_store m') \<subseteq> pair_intents cfg k (mem_store m)" by simp
  have "pair_intents cfg k (mem_store (fst (fill_created (mem_ops uid ts) h clock x b edge created m'))) \<subseteq> pair_intents cfg k (mem_store m)"
    for h x edge by (rule order_trans [OF filled_intents m'])
  with m' legs show ?thesis
    by (simp add: submit_arbitrage_orders_def Let_def split: legs_result.split option.split)
qed

lemma simulated_adapter_safe: "adapter_safe cfg k (simulated_adapter cfg' mode)"
  by (simp add: adapter_safe_def simulated_adapter_def submitted_intents)

section \<open>The pair of an accepted decision\<close>

lemma last_with_status_some:
  assumes "s \<in> set ss" "summary_status s = st"
  shows "\<exists>t \<in> set ss. last_with_status st ss = Some t \<and> summary_status t = st"
proof -
  have "filter (\<lambda>s. summary_status s = st) ss \<noteq> []" using assms by (auto simp: filter_empty_conv)
  then have "last (filter (\<lambda>s. summary_status s = st) ss) \<in> set (filter (\<lambda>s. summary_status s = st) ss)"
    and "last_with_status st ss = Some (last (filter (\<lambda>s. summary_status s = st) ss))"
    by (simp_all only: last_in_set not_False_eq_True) (simp add: last_with_status_def split: list.split)
  then show ?thesis by auto
qed

lemma summary_fields:
  assumes "candidate_summary inputs d st = Inr s"
  shows "pget s ''market'' = PStr (in_market inputs)" "summary_status s = st"
  using assms by (auto simp: candidate_summary_def res_simps pget_Cons summary_status_def raw_text_def por_def)

lemma mapM_image: "mapM f xs = Inr ys \<Longrightarrow> x \<in> set xs \<Longrightarrow> \<exists>y \<in> set ys. f x = Inr y"
  by (induction xs arbitrary: ys) (auto simp: res_simps)

lemma selected_context:
  assumes "evaluate_arbitrage_candidate_set ci = Inr d" and "accepted d"
  shows "\<exists>buy sell sp. pget (decision_context d) ''quote_pair_id'' = PStr (buy @ '':'' @ ci_market ci @ ''|'' @ sell @ '':'' @ ci_market ci)
    \<and> pget (decision_context d) ''selected_pair'' = PDict sp \<and> pget sp ''market'' = PStr (ci_market ci)"
proof -
  from assms(1) obtain ev where ev: "mapM (evaluate_pair ci) (exchange_pairs (candidate_exchanges ci)) = Inr ev"
    and d: "select_candidate (candidate_exchanges ci) ev = Inr d"
    by (auto simp: evaluate_arbitrage_candidate_set_def res_simps split: if_splits)
  let ?acc = "filter (\<lambda>x. accepted (snd x)) ev"
  from d obtain sel ss where sel: "max_entry (if ?acc \<noteq> [] then ?acc else ev) = Inr sel"
    and ss: "mapM (\<lambda>x. candidate_summary (fst x) (snd x) (selection_status (?acc \<noteq> []) sel x)) ev = Inr ss"
    and d': "d = with_selection_context (snd sel) (candidate_exchanges ci)
       (last_with_status ''selected'' ss) (last_with_status ''top_rejected'' ss) ss"
    by (auto simp: select_candidate_def Let_def res_simps)
  from max_entry_spec [OF sel] have in_ev: "sel \<in> set ev" by (auto split: if_splits)
  with assms(2) d' have acc: "?acc \<noteq> []" by (auto simp: filter_empty_conv)
  have market: "in_market (fst x) = ci_market ci" and eval: "evaluate_arbitrage (fst x) = Inr (snd x)" if "x \<in> set ev" for x
    using mapM_set [OF ev that] evaluated_pair_facts by blast+
  from mapM_image [OF ss in_ev] obtain s where s: "s \<in> set ss"
    "candidate_summary (fst sel) (snd sel) ''selected'' = Inr s" using acc by (auto simp: selection_status_def)
  from last_with_status_some [OF s(1) summary_fields(2) [OF s(2)]] obtain t where t: "t \<in> set ss"
    "last_with_status ''selected'' ss = Some t" by blast
  from mapM_set [OF ss t(1)] obtain x where "x \<in> set ev" "pget t ''market'' = PStr (in_market (fst x))"
    using summary_fields(1) by blast
  with market have tm: "pget t ''market'' = PStr (ci_market ci)" by simp
  note q = recorded_fields(3) [OF evaluate_context [OF eval [OF in_ev]]] and m = market [OF in_ev]
  have "pget (decision_context d) ''quote_pair_id'' = pget (decision_context (snd sel)) ''quote_pair_id''"
    by (simp add: d' selection_context_def)
  moreover have "pget (decision_context d) ''selected_pair'' = PDict t"
    by (simp add: d' selection_context_def t(2))
  ultimately show ?thesis using q m tm by auto
qed

lemma strip_empty: "strip s = [] \<Longrightarrow> c \<in> set s \<Longrightarrow> is_ws c"
proof (cases "dropWhile is_ws s")
  case (Cons x xs)
  then have "\<not> is_ws x" by (simp add: dropWhile_eq_Cons_conv)
  moreover assume "strip s = []"
  ultimately show ?thesis using Cons by (simp add: strip_def)
qed (simp add: dropWhile_eq_Nil_conv)

lemma strip_pair_nonempty: "strip (buy @ CHR '':'' # rest) \<noteq> []"
proof
  assume "strip (buy @ CHR '':'' # rest) = []"
  then have "is_ws (CHR '':'')" by (rule strip_empty) simp
  then show False by (simp add: is_ws_def)
qed

lemma accepted_context_lock:
  assumes "evaluate_arbitrage_candidate_set ci = Inr d" and "accepted d" and "strip (ci_market ci) \<noteq> []"
  shows "\<exists>buy sell. context_lock cfg (decision_context d) = Some (lock_key cfg (strip (ci_market ci))
     (strip (buy @ '':'' @ ci_market ci @ ''|'' @ sell @ '':'' @ ci_market ci)))"
proof -
  obtain buy sell sp where f: "pget (decision_context d) ''quote_pair_id'' = PStr (buy @ '':'' @ ci_market ci @ ''|'' @ sell @ '':'' @ ci_market ci)"
    "pget (decision_context d) ''selected_pair'' = PDict sp" "pget sp ''market'' = PStr (ci_market ci)"
    using selected_context [OF assms(1,2)] by blast
  let ?q = "strip (buy @ '':'' @ ci_market ci @ ''|'' @ sell @ '':'' @ ci_market ci)"
  have q: "text_of (decision_context d) ''quote_pair_id'' = ?q" "?q \<noteq> []"
    using f(1) strip_pair_nonempty [of buy] by (simp_all add: text_of_def raw_text_def por_def)
  have m: "text_of sp ''market'' = strip (ci_market ci)" using f(3) by (auto simp: text_of_def raw_text_def por_def)
  have "context_lock cfg (decision_context d) = Some (lock_key cfg (strip (ci_market ci)) ?q)"
    using q m f(2) assms(3)
    by (simp add: context_lock_def pair_lock_identity_from_context_def strip_opt_def Let_def text_of_Cons por_def)
  then show ?thesis by blast
qed

lemma loaded_market:
  assumes "run_state (load_arbitrage_runtime_payload exec cfg src st run) r = (Inr l, r')" and "lr_payload l = Some payload"
  shows "\<exists>detail spec xs. runtime_spec_of st run = Inr (detail, spec) \<and> pget payload ''market'' = PStr (text_of spec ''market'')
    \<and> text_of spec ''market'' \<noteq> [] \<and> pget payload ''candidate_exchanges'' = PList xs"
proof (cases "runtime_spec_of st run")
  case (Inl x)
  then have "lr_payload x = None"
    by (auto simp: runtime_spec_of_def skipped_def Let_def split: if_splits option.splits pyval.splits)
  with Inl assms show ?thesis by (simp add: load_arbitrage_runtime_payload_def)
next
  case (Inr x)
  obtain detail spec where x: "x = (detail, spec)" by (metis prod.collapse)
  from Inr x have "missing_fields spec = []"
    by (auto simp: runtime_spec_of_def Let_def split: if_splits option.splits pyval.splits)
  then have market: "text_of spec ''market'' \<noteq> []" by (auto simp: missing_fields_def split: if_splits)
  from assms Inr x obtain nw found where "assemble_payload nw src st detail run spec found = Inr l"
    by (auto simp: load_arbitrage_runtime_payload_def draw_clock_def skipped_def split: prod.splits if_splits)
  with assms(2) obtain books bals srcs nw0 where "runtime_payload nw0 st detail run spec books bals srcs = Inr payload"
    by (auto simp: assemble_payload_def res_simps Let_def loaded_def split: option.splits)
  then have "pget payload ''market'' = PStr (text_of spec ''market'')"
    "pget payload ''candidate_exchanges'' = PList (map PStr (candidate_exchange_list spec))"
    by (auto simp: runtime_payload_def Let_def res_simps pget_Cons)
  with Inr x market show ?thesis by blast
qed

lemma evaluated_market:
  assumes "evaluate_arbitrage_candidate_payload payload = Inr d" and "pget payload ''candidate_exchanges'' = PList xs"
    and "pget payload ''market'' = PStr m"
  shows "\<exists>ci. evaluate_arbitrage_candidate_set ci = Inr d \<and> ci_market ci = m"
proof -
  from assms(1,2) obtain ci bid rid risk rt where ci: "evaluate_arbitrage_candidate_set ci = Inr d"
    "load_candidate_list payload xs bid rid risk rt = Inr ci"
    by (auto simp: evaluate_arbitrage_candidate_payload_def load_candidate_strategy_inputs_def res_simps)
  from ci(2) have "str_item payload ''market'' = Inr (ci_market ci)"
    by (auto simp: load_candidate_list_def Let_def res_simps split: pyval.splits if_splits prod.splits)
  with assms(3) have "ci_market ci = m" by (auto simp: str_item_def pitem_def pget_def res_simps split: option.splits)
  with ci(1) show ?thesis by blast
qed

section \<open>Private balances\<close>

text \<open>
  What an exchange answered for an asset, read from its reply without the index the code builds: the
  \<open>available\<close> amount of the first item of that currency, and '0' when the answer lists no such
  currency (or an item without an amount).
\<close>

definition answered_items :: "private_result \<Rightarrow> obj list" where
  "answered_items a = (case pget (dict_or_empty (pr_data a)) ''items'' of
      PList items \<Rightarrow> concat (map (\<lambda>v. case v of PDict d \<Rightarrow> [d] | _ \<Rightarrow> []) items) | _ \<Rightarrow> [])"

definition answered_amount :: "private_result \<Rightarrow> string \<Rightarrow> pyval" where
  "answered_amount a asset =
     (case find (\<lambda>item. asset \<noteq> [] \<and> upper (text_of item ''currency'') = asset) (answered_items a) of
        None \<Rightarrow> PStr ''0'' | Some item \<Rightarrow> pget_or item ''available'' (PStr ''0''))"

definition from_exchange ::
    "(string, private_result) dict \<Rightarrow> string \<Rightarrow> string \<Rightarrow> (string, obj) dict \<Rightarrow> string \<Rightarrow> bool" where
  "from_exchange ps base qt snaps ex = (case (map_of ps ex, map_of snaps ex) of
      (Some a, Some b) \<Rightarrow> pr_outcome a = ''ok'' \<and> pget b ''source_type'' = PStr ''private_exchange''
        \<and> pget b ''available_base'' = PStr (py_str (answered_amount a (upper (strip base))))
        \<and> pget b ''available_quote'' = PStr (py_str (answered_amount a (upper (strip qt))))
    | _ \<Rightarrow> False)"

lemma from_exchange_answered:
  "from_exchange ps base qt snaps ex \<longleftrightarrow> (\<exists>a. map_of ps ex = Some a \<and> pr_outcome a = ''ok''
    \<and> (\<exists>b. map_of snaps ex = Some b \<and> pget b ''source_type'' = PStr ''private_exchange''
      \<and> pget b ''available_base'' = PStr (py_str (answered_amount a (upper (strip base))))
      \<and> pget b ''available_quote'' = PStr (py_str (answered_amount a (upper (strip qt))))))"
  by (cases "map_of ps ex"; cases "map_of snaps ex") (simp_all add: from_exchange_def)

lemma map_of_indexed:
  "map_of (index_balance_items items indexed) asset = (case map_of indexed asset of
      Some item \<Rightarrow> Some item
    | None \<Rightarrow> find (\<lambda>item. asset \<noteq> [] \<and> upper (text_of item ''currency'') = asset) items)"
proof (induction items arbitrary: indexed)
  case (Cons item items)
  let ?c = "upper (text_of item ''currency'')"
  have "map_of (index_balance_items (item # items) indexed) asset
      = map_of (index_balance_items items (if ?c = [] \<or> map_of indexed ?c \<noteq> None then indexed else dset indexed ?c item)) asset"
    by (simp add: Let_def)
  also have "\<dots> = (case map_of (if ?c = [] \<or> map_of indexed ?c \<noteq> None then indexed else dset indexed ?c item) asset of
      Some x \<Rightarrow> Some x | None \<Rightarrow> find (\<lambda>item. asset \<noteq> [] \<and> upper (text_of item ''currency'') = asset) items)"
    by (rule Cons.IH)
  finally show ?case by (cases "map_of indexed asset") auto
qed (simp split: option.splits)

lemma available_is_answered:
  assumes "pget (dict_or_empty (pr_data a)) ''items'' = PList items"
  shows "available_of (index_balance_items (concat (map (\<lambda>v. case v of PDict d \<Rightarrow> [d] | _ \<Rightarrow> []) items)) []) asset
    = answered_amount a asset"
  using assms by (simp add: available_of_def answered_amount_def answered_items_def map_of_indexed)

lemma balance_payload_fields:
  "pget (balance_payload nw f) ''source_type'' = PStr (bf_source f)"
  "pget (balance_payload nw f) ''available_base'' = PStr (py_str (bf_available_base f))"
  "pget (balance_payload nw f) ''available_quote'' = PStr (py_str (bf_available_quote f))"
  by (simp_all add: balance_payload_def pget_Cons)

lemma private_balances_from_exchange:
  "bl_snapshots (private_balances nw ps base qt i exs snapshots sources) = Some snaps
    \<Longrightarrow> list_all (from_exchange ps base qt snaps) exs
      \<and> (\<forall>ex. from_exchange ps base qt snapshots ex \<longrightarrow> from_exchange ps base qt snaps ex)"
proof (induction exs arbitrary: i snapshots sources)
  case (Cons x xs)
  from Cons.prems obtain a where a: "map_of ps x = Some a" "pr_outcome a = ''ok''"
    by (auto simp: unavailable_def balances_failed_def split: option.splits if_splits)
  from Cons.prems a obtain f srcs where f: "bf_source f = ''private_exchange''"
    "bf_available_base f = answered_amount a (upper (strip base))" "bf_available_quote f = answered_amount a (upper (strip qt))"
    "bl_snapshots (private_balances nw ps base qt (Suc i) xs (dset snapshots x (balance_payload (nw i) f)) srcs) = Some snaps"
  proof -
    from Cons.prems a obtain items where items: "pget (dict_or_empty (pr_data a)) ''items'' = PList items"
      by (cases "pget (dict_or_empty (pr_data a)) ''items''") (simp_all add: unavailable_def balances_failed_def)
    show thesis
      by (rule that [rotated 3])
        (use Cons.prems a items in \<open>simp add: Let_def\<close>, simp_all add: available_is_answered [OF items])
  qed
  define b where "b = balance_payload (nw i) f"
  from f a have fresh: "from_exchange ps base qt (dset snapshots x b) x"
    by (simp add: from_exchange_def b_def balance_payload_fields)
  from Cons.IH [OF f(4)] have rest: "list_all (from_exchange ps base qt snaps) xs"
    and kept: "\<And>ex. from_exchange ps base qt (dset snapshots x b) ex \<Longrightarrow> from_exchange ps base qt snaps ex"
    by (simp_all add: b_def)
  have "from_exchange ps base qt (dset snapshots x b) ex" if "from_exchange ps base qt snapshots ex \<or> ex = x" for ex
    using that fresh by (cases "ex = x") (simp_all add: from_exchange_def)
  then show ?case using rest kept by simp
qed (simp add: balances_loaded_def)

section \<open>Claims\<close>

definition demo_foreign :: "(string, string) dict" where
  "demo_foreign = [(lock_key demo_trade_cfg ''BTC-KRW'' ''bithumb:BTC-KRW|upbit:BTC-KRW'', dumps (PDict (demo_owner ''a'')))]"

text \<open>
  An accepted decision names the lock of its market. Whenever the inputs of a run load and the decision on
  them is accepted, the decision context identifies a pair of the market the run is configured for,
  so its intent can only be stored under the lock of that pair.
\<close>

theorem accepted_run_names_its_lock:
  assumes "run_state (load_arbitrage_runtime_payload exec cfg src st run) r = (Inr l, r')" and "lr_payload l = Some payload"
    and "evaluate_arbitrage_candidate_payload payload = Inr d" and "accepted d"
  shows "\<exists>detail spec buy sell. runtime_spec_of st run = Inr (detail, spec)
    \<and> context_lock cfg (decision_context d) = Some (lock_key cfg (text_of spec ''market'')
        (strip (buy @ '':'' @ text_of spec ''market'' @ ''|'' @ sell @ '':'' @ text_of spec ''market'')))"
proof -
  obtain detail spec xs where spec: "runtime_spec_of st run = Inr (detail, spec)"
    "pget payload ''market'' = PStr (text_of spec ''market'')" "text_of spec ''market'' \<noteq> []"
    "pget payload ''candidate_exchanges'' = PList xs" using loaded_market [OF assms(1,2)] by blast
  obtain ci where ci: "evaluate_arbitrage_candidate_set ci = Inr d" "ci_market ci = text_of spec ''market''"
    using evaluated_market [OF assms(3) spec(4,2)] by blast
  have "strip (ci_market ci) = ci_market ci" by (rule text_of_strip [OF ci(2) [symmetric]])
  with accepted_context_lock [OF ci(1) assms(4), of cfg] ci(2) spec(1,3) show ?thesis by auto
qed

lemma accepted_run_names_its_lock_witness:
  "case run_state (load_arbitrage_runtime_payload table_exec demo_trade_cfg demo_sources demo_trade_store demo_trade_run) (demo_table []) of
     (Inr l, _) \<Rightarrow> (case lr_payload l of Some p \<Rightarrow> (case evaluate_arbitrage_candidate_payload p of
         Inr d \<Rightarrow> context_lock demo_trade_cfg (decision_context d) \<noteq> None | _ \<Rightarrow> False) | _ \<Rightarrow> False) | _ \<Rightarrow> False"
proof -
  have "case run_state (load_arbitrage_runtime_payload table_exec demo_trade_cfg demo_sources demo_trade_store demo_trade_run) (demo_table []) of
     (Inr l, _) \<Rightarrow> (case lr_payload l of Some p \<Rightarrow> (case evaluate_arbitrage_candidate_payload p of Inr d \<Rightarrow> accepted d | _ \<Rightarrow> False)
        | _ \<Rightarrow> False) | _ \<Rightarrow> False" by code_simp
  then show ?thesis
    by (auto split: prod.splits sum.splits option.splits
        dest: accepted_run_names_its_lock [where cfg = demo_trade_cfg])
qed

text \<open>
  C39. A live run never trades on configured balances. When balances are loaded for a live run, private
  connectors are configured, and for each candidate exchange the reply to its balance request succeeded
  and the balances used are the amounts of that reply: for the base and for the quote asset, the
  \<open>available\<close> amount of the first item of that currency. A currency the reply does not list counts
  as '0'.
\<close>

theorem live_balances_are_private:
  assumes "runtime_mode run detail = ''live''"
    and "bl_snapshots (load_balance_snapshots nw privates spec candidates base qt run detail) = Some snaps"
  shows "\<exists>ps. privates = Some ps \<and> (\<forall>ex \<in> set candidates. \<exists>a b. map_of ps ex = Some a \<and> pr_outcome a = ''ok''
    \<and> map_of snaps ex = Some b \<and> pget b ''source_type'' = PStr ''private_exchange''
    \<and> pget b ''available_base'' = PStr (py_str (answered_amount a (upper (strip base))))
    \<and> pget b ''available_quote'' = PStr (py_str (answered_amount a (upper (strip qt)))))"
proof -
  from assms obtain ps where ps: "privates = Some ps"
    and "bl_snapshots (private_balances nw ps base qt 0 candidates [] []) = Some snaps"
    by (auto simp: load_balance_snapshots_def load_private_exchange_balance_snapshots_def unavailable_def balances_failed_def Let_def
        split: if_splits option.splits)
  with private_balances_from_exchange [OF this(2)] have "\<forall>ex \<in> set candidates. from_exchange ps base qt snaps ex"
    by (simp add: list_all_iff)
  with ps show ?thesis by (simp add: from_exchange_answered)
qed

definition demo_live_run :: strategy_run where
  "demo_live_run = demo_trade_run\<lparr>run_mode := ''live''\<rparr>"

definition demo_private :: "(string, private_result) dict" where
  "demo_private = map (\<lambda>ex. (ex, \<lparr>pr_outcome = ''ok'', pr_data = PDict [(''items'', PList [
     PDict [(''currency'', PStr ''krw''), (''available'', PStr ''7'')], PDict [(''currency'', PStr ''KRW''), (''available'', PStr ''8'')]])],
     pr_error_code = None, pr_reason = None\<rparr>)) [''bithumb'', ''upbit'']"

lemma live_balances_are_private_witness:
  "case bl_snapshots (load_balance_snapshots (\<lambda>i. ''t'') (Some demo_private) demo_trade_spec [''bithumb'', ''upbit''] ''BTC'' ''KRW''
      demo_live_run demo_trade_bot) of
     None \<Rightarrow> False
   | Some snaps \<Rightarrow> (case map_of snaps ''upbit'' of None \<Rightarrow> False
       | Some b \<Rightarrow> pget b ''available_base'' = PStr ''0'' \<and> pget b ''available_quote'' = PStr ''7'')"
proof -
  have live: "runtime_mode demo_live_run demo_trade_bot = ''live''" by code_simp
  have "case bl_snapshots (load_balance_snapshots (\<lambda>i. ''t'') (Some demo_private) demo_trade_spec [''bithumb'', ''upbit''] ''BTC'' ''KRW''
      demo_live_run demo_trade_bot) of None \<Rightarrow> False | Some _ \<Rightarrow> True" by code_simp
  then obtain snaps where snaps: "bl_snapshots (load_balance_snapshots (\<lambda>i. ''t'') (Some demo_private) demo_trade_spec
      [''bithumb'', ''upbit''] ''BTC'' ''KRW'' demo_live_run demo_trade_bot) = Some snaps" by (auto split: option.splits)
  from live_balances_are_private [OF live snaps] obtain a b where "map_of demo_private ''upbit'' = Some a" and b: "map_of snaps ''upbit'' = Some b"
    "pget b ''available_base'' = PStr (py_str (answered_amount a (upper (strip ''BTC''))))"
    "pget b ''available_quote'' = PStr (py_str (answered_amount a (upper (strip ''KRW''))))" by auto
  moreover from this have "a = the (map_of demo_private ''upbit'')" by simp
  moreover have "py_str (answered_amount (the (map_of demo_private ''upbit'')) (upper (strip ''BTC''))) = ''0''"
    "py_str (answered_amount (the (map_of demo_private ''upbit'')) (upper (strip ''KRW''))) = ''7''" by code_simp+
  ultimately show ?thesis using snaps by simp
qed

end
