(* ===== verification/StrategyBlocking.thy ===== *)
theory StrategyBlocking
  imports StrategyDemo ExecutionStore
begin

text \<open>
  An open recovery trace stops its bot: on a server whose scans are complete (a cursor followed back to 0
  has met every key of the pattern, as the Redis documentation promises), a stored trace that is
  active or waits for an operator keeps every run of its bot from being evaluated, and a failed submission
  stores such a trace.
\<close>

section \<open>Complete scans\<close>

definition batch_keys :: "reply list \<Rightarrow> string list" where
  "batch_keys b = concat (map (\<lambda>v. case v of RStr k \<Rightarrow> [k] | _ \<Rightarrow> []) b)"

inductive scanned :: "'r server \<Rightarrow> string \<Rightarrow> string \<Rightarrow> 'r \<Rightarrow> string list \<Rightarrow> bool" for exec pattern where
  \<comment> \<open>the keys met from a cursor until the cursor is 0 again\<close>
  lastly: "exec [''SCAN'', c, ''MATCH'', pattern, ''COUNT'', ''100''] r = (r', Inr (RList [nx, RList b]))
    \<Longrightarrow> py_str (reply_val nx) = ''0'' \<Longrightarrow> scanned exec pattern c r (batch_keys b)"
| onward: "exec [''SCAN'', c, ''MATCH'', pattern, ''COUNT'', ''100''] r = (r', Inr (RList [nx, RList b]))
    \<Longrightarrow> py_str (reply_val nx) \<noteq> ''0'' \<Longrightarrow> scanned exec pattern (py_str (reply_val nx)) r' ks
    \<Longrightarrow> scanned exec pattern c r (batch_keys b @ ks)"

inductive_cases scanned_cases: "scanned exec pattern c r ks"

definition plain :: "string \<Rightarrow> bool" where
  \<comment> \<open>no character with a meaning in a pattern\<close>
  "plain p = list_all (\<lambda>c. c \<notin> set (CHR 0x5C # ''*?[]^-'')) p"

locale complete_server = scanning_server +
  assumes scan_complete: "scanned exec (p @ ''*'') ''0'' r ks \<Longrightarrow> plain p \<Longrightarrow> starts_with p k \<Longrightarrow> view r k \<noteq> None \<Longrightarrow> k \<in> set ks"

lemma keeps_run: "keeps view k m \<Longrightarrow> run_state m s = (x, t) \<Longrightarrow> view (rs_server t) k = view (rs_server s) k"
  by (metis keeps_def snd_conv)

lemma batch_keys_set: "k \<in> set (batch_keys b) \<longleftrightarrow> RStr k \<in> set b"
  by (auto simp: batch_keys_def split: reply.splits) 

lemma add_new_keys_set: "set (add_new_keys b ks) = set ks \<union> set (batch_keys b)"
  by (induction b ks rule: add_new_keys.induct) (auto simp: batch_keys_def)

lemma page_nonempty: "rows \<noteq> [] \<Longrightarrow> page limit rows \<noteq> []"
  by (simp add: page_def)

lemma set_newest: "set (newest key rows) = set rows"
  by (simp add: newest_def)

lemma newest_nonempty: "newest key rows = [] \<longleftrightarrow> rows = []"
  by (metis set_newest set_empty)

lemma set_page: "set (page limit rows) \<subseteq> set rows"
  by (simp add: page_def set_take_subset)

context scanning_server
begin

lemma run_scan:
  assumes "rc_client cfg"
  shows "\<exists>r' v. exec [''SCAN'', c, ''MATCH'', pattern, ''COUNT'', ''100''] (rs_server s) = (r', v) \<and> view r' = view (rs_server s)
    \<and> run_state (execute exec cfg [''SCAN'', c, ''MATCH'', pattern, ''COUNT'', ''100'']) s
        = ((case v of Inl e \<Rightarrow> RNil | Inr x \<Rightarrow> x),
           s\<lparr>rs_server := r', rs_error := (case v of Inl e \<Rightarrow> Some (exc_text e) | Inr x \<Rightarrow> None)\<rparr>)"
proof -
  obtain r' v where "exec [''SCAN'', c, ''MATCH'', pattern, ''COUNT'', ''100''] (rs_server s) = (r', v)" "view r' = view (rs_server s)"
    using scan by blast
  with assms show ?thesis by (cases v) (simp_all add: execute_def client_execute_def)
qed

lemma scan_loop_scanned:
  assumes "rc_client cfg"
  shows "run_state (scan_loop exec cfg pattern fuel c keys) s = (Fetched ks, s')
    \<Longrightarrow> (\<exists>bs. scanned exec pattern c (rs_server s) bs \<and> set bs \<subseteq> set ks \<and> set keys \<subseteq> set ks)"
proof (induction fuel arbitrary: c keys s)
  case (Suc n)
  obtain r' v where v: "exec [''SCAN'', c, ''MATCH'', pattern, ''COUNT'', ''100''] (rs_server s) = (r', v)"
    "run_state (execute exec cfg [''SCAN'', c, ''MATCH'', pattern, ''COUNT'', ''100'']) s
        = ((case v of Inl e \<Rightarrow> RNil | Inr x \<Rightarrow> x),
           s\<lparr>rs_server := r', rs_error := (case v of Inl e \<Rightarrow> Some (exc_text e) | Inr x \<Rightarrow> None)\<rparr>)"
    using run_scan [OF assms] by blast
  from Suc.prems v(2) obtain nx b where x: "v = Inr (RList [nx, RList b])"
    by (auto split: sum.splits reply.splits list.splits)
  show ?case
  proof (cases "py_str (reply_val nx) = ''0''")
    case True
    with Suc.prems v(2) x have "ks = add_new_keys b keys" by simp
    with True v(1) x show ?thesis by (intro exI [of _ "batch_keys b"]) (auto simp: add_new_keys_set intro: scanned.lastly)
  next
    case False
    with Suc.prems v(2) x have "run_state (scan_loop exec cfg pattern n (py_str (reply_val nx)) (add_new_keys b keys))
        (s\<lparr>rs_server := r', rs_error := None\<rparr>) = (Fetched ks, s')" by (simp add: Let_def)
    from Suc.IH [OF this] obtain bs where "scanned exec pattern (py_str (reply_val nx)) r' bs" "set bs \<subseteq> set ks"
      "set (add_new_keys b keys) \<subseteq> set ks" by auto
    with False v(1) x show ?thesis
      by (intro exI [of _ "batch_keys b @ bs"]) (auto simp: add_new_keys_set intro: scanned.onward)
  qed
qed simp

lemma run_load_row:
  assumes "rc_client cfg"
  shows "\<exists>s'. run_state (get_json_by_full_key exec cfg k) s = (json_object (stored_reply (view (rs_server s) k)), s')
    \<and> view (rs_server s') = view (rs_server s)"
proof -
  obtain r' where "exec [''GET'', k] (rs_server s) = (r', Inr (stored_reply (view (rs_server s) k)))" "view r' = view (rs_server s)"
    using get by blast
  with assms show ?thesis by (simp add: get_json_by_full_key_def execute_def client_execute_def)
qed

lemma load_rows_finds:
  assumes "rc_client cfg" and "starts_with prefix k" "wanted (drop (length prefix) k)"
    and "json_object (stored_reply (view (rs_server s) k)) = Some row" and "k \<in> set ks"
  shows "row \<in> set (fst (run_state (load_rows exec cfg prefix wanted ks) s))"
  using assms(4,5)
proof (induction ks arbitrary: s)
  case (Cons x xs)
  obtain s1 where s1: "run_state (get_json_by_full_key exec cfg x) s = (json_object (stored_reply (view (rs_server s) x)), s1)"
    "view (rs_server s1) = view (rs_server s)" using run_load_row [OF assms(1)] by blast
  have later: "row \<in> set (fst (run_state (load_rows exec cfg prefix wanted xs) s1))" if "k \<in> set xs"
    using Cons.IH [of s1] Cons.prems(1) that s1(2) by simp
  show ?case
  proof (cases "\<not> starts_with prefix x \<or> \<not> wanted (drop (length prefix) x)")
    case True
    with assms(2,3) Cons.prems have "k \<in> set xs" by auto
    with True Cons.IH [of s] Cons.prems(1) show ?thesis by simp
  next
    case False
    with s1(1) later Cons.prems show ?thesis by (auto split: prod.split option.split)
  qed
qed simp

end

lemma list_selects:
  assumes "run_state (list_recovery_traces exec cfg fuel limit q) s = (Fetched rows, s')" and "x \<in> set rows"
  shows "trace_selected q x"
proof -
  obtain k s1 where k: "run_state (scan_keys exec cfg fuel (redis_key cfg [''recovery_trace'', ''*''])) s = (k, s1)" by (metis prod.collapse)
  with assms(1) obtain ks where ks: "k = Fetched ks" by (cases k) (auto simp: list_recovery_traces_def)
  obtain rs s2 where "run_state (load_rows exec cfg (redis_key cfg [''recovery_trace''] @ '':'') (\<lambda>_. True) ks) s1 = (rs, s2)"
    by (metis prod.collapse)
  with assms(1) k ks have "rows = page limit (newest (time_key ''updated_at'' ''created_at'') (filter (trace_selected q) rs))"
    by (simp add: list_recovery_traces_def)
  with assms(2) set_page show ?thesis by (fastforce simp: set_newest)
qed

context redis_server
begin

lemma keeps_lock_request:
  "keeps view (trace_key cfg tid) (acquire_pair_lock exec cfg mk qd payload trace ttl)"
  "keeps view (trace_key cfg tid) (release_pair_lock exec cfg mk qd a trace)"
  using lock_key_others(3) [of cfg mk qd tid] trace_key_others(1) [of cfg tid "''strategy_events''"]
  by (auto simp: trace_key_def intro!: keeps_acquire keeps_release)

end

context complete_server
begin

lemma list_finds_trace:
  assumes "rc_client cfg" and "plain (redis_key cfg [''recovery_trace''] @ '':'')"
    and "json_object (stored_reply (view (rs_server s) (trace_key cfg tid))) = Some trace" and "trace_selected q trace"
    and "run_state (list_recovery_traces exec cfg fuel limit q) s = (Fetched rows, s')"
  shows "rows \<noteq> []"
proof -
  let ?prefix = "redis_key cfg [''recovery_trace''] @ '':''"
  have pattern: "redis_key cfg [''recovery_trace'', ''*''] = ?prefix @ ''*''" by (simp add: redis_key_def)
  have key: "trace_key cfg tid = ?prefix @ tid" by (simp add: trace_key_def redis_key_def)
  have pre: "starts_with ?prefix (trace_key cfg tid)" unfolding key by (simp add: starts_with_def)
  have stored: "view (rs_server s) (trace_key cfg tid) \<noteq> None"
    using assms(3) by (cases "view (rs_server s) (trace_key cfg tid)") (simp_all add: stored_reply_def json_object_def)
  obtain k s1 where k: "run_state (scan_keys exec cfg fuel (?prefix @ ''*'')) s = (k, s1)" by (metis prod.collapse)
  with assms(5) pattern obtain ks where ks: "k = Fetched ks"
    by (cases k) (auto simp: list_recovery_traces_def)
  from k ks have loop: "run_state (scan_loop exec cfg (?prefix @ ''*'') fuel ''0'' []) s = (Fetched ks, s1)"
    by (simp add: scan_keys_def split: if_splits)
  from scan_loop_scanned [OF assms(1) loop] obtain bs where "scanned exec (?prefix @ ''*'') ''0'' (rs_server s) bs" "set bs \<subseteq> set ks"
    by blast
  with scan_complete [OF _ assms(2) pre stored] have in_ks: "trace_key cfg tid \<in> set ks" by blast
  have "view (rs_server s1) (trace_key cfg tid) = view (rs_server s) (trace_key cfg tid)"
    by (rule keeps_run [OF keeps_scan_keys k])
  with assms(3) have "json_object (stored_reply (view (rs_server s1) (trace_key cfg tid))) = Some trace" by simp
  from load_rows_finds [OF assms(1) pre _ this in_ks, of "\<lambda>_. True"]
  have row: "trace \<in> set (fst (run_state (load_rows exec cfg ?prefix (\<lambda>_. True) ks) s1))" by simp
  obtain rs s2 where rs: "run_state (load_rows exec cfg ?prefix (\<lambda>_. True) ks) s1 = (rs, s2)" by (metis prod.collapse)
  with row assms(4) have "filter (trace_selected q) rs \<noteq> []" by (auto simp: filter_empty_conv)
  moreover from assms(5) k ks rs pattern
  have "rows = page limit (newest (time_key ''updated_at'' ''created_at'') (filter (trace_selected q) rs))"
    by (simp add: list_recovery_traces_def)
  ultimately show ?thesis by (simp add: page_nonempty newest_nonempty)
qed

lemma blocking_found:
  assumes "rc_client cfg" and "plain (redis_key cfg [''recovery_trace''] @ '':'')"
    and "json_object (stored_reply (view (rs_server s) (trace_key cfg tid))) = Some trace"
    and "raw_text trace ''bot_id'' = bid" "low_text trace ''status'' \<in> {''active'', ''handoff_required''}"
    and "run_state (get_blocking_recovery_trace exec cfg fuel (Some bid) None) s = (Fetched found, s')"
  shows "\<exists>x. found = Some x \<and> x \<noteq> []"
proof -
  let ?q = "blocking_query (Some bid) None"
  obtain a s1 where a: "run_state (list_recovery_traces exec cfg fuel 10 (?q ''handoff_required'')) s = (a, s1)" by (metis prod.collapse)
  with assms(6) obtain xs where xs: "a = Fetched xs" by (cases a) (auto simp: get_blocking_recovery_trace_def)
  obtain b s2 where b: "run_state (list_recovery_traces exec cfg fuel 10 (?q ''active'')) s1 = (b, s2)" by (metis prod.collapse)
  with assms(6) a xs obtain ys where ys: "b = Fetched ys" by (cases b) (auto simp: get_blocking_recovery_trace_def)
  have "view (rs_server s1) (trace_key cfg tid) = view (rs_server s) (trace_key cfg tid)"
    by (rule keeps_run [OF keeps_list_recovery_traces a])
  with assms(3) have stored: "json_object (stored_reply (view (rs_server s1) (trace_key cfg tid))) = Some trace" by simp
  have selected: "trace_selected (?q st) trace" if "low_text trace ''status'' = lower (strip st)" for st
    using assms(4) that by (simp add: trace_selected_def blocking_query_def given_text_def wants_def)
  have sts: "lower (strip ''active'') = ''active''" "lower (strip ''handoff_required'') = ''handoff_required''" by code_simp+
  have "xs @ ys \<noteq> []"
    using assms(5) list_finds_trace [OF assms(1,2,3) selected a [unfolded xs]] list_finds_trace [OF assms(1,2) stored selected b [unfolded ys]] sts
    by auto
  moreover have nonempty: "x \<noteq> []" if "x \<in> set (xs @ ys)" for x
  proof -
    have "trace_selected (?q ''handoff_required'') x \<or> trace_selected (?q ''active'') x"
      using that list_selects [OF a [unfolded xs]] list_selects [OF b [unfolded ys]] by auto
    then have "low_text x ''status'' \<noteq> []" by (auto simp: trace_selected_def blocking_query_def given_text_def wants_def sts)
    then show ?thesis by (auto simp: low_text_def text_of_def raw_text_def pget_def por_def)
  qed
  moreover have "found = first_row (newest (time_key ''updated_at'' ''created_at'') (xs @ ys))"
    using assms(6) a xs b ys by (simp add: get_blocking_recovery_trace_def)
  moreover obtain z zs where z: "newest (time_key ''updated_at'' ''created_at'') (xs @ ys) = z # zs"
    using \<open>xs @ ys \<noteq> []\<close> newest_nonempty by (metis neq_Nil_conv)
  moreover have "z \<in> set (xs @ ys)"
    using set_newest [of "time_key ''updated_at'' ''created_at''" "xs @ ys"] unfolding z by (metis list.set_intros(1))
  ultimately show ?thesis by (auto simp: first_row_def)
qed

lemma keeps_reconcile: "keeps view (trace_key cfg tid) (reconcile_pair_lock exec cfg c)"
  by (auto simp: reconcile_pair_lock_def refresh_or_release_def get_arbitrage_evaluation_def Let_def
      intro!: keeps_intros keeps_lock_request split: option.split sum.split)

lemma blocked_evaluation:
  assumes "rc_client cfg" and "info_enabled cfg" and "plain (redis_key cfg [''recovery_trace''] @ '':'')"
    and "json_object (stored_reply (view (rs_server (pf_redis s)) (trace_key cfg tid))) = Some trace"
    and "raw_text trace ''bot_id'' = cl_bot_id c" "low_text trace ''status'' \<in> {''active'', ''handoff_required''}"
    and "run_state (evaluate_unblocked exec cfg sc env c run) s = (r, s')"
  shows "pf_store s' = pf_store s \<and> ss_evaluated s' = ss_evaluated s \<and> (r = Returned () \<longrightarrow> ss_skipped s' = ss_skipped s + 1)"
proof -
  obtain b t where b: "run_state (get_blocking_recovery_trace exec cfg (en_fuel env) (Some (cl_bot_id c)) None) (pf_redis s) = (b, t)"
    by (metis prod.collapse)
  show ?thesis
  proof (cases b)
    case (Fetched found)
    from blocking_found [OF assms(1,3,4,5,6) b [unfolded Fetched]] obtain x where "found = Some x" "x \<noteq> []" by blast
    with assms(2,7) b Fetched show ?thesis
      by (auto simp: evaluate_unblocked_def run_task skip_run_def split: prod.splits)
  qed (use assms(2,7) b in \<open>auto simp: evaluate_unblocked_def run_task skip_run_def split: prod.splits\<close>)
qed

lemma blocked_run:
  assumes "rc_client cfg" and "info_enabled cfg" and "plain (redis_key cfg [''recovery_trace''] @ '':'')"
    and "json_object (stored_reply (view (rs_server (pf_redis s)) (trace_key cfg tid))) = Some trace"
    and "raw_text trace ''bot_id'' = run_bot_id run" "low_text trace ''status'' \<in> {''active'', ''handoff_required''}"
    and "run_state (evaluate_run exec cfg sc env run) s = (r, s')"
  shows "pf_store s' = pf_store s \<and> ss_evaluated s' = ss_evaluated s \<and> (r = Returned () \<longrightarrow> ss_skipped s' = ss_skipped s + 1)"
proof -
  let ?t = "(pf_redis s)\<lparr>rs_drawn := Suc (rs_drawn (pf_redis s))\<rparr>"
  let ?c = "\<lparr>cl_run_id = run_id run, cl_bot_id = run_bot_id run, cl_trace_id = ''strategy-runtime-'' @ rc_uid cfg (rs_drawn (pf_redis s))\<rparr>"
  obtain q u where q: "run_state (reconcile_pair_lock exec cfg ?c) ?t = (q, u)" by (metis prod.collapse)
  have "view (rs_server u) (trace_key cfg tid) = view (rs_server ?t) (trace_key cfg tid)"
    by (rule keeps_run [OF keeps_reconcile q])
  with assms(4) have stored: "json_object (stored_reply (view (rs_server (pf_redis (s\<lparr>pf_redis := u\<rparr>))) (trace_key cfg tid))) = Some trace"
    by simp
  show ?thesis
  proof (cases q)
    case (Inl e)
    with assms(7) q show ?thesis by (auto simp: evaluate_run_def run_task draw_uid_def Let_def)
  next
    case (Inr x)
    with assms(7) q have "run_state (evaluate_unblocked exec cfg sc env ?c run) (s\<lparr>pf_redis := u\<rparr>) = (r, s')"
      by (simp add: evaluate_run_def run_task draw_uid_def Let_def)
    from blocked_evaluation [OF assms(1,2,3) stored _ assms(6) this] assms(5) show ?thesis by simp
  qed
qed

end

section \<open>A failed submission\<close>

lemma json_ok_payload: "json_ok (PDict (sr_details r)) \<Longrightarrow> json_ok (PDict (as_payload r))"
  by (simp add: as_payload_def list_all_iff)

lemma json_ok_failed_trace:
  "json_ok (PDict (sr_details r)) \<Longrightarrow> json_ok (PDict (stored_trace tid ts (failed_trace tid ts' al c r)))"
  using json_ok_payload [of r] by (simp add: stored_trace_def failed_trace_def json_ok_dset)

lemma failed_trace_fields:
  "raw_text (stored_trace tid ts (failed_trace tid ts' al c r)) ''bot_id'' = xc_bot_id c"
  "raw_text (stored_trace tid ts (failed_trace tid ts' al c r)) ''intent_id'' = intent_id (xc_intent c)"
  "low_text (stored_trace tid ts (failed_trace tid ts' al c r)) ''status'' = ''active''"
proof -
  have "lower (strip ''active'') = ''active''" by code_simp
  then show "low_text (stored_trace tid ts (failed_trace tid ts' al c r)) ''status'' = ''active''"
    by (simp add: low_text_def text_of_def raw_text_def stored_trace_def failed_trace_def pget_Cons por_def)
qed (auto simp: raw_text_def stored_trace_def failed_trace_def pget_Cons por_def)

context redis_server
begin

lemma keeps_sync_pair_lock: "keeps view (trace_key cfg tid) (sync_pair_lock exec cfg ctx trace q)"
  by (auto simp: sync_pair_lock_def intro!: keeps_intros keeps_lock_request split: option.split)

lemma keeps_link_failed: "keeps view (trace_key cfg tid) (link_failed_trace exec cfg c tid' payload)"
  by (auto simp: link_failed_trace_def get_recovery_trace_def trace_key_others intro!: keeps_intros keeps_sync_evaluation_recovery
      split: option.split)

lemma run_open_failed_trace:
  assumes "rc_client cfg" and "run_state (open_failed_trace exec cfg c r payload al tid ts) s = (latest, s')"
  shows "view (rs_server s') (trace_key cfg tid)
    = Some (dumps (PDict (stored_trace tid (rc_now cfg (rs_drawn s)) (failed_trace tid ts al c r))))"
proof -
  define later where "later = do {
     latest \<leftarrow> link_failed_trace exec cfg c tid payload;
     _ \<leftarrow> sync_pair_lock exec cfg (context_of latest) (xc_trace_id c)
       (lock_of_call c (py_str (por (pget latest ''lifecycle_preview'') (PStr (sr_lifecycle_preview r)))) (Some tid));
     _ \<leftarrow> publish_alert_event exec cfg ''alert.created''
       [(''alert_id'', PStr (alert_id al)), (''bot_id'', opt_str (al_bot_id al)), (''level'', PStr (al_level al)),
        (''code'', PStr (al_code al))] (Some (xc_trace_id c));
     _ \<leftarrow> append_event exec cfg ''strategy_events'' ''strategy.arbitrage_submit_failed''
       (run_entries c @ [(''lifecycle_preview'', PStr (sr_lifecycle_preview r)),
         (''auto_unwind_on_failure'', PBool (xc_auto_unwind c)), (''recovery_trace_id'', PStr tid),
         (''source'', PStr ''runtime_loop'')]) (Some (xc_trace_id c));
     State_Monad.return latest }"
  have open_trace: "open_failed_trace exec cfg c r payload al tid ts
      = do { _ \<leftarrow> sync_recovery_trace exec cfg tid (failed_trace tid ts al c r) (Some (xc_trace_id c)); later }"
    by (simp add: open_failed_trace_def later_def)
  have later: "keeps view (trace_key cfg tid) later" unfolding later_def publish_alert_event_def
    by (intro keeps_intros keeps_link_failed keeps_sync_pair_lock trace_key_others)
  obtain s1 where s1: "run_state (sync_recovery_trace exec cfg tid (failed_trace tid ts al c r) (Some (xc_trace_id c))) s = ((), s1)"
    "view (rs_server s1) (trace_key cfg tid)
      = Some (dumps (PDict (stored_trace tid (rc_now cfg (rs_drawn s)) (failed_trace tid ts al c r))))"
    using run_sync_recovery_trace [OF assms(1)] by blast
  from assms(2) s1(1) have run: "run_state later s1 = (latest, s')" by (simp add: open_trace)
  have "view (rs_server s') (trace_key cfg tid) = view (rs_server s1) (trace_key cfg tid)" by (rule keeps_run [OF later run])
  with s1(2) show ?thesis by (simp only:)
qed

lemma run_submission_failed:
  assumes "rc_client cfg" and "json_ok (PDict (sr_details r))" and "run_state (submission_failed exec cfg c r payload) s = (out, s')"
  shows "\<exists>tid trace al. xo_status out = ''submit_failed'' \<and> xo_recovery_trace_id out = Some tid
    \<and> alerts (pf_store s') = al # alerts (pf_store s) \<and> al_code al = ''ARBITRAGE_SUBMIT_FAILED'' \<and> al_bot_id al = Some (xc_bot_id c)
    \<and> json_object (stored_reply (view (rs_server (pf_redis s')) (trace_key cfg tid))) = Some trace
    \<and> raw_text trace ''bot_id'' = xc_bot_id c \<and> raw_text trace ''intent_id'' = intent_id (xc_intent c)
    \<and> low_text trace ''status'' = ''active''"
proof -
  let ?n = "rs_drawn (pf_redis s)"
  define al where "al = \<lparr>alert_id = rc_uid cfg ?n, al_bot_id = Some (xc_bot_id c), al_level = ''error'',
     al_code = ''ARBITRAGE_SUBMIT_FAILED'', al_message = submit_failure_message r, al_created_at = rc_now cfg (Suc ?n),
     al_acknowledged_at = None\<rparr>"
  define tid where "tid = ''rt_'' @ rc_uid cfg (Suc (Suc ?n))"
  let ?s = "(pf_redis s)\<lparr>rs_drawn := Suc (Suc (Suc (Suc ?n)))\<rparr>"
  obtain latest t where o: "run_state (open_failed_trace exec cfg c r payload al tid (rc_now cfg (Suc (Suc (Suc ?n))))) ?s = (latest, t)"
    by (metis prod.collapse)
  let ?trace = "stored_trace tid (rc_now cfg (rs_drawn ?s)) (failed_trace tid (rc_now cfg (Suc (Suc (Suc ?n)))) al c r)"
  note stored = run_open_failed_trace [OF assms(1) o]
  from assms(3) o have out: "out = \<lparr>xo_status = ''submit_failed'', xo_latest_payload = latest, xo_recovery_trace_id = Some tid,
      xo_error_message = Some (submit_failure_message r)\<rparr>" "pf_redis s' = t" "alerts (pf_store s') = al # alerts (pf_store s)"
    by (auto simp: submission_failed_def raise_alert_def run_task draw_uid_def draw_now_def emit_alert_def al_def tid_def Let_def)
  have "json_object (stored_reply (view (rs_server (pf_redis s')) (trace_key cfg tid))) = Some ?trace"
    unfolding out(2) stored by (rule stored_text_reads [OF json_ok_failed_trace [OF assms(2)]])
  with out failed_trace_fields [of tid _ _ al c r] show ?thesis
    by (intro exI [of _ tid] exI [of _ ?trace] exI [of _ al]) (simp add: al_def)
qed

end

lemma table_scan: "table_exec [''SCAN'', c, ''MATCH'', p, ''COUNT'', n] m
    = (m, Inr (RList [RStr ''0'', RList (map (\<lambda>(k, _). RStr k) (filter (\<lambda>(k, _). starts_with (butlast p) k) m))]))"
  by (simp add: table_exec_def)

lemma table_scanned:
  assumes "scanned table_exec (p @ ''*'') ''0'' m ks" and "starts_with p k" and "map_of m k \<noteq> None"
  shows "k \<in> set ks"
  using assms(1)
proof (rule scanned_cases)
  fix r' nx b
  assume "ks = batch_keys b" and "table_exec [''SCAN'', ''0'', ''MATCH'', p @ ''*'', ''COUNT'', ''100''] m = (r', Inr (RList [nx, RList b]))"
  moreover from assms(3) obtain v where "(k, v) \<in> set m" by (metis map_of_SomeD not_None_eq)
  ultimately show ?thesis using assms(2) by (force simp: table_scan batch_keys_set)
next
  fix r' nx b ks'
  assume "table_exec [''SCAN'', ''0'', ''MATCH'', p @ ''*'', ''COUNT'', ''100''] m = (r', Inr (RList [nx, RList b]))"
    and "py_str (reply_val nx) \<noteq> ''0''"
  then show ?thesis by (simp add: table_scan) (metis py_str.simps reply_val.simps)
qed

interpretation full: complete_server table_exec map_of
  by unfold_locales (rule table_scanned)

section \<open>Claims\<close>

text \<open>
  C6. An open recovery trace stops its bot. While a stored trace names the bot and is active or waits
  for an operator, evaluating any run of the bot stores nothing, evaluates nothing, and if it ends
  without an exception the run is counted as skipped.
\<close>

theorem open_trace_stops_bot:
  assumes "complete_server exec view" and "info_enabled cfg" and "plain (redis_key cfg [''recovery_trace''] @ '':'')"
    and "json_object (stored_reply (view (rs_server (pf_redis s)) (trace_key cfg tid))) = Some trace"
    and "raw_text trace ''bot_id'' = run_bot_id run" "low_text trace ''status'' \<in> {''active'', ''handoff_required''}"
    and "run_state (evaluate_run exec cfg sc env run) s = (r, s')"
  shows "pf_store s' = pf_store s \<and> ss_evaluated s' = ss_evaluated s \<and> (r = Returned () \<longrightarrow> ss_skipped s' = ss_skipped s + 1)"
proof -
  have "rc_client cfg" using assms(2) by (simp add: info_enabled_def)
  from complete_server.blocked_run [OF assms(1) this assms(2-7)] show ?thesis .
qed

definition demo_open_trace :: obj where
  "demo_open_trace = [(''bot_id'', PStr ''b1''), (''status'', PStr ''active'')]"

definition demo_blocked :: "(string, string) dict strategy_state" where
  \<comment> \<open>a bot that would trade, but for a recovery trace\<close>
  "demo_blocked = new_strategy_state (demo_table [(trace_key demo_trade_cfg ''t1'', dumps (PDict demo_open_trace))]) demo_trade_store"

lemma open_trace_stops_bot_witness:
  "pf_store (snd (run_state (evaluate_run table_exec demo_trade_cfg demo_strategy_config demo_runtime_env demo_trade_run) demo_blocked))
    = demo_trade_store"
proof -
  have on: "info_enabled demo_trade_cfg" by (simp add: info_enabled_def demo_trade_cfg_def demo_cfg_def)
  have prefix: "plain (redis_key demo_trade_cfg [''recovery_trace''] @ '':'')" by code_simp
  have fields: "raw_text demo_open_trace ''bot_id'' = run_bot_id demo_trade_run
      \<and> low_text demo_open_trace ''status'' \<in> {''active'', ''handoff_required''}" by code_simp
  have "json_object (stored_reply (Some (dumps (PDict demo_open_trace)))) = Some demo_open_trace"
    by (rule stored_text_reads) (simp add: demo_open_trace_def)
  then have stored: "json_object (stored_reply (map_of (rs_server (pf_redis demo_blocked)) (trace_key demo_trade_cfg ''t1''))) = Some demo_open_trace"
    by (simp add: demo_blocked_def new_strategy_state_def demo_table_def del: dumps.simps)
  obtain r s' where run: "run_state (evaluate_run table_exec demo_trade_cfg demo_strategy_config demo_runtime_env demo_trade_run) demo_blocked
      = (r, s')" by (metis prod.collapse)
  have "pf_store s' = pf_store demo_blocked"
    using open_trace_stops_bot [OF full.complete_server_axioms on prefix stored conjunct1 [OF fields] conjunct2 [OF fields] run] by blast
  moreover have "pf_store demo_blocked = demo_trade_store" by (simp add: demo_blocked_def new_strategy_state_def)
  ultimately show ?thesis by (simp add: run)
qed

text \<open>
  C7. A failed submission is alerted and leaves an open trace. When the adapter submits neither leg pair nor fills,
  and nothing raises, an alert for the bot is stored and Redis holds an active recovery trace that names the bot and
  the intent, the very trace reported in the outcome.
\<close>

theorem failed_submission_opens_trace:
  assumes "redis_server exec view" and "rc_client cfg"
    and "adapter (xc_decision c) (xc_intent c) (xc_auto_unwind c) (Mem (rs_drawn (pf_redis s)) (pf_store s)) = (m, Inr r)"
    and "sr_outcome r \<notin> {''submitted'', ''filled''}" and "json_ok (PDict (sr_details r))"
    and "run_state (execute_persisted_arbitrage_intent exec cfg adapter c) s = (Returned out, s')"
  shows "\<exists>tid trace al. xo_status out = ''submit_failed'' \<and> xo_recovery_trace_id out = Some tid
    \<and> alerts (pf_store s') = al # alerts (mem_store m) \<and> al_code al = ''ARBITRAGE_SUBMIT_FAILED'' \<and> al_bot_id al = Some (xc_bot_id c)
    \<and> json_object (stored_reply (view (rs_server (pf_redis s')) (trace_key cfg tid))) = Some trace
    \<and> raw_text trace ''bot_id'' = xc_bot_id c \<and> raw_text trace ''intent_id'' = intent_id (xc_intent c)
    \<and> low_text trace ''status'' = ''active''"
proof -
  define s1 where "s1 = s\<lparr>pf_redis := (pf_redis s)\<lparr>rs_drawn := drawn m\<rparr>, pf_store := mem_store m\<rparr>"
  have adapted: "run_state (on_store (adapter (xc_decision c) (xc_intent c) (xc_auto_unwind c))) s = (Inr r, s1)"
    using assms(3) by (simp add: on_store_def s1_def)
  obtain u1 r1 where p: "run_state (publish_submission exec cfg c r) (pf_redis s1) = (u1, r1)" by (metis prod.collapse)
  from assms(6) adapted p obtain payload where closed: "maybe_close_after_terminal_fill (mem_store m) (xc_intent c) (submitted_payload c r) = Inr payload"
    by (auto simp: execute_persisted_arbitrage_intent_def run_task s1_def split: sum.splits)
  obtain u2 r2 where e: "run_state (publish_evaluation exec cfg c payload) r1 = (u2, r2)" by (metis prod.collapse)
  from assms(4,6) adapted p closed e
  have "run_state (submission_failed exec cfg c r payload) (s1\<lparr>pf_redis := r2\<rparr>) = (out, s')"
    by (auto simp: execute_persisted_arbitrage_intent_def report_submission_def run_task s1_def split: prod.splits)
  from redis_server.run_submission_failed [OF assms(1,2,5) this] show ?thesis by (simp add: s1_def)
qed

definition demo_call :: execution_call where
  "demo_call = \<lparr>xc_decision = demo_decision, xc_intent = demo_intent, xc_run_id = ''r1'', xc_bot_id = ''b1'',
     xc_trace_id = ''c1'', xc_auto_unwind = False\<rparr>"

definition demo_failed :: submit_result where
  "demo_failed = submit_failure_result False [(''mode'', PStr ''simulate_failure''), (''failed_leg'', PStr ''pre_submit''),
     (''reason'', PStr ''simulated submit failure'')] []"

lemma execute_returns:
  assumes "adapter (xc_decision c) (xc_intent c) (xc_auto_unwind c) (Mem (rs_drawn (pf_redis s)) (pf_store s)) = (m, Inr r)"
    and "maybe_close_after_terminal_fill (mem_store m) (xc_intent c) (submitted_payload c r) = Inr payload"
  shows "\<exists>out s'. run_state (execute_persisted_arbitrage_intent exec cfg adapter c) s = (Returned out, s')"
  using assms by (simp add: execute_persisted_arbitrage_intent_def on_store_def run_task split: prod.split)

lemma failed_submission_opens_trace_witness:
  "\<exists>out s' tid trace. run_state (execute_persisted_arbitrage_intent table_exec demo_trade_cfg (simulated_adapter demo_trade_cfg ''simulate_failure'')
      demo_call) (new_strategy_state (demo_table []) demo_trade_store) = (Returned out, s')
    \<and> xo_recovery_trace_id out = Some tid \<and> json_object (stored_reply (map_of (rs_server (pf_redis s')) (trace_key demo_trade_cfg tid))) = Some trace
    \<and> raw_text trace ''bot_id'' = ''b1''"
proof -
  let ?s = "new_strategy_state (demo_table []) demo_trade_store"
  let ?m = "Mem (rs_drawn (pf_redis ?s)) (pf_store ?s)"
  have "lower (strip ''simulate_failure'') = ''simulate_failure''" by code_simp
  then have adapted: "simulated_adapter demo_trade_cfg ''simulate_failure'' (xc_decision demo_call) (xc_intent demo_call) (xc_auto_unwind demo_call) ?m
      = (?m, Inr demo_failed)"
    by (simp add: simulated_adapter_def submit_arbitrage_orders_def demo_failed_def demo_call_def Let_def)
  have failed: "sr_outcome demo_failed \<notin> {''submitted'', ''filled''}" "json_ok (PDict (sr_details demo_failed))"
    by (simp_all add: demo_failed_def submit_failure_result_def Let_def)
  have "raw_text (submitted_payload demo_call demo_failed) ''lifecycle_preview'' \<noteq> ''hedge_balanced''" by code_simp
  then have "maybe_close_after_terminal_fill (mem_store ?m) (xc_intent demo_call) (submitted_payload demo_call demo_failed)
      = Inr (submitted_payload demo_call demo_failed)" by (simp add: maybe_close_after_terminal_fill_def)
  from execute_returns [where adapter = "simulated_adapter demo_trade_cfg ''simulate_failure''" and c = demo_call and s = ?s,
      OF adapted this] obtain out s' where run: "run_state (execute_persisted_arbitrage_intent table_exec demo_trade_cfg
      (simulated_adapter demo_trade_cfg ''simulate_failure'') demo_call) ?s = (Returned out, s')" by blast
  have "rc_client demo_trade_cfg" by (simp add: demo_trade_cfg_def demo_cfg_def)
  from failed_submission_opens_trace [where adapter = "simulated_adapter demo_trade_cfg ''simulate_failure''" and c = demo_call and s = ?s,
      OF tables.redis_server_axioms this adapted failed run] run show ?thesis
    by (auto simp: demo_call_def)
qed

end
