(* ===== verification/StrategyClaims.thy ===== *)
theory StrategyClaims
  imports StrategyDemo
begin

text \<open>
  What ticks of the strategy loop do: the counters of the runtime over any sequence of ticks, the runs a
  tick takes up, and when an order intent is stored.
\<close>

section \<open>Counters\<close>

record tally =
  t_evaluated :: int
  t_accepted :: int
  t_rejected :: int
  t_persisted :: int
  t_attempt :: int
  t_success :: int
  t_failure :: int
  t_handled :: int

definition tally_of :: "'r strategy_state \<Rightarrow> tally" where
  "tally_of s = \<lparr>t_evaluated = ss_evaluated s, t_accepted = ss_accepted s, t_rejected = ss_rejected s,
     t_persisted = ss_persisted s, t_attempt = ss_submit_attempt s, t_success = ss_submit_success s,
     t_failure = ss_submit_failure s, t_handled = ss_evaluated s + ss_skipped s + ss_failure s\<rparr>"

definition grown :: "int \<Rightarrow> int \<Rightarrow> int \<Rightarrow> tally \<Rightarrow> tally \<Rightarrow> bool" where
  \<comment> \<open>the counters only grow; each stage grows at most as much as the one before it, give or take the slack\<close>
  "grown p a b c c' = (t_evaluated c' - t_evaluated c = t_accepted c' - t_accepted c + (t_rejected c' - t_rejected c)
     \<and> t_accepted c \<le> t_accepted c' \<and> t_rejected c \<le> t_rejected c' \<and> t_persisted c \<le> t_persisted c'
     \<and> t_attempt c \<le> t_attempt c' \<and> t_success c \<le> t_success c' \<and> t_failure c \<le> t_failure c'
     \<and> t_persisted c' - t_persisted c \<le> t_accepted c' - t_accepted c + p
     \<and> t_attempt c' - t_attempt c \<le> t_persisted c' - t_persisted c + a
     \<and> t_success c' - t_success c + (t_failure c' - t_failure c) \<le> t_attempt c' - t_attempt c + b)"

definition grows :: "int \<Rightarrow> int \<Rightarrow> int \<Rightarrow> ('r, 'a) strategy \<Rightarrow> bool" where
  "grows p a b m = (\<forall>s :: 'r strategy_state. grown p a b (tally_of s) (tally_of (snd (run_state m s))))"

lemma grown_trans: "grown p a b c d \<Longrightarrow> grown p' a' b' d e \<Longrightarrow> grown (p + p') (a + a') (b + b') c e"
  by (simp add: grown_def)

lemma grown_weaken: "grown p a b c d \<Longrightarrow> p \<le> p' \<Longrightarrow> a \<le> a' \<Longrightarrow> b \<le> b' \<Longrightarrow> grown p' a' b' c d"
  by (simp add: grown_def)

lemma grows_weaken: "grows p a b m \<Longrightarrow> p \<le> p' \<Longrightarrow> a \<le> a' \<Longrightarrow> b \<le> b' \<Longrightarrow> grows p' a' b' m"
  unfolding grows_def using grown_weaken by blast

lemma grows_bind:
  assumes "grows p a b m" and "\<And>x. grows p' a' b' (f x)" and "p + p' = q" "a + a' = c" "b + b' = d"
  shows "grows q c d (State_Monad.bind m f)"
  unfolding grows_def
proof
  fix s :: "'a strategy_state"
  obtain x t where m: "run_state m s = (x, t)" by (metis prod.collapse)
  from assms(1) m have "grown p a b (tally_of s) (tally_of t)" by (metis grows_def snd_conv)
  moreover have "grown p' a' b' (tally_of t) (tally_of (snd (run_state (f x) t)))" using assms(2) by (simp add: grows_def)
  ultimately show "grown q c d (tally_of s) (tally_of (snd (run_state (State_Monad.bind m f) s)))"
    using m grown_trans assms(3-5) by fastforce
qed

lemma grows_return: "0 \<le> p \<Longrightarrow> 0 \<le> a \<Longrightarrow> 0 \<le> b \<Longrightarrow> grows p a b (State_Monad.return x)"
  by (simp add: grows_def grown_def)

lemma grows_finished: "0 \<le> p \<Longrightarrow> 0 \<le> a \<Longrightarrow> 0 \<le> b \<Longrightarrow> grows p a b finished"
  by (simp add: finished_def grows_return)

lemma grows_and_then:
  assumes "grows p a b m" and "\<And>x. grows p' a' b' (f x)" and "p + p' = q" "a + a' = c" "b + b' = d"
    and "0 \<le> p'" "0 \<le> a'" "0 \<le> b'"
  shows "grows q c d (and_then m f)"
  unfolding and_then_def
  by (rule grows_bind [OF assms(1) _ assms(3-5)]) (simp add: assms(2) grows_return [OF assms(6-8)] split: run.split)

abbreviation steady :: "('r, 'a) strategy \<Rightarrow> bool" where
  "steady m \<equiv> grows 0 0 0 m"

definition silent :: "('r, 'a) strategy \<Rightarrow> bool" where
  \<comment> \<open>the counters stay\<close>
  "silent m = (\<forall>s :: 'r strategy_state. tally_of (snd (run_state m s)) = tally_of s)"

lemma silent_grows: "silent m \<Longrightarrow> grows 0 0 0 m"
  by (simp add: silent_def grows_def grown_def)

lemma silent_return: "silent (State_Monad.return x)"
  by (simp add: silent_def)

lemma silent_bind: "silent m \<Longrightarrow> (\<And>x. silent (f x)) \<Longrightarrow> silent (State_Monad.bind m f)"
  by (simp add: silent_def split: prod.splits) (metis snd_conv)

lemma silent_on_redis: "silent (on_redis m)"
  by (simp add: silent_def run_task tally_of_def split: prod.split)

lemma silent_on_store: "silent (on_store f)"
  by (simp add: silent_def on_store_def tally_of_def split: prod.split)

lemma silent_reading: "silent (reading f)"
  by (simp add: silent_def run_task)

lemma silent_finished: "silent finished"
  by (simp add: silent_def run_task)

lemma silent_then_done: "silent m \<Longrightarrow> silent (then_done m)"
  by (simp add: silent_def run_task)

lemma silent_raise_alert: "silent (raise_alert cfg bid level code message)"
  unfolding raise_alert_def
  by (intro silent_bind silent_on_redis) (simp add: silent_def tally_of_def split: prod.split)

lemmas silent_intros = silent_return silent_bind silent_on_redis silent_on_store silent_reading silent_finished
  silent_then_done silent_raise_alert

lemma silent_execute: "silent (execute_persisted_arbitrage_intent exec cfg adapter c)"
  by (auto simp: execute_persisted_arbitrage_intent_def report_submission_def submission_failed_def intro!: silent_intros
      split: sum.split)

lemma grows_then_done: "grows p a b m \<Longrightarrow> grows p a b (then_done m)"
  by (simp add: grows_def run_task)

lemma grows_after: "silent m \<Longrightarrow> (\<And>x. grows p a b (f x)) \<Longrightarrow> grows p a b (State_Monad.bind m f)"
  by (rule grows_bind [OF silent_grows]) simp_all

lemma steady_and_then: "steady m \<Longrightarrow> (\<And>x. steady (f x)) \<Longrightarrow> steady (and_then m f)"
  using grows_and_then [of 0 0 0 m 0 0 0 f 0 0 0] by simp

lemma grows_changing: "(\<And>s. grown p a b (tally_of s) (tally_of (f s))) \<Longrightarrow> grows p a b (changing f)"
  by (simp add: grows_def run_task)

lemma grows_record_success: "grows (if ok then -1 else 0) 0 0 (record_success cfg ok)"
  unfolding record_success_def
  by (intro grows_after silent_on_redis grows_changing) (simp add: grown_def tally_of_def)

lemma steady_skip_run: "steady (skip_run cfg reason detail)"
  unfolding skip_run_def
  by (intro grows_after silent_on_redis grows_then_done grows_changing) (simp add: grown_def tally_of_def)

lemma steady_record_failure: "steady (record_failure cfg e)"
  unfolding record_failure_def
  by (intro grows_after silent_on_redis grows_then_done grows_changing) (simp add: grown_def tally_of_def)

lemma grows_record_submission: "grows 0 0 1 (record_submission cfg out)"
  unfolding record_submission_def
  by (auto intro!: grows_after silent_on_redis grows_then_done grows_changing simp: grown_def tally_of_def)

lemma grows_submit_intent: "grows 0 1 0 (submit_intent exec cfg sc adapter c d i)"
proof -
  have attempt: "grows 0 1 (-1) (changing (\<lambda>s. s\<lparr>ss_submit_attempt := ss_submit_attempt s + 1\<rparr>))"
    by (rule grows_changing) (simp add: grown_def tally_of_def)
  have rest: "grows 0 0 1 (and_then (execute_persisted_arbitrage_intent exec cfg adapter call) (record_submission cfg))" for call
    by (rule grows_and_then [OF silent_grows [OF silent_execute] grows_record_submission]) simp_all
  show ?thesis by (auto simp: submit_intent_def intro!: grows_finished grows_bind [OF attempt rest])
qed

lemma grows_count_persisted: "grows 1 (-1) 0 (count_persisted cfg)"
  unfolding count_persisted_def
  by (intro grows_after silent_on_redis grows_changing) (simp add: grown_def tally_of_def)

lemma grows_persist_decision: "grows 1 0 0 (persist_decision exec cfg sc adapter c d held)"
proof -
  have counted: "grows 1 0 0 (State_Monad.bind (count_persisted cfg) (\<lambda>_. submit_intent exec cfg sc adapter c d i))" for i
    by (rule grows_bind [OF grows_count_persisted grows_submit_intent]) simp_all
  have freed: "grows 1 0 0 (then_done (on_redis (run_if held m)))" for m :: "('r, 'z) redis"
    by (rule grows_weaken [OF silent_grows [OF silent_then_done [OF silent_on_redis]]]) simp_all
  show ?thesis unfolding persist_decision_def
    by (auto intro!: grows_after silent_on_store silent_on_redis counted freed split: option.split)
qed

lemma steady_carry_out: "steady (carry_out_decision exec cfg sc adapter c d)"
proof -
  have rest: "steady (do { _ \<leftarrow> record_success cfg (accepted x);
      (if may_persist sc x then persist_decision exec cfg sc adapter c x held else finished) })" for x held
  proof (cases "accepted x")
    case True
    have "grows 1 0 0 (if may_persist sc x then persist_decision exec cfg sc adapter c x held else finished)"
      by (simp add: grows_persist_decision grows_finished)
    with True grows_record_success [of True cfg] show ?thesis by (intro grows_bind) auto
  next
    case False
    then show ?thesis using grows_record_success [of False cfg]
      by (intro grows_bind) (auto simp: may_persist_def silent_grows silent_finished)
  qed
  show ?thesis unfolding carry_out_decision_def
    by (rule grows_after, simp add: silent_on_redis silent_return)
       (simp only: split: prod.split, intro allI impI grows_after [OF silent_on_redis rest])
qed

lemma steady_evaluate_loaded: "steady (evaluate_loaded exec cfg sc adapter c r)"
  by (auto simp: evaluate_loaded_def intro!: steady_skip_run steady_record_failure steady_carry_out
      silent_grows silent_return split: option.split sum.split)

lemma steady_load_and_evaluate: "steady (load_and_evaluate exec cfg sc env c run)"
  by (auto simp: load_and_evaluate_def intro!: grows_after silent_intros steady_evaluate_loaded silent_grows [OF silent_return]
      split: sum.split)

lemma steady_evaluate_unblocked: "steady (evaluate_unblocked exec cfg sc env c run)"
  by (auto simp: evaluate_unblocked_def intro!: grows_after silent_on_redis steady_load_and_evaluate steady_skip_run
      silent_grows [OF silent_return] split: fetched.split option.split)

lemma steady_evaluate_run: "steady (evaluate_run exec cfg sc env run)"
  by (auto simp: evaluate_run_def Let_def intro!: grows_after silent_on_redis steady_evaluate_unblocked
      silent_grows [OF silent_return] split: sum.split)

lemma steady_for_each: "(\<And>i x. steady (f i x)) \<Longrightarrow> steady (for_each stop f i xs)"
  by (induction xs arbitrary: i) (auto intro!: steady_and_then silent_grows [OF silent_finished])

lemma steady_tick: "steady (strategy_tick exec cfg sc env)"
  unfolding strategy_tick_def by (intro grows_after silent_reading steady_for_each steady_evaluate_run)

inductive strategy_reach :: "'r server \<Rightarrow> redis_config \<Rightarrow> strategy_config \<Rightarrow> 'r strategy_state \<Rightarrow> bool" for exec cfg sc where
  start: "strategy_reach exec cfg sc (new_strategy_state r st)"
| others: "strategy_reach exec cfg sc s \<Longrightarrow> strategy_reach exec cfg sc (s\<lparr>pf_redis := r, pf_store := st, ss_running := b\<rparr>)"
| ticked: "strategy_reach exec cfg sc s \<Longrightarrow> run_state (strategy_tick exec cfg sc env) s = (r, s') \<Longrightarrow>
     strategy_reach exec cfg sc s'"

section \<open>Runs taken up\<close>

definition handles :: "int \<Rightarrow> ('r, 'a) strategy \<Rightarrow> bool" where
  "handles n m = (\<forall>s :: 'r strategy_state. t_handled (tally_of (snd (run_state m s))) = t_handled (tally_of s) + n)"

lemma handles_after: "silent m \<Longrightarrow> (\<And>x. handles n (f x)) \<Longrightarrow> handles n (State_Monad.bind m f)"
  by (simp add: silent_def handles_def split: prod.splits) (metis snd_conv)

lemma handles_before: "handles n m \<Longrightarrow> (\<And>x. handles 0 (f x)) \<Longrightarrow> handles n (State_Monad.bind m f)"
  by (simp add: handles_def split: prod.splits) (metis snd_conv)

lemma silent_handles: "silent m \<Longrightarrow> handles 0 m"
  by (simp add: silent_def handles_def)

lemma handles_then_done: "handles n m \<Longrightarrow> handles n (then_done m)"
  by (simp add: handles_def run_task)

lemma handles_changing: "(\<And>s. t_handled (tally_of (f s)) = t_handled (tally_of s) + n) \<Longrightarrow> handles n (changing f)"
  by (simp add: handles_def run_task)

lemma handles_and_then: "silent m \<Longrightarrow> (\<And>x. handles 0 (f x)) \<Longrightarrow> handles 0 (and_then m f)"
  unfolding and_then_def by (rule handles_after) (auto intro: silent_handles silent_return split: run.split)

lemma handles_record_success: "handles 1 (record_success cfg ok)"
  unfolding record_success_def
  by (intro handles_after silent_on_redis handles_changing) (simp add: tally_of_def)

lemma handles_skip_run: "handles 1 (skip_run cfg reason detail)"
  unfolding skip_run_def
  by (intro handles_after silent_on_redis handles_then_done handles_changing) (simp add: tally_of_def)

lemma handles_record_failure: "handles 1 (record_failure cfg e)"
  unfolding record_failure_def
  by (intro handles_after silent_on_redis handles_then_done handles_changing) (simp add: tally_of_def)

lemma handles_record_submission: "handles 0 (record_submission cfg out)"
  unfolding record_submission_def
  by (auto intro!: handles_after silent_on_redis handles_then_done handles_changing simp: tally_of_def)

lemma handles_submit_intent: "handles 0 (submit_intent exec cfg sc adapter c d i)"
proof -
  have "handles 0 (changing (\<lambda>s. s\<lparr>ss_submit_attempt := ss_submit_attempt s + 1\<rparr>))"
    by (rule handles_changing) (simp add: tally_of_def)
  then have "handles 0 (State_Monad.bind (changing (\<lambda>s. s\<lparr>ss_submit_attempt := ss_submit_attempt s + 1\<rparr>))
      (\<lambda>_. and_then (execute_persisted_arbitrage_intent exec cfg adapter call) (record_submission cfg)))" for call
    by (rule handles_before) (intro handles_and_then silent_execute handles_record_submission)
  then show ?thesis by (simp add: submit_intent_def silent_handles silent_finished)
qed

lemma handles_persist_decision: "handles 0 (persist_decision exec cfg sc adapter c d held)"
proof -
  have "handles 0 (count_persisted cfg)" unfolding count_persisted_def
    by (intro handles_after silent_on_redis handles_changing) (simp add: tally_of_def)
  then have "handles 0 (State_Monad.bind (count_persisted cfg) (\<lambda>_. submit_intent exec cfg sc adapter c d i))" for i
    by (rule handles_before) (rule handles_submit_intent)
  then show ?thesis unfolding persist_decision_def
    by (auto intro!: handles_after [OF silent_on_store] handles_after [OF silent_on_redis] silent_handles [OF silent_then_done]
        silent_on_redis split: option.split)
qed

lemma handles_carry_out: "handles 1 (carry_out_decision exec cfg sc adapter c d)"
proof -
  have "handles 0 (if may_persist sc x then persist_decision exec cfg sc adapter c x held else finished)" for x held
    by (simp add: handles_persist_decision silent_handles silent_finished)
  then have "handles 1 (State_Monad.bind (record_success cfg (accepted x))
      (\<lambda>_. if may_persist sc x then persist_decision exec cfg sc adapter c x held else finished))" for x held
    by (rule handles_before [OF handles_record_success])
  note rest = handles_after [OF silent_on_redis this]
  show ?thesis unfolding carry_out_decision_def
    by (rule handles_after, simp add: silent_on_redis silent_return)
       (simp only: split: prod.split, intro allI impI rest)
qed

fun counted_once :: "int \<Rightarrow> unit run \<times> 'r strategy_state \<Rightarrow> bool" where
  \<comment> \<open>counted once, unless an exception ends it\<close>
  "counted_once n (Returned _, s') = (t_handled (tally_of s') = n + 1)"
| "counted_once n (_, s') = (t_handled (tally_of s') \<in> {n, n + 1})"

definition takes_up :: "('r, unit run) strategy \<Rightarrow> bool" where
  "takes_up m = (\<forall>s :: 'r strategy_state. counted_once (t_handled (tally_of s)) (run_state m s))"

lemma handles_takes_up:
  assumes "handles 1 m"
  shows "takes_up m"
  unfolding takes_up_def
proof
  fix s :: "'a strategy_state"
  obtain r t where m: "run_state m s = (r, t)" by (metis prod.collapse)
  with assms have "t_handled (tally_of t) = t_handled (tally_of s) + 1" by (metis handles_def snd_conv)
  with m show "counted_once (t_handled (tally_of s)) (run_state m s)" by (cases r) simp_all
qed

lemma takes_up_after:
  assumes "silent m" and "\<And>x. takes_up (f x)"
  shows "takes_up (State_Monad.bind m f)"
  unfolding takes_up_def
proof
  fix s :: "'a strategy_state"
  obtain x t where m: "run_state m s = (x, t)" by (metis prod.collapse)
  with assms(1) have t: "tally_of t = tally_of s" by (metis silent_def snd_conv)
  from assms(2) [of x] have "counted_once (t_handled (tally_of t)) (run_state (f x) t)" by (simp add: takes_up_def)
  with m t show "counted_once (t_handled (tally_of s)) (run_state (State_Monad.bind m f) s)" by simp
qed

lemma takes_up_raise: "takes_up (State_Monad.return (Raised e))" "takes_up (State_Monad.return Out_of_fuel)"
  by (simp_all add: takes_up_def)

lemma takes_up_evaluate_loaded: "takes_up (evaluate_loaded exec cfg sc adapter c r)"
  unfolding evaluate_loaded_def
  by (simp split: option.split sum.split prod.split add: takes_up_raise handles_takes_up [OF handles_skip_run]
      handles_takes_up [OF handles_record_failure] handles_takes_up [OF handles_carry_out])

lemma takes_up_load_and_evaluate: "takes_up (load_and_evaluate exec cfg sc env c run)"
  by (auto simp: load_and_evaluate_def intro!: takes_up_after silent_intros takes_up_evaluate_loaded takes_up_raise
      split: sum.split)

lemma takes_up_evaluate_unblocked: "takes_up (evaluate_unblocked exec cfg sc env c run)"
  by (auto simp: evaluate_unblocked_def intro!: takes_up_after silent_on_redis takes_up_load_and_evaluate takes_up_raise
      handles_takes_up [OF handles_skip_run] split: fetched.split option.split)

lemma takes_up_evaluate_run: "takes_up (evaluate_run exec cfg sc env run)"
  by (auto simp: evaluate_run_def Let_def intro!: takes_up_after silent_on_redis takes_up_evaluate_unblocked takes_up_raise
      split: sum.split)

lemma for_each_takes_up:
  assumes "\<And>i x. takes_up (f i x)" and "\<And>j. \<not> stop j"
    and "run_state (for_each stop f i xs) s = (Returned (), s')"
  shows "t_handled (tally_of s') = t_handled (tally_of s) + int (length xs)"
  using assms(3)
proof (induction xs arbitrary: i s)
  case (Cons x xs)
  obtain q t where q: "run_state (f i x) s = (q, t)" by (metis prod.collapse)
  have go: "\<not> stop i" by (rule assms(2))
  with Cons.prems q obtain u where r: "q = Returned u" by (cases q) (simp_all add: run_task)
  with Cons.prems go q have "run_state (for_each stop f (Suc i) xs) t = (Returned (), s')" by (simp add: run_task)
  note Cons.IH [OF this]
  moreover from assms(1) [of i x] q r have "t_handled (tally_of t) = t_handled (tally_of s) + 1"
    unfolding takes_up_def by (metis counted_once.simps(1))
  ultimately show ?case by simp
qed (simp add: run_task)

section \<open>Claims\<close>

text \<open>
  C32. The counters of the strategy runtime account for every decision. Over any sequence of ticks, with any
  server, adapter and inputs and any changes of Redis and the store in between, every evaluated run was
  accepted or rejected, no more intents were stored than decisions accepted, no more submissions tried
  than intents stored, and no more succeeded or failed than were tried.
\<close>

theorem strategy_counters_balance:
  assumes "strategy_reach exec cfg sc s"
  shows "ss_evaluated s = ss_accepted s + ss_rejected s \<and> 0 \<le> ss_rejected s
    \<and> ss_persisted s \<le> ss_accepted s \<and> ss_submit_attempt s \<le> ss_persisted s
    \<and> ss_submit_success s + ss_submit_failure s \<le> ss_submit_attempt s
    \<and> 0 \<le> ss_submit_success s \<and> 0 \<le> ss_submit_failure s"
  using assms
proof (induction rule: strategy_reach.induct)
  case (ticked s env r s')
  have "grown 0 0 0 (tally_of s) (tally_of s')"
    using steady_tick [of exec cfg sc env] ticked.hyps(2) unfolding grows_def by (metis snd_conv)
  with ticked.IH show ?case by (simp add: grown_def tally_of_def)
qed (simp_all add: new_strategy_state_def)

definition demo_start :: "(string, string) dict strategy_state" where
  "demo_start = new_strategy_state (demo_table []) demo_trade_store"

lemma strategy_counters_balance_witness:
  "ss_persisted (snd (run_state (strategy_tick table_exec demo_trade_cfg demo_strategy_config demo_runtime_env) demo_start))
    \<le> ss_accepted (snd (run_state (strategy_tick table_exec demo_trade_cfg demo_strategy_config demo_runtime_env) demo_start))"
proof -
  obtain r s where run: "run_state (strategy_tick table_exec demo_trade_cfg demo_strategy_config demo_runtime_env) demo_start = (r, s)"
    by (metis prod.collapse)
  have "strategy_reach table_exec demo_trade_cfg demo_strategy_config demo_start"
    unfolding demo_start_def by (rule strategy_reach.start)
  from strategy_counters_balance [OF strategy_reach.ticked [OF this run]] show ?thesis by (simp add: run)
qed

text \<open>
  C33. A tick leaves no run out. When a tick ends without an exception and the loop was not told to stop, each
  running arbitrage run was counted exactly once: as evaluated, as skipped or as failed.
\<close>

theorem tick_counts_every_run:
  assumes "run_state (strategy_tick exec cfg sc env) s = (Returned (), s')" and "\<forall>j. \<not> en_stop env j"
  shows "ss_evaluated s' + ss_skipped s' + ss_failure s'
    = ss_evaluated s + ss_skipped s + ss_failure s + int (length (arbitrage_runs (pf_store s)))"
proof -
  from assms(1) have "run_state (for_each (en_stop env) (\<lambda>_. evaluate_run exec cfg sc env) 0 (arbitrage_runs (pf_store s))) s
      = (Returned (), s')" by (simp add: strategy_tick_def run_task)
  from for_each_takes_up [OF takes_up_evaluate_run _ this] assms(2) show ?thesis by (simp add: tally_of_def)
qed

definition demo_idle :: "(string, string) dict strategy_state" where
  \<comment> \<open>the run of a bot that was removed\<close>
  "demo_idle = new_strategy_state (demo_table []) (demo_trade_store\<lparr>bot_details := []\<rparr>)"

lemma tick_counts_every_run_witness:
  "ss_evaluated (snd (run_state (strategy_tick table_exec demo_trade_cfg demo_strategy_config demo_runtime_env) demo_idle))
   + ss_skipped (snd (run_state (strategy_tick table_exec demo_trade_cfg demo_strategy_config demo_runtime_env) demo_idle))
   + ss_failure (snd (run_state (strategy_tick table_exec demo_trade_cfg demo_strategy_config demo_runtime_env) demo_idle)) = 1"
proof -
  obtain r s where run: "run_state (strategy_tick table_exec demo_trade_cfg demo_strategy_config demo_runtime_env) demo_idle = (r, s)"
    by (metis prod.collapse)
  have "case run_state (strategy_tick table_exec demo_trade_cfg demo_strategy_config demo_runtime_env) demo_idle of
      (Returned _, _) \<Rightarrow> True | _ \<Rightarrow> False" by code_simp
  with run have r: "r = Returned ()" by (cases r) simp_all
  have "length (arbitrage_runs (pf_store demo_idle)) = 1" by code_simp
  moreover have "ss_evaluated demo_idle = 0" "ss_skipped demo_idle = 0" "ss_failure demo_idle = 0"
    by (simp_all add: demo_idle_def new_strategy_state_def)
  moreover have "\<forall>j. \<not> en_stop demo_runtime_env j" by (simp add: demo_runtime_env_def)
  ultimately show ?thesis using tick_counts_every_run [OF run [unfolded r]] run by simp
qed

end
