(* ===== verification/RequestUtils.thy ===== *)
theory RequestUtils
  imports InputLoader Json
begin

text \<open>
  \<open>request_utils.py\<close>: reading and checking the values of a request body, and the response envelope.
  A response is the number of its HTTP status and its payload. The writers (\<open>write_json\<close>,
  \<open>write_text\<close>) only put bytes on the socket and are left out. A JSON number with a fraction is not among
  the values (see \<open>PyValue\<close>, \<open>Json\<close>): a body with one is unreadable here, while Python reads a float, which
  \<open>json_number_text\<close> formats. Decimal exponents are unbounded, so its formatting never raises \<open>Overflow\<close>.
\<close>

section \<open>Responses and bodies\<close>

type_synonym response = "int \<times> obj"

definition response_payload :: "string \<Rightarrow> pyval \<Rightarrow> pyval \<Rightarrow> obj" where
  "response_payload request_id data error =
     [(''success'', PBool (error = PNone)), (''data'', data), (''error'', error), (''request_id'', PStr request_id)]"

definition error_response :: "string \<Rightarrow> int \<Rightarrow> string \<Rightarrow> string \<Rightarrow> response" where
  \<comment> \<open>\<open>status, self._response(error={"code": code, "message": message})\<close>\<close>
  "error_response request_id status code message =
     (status, response_payload request_id PNone (PDict [(''code'', PStr code), (''message'', PStr message)]))"

definition read_json_body :: "string \<Rightarrow> string option \<Rightarrow> (int \<Rightarrow> string) \<Rightarrow> response + obj" where
  \<comment> \<open>the \<open>Content-Length\<close> header and what reading so many bytes gives\<close>
  "read_json_body request_id length_header raw =
     (case length_header of
        None \<Rightarrow> Inl (error_response request_id 400 ''INVALID_REQUEST'' ''missing request body'')
      | Some h \<Rightarrow>
          if h = [] then Inl (error_response request_id 400 ''INVALID_REQUEST'' ''missing request body'')
          else (case int_of_str h of
              None \<Rightarrow> Inl (error_response request_id 400 ''INVALID_REQUEST'' ''invalid content length'')
            | Some n \<Rightarrow>
                (case loads (raw n) of
                   None \<Rightarrow> Inl (error_response request_id 400 ''INVALID_JSON'' ''request body is not valid json'')
                 | Some (PDict d) \<Rightarrow> Inr d
                 | Some _ \<Rightarrow> Inl (error_response request_id 400 ''INVALID_REQUEST'' ''request body must be an object''))))"

section \<open>Query parameters\<close>

definition single_query_value :: "(string, string list) dict \<Rightarrow> string \<Rightarrow> string option" where
  "single_query_value params key = (case map_of params key of Some (v # _) \<Rightarrow> Some v | _ \<Rightarrow> None)"

definition query_limit :: "(string, string list) dict \<Rightarrow> int \<Rightarrow> int" where
  "query_limit params dflt = (case single_query_value params ''limit'' of
      None \<Rightarrow> dflt
    | Some raw \<Rightarrow> (case int_of_str raw of None \<Rightarrow> dflt | Some v \<Rightarrow> max 1 (min v 100)))"

definition optional_bool :: "string option \<Rightarrow> bool option" where
  "optional_bool v = (case v of None \<Rightarrow> None | Some t \<Rightarrow>
     (let low = lower (strip t) in
      if low \<in> {''true'', ''1'', ''yes''} then Some True
      else if low \<in> {''false'', ''0'', ''no''} then Some False else None))"

section \<open>Values of a body\<close>

fun optional_string :: "pyval \<Rightarrow> string option" where
  "optional_string PNone = None"
| "optional_string v = Some (py_str v)"

abbreviation json_string :: "pyval \<Rightarrow> string option" where
  "json_string \<equiv> as_str"

fun optional_int :: "pyval \<Rightarrow> int option" where
  "optional_int PNone = None"
| "optional_int (PBool b) = Some (if b then 1 else 0)"
| "optional_int (PInt i) = Some i"
| "optional_int v = int_of_str (py_str v)"

fun json_int :: "pyval \<Rightarrow> int option" where
  "json_int (PInt i) = Some i"
| "json_int _ = None"

fun text_items :: "string list \<Rightarrow> pyval list \<Rightarrow> string list option" where
  \<comment> \<open>the items of a list of texts from here on, those in the first argument having been seen\<close>
  "text_items seen [] = Some []"
| "text_items seen (PStr s # xs) =
     (let t = strip s in
      if t = [] then None
      else if t \<in> set seen then text_items seen xs
      else map_option ((#) t) (text_items (t # seen) xs))"
| "text_items seen (_ # xs) = None"

definition json_string_list :: "pyval \<Rightarrow> string list option" where
  "json_string_list v = (case v of PList xs \<Rightarrow> text_items [] xs | _ \<Rightarrow> None)"

abbreviation optional_object :: "pyval \<Rightarrow> obj option" where
  "optional_object \<equiv> as_dict"

definition number_text :: "string \<Rightarrow> string option" where
  "number_text t = map_option (\<lambda>d. let n = dplain d in if n = [] then ''0'' else n) (dparse t)"

fun json_number_text :: "pyval \<Rightarrow> string option" where
  "json_number_text (PInt i) = number_text (int_str i)"
| "json_number_text (PStr s) = number_text s"
| "json_number_text _ = None"

definition is_positive_number_text :: "string \<Rightarrow> bool" where
  "is_positive_number_text t = (case dparse t of None \<Rightarrow> False | Some d \<Rightarrow> dlt (Dec 0 0) d)"

definition is_nonnegative_number_text :: "string \<Rightarrow> bool" where
  "is_nonnegative_number_text t = (case dparse t of None \<Rightarrow> False | Some d \<Rightarrow> dle (Dec 0 0) d)"

definition json_datetime_text :: "pyval \<Rightarrow> string option" where
  "json_datetime_text v = (case v of PStr s \<Rightarrow> map_option iso_z (parse_iso (replace_Z s)) | _ \<Rightarrow> None)"

section \<open>Facts\<close>

lemma text_items_text: "text_items seen (PStr s # xs) = Some ys \<longleftrightarrow> strip s \<noteq> [] \<and>
    (if strip s \<in> set seen then text_items seen xs = Some ys
     else \<exists>zs. text_items (strip s # seen) xs = Some zs \<and> ys = strip s # zs)"
  by (auto simp: Let_def)

definition clean_texts :: "string list \<Rightarrow> string list \<Rightarrow> bool" where
  "clean_texts seen ys = (distinct ys \<and> set ys \<inter> set seen = {} \<and> list_all (\<lambda>y. y \<noteq> [] \<and> strip y = y) ys)"

lemma text_items_clean: "text_items seen xs = Some ys \<Longrightarrow> clean_texts seen ys"
proof (induction xs arbitrary: seen ys)
  case Nil
  then show ?case by (simp add: clean_texts_def)
next
  case (Cons x xs)
  show ?case
  proof (cases x)
    case (PStr s)
    show ?thesis
    proof (cases "strip s \<in> set seen")
      case True
      with Cons.prems PStr show ?thesis by (simp only: text_items_text if_True Cons.IH)
    next
      case False
      with Cons.prems PStr obtain zs where "text_items (strip s # seen) xs = Some zs" "ys = strip s # zs" "strip s \<noteq> []"
        unfolding PStr text_items_text by auto
      with Cons.IH [of "strip s # seen" zs] False show ?thesis by (auto simp: clean_texts_def)
    qed
  qed (use Cons.prems in simp_all)
qed

lemma json_string_list_clean: "json_string_list v = Some ys \<Longrightarrow> clean_texts [] ys"
  using text_items_clean by (simp add: json_string_list_def split: pyval.splits)

lemma query_limit_bounds: "1 \<le> dflt \<Longrightarrow> dflt \<le> 100 \<Longrightarrow> 1 \<le> query_limit params dflt \<and> query_limit params dflt \<le> 100"
  by (simp add: query_limit_def split: option.split)

lemma positive_number_iff: "is_positive_number_text t \<longleftrightarrow> (\<exists>d. dparse t = Some d \<and> 0 < dval d)"
  by (simp add: is_positive_number_text_def dlt_iff split: option.split)

lemma nonnegative_number_iff: "is_nonnegative_number_text t \<longleftrightarrow> (\<exists>d. dparse t = Some d \<and> 0 \<le> dval d)"
  by (simp add: is_nonnegative_number_text_def dle_iff split: option.split)

end
