(* ===== verification/PrivateHttp.thy ===== *)
theory PrivateHttp
  imports RequestUtils StrategyExecution "HOL-Library.Product_Lexorder"
begin

text \<open>
  \<open>strategy/arbitrage_private_execution_adapter.py\<close>: an accepted intent is sent to an external executor
  and its reply, any JSON object at all, is checked and turned into orders and fills of the store. The
  network is a parameter: what \<open>urlopen\<close> does with a request is an \<open>http_reply\<close>. The store is a record of
  the operations the adapter calls on a state of any type; \<open>clock n\<close> is the time text drawn for the
  n-th fill of a reply.
\<close>

section \<open>The store and the network\<close>

record 's live_ops =
  lv_base :: "'s order_ops"
  lv_orders :: "order_query \<Rightarrow> 's \<Rightarrow> order_view list res"
  lv_fills :: "fill_query \<Rightarrow> 's \<Rightarrow> fill list"

record http_request =
  rq_url :: string
  rq_authorization :: "string option"
  rq_timeout_ms :: int
  rq_payload :: obj

datatype http_reply =
    Http_error int string \<comment> \<open>\<open>HTTPError\<close> with its code and its stripped body, empty if unreadable\<close>
  | Url_error string
  | Timed_out
  | Http_body string
  | Http_raises pyexc

section \<open>Texts and failures\<close>

definition ALLOWED_ORDER_STATUSES :: "string list" where
  "ALLOWED_ORDER_STATUSES = [''new'', ''submitted'', ''partially_filled'', ''filled'', ''cancelled'', ''rejected'',
     ''expired'', ''failed'']"

definition LIVE_TERMINAL_STATUSES :: "string list" where
  "LIVE_TERMINAL_STATUSES = [''filled'', ''cancelled'', ''rejected'', ''expired'', ''failed'']"

definition ALLOWED_LIFECYCLE_PREVIEWS_BY_OUTCOME :: "(string, string list) dict" where
  "ALLOWED_LIFECYCLE_PREVIEWS_BY_OUTCOME =
     [(''submitted'', [''entry_submitting'', ''entry_open'']), (''filled'', [''hedge_balanced'', ''closed''])]"

fun json_text :: "pyval \<Rightarrow> string option" where
  "json_text PNone = None"
| "json_text v = non_blank (strip (py_str v))"

definition or_else :: "string option \<Rightarrow> string \<Rightarrow> string" where
  \<comment> \<open>\<open>text or default\<close> for a text that is absent or not empty\<close>
  "or_else v dflt = (case v of None \<Rightarrow> dflt | Some t \<Rightarrow> t)"

definition failure_details :: "string \<Rightarrow> string \<Rightarrow> obj \<Rightarrow> obj" where
  "failure_details mode reason details =
     (let moved = (case json_text (pget details ''reason'') of
         None \<Rightarrow> details
       | Some t \<Rightarrow> if t = reason then details
                  else ddel (dset details ''remote_reason'' (PStr t)) ''reason'')
      in dmerge [(''mode'', PStr mode), (''reason'', PStr reason)] moved)"

definition failure_result :: "bool \<Rightarrow> string \<Rightarrow> obj \<Rightarrow> order list \<Rightarrow> fill list \<Rightarrow> string \<Rightarrow> submit_result" where
  "failure_result auto_unwind reason details created_orders created_fills mode =
     (let t = classify_submit_failure_transition True True True auto_unwind False
      in \<lparr>sr_outcome = ''submit_failed'', sr_lifecycle_preview = py_str (pget t ''next_state''),
          sr_recovery_required = truthy (pget t ''recovery_required''),
          sr_unwind_in_progress = truthy (pget t ''unwind_in_progress''),
          sr_created_orders = created_orders, sr_created_fills = created_fills,
          sr_details = failure_details mode reason details\<rparr>)"

definition response_details :: "obj \<Rightarrow> obj" where
  "response_details payload = (case pget payload ''details'' of PDict d \<Rightarrow> d | _ \<Rightarrow> [])"

section \<open>The request\<close>

definition build_request_payload :: "arbitrage_decision \<Rightarrow> order_intent \<Rightarrow> bool \<Rightarrow> obj" where
  "build_request_payload d i auto_unwind =
     [(''intent_id'', PStr (intent_id i)), (''bot_id'', PStr (int_bot_id i)), (''strategy_run_id'', PStr (int_run_id i)),
      (''market'', PStr (int_market i)), (''buy_exchange'', PStr (int_buy_exchange i)),
      (''sell_exchange'', PStr (int_sell_exchange i)), (''side_pair'', PStr (int_side_pair i)),
      (''target_qty'', PStr (int_target_qty i)), (''expected_profit'', opt_str (int_expected_profit i)),
      (''expected_profit_ratio'', opt_str (int_expected_profit_ratio i)),
      (''decision'', PDict [(''accepted'', PBool (accepted d)), (''reason_code'', PStr (reason_code d)),
         (''decision_context'', PDict (decision_context d)),
         (''reservation_passed'', (case dec_reservation_plan d of None \<Rightarrow> PNone | Some p \<Rightarrow> PBool (reservation_passed p))),
         (''executable_profit_quote'', (case executable_edge d of None \<Rightarrow> PNone | Some e \<Rightarrow> dec_val (executable_profit_quote e))),
         (''executable_profit_bps'', (case executable_edge d of None \<Rightarrow> PNone | Some e \<Rightarrow> dec_val (executable_profit_bps e)))]),
      (''auto_unwind_on_failure'', PBool auto_unwind)]"

definition post_request :: "string \<Rightarrow> string option \<Rightarrow> int \<Rightarrow> obj \<Rightarrow> http_request" where
  "post_request url token timeout_ms payload = \<lparr>rq_url = url,
     rq_authorization = (case token of None \<Rightarrow> None | Some t \<Rightarrow> if t = [] then None else Some (''Bearer '' @ t)),
     rq_timeout_ms = max timeout_ms 250, rq_payload = payload\<rparr>"

fun post_json :: "http_reply \<Rightarrow> (string + obj) res" where
  "post_json (Http_error code detail) = Inr (Inl (''private execution http '' @ int_str code @
      (if detail = [] then [] else '': '' @ take 200 detail)))"
| "post_json (Url_error reason) = Inr (Inl (''private execution transport failed: '' @ reason))"
| "post_json Timed_out = Inr (Inl ''private execution request timed out'')"
| "post_json (Http_raises e) = Inl e"
| "post_json (Http_body raw) = Inr (case loads raw of
      None \<Rightarrow> Inl ''private execution response was not valid JSON''
    | Some (PDict d) \<Rightarrow> Inr d
    | Some _ \<Rightarrow> Inl ''private execution response must be a JSON object'')"

section \<open>Orders of a reply\<close>

type_synonym leg = "string \<times> string"

definition leg_text :: "leg \<Rightarrow> string" where
  "leg_text l = fst l @ '':'' @ snd l"

definition expected_legs :: "order_intent \<Rightarrow> leg list" where
  "expected_legs i = [(''buy'', int_buy_exchange i), (''sell'', int_sell_exchange i)]"

definition item_leg :: "obj \<Rightarrow> leg" where
  \<comment> \<open>side and exchange of an item of a reply, empty where absent\<close>
  "item_leg item = (lower (or_else (json_text (pget item ''side'')) []), or_else (json_text (pget item ''exchange_name'')) [])"

definition real_leg :: "leg \<Rightarrow> bool" where
  "real_leg l = (fst l \<in> {''buy'', ''sell''} \<and> snd l \<noteq> [])"

definition item_status :: "obj \<Rightarrow> string" where
  "item_status item = lower (or_else (json_text (pget item ''status'')) ''submitted'')"

definition order_of_item :: "string \<Rightarrow> bool \<Rightarrow> order_intent \<Rightarrow> int \<Rightarrow> obj \<Rightarrow> order_args" where
  "order_of_item mode persist i index item =
     (let status = item_status item in
      \<lparr>oa_intent_id = intent_id i, oa_exchange_name = snd (item_leg item),
       oa_exchange_order_id = json_text (pget item ''exchange_order_id''),
       oa_market = or_else (json_text (pget item ''market'')) (int_market i), oa_side = fst (item_leg item),
       oa_requested_price = json_number_text (pget item ''requested_price''),
       oa_requested_qty = or_else (json_number_text (pget item ''requested_qty'')) (int_target_qty i),
       oa_status = (if persist \<and> status = ''filled'' then ''submitted'' else status),
       oa_raw_payload = Some (dmerge (case pget item ''raw_payload'' of PDict d \<Rightarrow> d | _ \<Rightarrow> [])
         [(''submission_mode'', PStr mode), (''adapter_response_order_index'', PInt index),
          (''adapter_response_status'', PStr status)])\<rparr>)"

definition order_problem :: "order_intent \<Rightarrow> leg list \<Rightarrow> string \<Rightarrow> order_args \<Rightarrow> string option" where
  "order_problem i seen status a =
     (let l = (oa_side a, oa_exchange_name a) in
      if \<not> real_leg l \<or> oa_requested_qty a = []
      then Some ''private execution order item missing exchange_name, side, or requested_qty''
      else if int_market i \<noteq> [] \<and> oa_market a \<noteq> int_market i
      then Some ''private execution order market mismatches intent market''
      else if l \<notin> set (expected_legs i)
      then Some (''private execution response returned unexpected arbitrage order legs: '' @ leg_text l)
      else if \<not> is_positive_number_text (oa_requested_qty a)
      then Some ''private execution order requested_qty must be a positive number''
      else if (case oa_requested_price a of None \<Rightarrow> False | Some p \<Rightarrow> \<not> is_positive_number_text p)
      then Some ''private execution order requested_price must be a positive number''
      else if status \<notin> set ALLOWED_ORDER_STATUSES
      then Some (''private execution order status not allowed: '' @ status)
      else if l \<in> set seen then Some ''private execution response duplicated arbitrage order leg''
      else None)"

definition orders_on :: "string \<Rightarrow> order_query" where
  "orders_on exchange = \<lparr>oq_bot_id = None, oq_exchange_name = Some exchange, oq_status = None, oq_market = None,
     oq_strategy_run_id = None, oq_created_from = None, oq_created_to = None\<rparr>"

definition exchange_id_problem :: "'s live_ops \<Rightarrow> 's \<Rightarrow> leg list \<Rightarrow> order_args \<Rightarrow> string option res" where
  \<comment> \<open>\<open>seen\<close> holds exchange name and exchange order identifier of the earlier items\<close>
  "exchange_id_problem ops s seen a = (case oa_exchange_order_id a of
      None \<Rightarrow> Inr None
    | Some e \<Rightarrow>
        if (oa_exchange_name a, e) \<in> set seen
        then Inr (Some ''private execution response duplicated exchange_order_id'')
        else andThen (lv_orders ops (orders_on (oa_exchange_name a)) s) (\<lambda>vs.
          Inr (if list_ex (\<lambda>v. ord_exchange_order_id (ov_order v) = Some e) vs
               then Some ''private execution exchange_order_id conflicts with existing order'' else None)))"

definition seen_ids :: "order_args \<Rightarrow> leg list" where
  "seen_ids a = (case oa_exchange_order_id a of None \<Rightarrow> [] | Some e \<Rightarrow> [(oa_exchange_name a, e)])"

fun check_orders :: "'s live_ops \<Rightarrow> string \<Rightarrow> bool \<Rightarrow> order_intent \<Rightarrow> 's \<Rightarrow> int \<Rightarrow> leg list \<Rightarrow> leg list \<Rightarrow> pyval list \<Rightarrow>
    (string + order_args list) res" where
  "check_orders ops mode persist i s index legs ids [] = Inr (Inr [])"
| "check_orders ops mode persist i s index legs ids (PDict item # xs) =
     (let a = order_of_item mode persist i index item in
      case order_problem i legs (item_status item) a of
        Some e \<Rightarrow> Inr (Inl e)
      | None \<Rightarrow> andThen (exchange_id_problem ops s ids a) (\<lambda>p. case p of
            Some e \<Rightarrow> Inr (Inl e)
          | None \<Rightarrow> andThen (check_orders ops mode persist i s (index + 1) ((oa_side a, oa_exchange_name a) # legs)
                (seen_ids a @ ids) xs)
              (\<lambda>r. Inr (case r of Inl e \<Rightarrow> Inl e | Inr as \<Rightarrow> Inr (a # as)))))"
| "check_orders ops mode persist i s index legs ids (_ # xs) =
     Inr (Inl ''private execution order item must be an object'')"

type_synonym order_index = "(leg, order) dict"

fun store_orders :: "'s live_ops \<Rightarrow> order_args list \<Rightarrow> order list \<Rightarrow> order_index \<Rightarrow> 's \<Rightarrow>
    's \<times> order list \<times> order_index \<times> string option" where
  "store_orders ops [] created index s = (s, created, index, None)"
| "store_orders ops (a # as) created index s =
     (case op_create_order (lv_base ops) a s of
        (s', Created, Some x) \<Rightarrow>
          store_orders ops as (created @ [x]) (dset index (oa_side a, oa_exchange_name a) x) s'
      | (s', oc, _) \<Rightarrow> (s', created, index, Some (''private execution order create failed: '' @ outcome_text oc)))"

definition create_orders_from_response ::
    "'s live_ops \<Rightarrow> string \<Rightarrow> bool \<Rightarrow> order_intent \<Rightarrow> pyval \<Rightarrow> 's \<Rightarrow> 's \<times> (order list \<times> order_index \<times> string option) res" where
  "create_orders_from_response ops mode persist i payload s = (case payload of
      PList (x # xs) \<Rightarrow>
        (case check_orders ops mode persist i s 1 [] [] (x # xs) of
           Inl e \<Rightarrow> (s, Inl e)
         | Inr (Inl msg) \<Rightarrow> (s, Inr ([], [], Some msg))
         | Inr (Inr as) \<Rightarrow> (case store_orders ops as [] [] s of (s', r) \<Rightarrow> (s', Inr r)))
    | _ \<Rightarrow> (s, Inr ([], [], Some ''private execution response missing orders'')))"

definition refresh_live_order :: "'s live_ops \<Rightarrow> 's \<Rightarrow> order \<Rightarrow> order res" where
  "refresh_live_order ops s x = (case non_blank (strip (order_id x)) of
      None \<Rightarrow> Inr x
    | Some k \<Rightarrow> andThen (op_order_detail (lv_base ops) k s)
        (\<lambda>d. Inr (case d of None \<Rightarrow> x | Some y \<Rightarrow> od_order y)))"

definition refresh_live_orders :: "'s live_ops \<Rightarrow> 's \<Rightarrow> order list \<Rightarrow> order list res" where
  "refresh_live_orders ops s xs = mapM (refresh_live_order ops s) xs"

section \<open>Checks of legs and states\<close>

definition sorted_legs :: "leg list \<Rightarrow> leg list" where
  "sorted_legs ls = sort (remdups ls)"

definition leg_list :: "string \<Rightarrow> leg list \<Rightarrow> string option" where
  \<comment> \<open>the message that lists some legs, if there are any\<close>
  "leg_list msg ls = (if ls = [] then None else Some (msg @ join '', '' (map leg_text ls)))"

definition or_problem :: "string option \<Rightarrow> string option \<Rightarrow> string option" where
  "or_problem p q = (case p of None \<Rightarrow> q | Some e \<Rightarrow> Some e)"

definition exchange_context_problem :: "order_intent \<Rightarrow> string option" where
  "exchange_context_problem i = (if [] \<in> set (map snd (expected_legs i))
     then Some ''private execution response missing arbitrage exchange context'' else None)"

definition validate_required_arbitrage_legs :: "order list \<Rightarrow> order_index \<Rightarrow> order_intent \<Rightarrow> bool \<Rightarrow> string option" where
  "validate_required_arbitrage_legs created index i require_complete =
     or_problem (exchange_context_problem i)
    (or_problem (if require_complete
       then leg_list ''private execution response missing required arbitrage order legs: ''
              (filter (\<lambda>l. l \<notin> set (dkeys index)) (sorted_legs (expected_legs i)))
       else None)
    (or_problem (leg_list ''private execution response returned unexpected arbitrage order legs: ''
       (filter (\<lambda>l. l \<notin> set (expected_legs i)) (sorted_legs (dkeys index))))
      (if length created \<noteq> length (remdups (expected_legs i))
       then Some ''private execution response returned unexpected arbitrage order count'' else None)))"

definition live_status :: "order \<Rightarrow> string" where
  "live_status x = lower (strip (ord_status x))"

definition status_list :: "string \<Rightarrow> order list \<Rightarrow> string option" where
  "status_list msg xs = (if xs = [] then None
     else Some (msg @ join '', '' (map (\<lambda>x. order_id x @ '':'' @ ord_status x) xs)))"

definition validate_filled_order_states :: "order list \<Rightarrow> string option" where
  "validate_filled_order_states xs = status_list ''private execution filled outcome left orders non-terminal: ''
     (filter (\<lambda>x. live_status x \<noteq> ''filled'') xs)"

definition fill_leg :: "fill \<Rightarrow> leg" where
  "fill_leg f = (lower (strip (fl_side f)), strip (fl_exchange_name f))"

definition validate_filled_leg_coverage :: "fill list \<Rightarrow> order_intent \<Rightarrow> string option" where
  "validate_filled_leg_coverage fs i = or_problem (exchange_context_problem i)
     (leg_list ''private execution filled outcome missing required fill legs: ''
       (filter (\<lambda>l. l \<notin> fill_leg ` set fs) (sorted_legs (expected_legs i))))"

definition validate_submitted_order_states :: "order list \<Rightarrow> fill list \<Rightarrow> string option" where
  "validate_submitted_order_states xs fs =
     (if fs \<noteq> [] then Some ''private execution submitted outcome must not include fills''
      else status_list ''private execution submitted outcome returned terminal orders: ''
        (filter (\<lambda>x. live_status x \<in> set LIVE_TERMINAL_STATUSES) xs))"

section \<open>Checks of the reply before anything is stored\<close>

definition dict_items :: "pyval list \<Rightarrow> obj list" where
  \<comment> \<open>the items that are objects; the others are skipped\<close>
  "dict_items xs = concat (map (\<lambda>x. case x of PDict d \<Rightarrow> [d] | _ \<Rightarrow> []) xs)"

definition validate_response_fill_leg_coverage :: "pyval \<Rightarrow> order_intent \<Rightarrow> string option" where
  "validate_response_fill_leg_coverage fills_payload i = (case fills_payload of
      PList xs \<Rightarrow>
        (let observed = filter real_leg (map item_leg (dict_items xs)) in
         or_problem (exchange_context_problem i)
        (or_problem (leg_list ''private execution filled outcome missing required fill legs: ''
           (filter (\<lambda>l. l \<notin> set observed) (sorted_legs (expected_legs i))))
          (leg_list ''private execution filled outcome returned unexpected fill legs: ''
           (filter (\<lambda>l. l \<notin> set (expected_legs i)) (sorted_legs observed)))))
    | _ \<Rightarrow> None)"

definition validate_response_submitted_payload :: "pyval \<Rightarrow> pyval \<Rightarrow> string option" where
  "validate_response_submitted_payload orders_payload fills_payload =
     (if (case fills_payload of PList xs \<Rightarrow> xs \<noteq> [] | _ \<Rightarrow> False)
      then Some ''private execution submitted outcome must not include fills''
      else (case orders_payload of
          PList xs \<Rightarrow>
            (let bad = filter (\<lambda>d. item_status d \<in> set LIVE_TERMINAL_STATUSES) (dict_items xs) in
             if bad = [] then None
             else Some (''private execution submitted outcome returned terminal orders: '' @
               join '', '' (map (\<lambda>d. or_else (json_text (pget d ''exchange_name'')) ''unknown'' @ '':'' @ item_status d) bad)))
        | _ \<Rightarrow> None))"

definition positive_number :: "string option \<Rightarrow> dec option" where
  \<comment> \<open>\<open>Decimal(text)\<close> when the text is a positive number\<close>
  "positive_number t = (case t of None \<Rightarrow> None
     | Some u \<Rightarrow> (case dparse u of None \<Rightarrow> None | Some d \<Rightarrow> if is_positive_number_text u then Some d else None))"

type_synonym leg_qtys = "(leg, dec) dict"

fun requested_when_filled :: "leg_qtys \<Rightarrow> obj list \<Rightarrow> string + leg_qtys" where
  "requested_when_filled acc [] = Inr acc"
| "requested_when_filled acc (d # ds) =
     (let l = item_leg d in
      if \<not> real_leg l then requested_when_filled acc ds
      else if item_status d \<noteq> ''filled''
      then Inl (''private execution filled outcome returned non-filled order statuses: '' @ leg_text l @ '':'' @ item_status d)
      else (case positive_number (json_number_text (pget d ''requested_qty'')) of
          None \<Rightarrow> requested_when_filled acc ds
        | Some q \<Rightarrow> requested_when_filled (dset acc l q) ds))"

definition fill_item_problem :: "(leg \<times> string) list \<Rightarrow> obj \<Rightarrow> string option" where
  "fill_item_problem trades d =
     (let price = json_number_text (pget d ''fill_price''); qty = json_number_text (pget d ''fill_qty'') in
      if price = None \<or> qty = None then Some ''private execution fill missing fill_price or fill_qty''
      else if positive_number price = None then Some ''private execution fill_price must be a positive number''
      else if positive_number qty = None then Some ''private execution fill_qty must be a positive number''
      else (case json_text (pget d ''exchange_trade_id'') of
          None \<Rightarrow> None
        | Some t \<Rightarrow> if (item_leg d, t) \<in> set trades
            then Some ''private execution response duplicated fill exchange_trade_id'' else None))"

definition next_trades :: "(leg \<times> string) list \<Rightarrow> obj \<Rightarrow> (leg \<times> string) list" where
  "next_trades trades d = (case json_text (pget d ''exchange_trade_id'') of None \<Rightarrow> trades | Some t \<Rightarrow> (item_leg d, t) # trades)"

definition leg_qty :: "leg_qtys \<Rightarrow> leg \<Rightarrow> dec" where
  "leg_qty acc l = (case map_of acc l of None \<Rightarrow> Dec 0 0 | Some q \<Rightarrow> q)"

definition added_qty :: "leg_qtys \<Rightarrow> obj \<Rightarrow> dec" where
  \<comment> \<open>quantity of the leg with this fill; the quantity of the fill has been checked\<close>
  "added_qty acc d = (case positive_number (json_number_text (pget d ''fill_qty'')) of
      None \<Rightarrow> leg_qty acc (item_leg d) | Some q \<Rightarrow> dadd (leg_qty acc (item_leg d)) q)"

fun filled_when_filled :: "leg_qtys \<Rightarrow> leg_qtys \<Rightarrow> (leg \<times> string) list \<Rightarrow> obj list \<Rightarrow> string + leg_qtys" where
  "filled_when_filled req acc trades [] = Inr acc"
| "filled_when_filled req acc trades (d # ds) =
     (if \<not> real_leg (item_leg d) then filled_when_filled req acc trades ds
      else case fill_item_problem trades d of
        Some e \<Rightarrow> Inl e
      | None \<Rightarrow>
          (let q = added_qty acc d in
           if (case map_of req (item_leg d) of None \<Rightarrow> False | Some r \<Rightarrow> dlt r q)
           then Inl ''private execution fills exceed requested_qty''
           else filled_when_filled req (dset acc (item_leg d) q) (next_trades trades d) ds))"

definition uncovered :: "leg_qtys \<Rightarrow> leg \<times> dec \<Rightarrow> bool" where
  "uncovered acc p = (case map_of acc (fst p) of None \<Rightarrow> True | Some q \<Rightarrow> \<not> deq q (snd p))"

definition filled_quantities_problem :: "pyval list \<Rightarrow> pyval list \<Rightarrow> string option" where
  "filled_quantities_problem order_items fill_items =
     (case requested_when_filled [] (dict_items order_items) of
        Inl e \<Rightarrow> Some e
      | Inr req \<Rightarrow> (case filled_when_filled req [] [] (dict_items fill_items) of
          Inl e \<Rightarrow> Some e
        | Inr acc \<Rightarrow> (case find (uncovered acc) req of
            None \<Rightarrow> None
          | Some (l, _) \<Rightarrow> Some (''private execution filled outcome fill coverage mismatches requested_qty: '' @ leg_text l))))"

definition validate_response_filled_payload :: "order_intent \<Rightarrow> pyval \<Rightarrow> pyval \<Rightarrow> string option" where
  "validate_response_filled_payload i orders_payload fills_payload = (case fills_payload of
      PList (f # fs) \<Rightarrow>
        or_problem (validate_response_fill_leg_coverage fills_payload i)
          (case orders_payload of PList xs \<Rightarrow> filled_quantities_problem xs (f # fs) | _ \<Rightarrow> None)
    | _ \<Rightarrow> Some ''private execution filled outcome missing fills'')"

text \<open>For a failed submission: the requested quantities, and the legs reported filled and partly filled.\<close>

fun requested_when_failed :: "leg_qtys \<Rightarrow> leg list \<Rightarrow> leg list \<Rightarrow> obj list \<Rightarrow> leg_qtys \<times> leg list \<times> leg list" where
  "requested_when_failed acc full part [] = (acc, full, part)"
| "requested_when_failed acc full part (d # ds) =
     (let l = item_leg d in
      if \<not> real_leg l then requested_when_failed acc full part ds
      else (case positive_number (json_number_text (pget d ''requested_qty'')) of
          None \<Rightarrow> requested_when_failed acc full part ds
        | Some q \<Rightarrow> requested_when_failed (dset acc l q)
            (if item_status d = ''filled'' then l # full else full)
            (if item_status d = ''partially_filled'' then l # part else part) ds))"

fun filled_when_failed :: "leg_qtys \<Rightarrow> leg_qtys \<Rightarrow> (leg \<times> string) list \<Rightarrow> pyval list \<Rightarrow> string + leg_qtys" where
  "filled_when_failed req acc trades [] = Inr acc"
| "filled_when_failed req acc trades (PDict d # xs) =
     (case map_of req (item_leg d) of
        None \<Rightarrow> Inl ''private execution fill could not be matched to order''
      | Some r \<Rightarrow>
          (case fill_item_problem trades d of
             Some e \<Rightarrow> Inl e
           | None \<Rightarrow>
               (let q = added_qty acc d in
                if dlt r q then Inl ''private execution fills exceed requested_qty''
                else filled_when_failed req (dset acc (item_leg d) q) (next_trades trades d) xs)))"
| "filled_when_failed req acc trades (_ # xs) = Inl ''private execution fill item must be an object''"

definition same_qty :: "leg_qtys \<Rightarrow> leg_qtys \<Rightarrow> leg \<Rightarrow> bool" where
  "same_qty acc req l = (case (map_of acc l, map_of req l) of
      (Some q, Some r) \<Rightarrow> deq q r | (None, None) \<Rightarrow> True | _ \<Rightarrow> False)"

definition failed_fills_problem :: "leg_qtys \<Rightarrow> leg list \<Rightarrow> leg list \<Rightarrow> pyval \<Rightarrow> string option" where
  "failed_fills_problem req full part fills_payload = (case fills_payload of
      PNone \<Rightarrow> if full \<noteq> [] \<or> part \<noteq> []
        then Some ''private execution submit_failed outcome missing fills for filled orders'' else None
    | PList fs \<Rightarrow>
        (case filled_when_failed req [] [] fs of
           Inl e \<Rightarrow> Some e
         | Inr acc \<Rightarrow>
             if list_ex (\<lambda>l. map_of acc l = None) (full @ part)
             then Some ''private execution submit_failed outcome missing fills for filled orders''
             else if list_ex (\<lambda>l. \<not> same_qty acc req l) full
             then Some ''private execution submit_failed filled orders require full fill coverage''
             else None)
    | _ \<Rightarrow> Some ''private execution fills must be a list'')"

definition validate_response_submit_failed_payload :: "pyval \<Rightarrow> pyval \<Rightarrow> string option" where
  "validate_response_submit_failed_payload orders_payload fills_payload = (case orders_payload of
      PList (x # xs) \<Rightarrow>
        (case requested_when_failed [] [] [] (dict_items (x # xs)) of (req, full, part) \<Rightarrow>
           failed_fills_problem req full part fills_payload)
    | _ \<Rightarrow> if fills_payload = PNone then None
          else Some ''private execution submit_failed outcome must not include fills without orders'')"

definition validate_lifecycle_preview :: "string \<Rightarrow> string option \<Rightarrow> string option" where
  "validate_lifecycle_preview outcome preview = (case preview of
      None \<Rightarrow> None
    | Some p \<Rightarrow> (case map_of ALLOWED_LIFECYCLE_PREVIEWS_BY_OUTCOME outcome of
        None \<Rightarrow> None
      | Some allowed \<Rightarrow> if p \<in> set allowed then None
          else Some (''private execution lifecycle_preview is inconsistent with outcome: '' @ outcome @ '':'' @ p)))"

section \<open>Fills of a reply\<close>

definition match_order_for_fill :: "order_index \<Rightarrow> leg \<Rightarrow> order option" where
  "match_order_for_fill index l =
     (if snd l \<noteq> [] then map_of index l
      else (case filter (\<lambda>p. fst (fst p) = fst l) index of [p] \<Rightarrow> Some (snd p) | _ \<Rightarrow> None))"

definition fill_of_item :: "string \<Rightarrow> order \<Rightarrow> obj \<Rightarrow> fill_args" where
  "fill_of_item time x item =
     \<lparr>fa_order_id = order_id x, fa_exchange_trade_id = json_text (pget item ''exchange_trade_id''),
      fa_price = or_else (json_number_text (pget item ''fill_price'')) [],
      fa_qty = or_else (json_number_text (pget item ''fill_qty'')) [],
      fa_fee_asset = json_text (pget item ''fee_asset''),
      fa_fee_amount = Some (or_else (json_number_text (pget item ''fee_amount'')) ''0''),
      fa_filled_at = or_else (json_datetime_text (pget item ''filled_at'')) time\<rparr>"

definition fill_problem :: "fill_args \<Rightarrow> string option" where
  "fill_problem a =
     (if fa_price a = [] \<or> fa_qty a = [] then Some ''private execution fill missing fill_price or fill_qty''
      else if \<not> is_positive_number_text (fa_price a) then Some ''private execution fill_price must be a positive number''
      else if \<not> is_positive_number_text (fa_qty a) then Some ''private execution fill_qty must be a positive number''
      else if \<not> is_nonnegative_number_text (or_else (fa_fee_amount a) [])
      then Some ''private execution fee_amount must be nonnegative''
      else None)"

definition trade_problem :: "'s live_ops \<Rightarrow> 's \<Rightarrow> (string \<times> string) list \<Rightarrow> fill_args \<Rightarrow> string option" where
  "trade_problem ops s seen a = (case fa_exchange_trade_id a of
      None \<Rightarrow> None
    | Some t \<Rightarrow>
        if (fa_order_id a, t) \<in> set seen then Some ''private execution response duplicated fill exchange_trade_id''
        else if list_ex (\<lambda>f. fl_exchange_trade_id f = Some t) (lv_fills ops (fills_of_order (fa_order_id a)) s)
        then Some ''private execution fill exchange_trade_id conflicts with existing fill'' else None)"

definition zero_if_empty :: "string \<Rightarrow> string" where
  "zero_if_empty t = (if t = [] then ''0'' else t)"

definition stored_qty :: "'s live_ops \<Rightarrow> 's \<Rightarrow> (string, dec) dict \<Rightarrow> string \<Rightarrow> dec res" where
  \<comment> \<open>quantity filled so far: of this reply if the order was met before, else of the stored fills\<close>
  "stored_qty ops s acc k = (case map_of acc k of
      Some q \<Rightarrow> Inr q
    | None \<Rightarrow> andThen (mapM (\<lambda>f. decimal_of (zero_if_empty (fl_qty f))) (lv_fills ops (fills_of_order k) s))
        (\<lambda>qs. Inr (dsum_from (Dec 0 0) qs)))"

definition seen_trades :: "fill_args \<Rightarrow> (string \<times> string) list" where
  "seen_trades a = (case fa_exchange_trade_id a of None \<Rightarrow> [] | Some t \<Rightarrow> [(fa_order_id a, t)])"

fun check_fills :: "'s live_ops \<Rightarrow> (nat \<Rightarrow> string) \<Rightarrow> order_index \<Rightarrow> 's \<Rightarrow> nat \<Rightarrow> (string, dec) dict \<Rightarrow>
    (string \<times> string) list \<Rightarrow> pyval list \<Rightarrow> (string + fill_args list) res" where
  "check_fills ops clock index s n acc seen [] = Inr (Inr [])"
| "check_fills ops clock index s n acc seen (PDict item # xs) =
     (case match_order_for_fill index (item_leg item) of
        None \<Rightarrow> Inr (Inl ''private execution fill could not be matched to order'')
      | Some x \<Rightarrow>
          (let a = fill_of_item (clock n) x item in
           case or_problem (fill_problem a) (trade_problem ops s seen a) of
             Some e \<Rightarrow> Inr (Inl e)
           | None \<Rightarrow>
               andThen (stored_qty ops s acc (fa_order_id a)) (\<lambda>current.
               andThen (decimal_of (zero_if_empty (ord_requested_qty x))) (\<lambda>requested.
               andThen (decimal_of (fa_qty a)) (\<lambda>qty.
                 let next_qty = dadd current qty in
                 if dlt requested next_qty then Inr (Inl ''private execution fills exceed requested_qty'')
                 else andThen (check_fills ops clock index s (Suc n) (dset acc (fa_order_id a) next_qty)
                     (seen_trades a @ seen) xs)
                   (\<lambda>r. Inr (case r of Inl e \<Rightarrow> Inl e | Inr as \<Rightarrow> Inr (a # as))))))))"
| "check_fills ops clock index s n acc seen (_ # xs) = Inr (Inl ''private execution fill item must be an object'')"

fun store_fills :: "'s live_ops \<Rightarrow> fill_args list \<Rightarrow> fill list \<Rightarrow> 's \<Rightarrow> 's \<times> (fill list \<times> string option) res" where
  "store_fills ops [] fs s = (s, Inr (fs, None))"
| "store_fills ops (a # as) fs s =
     (case op_create_fill (lv_base ops) a s of
        (s', Inl e) \<Rightarrow> (s', Inl e)
      | (s', Inr (Created, Some f)) \<Rightarrow> store_fills ops as (fs @ [f]) s'
      | (s', Inr (oc, _)) \<Rightarrow> (s', Inr (fs, Some (''private execution fill create failed: '' @ outcome_text oc))))"

definition create_fills_from_response ::
    "'s live_ops \<Rightarrow> (nat \<Rightarrow> string) \<Rightarrow> order_index \<Rightarrow> pyval \<Rightarrow> 's \<Rightarrow> 's \<times> (fill list \<times> string option) res" where
  "create_fills_from_response ops clock index payload s = (case payload of
      PNone \<Rightarrow> (s, Inr ([], None))
    | PList xs \<Rightarrow>
        (case check_fills ops clock index s 0 [] [] xs of
           Inl e \<Rightarrow> (s, Inl e)
         | Inr (Inl msg) \<Rightarrow> (s, Inr ([], Some msg))
         | Inr (Inr as) \<Rightarrow> store_fills ops as [] s)
    | _ \<Rightarrow> (s, Inr ([], Some ''private execution fills must be a list'')))"

section \<open>Submitting\<close>

record live_call =
  lc_intent :: order_intent
  lc_auto_unwind :: bool
  lc_payload :: obj

definition fail_call :: "live_call \<Rightarrow> string \<Rightarrow> order list \<Rightarrow> fill list \<Rightarrow> submit_result" where
  "fail_call c reason xs fs = failure_result (lc_auto_unwind c) reason (response_details (lc_payload c)) xs fs ''private_http''"

definition record_fills ::
    "'s live_ops \<Rightarrow> (nat \<Rightarrow> string) \<Rightarrow> live_call \<Rightarrow> order list \<Rightarrow> order_index \<Rightarrow> 's \<Rightarrow>
      's \<times> (submit_result + order list \<times> fill list) res" where
  \<comment> \<open>the fills of the reply, then the orders as the store has them now\<close>
  "record_fills ops clock c created index s =
     (case create_fills_from_response ops clock index (pget (lc_payload c) ''fills'') s of
        (s', Inl e) \<Rightarrow> (s', Inl e)
      | (s', Inr (fs, problem)) \<Rightarrow> (s', andThen (refresh_live_orders ops s' created) (\<lambda>refreshed.
          Inr (case problem of Some e \<Rightarrow> Inl (fail_call c e refreshed fs) | None \<Rightarrow> Inr (refreshed, fs)))))"

definition record_reply ::
    "'s live_ops \<Rightarrow> (nat \<Rightarrow> string) \<Rightarrow> live_call \<Rightarrow> bool \<Rightarrow> bool \<Rightarrow> 's \<Rightarrow>
      's \<times> (submit_result + order list \<times> fill list) res" where
  \<comment> \<open>orders, their legs, fills: the first problem is a failed result\<close>
  "record_reply ops clock c persist require_complete s =
     (case create_orders_from_response ops ''private_http'' persist (lc_intent c) (pget (lc_payload c) ''orders'') s of
        (s', Inl e) \<Rightarrow> (s', Inl e)
      | (s', Inr (created, index, Some e)) \<Rightarrow> (s', Inr (Inl (fail_call c e created [])))
      | (s', Inr (created, index, None)) \<Rightarrow>
          (case validate_required_arbitrage_legs created index (lc_intent c) require_complete of
             Some e \<Rightarrow> (s', Inr (Inl (fail_call c e created [])))
           | None \<Rightarrow> record_fills ops clock c created index s'))"

definition submit_failed_reply :: "'s live_ops \<Rightarrow> (nat \<Rightarrow> string) \<Rightarrow> live_call \<Rightarrow> 's \<Rightarrow> 's \<times> submit_result res" where
  "submit_failed_reply ops clock c s =
     (case validate_response_submit_failed_payload (pget (lc_payload c) ''orders'') (pget (lc_payload c) ''fills'') of
        Some e \<Rightarrow> (s, Inr (fail_call c e [] []))
      | None \<Rightarrow>
          (let reason = or_else (json_text (pget (response_details (lc_payload c)) ''reason'')) ''private execution submit failed'' in
           case pget (lc_payload c) ''orders'' of
             PList (x # xs) \<Rightarrow>
               (case record_reply ops clock c False False s of
                  (s', r) \<Rightarrow> (s', andThen r (\<lambda>q. Inr (case q of Inl failed \<Rightarrow> failed
                    | Inr (refreshed, fs) \<Rightarrow> fail_call c reason refreshed fs))))
           | _ \<Rightarrow> (s, Inr (fail_call c reason [] []))))"

definition reply_problem :: "live_call \<Rightarrow> string \<Rightarrow> string option" where
  "reply_problem c outcome =
     (if outcome = ''submitted''
      then validate_response_submitted_payload (pget (lc_payload c) ''orders'') (pget (lc_payload c) ''fills'')
      else if outcome = ''filled''
      then validate_response_filled_payload (lc_intent c) (pget (lc_payload c) ''orders'') (pget (lc_payload c) ''fills'')
      else None)"

definition recorded_problem :: "live_call \<Rightarrow> string \<Rightarrow> order list \<Rightarrow> fill list \<Rightarrow> submit_result option" where
  "recorded_problem c outcome xs fs =
     (if outcome = ''filled'' \<and> fs = []
      then Some (fail_call c ''private execution filled outcome missing fills'' xs [])
      else map_option (\<lambda>e. fail_call c e xs fs)
        (if outcome = ''submitted'' then validate_submitted_order_states xs fs
         else if outcome = ''filled''
         then or_problem (validate_filled_order_states xs) (validate_filled_leg_coverage fs (lc_intent c))
         else None))"

definition accepted_reply :: "live_call \<Rightarrow> string \<Rightarrow> string option \<Rightarrow> order list \<Rightarrow> fill list \<Rightarrow> submit_result" where
  "accepted_reply c outcome preview xs fs =
     \<lparr>sr_outcome = outcome,
      sr_lifecycle_preview = or_else preview (if outcome = ''filled'' then ''hedge_balanced'' else ''entry_submitting''),
      sr_recovery_required = False, sr_unwind_in_progress = False, sr_created_orders = xs, sr_created_fills = fs,
      sr_details = dmerge [(''mode'', PStr ''private_http'')] (response_details (lc_payload c))\<rparr>"

definition submitted_or_filled_reply ::
    "'s live_ops \<Rightarrow> (nat \<Rightarrow> string) \<Rightarrow> live_call \<Rightarrow> string \<Rightarrow> string option \<Rightarrow> 's \<Rightarrow> 's \<times> submit_result res" where
  "submitted_or_filled_reply ops clock c outcome preview s =
     (case reply_problem c outcome of
        Some e \<Rightarrow> (s, Inr (fail_call c e [] []))
      | None \<Rightarrow>
          (case record_reply ops clock c (outcome = ''filled'') True s of
             (s', r) \<Rightarrow> (s', andThen r (\<lambda>q. Inr (case q of Inl failed \<Rightarrow> failed
               | Inr (xs, fs) \<Rightarrow> (case recorded_problem c outcome xs fs of
                   Some failed \<Rightarrow> failed
                 | None \<Rightarrow> accepted_reply c outcome preview xs fs))))))"

definition take_reply :: "'s live_ops \<Rightarrow> (nat \<Rightarrow> string) \<Rightarrow> live_call \<Rightarrow> 's \<Rightarrow> 's \<times> submit_result res" where
  "take_reply ops clock c s =
     (let outcome = lower (or_else (json_text (pget (lc_payload c) ''outcome'')) ''submitted'');
          preview = json_text (pget (lc_payload c) ''lifecycle_preview'')
      in if outcome \<notin> {''submitted'', ''filled'', ''submit_failed''}
         then (s, Inr (fail_call c (''private execution returned unsupported outcome: '' @ outcome) [] []))
         else case validate_lifecycle_preview outcome preview of
           Some e \<Rightarrow> (s, Inr (fail_call c e [] []))
         | None \<Rightarrow>
             if outcome = ''submit_failed'' then submit_failed_reply ops clock c s
             else submitted_or_filled_reply ops clock c outcome preview s)"

definition private_http_submit ::
    "'s live_ops \<Rightarrow> (nat \<Rightarrow> string) \<Rightarrow> (http_request \<Rightarrow> http_reply) \<Rightarrow> string option \<Rightarrow> int \<Rightarrow> string option \<Rightarrow>
      arbitrage_decision \<Rightarrow> order_intent \<Rightarrow> bool \<Rightarrow> 's \<Rightarrow> 's \<times> submit_result res" where
  "private_http_submit ops clock net url timeout_ms token d i auto_unwind s =
     (if url = None \<or> url = Some []
      then (s, Inr (failure_result auto_unwind ''private execution url not configured'' [] [] [] ''private_http''))
      else case post_json (net (post_request (the url) token timeout_ms (build_request_payload d i auto_unwind))) of
        Inl e \<Rightarrow> (s, Inl e)
      | Inr (Inl msg) \<Rightarrow> (s, Inr (failure_result auto_unwind msg [] [] [] ''private_http''))
      | Inr (Inr payload) \<Rightarrow>
          take_reply ops clock \<lparr>lc_intent = i, lc_auto_unwind = auto_unwind, lc_payload = payload\<rparr> s)"

section \<open>On the in-memory store\<close>

definition live_mem_ops :: "redis_config \<Rightarrow> mem live_ops" where
  "live_mem_ops cfg = \<lparr>lv_base = mem_ops (rc_uid cfg) (rc_now cfg),
     lv_orders = (\<lambda>q m. list_orders (orders (mem_store m)) (fills (mem_store m)) q),
     lv_fills = (\<lambda>q m. list_fills (fills (mem_store m)) q)\<rparr>"

definition private_http_adapter ::
    "redis_config \<Rightarrow> (http_request \<Rightarrow> http_reply) \<Rightarrow> string option \<Rightarrow> int \<Rightarrow> string option \<Rightarrow> adapter" where
  "private_http_adapter cfg net url timeout_ms token d i auto_unwind m =
     private_http_submit (live_mem_ops cfg) (\<lambda>n. rc_now cfg (drawn m + n)) net url timeout_ms token d i auto_unwind m"

end
