(* ===== verification/ExchangeKeys.thy ===== *)
theory ExchangeKeys
  imports Json
begin

text \<open>
  Trading keys and request signatures: \<open>strategy/exchange_key_loader.py\<close> and \<open>strategy/exchange_auth.py\<close>.
  The file system is a function from paths to what is found there. The hash functions of \<open>hashlib\<close> and
  \<open>hmac\<close> are parameters (\<open>crypto\<close>); base64, percent encoding and the JSON that is signed are written out.
  Texts are byte strings, so encoding to UTF-8 is the identity.
\<close>

section \<open>Credential files (\<open>exchange_key_loader.py\<close>)\<close>

datatype key_file = No_file | Unreadable | Content string

definition SUPPORTED_EXCHANGES :: "string list" where
  "SUPPORTED_EXCHANGES = [''upbit'', ''bithumb'', ''coinone'']"

definition LEGACY_ACCESS_KEY_FIELDS :: "(string, string list) dict" where
  "LEGACY_ACCESS_KEY_FIELDS = [(''upbit'', []), (''bithumb'', [''api_key'']), (''coinone'', [''access_token'', ''api_key''])]"

record trading_credentials =
  tc_exchange :: string
  tc_access_key :: string
  tc_secret_key :: string
  tc_source_path :: string

definition credentials_as_dict :: "trading_credentials \<Rightarrow> (string, string) dict" where
  "credentials_as_dict c = [(''exchange'', tc_exchange c), (''access_key'', tc_access_key c),
     (''secret_key'', tc_secret_key c), (''source_path'', tc_source_path c)]"

record credentials_status =
  ks_exchange :: string
  ks_configured :: bool
  ks_ready :: bool
  ks_state :: string
  ks_source_path :: "string option"
  ks_primary_path :: string
  ks_fallback_path :: string
  ks_access_key_field :: "string option"

definition credentials_status_as_dict :: "credentials_status \<Rightarrow> obj" where
  "credentials_status_as_dict k = [(''exchange'', PStr (ks_exchange k)), (''configured'', PBool (ks_configured k)),
     (''ready'', PBool (ks_ready k)), (''state'', PStr (ks_state k)), (''source_path'', opt_str (ks_source_path k)),
     (''primary_path'', PStr (ks_primary_path k)), (''fallback_path'', PStr (ks_fallback_path k)),
     (''access_key_field'', opt_str (ks_access_key_field k))]"

definition string_value :: "pyval \<Rightarrow> string option" where
  "string_value v = (case v of PStr s \<Rightarrow> if strip s = [] then None else Some (strip s) | _ \<Rightarrow> None)"

definition normalize_exchange :: "string \<Rightarrow> string res" where
  "normalize_exchange exchange = (let e = lower (strip exchange) in
     if e \<in> set SUPPORTED_EXCHANGES then Inr e
     else Inl (ValueError (''unsupported exchange for trading credentials: '' @ exchange)))"

definition candidate_paths :: "string \<Rightarrow> string \<Rightarrow> string \<Rightarrow> string \<times> string" where
  "candidate_paths exchange primary_dir fallback_dir =
     (primary_dir @ ''/'' @ exchange @ ''_trading.json'', fallback_dir @ ''/'' @ exchange @ ''.json'')"

definition read_json_object :: "(string \<Rightarrow> key_file) \<Rightarrow> string \<Rightarrow> string + obj" where
  \<comment> \<open>\<open>Inl\<close> the text of the \<open>ValueError\<close>\<close>
  "read_json_object fs path = (case fs path of
      Content t \<Rightarrow> (case loads t of
          None \<Rightarrow> Inl (''trading credential file is not valid JSON: '' @ path)
        | Some (PDict d) \<Rightarrow> Inr d
        | Some _ \<Rightarrow> Inl (''trading credential file must contain a JSON object: '' @ path))
    | _ \<Rightarrow> Inl (''failed to read trading credential file: '' @ path))"

definition legacy_fields :: "string \<Rightarrow> string list" where
  "legacy_fields exchange = (case map_of LEGACY_ACCESS_KEY_FIELDS exchange of None \<Rightarrow> [] | Some fs \<Rightarrow> fs)"

definition resolve_access_key_field :: "obj \<Rightarrow> string \<Rightarrow> string option" where
  "resolve_access_key_field payload exchange =
     (if string_value (pget payload ''access_key'') \<noteq> None then Some ''access_key''
      else find (\<lambda>f. string_value (pget payload f) \<noteq> None) (legacy_fields exchange))"

definition tuple_text :: "string list \<Rightarrow> string" where
  \<comment> \<open>\<open>str\<close> of a tuple of texts\<close>
  "tuple_text ts = ''('' @ join '', '' (map repr_str ts) @ (if length ts = 1 then '',)'' else '')'')"

definition resolve_access_key :: "obj \<Rightarrow> string \<Rightarrow> string res" where
  "resolve_access_key payload exchange = (case resolve_access_key_field payload exchange of
      None \<Rightarrow> Inl (ValueError (''trading credential file is missing access_key (exchange='' @ exchange
        @ '', accepted_legacy_fields='' @ tuple_text (legacy_fields exchange) @ '')''))
    | Some f \<Rightarrow> (case string_value (pget payload f) of
        None \<Rightarrow> Inl (ValueError (''trading credential file is missing access_key (exchange='' @ exchange
          @ '', field='' @ f @ '')''))
      | Some v \<Rightarrow> Inr v))"

definition require_non_empty_string :: "obj \<Rightarrow> string \<Rightarrow> string \<Rightarrow> string \<Rightarrow> string res" where
  "require_non_empty_string payload field path exchange = (case string_value (pget payload field) of
      None \<Rightarrow> Inl (ValueError (''trading credential file is missing '' @ field @ '': '' @ path
        @ '' (exchange='' @ exchange @ '')''))
    | Some v \<Rightarrow> Inr v)"

definition inspect_file :: "(string \<Rightarrow> key_file) \<Rightarrow> credentials_status \<Rightarrow> string \<Rightarrow> string \<Rightarrow> credentials_status" where
  \<comment> \<open>the status when the file at this path is the first that exists\<close>
  "inspect_file fs k path prefix =
     (let found = k\<lparr>ks_configured := True, ks_source_path := Some path\<rparr> in
      case read_json_object fs path of
        Inl e \<Rightarrow> found\<lparr>ks_state := prefix @ ''_invalid:'' @ e\<rparr>
      | Inr payload \<Rightarrow>
          (case resolve_access_key_field payload (ks_exchange k) of
             None \<Rightarrow> found\<lparr>ks_state := prefix @ ''_missing_access_key''\<rparr>
           | Some f \<Rightarrow>
               if string_value (pget payload ''secret_key'') = None
               then found\<lparr>ks_state := prefix @ ''_missing_secret_key'', ks_access_key_field := Some f\<rparr>
               else found\<lparr>ks_ready := True, ks_state := prefix @ ''_ready'', ks_access_key_field := Some f\<rparr>))"

definition inspect_exchange_trading_credentials ::
    "(string \<Rightarrow> key_file) \<Rightarrow> string \<Rightarrow> string \<Rightarrow> string \<Rightarrow> credentials_status res" where
  "inspect_exchange_trading_credentials fs exchange primary_dir fallback_dir =
     andThen (normalize_exchange exchange) (\<lambda>e. case candidate_paths e primary_dir fallback_dir of (p, q) \<Rightarrow>
       let k = \<lparr>ks_exchange = e, ks_configured = False, ks_ready = False, ks_state = ''not_found'', ks_source_path = None,
             ks_primary_path = p, ks_fallback_path = q, ks_access_key_field = None\<rparr>
       in Inr (if fs p \<noteq> No_file then inspect_file fs k p ''primary''
               else if fs q \<noteq> No_file then inspect_file fs k q ''fallback'' else k))"

definition load_exchange_trading_credentials ::
    "(string \<Rightarrow> key_file) \<Rightarrow> string \<Rightarrow> string \<Rightarrow> string \<Rightarrow> trading_credentials option res" where
  "load_exchange_trading_credentials fs exchange primary_dir fallback_dir =
     andThen (inspect_exchange_trading_credentials fs exchange primary_dir fallback_dir) (\<lambda>k.
       if \<not> ks_configured k then Inr None
       else case (ks_ready k, ks_source_path k) of
         (True, Some path) \<Rightarrow>
           (case read_json_object fs path of
              Inl e \<Rightarrow> Inl (ValueError e)
            | Inr payload \<Rightarrow>
                andThen (resolve_access_key payload (ks_exchange k)) (\<lambda>access.
                andThen (require_non_empty_string payload ''secret_key'' path (ks_exchange k)) (\<lambda>secret.
                  Inr (Some \<lparr>tc_exchange = ks_exchange k, tc_access_key = access, tc_secret_key = secret,
                    tc_source_path = path\<rparr>))))
       | _ \<Rightarrow> Inl (ValueError (''trading credential file is not ready: exchange='' @ ks_exchange k
              @ '' state='' @ ks_state k)))"

section \<open>Signatures (\<open>exchange_auth.py\<close>)\<close>

record crypto =
  cy_sha512 :: "string \<Rightarrow> string"
  cy_hmac :: "string \<Rightarrow> string \<Rightarrow> string \<Rightarrow> string"

definition hex_text :: "string \<Rightarrow> string" where
  \<comment> \<open>\<open>hexdigest()\<close>\<close>
  "hex_text s = concat (map (\<lambda>c. hex2 (of_char c)) s)"

definition unreserved :: "char \<Rightarrow> bool" where
  "unreserved c = (let n = (of_char c :: nat) in
     48 \<le> n \<and> n \<le> 57 \<or> 65 \<le> n \<and> n \<le> 90 \<or> 97 \<le> n \<and> n \<le> 122 \<or> c \<in> set ''_.-~[]'')"

definition percent_quote :: "string \<Rightarrow> string" where
  \<comment> \<open>\<open>quote(text, safe="[]")\<close>\<close>
  "percent_quote s = concat (map (\<lambda>c. if unreserved c then [c] else CHR 0x25 # upper (hex2 (of_char c))) s)"

definition build_query_string :: "(string \<times> string) list \<Rightarrow> string" where
  "build_query_string pairs = join ''&'' (map (\<lambda>(k, v). percent_quote k @ ''='' @ percent_quote v) pairs)"

definition build_query_hash :: "crypto \<Rightarrow> string \<Rightarrow> string" where
  "build_query_hash cy query = hex_text (cy_sha512 cy query)"

definition b64_char :: "nat \<Rightarrow> char" where
  "b64_char n = (if n < 26 then char_of (65 + n) else if n < 52 then char_of (71 + n)
     else if n < 62 then char_of (n - 4) else if n = 62 then CHR ''+'' else CHR ''/'')"

fun b64encode :: "string \<Rightarrow> string" where
  "b64encode [] = []"
| "b64encode [a] = [b64_char (of_char a div 4), b64_char (of_char a mod 4 * 16), CHR ''='', CHR ''='']"
| "b64encode [a, b] = [b64_char (of_char a div 4), b64_char (of_char a mod 4 * 16 + of_char b div 16),
     b64_char (of_char b mod 16 * 4), CHR ''='']"
| "b64encode (a # b # c # r) = [b64_char (of_char a div 4), b64_char (of_char a mod 4 * 16 + of_char b div 16),
     b64_char (of_char b mod 16 * 4 + of_char c div 64), b64_char (of_char c mod 64)] @ b64encode r"

definition urlsafe_b64 :: "string \<Rightarrow> string" where
  "urlsafe_b64 raw = rstrip_char (CHR ''='')
     (map (\<lambda>c. if c = CHR ''+'' then CHR ''-'' else if c = CHR ''/'' then CHR ''_'' else c) (b64encode raw))"

definition raw_char :: "char \<Rightarrow> string" where
  \<comment> \<open>a character as JSON with \<open>ensure_ascii=False\<close>\<close>
  "raw_char c = (if 127 \<le> (of_char c :: nat) then [c] else json_char c)"

definition raw_str :: "string \<Rightarrow> string" where
  "raw_str s = CHR 0x22 # concat (map raw_char s) @ [CHR 0x22]"

fun dumps_raw :: "pyval \<Rightarrow> string" where
  "dumps_raw (PStr s) = raw_str s"
| "dumps_raw (PList xs) = CHR ''['' # join '','' (map dumps_raw xs) @ '']''"
| "dumps_raw (PDict d) = CHR ''{'' # join '','' (map (\<lambda>p. raw_str (fst p) @ CHR '':'' # dumps_raw (snd p)) d) @ ''}''"
| "dumps_raw v = dumps v"

definition urlsafe_b64json :: "obj \<Rightarrow> string" where
  "urlsafe_b64json d = urlsafe_b64 (dumps_raw (PDict d))"

definition jwt_digest_name :: "string \<Rightarrow> string res" where
  "jwt_digest_name algorithm = (case map_of [(''HS256'', ''sha256''), (''HS384'', ''sha384''), (''HS512'', ''sha512'')] algorithm of
      None \<Rightarrow> Inl (ValueError (''unsupported jwt algorithm: '' @ algorithm)) | Some n \<Rightarrow> Inr n)"

definition encode_jwt :: "crypto \<Rightarrow> obj \<Rightarrow> string \<Rightarrow> string \<Rightarrow> string res" where
  "encode_jwt cy payload secret algorithm =
     (let header = urlsafe_b64json [(''alg'', PStr algorithm), (''typ'', PStr ''JWT'')];
          claims = urlsafe_b64json payload;
          signing_input = header @ ''.'' @ claims
      in andThen (jwt_digest_name algorithm) (\<lambda>digest.
           Inr (header @ ''.'' @ claims @ ''.'' @ urlsafe_b64 (cy_hmac cy digest secret signing_input))))"

definition query_claims :: "crypto \<Rightarrow> string \<Rightarrow> obj" where
  \<comment> \<open>the claims that tie a token to the parameters of its request\<close>
  "query_claims cy query = (if query = [] then []
     else [(''query_hash'', PStr (build_query_hash cy query)), (''query_hash_alg'', PStr ''SHA512'')])"

definition create_upbit_jwt_token :: "crypto \<Rightarrow> string \<Rightarrow> string \<Rightarrow> string \<Rightarrow> string \<Rightarrow> string res" where
  "create_upbit_jwt_token cy nonce access secret query =
     encode_jwt cy ([(''access_key'', PStr access), (''nonce'', PStr nonce)] @ query_claims cy query) secret ''HS512''"

definition create_bithumb_jwt_token :: "crypto \<Rightarrow> string \<Rightarrow> int \<Rightarrow> string \<Rightarrow> string \<Rightarrow> string \<Rightarrow> string res" where
  "create_bithumb_jwt_token cy nonce now_ms access secret query =
     encode_jwt cy ([(''access_key'', PStr access), (''nonce'', PStr nonce), (''timestamp'', PInt now_ms)]
       @ query_claims cy query) secret ''HS256''"

definition build_bearer_authorization :: "string \<Rightarrow> string" where
  "build_bearer_authorization token = ''Bearer '' @ token"

definition encode_coinone_payload :: "obj \<Rightarrow> string \<Rightarrow> string \<Rightarrow> obj \<times> string" where
  "encode_coinone_payload payload access nonce =
     (let body = dset (dset payload ''access_token'' (PStr access)) ''nonce'' (PStr nonce)
      in (body, b64encode (dumps_raw (PDict body))))"

definition sign_coinone_payload :: "crypto \<Rightarrow> string \<Rightarrow> string \<Rightarrow> string" where
  "sign_coinone_payload cy encoded secret = hex_text (cy_hmac cy ''sha512'' secret encoded)"

definition build_coinone_private_headers ::
    "crypto \<Rightarrow> string \<Rightarrow> obj \<Rightarrow> string \<Rightarrow> string \<Rightarrow> (string, string) dict \<times> obj" where
  "build_coinone_private_headers cy nonce payload access secret =
     (case encode_coinone_payload payload access nonce of (body, encoded) \<Rightarrow>
        ([(''Content-Type'', ''application/json''), (''X-COINONE-PAYLOAD'', encoded),
          (''X-COINONE-SIGNATURE'', sign_coinone_payload cy encoded secret)], body))"

end
