(* ===== verification/PrivateExchange.thy ===== *)
theory PrivateExchange
  imports ExchangeKeys
begin

text \<open>
  \<open>private_exchange_connector.py\<close>: the private REST connectors of Upbit, Bithumb and Coinone. The network is a
  parameter: a function from a request and a state of the world to a new state and what \<open>urlopen\<close> did; the
  nonce and the clock are read from that state. Every operation returns a result, an API error included;
  only an exception the code does not catch leaves it (\<open>Inl\<close>).
\<close>

section \<open>Results and data\<close>

record exchange_result =
  px_outcome :: string
  px_reason :: "string option"
  px_data :: pyval
  px_error_code :: "string option"
  px_retryable :: "bool option"
  px_http_status :: "int option"
  px_raw_payload :: pyval

fun opt_bool :: "bool option \<Rightarrow> pyval" where
  "opt_bool None = PNone"
| "opt_bool (Some b) = PBool b"

fun opt_int :: "int option \<Rightarrow> pyval" where
  "opt_int None = PNone"
| "opt_int (Some i) = PInt i"

definition exchange_result_as_dict :: "exchange_result \<Rightarrow> obj" where
  "exchange_result_as_dict r = [(''outcome'', PStr (px_outcome r)), (''reason'', opt_str (px_reason r)), (''data'', px_data r),
     (''error_code'', opt_str (px_error_code r)), (''retryable'', opt_bool (px_retryable r)),
     (''http_status'', opt_int (px_http_status r)), (''raw_payload'', px_raw_payload r)]"

record connector_info =
  ci_exchange :: string
  ci_name :: string
  ci_configured :: bool
  ci_ready :: bool
  ci_state :: string
  ci_credential_source_path :: "string option"

definition connector_info_as_dict :: "connector_info \<Rightarrow> obj" where
  "connector_info_as_dict i = [(''exchange'', PStr (ci_exchange i)), (''name'', PStr (ci_name i)),
     (''configured'', PBool (ci_configured i)), (''ready'', PBool (ci_ready i)), (''state'', PStr (ci_state i)),
     (''credential_source_path'', opt_str (ci_credential_source_path i))]"

record ws_monitor =
  wm_exchange :: string
  wm_configured :: bool
  wm_auth_ready :: bool
  wm_connection_state :: string
  wm_disconnect_count :: int
  wm_endpoint :: "string option"
  wm_ping_interval_seconds :: "int option"
  wm_idle_timeout_seconds :: "int option"
  wm_connection_limit :: "int option"

definition ws_monitor_as_dict :: "ws_monitor \<Rightarrow> obj" where
  "ws_monitor_as_dict m = [(''exchange'', PStr (wm_exchange m)), (''configured'', PBool (wm_configured m)),
     (''auth_ready'', PBool (wm_auth_ready m)), (''connection_state'', PStr (wm_connection_state m)),
     (''disconnect_count'', PInt (wm_disconnect_count m)), (''last_connected_at'', PNone), (''last_failed_at'', PNone),
     (''last_close_code'', PNone), (''last_close_category'', PNone), (''endpoint'', opt_str (wm_endpoint m)),
     (''ping_interval_seconds'', opt_int (wm_ping_interval_seconds m)),
     (''idle_timeout_seconds'', opt_int (wm_idle_timeout_seconds m)),
     (''connection_limit'', opt_int (wm_connection_limit m))]"

definition build_private_exchange_ws_monitor :: "string \<Rightarrow> bool \<Rightarrow> bool \<Rightarrow> ws_monitor" where
  \<comment> \<open>the times and codes of a connection, none of which is ever made, are always absent\<close>
  "build_private_exchange_ws_monitor exchange configured auth_ready =
     \<lparr>wm_exchange = exchange, wm_configured = configured, wm_auth_ready = auth_ready,
      wm_connection_state = (if auth_ready then ''not_connected'' else ''not_configured''), wm_disconnect_count = 0,
      wm_endpoint = map_of [(''upbit'', ''wss://api.upbit.com/websocket/v1/private''),
         (''coinone'', ''wss://stream.coinone.co.kr/v1/private'')] exchange,
      wm_ping_interval_seconds = map_of [(''coinone'', 900)] exchange,
      wm_idle_timeout_seconds = map_of [(''coinone'', 1800)] exchange,
      wm_connection_limit = map_of [(''coinone'', 20)] exchange\<rparr>"

record exchange_market =
  mk_canonical_symbol :: string
  mk_exchange_symbol :: string
  mk_quote_currency :: string
  mk_target_currency :: string

record api_error =
  ax_exchange :: string
  ax_operation :: string
  ax_code :: string
  ax_reason :: string
  ax_retryable :: bool
  ax_http_status :: "int option"
  ax_raw_payload :: pyval

type_synonym 'a api = "api_error + 'a"

definition refused :: "string \<Rightarrow> string \<Rightarrow> string \<Rightarrow> api_error" where
  \<comment> \<open>an invalid request found before or after the exchange was asked\<close>
  "refused exchange operation reason = \<lparr>ax_exchange = exchange, ax_operation = operation,
     ax_code = ''INVALID_REQUEST'', ax_reason = reason, ax_retryable = False, ax_http_status = None, ax_raw_payload = PNone\<rparr>"

definition ok_result :: "pyval \<Rightarrow> pyval \<Rightarrow> exchange_result" where
  "ok_result data raw = \<lparr>px_outcome = ''ok'', px_reason = None, px_data = data, px_error_code = None,
     px_retryable = None, px_http_status = None, px_raw_payload = raw\<rparr>"

definition handle_api_error :: "api_error \<Rightarrow> exchange_result" where
  "handle_api_error x = \<lparr>px_outcome = ''error'', px_reason = Some (ax_reason x), px_data = PNone,
     px_error_code = Some (ax_code x), px_retryable = Some (ax_retryable x), px_http_status = ax_http_status x,
     px_raw_payload = ax_raw_payload x\<rparr>"

section \<open>Markets, sides, required texts\<close>

definition split_first :: "char \<Rightarrow> string \<Rightarrow> string \<times> string" where
  \<comment> \<open>\<open>text.split(c, 1)\<close> of a text that has the character\<close>
  "split_first c s = (takeWhile (\<lambda>x. x \<noteq> c) s, tl (dropWhile (\<lambda>x. x \<noteq> c) s))"

definition market_of :: "string \<Rightarrow> string \<Rightarrow> exchange_market" where
  "market_of target quot = \<lparr>mk_canonical_symbol = target @ ''/'' @ quot, mk_exchange_symbol = quot @ ''-'' @ target,
     mk_quote_currency = quot, mk_target_currency = target\<rparr>"

definition normalize_market :: "string \<Rightarrow> string \<Rightarrow> exchange_market api" where
  "normalize_market exchange market =
     (let raw = upper (strip market) in
      if raw = [] then Inl (refused exchange ''normalize_market'' ''market is required'')
      else if CHR ''/'' \<in> set raw then (case split_first (CHR ''/'') raw of (t, q) \<Rightarrow> Inr (market_of t q))
      else if CHR ''-'' \<in> set raw then (case split_first (CHR ''-'') raw of (q, t) \<Rightarrow> Inr (market_of t q))
      else Inl (refused exchange ''normalize_market'' (''unsupported market format: '' @ market)))"

definition normalize_side :: "pyval \<Rightarrow> string api" where
  "normalize_side v = (let side = lower (strip (py_str (por v (PStr [])))) in
     if side \<in> {''buy'', ''bid''} then Inr ''buy''
     else if side \<in> {''sell'', ''ask''} then Inr ''sell''
     else Inl (refused ''common'' ''normalize_side'' (''unsupported side: '' @ py_str v)))"

definition has_text :: "pyval \<Rightarrow> bool" where
  "has_text v = (v \<noteq> PNone \<and> strip (py_str v) \<noteq> [])"

definition require_text :: "obj \<Rightarrow> string \<Rightarrow> pyval api" where
  "require_text p k = (if has_text (pget p k) then Inr (PStr (py_str (pget p k)))
     else Inl (refused ''common'' ''validate_payload'' (k @ '' is required'')))"

definition require_text_any :: "obj \<Rightarrow> string list \<Rightarrow> pyval api" where
  "require_text_any p ks = (case find (\<lambda>k. has_text (pget p k)) ks of
      Some k \<Rightarrow> Inr (PStr (py_str (pget p k)))
    | None \<Rightarrow> Inl (refused ''common'' ''validate_payload'' (''one of '' @ join '', '' ks @ '' is required'')))"

definition order_type_of :: "obj \<Rightarrow> string" where
  "order_type_of p = lower (strip (py_str (por (pget p ''order_type'') (PStr ''limit''))))"

definition client_id_entry :: "obj \<Rightarrow> string \<Rightarrow> obj" where
  "client_id_entry p k = (let cid = text_of p ''client_order_id'' in if cid = [] then [] else [(k, PStr cid)])"

definition bid_or_ask :: "string \<Rightarrow> pyval" where
  "bid_or_ask side = PStr (if side = ''buy'' then ''bid'' else ''ask'')"

section \<open>Order bodies\<close>

definition build_upbit_order_payload :: "obj \<Rightarrow> obj api" where
  "build_upbit_order_payload p =
     andThen (normalize_market ''upbit'' (raw_text p ''market'')) (\<lambda>m.
     andThen (normalize_side (pget p ''side'')) (\<lambda>side.
       let kind = order_type_of p; market = (''market'', PStr (mk_exchange_symbol m)) in
       andThen
         (if kind = ''limit''
          then andThen (require_text p ''price'') (\<lambda>price. andThen (require_text_any p [''qty'', ''volume'']) (\<lambda>qty.
            Inr [market, (''side'', bid_or_ask side), (''ord_type'', PStr ''limit''), (''price'', price), (''volume'', qty)]))
          else if kind = ''market'' \<and> side = ''buy''
          then andThen (require_text_any p [''amount'', ''quote_qty'', ''price'']) (\<lambda>price.
            Inr [market, (''side'', PStr ''bid''), (''ord_type'', PStr ''price''), (''price'', price)])
          else if kind = ''market'' \<and> side = ''sell''
          then andThen (require_text_any p [''qty'', ''volume'']) (\<lambda>qty.
            Inr [market, (''side'', PStr ''ask''), (''ord_type'', PStr ''market''), (''volume'', qty)])
          else Inl (refused ''upbit'' ''place_order'' (''unsupported order_type for upbit: '' @ kind)))
         (\<lambda>body. Inr (body @ client_id_entry p ''identifier''))))"

definition build_bithumb_order_payload :: "obj \<Rightarrow> obj api" where
  "build_bithumb_order_payload p =
     andThen (normalize_market ''bithumb'' (raw_text p ''market'')) (\<lambda>m.
     andThen (normalize_side (pget p ''side'')) (\<lambda>side.
       if order_type_of p \<noteq> ''limit''
       then Inl (refused ''bithumb'' ''place_order'' ''bithumb connector currently supports limit orders only'')
       else andThen (require_text p ''price'') (\<lambda>price. andThen (require_text_any p [''qty'', ''volume'']) (\<lambda>qty.
         Inr ([(''market'', PStr (mk_exchange_symbol m)), (''side'', bid_or_ask side), (''ord_type'', PStr ''limit''),
           (''price'', price), (''volume'', qty)] @ client_id_entry p ''client_order_id'')))))"

definition build_coinone_order_payload :: "obj \<Rightarrow> obj api" where
  "build_coinone_order_payload p =
     andThen (normalize_market ''coinone'' (raw_text p ''market'')) (\<lambda>m.
     andThen (normalize_side (pget p ''side'')) (\<lambda>side.
       let kind = order_type_of p;
           body = [(''quote_currency'', PStr (mk_quote_currency m)), (''target_currency'', PStr (mk_target_currency m)),
             (''side'', PStr (if side = ''buy'' then ''BUY'' else ''SELL''))] in
       andThen
         (if kind = ''limit''
          then andThen (require_text p ''price'') (\<lambda>price. andThen (require_text_any p [''qty'', ''volume'']) (\<lambda>qty.
            Inr ([(''type'', PStr ''LIMIT''), (''price'', price), (''qty'', qty)] @
              (if has_key p ''post_only'' then [(''post_only'', PBool (truthy (pget p ''post_only'')))] else []))))
          else if kind = ''market'' \<and> side = ''buy''
          then andThen (require_text_any p [''amount'', ''quote_qty'', ''price'']) (\<lambda>amount.
            Inr [(''type'', PStr ''MARKET''), (''amount'', amount)])
          else if kind = ''market'' \<and> side = ''sell''
          then andThen (require_text_any p [''qty'', ''volume'']) (\<lambda>qty. Inr [(''type'', PStr ''MARKET''), (''qty'', qty)])
          else Inl (refused ''coinone'' ''place_order'' (''unsupported order_type for coinone: '' @ kind)))
         (\<lambda>more. Inr (body @ more @ client_id_entry p ''user_order_id'' @
            (if pget p ''limit_price'' \<noteq> PNone then [(''limit_price'', PStr (py_str (pget p ''limit_price'')))] else [])))))"

definition query_pairs_from_payload :: "obj \<Rightarrow> (string \<times> string) list" where
  "query_pairs_from_payload p = concat (map (\<lambda>(k, v). case v of
      PNone \<Rightarrow> []
    | PList xs \<Rightarrow> map (\<lambda>x. (k, py_str x)) xs
    | PBool b \<Rightarrow> [(k, if b then ''true'' else ''false'')]
    | _ \<Rightarrow> [(k, py_str v)]) p)"

section \<open>Balances and orders of a reply\<close>

definition first_of :: "obj \<Rightarrow> string list \<Rightarrow> pyval" where
  \<comment> \<open>\<open>item.get(k1) or item.get(k2) or ...\<close>\<close>
  "first_of item ks = (case ks of [] \<Rightarrow> PNone | k # r \<Rightarrow> foldr (\<lambda>j v. por (pget item j) v) (butlast ks) (pget item (last ks)))"

definition text_or :: "pyval \<Rightarrow> string \<Rightarrow> string" where
  "text_or v dflt = py_str (por v (PStr dflt))"

definition normalize_upbit_balance :: "obj \<Rightarrow> obj" where
  "normalize_upbit_balance item =
     (let currency = raw_text item ''currency''; unit = raw_text item ''unit_currency'' in
      [(''currency'', PStr currency), (''market'', PStr (if unit \<noteq> [] then currency @ ''/'' @ unit else currency)),
       (''available'', PStr (text_or (pget item ''balance'') ''0'')), (''locked'', PStr (text_or (pget item ''locked'') ''0'')),
       (''avg_buy_price'', PStr (text_or (pget item ''avg_buy_price'') ''0''))])"

definition normalize_bithumb_balance :: "obj \<Rightarrow> obj" where
  "normalize_bithumb_balance item =
     [(''currency'', PStr (text_or (first_of item [''currency'', ''unit_currency'']) [])), (''market'', PNone),
      (''available'', PStr (text_or (first_of item [''balance'', ''available'']) ''0'')),
      (''locked'', PStr (text_or (first_of item [''locked'', ''in_use'', ''limit'']) ''0'')),
      (''avg_buy_price'', PStr (text_or (pget item ''avg_buy_price'') ''0''))]"

definition normalize_coinone_balance :: "obj \<Rightarrow> obj" where
  "normalize_coinone_balance item =
     [(''currency'', PStr (raw_text item ''currency'')), (''market'', PNone),
      (''available'', PStr (text_or (pget item ''available'') ''0'')), (''locked'', PStr (text_or (pget item ''limit'') ''0'')),
      (''avg_buy_price'', PStr (text_or (pget item ''average_price'') ''0''))]"

definition or_word :: "string \<Rightarrow> string \<Rightarrow> string" where
  "or_word t dflt = (if t = [] then dflt else t)"

definition normalize_upbit_order_type :: "obj \<Rightarrow> string" where
  "normalize_upbit_order_type item =
     (let kind = low_text item ''ord_type''; side = low_text item ''side'' in
      if kind = ''price'' \<and> side = ''bid'' then ''market_buy''
      else if kind = ''market'' \<and> side = ''ask'' then ''market_sell''
      else or_word kind ''limit'')"

definition normalize_upbit_order_status :: "string \<Rightarrow> string" where
  "normalize_upbit_order_status raw = (let s = lower (strip raw) in
     if s \<in> {''wait'', ''watch''} then ''open'' else if s = ''done'' then ''filled''
     else if s = ''cancel'' then ''cancelled'' else or_word s ''unknown'')"

definition normalize_bithumb_order_status :: "string \<Rightarrow> string" where
  "normalize_bithumb_order_status raw = (let s = lower (strip raw) in
     if s \<in> {''wait'', ''watch'', ''pending''} then ''open'' else if s = ''done'' then ''filled''
     else if s \<in> {''cancel'', ''cancelled''} then ''cancelled'' else or_word s ''unknown'')"

definition normalize_coinone_order_status :: "string \<Rightarrow> string" where
  "normalize_coinone_order_status raw = (let s = upper (strip raw) in
     case map_of [(''LIVE'', ''open''), (''PARTIALLY_FILLED'', ''partially_filled''),
       (''PARTIALLY_CANCELED'', ''partially_cancelled''), (''FILLED'', ''filled''), (''CANCELED'', ''cancelled''),
       (''CANCEL'', ''cancelled'')] s of Some t \<Rightarrow> t | None \<Rightarrow> or_word (lower s) ''unknown'')"

definition item_of :: "pyval \<Rightarrow> obj" where
  "item_of v = (case v of PDict d \<Rightarrow> d | _ \<Rightarrow> [])"

definition optional_market :: "string \<Rightarrow> string \<Rightarrow> exchange_market option api" where
  "optional_market exchange market =
     (if market = [] then Inr None else andThen (normalize_market exchange market) (\<lambda>m. Inr (Some m)))"

definition or_none :: "string \<Rightarrow> pyval" where
  "or_none t = (if t = [] then PNone else PStr t)"

definition normalize_upbit_order :: "pyval \<Rightarrow> obj api" where
  "normalize_upbit_order payload =
     (let item = item_of payload; market = raw_text item ''market''; state = raw_text item ''state'' in
      andThen (optional_market ''upbit'' market) (\<lambda>m. Inr
        [(''exchange_order_id'', PStr (raw_text item ''uuid'')), (''client_order_id'', pget item ''identifier''),
         (''market'', opt_str (map_option mk_canonical_symbol m)), (''exchange_market'', or_none market),
         (''side'', PStr (if raw_text item ''side'' = ''bid'' then ''buy'' else ''sell'')),
         (''order_type'', PStr (normalize_upbit_order_type item)),
         (''status'', PStr (normalize_upbit_order_status state)), (''raw_status'', PStr state),
         (''requested_price'', pget item ''price''), (''requested_qty'', pget item ''volume''),
         (''remaining_qty'', pget item ''remaining_volume''), (''filled_qty'', pget item ''executed_volume''),
         (''avg_fill_price'', PNone), (''fee_amount'', pget item ''paid_fee''), (''fee_rate'', PNone),
         (''created_at'', pget item ''created_at''), (''updated_at'', pget item ''created_at'')]))"

definition normalize_bithumb_order :: "pyval \<Rightarrow> obj api" where
  "normalize_bithumb_order payload =
     (let item = item_of payload; market = raw_text item ''market'';
          state = text_or (first_of item [''state'', ''order_state'', ''status'']) [] in
      andThen (optional_market ''bithumb'' market) (\<lambda>m. Inr
        [(''exchange_order_id'', PStr (text_or (first_of item [''uuid'', ''order_id'']) [])),
         (''client_order_id'', pget item ''client_order_id''),
         (''market'', opt_str (map_option mk_canonical_symbol m)), (''exchange_market'', or_none market),
         (''side'', PStr (if raw_text item ''side'' = ''bid'' then ''buy'' else ''sell'')),
         (''order_type'', PStr (lower (text_or (first_of item [''ord_type'', ''type'']) ''limit''))),
         (''status'', PStr (normalize_bithumb_order_status state)), (''raw_status'', PStr state),
         (''requested_price'', pget item ''price''),
         (''requested_qty'', first_of item [''volume'', ''original_volume'', ''qty'']),
         (''remaining_qty'', first_of item [''remaining_volume'', ''remain_qty'']),
         (''filled_qty'', first_of item [''executed_volume'', ''executed_qty'']),
         (''avg_fill_price'', first_of item [''avg_price'', ''average_executed_price'']),
         (''fee_amount'', first_of item [''paid_fee'', ''fee'']), (''fee_rate'', pget item ''fee_rate''),
         (''created_at'', pget item ''created_at''), (''updated_at'', first_of item [''created_at'', ''updated_at''])]))"

definition normalize_coinone_place_order :: "pyval \<Rightarrow> exchange_market \<Rightarrow> obj \<Rightarrow> obj api" where
  "normalize_coinone_place_order payload m request =
     andThen (normalize_side (pget request ''side'')) (\<lambda>side. Inr
       [(''exchange_order_id'', PStr (raw_text (item_of payload) ''order_id'')),
        (''client_order_id'', pget request ''client_order_id''), (''market'', PStr (mk_canonical_symbol m)),
        (''exchange_market'', PStr (mk_quote_currency m @ ''-'' @ mk_target_currency m)), (''side'', PStr side),
        (''order_type'', PStr (order_type_of request)), (''status'', PStr ''submitted''), (''raw_status'', PNone),
        (''requested_price'', pget request ''price''), (''requested_qty'', first_of request [''qty'', ''volume'']),
        (''remaining_qty'', PNone), (''filled_qty'', PNone), (''avg_fill_price'', PNone), (''fee_amount'', PNone),
        (''fee_rate'', PNone), (''created_at'', PNone), (''updated_at'', PNone)])"

definition normalize_coinone_order :: "pyval \<Rightarrow> obj" where
  "normalize_coinone_order payload =
     (let root = item_of payload; item = (case pget root ''order'' of PDict d \<Rightarrow> d | _ \<Rightarrow> root);
          quot = raw_text item ''quote_currency''; target = raw_text item ''target_currency'';
          known = (quot \<noteq> [] \<and> target \<noteq> []); status = raw_text item ''status'' in
      [(''exchange_order_id'', PStr (raw_text item ''order_id'')), (''client_order_id'', pget item ''user_order_id''),
       (''market'', if known then PStr (target @ ''/'' @ quot) else PNone),
       (''exchange_market'', if known then PStr (quot @ ''-'' @ target) else PNone),
       (''side'', PStr (if upper (raw_text item ''side'') = ''BUY'' then ''buy'' else ''sell'')),
       (''order_type'', PStr (lower (raw_text item ''type''))),
       (''status'', PStr (normalize_coinone_order_status status)), (''raw_status'', PStr status),
       (''requested_price'', pget item ''price''), (''requested_qty'', pget item ''original_qty''),
       (''remaining_qty'', pget item ''remain_qty''), (''filled_qty'', pget item ''executed_qty''),
       (''avg_fill_price'', pget item ''average_executed_price''), (''fee_amount'', pget item ''fee''),
       (''fee_rate'', pget item ''fee_rate''), (''created_at'', first_of item [''created_at'', ''ordered_at'']),
       (''updated_at'', first_of item [''updated_at'', ''ordered_at''])])"

definition set_if_missing :: "obj \<Rightarrow> string \<Rightarrow> string \<Rightarrow> obj" where
  "set_if_missing d k v = (if truthy (pget d k) then d else dset d k (PStr v))"

definition apply_order_market_fallback :: "obj \<Rightarrow> exchange_market \<Rightarrow> string \<Rightarrow> obj" where
  "apply_order_market_fallback d m oid =
     set_if_missing (set_if_missing (set_if_missing d ''exchange_order_id'' oid) ''market'' (mk_canonical_symbol m))
       ''exchange_market'' (mk_exchange_symbol m)"

section \<open>Errors of an exchange\<close>

fun contains_text :: "string \<Rightarrow> string \<Rightarrow> bool" where
  "contains_text p [] = (p = [])"
| "contains_text p (c # s) = (starts_with p (c # s) \<or> contains_text p s)"

definition payload_error_message :: "pyval \<Rightarrow> string" where
  "payload_error_message v = (case v of
      PDict d \<Rightarrow>
        (case pget d ''error'' of
           PDict e \<Rightarrow> or_word (join '': '' (filter (\<lambda>t. t \<noteq> []) [text_of e ''name'', text_of e ''message''])) ''request failed''
         | _ \<Rightarrow>
             (case find (\<lambda>k. truthy (pget d k)) [''message'', ''error_msg'', ''error_message''] of
                Some k \<Rightarrow> py_str (pget d k)
              | None \<Rightarrow>
                  (case find (\<lambda>k. truthy (pget d k) \<and> py_str (pget d k) \<noteq> ''0'') [''error_code'', ''errorCode''] of
                     Some k \<Rightarrow> ''error_code='' @ py_str (pget d k)
                   | None \<Rightarrow> dumps_raw (PDict d))))
    | _ \<Rightarrow> py_str v)"

definition KOREAN_NOT_EXISTING :: string where
  \<comment> \<open>the four syllables of the source in UTF-8\<close>
  "KOREAN_NOT_EXISTING = map char_of [236, 161, 180, 236, 158, 172, 237, 149, 152, 236, 167, 128 :: nat]"

definition KOREAN_BALANCE :: string where
  "KOREAN_BALANCE = map char_of [236, 158, 148, 234, 179, 160 :: nat]"

definition error_kind :: "int \<Rightarrow> string \<Rightarrow> string \<times> bool" where
  \<comment> \<open>internal code, and whether the request may be tried again\<close>
  "error_kind status message =
     (if status = 401 \<or> contains_text ''auth'' message \<or> contains_text ''jwt'' message \<or> contains_text ''signature'' message
      then (''AUTH_FAILED'', False)
      else if status = 404 \<or> contains_text ''not found'' message \<or> contains_text KOREAN_NOT_EXISTING message
      then (''ORDER_NOT_FOUND'', False)
      else if status = 429 \<or> contains_text ''too many'' message \<or> contains_text ''rate'' message
      then (''RATE_LIMITED'', True)
      else if contains_text ''insufficient'' message \<or> contains_text KOREAN_BALANCE message
      then (''INSUFFICIENT_BALANCE'', False)
      else if 500 \<le> status then (''SERVER_ERROR'', True)
      else (''INVALID_REQUEST'', False))"

definition map_error :: "string \<Rightarrow> string \<Rightarrow> int \<Rightarrow> pyval \<Rightarrow> api_error" where
  "map_error exchange operation status payload =
     (let raw = payload_error_message payload in
      case error_kind status (lower raw) of (code, retryable) \<Rightarrow>
        \<lparr>ax_exchange = exchange, ax_operation = operation, ax_code = code, ax_reason = raw, ax_retryable = retryable,
         ax_http_status = Some status, ax_raw_payload = payload\<rparr>)"

section \<open>Requests\<close>

record exchange_request =
  er_method :: string
  er_url :: string
  er_headers :: "(string, string) dict"
  er_body :: "obj option"
  er_timeout_ms :: int

datatype exchange_reply =
    Xr_ok int string
  | Xr_http_error int string
  | Xr_url_timeout \<comment> \<open>\<open>URLError\<close> whose reason is a timeout\<close>
  | Xr_url_error string
  | Xr_timeout
  | Xr_raises pyexc

record 'w venue =
  vn_net :: "exchange_request \<Rightarrow> 'w \<Rightarrow> 'w \<times> exchange_reply"
  vn_crypto :: crypto
  vn_nonce :: "'w \<Rightarrow> string"
  vn_now_ms :: "'w \<Rightarrow> int"

record rest_connector =
  rx_exchange :: string
  rx_credentials :: trading_credentials
  rx_base_url :: string
  rx_default_timeout_ms :: int
  rx_timeouts :: "(string, int) dict"

definition DEFAULT_OPERATION_TIMEOUT_MS :: "(string, int) dict" where
  "DEFAULT_OPERATION_TIMEOUT_MS = [(''get_balances'', 1500), (''place_order'', 3000), (''get_order_status'', 1500),
     (''cancel_order'', 3000), (''list_open_orders'', 2000)]"

definition rest_connector_init ::
    "string \<Rightarrow> trading_credentials \<Rightarrow> string \<Rightarrow> int \<Rightarrow> (string, int) dict \<Rightarrow> rest_connector" where
  "rest_connector_init exchange credentials base_url timeout_ms timeouts =
     \<lparr>rx_exchange = exchange, rx_credentials = credentials, rx_base_url = rstrip_char (CHR ''/'') base_url,
      rx_default_timeout_ms = max timeout_ms 250,
      rx_timeouts = dmerge DEFAULT_OPERATION_TIMEOUT_MS (map (\<lambda>(k, t). (k, max t 250)) timeouts)\<rparr>"

definition operation_timeout_ms :: "rest_connector \<Rightarrow> string \<Rightarrow> int" where
  "operation_timeout_ms c operation =
     max (case map_of (rx_timeouts c) operation of None \<Rightarrow> rx_default_timeout_ms c | Some t \<Rightarrow> t) 250"

definition decode_json_payload :: "string \<Rightarrow> pyval" where
  "decode_json_payload raw = (let t = strip raw in
     if t = [] then PDict [] else (case loads t of Some v \<Rightarrow> v | None \<Rightarrow> PDict [(''raw_text'', PStr t)]))"

definition unwrap_success_payload :: "rest_connector \<Rightarrow> string \<Rightarrow> pyval \<Rightarrow> int \<Rightarrow> pyval api" where
  "unwrap_success_payload c operation payload status =
     (if rx_exchange c \<noteq> ''coinone'' then Inr payload
      else case payload of
        PDict d \<Rightarrow>
          (let result = low_text d ''result'';
               code = text_or (first_of d [''error_code'', ''errorCode'']) ''0'' in
           if result = ''error'' \<or> (code \<noteq> [] \<and> code \<noteq> ''0'')
           then Inl (map_error (rx_exchange c) operation status payload) else Inr payload)
      | _ \<Rightarrow> Inr payload)"

definition network_error :: "rest_connector \<Rightarrow> string \<Rightarrow> string \<Rightarrow> api_error" where
  "network_error c operation reason = \<lparr>ax_exchange = rx_exchange c, ax_operation = operation, ax_code = ''NETWORK_ERROR'',
     ax_reason = reason, ax_retryable = True, ax_http_status = None, ax_raw_payload = PNone\<rparr>"

definition timed_out :: "rest_connector \<Rightarrow> string \<Rightarrow> api_error" where
  "timed_out c operation = network_error c operation (rx_exchange c @ '' '' @ operation @ '' request timed out after ''
     @ int_str (operation_timeout_ms c operation) @ ''ms'')"

definition read_reply :: "rest_connector \<Rightarrow> string \<Rightarrow> exchange_reply \<Rightarrow> pyval api res" where
  "read_reply c operation reply = (case reply of
      Xr_ok status t \<Rightarrow> Inr (unwrap_success_payload c operation (decode_json_payload t) status)
    | Xr_http_error status t \<Rightarrow> Inr (Inl (map_error (rx_exchange c) operation status (decode_json_payload t)))
    | Xr_url_timeout \<Rightarrow> Inr (Inl (timed_out c operation))
    | Xr_url_error reason \<Rightarrow> Inr (Inl (network_error c operation (rx_exchange c @ '' request failed: '' @ reason)))
    | Xr_timeout \<Rightarrow> Inr (Inl (timed_out c operation))
    | Xr_raises e \<Rightarrow> Inl e)"

definition request_headers :: "(string, string) dict \<Rightarrow> obj option \<Rightarrow> (string, string) dict" where
  "request_headers headers body =
     (let hs = dmerge [(''Accept'', ''application/json'')] headers in
      if body \<noteq> None \<and> map_of hs ''Content-Type'' = None then dset hs ''Content-Type'' ''application/json'' else hs)"

definition rest_request ::
    "'w venue \<Rightarrow> rest_connector \<Rightarrow> string \<Rightarrow> string \<Rightarrow> string \<Rightarrow> (string, string) dict \<Rightarrow> (string \<times> string) list \<Rightarrow>
      obj option \<Rightarrow> 'w \<Rightarrow> 'w \<times> pyval api res" where
  "rest_request v c operation meth path headers query body w =
     (case vn_net v \<lparr>er_method = meth,
          er_url = rx_base_url c @ path @ (if query = [] then [] else ''?'' @ build_query_string query),
          er_headers = request_headers headers body, er_body = body, er_timeout_ms = operation_timeout_ms c operation\<rparr> w of
        (w', reply) \<Rightarrow> (w', read_reply c operation reply))"

definition finish_call :: "(pyval \<Rightarrow> pyval api) \<Rightarrow> 'w \<times> pyval api res \<Rightarrow> 'w \<times> exchange_result res" where
  \<comment> \<open>the result of a call: what the reply means, or the API error raised on the way\<close>
  "finish_call f r = (case r of (w, x) \<Rightarrow> (w, andThen x (\<lambda>y. Inr (case y of
      Inl e \<Rightarrow> handle_api_error e
    | Inr p \<Rightarrow> (case f p of Inl e \<Rightarrow> handle_api_error e | Inr d \<Rightarrow> ok_result d p)))))"

definition refused_call :: "'w \<Rightarrow> api_error \<Rightarrow> 'w \<times> exchange_result res" where
  "refused_call w e = (w, Inr (handle_api_error e))"

definition list_items :: "pyval \<Rightarrow> pyval list" where
  "list_items v = (case v of PList xs \<Rightarrow> xs | _ \<Rightarrow> [])"

definition objects :: "pyval list \<Rightarrow> obj list" where
  "objects xs = concat (map (\<lambda>x. case x of PDict d \<Rightarrow> [d] | _ \<Rightarrow> []) xs)"

definition counted :: "obj list \<Rightarrow> nat \<Rightarrow> pyval" where
  "counted items n = PDict [(''items'', PList (map PDict items)), (''count'', PInt (int n))]"

definition order_list :: "(pyval \<Rightarrow> obj api) \<Rightarrow> pyval \<Rightarrow> pyval api" where
  "order_list f payload = andThen (mapM (\<lambda>d. f (PDict d)) (objects (list_items payload))) (\<lambda>os. Inr (counted os (length os)))"

section \<open>Upbit\<close>

definition upbit_call ::
    "'w venue \<Rightarrow> rest_connector \<Rightarrow> string \<Rightarrow> string \<Rightarrow> string \<Rightarrow> (string \<times> string) list \<Rightarrow> (string \<times> string) list \<Rightarrow>
      obj option \<Rightarrow> 'w \<Rightarrow> 'w \<times> pyval api res" where
  \<comment> \<open>a request whose token signs the pairs of the first list\<close>
  "upbit_call v c operation meth path signed query body w =
     (case create_upbit_jwt_token (vn_crypto v) (vn_nonce v w) (tc_access_key (rx_credentials c))
          (tc_secret_key (rx_credentials c)) (build_query_string signed) of
        Inl e \<Rightarrow> (w, Inl e)
      | Inr token \<Rightarrow> rest_request v c operation meth path [(''Authorization'', build_bearer_authorization token)] query body w)"

definition upbit_get_balances :: "'w venue \<Rightarrow> rest_connector \<Rightarrow> 'w \<Rightarrow> 'w \<times> exchange_result res" where
  "upbit_get_balances v c w = finish_call
     (\<lambda>p. Inr (counted (map normalize_upbit_balance (objects (list_items p))) (length (list_items p))))
     (upbit_call v c ''get_balances'' ''GET'' ''/v1/accounts'' [] [] None w)"

definition upbit_place_order :: "'w venue \<Rightarrow> rest_connector \<Rightarrow> obj \<Rightarrow> 'w \<Rightarrow> 'w \<times> exchange_result res" where
  "upbit_place_order v c request w = (case build_upbit_order_payload request of
      Inl e \<Rightarrow> refused_call w e
    | Inr body \<Rightarrow> finish_call (\<lambda>p. andThen (normalize_upbit_order p) (\<lambda>d. Inr (PDict d)))
        (upbit_call v c ''place_order'' ''POST'' ''/v1/orders'' (query_pairs_from_payload body) [] (Some body) w))"

definition upbit_get_order_status :: "'w venue \<Rightarrow> rest_connector \<Rightarrow> string \<Rightarrow> string \<Rightarrow> 'w \<Rightarrow> 'w \<times> exchange_result res" where
  "upbit_get_order_status v c oid market w =
     finish_call (\<lambda>p. andThen (normalize_upbit_order p) (\<lambda>d. Inr (PDict d)))
       (upbit_call v c ''get_order_status'' ''GET'' ''/v1/order'' [(''uuid'', oid)] [(''uuid'', oid)] None w)"

definition upbit_cancel_order :: "'w venue \<Rightarrow> rest_connector \<Rightarrow> string \<Rightarrow> string \<Rightarrow> 'w \<Rightarrow> 'w \<times> exchange_result res" where
  "upbit_cancel_order v c oid market w = (case normalize_market (rx_exchange c) market of
      Inl e \<Rightarrow> refused_call w e
    | Inr m \<Rightarrow> finish_call (\<lambda>p. andThen (normalize_upbit_order p) (\<lambda>d. Inr (PDict (apply_order_market_fallback d m oid))))
        (upbit_call v c ''cancel_order'' ''DELETE'' ''/v1/order'' [(''uuid'', oid)] [(''uuid'', oid)] None w))"

definition market_pairs :: "rest_connector \<Rightarrow> string option \<Rightarrow> (string \<times> string) list api" where
  "market_pairs c market = (case market of
      None \<Rightarrow> Inr []
    | Some t \<Rightarrow> if t = [] then Inr []
        else andThen (normalize_market (rx_exchange c) t) (\<lambda>m. Inr [(''market'', mk_exchange_symbol m)]))"

definition upbit_list_open_orders :: "'w venue \<Rightarrow> rest_connector \<Rightarrow> string option \<Rightarrow> 'w \<Rightarrow> 'w \<times> exchange_result res" where
  "upbit_list_open_orders v c market w = (case market_pairs c market of
      Inl e \<Rightarrow> refused_call w e
    | Inr pairs \<Rightarrow> finish_call (order_list normalize_upbit_order)
        (upbit_call v c ''list_open_orders'' ''GET'' ''/v1/orders/open'' pairs pairs None w))"

section \<open>Bithumb\<close>

definition bithumb_call ::
    "'w venue \<Rightarrow> rest_connector \<Rightarrow> string \<Rightarrow> string \<Rightarrow> string \<Rightarrow> (string \<times> string) list \<Rightarrow> (string \<times> string) list \<Rightarrow>
      obj option \<Rightarrow> 'w \<Rightarrow> 'w \<times> pyval api res" where
  "bithumb_call v c operation meth path signed query body w =
     (case create_bithumb_jwt_token (vn_crypto v) (vn_nonce v w) (vn_now_ms v w) (tc_access_key (rx_credentials c))
          (tc_secret_key (rx_credentials c)) (build_query_string signed) of
        Inl e \<Rightarrow> (w, Inl e)
      | Inr token \<Rightarrow> rest_request v c operation meth path [(''Authorization'', build_bearer_authorization token)] query body w)"

definition bithumb_get_balances :: "'w venue \<Rightarrow> rest_connector \<Rightarrow> 'w \<Rightarrow> 'w \<times> exchange_result res" where
  "bithumb_get_balances v c w = finish_call
     (\<lambda>p. let bs = map normalize_bithumb_balance (objects (list_items p)) in Inr (counted bs (length bs)))
     (bithumb_call v c ''get_balances'' ''GET'' ''/v1/accounts'' [] [] None w)"

definition bithumb_place_order :: "'w venue \<Rightarrow> rest_connector \<Rightarrow> obj \<Rightarrow> 'w \<Rightarrow> 'w \<times> exchange_result res" where
  "bithumb_place_order v c request w = (case build_bithumb_order_payload request of
      Inl e \<Rightarrow> refused_call w e
    | Inr body \<Rightarrow> finish_call (\<lambda>p. andThen (normalize_bithumb_order p) (\<lambda>d. Inr (PDict d)))
        (bithumb_call v c ''place_order'' ''POST'' ''/v1/orders'' (query_pairs_from_payload body) [] (Some body) w))"

definition bithumb_get_order_status :: "'w venue \<Rightarrow> rest_connector \<Rightarrow> string \<Rightarrow> string \<Rightarrow> 'w \<Rightarrow> 'w \<times> exchange_result res" where
  "bithumb_get_order_status v c oid market w =
     finish_call (\<lambda>p. andThen (normalize_bithumb_order p) (\<lambda>d. Inr (PDict d)))
       (bithumb_call v c ''get_order_status'' ''GET'' ''/v1/order'' [(''uuid'', oid)] [(''uuid'', oid)] None w)"

definition bithumb_cancel_order :: "'w venue \<Rightarrow> rest_connector \<Rightarrow> string \<Rightarrow> string \<Rightarrow> 'w \<Rightarrow> 'w \<times> exchange_result res" where
  "bithumb_cancel_order v c oid market w = (case normalize_market (rx_exchange c) market of
      Inl e \<Rightarrow> refused_call w e
    | Inr m \<Rightarrow> finish_call (\<lambda>p. andThen (normalize_bithumb_order p) (\<lambda>d. Inr (PDict (apply_order_market_fallback d m oid))))
        (bithumb_call v c ''cancel_order'' ''DELETE'' ''/v1/order'' [(''uuid'', oid)] [(''uuid'', oid)] None w))"

definition bithumb_list_open_orders :: "'w venue \<Rightarrow> rest_connector \<Rightarrow> string option \<Rightarrow> 'w \<Rightarrow> 'w \<times> exchange_result res" where
  "bithumb_list_open_orders v c market w = (case market_pairs c market of
      Inl e \<Rightarrow> refused_call w e
    | Inr pairs \<Rightarrow>
        (let query = pairs @ [(''state'', ''wait'')] in
         finish_call (order_list normalize_bithumb_order)
           (bithumb_call v c ''list_open_orders'' ''GET'' ''/v1/orders'' query query None w)))"

section \<open>Coinone\<close>

definition coinone_call ::
    "'w venue \<Rightarrow> rest_connector \<Rightarrow> string \<Rightarrow> string \<Rightarrow> obj \<Rightarrow> 'w \<Rightarrow> 'w \<times> pyval api res" where
  "coinone_call v c operation path payload w =
     (case build_coinone_private_headers (vn_crypto v) (vn_nonce v w) payload (tc_access_key (rx_credentials c))
          (tc_secret_key (rx_credentials c)) of
        (headers, body) \<Rightarrow> rest_request v c operation ''POST'' path headers [] (Some body) w)"

definition coinone_get_balances :: "'w venue \<Rightarrow> rest_connector \<Rightarrow> 'w \<Rightarrow> 'w \<times> exchange_result res" where
  "coinone_get_balances v c w = finish_call
     (\<lambda>p. let bs = map normalize_coinone_balance (objects (list_items (pget (item_of p) ''balances''))) in
        Inr (counted bs (length bs)))
     (coinone_call v c ''get_balances'' ''/v2.1/account/balance/all'' [] w)"

definition coinone_place_order :: "'w venue \<Rightarrow> rest_connector \<Rightarrow> obj \<Rightarrow> 'w \<Rightarrow> 'w \<times> exchange_result res" where
  "coinone_place_order v c request w = (case build_coinone_order_payload request of
      Inl e \<Rightarrow> refused_call w e
    | Inr body \<Rightarrow> finish_call
        (\<lambda>p. andThen (normalize_market (rx_exchange c) (raw_text request ''market'')) (\<lambda>m.
           andThen (normalize_coinone_place_order p m request) (\<lambda>d. Inr (PDict d))))
        (coinone_call v c ''place_order'' ''/v2.1/order'' body w))"

definition coinone_order_body :: "exchange_market \<Rightarrow> string \<Rightarrow> obj" where
  "coinone_order_body m oid = [(''order_id'', PStr oid), (''quote_currency'', PStr (mk_quote_currency m)),
     (''target_currency'', PStr (mk_target_currency m))]"

definition coinone_get_order_status :: "'w venue \<Rightarrow> rest_connector \<Rightarrow> string \<Rightarrow> string \<Rightarrow> 'w \<Rightarrow> 'w \<times> exchange_result res" where
  "coinone_get_order_status v c oid market w = (case normalize_market (rx_exchange c) market of
      Inl e \<Rightarrow> refused_call w e
    | Inr m \<Rightarrow> finish_call (\<lambda>p. Inr (PDict (normalize_coinone_order p)))
        (coinone_call v c ''get_order_status'' ''/v2.1/order/detail'' (coinone_order_body m oid) w))"

definition coinone_cancel_order :: "'w venue \<Rightarrow> rest_connector \<Rightarrow> string \<Rightarrow> string \<Rightarrow> 'w \<Rightarrow> 'w \<times> exchange_result res" where
  "coinone_cancel_order v c oid market w = (case normalize_market (rx_exchange c) market of
      Inl e \<Rightarrow> refused_call w e
    | Inr m \<Rightarrow> finish_call (\<lambda>p. Inr (PDict (apply_order_market_fallback (normalize_coinone_order p) m oid)))
        (coinone_call v c ''cancel_order'' ''/v2.1/order/cancel'' (coinone_order_body m oid) w))"

definition coinone_list_open_orders :: "'w venue \<Rightarrow> rest_connector \<Rightarrow> string option \<Rightarrow> 'w \<Rightarrow> 'w \<times> exchange_result res" where
  "coinone_list_open_orders v c market w =
     (case (case market of None \<Rightarrow> Inr []
            | Some t \<Rightarrow> if t = [] then Inr []
                else andThen (normalize_market (rx_exchange c) t) (\<lambda>m. Inr [(''quote_currency'', PStr (mk_quote_currency m)),
                  (''target_currency'', PStr (mk_target_currency m))])) of
        Inl e \<Rightarrow> refused_call w e
      | Inr body \<Rightarrow> finish_call
          (\<lambda>p. let os = map (\<lambda>d. normalize_coinone_order (PDict d))
                 (objects (list_items (first_of (item_of p) [''active_orders'', ''open_orders''])))
             in Inr (counted os (length os)))
          (coinone_call v c ''list_open_orders'' ''/v2.1/order/active_orders'' body w))"

section \<open>Connectors\<close>

record 'w connector =
  cn_exchange :: string
  cn_name :: string
  cn_info :: connector_info
  cn_private_ws_monitor :: ws_monitor
  cn_get_balances :: "'w \<Rightarrow> 'w \<times> exchange_result res"
  cn_place_order :: "obj \<Rightarrow> 'w \<Rightarrow> 'w \<times> exchange_result res"
  cn_get_order_status :: "string \<Rightarrow> string \<Rightarrow> 'w \<Rightarrow> 'w \<times> exchange_result res"
  cn_cancel_order :: "string \<Rightarrow> string \<Rightarrow> 'w \<Rightarrow> 'w \<times> exchange_result res"
  cn_list_open_orders :: "string option \<Rightarrow> 'w \<Rightarrow> 'w \<times> exchange_result res"

definition unavailable_result :: "string \<Rightarrow> credentials_status \<Rightarrow> exchange_result" where
  "unavailable_result exchange k = \<lparr>px_outcome = ''unavailable'',
     px_reason = Some (''trading credentials are missing or invalid (exchange='' @ exchange @ '', state='' @ ks_state k @ '')''),
     px_data = PNone, px_error_code = Some ''AUTH_CONFIG_MISSING'', px_retryable = Some False, px_http_status = None,
     px_raw_payload = PNone\<rparr>"

definition missing_credentials_connector :: "string \<Rightarrow> credentials_status \<Rightarrow> 'w connector" where
  "missing_credentials_connector exchange k =
     (let gone = (\<lambda>w. (w, Inr (unavailable_result exchange k))) in
      \<lparr>cn_exchange = exchange, cn_name = exchange @ '':missing_credentials'',
       cn_info = \<lparr>ci_exchange = exchange, ci_name = exchange @ '':missing_credentials'', ci_configured = ks_configured k,
         ci_ready = False, ci_state = ks_state k, ci_credential_source_path = ks_source_path k\<rparr>,
       cn_private_ws_monitor = build_private_exchange_ws_monitor exchange (ks_configured k) False,
       cn_get_balances = gone, cn_place_order = (\<lambda>_. gone), cn_get_order_status = (\<lambda>_ _. gone),
       cn_cancel_order = (\<lambda>_ _. gone), cn_list_open_orders = (\<lambda>_. gone)\<rparr>)"

definition rest_info :: "rest_connector \<Rightarrow> connector_info" where
  "rest_info c = \<lparr>ci_exchange = rx_exchange c, ci_name = rx_exchange c @ '':private_rest'', ci_configured = True, ci_ready = True,
     ci_state = ''ready_rest'', ci_credential_source_path = Some (tc_source_path (rx_credentials c))\<rparr>"

definition rest_ws_monitor :: "rest_connector \<Rightarrow> ws_monitor" where
  "rest_ws_monitor c = build_private_exchange_ws_monitor (rx_exchange c) True True"

definition connector_class :: "'w venue \<Rightarrow> rest_connector \<Rightarrow> 'w connector option" where
  \<comment> \<open>\<open>connector_class_by_exchange\<close>\<close>
  "connector_class v c =
     (let base = \<lparr>cn_exchange = rx_exchange c, cn_name = rx_exchange c @ '':private_rest'', cn_info = rest_info c,
            cn_private_ws_monitor = rest_ws_monitor c, cn_get_balances = upbit_get_balances v c,
            cn_place_order = upbit_place_order v c, cn_get_order_status = upbit_get_order_status v c,
            cn_cancel_order = upbit_cancel_order v c, cn_list_open_orders = upbit_list_open_orders v c\<rparr> in
      if rx_exchange c = ''upbit'' then Some base
      else if rx_exchange c = ''bithumb''
      then Some (base\<lparr>cn_get_balances := bithumb_get_balances v c, cn_place_order := bithumb_place_order v c,
            cn_get_order_status := bithumb_get_order_status v c, cn_cancel_order := bithumb_cancel_order v c,
            cn_list_open_orders := bithumb_list_open_orders v c\<rparr>)
      else if rx_exchange c = ''coinone''
      then Some (base\<lparr>cn_get_balances := coinone_get_balances v c, cn_place_order := coinone_place_order v c,
            cn_get_order_status := coinone_get_order_status v c, cn_cancel_order := coinone_cancel_order v c,
            cn_list_open_orders := coinone_list_open_orders v c\<rparr>)
      else None)"

record exchange_config =
  xg_primary_dir :: string
  xg_fallback_dir :: string
  xg_base_urls :: "(string, string) dict"
  xg_timeouts :: "(string, int) dict"

definition build_private_exchange_connector ::
    "'w venue \<Rightarrow> (string \<Rightarrow> key_file) \<Rightarrow> exchange_config \<Rightarrow> string \<Rightarrow> 'w connector res" where
  "build_private_exchange_connector v fs cfg exchange =
     andThen (inspect_exchange_trading_credentials fs exchange (xg_primary_dir cfg) (xg_fallback_dir cfg)) (\<lambda>k.
       if \<not> ks_ready k then Inr (missing_credentials_connector exchange k)
       else andThen (load_exchange_trading_credentials fs exchange (xg_primary_dir cfg) (xg_fallback_dir cfg)) (\<lambda>cr. case cr of
           None \<Rightarrow> Inr (missing_credentials_connector exchange k)
         | Some credentials \<Rightarrow>
             (case map_of (xg_base_urls cfg) exchange of
                None \<Rightarrow> Inl (KeyError exchange)
              | Some url \<Rightarrow>
                  (case connector_class v (rest_connector_init exchange credentials url
                       (foldr max (map snd (xg_timeouts cfg)) 0) (xg_timeouts cfg)) of
                     None \<Rightarrow> Inl (KeyError exchange) | Some c \<Rightarrow> Inr c))))"

definition build_private_exchange_connectors ::
    "'w venue \<Rightarrow> (string \<Rightarrow> key_file) \<Rightarrow> exchange_config \<Rightarrow> string list \<Rightarrow> (string, 'w connector) dict res" where
  "build_private_exchange_connectors v fs cfg exchanges =
     mapM (\<lambda>x. andThen (build_private_exchange_connector v fs cfg x) (\<lambda>c. Inr (x, c))) exchanges"

end
