(* ===== verification/PrivateConnectors.thy ===== *)
theory PrivateConnectors
  imports PrivateHttp PrivateExchange
begin

text \<open>
  \<open>strategy/arbitrage_private_connectors_execution_adapter.py\<close>: both legs of an intent are placed through the private
  connectors, the buy leg first, and each order is stored before the next leg is sent. The state is
  that of the store and that of the world behind the connectors.
\<close>

definition MODE_NAME :: string where
  "MODE_NAME = ''private_connectors''"

definition order_request :: "order_intent \<Rightarrow> string \<Rightarrow> string \<Rightarrow> obj" where
  "order_request i side limit_px =
     (let parts = filter (\<lambda>t. t \<noteq> []) [strip (intent_id i), side,
            if side = ''buy'' then strip (int_buy_exchange i) else strip (int_sell_exchange i)];
          cid = join '':'' parts
      in [(''market'', PStr (int_market i)), (''side'', PStr side), (''order_type'', PStr ''limit''),
          (''price'', PStr limit_px), (''qty'', PStr (int_target_qty i))] @
         (if cid = [] then [] else [(''client_order_id'', PStr cid)]))"

definition order_item_from_response ::
    "exchange_result \<Rightarrow> order_intent \<Rightarrow> string \<Rightarrow> string \<Rightarrow> string \<Rightarrow> string \<Rightarrow> string + obj" where
  "order_item_from_response r i side exchange limit_px name =
     (if px_outcome r \<noteq> ''ok''
      then Inl (exchange @ '' place_order failed: '' @
        or_else (json_text (por (opt_str (px_error_code r)) (PStr (px_outcome r)))) ''unknown'' @ '': '' @
        or_else (json_text (opt_str (px_reason r))) ''private connector request failed'')
      else case px_data r of
        PDict payload \<Rightarrow>
          (let status = lower (strip (or_else (json_text (pget payload ''status'')) ''submitted'')) in
           if status \<in> set LIVE_TERMINAL_STATUSES
           then Inl (exchange @ '' place_order returned terminal order status: '' @ status)
           else (case json_text (pget payload ''exchange_order_id'') of
               None \<Rightarrow> Inl (exchange @ '' place_order returned missing exchange_order_id'')
             | Some e \<Rightarrow> Inr
                 [(''exchange_name'', PStr exchange), (''side'', PStr side), (''market'', PStr (int_market i)),
                  (''requested_qty'', PStr (or_else (json_text (pget payload ''requested_qty'')) (int_target_qty i))),
                  (''requested_price'', PStr (or_else (json_text (pget payload ''requested_price'')) limit_px)),
                  (''exchange_order_id'', PStr e), (''status'', PStr status),
                  (''raw_payload'', PDict [(''connector_name'', PStr name), (''connector_outcome'', PStr (px_outcome r)),
                     (''connector_order'', PDict payload)])]))
      | _ \<Rightarrow> Inl (exchange @ '' place_order returned invalid payload''))"

definition connector_response_details :: "exchange_result \<Rightarrow> string \<Rightarrow> string \<Rightarrow> string \<Rightarrow> obj" where
  "connector_response_details r side exchange name =
     [(''failed_leg'', PStr side), (''exchange_name'', PStr exchange), (''connector_name'', PStr name),
      (''connector_outcome'', PStr (px_outcome r)), (''connector_error_code'', opt_str (px_error_code r)),
      (''connector_reason'', opt_str (px_reason r)), (''connector_retryable'', opt_bool (px_retryable r)),
      (''connector_http_status'', opt_int (px_http_status r))]"

definition record_leg ::
    "'s live_ops \<Rightarrow> order_intent \<Rightarrow> bool \<Rightarrow> string \<times> string \<times> string \<Rightarrow> string \<Rightarrow> exchange_result \<Rightarrow> order list \<Rightarrow> 's \<Rightarrow>
      's \<times> (submit_result + order list) res" where
  \<comment> \<open>the reply of a connector to one leg: a failed result, or the orders stored so far with that of the leg\<close>
  "record_leg ops i auto_unwind leg name r created s =
     (case leg of (side, exchange, limit_px) \<Rightarrow>
        (let details = connector_response_details r side exchange name in
         case order_item_from_response r i side exchange limit_px name of
           Inl e \<Rightarrow> (s, Inr (Inl (failure_result auto_unwind e details created [] MODE_NAME)))
         | Inr item \<Rightarrow>
             (case create_orders_from_response ops MODE_NAME False i (PList [PDict item]) s of
                (s', Inl e) \<Rightarrow> (s', Inl e)
              | (s', Inr (batch, _, Some e)) \<Rightarrow>
                  (s', Inr (Inl (failure_result auto_unwind e (details @ [(''order_payload'', PDict item)]) created [] MODE_NAME)))
              | (s', Inr (batch, _, None)) \<Rightarrow> (s', Inr (Inr (created @ batch))))))"

fun place_legs ::
    "'s live_ops \<Rightarrow> (string, 'w connector) dict \<Rightarrow> order_intent \<Rightarrow> bool \<Rightarrow> (string \<times> string \<times> string) list \<Rightarrow> order list \<Rightarrow>
      's \<Rightarrow> 'w \<Rightarrow> 's \<times> 'w \<times> (submit_result + order list) res" where
  "place_legs ops cs i auto_unwind [] created s w = (s, w, Inr (Inr created))"
| "place_legs ops cs i auto_unwind ((side, exchange, limit_px) # legs) created s w =
     (case map_of cs exchange of
        None \<Rightarrow> (s, w, Inr (Inl (failure_result auto_unwind
          (''private connector not configured for: '' @ (if exchange = [] then side else exchange))
          [(''failed_leg'', PStr side), (''exchange_name'', PStr exchange)] created [] MODE_NAME)))
      | Some c \<Rightarrow>
          (case cn_place_order c (order_request i side limit_px) w of
             (w', Inl e) \<Rightarrow> (s, w', Inl e)
           | (w', Inr r) \<Rightarrow>
               (case record_leg ops i auto_unwind (side, exchange, limit_px) (cn_name c) r created s of
                  (s', Inr (Inr created')) \<Rightarrow> place_legs ops cs i auto_unwind legs created' s' w'
                | (s', stopped) \<Rightarrow> (s', w', stopped))))"

definition settle_legs :: "'s live_ops \<Rightarrow> bool \<Rightarrow> order list \<Rightarrow> 's \<Rightarrow> submit_result res" where
  \<comment> \<open>the result once both legs are placed, with the orders as the store has them now\<close>
  "settle_legs ops auto_unwind created s = andThen (refresh_live_orders ops s created) (\<lambda>xs.
     let n = (''submitted_leg_count'', PInt (int (length xs))) in
     Inr (case validate_submitted_order_states xs [] of
         Some e \<Rightarrow> failure_result auto_unwind e [n] xs [] MODE_NAME
       | None \<Rightarrow> \<lparr>sr_outcome = ''submitted'', sr_lifecycle_preview = ''entry_submitting'', sr_recovery_required = False,
           sr_unwind_in_progress = False, sr_created_orders = xs, sr_created_fills = [],
           sr_details = [(''mode'', PStr MODE_NAME), n]\<rparr>))"

definition legs_to_place :: "order_intent \<Rightarrow> executable_edge_result \<Rightarrow> (string \<times> string \<times> string) list" where
  "legs_to_place i edge = [(''buy'', strip (int_buy_exchange i), dstr (buy_vwap edge)),
     (''sell'', strip (int_sell_exchange i), dstr (sell_vwap edge))]"

definition private_connectors_submit ::
    "'s live_ops \<Rightarrow> (string, 'w connector) dict \<Rightarrow> arbitrage_decision \<Rightarrow> order_intent \<Rightarrow> bool \<Rightarrow> 's \<Rightarrow> 'w \<Rightarrow>
      's \<times> 'w \<times> submit_result res" where
  "private_connectors_submit ops cs d i auto_unwind s w = (case executable_edge d of
      None \<Rightarrow> (s, w, Inr (failure_result auto_unwind ''private connector execution requires executable edge''
        [(''reason'', PStr ''missing executable edge'')] [] [] MODE_NAME))
    | Some edge \<Rightarrow>
        (case place_legs ops cs i auto_unwind (legs_to_place i edge) [] s w of
           (s', w', r) \<Rightarrow> (s', w', andThen r (\<lambda>q. case q of
             Inl failed \<Rightarrow> Inr failed | Inr created \<Rightarrow> settle_legs ops auto_unwind created s'))))"

definition private_connectors_adapter :: "redis_config \<Rightarrow> (string, 'w connector) dict \<Rightarrow> 'w \<Rightarrow> adapter" where
  "private_connectors_adapter cfg cs w d i auto_unwind m =
     (case private_connectors_submit (live_mem_ops cfg) cs d i auto_unwind m w of (m', w', r) \<Rightarrow> (m', r))"

end
