(* ===== verification/LiveOrders.thy ===== *)
theory LiveOrders
  imports PrivateConnectors ExecutionStore StrategySafety
begin

text \<open>
  What the live adapters do to a store, whatever the executor or the exchanges reply. Two contracts: a
  relation between the store before and after that every stored order and fill keeps (\<open>live_effects\<close>), and
  a table of orders the operations read and extend (\<open>live_book\<close>). The in-memory store meets both.
\<close>

section \<open>Checked orders\<close>

definition order_leg :: "order \<Rightarrow> leg" where
  "order_leg x = (ord_side x, ord_exchange_name x)"

definition args_leg :: "order_args \<Rightarrow> leg" where
  "args_leg a = (oa_side a, oa_exchange_name a)"

definition leg_request :: "order_intent \<Rightarrow> order_args \<Rightarrow> bool" where
  \<comment> \<open>an order that may be stored for the intent\<close>
  "leg_request i a = (oa_intent_id a = intent_id i \<and> (int_market i \<noteq> [] \<longrightarrow> oa_market a = int_market i)
     \<and> args_leg a \<in> set (expected_legs i) \<and> is_positive_number_text (oa_requested_qty a)
     \<and> (\<forall>p. oa_requested_price a = Some p \<longrightarrow> is_positive_number_text p))"

lemma order_problem_None:
  assumes "order_problem i seen status a = None" and "oa_intent_id a = intent_id i"
  shows "leg_request i a \<and> args_leg a \<notin> set seen \<and> status \<in> set ALLOWED_ORDER_STATUSES"
  using assms by (auto simp: order_problem_def Let_def leg_request_def args_leg_def split: if_splits option.splits)

fun the_args :: "(string + order_args list) res \<Rightarrow> order_args list" where
  "the_args (Inr (Inr as)) = as"
| "the_args _ = []"

definition all_requests :: "order_intent \<Rightarrow> leg list \<Rightarrow> order_args list \<Rightarrow> bool" where
  "all_requests i legs as = (list_all (leg_request i) as \<and> distinct (map args_leg as) \<and> set (map args_leg as) \<inter> set legs = {})"

lemma sum_cons: "(case r of Inl e \<Rightarrow> Inl e | Inr as \<Rightarrow> Inr (a # as)) = Inr bs \<longleftrightarrow> (\<exists>as. r = Inr as \<and> bs = a # as)"
  by (cases r) auto

lemma check_orders_Cons:
  assumes "check_orders ops mode persist i s n legs ids (x # xs) = Inr (Inr as)"
  obtains item bs where "x = PDict item" "as = order_of_item mode persist i n item # bs"
    "order_problem i legs (item_status item) (order_of_item mode persist i n item) = None"
    "check_orders ops mode persist i s (n + 1) (args_leg (order_of_item mode persist i n item) # legs)
       (seen_ids (order_of_item mode persist i n item) @ ids) xs = Inr (Inr bs)"
  using assms by (cases x) (auto simp: Let_def res_simps args_leg_def sum_cons split: option.splits)

lemma checked_orders:
  "check_orders ops mode persist i s n legs ids xs = Inr (Inr as) \<Longrightarrow> all_requests i legs as \<and> length as = length xs"
proof (induction xs arbitrary: n legs ids as)
  case Nil
  then show ?case by (simp add: all_requests_def)
next
  case (Cons x xs)
  from Cons.prems obtain item bs where c: "x = PDict item" "as = order_of_item mode persist i n item # bs"
    "order_problem i legs (item_status item) (order_of_item mode persist i n item) = None"
    "check_orders ops mode persist i s (n + 1) (args_leg (order_of_item mode persist i n item) # legs)
       (seen_ids (order_of_item mode persist i n item) @ ids) xs = Inr (Inr bs)" by (rule check_orders_Cons)
  have "oa_intent_id (order_of_item mode persist i n item) = intent_id i" by (simp add: order_of_item_def Let_def)
  with order_problem_None [OF c(3)] Cons.IH [OF c(4)] c(2) show ?case by (auto simp: all_requests_def)
qed

section \<open>A relation every stored order and fill keeps\<close>

locale live_effects =
  fixes ops :: "'s live_ops" and i :: order_intent and R :: "'s \<Rightarrow> 's \<Rightarrow> bool"
  assumes same: "R s s"
    and later: "R s t \<Longrightarrow> R t u \<Longrightarrow> R s u"
    and an_order: "leg_request i a \<Longrightarrow> R s (fst (op_create_order (lv_base ops) a s))"
    and a_fill: "R s (fst (op_create_fill (lv_base ops) f s))"
begin

lemma store_orders_effect: "list_all (leg_request i) as \<Longrightarrow> R s (fst (store_orders ops as created index s))"
proof (induction as arbitrary: created index s)
  case (Cons a as)
  obtain t oc x where c: "op_create_order (lv_base ops) a s = (t, oc, x)" by (metis prod.collapse)
  with an_order [of a s] Cons.prems have t: "R s t" by simp
  then have "R s (fst (store_orders ops as cr ix t))" for cr ix using Cons later by simp
  with t show ?case by (cases oc; cases x) (simp_all add: c)
qed (simp add: same)

lemma orders_effect: "R s (fst (create_orders_from_response ops mode persist i payload s))"
proof -
  have "R s t" if "check_orders ops mode persist i s 1 [] [] xs = Inr (Inr as)" "store_orders ops as [] [] s = (t, q)" for xs as t q
    using store_orders_effect [of as s "[]" "[]"] checked_orders [OF that(1)] that(2) by (simp add: all_requests_def)
  then show ?thesis unfolding create_orders_from_response_def
    by (auto simp: same split: pyval.split list.split sum.split prod.split)
qed

lemma store_fills_effect: "R s (fst (store_fills ops as fs s))"
proof (induction as arbitrary: fs s)
  case (Cons a as)
  obtain t r where c: "op_create_fill (lv_base ops) a s = (t, r)" by (metis prod.collapse)
  with a_fill [of s a] have t: "R s t" by simp
  then have rest: "R s (fst (store_fills ops as gs t))" for gs using Cons later by blast
  show ?case
  proof (cases r)
    case (Inr p)
    then show ?thesis using t rest by (cases p; cases "fst p"; cases "snd p") (simp_all add: c)
  qed (simp add: c t)
qed (simp add: same)

lemma fills_effect: "R s (fst (create_fills_from_response ops clock index payload s))"
  unfolding create_fills_from_response_def
  by (auto simp: same store_fills_effect split: pyval.split sum.split)

lemma record_fills_effect: "R s (fst (record_fills ops clock c created index s))"
  using fills_effect [of s clock index "pget (lc_payload c) ''fills''"]
  by (auto simp: record_fills_def split: prod.split sum.split)

lemma record_reply_effect:
  assumes "lc_intent c = i"
  shows "R s (fst (record_reply ops clock c persist whole s))"
proof -
  obtain t r where o: "create_orders_from_response ops ''private_http'' persist i (pget (lc_payload c) ''orders'') s = (t, r)"
    by (metis prod.collapse)
  with orders_effect [of s "''private_http''" persist "pget (lc_payload c) ''orders''"] have t: "R s t" by simp
  have "R s (fst (record_fills ops clock c created index t))" for created index by (rule later [OF t record_fills_effect])
  with t show ?thesis by (auto simp: record_reply_def o assms split: sum.split prod.split option.split)
qed

lemma failed_reply_effect:
  assumes "lc_intent c = i"
  shows "R s (fst (submit_failed_reply ops clock c s))"
proof -
  obtain t r where r: "record_reply ops clock c False False s = (t, r)" by (metis prod.collapse)
  with record_reply_effect [OF assms, of s clock False False] have "R s t" by simp
  then show ?thesis by (simp add: submit_failed_reply_def Let_def same r split: option.split pyval.split list.split)
qed

lemma accepted_reply_effect:
  assumes "lc_intent c = i"
  shows "R s (fst (submitted_or_filled_reply ops clock c outcome preview s))"
proof -
  obtain t r where r: "record_reply ops clock c (outcome = ''filled'') True s = (t, r)" by (metis prod.collapse)
  with record_reply_effect [OF assms, of s clock "outcome = ''filled''" True] have "R s t" by simp
  then show ?thesis by (simp add: submitted_or_filled_reply_def same r split: option.split)
qed

lemma take_reply_effect:
  assumes "lc_intent c = i"
  shows "R s (fst (take_reply ops clock c s))"
  unfolding take_reply_def Let_def
  by (simp add: same failed_reply_effect [OF assms] accepted_reply_effect [OF assms] split: option.split)

lemma http_effect: "R s (fst (private_http_submit ops clock net url timeout_ms token d i b s))"
  by (auto simp: private_http_submit_def same take_reply_effect split: sum.split)

lemma record_leg_effect: "R s (fst (record_leg ops i b leg name r created s))"
proof -
  have "R s t" if "create_orders_from_response ops mode persist i payload s = (t, q)" for mode persist payload t q
    using orders_effect [of s mode persist payload] that by simp
  then show ?thesis by (auto simp: record_leg_def Let_def same split: prod.split sum.split option.split)
qed

lemma place_legs_effect: "R s (fst (place_legs ops cs i b legs created s w))"
proof (induction legs arbitrary: created s w)
  case (Cons leg legs)
  obtain side exchange px where leg: "leg = (side, exchange, px)" by (metis prod.collapse)
  have step: "R s t" if "record_leg ops i b (side, exchange, px) name r created s = (t, q)" for name r t q
    using record_leg_effect [of s b "(side, exchange, px)" name r created] that by simp
  then have "R s (fst (place_legs ops cs i b legs cr t u))"
    if "record_leg ops i b (side, exchange, px) name r created s = (t, q)" for name r t q cr u
    using that by (blast intro: later Cons.IH)
  with step show ?case by (auto simp: leg same split: option.split prod.split sum.split)
qed (simp add: same)

lemma connectors_effect: "R s (fst (private_connectors_submit ops cs d i b s w))"
proof -
  have "R s t" if "place_legs ops cs i b legs [] s w = (t, u, r)" for legs t u r
    using place_legs_effect [of s cs b legs "[]" w] that by simp
  then show ?thesis by (auto simp: private_connectors_submit_def same split: option.split prod.split)
qed

end

end
