(* ===== verification/LiveBook.thy ===== *)
theory LiveBook
  imports LiveOrders
begin

text \<open>
  The orders of a live submission: every order the adapter stores is reported in its result, a submission
  that succeeds has stored exactly the two legs, and the orders it returns are the rows of the store.
\<close>

section \<open>Tables of orders\<close>

definition same_order :: "order \<Rightarrow> order \<Rightarrow> bool" where
  \<comment> \<open>what no later operation on an order changes\<close>
  "same_order x y = (order_id x = order_id y \<and> ord_intent_id x = ord_intent_id y \<and> order_leg x = order_leg y
     \<and> ord_market x = ord_market y \<and> ord_requested_qty x = ord_requested_qty y
     \<and> ord_requested_price x = ord_requested_price y \<and> ord_exchange_order_id x = ord_exchange_order_id y)"

definition created_from :: "order_args \<Rightarrow> order \<Rightarrow> bool" where
  "created_from a x = (ord_intent_id x = oa_intent_id a \<and> order_leg x = args_leg a \<and> ord_market x = oa_market a
     \<and> ord_requested_qty x = oa_requested_qty a \<and> ord_requested_price x = oa_requested_price a
     \<and> ord_exchange_order_id x = oa_exchange_order_id a \<and> ord_status x = oa_status a)"

type_synonym order_table = "string \<Rightarrow> order option"

definition same_orders :: "order_table \<Rightarrow> order_table \<Rightarrow> bool" where
  "same_orders t u = (\<forall>k. rel_option same_order (t k) (u k))"

definition extends :: "order_table \<Rightarrow> order list \<Rightarrow> order_table \<Rightarrow> bool" where
  "extends t xs u = ((\<forall>x \<in> set xs. u (order_id x) = Some x \<and> t (order_id x) = None)
     \<and> (\<forall>k. k \<notin> order_id ` set xs \<longrightarrow> u k = t k))"

lemma same_order_refl [simp]: "same_order x x"
  by (simp add: same_order_def)

lemma same_orders_refl: "same_orders t t"
  by (simp add: same_orders_def option.rel_refl)

lemma same_orders_trans:
  assumes "same_orders t u" "same_orders u v"
  shows "same_orders t v"
proof -
  have "transp (rel_option same_order)"
    by (rule option.rel_transp) (auto simp: transp_def same_order_def)
  with assms show ?thesis unfolding same_orders_def by (meson transpD)
qed

lemma same_orders_dom:
  assumes "same_orders t u"
  shows "dom u = dom t"
proof -
  have "(u k = None) = (t k = None)" for k
    using assms by (cases "t k"; cases "u k") (auto simp: same_orders_def dest: spec [of _ k])
  then show ?thesis by (simp add: dom_def)
qed

lemma same_orders_row: "same_orders t u \<Longrightarrow> t k = Some x \<Longrightarrow> \<exists>y. u k = Some y \<and> same_order x y"
  unfolding same_orders_def by (metis option_rel_Some1)

lemma extends_Nil [simp]: "extends t [] t"
  by (simp add: extends_def)

lemma extends_one: "t (order_id x) = None \<Longrightarrow> extends t [x] (t(order_id x \<mapsto> x))"
  by (simp add: extends_def)

lemma extends_append:
  assumes "extends t xs u" "extends u ys v"
  shows "extends t (xs @ ys) v"
proof -
  have kept: "v (order_id x) = Some x \<and> t (order_id x) = None" if "x \<in> set xs" for x
  proof -
    from that assms(1) have "u (order_id x) = Some x" "t (order_id x) = None" by (simp_all add: extends_def)
    moreover from this(1) assms(2) have "order_id x \<notin> order_id ` set ys" by (auto simp: extends_def)
    ultimately show ?thesis using assms(2) by (simp add: extends_def)
  qed
  have added: "v (order_id y) = Some y \<and> t (order_id y) = None" if "y \<in> set ys" for y
  proof -
    from that assms(2) have v: "v (order_id y) = Some y" "u (order_id y) = None" by (simp_all add: extends_def)
    with assms(1) have "order_id y \<notin> order_id ` set xs" by (auto simp: extends_def)
    with v assms(1) show ?thesis by (simp add: extends_def)
  qed
  show ?thesis unfolding extends_def
  proof (intro conjI ballI allI impI)
    fix k assume "k \<notin> order_id ` set (xs @ ys)"
    then have "k \<notin> order_id ` set xs" "k \<notin> order_id ` set ys" by auto
    with assms show "v k = t k" by (simp add: extends_def)
  qed (use kept added in auto)
qed

lemma extends_dom:
  assumes "extends t xs u"
  shows "dom u = dom t \<union> order_id ` set xs"
proof -
  have "u k \<noteq> None \<longleftrightarrow> t k \<noteq> None \<or> k \<in> order_id ` set xs" for k
    using assms by (cases "k \<in> order_id ` set xs") (auto simp: extends_def)
  then show ?thesis by (auto simp: dom_def)
qed

section \<open>What a result says of the orders\<close>

definition two_legs :: "order_table \<Rightarrow> order_intent \<Rightarrow> order list \<Rightarrow> bool" where
  \<comment> \<open>one order per leg, each the row of the table\<close>
  "two_legs u i ys = (length ys = 2 \<and> order_leg ` set ys = set (expected_legs i)
     \<and> list_all (\<lambda>y. u (order_id y) = Some y) ys)"

definition reported :: "order_table \<Rightarrow> order_table \<Rightarrow> submit_result \<Rightarrow> bool" where
  \<comment> \<open>the orders that were added are those of the result\<close>
  "reported t u r = (dom u = dom t \<union> order_id ` set (sr_created_orders r))"

definition matches_outcome :: "order_intent \<Rightarrow> order_table \<Rightarrow> submit_result \<Rightarrow> bool" where
  "matches_outcome i u r =
     (if sr_outcome r = ''submitted''
      then two_legs u i (sr_created_orders r) \<and> sr_created_fills r = []
        \<and> list_all (\<lambda>y. live_status y \<notin> set LIVE_TERMINAL_STATUSES) (sr_created_orders r)
      else if sr_outcome r = ''filled''
      then two_legs u i (sr_created_orders r) \<and> list_all (\<lambda>y. live_status y = ''filled'') (sr_created_orders r)
        \<and> set (expected_legs i) \<subseteq> fill_leg ` set (sr_created_fills r)
      else sr_outcome r = ''submit_failed'')"

section \<open>A table the adapter reads and extends\<close>

definition stored :: "outcome \<Rightarrow> order option \<Rightarrow> order option" where
  "stored oc x = (if oc = Created then x else None)"

locale live_book =
  fixes ops :: "'s live_ops" and table :: "'s \<Rightarrow> order_table" and good :: "'s \<Rightarrow> bool"
  assumes creates: "good s \<Longrightarrow> op_create_order (lv_base ops) a s = (t, oc, x) \<Longrightarrow> good t \<and> (case stored oc x of
        None \<Rightarrow> table t = table s
      | Some y \<Rightarrow> created_from a y \<and> table s (order_id y) = None \<and> table t = (table s)(order_id y \<mapsto> y))"
    and keeps: "good s \<Longrightarrow> op_create_fill (lv_base ops) f s = (t, r) \<Longrightarrow> good t \<and> same_orders (table s) (table t)"
    and displays: "good s \<Longrightarrow> op_order_detail (lv_base ops) k s = Inr d \<Longrightarrow> map_option od_order d = table s k"
    and names: "good s \<Longrightarrow> table s k = Some y \<Longrightarrow> order_id y = k \<and> strip k = k \<and> k \<noteq> []"
begin

lemma stored_orders:
  assumes "good s" and "store_orders ops as created index s = (t, created', index', e)"
  shows "good t \<and> (\<exists>new. created' = created @ new \<and> extends (table s) new (table t)
    \<and> (e = None \<longrightarrow> map order_leg new = map args_leg as))"
  using assms
proof (induction as arbitrary: created index s)
  case (Cons a as)
  obtain u oc x where c: "op_create_order (lv_base ops) a s = (u, oc, x)" by (metis prod.collapse)
  note u = creates [OF Cons.prems(1) c]
  show ?case
  proof (cases "stored oc x")
    case None
    then have "store_orders ops (a # as) created index s
        = (u, created, index, Some (''private execution order create failed: '' @ outcome_text oc))"
      using c by (cases oc; cases x) (simp_all add: stored_def)
    with u None Cons.prems(2) show ?thesis by (intro conjI exI [of _ "[]"]) auto
  next
    case (Some y)
    then have "store_orders ops (a # as) created index s
        = store_orders ops as (created @ [y]) (dset index (oa_side a, oa_exchange_name a) y) u"
      using c by (cases oc; cases x) (simp_all add: stored_def)
    with Cons.IH [of u "created @ [y]"] Cons.prems(2) u Some obtain new where
      new: "good t" "created' = (created @ [y]) @ new" "extends (table u) new (table t)"
        "e = None \<longrightarrow> map order_leg new = map args_leg as" by auto
    have "extends (table s) [y] (table u)" using u Some extends_one by simp
    with new u Some show ?thesis
      by (intro conjI exI [of _ "y # new"]) (auto simp: created_from_def dest: extends_append)
  qed
qed (simp add: assms)

lemma created_orders:
  assumes "good s" and "create_orders_from_response ops mode persist i payload s = (t, Inr (created, index, e))"
  shows "good t \<and> extends (table s) created (table t)
    \<and> (e = None \<longrightarrow> distinct (map order_leg created) \<and> order_leg ` set created \<subseteq> set (expected_legs i))"
proof -
  from assms(2) consider (none) "t = s" "created = []" "e \<noteq> None"
    | (some) xs as where "check_orders ops mode persist i s 1 [] [] xs = Inr (Inr as)"
        "store_orders ops as [] [] s = (t, created, index, e)"
    by (auto simp: create_orders_from_response_def split: pyval.splits list.splits sum.splits prod.splits)
  then show ?thesis
  proof cases
    case none
    with assms(1) show ?thesis by simp
  next
    case some
    from checked_orders [OF some(1)] have "distinct (map args_leg as)" "args_leg ` set as \<subseteq> set (expected_legs i)"
      by (auto simp: all_requests_def leg_request_def list_all_iff)
    moreover from stored_orders [OF assms(1) some(2)] have "good t" "extends (table s) created (table t)"
      "e = None \<longrightarrow> map order_leg created = map args_leg as" by auto
    ultimately show ?thesis by (metis list.set_map)
  qed
qed

lemma stored_fills:
  assumes "good s" and "store_fills ops as fs s = (t, r)"
  shows "good t \<and> same_orders (table s) (table t)"
  using assms
proof (induction as arbitrary: fs s)
  case (Cons a as)
  obtain u q where c: "op_create_fill (lv_base ops) a s = (u, q)" by (metis prod.collapse)
  note u = keeps [OF Cons.prems(1) c]
  have rest: "good t \<and> same_orders (table s) (table t)" if "store_fills ops as gs u = (t, r)" for gs
    using Cons.IH [OF _ that] u same_orders_trans by blast
  show ?case
  proof (cases q)
    case (Inl e)
    with Cons.prems(2) c u show ?thesis by simp
  next
    case (Inr p)
    with Cons.prems(2) c u rest show ?thesis by (cases p; cases "fst p"; cases "snd p") auto
  qed
qed (simp add: same_orders_refl)

lemma created_fills:
  assumes "good s" and "create_fills_from_response ops clock index payload s = (t, r)"
  shows "good t \<and> same_orders (table s) (table t)"
  using assms stored_fills by (auto simp: create_fills_from_response_def same_orders_refl split: pyval.splits sum.splits)

lemma refreshed_orders:
  assumes "good s" and "\<forall>x \<in> set xs. \<exists>y. table s (order_id x) = Some y" and "refresh_live_orders ops s xs = Inr ys"
  shows "ys = map (\<lambda>x. the (table s (order_id x))) xs"
  using assms(2,3)
proof (induction xs arbitrary: ys)
  case (Cons x xs)
  then obtain y where y: "table s (order_id x) = Some y" by auto
  with names [OF assms(1) y] have k: "non_blank (strip (order_id x)) = Some (order_id x)" by (simp add: non_blank_def)
  from Cons.prems(2) obtain z zs where z: "refresh_live_order ops s x = Inr z" "refresh_live_orders ops s xs = Inr zs" "ys = z # zs"
    by (auto simp: refresh_live_orders_def res_simps)
  from z(1) k obtain d where d: "op_order_detail (lv_base ops) (order_id x) s = Inr d"
    "z = (case d of None \<Rightarrow> x | Some w \<Rightarrow> od_order w)" by (auto simp: refresh_live_order_def res_simps)
  from displays [OF assms(1) d(1)] y d(2) have "z = y" by (cases d) simp_all
  with Cons z y show ?case by simp
qed (simp add: refresh_live_orders_def)

text \<open>Orders that were created and may have been filled since, as the store now has them.\<close>

definition current :: "order_intent \<Rightarrow> 's \<Rightarrow> 's \<Rightarrow> order list \<Rightarrow> bool" where
  "current i s t ys = (good t \<and> dom (table t) = dom (table s) \<union> order_id ` set ys
     \<and> list_all (\<lambda>y. table t (order_id y) = Some y) ys)"

lemma refreshed_current:
  assumes "good s" "extends (table s) xs (table u)" "good t" "same_orders (table u) (table t)"
    and "refresh_live_orders ops t xs = Inr ys"
  shows "current i s t ys \<and> map order_leg ys = map order_leg xs"
proof -
  have row: "\<exists>y. table t (order_id x) = Some y \<and> same_order x y" if "x \<in> set xs" for x
    using assms(2) same_orders_row [OF assms(4)] that by (auto simp: extends_def)
  then have ys: "ys = map (\<lambda>x. the (table t (order_id x))) xs"
    using refreshed_orders [OF assms(3) _ assms(5)] by blast
  have each: "table t (order_id (the (table t (order_id x)))) = Some (the (table t (order_id x)))
      \<and> order_leg (the (table t (order_id x))) = order_leg x \<and> order_id (the (table t (order_id x))) = order_id x"
    if "x \<in> set xs" for x
    using row [OF that] by (auto simp: same_order_def)
  have "dom (table t) = dom (table s) \<union> order_id ` set xs"
    using extends_dom [OF assms(2)] same_orders_dom [OF assms(4)] by simp
  moreover have "order_id ` set ys = order_id ` set xs" using each by (auto simp: ys image_image)
  moreover have "list_all (\<lambda>y. table t (order_id y) = Some y) ys" by (simp add: ys list_all_iff each [THEN conjunct1])
  moreover have "map order_leg ys = map order_leg xs" using each by (simp add: ys)
  ultimately show ?thesis using assms(3) by (simp add: current_def)
qed

lemma recorded_fills:
  assumes "good s" "extends (table s) created (table u)" "good u"
    and "record_fills ops clock c created index u = (t, Inr q)"
  shows "case q of Inl r \<Rightarrow> current i s t (sr_created_orders r)
    | Inr (ys, fs) \<Rightarrow> current i s t ys \<and> map order_leg ys = map order_leg created"
proof -
  obtain v r where f: "create_fills_from_response ops clock index (pget (lc_payload c) ''fills'') u = (v, r)"
    by (metis prod.collapse)
  from created_fills [OF assms(3) f] have v: "good v" "same_orders (table u) (table v)" by simp_all
  from assms(4) f obtain fs problem ys where ys: "r = Inr (fs, problem)" "t = v" "refresh_live_orders ops v created = Inr ys"
    "q = (case problem of Some e \<Rightarrow> Inl (fail_call c e ys fs) | None \<Rightarrow> Inr (ys, fs))"
    by (cases r) (auto simp: record_fills_def res_simps)
  from refreshed_current [OF assms(1,2) v ys(3)] ys(2,4) show ?thesis
    by (cases problem) (auto simp: fail_call_def failure_result_def Let_def)
qed

lemma legs_covered:
  assumes "validate_required_arbitrage_legs created index i whole = None"
    and "distinct (map order_leg created)" "order_leg ` set created \<subseteq> set (expected_legs i)"
  shows "length created = 2 \<and> order_leg ` set created = set (expected_legs i)"
proof -
  have two: "length (remdups (expected_legs i)) = 2" by (simp add: expected_legs_def)
  with assms(1) have l: "length created = 2"
    by (simp add: validate_required_arbitrage_legs_def or_problem_def leg_list_def split: if_splits option.splits)
  from two have "card (set (expected_legs i)) = 2" by (simp add: length_remdups_card_conv)
  moreover from l assms(2) have "card (order_leg ` set created) = 2"
    by (metis distinct_card length_map list.set_map)
  ultimately show ?thesis using l assms(3) by (simp add: card_subset_eq)
qed

lemma recorded_reply:
  assumes "good s" and "record_reply ops clock c persist whole s = (t, Inr q)"
  shows "case q of Inl r \<Rightarrow> dom (table t) = dom (table s) \<union> order_id ` set (sr_created_orders r) \<and> sr_outcome r = ''submit_failed''
    | Inr (ys, fs) \<Rightarrow> current (lc_intent c) s t ys \<and> length ys = 2 \<and> order_leg ` set ys = set (expected_legs (lc_intent c))"
proof -
  obtain u r where o: "create_orders_from_response ops ''private_http'' persist (lc_intent c) (pget (lc_payload c) ''orders'') s = (u, r)"
    by (metis prod.collapse)
  with assms(2) obtain created index e where r: "r = Inr (created, index, e)"
    by (cases r) (auto simp: record_reply_def)
  from created_orders [OF assms(1)] o r have u: "good u" "extends (table s) created (table u)"
    "e = None \<longrightarrow> distinct (map order_leg created) \<and> order_leg ` set created \<subseteq> set (expected_legs (lc_intent c))" by blast+
  have failed: "sr_created_orders (fail_call c x created []) = created" "sr_outcome (fail_call c x xs fs) = ''submit_failed''" for x xs fs
    by (simp_all add: fail_call_def failure_result_def Let_def)
  show ?thesis
  proof (cases e)
    case (Some x)
    with assms(2) o r show ?thesis using extends_dom [OF u(2)] by (auto simp: record_reply_def failed)
  next
    case None
    show ?thesis
    proof (cases "validate_required_arbitrage_legs created index (lc_intent c) whole")
      case (Some x)
      with assms(2) o r None show ?thesis using extends_dom [OF u(2)] by (auto simp: record_reply_def failed)
    next
      case v: None
      with assms(2) o r None have rf: "record_fills ops clock c created index u = (t, Inr q)" by (simp add: record_reply_def)
      note legs = legs_covered [OF v] u(3) [unfolded None]
      show ?thesis
      proof (cases q)
        case (Inl res)
        have "sr_outcome res = ''submit_failed''"
          using rf Inl by (auto simp: record_fills_def res_simps failed split: prod.splits sum.splits option.splits)
        with recorded_fills [OF assms(1) u(2,1) rf, of "lc_intent c"] Inl show ?thesis by (simp add: current_def)
      next
        case (Inr p)
        obtain ys fs where p: "p = (ys, fs)" by (cases p)
        from recorded_fills [OF assms(1) u(2,1) rf, of "lc_intent c"] Inr p
        have ys: "current (lc_intent c) s t ys" "map order_leg ys = map order_leg created" by simp_all
        moreover have "length ys = length created" "order_leg ` set ys = order_leg ` set created"
          using ys(2) by (metis length_map, metis list.set_map)
        ultimately show ?thesis using legs Inr p by simp
      qed
    qed
  qed
qed

text \<open>The result of a submission over HTTP.\<close>

lemma status_list_None: "status_list msg (filter P xs) = None \<longleftrightarrow> list_all (\<lambda>x. \<not> P x) xs"
  by (simp add: status_list_def filter_empty_conv list_all_iff)

lemma failed_reported: "reported (table s) (table s) (failure_result b e d [] [] mode)" "matches_outcome i (table s) (failure_result b e d xs fs mode)"
  "reported (table s) (table s) (fail_call c e [] [])" "matches_outcome i (table t) (fail_call c e xs fs)"
  by (simp_all add: reported_def matches_outcome_def fail_call_def failure_result_def Let_def)

lemma failed_fields: "sr_created_orders (fail_call c e xs fs) = xs" "sr_created_orders (failure_result b e d xs fs mode) = xs"
  by (simp_all add: fail_call_def failure_result_def Let_def)

lemma failed_reply_result:
  assumes "good s" and "submit_failed_reply ops clock c s = (t, Inr r)"
  shows "reported (table s) (table t) r \<and> matches_outcome i (table t) r"
proof (cases "t = s \<and> (\<exists>e. r = fail_call c e [] [])")
  case True
  then show ?thesis using failed_reported by auto
next
  case False
  obtain u q where o: "record_reply ops clock c False False s = (u, q)" by (metis prod.collapse)
  from assms(2) False o obtain p reason where p: "q = Inr p" "t = u"
    "r = (case p of Inl failed \<Rightarrow> failed | Inr (refreshed, fs) \<Rightarrow> fail_call c reason refreshed fs)"
    by (auto simp: submit_failed_reply_def Let_def res_simps split: option.splits pyval.splits list.splits)
  from recorded_reply [OF assms(1) o [unfolded p(1)]] p(2,3) show ?thesis
    by (cases p) (auto simp: reported_def matches_outcome_def current_def failed_fields fail_call_def failure_result_def Let_def)
qed

lemma accepted_outcome:
  assumes "recorded_problem c outcome ys fs = None" and "outcome \<in> {''submitted'', ''filled''}"
    and "two_legs (table t) (lc_intent c) ys"
  shows "matches_outcome (lc_intent c) (table t) (accepted_reply c outcome preview ys fs)"
proof -
  have covered: "set (expected_legs i) \<subseteq> fill_leg ` set fs" if "validate_filled_leg_coverage fs i = None" for i
    using that by (auto simp: validate_filled_leg_coverage_def or_problem_def leg_list_def sorted_legs_def filter_empty_conv
        split: option.splits if_splits)
  from assms show ?thesis
    by (auto simp: recorded_problem_def matches_outcome_def accepted_reply_def validate_submitted_order_states_def
        validate_filled_order_states_def or_problem_def status_list_None split: if_splits option.splits dest!: covered)
qed

lemma accepted_reply_result:
  assumes "good s" and "submitted_or_filled_reply ops clock c outcome preview s = (t, Inr r)"
    and "outcome \<in> {''submitted'', ''filled''}"
  shows "reported (table s) (table t) r \<and> matches_outcome (lc_intent c) (table t) r"
proof (cases "reply_problem c outcome")
  case (Some e)
  with assms(2) show ?thesis by (auto simp: submitted_or_filled_reply_def failed_reported)
next
  case None
  obtain u q where o: "record_reply ops clock c (outcome = ''filled'') True s = (u, q)" by (metis prod.collapse)
  from assms(2) None o obtain p where p: "q = Inr p" "t = u"
    "r = (case p of Inl failed \<Rightarrow> failed | Inr (ys, fs) \<Rightarrow> (case recorded_problem c outcome ys fs of
        Some failed \<Rightarrow> failed | None \<Rightarrow> accepted_reply c outcome preview ys fs))"
    by (auto simp: submitted_or_filled_reply_def res_simps)
  note R = recorded_reply [OF assms(1) o [unfolded p(1)]]
  show ?thesis
  proof (cases p)
    case (Inl failed)
    with R p show ?thesis by (simp add: reported_def matches_outcome_def)
  next
    case (Inr yf)
    obtain ys fs where yf: "yf = (ys, fs)" by (cases yf)
    from R Inr yf p(2) have ys: "current (lc_intent c) s t ys" "two_legs (table t) (lc_intent c) ys"
      by (simp_all add: two_legs_def current_def)
    show ?thesis
    proof (cases "recorded_problem c outcome ys fs")
      case (Some failed)
      then obtain e gs where "failed = fail_call c e ys gs"
        by (auto simp: recorded_problem_def split: if_splits)
      with ys(1) Inr yf p Some show ?thesis by (simp add: reported_def failed_reported failed_fields current_def)
    next
      case none: None
      from accepted_outcome [OF none assms(3) ys(2)] ys(1) Inr yf p none show ?thesis
        by (simp add: reported_def current_def accepted_reply_def)
    qed
  qed
qed

lemma http_result:
  assumes "good s" and "private_http_submit ops clock net url timeout_ms token d i b s = (t, Inr r)"
  shows "reported (table s) (table t) r \<and> matches_outcome i (table t) r"
proof (cases "t = s \<and> (\<exists>e d. r = failure_result b e d [] [] ''private_http'')")
  case True
  then show ?thesis using failed_reported by auto
next
  case False
  with assms(2) obtain payload where take: "take_reply ops clock \<lparr>lc_intent = i, lc_auto_unwind = b, lc_payload = payload\<rparr> s = (t, Inr r)"
    by (auto simp: private_http_submit_def split: if_splits sum.splits)
  define c where "c = \<lparr>lc_intent = i, lc_auto_unwind = b, lc_payload = payload\<rparr>"
  have c: "lc_intent c = i" by (simp add: c_def)
  define outcome where "outcome = lower (or_else (json_text (pget (lc_payload c) ''outcome'')) ''submitted'')"
  define preview where "preview = json_text (pget (lc_payload c) ''lifecycle_preview'')"
  from take False have "(if outcome = ''submit_failed'' then submit_failed_reply ops clock c s
      else submitted_or_filled_reply ops clock c outcome preview s) = (t, Inr r) \<and> outcome \<in> {''submitted'', ''filled'', ''submit_failed''}"
    unfolding take_reply_def Let_def c_def [symmetric] outcome_def [symmetric] preview_def [symmetric]
    by (auto simp: fail_call_def c_def split: if_splits option.splits)
  then show ?thesis
    using failed_reply_result [OF assms(1)] accepted_reply_result [OF assms(1), of clock c outcome preview t r] c
    by (auto split: if_splits)
qed

text \<open>The result of a submission through the connectors.\<close>

lemma single_order:
  assumes "good s" and "create_orders_from_response ops mode persist i (PList [PDict item]) s = (t, Inr (batch, index, e))"
  shows "good t \<and> extends (table s) batch (table t) \<and> (e \<noteq> None \<longrightarrow> batch = [])
    \<and> (e = None \<longrightarrow> (\<exists>x. batch = [x] \<and> order_leg x = item_leg item \<and> item_leg item \<in> set (expected_legs i)))"
proof (cases "t = s \<and> batch = [] \<and> e \<noteq> None")
  case True
  with assms(1) show ?thesis by simp
next
  case False
  with assms(2) obtain as where as: "check_orders ops mode persist i s 1 [] [] [PDict item] = Inr (Inr as)"
    "store_orders ops as [] [] s = (t, batch, index, e)"
    by (auto simp: create_orders_from_response_def split: sum.splits prod.splits)
  from as(1) have one: "as = [order_of_item mode persist i 1 item]" by (rule check_orders_Cons) auto
  have leg: "args_leg (order_of_item mode persist i 1 item) = item_leg item"
    by (simp add: order_of_item_def args_leg_def Let_def)
  from checked_orders [OF as(1)] one have "item_leg item \<in> set (expected_legs i)"
    by (auto simp: all_requests_def leg_request_def leg)
  moreover from stored_orders [OF assms(1) as(2)] have "good t" "extends (table s) batch (table t)"
    "e = None \<longrightarrow> map order_leg batch = [item_leg item]" by (auto simp: one leg)
  moreover have "e \<noteq> None \<longrightarrow> batch = []"
    using as(2) by (auto simp: one split: prod.splits outcome.splits option.splits)
  ultimately show ?thesis by (cases e) (auto simp: map_eq_Cons_conv)
qed

lemma recorded_leg:
  assumes "good s" and "record_leg ops i b (side, exchange, px) name r created s = (t, Inr q)" and "side \<in> {''buy'', ''sell''}"
  shows "case q of
      Inl res \<Rightarrow> table t = table s \<and> sr_created_orders res = created \<and> sr_outcome res = ''submit_failed''
    | Inr created' \<Rightarrow> good t \<and> (\<exists>x. created' = created @ [x] \<and> extends (table s) [x] (table t) \<and> fst (order_leg x) = side
        \<and> order_leg x \<in> set (expected_legs i))"
proof (cases "order_item_from_response r i side exchange px name")
  case (Inl e)
  with assms(2) show ?thesis by (auto simp: record_leg_def failure_result_def Let_def)
next
  case (Inr item)
  have "fst (item_leg item) = lower (strip side)" if "strip side \<noteq> []"
    using Inr that by (auto simp: order_item_from_response_def Let_def item_leg_def pget_Cons non_blank_def or_else_def
        split: if_splits pyval.splits option.splits)
  moreover have "strip ''buy'' = ''buy''" "strip ''sell'' = ''sell''" "lower ''buy'' = ''buy''" "lower ''sell'' = ''sell''" by code_simp+
  ultimately have side: "fst (item_leg item) = side" using assms(3) by auto
  obtain u w where o: "create_orders_from_response ops MODE_NAME False i (PList [PDict item]) s = (u, w)" by (metis prod.collapse)
  with assms(2) Inr obtain batch index e where w: "w = Inr (batch, index, e)" "t = u"
    by (cases w) (auto simp: record_leg_def Let_def split: option.splits)
  from single_order [OF assms(1)] o w have S: "good t \<and> extends (table s) batch (table t) \<and> (e \<noteq> None \<longrightarrow> batch = [])
    \<and> (e = None \<longrightarrow> (\<exists>x. batch = [x] \<and> order_leg x = item_leg item \<and> item_leg item \<in> set (expected_legs i)))" by blast
  show ?thesis
  proof (cases e)
    case None
    with assms(2) Inr o w S side show ?thesis by (auto simp: record_leg_def Let_def)
  next
    case (Some x)
    with S have "table t = table s" by (auto simp: extends_def)
    with Some assms(2) Inr o w show ?thesis by (auto simp: record_leg_def Let_def failure_result_def)
  qed
qed

lemma placed_legs:
  assumes "good s" and "place_legs ops cs i b legs created s w = (t, u, Inr q)" and "\<forall>l \<in> set legs. fst l \<in> {''buy'', ''sell''}"
  shows "case q of
      Inl res \<Rightarrow> sr_outcome res = ''submit_failed'' \<and> (\<exists>new. sr_created_orders res = created @ new \<and> extends (table s) new (table t))
    | Inr created' \<Rightarrow> good t \<and> (\<exists>new. created' = created @ new \<and> extends (table s) new (table t)
        \<and> map (fst \<circ> order_leg) new = map fst legs \<and> order_leg ` set new \<subseteq> set (expected_legs i))"
  using assms
proof (induction legs arbitrary: created s w)
  case Nil
  then show ?case by auto
next
  case (Cons leg legs)
  obtain side exchange px where leg: "leg = (side, exchange, px)" by (metis prod.collapse)
  show ?case
  proof (cases "map_of cs exchange")
    case None
    with Cons.prems(2) leg have "t = s" "\<exists>res. q = Inl res \<and> sr_outcome res = ''submit_failed'' \<and> sr_created_orders res = created"
      by (auto simp: failure_result_def Let_def)
    then show ?thesis by auto
  next
    case (Some c)
    obtain w' r where p: "cn_place_order c (order_request i side px) w = (w', r)" by (metis prod.collapse)
    with Some Cons.prems(2) leg obtain res where res: "r = Inr res" by (cases r) auto
    obtain s' y where rl: "record_leg ops i b (side, exchange, px) (cn_name c) res created s = (s', y)" by (metis prod.collapse)
    with Some Cons.prems(2) leg p res obtain z where y: "y = Inr z" by (cases y) auto
    have side: "side \<in> {''buy'', ''sell''}" using Cons.prems(3) leg by simp
    note L = recorded_leg [OF Cons.prems(1) rl [unfolded y] side]
    show ?thesis
    proof (cases z)
      case (Inl failed)
      with Some Cons.prems(2) leg p res rl y L show ?thesis by auto
    next
      case (Inr created')
      with L obtain x where x: "good s'" "created' = created @ [x]" "extends (table s) [x] (table s')" "fst (order_leg x) = side"
        "order_leg x \<in> set (expected_legs i)" by auto
      from Some Cons.prems(2) leg p res rl y Inr have rest: "place_legs ops cs i b legs created' s' w' = (t, u, Inr q)" by simp
      have legs: "\<forall>l \<in> set legs. fst l \<in> {''buy'', ''sell''}" using Cons.prems(3) by simp
      have IH: "case q of
          Inl res \<Rightarrow> sr_outcome res = ''submit_failed'' \<and> (\<exists>new. sr_created_orders res = created' @ new \<and> extends (table s') new (table t))
        | Inr os \<Rightarrow> good t \<and> (\<exists>new. os = created' @ new \<and> extends (table s') new (table t)
            \<and> map (fst \<circ> order_leg) new = map fst legs \<and> order_leg ` set new \<subseteq> set (expected_legs i))" by (rule Cons.IH [OF x(1) rest legs])
      have more: "extends (table s) (x # new) (table t)" if "extends (table s') new (table t)" for new
        using extends_append [OF x(3) that] by simp
      show ?thesis
      proof (cases q)
        case (Inl res)
        with IH x(2) obtain new where "sr_outcome res = ''submit_failed''" "sr_created_orders res = created @ x # new"
          "extends (table s') new (table t)" by auto
        with more Inl show ?thesis by auto
      next
        case (Inr os)
        with IH x(2) obtain new where "good t" "os = created @ x # new" "extends (table s') new (table t)"
          "map (fst \<circ> order_leg) new = map fst legs" "order_leg ` set new \<subseteq> set (expected_legs i)" by auto
        with more [of new] Inr leg x(4,5) show ?thesis by (auto intro!: exI [of _ "x # new"])
      qed
    qed
  qed
qed

lemma connectors_result:
  assumes "good s" and "private_connectors_submit ops cs d i b s w = (t, u, Inr r)"
  shows "reported (table s) (table t) r \<and> matches_outcome i (table t) r"
proof (cases "executable_edge d")
  case None
  with assms show ?thesis by (auto simp: private_connectors_submit_def failed_reported)
next
  case (Some edge)
  obtain q where p: "place_legs ops cs i b (legs_to_place i edge) [] s w = (t, u, q)"
    "andThen q (\<lambda>z. case z of Inl failed \<Rightarrow> Inr failed | Inr created \<Rightarrow> settle_legs ops b created t) = Inr r"
    using assms(2) Some by (auto simp: private_connectors_submit_def split: prod.splits)
  from p(2) obtain z where z: "q = Inr z" "(case z of Inl failed \<Rightarrow> Inr failed | Inr created \<Rightarrow> settle_legs ops b created t) = Inr r"
    by (auto simp: res_simps)
  have sides: "\<forall>l \<in> set (legs_to_place i edge). fst l \<in> {''buy'', ''sell''}" by (simp add: legs_to_place_def)
  note P = placed_legs [OF assms(1) p(1) [unfolded z(1)] sides]
  show ?thesis
  proof (cases z)
    case (Inl failed)
    with P z(2) show ?thesis using extends_dom by (auto simp: reported_def matches_outcome_def)
  next
    case (Inr created)
    with P have c: "good t" "extends (table s) created (table t)" "map (fst \<circ> order_leg) created = [''buy'', ''sell'']"
      "order_leg ` set created \<subseteq> set (expected_legs i)" by (auto simp: legs_to_place_def)
    from z(2) Inr obtain ys where ys: "refresh_live_orders ops t created = Inr ys"
      "r = (case validate_submitted_order_states ys [] of
         Some e \<Rightarrow> failure_result b e [(''submitted_leg_count'', PInt (int (length ys)))] ys [] MODE_NAME
       | None \<Rightarrow> \<lparr>sr_outcome = ''submitted'', sr_lifecycle_preview = ''entry_submitting'', sr_recovery_required = False,
           sr_unwind_in_progress = False, sr_created_orders = ys, sr_created_fills = [],
           sr_details = [(''mode'', PStr MODE_NAME), (''submitted_leg_count'', PInt (int (length ys)))]\<rparr>)"
      by (auto simp: settle_legs_def res_simps Let_def)
    from refreshed_current [OF assms(1) c(2,1) same_orders_refl ys(1), of i]
    have cur: "current i s t ys" "map order_leg ys = map order_leg created" by simp_all
    from c(3) obtain x y where xy: "created = [x, y]" "fst (order_leg x) = ''buy''" "fst (order_leg y) = ''sell''"
      by (auto simp: map_eq_Cons_conv)
    with c(4) have "order_leg x = (''buy'', int_buy_exchange i)" "order_leg y = (''sell'', int_sell_exchange i)"
      by (auto simp: expected_legs_def)
    with cur xy(1) have "two_legs (table t) i ys"
      by (auto simp: two_legs_def current_def expected_legs_def map_eq_Cons_conv)
    note facts = cur(1) this
    show ?thesis
    proof (cases "validate_submitted_order_states ys []")
      case None
      then have "list_all (\<lambda>x. live_status x \<notin> set LIVE_TERMINAL_STATUSES) ys" by (auto simp: validate_submitted_order_states_def status_list_None split: if_splits)
      with facts ys(2) None show ?thesis by (auto simp: reported_def current_def matches_outcome_def)
    next
      case (Some e)
      with ys(2) have "sr_outcome r = ''submit_failed''" "sr_created_orders r = ys" by (simp_all add: failed_fields failure_result_def Let_def)
      with facts show ?thesis by (auto simp: reported_def current_def matches_outcome_def)
    qed
  qed
qed

end

end
