(* ===== verification/LiveMemory.thy ===== *)
theory LiveMemory
  imports LiveBook
begin

text \<open>
  The in-memory store under a live adapter: its orders are a table the adapter reads and extends
  (\<open>live_book\<close>), and every order and fill it stores keeps the relations of \<open>live_effects\<close>: no intent is
  added, and each new order is a leg of the submitted intent with a positive quantity.
\<close>

section \<open>The table of the in-memory store\<close>

definition mem_table :: "mem \<Rightarrow> order_table" where
  "mem_table m = map_of (orders (mem_store m))"

definition ids_ready :: "redis_config \<Rightarrow> mem \<Rightarrow> bool" where
  \<comment> \<open>the identifiers still to be drawn are distinct and unused, and no identifier has a margin of blanks\<close>
  "ids_ready cfg m = (inj (rc_uid cfg) \<and> (\<forall>n. strip (rc_uid cfg n) = rc_uid cfg n \<and> rc_uid cfg n \<noteq> [])
     \<and> (\<forall>n \<ge> drawn m. mem_table m (rc_uid cfg n) = None)
     \<and> (\<forall>k x. mem_table m k = Some x \<longrightarrow> order_id x = k \<and> strip k = k \<and> k \<noteq> []))"

lemma ids_readyI:
  assumes "inj (rc_uid cfg)" and "\<And>n. strip (rc_uid cfg n) = rc_uid cfg n \<and> rc_uid cfg n \<noteq> []"
    and "\<And>n. drawn m \<le> n \<Longrightarrow> mem_table m (rc_uid cfg n) = None"
    and "\<And>k x. mem_table m k = Some x \<Longrightarrow> order_id x = k \<and> strip k = k \<and> k \<noteq> []"
  shows "ids_ready cfg m"
  unfolding ids_ready_def using assms(1,2,3) assms(4) by blast

lemma ids_readyD:
  assumes "ids_ready cfg m"
  shows ids_ready_inj: "inj (rc_uid cfg)"
    and ids_ready_text: "strip (rc_uid cfg n) = rc_uid cfg n \<and> rc_uid cfg n \<noteq> []"
    and ids_ready_unused: "drawn m \<le> n \<Longrightarrow> mem_table m (rc_uid cfg n) = None"
    and ids_ready_named: "mem_table m k = Some x \<Longrightarrow> order_id x = k \<and> strip k = k \<and> k \<noteq> []"
  using assms unfolding ids_ready_def by blast+

lemma ids_ready_new:
  assumes "ids_ready cfg m" and "order_id x = rc_uid cfg (drawn m)" and "orders s = dset (orders (mem_store m)) (rc_uid cfg (drawn m)) x"
  shows "ids_ready cfg (Mem (Suc (drawn m)) s) \<and> mem_table m (order_id x) = None
    \<and> mem_table (Mem (Suc (drawn m)) s) = (mem_table m)(order_id x \<mapsto> x)"
proof -
  let ?k = "rc_uid cfg (drawn m)"
  have after: "mem_table (Mem (Suc (drawn m)) s) = (mem_table m)(?k \<mapsto> x)" by (simp add: mem_table_def assms(3))
  have "ids_ready cfg (Mem (Suc (drawn m)) s)"
  proof (rule ids_readyI [OF ids_ready_inj [OF assms(1)] ids_ready_text [OF assms(1)]])
    fix n assume "drawn (Mem (Suc (drawn m)) s) \<le> n"
    then have "drawn m \<noteq> n" "drawn m \<le> n" by simp_all
    with ids_ready_inj [OF assms(1)] ids_ready_unused [OF assms(1) this(2)] show "mem_table (Mem (Suc (drawn m)) s) (rc_uid cfg n) = None"
      unfolding after by (simp add: inj_eq)
  next
    fix k y assume "mem_table (Mem (Suc (drawn m)) s) k = Some y"
    then show "order_id y = k \<and> strip k = k \<and> k \<noteq> []"
      unfolding after using ids_ready_named [OF assms(1)] ids_ready_text [OF assms(1)] assms(2) by (cases "k = ?k") auto
  qed
  then show ?thesis using after ids_ready_unused [OF assms(1) order_refl] assms(2) by simp
qed

lemma ids_ready_kept:
  assumes "ids_ready cfg m" and "same_orders (mem_table m) (map_of (orders s))" and "drawn m \<le> n"
  shows "ids_ready cfg (Mem n s)"
proof (rule ids_readyI [OF ids_ready_inj [OF assms(1)] ids_ready_text [OF assms(1)]])
  have after: "mem_table (Mem n s) = map_of (orders s)" by (simp add: mem_table_def)
  have dom: "dom (map_of (orders s)) = dom (mem_table m)" by (rule same_orders_dom [OF assms(2)])
  fix p assume "drawn (Mem n s) \<le> p"
  with assms(3) have "drawn m \<le> p" by simp
  then show "mem_table (Mem n s) (rc_uid cfg p) = None"
    using ids_ready_unused [OF assms(1)] dom unfolding after by (metis domIff)
next
  fix k x assume "mem_table (Mem n s) k = Some x"
  then have "rel_option same_order (mem_table m k) (Some x)" using assms(2) unfolding same_orders_def by (metis mem_table_def mem.sel(2))
  then obtain y where "mem_table m k = Some y" "same_order y x" by (auto simp: option_rel_Some2)
  with ids_ready_named [OF assms(1)] show "order_id x = k \<and> strip k = k \<and> k \<noteq> []" by (simp add: same_order_def)
qed

lemma ids_ready_created:
  assumes "ids_ready cfg m" and "op_create_order (lv_base (live_mem_ops cfg)) a m = (t, oc, x)"
  shows "ids_ready cfg t \<and> (case stored oc x of None \<Rightarrow> mem_table t = mem_table m
    | Some y \<Rightarrow> created_from a y \<and> mem_table m (order_id y) = None \<and> mem_table t = (mem_table m)(order_id y \<mapsto> y))"
proof -
  obtain s where c: "create_order (rc_uid cfg (drawn m)) (rc_now cfg (drawn m)) a (mem_store m) = (s, oc, x)"
    and t: "t = Mem (Suc (drawn m)) s"
    using assms(2) by (auto simp: live_mem_ops_def mem_ops_def split: prod.splits)
  have "oc \<noteq> Created \<and> s = mem_store m \<or> (oc = Created \<and> (\<exists>intent. x = Some (new_order (rc_uid cfg (drawn m)) (rc_now cfg (drawn m)) intent a)
      \<and> orders s = dset (orders (mem_store m)) (rc_uid cfg (drawn m)) (new_order (rc_uid cfg (drawn m)) (rc_now cfg (drawn m)) intent a)))"
    using c by (auto simp: create_order_def Let_def split: option.splits if_splits)
  then consider (kept) "oc \<noteq> Created" "s = mem_store m" | (added) intent where "oc = Created"
      "x = Some (new_order (rc_uid cfg (drawn m)) (rc_now cfg (drawn m)) intent a)"
      "orders s = dset (orders (mem_store m)) (rc_uid cfg (drawn m)) (new_order (rc_uid cfg (drawn m)) (rc_now cfg (drawn m)) intent a)"
    by blast
  then show ?thesis
  proof cases
    case kept
    then have "ids_ready cfg t" unfolding t
      by (intro ids_ready_kept [OF assms(1)]) (simp_all add: mem_table_def same_orders_refl)
    with kept t show ?thesis by (simp add: stored_def mem_table_def)
  next
    case added
    let ?y = "new_order (rc_uid cfg (drawn m)) (rc_now cfg (drawn m)) intent a"
    have y: "order_id ?y = rc_uid cfg (drawn m)" "created_from a ?y"
      by (simp_all add: new_order_def created_from_def order_leg_def args_leg_def)
    from ids_ready_new [OF assms(1) y(1) added(3)] y(2) added(1,2) t show ?thesis by (simp add: stored_def)
  qed
qed

lemma same_orders_updated:
  assumes "u k = Some x" and "same_order x y"
  shows "same_orders u (u(k \<mapsto> y))"
  using assms by (auto simp: same_orders_def option.rel_refl)

lemma mem_filled_orders:
  assumes "op_create_fill (lv_base (live_mem_ops cfg)) f m = (t, r)"
  shows "same_orders (mem_table m) (mem_table t)"
proof (cases "create_fill (rc_uid cfg (drawn m)) (rc_now cfg (drawn m)) f (mem_store m)")
  case (Inl e)
  with assms show ?thesis by (auto simp: live_mem_ops_def mem_ops_def same_orders_refl)
next
  case (Inr q)
  obtain s oc x where q: "q = (s, oc, x)" by (metis prod.collapse)
  with assms Inr have t: "t = Mem (Suc (drawn m)) s" by (auto simp: live_mem_ops_def mem_ops_def)
  have "same_orders (mem_table m) (map_of (orders s))"
  proof (cases rule: create_fill_cases [OF Inr [unfolded q], case_names kept filled])
    case kept
    then show ?thesis by (simp add: mem_table_def same_orders_refl)
  next
    case (filled ord requested current qty)
    then show ?thesis unfolding mem_table_def
      by (simp add: apply_fill_def Let_def same_orders_updated same_order_def order_leg_def)
  qed
  then show ?thesis by (simp add: t mem_table_def)
qed

lemma ids_ready_filled:
  assumes "ids_ready cfg m" and "op_create_fill (lv_base (live_mem_ops cfg)) f m = (t, r)"
  shows "ids_ready cfg t \<and> same_orders (mem_table m) (mem_table t)"
proof -
  have "t = m \<or> drawn t = Suc (drawn m)"
    using assms(2) by (auto simp: live_mem_ops_def mem_ops_def split: sum.splits prod.splits)
  then have "drawn m \<le> drawn t" by auto
  with ids_ready_kept [OF assms(1), where s = "mem_store t" and n = "drawn t"] mem_filled_orders [OF assms(2)]
  show ?thesis by (cases t) (simp add: mem_table_def)
qed

lemma ids_ready_displays:
  assumes "op_order_detail (lv_base (live_mem_ops cfg)) k m = Inr d"
  shows "map_option od_order d = mem_table m k"
  using assms by (auto simp: live_mem_ops_def mem_ops_def mem_table_def get_order_detail_def res_simps split: option.splits)

interpretation book: live_book "live_mem_ops cfg" mem_table "ids_ready cfg"
proof (unfold_locales, goal_cases)
  case (1 s a t oc x)
  then show ?case by (rule ids_ready_created)
next
  case (2 s f t r)
  then show ?case by (rule ids_ready_filled)
next
  case (3 s k d)
  then show ?case by (intro ids_ready_displays)
next
  case (4 s k y)
  then show ?case by (rule ids_ready_named)
qed

section \<open>What a submission adds to the store\<close>

definition no_new_intents :: "redis_config \<Rightarrow> string \<Rightarrow> mem \<Rightarrow> mem \<Rightarrow> bool" where
  "no_new_intents cfg k m m' = (pair_intents cfg k (mem_store m') \<subseteq> pair_intents cfg k (mem_store m))"

definition leg_row :: "order_intent \<Rightarrow> order \<Rightarrow> bool" where
  \<comment> \<open>an order on a leg of the intent, in its market and for a positive quantity at a positive price\<close>
  "leg_row i x = (ord_intent_id x = intent_id i \<and> order_leg x \<in> set (expected_legs i)
     \<and> (int_market i \<noteq> [] \<longrightarrow> ord_market x = int_market i) \<and> is_positive_number_text (ord_requested_qty x)
     \<and> (\<forall>p. ord_requested_price x = Some p \<longrightarrow> is_positive_number_text p))"

definition adds_legs :: "order_intent \<Rightarrow> order_table \<Rightarrow> order_table \<Rightarrow> bool" where
  \<comment> \<open>every row stays, but for its status and times, and every new row is an order on a leg of the intent\<close>
  "adds_legs i t u = ((\<forall>k y. t k = Some y \<longrightarrow> (\<exists>x. u k = Some x \<and> same_order y x))
     \<and> (\<forall>k x. t k = None \<longrightarrow> u k = Some x \<longrightarrow> leg_row i x))"

lemma adds_legs_same: "same_orders t u \<Longrightarrow> adds_legs i t u"
  unfolding adds_legs_def same_orders_def by (metis option_rel_Some1 option_rel_Some2 option.distinct(1))

lemma same_order_trans: "same_order x y \<Longrightarrow> same_order y z \<Longrightarrow> same_order x z"
  by (simp add: same_order_def)

lemma leg_row_same: "same_order y x \<Longrightarrow> leg_row i y \<Longrightarrow> leg_row i x"
  by (simp add: same_order_def leg_row_def)

lemma adds_legs_trans:
  assumes "adds_legs i t u" "adds_legs i u v"
  shows "adds_legs i t v"
  unfolding adds_legs_def
proof (intro conjI allI impI)
  fix k y assume "t k = Some y"
  with assms show "\<exists>x. v k = Some x \<and> same_order y x" unfolding adds_legs_def by (metis same_order_trans)
next
  fix k x assume k: "t k = None" "v k = Some x"
  show "leg_row i x"
  proof (cases "u k")
    case None
    with k(2) assms(2) show ?thesis by (simp add: adds_legs_def)
  next
    case (Some y)
    with k(1) assms(1) have "leg_row i y" by (simp add: adds_legs_def)
    moreover from Some k(2) assms(2) have "same_order y x" unfolding adds_legs_def by (metis option.inject)
    ultimately show ?thesis by (rule leg_row_same [rotated])
  qed
qed

lemma adds_legs_one: "leg_row i x \<Longrightarrow> t k = None \<Longrightarrow> adds_legs i t (t(k \<mapsto> x))"
  by (simp add: adds_legs_def)

lemma leg_row_new: "leg_request i a \<Longrightarrow> created_from a x \<Longrightarrow> leg_row i x"
  by (simp add: leg_request_def created_from_def leg_row_def)

lemma mem_created:
  assumes "op_create_order (lv_base (live_mem_ops cfg)) a m = (t, oc, x)"
  shows "mem_store t = fst (create_order (rc_uid cfg (drawn m)) (rc_now cfg (drawn m)) a (mem_store m))"
  using assms by (auto simp: live_mem_ops_def mem_ops_def split: prod.splits)

lemma mem_filled_same:
  assumes "op_create_fill (lv_base (live_mem_ops cfg)) f m = (t, r)"
  shows "no_new_intents cfg' k m t"
  using assms created_fill_intents unfolding no_new_intents_def
  by (fastforce simp: live_mem_ops_def mem_ops_def split: sum.splits prod.splits)

definition book_grows :: "redis_config \<Rightarrow> order_intent \<Rightarrow> mem \<Rightarrow> mem \<Rightarrow> bool" where
  "book_grows cfg i m t = (ids_ready cfg m \<longrightarrow> ids_ready cfg t \<and> adds_legs i (mem_table m) (mem_table t))"

interpretation legs: live_effects "live_mem_ops cfg" i "book_grows cfg i"
proof (unfold_locales, goal_cases)
  case (1 s)
  then show ?case by (simp add: book_grows_def adds_legs_same [OF same_orders_refl])
next
  case (2 s t u)
  then show ?case unfolding book_grows_def using adds_legs_trans by blast
next
  case (3 a s)
  obtain t oc x where c: "op_create_order (lv_base (live_mem_ops cfg)) a s = (t, oc, x)" by (metis prod.collapse)
  have "book_grows cfg i s t" unfolding book_grows_def
  proof (rule impI)
    assume "ids_ready cfg s"
    note made = ids_ready_created [OF this c]
    show "ids_ready cfg t \<and> adds_legs i (mem_table s) (mem_table t)"
    proof (cases "stored oc x")
      case None
      with made show ?thesis by (simp add: adds_legs_same same_orders_refl)
    next
      case (Some y)
      with made leg_row_new [OF 3] show ?thesis by (simp add: adds_legs_one)
    qed
  qed
  then show ?case by (simp add: c)
next
  case (4 s f)
  obtain t r where c: "op_create_fill (lv_base (live_mem_ops cfg)) f s = (t, r)" by (metis prod.collapse)
  have "book_grows cfg i s t" unfolding book_grows_def using ids_ready_filled [OF _ c] adds_legs_same by blast
  then show ?case by (simp add: c)
qed

interpretation intents: live_effects "live_mem_ops cfg" i "no_new_intents cfg' k"
proof (unfold_locales, goal_cases)
  case (3 a s)
  obtain t oc x where c: "op_create_order (lv_base (live_mem_ops cfg)) a s = (t, oc, x)" by (metis prod.collapse)
  then show ?case by (simp add: no_new_intents_def mem_created [OF c] created_order_intents)
next
  case (4 s f)
  obtain t r where c: "op_create_fill (lv_base (live_mem_ops cfg)) f s = (t, r)" by (metis prod.collapse)
  then show ?case by (simp add: mem_filled_same [OF c])
qed (auto simp: no_new_intents_def)

lemma live_adapters_safe: "adapter_safe cfg k (private_http_adapter cfg' net url timeout_ms token)"
  "adapter_safe cfg k (private_connectors_adapter cfg' cs w)"
proof -
  show "adapter_safe cfg k (private_http_adapter cfg' net url timeout_ms token)"
    unfolding adapter_safe_def private_http_adapter_def by (intro allI intents.http_effect [unfolded no_new_intents_def])
  have "fst (private_connectors_adapter cfg' cs w d i b m) = fst (private_connectors_submit (live_mem_ops cfg') cs d i b m w)" for d i b m
    by (simp add: private_connectors_adapter_def split: prod.split)
  then show "adapter_safe cfg k (private_connectors_adapter cfg' cs w)"
    unfolding adapter_safe_def by (auto intro: subsetD [OF intents.connectors_effect [unfolded no_new_intents_def]])
qed

end
