(* ===== verification/Adapters.thy ===== *)
theory Adapters
  imports LiveMemory
begin

text \<open>
  \<open>strategy/arbitrage_execution_adapter.py\<close>: submitting through whichever adapter was built, on the in-memory
  store. No adapter stores an intent, and every result that comes back asks for recovery exactly when the
  submission failed.
\<close>

section \<open>Submitting through an adapter\<close>

definition adapter_submit ::
    "redis_config \<Rightarrow> (http_request \<Rightarrow> http_reply) \<Rightarrow> (string, 'w connector) dict \<Rightarrow> 'w \<Rightarrow> execution_adapter \<Rightarrow> adapter" where
  "adapter_submit cfg net cs w x = (case x of
      SimulatedAdapter mode \<Rightarrow> simulated_adapter cfg mode
    | PrivateStubAdapter \<Rightarrow> (\<lambda>d i auto_unwind m. (m, Inr (stub_submit auto_unwind)))
    | PrivateHttpAdapter url timeout_ms token \<Rightarrow> private_http_adapter cfg net url timeout_ms token
    | PrivateConnectorsAdapter \<Rightarrow> private_connectors_adapter cfg cs w)"

lemma adapter_submit_safe: "adapter_safe cfg k (adapter_submit cfg' net cs w x)"
proof (cases x)
  case PrivateStubAdapter
  then show ?thesis by (simp add: adapter_submit_def adapter_safe_def)
qed (simp_all add: adapter_submit_def simulated_adapter_safe live_adapters_safe)

section \<open>What a result asks for\<close>

lemma failure_honest: "honest b (failure_result b e d xs fs mode)" "honest (lc_auto_unwind c) (fail_call c e xs fs)"
  by (simp_all add: honest_def fail_call_def failure_result_def Let_def classify_submit_failure_transition_def submit_transition_def pget_Cons)

lemma stub_honest: "honest b (stub_submit b)"
  by (simp add: honest_def stub_submit_def Let_def classify_submit_failure_transition_def submit_transition_def pget_Cons)

lemma accepted_honest: "outcome \<in> {''submitted'', ''filled''} \<Longrightarrow> honest b (accepted_reply c outcome preview xs fs)"
  by (simp add: honest_def accepted_reply_def)

lemma record_reply_honest:
  assumes "record_reply ops clock c persist whole s = (t, Inr (Inl r))"
  shows "honest (lc_auto_unwind c) r"
proof -
  have "honest (lc_auto_unwind c) r" if "record_fills ops clock c created index u = (t, Inr (Inl r))" for created index u
    using that by (auto simp: record_fills_def res_simps failure_honest split: prod.splits sum.splits option.splits)
  with assms show ?thesis
    by (auto simp: record_reply_def failure_honest split: prod.splits sum.splits option.splits)
qed

lemma settled_cases:
  assumes "andThen x (\<lambda>q. case q of Inl failed \<Rightarrow> Inr failed | Inr p \<Rightarrow> g p) = Inr r"
  obtains (failed) "x = Inr (Inl r)" | (settled) p where "x = Inr (Inr p)" "g p = Inr r"
  using assms by (cases x) (auto simp: res_simps split: sum.splits)

lemma settled_result:
  "andThen x (\<lambda>q. Inr (case q of Inl failed \<Rightarrow> failed | Inr p \<Rightarrow> g p)) = andThen x (\<lambda>q. case q of Inl failed \<Rightarrow> Inr failed | Inr p \<Rightarrow> Inr (g p))"
  by (rule arg_cong [where f = "andThen x"]) (simp add: fun_eq_iff split: sum.split)

lemma failed_reply_honest:
  assumes "submit_failed_reply ops clock c s = (t, Inr r)"
  shows "honest (lc_auto_unwind c) r"
proof (cases "t = s \<and> (\<exists>e. r = fail_call c e [] [])")
  case False
  obtain u x where rec: "record_reply ops clock c False False s = (u, x)" by (metis prod.collapse)
  with assms False obtain reason where "t = u"
    "andThen x (\<lambda>q. Inr (case q of Inl failed \<Rightarrow> failed | Inr p \<Rightarrow> (case p of (xs, fs) \<Rightarrow> fail_call c reason xs fs))) = Inr r"
    by (auto simp: submit_failed_reply_def Let_def split: option.splits pyval.splits list.splits)
  from this(2) rec show ?thesis unfolding settled_result
    by (cases rule: settled_cases) (auto simp: failure_honest dest: record_reply_honest)
qed (auto simp: failure_honest)

lemma recorded_problem_honest: "recorded_problem c outcome xs fs = Some r \<Longrightarrow> honest (lc_auto_unwind c) r"
  by (auto simp: recorded_problem_def failure_honest split: if_splits)

lemma accepted_reply_honest:
  assumes "submitted_or_filled_reply ops clock c outcome preview s = (t, Inr r)" "outcome \<in> {''submitted'', ''filled''}"
  shows "honest (lc_auto_unwind c) r"
proof (cases "reply_problem c outcome")
  case (Some e)
  with assms(1) show ?thesis by (auto simp: submitted_or_filled_reply_def failure_honest)
next
  case None
  obtain u x where rec: "record_reply ops clock c (outcome = ''filled'') True s = (u, x)" by (metis prod.collapse)
  with assms(1) None have "andThen x (\<lambda>q. Inr (case q of Inl failed \<Rightarrow> failed | Inr p \<Rightarrow> (case p of (xs, fs) \<Rightarrow>
      (case recorded_problem c outcome xs fs of Some failed \<Rightarrow> failed | None \<Rightarrow> accepted_reply c outcome preview xs fs)))) = Inr r"
    by (simp add: submitted_or_filled_reply_def)
  then show ?thesis unfolding settled_result
    using rec by (cases rule: settled_cases)
      (auto simp: accepted_honest [OF assms(2)] dest: record_reply_honest recorded_problem_honest split: option.splits)
qed

lemma take_reply_honest:
  assumes "take_reply ops clock c s = (t, Inr r)"
  shows "honest (lc_auto_unwind c) r"
proof (cases "t = s \<and> (\<exists>e. r = fail_call c e [] [])")
  case False
  define outcome where "outcome = lower (or_else (json_text (pget (lc_payload c) ''outcome'')) ''submitted'')"
  define preview where "preview = json_text (pget (lc_payload c) ''lifecycle_preview'')"
  have known: "outcome \<in> {''submitted'', ''filled'', ''submit_failed''}"
    using assms False unfolding take_reply_def Let_def outcome_def [symmetric] preview_def [symmetric]
    by (metis (no_types, lifting) Pair_inject Inr_inject)
  have valid: "validate_lifecycle_preview outcome preview = None"
    using assms False known unfolding take_reply_def Let_def outcome_def [symmetric] preview_def [symmetric]
    by (cases "validate_lifecycle_preview outcome preview") auto
  show ?thesis
  proof (cases "outcome = ''submit_failed''")
    case True
    with assms valid have "submit_failed_reply ops clock c s = (t, Inr r)"
      unfolding take_reply_def Let_def outcome_def [symmetric] preview_def [symmetric] by simp
    then show ?thesis by (rule failed_reply_honest)
  next
    case other: False
    with assms valid known have "submitted_or_filled_reply ops clock c outcome preview s = (t, Inr r)"
      unfolding take_reply_def Let_def outcome_def [symmetric] preview_def [symmetric] by auto
    then show ?thesis by (rule accepted_reply_honest) (use known other in simp)
  qed
qed (auto simp: failure_honest)

lemma http_honest:
  assumes "private_http_submit ops clock net url timeout_ms token d i b s = (t, Inr r)"
  shows "honest b r"
  using assms by (auto simp: private_http_submit_def failure_honest dest: take_reply_honest split: if_splits sum.splits)

lemma record_leg_honest: "record_leg ops i b leg name r created s = (t, Inr (Inl res)) \<Longrightarrow> honest b res"
  by (auto simp: record_leg_def Let_def failure_honest split: prod.splits sum.splits option.splits)

lemma place_legs_honest: "place_legs ops cs i b legs created s w = (t, u, Inr (Inl res)) \<Longrightarrow> honest b res"
proof (induction legs arbitrary: created s w)
  case (Cons leg legs)
  obtain side exchange px where leg: "leg = (side, exchange, px)" by (metis prod.collapse)
  show ?case
  proof (cases "map_of cs exchange")
    case None
    with Cons.prems leg show ?thesis by (auto simp: failure_honest)
  next
    case (Some c)
    obtain w' q where q: "cn_place_order c (order_request i side px) w = (w', q)" by (metis prod.collapse)
    with Some Cons.prems leg obtain y where y: "q = Inr y" by (cases q) auto
    obtain s' z where z: "record_leg ops i b (side, exchange, px) (cn_name c) y created s = (s', z)" by (metis prod.collapse)
    then show ?thesis using Some Cons.prems leg q y by (auto dest: record_leg_honest Cons.IH split: sum.splits)
  qed
qed simp

lemma settle_honest: "settle_legs ops b created s = Inr r \<Longrightarrow> honest b r"
  by (auto simp: settle_legs_def res_simps Let_def failure_honest honest_success split: option.splits)

lemma connectors_honest:
  assumes "private_connectors_submit ops cs d i b s w = (t, u, Inr r)"
  shows "honest b r"
proof (cases "executable_edge d")
  case None
  with assms show ?thesis by (auto simp: private_connectors_submit_def failure_honest)
next
  case (Some edge)
  obtain s' w' x where placed: "place_legs ops cs i b (legs_to_place i edge) [] s w = (s', w', x)" by (metis prod.collapse)
  with assms Some have "andThen x (\<lambda>q. case q of Inl failed \<Rightarrow> Inr failed | Inr created \<Rightarrow> settle_legs ops b created s') = Inr r"
    by (simp add: private_connectors_submit_def)
  then show ?thesis using placed by (cases rule: settled_cases) (auto dest: place_legs_honest settle_honest)
qed

lemma adapter_submit_honest:
  assumes "adapter_submit cfg net cs w x d i unwind m = (m', Inr r)"
  shows "honest unwind r"
  using assms by (cases x)
    (auto simp: adapter_submit_def simulated_adapter_def private_http_adapter_def private_connectors_adapter_def stub_honest
      dest: simulated_honest http_honest connectors_honest split: prod.splits)

section \<open>What a live result says of the store\<close>

lemma live_result:
  assumes "ids_ready cfg m"
    and "adapter_submit cfg net cs w x d i b m = (m', Inr r)" and "x \<in> {PrivateHttpAdapter url timeout_ms token, PrivateConnectorsAdapter}"
  shows "reported (mem_table m) (mem_table m') r \<and> matches_outcome i (mem_table m') r"
proof (cases "x = PrivateConnectorsAdapter")
  case True
  with assms(2) obtain w' where "private_connectors_submit (live_mem_ops cfg) cs d i b m w = (m', w', Inr r)"
    by (auto simp: adapter_submit_def private_connectors_adapter_def split: prod.splits)
  from book.connectors_result [OF assms(1) this] show ?thesis .
next
  case False
  with assms(2,3) have "private_http_submit (live_mem_ops cfg) (\<lambda>n. rc_now cfg (drawn m + n)) net url timeout_ms token d i b m = (m', Inr r)"
    by (auto simp: adapter_submit_def private_http_adapter_def)
  from book.http_result [OF assms(1) this] show ?thesis .
qed

end
