(* ===== verification/LiveClaims.thy ===== *)
theory LiveClaims
  imports Adapters
begin

text \<open>
  What holds of a live submission on the in-memory store, through the HTTP adapter or through the private
  connectors, whatever the other side replies: which orders are stored, what the result reports, when
  recovery is asked for, and what is lost when an exchange answers that an order rests.
\<close>

section \<open>A lock that another run holds\<close>

text \<open>
  C3. A lock that another run holds stops an evaluation. If the lock of a pair is stored and is not the run's
  own (or cannot be read), then evaluating the run, whatever it loads and decides and whichever
  adapter it submits through, leaves the stored lock as it is and stores no intent for that pair.
\<close>

theorem foreign_lock_blocks_intents:
  assumes "scanning_server exec view" and "info_enabled cfg" and "en_adapter env = adapter_submit cfg' net cs w x"
    and "\<not> own_or_free view (run_bot_id run) (run_id run) (lock_key cfg market qid) (rs_server (pf_redis s))"
    and "run_state (evaluate_run exec cfg sc env run) s = (r, s')"
  shows "view (rs_server (pf_redis s')) (lock_key cfg market qid) = view (rs_server (pf_redis s)) (lock_key cfg market qid)
    \<and> pair_intents cfg (lock_key cfg market qid) (pf_store s') \<subseteq> pair_intents cfg (lock_key cfg market qid) (pf_store s)"
proof -
  have "rc_client cfg" using assms(2) by (simp add: info_enabled_def)
  moreover have "adapter_safe cfg (lock_key cfg market qid) (en_adapter env)" unfolding assms(3) by (rule adapter_submit_safe)
  ultimately have "safe view cfg (run_bot_id run) (run_id run) (lock_key cfg market qid) (evaluate_run exec cfg sc env run)"
    using scanning_server.safe_evaluate_run [OF assms(1) _ assms(2)] by blast
  with assms(4,5) show ?thesis
    unfolding safe_def by (metis snd_conv)
qed

lemma foreign_lock_blocks_intents_witness:
  "pair_intents demo_trade_cfg (lock_key demo_trade_cfg ''BTC-KRW'' ''bithumb:BTC-KRW|upbit:BTC-KRW'')
     (pf_store (snd (run_state (evaluate_run table_exec demo_trade_cfg demo_strategy_config demo_runtime_env demo_trade_run)
       (new_strategy_state (demo_table demo_foreign) demo_trade_store)))) = {}"
proof -
  let ?k = "lock_key demo_trade_cfg ''BTC-KRW'' ''bithumb:BTC-KRW|upbit:BTC-KRW''"
  let ?s = "new_strategy_state (demo_table demo_foreign) demo_trade_store"
  have own: "\<not> same_lock_owner (owner_fields ''b1'' ''r1'') (demo_owner ''a'')" by code_simp
  have read: "json_object (stored_reply (Some (dumps (PDict (demo_owner ''a''))))) = Some (demo_owner ''a'')"
    by (rule stored_text_reads) (simp add: demo_owner_def)
  have s: "rs_server (pf_redis ?s) = demo_foreign" "pf_store ?s = demo_trade_store"
    by (simp_all add: new_strategy_state_def demo_table_def)
  have "map_of demo_foreign ?k = Some (dumps (PDict (demo_owner ''a'')))" by (simp add: demo_foreign_def del: dumps.simps)
  with own read have foreign: "\<not> own_or_free map_of (run_bot_id demo_trade_run) (run_id demo_trade_run) ?k (rs_server (pf_redis ?s))"
    by (simp add: own_or_free_def s demo_trade_run_def del: dumps.simps)
  have on: "info_enabled demo_trade_cfg" by (simp add: info_enabled_def demo_trade_cfg_def demo_cfg_def)
  have safe: "en_adapter demo_runtime_env = adapter_submit demo_trade_cfg (\<lambda>q. Timed_out) [] () (SimulatedAdapter ''simulate_fill'')"
    by (simp add: demo_runtime_env_def adapter_submit_def)
  obtain r s' where run: "run_state (evaluate_run table_exec demo_trade_cfg demo_strategy_config demo_runtime_env demo_trade_run) ?s = (r, s')"
    by (metis prod.collapse)
  have "pair_intents demo_trade_cfg ?k (pf_store s') \<subseteq> pair_intents demo_trade_cfg ?k demo_trade_store"
    using foreign_lock_blocks_intents [OF tables.scanning_server_axioms on safe foreign run] by (simp only: s)
  moreover have "pair_intents demo_trade_cfg ?k demo_trade_store = {}"
    by (simp add: pair_intents_def demo_trade_store_def empty_store_def)
  ultimately show ?thesis by (simp add: run)
qed

section \<open>A submission of two legs\<close>

definition demo_live_cfg :: redis_config where
  "demo_live_cfg = demo_cfg\<lparr>rc_now := (\<lambda>i. ''t''), rc_uid := demo_uid\<rparr>"

definition demo_leg_item :: "string \<Rightarrow> string \<Rightarrow> pyval" where
  "demo_leg_item side ex = PDict [(''side'', PStr side), (''exchange_name'', PStr ex), (''requested_price'', PStr ''100.5''),
     (''exchange_order_id'', PStr (ex @ ''-1''))]"

definition demo_live_net :: "http_request \<Rightarrow> http_reply" where
  "demo_live_net q = Http_body (dumps (PDict [(''orders'',
     PList [demo_leg_item ''buy'' ''bitflyer'', demo_leg_item ''sell'' ''coincheck''])]))"

definition demo_http :: adapter where
  "demo_http = private_http_adapter demo_live_cfg demo_live_net (Some ''u'') 1000 None"

lemma demo_uid_text: "strip (demo_uid n) = demo_uid n \<and> demo_uid n \<noteq> []"
proof -
  have "\<not> is_ws (CHR ''o'')" "\<not> is_ws (CHR ''x'')" by code_simp+
  then show ?thesis by (auto simp: demo_uid_def intro!: strip_id)
qed

lemma demo_ids_ready: "ids_ready demo_live_cfg demo_mem"
proof (rule ids_readyI)
  have none: "orders (mem_store demo_mem) = []" by code_simp
  then show "mem_table demo_mem k = Some x \<Longrightarrow> order_id x = k \<and> strip k = k \<and> k \<noteq> []" for k x by (simp add: mem_table_def)
  show "mem_table demo_mem (rc_uid demo_live_cfg n) = None" for n using none by (simp add: mem_table_def)
  show "inj (rc_uid demo_live_cfg)" by (rule injI) (simp add: demo_live_cfg_def demo_uid_def replicate_eq_replicate)
qed (simp add: demo_live_cfg_def demo_uid_text)

lemma demo_http_accepted:
  "case demo_http demo_decision demo_intent True demo_mem of
     (m, Inr r) \<Rightarrow> sr_outcome r = ''submitted'' \<and> map order_id (sr_created_orders r) = [demo_uid 0, demo_uid 1]
   | _ \<Rightarrow> False"
  by code_simp

lemma demo_submits:
  assumes "demo_http d i b m = (m', Inr r)"
  shows "adapter_submit demo_live_cfg demo_live_net [] () (PrivateHttpAdapter (Some ''u'') 1000 None) d i b m = (m', Inr r)"
  using assms by (simp add: demo_http_def adapter_submit_def)

section \<open>Orders of a live submission\<close>

text \<open>
  C11. Whatever an external executor replies in JSON without fractional numbers (which the model does not
  read), and whatever the private connectors answer, a live submission keeps every order that was stored,
  with its intent, leg, market, quantity, price and identifiers, and each order it adds is on a leg of the intent: with
  the side and exchange of the leg, in the market of the intent, for a positive quantity and at a
  positive price if one is given. The identifiers to be drawn are assumed to be distinct and unused.
\<close>

theorem live_orders_are_legs:
  assumes "ids_ready cfg m"
  shows "adds_legs i (mem_table m) (mem_table (fst (private_http_adapter cfg net url timeout_ms token d i b m)))
   \<and> adds_legs i (mem_table m) (mem_table (fst (private_connectors_adapter cfg cs w d i b m)))"
proof -
  have "fst (private_connectors_adapter cfg cs w d i b m) = fst (private_connectors_submit (live_mem_ops cfg) cs d i b m w)"
    by (simp add: private_connectors_adapter_def split: prod.split)
  with legs.http_effect legs.connectors_effect assms show ?thesis
    unfolding private_http_adapter_def book_grows_def by metis
qed

lemma live_orders_are_legs_witness:
  "adds_legs demo_intent (mem_table demo_mem) (mem_table (fst (demo_http demo_decision demo_intent True demo_mem)))
    \<and> mem_table (fst (demo_http demo_decision demo_intent True demo_mem)) \<noteq> mem_table demo_mem"
proof
  show "adds_legs demo_intent (mem_table demo_mem) (mem_table (fst (demo_http demo_decision demo_intent True demo_mem)))"
    unfolding demo_http_def using live_orders_are_legs [OF demo_ids_ready, where w = "()" and cs = "[]"] by blast
  have "orders (mem_store demo_mem) = []" "orders (mem_store (fst (demo_http demo_decision demo_intent True demo_mem))) \<noteq> []" by code_simp+
  then show "mem_table (fst (demo_http demo_decision demo_intent True demo_mem)) \<noteq> mem_table demo_mem" by (simp add: mem_table_def)
qed

text \<open>
  C10. No live order is lost from view: the identifiers that a live submission adds to the store are exactly
  those of the orders in its result, also when it reports a failure half way.
\<close>

theorem live_orders_are_reported:
  assumes "ids_ready cfg m"
    and "adapter_submit cfg net cs w x d i b m = (m', Inr r)" and "x \<in> {PrivateHttpAdapter url timeout_ms token, PrivateConnectorsAdapter}"
  shows "dom (mem_table m') = dom (mem_table m) \<union> order_id ` set (sr_created_orders r)"
  using live_result [OF assms] by (simp add: reported_def)

lemma live_orders_are_reported_witness:
  "\<exists>m' r. demo_http demo_decision demo_intent True demo_mem = (m', Inr r) \<and> dom (mem_table m') = {demo_uid 0, demo_uid 1}"
proof -
  obtain m' r where r: "demo_http demo_decision demo_intent True demo_mem = (m', Inr r)"
    "map order_id (sr_created_orders r) = [demo_uid 0, demo_uid 1]"
    using demo_http_accepted by (auto split: prod.splits sum.splits)
  have "orders (mem_store demo_mem) = []" by code_simp
  then have "mem_table demo_mem = Map.empty" by (simp add: mem_table_def)
  moreover have "order_id ` set (sr_created_orders r) = set [demo_uid 0, demo_uid 1]" using r(2) by (metis list.set_map)
  ultimately show ?thesis using r(1) demo_submits [OF r(1)]
      live_orders_are_reported [OF demo_ids_ready demo_submits [OF r(1)], of "Some ''u''" 1000 None] by auto
qed

text \<open>
  C9. The outcome of a live submission is true of the store: ''submitted'' comes with one open order on each
  of the two legs and no fill, ''filled'' with a filled order on each leg and a fill for each, every
  order as the store has it; every other result is ''submit_failed''.
\<close>

theorem live_outcome_is_true:
  assumes "ids_ready cfg m"
    and "adapter_submit cfg net cs w x d i b m = (m', Inr r)" and "x \<in> {PrivateHttpAdapter url timeout_ms token, PrivateConnectorsAdapter}"
  shows "matches_outcome i (mem_table m') r"
  using live_result [OF assms] by simp

lemma live_outcome_is_true_witness:
  "\<exists>m' r. demo_http demo_decision demo_intent True demo_mem = (m', Inr r) \<and> two_legs (mem_table m') demo_intent (sr_created_orders r)"
proof -
  obtain m' r where r: "demo_http demo_decision demo_intent True demo_mem = (m', Inr r)" "sr_outcome r = ''submitted''"
    using demo_http_accepted by (auto split: prod.splits sum.splits)
  from live_outcome_is_true [OF demo_ids_ready demo_submits [OF r(1)], of "Some ''u''" 1000 None] r
  show ?thesis by (auto simp: matches_outcome_def)
qed

text \<open>
  C27. Through every adapter, simulated, stub, HTTP or connectors, on any store and for any replies, a submission that
  returns either succeeded and asks for no recovery, or failed and asks for recovery, in the state
  \<open>unwind_in_progress\<close> when unwinding is allowed and \<open>recovery_required\<close> when it is not. No failure is
  reported without a recovery.
\<close>

theorem failed_submission_needs_recovery:
  assumes "adapter_submit cfg net cs w x d i unwind m = (m', Inr r)"
  shows "(sr_outcome r \<in> {''submitted'', ''filled''} \<and> \<not> sr_recovery_required r \<and> \<not> sr_unwind_in_progress r)
     \<or> (sr_outcome r = ''submit_failed'' \<and> sr_recovery_required r \<and> sr_unwind_in_progress r = unwind
        \<and> sr_lifecycle_preview r = (if unwind then ''unwind_in_progress'' else ''recovery_required''))"
  using adapter_submit_honest [OF assms] unfolding honest_def .

lemma failed_submission_needs_recovery_witness:
  "\<exists>r. adapter_submit demo_live_cfg (\<lambda>q. Timed_out) [] () (PrivateHttpAdapter (Some ''u'') 1000 None) demo_decision demo_intent
       True demo_mem = (demo_mem, Inr r) \<and> sr_outcome r = ''submit_failed'' \<and> sr_lifecycle_preview r = ''unwind_in_progress''"
proof -
  obtain r where r: "adapter_submit demo_live_cfg (\<lambda>q. Timed_out) [] () (PrivateHttpAdapter (Some ''u'') 1000 None) demo_decision
      demo_intent True demo_mem = (demo_mem, Inr r)" "sr_outcome r = ''submit_failed''"
    by (simp add: adapter_submit_def private_http_adapter_def private_http_submit_def failure_result_def Let_def)
  from failed_submission_needs_recovery [OF r(1)] r show ?thesis by simp
qed

section \<open>The order of the legs\<close>

lemma recorded_one:
  assumes "create_orders_from_response ops mode persist i (PList [PDict item]) s = (t, Inr (batch, index, None))"
  shows "batch \<noteq> []"
proof -
  from assms obtain as where as: "check_orders ops mode persist i s 1 [] [] [PDict item] = Inr (Inr as)"
    "store_orders ops as [] [] s = (t, batch, index, None)"
    by (auto simp: create_orders_from_response_def split: sum.splits prod.splits)
  from as(1) have "as = [order_of_item mode persist i 1 item]" by (rule check_orders_Cons) auto
  with as(2) show ?thesis by (auto split: prod.splits outcome.splits option.splits)
qed

lemma record_leg_adds: "record_leg ops i b leg name r created s = (t, Inr (Inr created')) \<Longrightarrow> \<exists>batch. batch \<noteq> [] \<and> created' = created @ batch"
  by (auto simp: record_leg_def Let_def dest: recorded_one split: prod.splits sum.splits option.splits)

lemma record_leg_stops: "record_leg ops i b leg name r created s = (t, Inr (Inl res)) \<Longrightarrow> sr_created_orders res = created"
  by (auto simp: record_leg_def Let_def failure_result_def split: prod.splits sum.splits option.splits)

lemma place_legs_keep:
  assumes "place_legs ops cs i b legs created s w = (t, u, Inr z)"
  shows "case z of Inl failed \<Rightarrow> \<exists>more. sr_created_orders failed = created @ more | Inr all \<Rightarrow> \<exists>more. all = created @ more"
  using assms
proof (induction legs arbitrary: created s w)
  case (Cons leg legs)
  obtain side exchange px where leg: "leg = (side, exchange, px)" by (metis prod.collapse)
  show ?case
  proof (cases "map_of cs exchange")
    case None
    with Cons.prems leg show ?thesis by (auto simp: failure_result_def Let_def)
  next
    case (Some c)
    obtain w' q where q: "cn_place_order c (order_request i side px) w = (w', q)" by (metis prod.collapse)
    with Some Cons.prems leg obtain y where y: "q = Inr y" by (cases q) auto
    obtain s' rl where rl: "record_leg ops i b (side, exchange, px) (cn_name c) y created s = (s', rl)" by (metis prod.collapse)
    show ?thesis
    proof (cases "\<exists>created'. rl = Inr (Inr created')")
      case True
      then obtain created' where created': "rl = Inr (Inr created')" by blast
      from record_leg_adds [OF rl [unfolded created']] obtain batch where batch: "created' = created @ batch" by blast
      have "place_legs ops cs i b legs created' s' w' = (t, u, Inr z)" using Some Cons.prems leg q y rl created' by simp
      note rest = Cons.IH [OF this, unfolded batch]
      show ?thesis
      proof (cases z)
        case (Inl failed)
        with rest obtain more where "sr_created_orders failed = created @ batch @ more" by auto
        with Inl show ?thesis by simp
      next
        case (Inr all)
        with rest obtain more where "all = created @ batch @ more" by auto
        with Inr show ?thesis by simp
      qed
    next
      case False
      then consider (raised) e where "rl = Inl e" | (failed) f where "rl = Inr (Inl f)" by (metis sum.exhaust)
      then show ?thesis
      proof cases
        case raised
        with Some Cons.prems leg q y rl show ?thesis by simp
      next
        case failed
        with Some Cons.prems leg q y rl have "z = Inl f" by simp
        with record_leg_stops [OF rl [unfolded failed]] show ?thesis by simp
      qed
    qed
  qed
next
  case Nil
  then show ?case by (cases z) simp_all
qed

lemma settle_legs_keep: "settle_legs ops b created s = Inr r \<Longrightarrow> length (sr_created_orders r) = length created"
  unfolding settle_legs_def Let_def refresh_live_orders_def
  by (cases "mapM (refresh_live_order ops s) created") (auto simp: res_simps failure_result_def Let_def dest!: mapM_length split: option.splits)

definition demo_crypto :: crypto where
  "demo_crypto = \<lparr>cy_sha512 = (\<lambda>t. ''d''), cy_hmac = (\<lambda>alg key t. ''s'')\<rparr>"

definition demo_venue :: "string list venue" where
  \<comment> \<open>an exchange that puts every order it gets into its book; the world is the list of addresses called\<close>
  "demo_venue = \<lparr>vn_net = (\<lambda>q w. (w @ [er_url q], Xr_ok 201 (dumps (PDict [(''uuid'', PStr ''u1''), (''state'', PStr ''wait'')])))),
     vn_crypto = demo_crypto, vn_nonce = (\<lambda>w. ''n''), vn_now_ms = (\<lambda>w. 0)\<rparr>"

definition demo_upbit :: rest_connector where
  "demo_upbit = rest_connector_init ''upbit'' \<lparr>tc_exchange = ''upbit'', tc_access_key = ''a'', tc_secret_key = ''k'', tc_source_path = ''p''\<rparr>
     ''https://upbit'' 1000 []"

definition demo_btc_intent :: order_intent where
  "demo_btc_intent = demo_intent\<lparr>int_market := ''BTC/KRW'', int_buy_exchange := ''upbit''\<rparr>"

definition demo_connectors :: "(string, string list connector) dict" where
  "demo_connectors = [(''upbit'', the (connector_class demo_venue demo_upbit))]"

lemma demo_buy_leg:
  "map_of demo_connectors (strip (int_buy_exchange demo_btc_intent)) = connector_class demo_venue demo_upbit"
  "connector_class demo_venue demo_upbit \<noteq> None"
proof -
  have x: "rx_exchange demo_upbit = ''upbit''" "strip (int_buy_exchange demo_btc_intent) = ''upbit''" by code_simp+
  then show c: "connector_class demo_venue demo_upbit \<noteq> None" by (simp add: connector_class_def Let_def)
  then show "map_of demo_connectors (strip (int_buy_exchange demo_btc_intent)) = connector_class demo_venue demo_upbit"
    by (simp add: demo_connectors_def x(2))
qed

lemma demo_buy_rests:
  "case upbit_place_order demo_venue demo_upbit (order_request demo_btc_intent ''buy'' (dstr (buy_vwap demo_edge))) [] of
     (w, Inr r) \<Rightarrow> w = [''https://upbit/v1/orders''] \<and> px_outcome r = ''ok'' \<and> item_of (px_raw_payload r) \<noteq> []
       \<and> raw_text (item_of (px_raw_payload r)) ''state'' = ''wait''
   | _ \<Rightarrow> False"
  by code_simp

text \<open>
  C14. The sell leg is only sent once the buy order is stored: if a submission through the private connectors
  returns a result that reports no order, then all that was sent is the buy order.
\<close>

theorem sell_leg_follows_stored_buy:
  assumes "executable_edge d = Some edge" and "map_of cs (strip (int_buy_exchange i)) = Some c"
    and "private_connectors_submit ops cs d i b s w = (t, u, Inr r)" and "sr_created_orders r = []"
  shows "u = fst (cn_place_order c (order_request i ''buy'' (dstr (buy_vwap edge))) w)"
proof -
  obtain w' q where q: "cn_place_order c (order_request i ''buy'' (dstr (buy_vwap edge))) w = (w', q)" by (metis prod.collapse)
  obtain s' w'' y where placed: "place_legs ops cs i b (legs_to_place i edge) [] s w = (s', w'', y)" by (metis prod.collapse)
  have y: "andThen y (\<lambda>z. case z of Inl failed \<Rightarrow> Inr failed | Inr created \<Rightarrow> settle_legs ops b created s') = Inr r" "u = w''"
    using assms(1,3) placed by (auto simp: private_connectors_submit_def)
  then obtain z where z: "y = Inr z" by (cases y) (auto simp: res_simps)
  from placed z q assms(2) obtain x where x: "q = Inr x" by (cases q) (auto simp: legs_to_place_def)
  let ?leg = "(''buy'', strip (int_buy_exchange i), dstr (buy_vwap edge))"
  obtain v rl where rl: "record_leg ops i b ?leg (cn_name c) x [] s = (v, rl)" by (metis prod.collapse)
  show ?thesis
  proof (cases "\<exists>batch. rl = Inr (Inr batch)")
    case False
    with placed z q x rl assms(2) have "w'' = w'" by (auto simp: legs_to_place_def split: sum.splits)
    with q y(2) show ?thesis by simp
  next
    case True
    then obtain batch where batch: "rl = Inr (Inr batch)" by blast
    with rl record_leg_adds have "batch \<noteq> []" by fastforce
    moreover have "place_legs ops cs i b (tl (legs_to_place i edge)) batch v w' = (s', w'', Inr z)"
      using placed z q x rl batch assms(2) by (simp add: legs_to_place_def)
    ultimately have "case z of Inl failed \<Rightarrow> sr_created_orders failed \<noteq> [] | Inr created \<Rightarrow> created \<noteq> []"
      using place_legs_keep [of ops cs i b "tl (legs_to_place i edge)" batch v w' s' w'' z] by (auto split: sum.splits)
    with y(1) assms(4) show ?thesis unfolding z by (cases z) (auto simp: res_simps dest: settle_legs_keep)
  qed
qed

lemma demo_rest_cases:
  obtains c w r item where "connector_class demo_venue demo_upbit = Some c"
    "map_of demo_connectors (strip (int_buy_exchange demo_btc_intent)) = Some c"
    "cn_place_order c (order_request demo_btc_intent ''buy'' (dstr (buy_vwap demo_edge))) [] = (w, Inr r)"
    "w = [''https://upbit/v1/orders'']" "px_outcome r = ''ok''" "px_raw_payload r = PDict item" "raw_text item ''state'' = ''wait''"
proof -
  obtain c where c: "connector_class demo_venue demo_upbit = Some c" using demo_buy_leg(2) by blast
  have "rx_exchange demo_upbit = ''upbit''" by code_simp
  with c have place: "cn_place_order c = upbit_place_order demo_venue demo_upbit" by (auto simp: connector_class_def Let_def)
  obtain w y where y: "upbit_place_order demo_venue demo_upbit (order_request demo_btc_intent ''buy'' (dstr (buy_vwap demo_edge))) [] = (w, y)"
    by (metis prod.collapse)
  with demo_buy_rests obtain r where r: "y = Inr r" "w = [''https://upbit/v1/orders'']" "px_outcome r = ''ok''"
    "item_of (px_raw_payload r) \<noteq> []" "raw_text (item_of (px_raw_payload r)) ''state'' = ''wait''" by (cases y) auto
  from r(4) obtain item where "px_raw_payload r = PDict item" by (cases "px_raw_payload r") (auto simp: item_of_def)
  with r(5) show thesis using that [OF c, of w r item] demo_buy_leg(1) c place y r by (simp add: item_of_def)
qed

lemma sell_leg_follows_stored_buy_witness:
  "\<exists>t r. private_connectors_submit (live_mem_ops demo_live_cfg) demo_connectors demo_decision demo_btc_intent True demo_mem []
     = (t, [''https://upbit/v1/orders''], Inr r) \<and> sr_created_orders r = []"
proof (rule demo_rest_cases)
  fix c w r item
  assume c: "map_of demo_connectors (strip (int_buy_exchange demo_btc_intent)) = Some c"
    "cn_place_order c (order_request demo_btc_intent ''buy'' (dstr (buy_vwap demo_edge))) [] = (w, Inr r)"
    "w = [''https://upbit/v1/orders'']"
  have edge: "executable_edge demo_decision = Some demo_edge" by code_simp
  obtain t u y where run: "private_connectors_submit (live_mem_ops demo_live_cfg) demo_connectors demo_decision demo_btc_intent True demo_mem []
      = (t, u, y)" by (metis prod.collapse)
  have "case private_connectors_submit (live_mem_ops demo_live_cfg) demo_connectors demo_decision demo_btc_intent True demo_mem [] of
      (_, _, Inr x) \<Rightarrow> sr_created_orders x = [] | _ \<Rightarrow> False" by code_simp
  with run obtain x where "y = Inr x" "sr_created_orders x = []" by (cases y) auto
  with sell_leg_follows_stored_buy [OF edge c(1), of "live_mem_ops demo_live_cfg" True demo_mem "[]" t u x] run c(2,3) show ?thesis by auto
qed

section \<open>Orders that rest\<close>

lemma refused_item:
  assumes "item_status item \<notin> set ALLOWED_ORDER_STATUSES"
  shows "\<exists>e. create_orders_from_response ops mode persist i (PList [PDict item]) s = (s, Inr ([], [], Some e))"
proof -
  have "\<exists>e. order_problem i [] (item_status item) a = Some e" for a
    using assms by (simp add: order_problem_def Let_def)
  then obtain e where "order_problem i [] (item_status item) (order_of_item mode persist i 1 item) = Some e" by blast
  then show ?thesis by (simp add: create_orders_from_response_def Let_def)
qed

lemma open_item_refused:
  assumes "px_data r = PDict p" and "pget p ''status'' = PStr ''open''"
  shows "\<exists>e. record_leg ops i b (side, ex, px) name r created s = (s, Inr (Inl (failure_result b (fst e) (snd e) created [] MODE_NAME)))"
proof (cases "order_item_from_response r i side ex px name")
  case (Inl e)
  then show ?thesis by (auto simp: record_leg_def Let_def intro!: exI [of _ "(e, connector_response_details r side ex name)"])
next
  case (Inr item)
  have open_status: "lower (strip (or_else (json_text (PStr ''open'')) ''submitted'')) = ''open''" by code_simp
  with Inr assms have "pget item ''status'' = PStr ''open''"
    by (auto simp: order_item_from_response_def Let_def pget_Cons split: if_splits option.splits)
  moreover have "lower (or_else (json_text (PStr ''open'')) ''submitted'') \<notin> set ALLOWED_ORDER_STATUSES" by code_simp
  ultimately have "item_status item \<notin> set ALLOWED_ORDER_STATUSES" by (simp add: item_status_def)
  from refused_item [OF this, of ops MODE_NAME False i s] obtain e where "create_orders_from_response ops MODE_NAME False i (PList [PDict item]) s
      = (s, Inr ([], [], Some e))" by blast
  with Inr show ?thesis
    by (auto simp: record_leg_def Let_def intro!: exI [of _ "(e, connector_response_details r side ex name @ [(''order_payload'', PDict item)])"])
qed

lemma finish_call_ok:
  assumes "finish_call f q = (w', Inr r)" and "px_outcome r = ''ok''"
  shows "f (px_raw_payload r) = Inr (px_data r)"
proof -
  obtain v x where q: "q = (v, x)" by (metis prod.collapse)
  with assms(1) obtain y where y: "x = Inr y" by (cases x) (auto simp: finish_call_def res_simps)
  show ?thesis
  proof (cases y)
    case (Inl e)
    with assms q y show ?thesis by (auto simp: finish_call_def res_simps handle_api_error_def)
  next
    case (Inr p)
    with assms q y show ?thesis by (cases "f p") (auto simp: finish_call_def res_simps handle_api_error_def ok_result_def)
  qed
qed

text \<open>
  C12. Upbit's word for a resting order, "wait", is normalised to "open", which is not among the statuses
  the adapter accepts. So a buy order that Upbit has accepted and that rests in its book is not stored
  and not among the created orders: the submission comes back as failed and the store is unchanged. (The
  details of the failure still quote the payload of the order.)
\<close>

theorem resting_order_is_stranded:
  assumes "executable_edge d = Some edge" and "map_of cs (strip (int_buy_exchange i)) = Some c"
    and "connector_class v x = Some c" and "rx_exchange x = ''upbit''"
    and "cn_place_order c (order_request i ''buy'' (dstr (buy_vwap edge))) w = (w', Inr r)"
    and "px_outcome r = ''ok''" and "px_raw_payload r = PDict item" and "raw_text item ''state'' = ''wait''"
  shows "\<exists>failed. private_connectors_submit ops cs d i b s w = (s, w', Inr failed)
    \<and> sr_outcome failed = ''submit_failed'' \<and> sr_created_orders failed = []"
proof -
  have "cn_place_order c = upbit_place_order v x" using assms(3,4) by (auto simp: connector_class_def Let_def)
  with assms(5,6) obtain body where body: "finish_call (\<lambda>p. andThen (normalize_upbit_order p) (\<lambda>d. Inr (PDict d)))
      (upbit_call v x ''place_order'' ''POST'' ''/v1/orders'' (query_pairs_from_payload body) [] (Some body) w) = (w', Inr r)"
    by (auto simp: upbit_place_order_def refused_call_def handle_api_error_def split: sum.splits)
  have "andThen (normalize_upbit_order (PDict item)) (\<lambda>d. Inr (PDict d)) = Inr (px_data r)"
    using finish_call_ok [OF body assms(6)] assms(7) by simp
  then obtain data where "normalize_upbit_order (PDict item) = Inr data" "Inr (PDict data) = (Inr (px_data r) :: pyval api)"
    unfolding andThen_eq_Inr by blast
  then have data: "px_data r = PDict data" "normalize_upbit_order (PDict item) = Inr data" by simp_all
  have "normalize_upbit_order_status ''wait'' = ''open''" by code_simp
  with data(2) assms(8) have "pget data ''status'' = PStr ''open''"
    by (auto simp: normalize_upbit_order_def item_of_def Let_def res_simps pget_Cons split: sum.splits)
  from open_item_refused [OF data(1) this, of ops i b "''buy''" "strip (int_buy_exchange i)" "dstr (buy_vwap edge)" "cn_name c" "[]" s]
  obtain e where "record_leg ops i b (''buy'', strip (int_buy_exchange i), dstr (buy_vwap edge))
      (cn_name c) r [] s = (s, Inr (Inl (failure_result b (fst e) (snd e) [] [] MODE_NAME)))" by blast
  with assms(1,2,5) have "private_connectors_submit ops cs d i b s w = (s, w', Inr (failure_result b (fst e) (snd e) [] [] MODE_NAME))"
    by (simp add: private_connectors_submit_def legs_to_place_def res_simps)
  then show ?thesis by (simp add: failure_result_def Let_def)
qed

lemma resting_order_is_stranded_witness:
  "\<exists>failed. private_connectors_submit (live_mem_ops demo_live_cfg) demo_connectors demo_decision demo_btc_intent True demo_mem []
     = (demo_mem, [''https://upbit/v1/orders''], Inr failed) \<and> sr_created_orders failed = []"
proof (rule demo_rest_cases)
  fix c w r item
  assume c: "connector_class demo_venue demo_upbit = Some c"
    "map_of demo_connectors (strip (int_buy_exchange demo_btc_intent)) = Some c"
    "cn_place_order c (order_request demo_btc_intent ''buy'' (dstr (buy_vwap demo_edge))) [] = (w, Inr r)"
    "w = [''https://upbit/v1/orders'']" "px_outcome r = ''ok''" "px_raw_payload r = PDict item" "raw_text item ''state'' = ''wait''"
  have "executable_edge demo_decision = Some demo_edge" "rx_exchange demo_upbit = ''upbit''" by code_simp+
  from resting_order_is_stranded [OF this(1) c(2,1) this(2) c(3,5,6,7), of "live_mem_ops demo_live_cfg" True demo_mem] c(4)
  show ?thesis by blast
qed

section \<open>Fills of a failed submission\<close>

lemma one_leg_incomplete:
  assumes "validate_required_arbitrage_legs created index i whole = None"
  shows "length created = 2"
proof -
  have two: "length (remdups (expected_legs i)) = 2" by (simp add: expected_legs_def)
  with assms show ?thesis
    by (simp add: validate_required_arbitrage_legs_def or_problem_def leg_list_def split: if_splits option.splits)
qed

lemma stored_at_most: "store_orders ops as created index s = (t, created', index', e) \<Longrightarrow> length created' \<le> length created + length as"
proof (induction as arbitrary: created index s)
  case (Cons a as)
  obtain u oc x where c: "op_create_order (lv_base ops) a s = (u, oc, x)" by (metis prod.collapse)
  show ?case
  proof (cases "oc = Created \<and> x \<noteq> None")
    case True
    then obtain y where "oc = Created" "x = Some y" by auto
    with Cons.IH [of "created @ [y]"] Cons.prems c show ?thesis by fastforce
  next
    case False
    with Cons.prems c show ?thesis by (cases oc; cases x) auto
  qed
qed simp

lemma stored_orders_keep_fills:
  "store_orders (live_mem_ops cfg) as created index m = (t, q) \<Longrightarrow> fills (mem_store t) = fills (mem_store m)"
proof (induction as arbitrary: created index m)
  case (Cons a as)
  obtain u oc x where c: "op_create_order (lv_base (live_mem_ops cfg)) a m = (u, oc, x)" by (metis prod.collapse)
  from mem_created(1) [OF c] have "fills (mem_store u) = fills (mem_store m)"
    by (auto simp: create_order_def Let_def split: option.split)
  with Cons c show ?case by (cases oc; cases x) auto
qed simp

lemma one_order_stored:
  assumes "create_orders_from_response (live_mem_ops cfg) mode persist i (PList [x]) m = (u, r)"
  shows "fills (mem_store u) = fills (mem_store m) \<and> (r = Inr (created, index, e) \<longrightarrow> length created \<le> 1)"
proof (cases "\<exists>as. check_orders (live_mem_ops cfg) mode persist i m 1 [] [] [x] = Inr (Inr as)")
  case True
  then obtain as where as: "check_orders (live_mem_ops cfg) mode persist i m 1 [] [] [x] = Inr (Inr as)" by blast
  obtain v q where "store_orders (live_mem_ops cfg) as [] [] m = (v, q)" by (metis prod.collapse)
  with as assms have st: "store_orders (live_mem_ops cfg) as [] [] m = (u, q)" "r = Inr q"
    by (simp_all add: create_orders_from_response_def)
  show ?thesis using stored_orders_keep_fills [OF st(1)] stored_at_most checked_orders [OF as] st by fastforce
next
  case False
  then consider (raised) z where "check_orders (live_mem_ops cfg) mode persist i m 1 [] [] [x] = Inl z"
    | (bad) z where "check_orders (live_mem_ops cfg) mode persist i m 1 [] [] [x] = Inr (Inl z)" by (metis sum.exhaust)
  then show ?thesis using assms by cases (auto simp: create_orders_from_response_def)
qed

text \<open>
  C13. A failed submission of which only one leg was sent loses its fills. When the executor replies
  ''submit_failed'' with a single order, the fills it reports for that order are neither stored nor reported,
  although the reply is checked for exactly these fills before.
\<close>

theorem one_leg_fills_are_lost:
  assumes "pget (lc_payload c) ''orders'' = PList [x]"
    and "submit_failed_reply (live_mem_ops cfg) clock c m = (m', Inr r)"
  shows "sr_created_fills r = [] \<and> fills (mem_store m') = fills (mem_store m)"
proof (cases "m' = m \<and> (\<exists>e. r = fail_call c e [] [])")
  case True
  then show ?thesis by (auto simp: fail_call_def failure_result_def Let_def)
next
  case False
  let ?ops = "live_mem_ops cfg"
  obtain u o' where o: "create_orders_from_response ?ops ''private_http'' False (lc_intent c) (PList [x]) m = (u, o')" by (metis prod.collapse)
  have sound: "fills (mem_store u) = fills (mem_store m)" "\<And>created index e. o' = Inr (created, index, e) \<Longrightarrow> length created \<le> 1"
    using one_order_stored [OF o] by blast+
  obtain v y where rec: "record_reply ?ops clock c False False m = (v, y)" by (metis prod.collapse)
  have y: "m' = v" "andThen y (\<lambda>q. case q of Inl failed \<Rightarrow> Inr failed | Inr p \<Rightarrow> Inr (case p of (xs, fs) \<Rightarrow>
      fail_call c (or_else (json_text (pget (response_details (lc_payload c)) ''reason'')) ''private execution submit failed'') xs fs)) = Inr r"
    using assms False rec unfolding settled_result [symmetric]
    by (auto simp: submit_failed_reply_def Let_def split: option.splits)
  have "v = u \<and> (\<exists>e created. y = Inr (Inl (fail_call c e created [])))"
  proof (cases o')
    case (Inl e)
    with o assms(1) rec y(2) show ?thesis by (auto simp: record_reply_def res_simps)
  next
    case (Inr q)
    obtain created index e where q: "q = (created, index, e)" by (metis prod.collapse)
    show ?thesis
    proof (cases e)
      case (Some msg)
      with o assms(1) rec Inr q show ?thesis by (auto simp: record_reply_def)
    next
      case None
      from sound(2) Inr q have "length created \<noteq> 2" by fastforce
      with one_leg_incomplete obtain msg where "validate_required_arbitrage_legs created index (lc_intent c) False = Some msg" by blast
      with o assms(1) rec Inr q None show ?thesis by (auto simp: record_reply_def)
    qed
  qed
  with y sound(1) show ?thesis by (auto simp: res_simps fail_call_def failure_result_def Let_def)
qed

definition demo_one_leg :: live_call where
  "demo_one_leg = \<lparr>lc_intent = demo_intent, lc_auto_unwind = True, lc_payload = [(''outcome'', PStr ''submit_failed''),
     (''orders'', PList [PDict [(''side'', PStr ''buy''), (''exchange_name'', PStr ''bitflyer''), (''requested_qty'', PStr ''1.0''),
        (''status'', PStr ''partially_filled'')]]),
     (''fills'', PList [PDict [(''side'', PStr ''buy''), (''exchange_name'', PStr ''bitflyer''), (''fill_price'', PStr ''100.5''),
        (''fill_qty'', PStr ''0.4'')]])]\<rparr>"

lemma one_leg_fills_are_lost_witness:
  "\<exists>m' r. submit_failed_reply (live_mem_ops demo_live_cfg) (\<lambda>n. ''t'') demo_one_leg demo_mem = (m', Inr r)
     \<and> sr_created_orders r \<noteq> [] \<and> sr_created_fills r = []
     \<and> validate_response_submit_failed_payload (pget (lc_payload demo_one_leg) ''orders'') (pget (lc_payload demo_one_leg) ''fills'') = None"
proof -
  have "case submit_failed_reply (live_mem_ops demo_live_cfg) (\<lambda>n. ''t'') demo_one_leg demo_mem of
      (_, Inr r) \<Rightarrow> sr_created_orders r \<noteq> [] | _ \<Rightarrow> False" by code_simp
  then obtain m' r where r: "submit_failed_reply (live_mem_ops demo_live_cfg) (\<lambda>n. ''t'') demo_one_leg demo_mem = (m', Inr r)"
    "sr_created_orders r \<noteq> []" by (auto split: prod.splits sum.splits)
  have "validate_response_submit_failed_payload (pget (lc_payload demo_one_leg) ''orders'') (pget (lc_payload demo_one_leg) ''fills'') = None"
    by code_simp
  moreover obtain x where "pget (lc_payload demo_one_leg) ''orders'' = PList [x]" by (simp add: demo_one_leg_def pget_Cons)
  ultimately show ?thesis using one_leg_fills_are_lost [OF _ r(1)] r by blast
qed

section \<open>Connectors and their keys\<close>

lemma string_value_clean: "string_value v = Some t \<Longrightarrow> t \<noteq> [] \<and> strip t = t"
  by (auto simp: string_value_def split: pyval.splits if_splits)

lemma found_field: "resolve_access_key_field payload e = Some f \<Longrightarrow> \<exists>t. string_value (pget payload f) = Some t"
  by (auto simp: resolve_access_key_field_def find_Some_iff split: if_splits)

lemma supported_exchange:
  assumes "exchange \<in> set SUPPORTED_EXCHANGES"
  shows "normalize_exchange exchange = Inr exchange"
proof -
  have "list_all (\<lambda>e. normalize_exchange e = Inr e) SUPPORTED_EXCHANGES" by code_simp
  with assms show ?thesis by (simp add: list_all_iff)
qed

definition inspected :: "(string \<Rightarrow> key_file) \<Rightarrow> string \<Rightarrow> string \<Rightarrow> string \<Rightarrow> credentials_status" where
  \<comment> \<open>the status of the keys at two paths\<close>
  "inspected fs e p q = (let k = \<lparr>ks_exchange = e, ks_configured = False, ks_ready = False, ks_state = ''not_found'',
       ks_source_path = None, ks_primary_path = p, ks_fallback_path = q, ks_access_key_field = None\<rparr>
     in if fs p \<noteq> No_file then inspect_file fs k p ''primary'' else if fs q \<noteq> No_file then inspect_file fs k q ''fallback'' else k)"

lemma ready_at:
  assumes "ks_ready (inspect_file fs k path prefix)" and "\<not> ks_ready k"
  obtains payload a secret where "ks_configured (inspect_file fs k path prefix)" "ks_source_path (inspect_file fs k path prefix) = Some path"
    "read_json_object fs path = Inr payload" "resolve_access_key payload (ks_exchange k) = Inr a" "a \<noteq> []" "strip a = a"
    "require_non_empty_string payload ''secret_key'' path (ks_exchange k) = Inr secret" "secret \<noteq> []" "strip secret = secret"
    "ks_exchange (inspect_file fs k path prefix) = ks_exchange k"
proof -
  obtain payload where payload: "read_json_object fs path = Inr payload"
    using assms by (auto simp: inspect_file_def Let_def split: sum.splits)
  obtain f where f: "resolve_access_key_field payload (ks_exchange k) = Some f"
    using assms payload by (auto simp: inspect_file_def Let_def split: option.splits)
  then obtain a where a: "string_value (pget payload f) = Some a" using found_field by blast
  obtain secret where secret: "string_value (pget payload ''secret_key'') = Some secret"
    using assms payload f by (auto simp: inspect_file_def Let_def split: if_splits)
  show thesis
  proof (rule that [of payload a secret])
    show "resolve_access_key payload (ks_exchange k) = Inr a" by (simp add: resolve_access_key_def f a)
    show "require_non_empty_string payload ''secret_key'' path (ks_exchange k) = Inr secret"
      by (simp add: require_non_empty_string_def secret)
  qed (simp_all add: payload inspect_file_def f secret Let_def string_value_clean [OF a] string_value_clean [OF secret])
qed

lemma ready_file:
  assumes "ks_ready (inspected fs e p q)"
  shows "\<exists>path payload a secret. ks_configured (inspected fs e p q) \<and> ks_source_path (inspected fs e p q) = Some path
    \<and> read_json_object fs path = Inr payload \<and> resolve_access_key payload e = Inr a \<and> a \<noteq> [] \<and> strip a = a
    \<and> require_non_empty_string payload ''secret_key'' path e = Inr secret \<and> secret \<noteq> [] \<and> strip secret = secret
    \<and> ks_exchange (inspected fs e p q) = e"
proof -
  define k where "k = \<lparr>ks_exchange = e, ks_configured = False, ks_ready = False, ks_state = ''not_found'',
       ks_source_path = None, ks_primary_path = p, ks_fallback_path = q, ks_access_key_field = None\<rparr>"
  have k: "\<not> ks_ready k" "ks_exchange k = e" by (simp_all add: k_def)
  with assms consider "inspected fs e p q = inspect_file fs k p ''primary''" | "inspected fs e p q = inspect_file fs k q ''fallback''"
    by (auto simp: inspected_def Let_def k_def split: if_splits)
  then show ?thesis
  proof cases
    case 1
    from ready_at [OF assms [unfolded 1] k(1)] show ?thesis unfolding 1 k(2) by metis
  next
    case 2
    from ready_at [OF assms [unfolded 2] k(1)] show ?thesis unfolding 2 k(2) by metis
  qed
qed

text \<open>
  C15. Trading needs keys, and keys that are there are used. The connector of a supported exchange follows what the
  inspection of its credential files finds: if they are ready, the connector is built on the loaded credentials,
  with an access key and a secret key that are present and trimmed; if not, each of its five operations
  (placing, looking up and cancelling an order, listing open orders, reading balances) reports that the keys
  are missing and leaves the outside world as it is, whatever it is asked.
\<close>

theorem connector_has_keys:
  assumes "exchange \<in> set SUPPORTED_EXCHANGES" and "map_of (xg_base_urls cfg) exchange \<noteq> None"
    and "inspect_exchange_trading_credentials fs exchange (xg_primary_dir cfg) (xg_fallback_dir cfg) = Inr k"
  shows "if ks_ready k
    then \<exists>x c. build_private_exchange_connector v fs cfg exchange = Inr c \<and> connector_class v x = Some c \<and> rx_exchange x = exchange
      \<and> load_exchange_trading_credentials fs exchange (xg_primary_dir cfg) (xg_fallback_dir cfg) = Inr (Some (rx_credentials x))
      \<and> tc_access_key (rx_credentials x) \<noteq> [] \<and> strip (tc_access_key (rx_credentials x)) = tc_access_key (rx_credentials x)
      \<and> tc_secret_key (rx_credentials x) \<noteq> [] \<and> strip (tc_secret_key (rx_credentials x)) = tc_secret_key (rx_credentials x)
    else \<exists>c. build_private_exchange_connector v fs cfg exchange = Inr c
      \<and> (\<forall>q w. cn_place_order c q w = (w, Inr (unavailable_result exchange k)))
      \<and> (\<forall>w. cn_get_balances c w = (w, Inr (unavailable_result exchange k)))
      \<and> (\<forall>a m w. cn_cancel_order c a m w = (w, Inr (unavailable_result exchange k)))
      \<and> (\<forall>a m w. cn_get_order_status c a m w = (w, Inr (unavailable_result exchange k)))
      \<and> (\<forall>m w. cn_list_open_orders c m w = (w, Inr (unavailable_result exchange k)))"
proof -
  have e: "normalize_exchange exchange = Inr exchange" by (rule supported_exchange [OF assms(1)])
  obtain url where url: "map_of (xg_base_urls cfg) exchange = Some url" using assms(2) by blast
  obtain p q where paths: "candidate_paths exchange (xg_primary_dir cfg) (xg_fallback_dir cfg) = (p, q)" by (metis prod.collapse)
  have k: "k = inspected fs exchange p q" using assms(3) e paths
    by (simp add: inspect_exchange_trading_credentials_def inspected_def res_simps Let_def)
  show ?thesis
  proof (cases "ks_ready k")
    case False
    then have "build_private_exchange_connector v fs cfg exchange = Inr (missing_credentials_connector exchange k)"
      by (simp add: build_private_exchange_connector_def assms(3) res_simps)
    with False show ?thesis by (simp add: missing_credentials_connector_def Let_def)
  next
    case True
    from ready_file [OF True [unfolded k]] obtain path payload a secret where ready: "ks_configured k" "ks_source_path k = Some path"
      "read_json_object fs path = Inr payload" "resolve_access_key payload exchange = Inr a" "a \<noteq> []" "strip a = a"
      "require_non_empty_string payload ''secret_key'' path exchange = Inr secret" "secret \<noteq> []" "strip secret = secret"
      "ks_exchange k = exchange" unfolding k by blast
    let ?cr = "\<lparr>tc_exchange = exchange, tc_access_key = a, tc_secret_key = secret, tc_source_path = path\<rparr>"
    have load: "load_exchange_trading_credentials fs exchange (xg_primary_dir cfg) (xg_fallback_dir cfg) = Inr (Some ?cr)"
      by (simp add: load_exchange_trading_credentials_def assms(3) res_simps True ready)
    define x where "x = rest_connector_init exchange ?cr url (foldr max (map snd (xg_timeouts cfg)) 0) (xg_timeouts cfg)"
    have fields: "rx_exchange x = exchange" "rx_credentials x = ?cr" by (simp_all add: x_def rest_connector_init_def)
    with assms(1) obtain c where c: "connector_class v x = Some c"
      by (auto simp: connector_class_def Let_def SUPPORTED_EXCHANGES_def)
    have "build_private_exchange_connector v fs cfg exchange = Inr c"
      using c url by (simp add: build_private_exchange_connector_def assms(3) res_simps True load x_def [symmetric])
    with True c fields load ready show ?thesis by (auto intro!: exI [of _ x] exI [of _ c])
  qed
qed

definition demo_keys :: "string \<Rightarrow> key_file" where
  "demo_keys path = (if path = ''new/upbit_trading.json''
     then Content (dumps (PDict [(''access_key'', PStr '' a''), (''secret_key'', PStr ''k'')])) else No_file)"

definition demo_exchange_config :: exchange_config where
  "demo_exchange_config = \<lparr>xg_primary_dir = ''new'', xg_fallback_dir = ''old'',
     xg_base_urls = [(''upbit'', ''https://upbit''), (''bithumb'', ''https://bithumb'')], xg_timeouts = []\<rparr>"

lemma connector_has_keys_witness:
  "(\<exists>x c. build_private_exchange_connector demo_venue demo_keys demo_exchange_config ''upbit'' = Inr c \<and> connector_class demo_venue x = Some c
     \<and> tc_access_key (rx_credentials x) \<noteq> [])
   \<and> (\<exists>c k. build_private_exchange_connector demo_venue demo_keys demo_exchange_config ''bithumb'' = Inr c
     \<and> (\<forall>m w. cn_list_open_orders c m w = (w, Inr (unavailable_result ''bithumb'' k))))"
proof
  have "case inspect_exchange_trading_credentials demo_keys ''upbit'' ''new'' ''old'' of Inr k \<Rightarrow> ks_ready k | _ \<Rightarrow> False" by code_simp
  then obtain k where k: "inspect_exchange_trading_credentials demo_keys ''upbit'' (xg_primary_dir demo_exchange_config)
      (xg_fallback_dir demo_exchange_config) = Inr k" "ks_ready k"
    by (auto simp: demo_exchange_config_def split: sum.splits)
  have "''upbit'' \<in> set SUPPORTED_EXCHANGES" "map_of (xg_base_urls demo_exchange_config) ''upbit'' \<noteq> None" by code_simp+
  from connector_has_keys [OF this k(1), of demo_venue] k(2)
  show "\<exists>x c. build_private_exchange_connector demo_venue demo_keys demo_exchange_config ''upbit'' = Inr c \<and> connector_class demo_venue x = Some c
     \<and> tc_access_key (rx_credentials x) \<noteq> []" by auto
  have "case inspect_exchange_trading_credentials demo_keys ''bithumb'' ''new'' ''old'' of Inr k \<Rightarrow> \<not> ks_ready k | _ \<Rightarrow> False" by code_simp
  then obtain k' where k': "inspect_exchange_trading_credentials demo_keys ''bithumb'' (xg_primary_dir demo_exchange_config)
      (xg_fallback_dir demo_exchange_config) = Inr k'" "\<not> ks_ready k'"
    by (auto simp: demo_exchange_config_def split: sum.splits)
  have "''bithumb'' \<in> set SUPPORTED_EXCHANGES" "map_of (xg_base_urls demo_exchange_config) ''bithumb'' \<noteq> None" by code_simp+
  from connector_has_keys [OF this k'(1), of demo_venue] k'(2)
  show "\<exists>c k. build_private_exchange_connector demo_venue demo_keys demo_exchange_config ''bithumb'' = Inr c
     \<and> (\<forall>m w. cn_list_open_orders c m w = (w, Inr (unavailable_result ''bithumb'' k)))" by auto
qed

end
