(* ===== verification/Requests.thy ===== *)
theory Requests
  imports RequestUtils StrategyExecution "HOL-Library.List_Lexorder"
begin

text \<open>
  What the route handlers share: the request a handler sees, the response it returns, the checks of a
  body (\<open>route_handlers.py\<close>, \<open>route_handlers_redis.py\<close>), and the handlers of orders in
  \<open>route_handlers_order_write.py\<close>. A handler is a task over the Redis runtime and the store; it draws
  the identifier of its response when it answers.
\<close>

section \<open>Requests and answers\<close>

record http_call =
  hc_length :: "string option"
  hc_body :: "int \<Rightarrow> string"
  hc_trace_id :: "string option"

record server_setup =
  sv_cfg :: redis_config
  sv_mutations :: bool
  sv_backend :: string

type_synonym ('r, 'x) handler = "('r, 'x, response run) task"

definition respond :: "redis_config \<Rightarrow> int \<Rightarrow> pyval \<Rightarrow> ('r, 'x) handler" where
  \<comment> \<open>\<open>status, self._response(data=data)\<close>\<close>
  "respond cfg status data = do {
     uid \<leftarrow> on_redis (draw_uid cfg);
     State_Monad.return (Returned (status, response_payload uid data PNone)) }"

definition refuse :: "redis_config \<Rightarrow> int \<Rightarrow> string \<Rightarrow> string \<Rightarrow> ('r, 'x) handler" where
  \<comment> \<open>\<open>status, self._response(error=...)\<close>\<close>
  "refuse cfg status code message = do {
     uid \<leftarrow> on_redis (draw_uid cfg);
     State_Monad.return (Returned (error_response uid status code message)) }"

definition with_body :: "redis_config \<Rightarrow> http_call \<Rightarrow> (obj \<Rightarrow> ('r, 'x) handler) \<Rightarrow> ('r, 'x) handler" where
  \<comment> \<open>\<open>body, error = self._read_json_body()\<close> and the early return of the error\<close>
  "with_body cfg call f = (case read_json_body [] (hc_length call) (hc_body call) of
       Inr body \<Rightarrow> f body
     | Inl (status, payload) \<Rightarrow> do {
         uid \<leftarrow> on_redis (draw_uid cfg);
         State_Monad.return (Returned (status, dset payload ''request_id'' (PStr uid))) })"

definition when_mutable :: "server_setup \<Rightarrow> ('r, 'x) handler \<Rightarrow> ('r, 'x) handler" where
  \<comment> \<open>\<open>_ensure_mutation_supported\<close> and its early return\<close>
  "when_mutable sv f =
     (if sv_mutations sv then f
      else refuse (sv_cfg sv) 501 ''STORE_MUTATION_UNAVAILABLE''
        (''write operations are disabled for backend '' @ sv_backend sv))"

definition ends_with :: "string \<Rightarrow> string \<Rightarrow> bool" where
  "ends_with suffix t = (length suffix \<le> length t \<and> drop (length t - length suffix) t = suffix)"

definition path_between :: "string \<Rightarrow> string \<Rightarrow> string \<Rightarrow> string option" where
  \<comment> \<open>what stands between the prefix and the suffix of a path, if anything does\<close>
  "path_between prefix suffix path =
     (if \<not> starts_with prefix path \<or> \<not> ends_with suffix path then None
      else non_blank (take (length path - length suffix - length prefix) (drop (length prefix) path)))"

section \<open>Fields of a body\<close>

type_synonym fields = "(string \<times> string option) list"

definition in_body :: "obj \<Rightarrow> string \<Rightarrow> bool" where
  "in_body body k = (k \<in> set (dkeys body))"

definition unreadable :: "obj \<Rightarrow> fields \<Rightarrow> string list" where
  \<comment> \<open>the fields that are in the body with a value that could not be read\<close>
  "unreadable body fs = map fst (filter (\<lambda>(k, v). in_body body k \<and> v = None) fs)"

definition missing :: "fields \<Rightarrow> string list" where
  "missing fs = map fst (filter (\<lambda>(k, v). v = None \<or> v = Some []) fs)"

definition field :: "fields \<Rightarrow> string \<Rightarrow> string" where
  "field fs k = (case map_of fs k of Some (Some t) \<Rightarrow> t | _ \<Rightarrow> [])"

definition named_if :: "bool \<Rightarrow> string \<Rightarrow> string list" where
  "named_if b k = (if b then [k] else [])"

definition invalid_fields_message :: "string list \<Rightarrow> string" where
  "invalid_fields_message ks = ''invalid fields: '' @ join '', '' (sort (remdups ks))"

definition missing_fields_message :: "string list \<Rightarrow> string" where
  "missing_fields_message ks = ''missing required fields: '' @ join '', '' ks"

definition or_default :: "string option \<Rightarrow> string \<Rightarrow> string" where
  \<comment> \<open>\<open>text or default\<close>\<close>
  "or_default v dflt = (case v of None \<Rightarrow> dflt | Some t \<Rightarrow> if t = [] then dflt else t)"

definition require_fields :: "redis_config \<Rightarrow> string list \<Rightarrow> fields \<Rightarrow> ('r, 'x) handler \<Rightarrow> ('r, 'x) handler" where
  "require_fields cfg invalid fs f =
     (if invalid \<noteq> [] then refuse cfg 400 ''INVALID_REQUEST'' (invalid_fields_message invalid)
      else if missing fs \<noteq> [] then refuse cfg 400 ''INVALID_REQUEST'' (missing_fields_message (missing fs))
      else f)"

definition require_that :: "redis_config \<Rightarrow> bool \<Rightarrow> string \<Rightarrow> ('r, 'x) handler \<Rightarrow> ('r, 'x) handler" where
  "require_that cfg b message f = (if b then f else refuse cfg 400 ''INVALID_REQUEST'' message)"

section \<open>Rows and events\<close>

definition order_row :: "order \<Rightarrow> obj" where
  "order_row x = [(''order_id'', PStr (order_id x)), (''order_intent_id'', PStr (ord_intent_id x)),
     (''bot_id'', PStr (ord_bot_id x)), (''strategy_run_id'', PStr (ord_run_id x)),
     (''exchange_name'', PStr (ord_exchange_name x)), (''exchange_order_id'', opt_str (ord_exchange_order_id x)),
     (''market'', PStr (ord_market x)), (''side'', PStr (ord_side x)), (''requested_price'', opt_str (ord_requested_price x)),
     (''requested_qty'', PStr (ord_requested_qty x)), (''filled_qty'', PStr ''0''), (''avg_fill_price'', PNone),
     (''fee_amount'', PNone), (''status'', PStr (ord_status x)), (''internal_error_code'', PNone),
     (''created_at'', PStr (ord_created_at x)), (''submitted_at'', PStr (ord_submitted_at x)),
     (''updated_at'', PStr (ord_updated_at x)), (''raw_payload'', PDict (ord_raw_payload x))]"

definition fill_row :: "fill \<Rightarrow> obj" where
  "fill_row f = [(''fill_id'', PStr (fill_id f)), (''order_id'', PStr (fl_order_id f)),
     (''order_intent_id'', PStr (fl_intent_id f)), (''bot_id'', PStr (fl_bot_id f)),
     (''strategy_run_id'', PStr (fl_run_id f)), (''exchange_name'', PStr (fl_exchange_name f)),
     (''exchange_trade_id'', opt_str (fl_exchange_trade_id f)), (''market'', PStr (fl_market f)),
     (''side'', PStr (fl_side f)), (''fill_price'', PStr (fl_price f)), (''fill_qty'', PStr (fl_qty f)),
     (''fee_asset'', opt_str (fl_fee_asset f)), (''fee_amount'', opt_str (fl_fee_amount f)),
     (''order_status'', PStr (fl_order_status f)), (''filled_at'', PStr (fl_filled_at f)), (''created_at'', PStr (fl_created_at f))]"

definition picked :: "string list \<Rightarrow> obj \<Rightarrow> obj" where
  \<comment> \<open>some keys of a row, absent ones as null\<close>
  "picked ks row = map (\<lambda>k. (k, pget row k)) ks"

definition intent_event :: "order_intent \<Rightarrow> obj" where
  "intent_event i = picked [''intent_id'', ''bot_id'', ''strategy_run_id'', ''market''] (intent_row i)"

definition order_event :: "order \<Rightarrow> obj" where
  "order_event x = picked [''order_id'', ''order_intent_id'', ''bot_id'', ''exchange_name'', ''status''] (order_row x)"

definition fill_event :: "fill \<Rightarrow> obj" where
  "fill_event f = picked [''fill_id'', ''order_id'', ''order_intent_id'', ''bot_id'', ''exchange_name'', ''order_status''] (fill_row f)"

definition publish_order :: "'r server \<Rightarrow> redis_config \<Rightarrow> http_call \<Rightarrow> string \<Rightarrow> obj \<Rightarrow> ('r, 'x, bool) task" where
  "publish_order exec cfg call event_type payload = on_redis (publish_order_event exec cfg event_type payload (hc_trace_id call))"

section \<open>Creating intents, orders and fills\<close>

definition ORDER_INTENT_STATUSES :: "string list" where
  "ORDER_INTENT_STATUSES = [''created'', ''submitted'', ''cancelled'', ''expired'', ''rejected'', ''simulated'']"

definition ORDER_STATUSES :: "string list" where
  "ORDER_STATUSES = [''new'', ''partially_filled'', ''filled'', ''cancelled'', ''rejected'', ''expired'']"

definition ORDER_SIDES :: "string list" where
  "ORDER_SIDES = [''buy'', ''sell'']"

definition order_ops_of :: "redis_config \<Rightarrow> mem order_ops" where
  "order_ops_of cfg = mem_ops (rc_uid cfg) (rc_now cfg)"

definition intent_fields :: "obj \<Rightarrow> fields" where
  "intent_fields body = [(''strategy_run_id'', json_string (pget body ''strategy_run_id'')), (''market'', json_string (pget body ''market'')),
     (''buy_exchange'', json_string (pget body ''buy_exchange'')), (''sell_exchange'', json_string (pget body ''sell_exchange'')),
     (''side_pair'', json_string (pget body ''side_pair'')), (''target_qty'', json_number_text (pget body ''target_qty''))]"

definition intent_status :: "obj \<Rightarrow> string" where
  "intent_status body = or_default (json_string (pget body ''status'')) ''created''"

definition invalid_intent_fields :: "obj \<Rightarrow> string list" where
  "invalid_intent_fields body = unreadable body (intent_fields body)
     @ unreadable body [(''expected_profit'', json_number_text (pget body ''expected_profit'')),
         (''expected_profit_ratio'', json_number_text (pget body ''expected_profit_ratio''))]
     @ named_if (in_body body ''decision_context'' \<and> optional_object (pget body ''decision_context'') = None) ''decision_context''
     @ named_if (in_body body ''status'' \<and> intent_status body \<notin> set ORDER_INTENT_STATUSES) ''status''"

definition intent_args_of_body :: "obj \<Rightarrow> intent_args" where
  "intent_args_of_body body = (let fs = intent_fields body in
     \<lparr>ia_run_id = field fs ''strategy_run_id'', ia_market = field fs ''market'', ia_buy_exchange = field fs ''buy_exchange'',
      ia_sell_exchange = field fs ''sell_exchange'', ia_side_pair = field fs ''side_pair'', ia_target_qty = field fs ''target_qty'',
      ia_expected_profit = json_number_text (pget body ''expected_profit''),
      ia_expected_profit_ratio = json_number_text (pget body ''expected_profit_ratio''),
      ia_status = intent_status body, ia_decision_context = optional_object (pget body ''decision_context'')\<rparr>)"

definition create_order_intent_response :: "'r server \<Rightarrow> server_setup \<Rightarrow> http_call \<Rightarrow> ('r, 'x) handler" where
  "create_order_intent_response exec sv call = (let cfg = sv_cfg sv in
     when_mutable sv (with_body cfg call (\<lambda>body.
     require_fields cfg (invalid_intent_fields body) (intent_fields body)
    (require_that cfg (is_positive_number_text (field (intent_fields body) ''target_qty'')) ''target_qty must be a positive number'' (do {
       r \<leftarrow> on_store (op_create_intent (order_ops_of cfg) (intent_args_of_body body));
       (case r of
          (Created, Some i) \<Rightarrow> do {
            _ \<leftarrow> publish_order exec cfg call ''order_intent.created'' (intent_event i);
            respond cfg 201 (PDict (intent_row i)) }
        | _ \<Rightarrow> refuse cfg 404 ''STRATEGY_RUN_NOT_FOUND'' ''strategy_run_id not found'') })))))"

definition order_fields :: "obj \<Rightarrow> fields" where
  "order_fields body = [(''order_intent_id'', json_string (pget body ''order_intent_id'')), (''exchange_name'', json_string (pget body ''exchange_name'')),
     (''market'', json_string (pget body ''market'')), (''side'', json_string (pget body ''side'')),
     (''requested_qty'', json_number_text (pget body ''requested_qty''))]"

definition order_status_of_body :: "obj \<Rightarrow> string" where
  "order_status_of_body body = or_default (json_string (pget body ''status'')) ''new''"

definition invalid_order_fields :: "fields \<Rightarrow> obj \<Rightarrow> string list" where
  "invalid_order_fields fs body = unreadable body fs
     @ unreadable body [(''exchange_order_id'', json_string (pget body ''exchange_order_id'')),
         (''requested_price'', json_number_text (pget body ''requested_price''))]
     @ named_if (in_body body ''raw_payload'' \<and> optional_object (pget body ''raw_payload'') = None) ''raw_payload''
     @ named_if (in_body body ''status'' \<and> order_status_of_body body \<notin> set ORDER_STATUSES) ''status''
     @ named_if (map_of fs ''side'' \<noteq> Some None \<and> field fs ''side'' \<notin> set ORDER_SIDES) ''side''"

definition price_ok :: "obj \<Rightarrow> bool" where
  "price_ok body = (case json_number_text (pget body ''requested_price'') of None \<Rightarrow> True | Some p \<Rightarrow> is_positive_number_text p)"

definition order_args_of_body :: "string \<Rightarrow> fields \<Rightarrow> obj \<Rightarrow> order_args" where
  "order_args_of_body intent fs body =
     \<lparr>oa_intent_id = intent, oa_exchange_name = field fs ''exchange_name'',
      oa_exchange_order_id = json_string (pget body ''exchange_order_id''), oa_market = field fs ''market'',
      oa_side = field fs ''side'', oa_requested_price = json_number_text (pget body ''requested_price''),
      oa_requested_qty = field fs ''requested_qty'', oa_status = order_status_of_body body,
      oa_raw_payload = optional_object (pget body ''raw_payload'')\<rparr>"

definition require_order_numbers :: "redis_config \<Rightarrow> fields \<Rightarrow> obj \<Rightarrow> ('r, 'x) handler \<Rightarrow> ('r, 'x) handler" where
  "require_order_numbers cfg fs body f =
     require_that cfg (is_positive_number_text (field fs ''requested_qty'')) ''requested_qty must be a positive number''
    (require_that cfg (price_ok body) ''requested_price must be a positive number'' f)"

definition create_order_response :: "'r server \<Rightarrow> server_setup \<Rightarrow> http_call \<Rightarrow> ('r, 'x) handler" where
  "create_order_response exec sv call = (let cfg = sv_cfg sv in
     when_mutable sv (with_body cfg call (\<lambda>body. let fs = order_fields body in
     require_fields cfg (invalid_order_fields fs body) fs (require_order_numbers cfg fs body (do {
       r \<leftarrow> on_store (op_create_order (order_ops_of cfg) (order_args_of_body (field fs ''order_intent_id'') fs body));
       (case r of
          (NotFound, _) \<Rightarrow> refuse cfg 404 ''ORDER_INTENT_NOT_FOUND'' ''order_intent_id not found''
        | (Conflict, _) \<Rightarrow> refuse cfg 409 ''ORDER_CONFLICT'' ''exchange_name and exchange_order_id already exist''
        | (Invalid, _) \<Rightarrow> refuse cfg 422 ''ORDER_VALIDATION_FAILED'' ''market or exchange_name does not match order_intent''
        | (_, Some x) \<Rightarrow> do {
            _ \<leftarrow> publish_order exec cfg call ''order.created'' (order_event x);
            respond cfg 201 (PDict (order_row x)) }
        | (_, None) \<Rightarrow> State_Monad.return (Raised (TypeError ''NoneType''))) })))))"

definition fill_fields :: "obj \<Rightarrow> fields" where
  "fill_fields body = [(''order_id'', json_string (pget body ''order_id'')), (''fill_price'', json_number_text (pget body ''fill_price'')),
     (''fill_qty'', json_number_text (pget body ''fill_qty'')), (''filled_at'', json_datetime_text (pget body ''filled_at''))]"

definition optional_fill_fields :: "obj \<Rightarrow> fields" where
  "optional_fill_fields body = [(''exchange_trade_id'', json_string (pget body ''exchange_trade_id'')),
     (''fee_asset'', json_string (pget body ''fee_asset'')), (''fee_amount'', json_number_text (pget body ''fee_amount''))]"

definition fill_args_of_body :: "string \<Rightarrow> fields \<Rightarrow> obj \<Rightarrow> fill_args" where
  "fill_args_of_body oid fs body =
     \<lparr>fa_order_id = oid, fa_exchange_trade_id = json_string (pget body ''exchange_trade_id''),
      fa_price = field fs ''fill_price'', fa_qty = field fs ''fill_qty'', fa_fee_asset = json_string (pget body ''fee_asset''),
      fa_fee_amount = json_number_text (pget body ''fee_amount''), fa_filled_at = field fs ''filled_at''\<rparr>"

definition require_fill_numbers :: "redis_config \<Rightarrow> fields \<Rightarrow> obj \<Rightarrow> ('r, 'x) handler \<Rightarrow> ('r, 'x) handler" where
  "require_fill_numbers cfg fs body f =
     require_that cfg (is_positive_number_text (field fs ''fill_price'')) ''fill_price must be a positive number''
    (require_that cfg (is_positive_number_text (field fs ''fill_qty'')) ''fill_qty must be a positive number''
    (require_that cfg (case json_number_text (pget body ''fee_amount'') of None \<Rightarrow> True | Some t \<Rightarrow> is_nonnegative_number_text t)
       ''fee_amount must be a non-negative number'' f))"

definition answer_fill :: "redis_config \<Rightarrow> string \<Rightarrow> (outcome \<times> fill option) res \<Rightarrow> (fill \<Rightarrow> ('r, 'x) handler) \<Rightarrow> ('r, 'x) handler" where
  \<comment> \<open>the answer to each outcome of \<open>create_fill\<close>\<close>
  "answer_fill cfg not_found r f = (case r of
      Inl e \<Rightarrow> State_Monad.return (Raised e)
    | Inr (NotFound, _) \<Rightarrow> refuse cfg 404 ''ORDER_NOT_FOUND'' not_found
    | Inr (Conflict, _) \<Rightarrow> refuse cfg 409 ''FILL_CONFLICT'' ''exchange_trade_id already exists for order''
    | Inr (Invalid, _) \<Rightarrow> refuse cfg 422 ''FILL_VALIDATION_FAILED'' ''fill exceeds requested quantity or order is already terminal''
    | Inr (_, Some x) \<Rightarrow> f x
    | Inr (_, None) \<Rightarrow> State_Monad.return (Raised (TypeError ''NoneType'')))"

definition create_fill_response :: "'r server \<Rightarrow> server_setup \<Rightarrow> http_call \<Rightarrow> ('r, 'x) handler" where
  "create_fill_response exec sv call = (let cfg = sv_cfg sv in
     when_mutable sv (with_body cfg call (\<lambda>body. let fs = fill_fields body in
     require_fields cfg (unreadable body fs @ unreadable body (optional_fill_fields body)) fs (require_fill_numbers cfg fs body (do {
       r \<leftarrow> on_store (op_create_fill (order_ops_of cfg) (fill_args_of_body (field fs ''order_id'') fs body));
       answer_fill cfg ''order_id not found'' r (\<lambda>x. do {
         _ \<leftarrow> publish_order exec cfg call ''fill.created'' (fill_event x);
         respond cfg 201 (PDict (fill_row x)) }) })))))"

end
