(* ===== verification/RecoveryHandlers.thy ===== *)
theory RecoveryHandlers
  imports Requests RecoveryRuntime PrivateExchange
begin

text \<open>
  \<open>route_handlers_recovery_write.py\<close>: what an operator can do to a recovery trace. A handler works on the
  state of the recovery runtime (Redis, the store, the counters of the loop), because three of them run
  a tick of the recovery loop before they answer. The private connectors that cancel orders are given by
  what they answer to an order identifier and a market.
\<close>

section \<open>Values of a body\<close>

definition unique_string_list :: "pyval \<Rightarrow> string list option" where
  "unique_string_list v = (case (json_string_list v, v) of
      (Some ts, PList xs) \<Rightarrow> if length ts = length xs then Some ts else None
    | _ \<Rightarrow> None)"

fun body_balances :: "(string \<times> string) list \<Rightarrow> pyval list \<Rightarrow> obj list option" where
  \<comment> \<open>the balances from here on, those of the first argument having been seen\<close>
  "body_balances seen [] = Some []"
| "body_balances seen (PDict d # xs) =
     (case (json_string (pget d ''exchange_name''), json_string (pget d ''asset''),
            json_number_text (pget d ''free''), json_number_text (pget d ''locked'')) of
        (Some e, Some a, Some free, Some held) \<Rightarrow>
          (let exchange = strip e; asset = upper (strip a) in
           if \<not> is_nonnegative_number_text free \<or> \<not> is_nonnegative_number_text held \<or> exchange = [] \<or> asset = []
             \<or> (exchange, asset) \<in> set seen then None
           else map_option ((#) [(''exchange_name'', PStr exchange), (''asset'', PStr asset), (''free'', PStr free), (''locked'', PStr held)])
             (body_balances ((exchange, asset) # seen) xs))
      | _ \<Rightarrow> None)"
| "body_balances seen (_ # xs) = None"

fun body_order_statuses :: "string list \<Rightarrow> pyval list \<Rightarrow> obj list option" where
  "body_order_statuses seen [] = Some []"
| "body_order_statuses seen (PDict d # xs) =
     (case (json_string (pget d ''order_id''), json_string (pget d ''status'')) of
        (Some i, Some st) \<Rightarrow>
          (let oid = strip i; status = lower (strip st) in
           if oid = [] \<or> status = [] \<or> oid \<in> set seen then None
           else map_option ((#) [(''order_id'', PStr oid), (''status'', PStr status)]) (body_order_statuses (oid # seen) xs))
      | _ \<Rightarrow> None)"
| "body_order_statuses seen (_ # xs) = None"

definition read_list :: "(pyval list \<Rightarrow> obj list option) \<Rightarrow> pyval \<Rightarrow> obj list option" where
  "read_list f v = (case v of PList xs \<Rightarrow> f xs | _ \<Rightarrow> None)"

definition is_zero_number_text :: "string option \<Rightarrow> bool" where
  "is_zero_number_text v = (case v of None \<Rightarrow> False | Some t \<Rightarrow>
     (case dparse t of None \<Rightarrow> False | Some d \<Rightarrow> deq d (Dec 0 0)))"

definition opt_body_text :: "obj \<Rightarrow> string \<Rightarrow> pyval" where
  "opt_body_text body k = opt_str (optional_string (pget body k))"

definition opt_object :: "obj \<Rightarrow> string \<Rightarrow> pyval" where
  "opt_object body k = (case optional_object (pget body k) of None \<Rightarrow> PNone | Some d \<Rightarrow> PDict d)"

definition text_or_default :: "obj \<Rightarrow> string \<Rightarrow> string \<Rightarrow> pyval" where
  "text_or_default body k dflt = PStr (or_default (optional_string (pget body k)) dflt)"

definition linked_id :: "obj \<Rightarrow> string \<Rightarrow> string" where
  \<comment> \<open>\<open>optional_string(trace.get(key))\<close>, where absent and empty are the same to the caller\<close>
  "linked_id trace k = given_text (optional_string (pget trace k))"

section \<open>Guards\<close>

type_synonym 'r recovery_handler = "('r, response run) recovery"

definition when_redis :: "redis_config \<Rightarrow> ('r, 'x) handler \<Rightarrow> ('r, 'x) handler" where
  "when_redis cfg f = (if info_enabled cfg then f
     else refuse cfg 503 ''REDIS_RUNTIME_UNAVAILABLE'' ''redis runtime is not enabled'')"

definition with_optional_body :: "redis_config \<Rightarrow> http_call \<Rightarrow> (obj \<Rightarrow> ('r, 'x) handler) \<Rightarrow> ('r, 'x) handler" where
  "with_optional_body cfg call f = (if hc_length call \<in> {None, Some []} then f [] else with_body cfg call f)"

definition trace_not_found :: "redis_config \<Rightarrow> ('r, 'x) handler" where
  "trace_not_found cfg = refuse cfg 404 ''RECOVERY_TRACE_NOT_FOUND'' ''recovery_trace_id not found''"

definition trace_terminal :: "redis_config \<Rightarrow> ('r, 'x) handler" where
  "trace_terminal cfg = refuse cfg 409 ''RECOVERY_TRACE_TERMINAL'' ''recovery trace is already terminal''"

definition with_trace :: "'r server \<Rightarrow> redis_config \<Rightarrow> string \<Rightarrow> (obj \<Rightarrow> ('r, 'x) handler) \<Rightarrow> ('r, 'x) handler" where
  "with_trace exec cfg tid f = do {
     found \<leftarrow> on_redis (get_recovery_trace exec cfg tid);
     (case found of None \<Rightarrow> trace_not_found cfg | Some current \<Rightarrow> f current) }"

definition with_open_trace :: "'r server \<Rightarrow> redis_config \<Rightarrow> string \<Rightarrow> (obj \<Rightarrow> ('r, 'x) handler) \<Rightarrow> ('r, 'x) handler" where
  "with_open_trace exec cfg tid f = with_trace exec cfg tid (\<lambda>current.
     if low_text current ''status'' \<in> {''resolved'', ''cancelled''} then trace_terminal cfg else f current)"

definition with_moved_trace :: "redis_config \<Rightarrow> obj option \<Rightarrow> (obj \<Rightarrow> ('r, 'x) handler) \<Rightarrow> ('r, 'x) handler" where
  \<comment> \<open>the answers to what a transition returned\<close>
  "with_moved_trace cfg moved f = (case moved of
      None \<Rightarrow> trace_not_found cfg
    | Some t \<Rightarrow> if pget t ''_conflict'' = PStr ''terminal'' then trace_terminal cfg else f t)"

definition conflict_if :: "redis_config \<Rightarrow> bool \<Rightarrow> string \<Rightarrow> string \<Rightarrow> ('r, 'x) handler \<Rightarrow> ('r, 'x) handler" where
  "conflict_if cfg b code message f = (if b then refuse cfg 409 code message else f)"

section \<open>Resolve, hand off\<close>

definition resolve_patch :: "obj \<Rightarrow> string option \<Rightarrow> string \<Rightarrow> obj" where
  "resolve_patch body exposure ts = [(''manual_handoff_required'', PBool False), (''residual_exposure_quote'', opt_str exposure),
     (''resolution_reason'', text_or_default body ''resolution_reason'' ''operator_resolved''),
     (''verified_by'', opt_body_text body ''verified_by''), (''summary'', opt_body_text body ''summary''), (''closed_at'', PStr ts)]"

definition effective_residual :: "obj \<Rightarrow> obj \<Rightarrow> string option" where
  "effective_residual body current = (case json_number_text (pget body ''residual_exposure_quote'') of
      None \<Rightarrow> optional_string (pget current ''residual_exposure_quote'') | Some t \<Rightarrow> Some t)"

definition resolve_recovery_trace_response :: "'r server \<Rightarrow> redis_config \<Rightarrow> string \<Rightarrow> http_call \<Rightarrow> ('r, 'x) handler" where
  "resolve_recovery_trace_response exec cfg tid call =
     when_redis cfg (with_optional_body cfg call (\<lambda>body.
     require_that cfg (\<not> (in_body body ''residual_exposure_quote'' \<and> json_number_text (pget body ''residual_exposure_quote'') = None))
       ''residual_exposure_quote must be a finite number''
    (with_trace exec cfg tid (\<lambda>current.
     conflict_if cfg (\<not> is_zero_number_text (effective_residual body current)) ''RECOVERY_TRACE_RESIDUAL_EXPOSURE_ACTIVE''
       ''recovery trace cannot be resolved while residual exposure remains'' (do {
       ts \<leftarrow> on_redis (draw_now cfg);
       moved \<leftarrow> on_redis (transition_recovery_trace exec cfg tid ''resolved'' ''closed''
         (Some (resolve_patch body (effective_residual body current) ts)) (hc_trace_id call)
         (Some ''strategy.recovery_trace.resolved_by_operator''));
       with_moved_trace cfg moved (\<lambda>t. respond cfg 200 (PDict t)) })))))"

definition handoff_patch :: "obj \<Rightarrow> obj" where
  "handoff_patch body = [(''manual_handoff_required'', PBool True), (''incident_code'', PStr ''ARB-302 MANUAL_HANDOFF_REQUIRED''),
     (''handoff_reason'', text_or_default body ''handoff_reason'' ''operator_requested''),
     (''verified_by'', opt_body_text body ''verified_by''), (''summary'', opt_body_text body ''summary''),
     (''operator_context'', opt_object body ''operator_context'')]"

definition handoff_recovery_trace_response :: "'r server \<Rightarrow> redis_config \<Rightarrow> string \<Rightarrow> http_call \<Rightarrow> ('r, 'x) handler" where
  "handoff_recovery_trace_response exec cfg tid call =
     when_redis cfg (with_optional_body cfg call (\<lambda>body. do {
       moved \<leftarrow> on_redis (transition_recovery_trace exec cfg tid ''handoff_required'' ''manual_handoff''
         (Some (handoff_patch body)) (hc_trace_id call) (Some ''strategy.recovery_trace.handoff_requested''));
       with_moved_trace cfg moved (\<lambda>t. respond cfg 200 (PDict t)) }))"

section \<open>Start an unwind\<close>

definition unwind_fields :: "obj \<Rightarrow> fields" where
  "unwind_fields body = [(''market'', json_string (pget body ''market'')), (''buy_exchange'', json_string (pget body ''buy_exchange'')),
     (''sell_exchange'', json_string (pget body ''sell_exchange'')), (''side_pair'', json_string (pget body ''side_pair'')),
     (''target_qty'', json_number_text (pget body ''target_qty''))]"

definition unwind_problem :: "obj \<Rightarrow> string option" where
  "unwind_problem body =
     (let fs = unwind_fields body;
          parts = (if unreadable body fs = [] then [] else [invalid_fields_message (unreadable body fs)])
            @ (if missing fs = [] then [] else [missing_fields_message (missing fs)])
      in if parts = [] then None else Some (join ''; '' parts))"

definition unwind_intent_args :: "string \<Rightarrow> string \<Rightarrow> obj \<Rightarrow> intent_args" where
  "unwind_intent_args tid rid body = (let fs = unwind_fields body in
     \<lparr>ia_run_id = rid, ia_market = field fs ''market'', ia_buy_exchange = field fs ''buy_exchange'',
      ia_sell_exchange = field fs ''sell_exchange'', ia_side_pair = field fs ''side_pair'', ia_target_qty = field fs ''target_qty'',
      ia_expected_profit = None, ia_expected_profit_ratio = None, ia_status = ''created'',
      ia_decision_context = Some [(''recovery_action'', PStr ''manual_unwind''), (''recovery_trace_id'', PStr tid),
        (''operator_requested'', PBool True),
        (''operator_context'', PDict (case optional_object (pget body ''operator_context'') of None \<Rightarrow> [] | Some d \<Rightarrow> d))]\<rparr>)"

definition with_unwind_intent ::
    "server_setup \<Rightarrow> string \<Rightarrow> obj \<Rightarrow> obj \<Rightarrow> (order_intent option \<Rightarrow> ('r, 'x) handler) \<Rightarrow> ('r, 'x) handler" where
  \<comment> \<open>the intent of the unwind, created when the body asks for it\<close>
  "with_unwind_intent sv tid body current f = (let cfg = sv_cfg sv in
     if optional_bool (optional_string (pget body ''create_unwind_intent'')) \<noteq> Some True then f None
     else when_mutable sv
      (conflict_if cfg (linked_id current ''linked_unwind_action_id'' \<noteq> []) ''RECOVERY_TRACE_UNWIND_INTENT_EXISTS''
         ''recovery trace already has a linked unwind action''
      (require_that cfg (unwind_problem body = None) (given_text (unwind_problem body))
      (require_that cfg (is_positive_number_text (field (unwind_fields body) ''target_qty'')) ''target_qty must be a positive number''
      (conflict_if cfg (linked_id current ''run_id'' = []) ''RECOVERY_TRACE_RUN_ID_MISSING''
         ''recovery trace does not have a strategy run id'' (do {
         r \<leftarrow> on_store (op_create_intent (order_ops_of cfg) (unwind_intent_args tid (linked_id current ''run_id'') body));
         (case r of
            (Created, Some i) \<Rightarrow> f (Some i)
          | _ \<Rightarrow> refuse cfg 409 ''RECOVERY_TRACE_UNWIND_INTENT_CREATE_FAILED'' ''failed to create linked unwind intent'') }))))))"

definition unwind_patch :: "obj \<Rightarrow> order_intent option \<Rightarrow> string \<Rightarrow> obj" where
  "unwind_patch body i ts = dmerge
     (case i of None \<Rightarrow> [] | Some x \<Rightarrow> [(''linked_unwind_action_id'', PStr (intent_id x)), (''linked_unwind_intent_id'', PStr (intent_id x))])
     [(''manual_handoff_required'', PBool False), (''incident_code'', PStr ''ARB-202 UNWIND_IN_PROGRESS''),
      (''unwind_reason'', text_or_default body ''unwind_reason'' ''operator_requested''),
      (''verified_by'', opt_body_text body ''verified_by''), (''summary'', opt_body_text body ''summary''),
      (''operator_context'', opt_object body ''operator_context''),
      (''residual_exposure_quote'', opt_str (json_number_text (pget body ''residual_exposure_quote''))),
      (''unwind_started_at'', PStr ts)]"

definition residual_readable :: "obj \<Rightarrow> bool" where
  "residual_readable body = (in_body body ''residual_exposure_quote'' \<longrightarrow>
     (case json_number_text (pget body ''residual_exposure_quote'') of None \<Rightarrow> False | Some t \<Rightarrow> is_nonnegative_number_text t))"

definition start_unwind_recovery_trace_response :: "'r server \<Rightarrow> server_setup \<Rightarrow> string \<Rightarrow> http_call \<Rightarrow> ('r, 'x) handler" where
  "start_unwind_recovery_trace_response exec sv tid call = (let cfg = sv_cfg sv in
     when_redis cfg (with_optional_body cfg call (\<lambda>body.
     require_that cfg (\<not> (in_body body ''create_unwind_intent''
         \<and> optional_bool (optional_string (pget body ''create_unwind_intent'')) = None)) ''create_unwind_intent must be true or false''
    (require_that cfg (residual_readable body) ''residual_exposure_quote must be a finite non-negative number''
    (with_open_trace exec cfg tid (\<lambda>current.
     with_unwind_intent sv tid body current (\<lambda>i. do {
       ts \<leftarrow> on_redis (draw_now cfg);
       moved \<leftarrow> on_redis (transition_recovery_trace exec cfg tid ''active'' ''unwind_in_progress''
         (Some (unwind_patch body i ts)) (hc_trace_id call) (Some ''strategy.recovery_trace.unwind_started''));
       with_moved_trace cfg moved (\<lambda>t. case i of
           None \<Rightarrow> respond cfg 200 (PDict t)
         | Some x \<Rightarrow> do {
             _ \<leftarrow> publish_order exec cfg call ''order_intent.created'' (intent_event x);
             respond cfg 200 (PDict (dset t ''created_unwind_intent'' (PDict (intent_row x)))) }) })))))))"

section \<open>Submit the order of an unwind\<close>

definition unwind_order_fields :: "obj \<Rightarrow> fields" where
  "unwind_order_fields body = [(''exchange_name'', json_string (pget body ''exchange_name'')), (''market'', json_string (pget body ''market'')),
     (''side'', json_string (pget body ''side'')), (''requested_qty'', json_number_text (pget body ''requested_qty''))]"

definition unwind_order_patch :: "order \<Rightarrow> string \<Rightarrow> obj" where
  "unwind_order_patch x ts = [(''linked_unwind_order_id'', PStr (order_id x)), (''unwind_order_created_at'', PStr ts)]"

definition link_unwind_order :: "'r server \<Rightarrow> redis_config \<Rightarrow> string \<Rightarrow> http_call \<Rightarrow> order \<Rightarrow> ('r, 'x) handler" where
  \<comment> \<open>once the order is stored: the trace is moved, whatever the transition says but that the trace is gone\<close>
  "link_unwind_order exec cfg tid call x = do {
     ts \<leftarrow> on_redis (draw_now cfg);
     moved \<leftarrow> on_redis (transition_recovery_trace exec cfg tid ''active'' ''unwind_in_progress''
       (Some (unwind_order_patch x ts)) (hc_trace_id call) (Some ''strategy.recovery_trace.unwind_order_created''));
     (case moved of
        None \<Rightarrow> trace_not_found cfg
      | Some t \<Rightarrow> do {
          _ \<leftarrow> publish_order exec cfg call ''order.created'' (order_event x);
          respond cfg 201 (PDict (dset t ''created_unwind_order'' (PDict (order_row x)))) }) }"

definition submit_unwind_order_response :: "'r server \<Rightarrow> server_setup \<Rightarrow> string \<Rightarrow> http_call \<Rightarrow> ('r, 'x) handler" where
  "submit_unwind_order_response exec sv tid call = (let cfg = sv_cfg sv in
     when_mutable sv (when_redis cfg (with_body cfg call (\<lambda>body.
     with_open_trace exec cfg tid (\<lambda>current. let fs = unwind_order_fields body in
     conflict_if cfg (linked_id current ''linked_unwind_action_id'' = []) ''RECOVERY_TRACE_UNWIND_INTENT_MISSING''
       ''recovery trace does not have a linked unwind intent''
    (conflict_if cfg (linked_id current ''linked_unwind_order_id'' \<noteq> []) ''RECOVERY_TRACE_UNWIND_ORDER_EXISTS''
       ''recovery trace already has a linked unwind order''
    (require_fields cfg (invalid_order_fields fs body) fs (require_order_numbers cfg fs body (do {
       r \<leftarrow> on_store (op_create_order (order_ops_of cfg)
         (order_args_of_body (linked_id current ''linked_unwind_action_id'') fs body));
       (case r of
          (NotFound, _) \<Rightarrow> refuse cfg 404 ''ORDER_INTENT_NOT_FOUND'' ''linked unwind intent not found''
        | (Conflict, _) \<Rightarrow> refuse cfg 409 ''ORDER_CONFLICT'' ''exchange_name and exchange_order_id already exist''
        | (Invalid, _) \<Rightarrow> refuse cfg 422 ''ORDER_VALIDATION_FAILED'' ''market or exchange_name does not match linked unwind intent''
        | (_, Some x) \<Rightarrow> link_unwind_order exec cfg tid call x
        | (_, None) \<Rightarrow> State_Monad.return (Raised (TypeError ''NoneType''))) })))))))))"

section \<open>Cancel open orders\<close>

definition cancel_intents :: "obj \<Rightarrow> string list" where
  "cancel_intents trace = remdups (filter (\<lambda>t. t \<noteq> []) [linked_id trace ''intent_id'', linked_id trace ''linked_unwind_action_id''])"

definition CLOSED_ORDER_STATUSES :: "string list" where
  "CLOSED_ORDER_STATUSES = [''filled'', ''cancelled'', ''rejected'', ''expired'']"

definition cancel_candidate :: "obj \<Rightarrow> order \<Rightarrow> bool" where
  "cancel_candidate trace x =
     (order_id x \<noteq> [] \<and> (ord_intent_id x \<in> set (cancel_intents trace)
        \<or> (linked_id trace ''linked_unwind_order_id'' \<noteq> [] \<and> order_id x = linked_id trace ''linked_unwind_order_id''))
      \<and> lower (strip (ord_status x)) \<notin> set CLOSED_ORDER_STATUSES)"

fun first_of_each :: "string list \<Rightarrow> order list \<Rightarrow> order list" where
  \<comment> \<open>the orders whose identifier has not been seen\<close>
  "first_of_each seen [] = []"
| "first_of_each seen (x # xs) = (if order_id x \<in> set seen then first_of_each seen xs else x # first_of_each (order_id x # seen) xs)"

definition trace_cancel_candidate_orders :: "obj \<Rightarrow> store \<Rightarrow> order list res" where
  "trace_cancel_candidate_orders trace s =
     (if cancel_intents trace = [] \<and> linked_id trace ''linked_unwind_order_id'' = [] then Inr []
      else andThen (orders_of s (linked_id trace ''bot_id'') (linked_id trace ''run_id''))
        (\<lambda>vs. Inr (first_of_each [] (filter (cancel_candidate trace) (map ov_order vs)))))"

type_synonym cancels = "(string, string \<Rightarrow> string \<Rightarrow> exchange_result res) dict"

definition cancel_entry :: "order \<Rightarrow> string \<Rightarrow> (string \<times> pyval) list \<Rightarrow> obj" where
  "cancel_entry x result extra = [(''order_id'', PStr (order_id x)), (''exchange_name'', PStr (ord_exchange_name x)),
     (''exchange_order_id'', (case ord_exchange_order_id x of None \<Rightarrow> PNone | Some e \<Rightarrow> if e = [] then PNone else PStr e)),
     (''result'', PStr result)] @ extra"

definition cancel_failed :: "order \<Rightarrow> string \<Rightarrow> string \<Rightarrow> (string \<times> pyval) list \<Rightarrow> obj" where
  "cancel_failed x code message extra =
     cancel_entry x ''failed'' ([(''error_code'', PStr code), (''message'', PStr message)] @ extra)"

definition seen_status :: "order \<Rightarrow> string \<Rightarrow> (string \<times> pyval) list" where
  "seen_status x status = [(''observed_status'', if status = [] then PNone
     else PDict [(''order_id'', PStr (order_id x)), (''status'', PStr status)])]"

definition cancelled_locally :: "order \<Rightarrow> string \<Rightarrow> outcome \<Rightarrow> order option \<Rightarrow> obj" where
  \<comment> \<open>the entry for what \<open>update_order_status\<close> returned\<close>
  "cancelled_locally x status oc updated = (case oc of
      NotFound \<Rightarrow> cancel_failed x ''ORDER_NOT_FOUND'' ''order_id not found while updating local status'' (seen_status x status)
    | Invalid \<Rightarrow> cancel_failed x ''ORDER_STATUS_INVALID'' (''unsupported local order status: '' @ status) (seen_status x status)
    | Conflict \<Rightarrow> cancel_failed x ''ORDER_STATUS_CONFLICT'' ''local order is already terminal with a different status'' (seen_status x status)
    | _ \<Rightarrow> cancel_entry x (if status = ''cancelled'' then ''cancelled'' else ''terminal'')
        (seen_status x status @ [(''updated_order'', case updated of None \<Rightarrow> PNone | Some y \<Rightarrow> PDict (order_row y))]))"

definition set_order_status :: "redis_config \<Rightarrow> string \<Rightarrow> string \<Rightarrow> ('r, 'x, outcome \<times> order option) task" where
  "set_order_status cfg oid status = do {
     ts \<leftarrow> on_redis (draw_now cfg);
     State (\<lambda>s. case update_order_status ts oid status (pf_store s) of (st, oc, x) \<Rightarrow> ((oc, x), s\<lparr>pf_store := st\<rparr>)) }"

definition cancel_answer :: "redis_config \<Rightarrow> order \<Rightarrow> exchange_result \<Rightarrow> ('r, 'x, obj run) task" where
  "cancel_answer cfg x r = (case (px_outcome r = ''ok'', px_data r) of
      (True, PDict data) \<Rightarrow>
        (let status = lower (strip (given_text (optional_string (pget data ''status'')))) in
         if status \<notin> {''cancelled'', ''partially_filled'', ''filled'', ''rejected'', ''expired''}
         then State_Monad.return (Returned (cancel_failed x ''CANCEL_NOT_CONFIRMED''
           ''exchange cancel response did not confirm a terminal order state'' (seen_status x status)))
         else if status \<in> {''filled'', ''partially_filled''}
         then State_Monad.return (Returned (cancel_failed x ''CANCEL_REQUIRES_RECONCILIATION''
           ''cancel response indicates fill activity; wait for reconciliation evidence before changing local order state''
           (seen_status x status)))
         else do {
           u \<leftarrow> set_order_status cfg (order_id x) status;
           State_Monad.return (Returned (cancelled_locally x status (fst u) (snd u))) })
    | _ \<Rightarrow> State_Monad.return (Returned (cancel_failed x (or_default (px_error_code r) ''CANCEL_REQUEST_FAILED'')
        (or_default (px_reason r) ''cancel request failed'') [])))"

definition cancel_trace_order :: "redis_config \<Rightarrow> cancels \<Rightarrow> order \<Rightarrow> ('r, 'x, obj run) task" where
  "cancel_trace_order cfg cs x =
     (let eid = given_text (ord_exchange_order_id x) in
      if eid = [] then State_Monad.return (Returned (cancel_entry x ''skipped''
        [(''error_code'', PStr ''EXCHANGE_ORDER_ID_MISSING''), (''message'', PStr ''order is missing exchange_order_id'')]))
      else if ord_market x = [] then State_Monad.return (Returned (cancel_failed x ''ORDER_MARKET_MISSING'' ''order is missing market'' []))
      else (case map_of cs (ord_exchange_name x) of
          None \<Rightarrow> State_Monad.return (Returned (cancel_failed x ''PRIVATE_CONNECTOR_UNAVAILABLE''
            (''private connector is unavailable for exchange='' @ ord_exchange_name x) []))
        | Some cancel \<Rightarrow> (case cancel eid (ord_market x) of
              Inl e \<Rightarrow> State_Monad.return (Raised e)
            | Inr r \<Rightarrow> cancel_answer cfg x r)))"

fun cancel_orders :: "'r server \<Rightarrow> redis_config \<Rightarrow> cancels \<Rightarrow> http_call \<Rightarrow> order list \<Rightarrow> ('r, 'x, obj list run) task" where
  \<comment> \<open>each order in turn, with the event of its update\<close>
  "cancel_orders exec cfg cs call [] = State_Monad.return (Returned [])"
| "cancel_orders exec cfg cs call (x # xs) =
     and_then (cancel_trace_order cfg cs x) (\<lambda>r. do {
       _ \<leftarrow> (case pget r ''updated_order'' of
           PDict row \<Rightarrow> publish_order exec cfg call ''order.updated''
             (picked [''order_id'', ''order_intent_id'', ''bot_id'', ''exchange_name'', ''status''] row)
         | _ \<Rightarrow> State_Monad.return False);
       and_then (cancel_orders exec cfg cs call xs) (\<lambda>rs. State_Monad.return (Returned (r # rs))) })"

definition ids_with :: "(string \<Rightarrow> bool) \<Rightarrow> obj list \<Rightarrow> pyval" where
  \<comment> \<open>the identifiers of the entries whose kind of result satisfies the predicate\<close>
  "ids_with P rs = PList (map PStr (filter (\<lambda>t. t \<noteq> []) (map (\<lambda>r. linked_id r ''order_id'') (filter (\<lambda>r. P (low_text r ''result'')) rs))))"

definition statuses_seen :: "obj list \<Rightarrow> obj list" where
  "statuses_seen rs = concat (map (\<lambda>r. case pget r ''observed_status'' of
      PDict d \<Rightarrow> (case body_order_statuses [] [PDict d] of None \<Rightarrow> [] | Some os \<Rightarrow> os)
    | _ \<Rightarrow> []) rs)"

definition cancel_patch :: "obj \<Rightarrow> obj list \<Rightarrow> order list \<Rightarrow> string \<Rightarrow> obj" where
  "cancel_patch body rs remaining ts = [(''cancel_attempted_at'', PStr ts),
     (''cancelled_order_ids'', ids_with (\<lambda>k. k = ''cancelled'') rs), (''cancel_terminal_order_ids'', ids_with (\<lambda>k. k = ''terminal'') rs),
     (''cancel_failed_order_ids'', ids_with (\<lambda>k. k \<notin> {''cancelled'', ''terminal'', ''skipped''}) rs),
     (''cancel_skipped_order_ids'', ids_with (\<lambda>k. k = ''skipped'') rs),
     (''cancel_remaining_open_order_ids'', PList (map (\<lambda>x. PStr (order_id x)) (filter (\<lambda>x. order_id x \<noteq> []) remaining))),
     (''cancel_observed_order_statuses'', PList (map PDict (statuses_seen rs))),
     (''cancel_verified_by'', opt_body_text body ''verified_by''),
     (''cancel_summary'', text_or_default body ''summary'' ''operator requested open-order cancellation''),
     (''cancel_operator_context'', opt_object body ''operator_context'')]"

record recovery_setup =
  rs_server_setup :: server_setup
  rs_recovery :: recovery_config
  rs_connectors :: connectors
  rs_cancels :: cancels
  rs_env :: recovery_env

definition run_recovery_once :: "'r server \<Rightarrow> recovery_setup \<Rightarrow> ('r, unit run) recovery" where
  "run_recovery_once exec su = (if rv_enabled (rs_recovery su)
     then tick exec (sv_cfg (rs_server_setup su)) (rs_recovery su) (rs_connectors su) (rs_env su) else finished)"

definition answer_with_latest ::
    "'r server \<Rightarrow> recovery_setup \<Rightarrow> string \<Rightarrow> int \<Rightarrow> obj \<Rightarrow> string \<Rightarrow> obj \<Rightarrow> 'r recovery_handler" where
  \<comment> \<open>a tick of the loop, then the trace and the evaluation as they are now\<close>
  "answer_with_latest exec su tid status otherwise rid extra = (let cfg = sv_cfg (rs_server_setup su) in
     and_then (run_recovery_once exec su) (\<lambda>_. do {
       latest \<leftarrow> on_redis (get_recovery_trace exec cfg tid);
       evaluation \<leftarrow> (if rid = [] then State_Monad.return None else on_redis (get_arbitrage_evaluation exec cfg rid));
       respond cfg status (PDict (dmerge (dmerge (case latest of None \<Rightarrow> otherwise | Some t \<Rightarrow> t) extra)
         (case evaluation of None \<Rightarrow> [] | Some e \<Rightarrow> [(''latest_evaluation'', PDict e)]))) }))"

definition finish_cancel ::
    "'r server \<Rightarrow> recovery_setup \<Rightarrow> string \<Rightarrow> http_call \<Rightarrow> obj \<Rightarrow> obj \<Rightarrow> obj list \<Rightarrow> order list \<Rightarrow> 'r recovery_handler" where
  \<comment> \<open>the orders having been cancelled: the trace notes what happened\<close>
  "finish_cancel exec su tid call body current rs remaining = (let cfg = sv_cfg (rs_server_setup su) in do {
     ts \<leftarrow> on_redis (draw_now cfg);
     moved \<leftarrow> on_redis (transition_recovery_trace exec cfg tid (or_default (optional_string (pget current ''status'')) ''active'')
       (or_default (optional_string (pget current ''lifecycle_state'')) ''recovery_required'')
       (Some (cancel_patch body rs remaining ts)) (hc_trace_id call) (Some ''strategy.recovery_trace.open_orders_cancel_requested''));
     (case moved of
        None \<Rightarrow> trace_not_found cfg
      | Some t \<Rightarrow> answer_with_latest exec su tid 200 t (linked_id current ''run_id'')
          [(''cancel_results'', PList (map PDict rs)),
           (''updated_orders'', PList (filter (\<lambda>v. case v of PDict _ \<Rightarrow> True | _ \<Rightarrow> False) (map (\<lambda>r. pget r ''updated_order'') rs)))]) })"

definition cancel_open_orders_response :: "'r server \<Rightarrow> recovery_setup \<Rightarrow> string \<Rightarrow> http_call \<Rightarrow> 'r recovery_handler" where
  "cancel_open_orders_response exec su tid call = (let sv = rs_server_setup su; cfg = sv_cfg sv in
     when_mutable sv (when_redis cfg (with_optional_body cfg call (\<lambda>body.
     with_open_trace exec cfg tid (\<lambda>current.
     and_then (reading (\<lambda>s. of_res (trace_cancel_candidate_orders current (pf_store s)))) (\<lambda>xs.
     conflict_if cfg (xs = []) ''RECOVERY_TRACE_OPEN_ORDER_MISSING'' ''recovery trace does not have open linked orders to cancel''
    (and_then (cancel_orders exec cfg (rs_cancels su) call xs) (\<lambda>rs.
     and_then (reading (\<lambda>s. of_res (trace_cancel_candidate_orders current (pf_store s)))) (\<lambda>remaining.
     finish_cancel exec su tid call body current rs remaining)))))))))"

section \<open>Record a fill of the unwind\<close>

definition unwind_fill_fields :: "obj \<Rightarrow> fields" where
  "unwind_fill_fields body = [(''exchange_trade_id'', json_string (pget body ''exchange_trade_id'')),
     (''fill_price'', json_number_text (pget body ''fill_price'')), (''fill_qty'', json_number_text (pget body ''fill_qty'')),
     (''filled_at'', json_datetime_text (pget body ''filled_at''))]"

definition invalid_unwind_fill_fields :: "obj \<Rightarrow> string list" where
  "invalid_unwind_fill_fields body = unreadable body (unwind_fill_fields body)
     @ unreadable body [(''fee_asset'', json_string (pget body ''fee_asset'')), (''fee_amount'', json_number_text (pget body ''fee_amount''))]"

definition unwind_fill_patch :: "obj \<Rightarrow> fill \<Rightarrow> obj" where
  "unwind_fill_patch current f = [(''manual_handoff_required'', PBool False), (''last_unwind_fill_id'', PStr (fill_id f)),
     (''last_unwind_fill_at'', PStr (fl_filled_at f)), (''last_unwind_order_status'', PStr (fl_order_status f)),
     (''residual_exposure_quote'', if lower (strip (fl_order_status f)) = ''filled'' then PStr ''0''
        else opt_body_text current ''residual_exposure_quote'')]"

definition record_unwind_fill_response :: "'r server \<Rightarrow> recovery_setup \<Rightarrow> string \<Rightarrow> http_call \<Rightarrow> 'r recovery_handler" where
  "record_unwind_fill_response exec su tid call = (let sv = rs_server_setup su; cfg = sv_cfg sv in
     when_mutable sv (when_redis cfg (with_body cfg call (\<lambda>body.
     with_open_trace exec cfg tid (\<lambda>current. let fs = unwind_fill_fields body in
     conflict_if cfg (linked_id current ''linked_unwind_order_id'' = []) ''RECOVERY_TRACE_UNWIND_ORDER_MISSING''
       ''recovery trace does not have a linked unwind order''
    (require_fields cfg (invalid_unwind_fill_fields body) fs (require_fill_numbers cfg fs body (do {
       r \<leftarrow> on_store (op_create_fill (order_ops_of cfg) (fill_args_of_body (linked_id current ''linked_unwind_order_id'') fs body));
       answer_fill cfg ''linked unwind order not found'' r (\<lambda>x. do {
         _ \<leftarrow> publish_order exec cfg call ''fill.created'' (fill_event x);
         _ \<leftarrow> on_redis (transition_recovery_trace exec cfg tid ''active'' ''unwind_in_progress'' (Some (unwind_fill_patch current x))
           (hc_trace_id call) (Some ''strategy.recovery_trace.unwind_fill_recorded''));
         answer_with_latest exec su tid 201 current (linked_id current ''run_id'')
           [(''created_unwind_fill'', PDict (fill_row x))] }) }))))))))"

section \<open>Record a reconciliation\<close>

record reconciliation_body =
  rb_matched :: bool
  rb_open_orders :: int
  rb_residual :: string
  rb_observed_at :: "string option"
  rb_order_ids :: "string list option"
  rb_fill_ids :: "string list option"
  rb_statuses :: "obj list option"
  rb_balances :: "obj list option"

definition bad_if :: "bool \<Rightarrow> string \<Rightarrow> string option" where
  "bad_if b message = (if b then Some message else None)"

fun first_problem :: "string option list \<Rightarrow> string option" where
  "first_problem [] = None"
| "first_problem (None # ps) = first_problem ps"
| "first_problem (Some e # ps) = Some e"

definition reconciliation_problem :: "obj \<Rightarrow> string option" where
  \<comment> \<open>the message of the first check of the body that fails\<close>
  "reconciliation_problem body = first_problem
     [bad_if (optional_bool (optional_string (pget body ''matched'')) = None) ''matched must be true or false'',
      bad_if (case pget body ''open_order_count'' of PInt n \<Rightarrow> n < 0 | _ \<Rightarrow> True) ''open_order_count must be a non-negative integer'',
      bad_if (case json_number_text (pget body ''residual_exposure_quote'') of None \<Rightarrow> True | Some t \<Rightarrow> \<not> is_nonnegative_number_text t)
        ''residual_exposure_quote must be a finite non-negative number'',
      bad_if (in_body body ''observed_at'' \<and> json_datetime_text (pget body ''observed_at'') = None)
        ''observed_at must be an ISO datetime string'',
      bad_if (in_body body ''observed_order_ids'' \<and> unique_string_list (pget body ''observed_order_ids'') = None)
        ''observed_order_ids must be an array of unique non-empty strings'',
      bad_if (in_body body ''observed_fill_ids'' \<and> unique_string_list (pget body ''observed_fill_ids'') = None)
        ''observed_fill_ids must be an array of unique non-empty strings'',
      bad_if (in_body body ''observed_order_statuses''
          \<and> read_list (body_order_statuses []) (pget body ''observed_order_statuses'') = None)
        ''observed_order_statuses must be an array of unique {order_id, status} objects'',
      bad_if (in_body body ''observed_balances'' \<and> read_list (body_balances []) (pget body ''observed_balances'') = None)
        ''observed_balances must be an array of unique {exchange_name, asset, free, locked} objects with non-negative numbers'']"

definition reconciliation_of_body :: "obj \<Rightarrow> reconciliation_body" where
  \<comment> \<open>the values of a body without a problem\<close>
  "reconciliation_of_body body =
     \<lparr>rb_matched = (optional_bool (optional_string (pget body ''matched'')) = Some True),
      rb_open_orders = (case pget body ''open_order_count'' of PInt n \<Rightarrow> n | _ \<Rightarrow> 0),
      rb_residual = given_text (json_number_text (pget body ''residual_exposure_quote'')),
      rb_observed_at = json_datetime_text (pget body ''observed_at''),
      rb_order_ids = unique_string_list (pget body ''observed_order_ids''),
      rb_fill_ids = unique_string_list (pget body ''observed_fill_ids''),
      rb_statuses = read_list (body_order_statuses []) (pget body ''observed_order_statuses''),
      rb_balances = read_list (body_balances []) (pget body ''observed_balances'')\<rparr>"

definition int_value :: "obj \<Rightarrow> string \<Rightarrow> int" where
  "int_value d k = (case pget d k of PInt n \<Rightarrow> n | _ \<Rightarrow> 0)"

definition texts_val :: "string list option \<Rightarrow> pyval" where
  "texts_val v = (case v of None \<Rightarrow> PNone | Some ts \<Rightarrow> PList (map PStr ts))"

definition objects_val :: "obj list option \<Rightarrow> pyval" where
  "objects_val v = (case v of None \<Rightarrow> PNone | Some ds \<Rightarrow> PList (map PDict ds))"

definition counted_reconciliation :: "bool \<Rightarrow> obj \<Rightarrow> obj" where
  "counted_reconciliation matched current =
     [(''reconciliation_attempt_count'', PInt (int_value current ''reconciliation_attempt_count'' + 1)),
      (''reconciliation_matched_count'', PInt (int_value current ''reconciliation_matched_count'' + (if matched then 1 else 0))),
      (''reconciliation_mismatch_count'', PInt (int_value current ''reconciliation_mismatch_count'' + (if matched then 0 else 1))),
      (''reconciliation_mismatch_streak'', PInt (if matched then 0 else int_value current ''reconciliation_mismatch_streak'' + 1))]"

definition reconciliation_patch :: "obj \<Rightarrow> reconciliation_body \<Rightarrow> obj \<Rightarrow> string \<Rightarrow> obj" where
  "reconciliation_patch body rb current ts =
     [(''reconciliation_result'', PStr (if rb_matched rb then ''matched'' else ''mismatch'')),
      (''reconciliation_open_order_count'', PInt (rb_open_orders rb)),
      (''reconciliation_residual_exposure_quote'', PStr (rb_residual rb))] @
     counted_reconciliation (rb_matched rb) current @
     [(''reconciliation_reason'', opt_body_text body ''reconciliation_reason''), (''reconciliation_summary'', opt_body_text body ''summary''),
      (''reconciliation_source'', text_or_default body ''source'' ''operator_recorded''),
      (''reconciliation_observed_at'', opt_str (rb_observed_at rb)),
      (''reconciliation_operator_context'', opt_object body ''operator_context''),
      (''reconciliation_observed_order_ids'', texts_val (rb_order_ids rb)),
      (''reconciliation_observed_fill_ids'', texts_val (rb_fill_ids rb)),
      (''reconciliation_observed_order_statuses'', objects_val (rb_statuses rb)),
      (''reconciliation_observed_balances'', objects_val (rb_balances rb)),
      (''reconciliation_verified_by'', opt_body_text body ''verified_by''), (''reconciliation_updated_at'', PStr ts)]"

definition list_size :: "'a list option \<Rightarrow> pyval" where
  "list_size v = PInt (case v of None \<Rightarrow> 0 | Some xs \<Rightarrow> int (length xs))"

definition reconciliation_event :: "string \<Rightarrow> obj \<Rightarrow> reconciliation_body \<Rightarrow> obj" where
  "reconciliation_event tid trace rb = [(''recovery_trace_id'', PStr tid), (''run_id'', pget trace ''run_id''),
     (''bot_id'', pget trace ''bot_id''), (''matched'', PBool (rb_matched rb)), (''open_order_count'', PInt (rb_open_orders rb)),
     (''observed_order_count'', list_size (rb_order_ids rb)), (''observed_fill_count'', list_size (rb_fill_ids rb)),
     (''observed_order_status_count'', list_size (rb_statuses rb)), (''observed_balance_count'', list_size (rb_balances rb))]"

definition finish_reconciliation ::
    "'r server \<Rightarrow> recovery_setup \<Rightarrow> string \<Rightarrow> http_call \<Rightarrow> reconciliation_body \<Rightarrow> obj \<Rightarrow> 'r recovery_handler" where
  \<comment> \<open>the result having been stored: the evaluation, the event, the answer\<close>
  "finish_reconciliation exec su tid call rb updated =
     (let cfg = sv_cfg (rs_server_setup su); rid = linked_id updated ''run_id'' in do {
        _ \<leftarrow> on_redis (run_if (rid \<noteq> []) (sync_arbitrage_evaluation_recovery_state exec cfg rid updated (hc_trace_id call)));
        _ \<leftarrow> on_redis (append_event exec cfg ''strategy_events'' ''strategy.recovery_trace.reconciliation_recorded''
          (reconciliation_event tid updated rb) (hc_trace_id call));
        answer_with_latest exec su tid 200 updated rid [] })"

definition record_reconciliation_response :: "'r server \<Rightarrow> recovery_setup \<Rightarrow> string \<Rightarrow> http_call \<Rightarrow> 'r recovery_handler" where
  "record_reconciliation_response exec su tid call = (let cfg = sv_cfg (rs_server_setup su) in
     when_redis cfg (with_body cfg call (\<lambda>body.
     require_that cfg (reconciliation_problem body = None) (given_text (reconciliation_problem body))
    (with_open_trace exec cfg tid (\<lambda>current. do {
       ts \<leftarrow> on_redis (draw_now cfg);
       _ \<leftarrow> on_redis (sync_recovery_trace exec cfg tid
         (dmerge current (reconciliation_patch body (reconciliation_of_body body) current ts)) (hc_trace_id call));
       updated \<leftarrow> on_redis (get_recovery_trace exec cfg tid);
       (case updated of
          None \<Rightarrow> refuse cfg 502 ''REDIS_RUNTIME_WRITE_FAILED'' ''failed to persist reconciliation result''
        | Some t \<Rightarrow> finish_reconciliation exec su tid call (reconciliation_of_body body) t) })))))"

section \<open>Dispatch\<close>

datatype trace_operation = Resolve | Hand_off | Start_unwind | Submit_unwind_order | Cancel_open_orders | Record_unwind_fill | Record_reconciliation

definition trace_operations :: "(string, trace_operation) dict" where
  "trace_operations = [(''/resolve'', Resolve), (''/handoff'', Hand_off), (''/start-unwind'', Start_unwind),
     (''/submit-unwind-order'', Submit_unwind_order), (''/cancel-open-orders'', Cancel_open_orders),
     (''/record-unwind-fill'', Record_unwind_fill), (''/record-reconciliation'', Record_reconciliation)]"

definition TRACES_PREFIX :: string where
  "TRACES_PREFIX = ''/api/v1/recovery-traces/''"

definition trace_operation_of :: "string \<Rightarrow> (trace_operation \<times> string) option" where
  \<comment> \<open>the operation a path names and the identifier of its trace\<close>
  "trace_operation_of path =
     (case find (\<lambda>(suffix, _). ends_with suffix path) trace_operations of
        None \<Rightarrow> None
      | Some (suffix, operation) \<Rightarrow> map_option (\<lambda>tid. (operation, tid)) (path_between TRACES_PREFIX suffix path))"

definition recovery_trace_action_response :: "'r server \<Rightarrow> recovery_setup \<Rightarrow> string \<Rightarrow> http_call \<Rightarrow> ('r recovery_handler) option" where
  "recovery_trace_action_response exec su path call = (let sv = rs_server_setup su; cfg = sv_cfg sv in
     map_option (\<lambda>(operation, tid). case operation of
         Resolve \<Rightarrow> resolve_recovery_trace_response exec cfg tid call
       | Hand_off \<Rightarrow> handoff_recovery_trace_response exec cfg tid call
       | Start_unwind \<Rightarrow> start_unwind_recovery_trace_response exec sv tid call
       | Submit_unwind_order \<Rightarrow> submit_unwind_order_response exec sv tid call
       | Cancel_open_orders \<Rightarrow> cancel_open_orders_response exec su tid call
       | Record_unwind_fill \<Rightarrow> record_unwind_fill_response exec su tid call
       | Record_reconciliation \<Rightarrow> record_reconciliation_response exec su tid call)
     (trace_operation_of path))"

end
