(* ===== verification/StrategyHandlers.thy ===== *)
theory StrategyHandlers
  imports Requests
begin

text \<open>
  \<open>route_handlers_strategy_write.py\<close>: evaluating a run over HTTP. The body is completed with defaults,
  loaded and evaluated as the strategy loop does it, the evaluation is published, and on demand the plan is
  stored as an intent and submitted.
\<close>

section \<open>The payload of an evaluation\<close>

definition split_symbol_assets :: "string \<Rightarrow> string \<times> string" where
  "split_symbol_assets symbol = (case split_char (CHR ''-'') symbol of
      [base, quot] \<Rightarrow> if base \<noteq> [] \<and> quot \<noteq> [] then (base, quot) else (symbol, ''QUOTE'')
    | _ \<Rightarrow> (symbol, ''QUOTE''))"

definition default_book :: "string \<Rightarrow> string \<Rightarrow> string \<Rightarrow> obj" where
  "default_book exchange market nw = [(''exchange_name'', PStr exchange), (''market'', PStr market), (''observed_at'', PStr nw)]"

definition default_balance :: "string \<Rightarrow> string \<Rightarrow> string \<Rightarrow> obj" where
  "default_balance exchange symbol nw = (case split_symbol_assets symbol of (base, quot) \<Rightarrow>
     [(''exchange_name'', PStr exchange), (''base_asset'', PStr base), (''quote_asset'', PStr quot), (''observed_at'', PStr nw),
      (''is_fresh'', PBool True)])"

definition default_risk :: "obj \<Rightarrow> obj" where
  "default_risk risk =
     (let notional = (if in_body risk ''max_quote_notional'' then pget risk ''max_quote_notional'' else PStr ''1000000'') in
      [(''min_profit_bps'', PStr ''0''), (''max_clock_skew_ms'', PInt 1000), (''max_orderbook_age_ms'', PInt 3000),
       (''max_balance_age_ms'', PInt 3000), (''max_notional_per_order'', notional), (''max_total_notional_per_bot'', notional)])"

definition default_runtime :: "string \<Rightarrow> obj" where
  "default_runtime nw = [(''now'', PStr nw), (''open_order_count'', PInt 0), (''open_order_cap'', PInt 0),
     (''unwind_in_progress'', PBool False), (''connector_private_healthy'', PBool True), (''duplicate_intent_active'', PBool False)]"

definition EVALUATION_OBJECTS :: "string list" where
  "EVALUATION_OBJECTS = [''base_orderbook'', ''hedge_orderbook'', ''base_balance'', ''hedge_balance'', ''risk_config'', ''runtime_state'']"

definition EVALUATION_TEXTS :: "string list" where
  "EVALUATION_TEXTS = [''canonical_symbol'', ''market'', ''base_exchange'', ''hedge_exchange'']"

definition missing_evaluation_fields :: "obj \<Rightarrow> string list" where
  "missing_evaluation_fields body =
     filter (\<lambda>k. optional_object (pget body k) = None) EVALUATION_OBJECTS
     @ filter (\<lambda>k. json_string (pget body k) \<in> {None, Some []}) EVALUATION_TEXTS"

definition body_object :: "obj \<Rightarrow> string \<Rightarrow> obj" where
  "body_object body k = (case optional_object (pget body k) of None \<Rightarrow> [] | Some d \<Rightarrow> d)"

definition body_text :: "obj \<Rightarrow> string \<Rightarrow> string" where
  "body_text body k = (case json_string (pget body k) of None \<Rightarrow> [] | Some t \<Rightarrow> t)"

definition evaluation_request :: "obj \<Rightarrow> string \<Rightarrow> string \<Rightarrow> string \<Rightarrow> obj" where
  \<comment> \<open>the payload that is loaded: the body over its defaults, for this bot and run at this time\<close>
  "evaluation_request body bid rid nw =
     (let symbol = body_text body ''canonical_symbol''; market = body_text body ''market'';
          base = body_text body ''base_exchange''; hedge = body_text body ''hedge_exchange'' in
      [(''bot_id'', PStr bid), (''strategy_run_id'', PStr rid), (''canonical_symbol'', PStr symbol), (''market'', PStr market),
       (''base_exchange'', PStr base), (''hedge_exchange'', PStr hedge),
       (''base_orderbook'', PDict (dmerge (default_book base market nw) (body_object body ''base_orderbook''))),
       (''hedge_orderbook'', PDict (dmerge (default_book hedge market nw) (body_object body ''hedge_orderbook''))),
       (''base_balance'', PDict (dmerge (default_balance base symbol nw) (body_object body ''base_balance''))),
       (''hedge_balance'', PDict (dmerge (default_balance hedge symbol nw) (body_object body ''hedge_balance''))),
       (''risk_config'', PDict (dmerge (default_risk (body_object body ''risk_config'')) (body_object body ''risk_config''))),
       (''runtime_state'', PDict (dmerge (dmerge (default_runtime nw) (body_object body ''runtime_state''))
          [(''bot_id'', PStr bid), (''strategy_run_id'', PStr rid)]))])"

section \<open>The handler\<close>

record strategy_setup =
  su_server_setup :: server_setup
  su_execution_enabled :: bool
  su_adapter :: adapter
  su_auto_unwind :: bool

record evaluation_job =
  ej_run_id :: string
  ej_run :: strategy_run
  ej_persist :: bool
  ej_execute :: bool
  ej_call :: http_call

definition caught_text :: "pyexc \<Rightarrow> string option" where
  \<comment> \<open>the exceptions the handler turns into a refusal\<close>
  "caught_text e = (case e of RuntimeError _ \<Rightarrow> None | _ \<Rightarrow> Some (exc_text e))"

definition flag_of :: "obj \<Rightarrow> string \<Rightarrow> bool" where
  "flag_of body k = (pget body k = PBool True)"

definition flag_readable :: "obj \<Rightarrow> string \<Rightarrow> bool" where
  "flag_readable body k = (in_body body k \<longrightarrow> (case pget body k of PBool _ \<Rightarrow> True | _ \<Rightarrow> False))"

definition strategy_event :: "'r server \<Rightarrow> redis_config \<Rightarrow> http_call \<Rightarrow> string \<Rightarrow> obj \<Rightarrow> ('r, 'x, bool) task" where
  "strategy_event exec cfg call event_type payload =
     on_redis (append_event exec cfg ''strategy_events'' event_type payload (hc_trace_id call))"

definition publish_evaluated ::
    "'r server \<Rightarrow> redis_config \<Rightarrow> evaluation_job \<Rightarrow> arbitrage_decision \<Rightarrow> obj \<Rightarrow> ('r, 'x, bool) task" where
  "publish_evaluated exec cfg q d payload = do {
     _ \<leftarrow> on_redis (sync_arbitrage_evaluation exec cfg (ej_run_id q) payload (hc_trace_id (ej_call q)) True);
     strategy_event exec cfg (ej_call q) ''strategy.arbitrage_evaluated''
       [(''run_id'', PStr (ej_run_id q)), (''bot_id'', PStr (run_bot_id (ej_run q))), (''accepted'', PBool (accepted d)),
        (''reason_code'', PStr (reason_code d)), (''lifecycle_preview'', pget payload ''lifecycle_preview''),
        (''persist_intent'', PBool (ej_persist q)), (''execute'', PBool (ej_execute q))] }"

definition http_trace_id :: "evaluation_job \<Rightarrow> string" where
  "http_trace_id q = or_default (hc_trace_id (ej_call q)) (''http-eval-'' @ ej_run_id q)"

definition execute_intent ::
    "'r server \<Rightarrow> strategy_setup \<Rightarrow> evaluation_job \<Rightarrow> arbitrage_decision \<Rightarrow> order_intent \<Rightarrow> obj \<Rightarrow> ('r, 'x) handler" where
  "execute_intent exec su q d i payload = (let cfg = sv_cfg (su_server_setup su) in
     if \<not> ej_execute q then respond cfg 201 (PDict payload)
     else and_then (execute_persisted_arbitrage_intent exec cfg (su_adapter su)
         \<lparr>xc_decision = d, xc_intent = i, xc_run_id = ej_run_id q, xc_bot_id = run_bot_id (ej_run q),
          xc_trace_id = http_trace_id q, xc_auto_unwind = su_auto_unwind su\<rparr>)
       (\<lambda>out. respond cfg 201 (PDict (xo_latest_payload out))))"

definition store_intent ::
    "'r server \<Rightarrow> strategy_setup \<Rightarrow> evaluation_job \<Rightarrow> arbitrage_decision \<Rightarrow> order_intent \<Rightarrow> ('r, 'x) handler" where
  \<comment> \<open>the intent having been stored: its events, the evaluation with it, and the submission\<close>
  "store_intent exec su q d i = (let cfg = sv_cfg (su_server_setup su); run = ej_run q;
       payload = build_arbitrage_evaluation_payload d (run_bot_id run) (ej_run_id q) (Some (intent_row i)) None None in do {
     _ \<leftarrow> publish_order exec cfg (ej_call q) ''order_intent.created'' (intent_event i);
     _ \<leftarrow> strategy_event exec cfg (ej_call q) ''strategy.arbitrage_intent_persisted''
       [(''run_id'', PStr (ej_run_id q)), (''bot_id'', PStr (run_bot_id run)), (''intent_id'', PStr (intent_id i)),
        (''market'', PStr (int_market i))];
     _ \<leftarrow> on_redis (sync_arbitrage_evaluation exec cfg (ej_run_id q) payload (hc_trace_id (ej_call q)) True);
     execute_intent exec su q d i payload })"

definition answer_evaluation ::
    "'r server \<Rightarrow> strategy_setup \<Rightarrow> evaluation_job \<Rightarrow> arbitrage_decision \<Rightarrow> ('r, 'x) handler" where
  "answer_evaluation exec su q d = (let cfg = sv_cfg (su_server_setup su); run = ej_run q;
       payload = build_arbitrage_evaluation_payload d (run_bot_id run) (ej_run_id q) None None None in do {
     _ \<leftarrow> publish_evaluated exec cfg q d payload;
     (if \<not> ej_persist q then respond cfg 200 (PDict payload)
      else do {
        persisted \<leftarrow> on_store (persist_order_intent_plan (order_ops_of cfg) d (ej_run_id q));
        (case persisted of
           (outcome, i) \<Rightarrow>
             if outcome = ''rejected'' then respond cfg 200 (PDict payload)
             else if outcome = ''not_found''
             then refuse cfg 404 ''STRATEGY_RUN_NOT_FOUND'' ''strategy_run_id not found during persistence''
             else (case i of
                 Some x \<Rightarrow> store_intent exec su q d x
               | None \<Rightarrow> State_Monad.return (Raised (TypeError ''NoneType'')))) }) })"

definition evaluate_body ::
    "'r server \<Rightarrow> strategy_setup \<Rightarrow> evaluation_job \<Rightarrow> obj \<Rightarrow> ('r, 'x) handler" where
  "evaluate_body exec su q body = (let cfg = sv_cfg (su_server_setup su); run = ej_run q in do {
     nw \<leftarrow> on_redis (draw_now cfg);
     (case andThen (load_strategy_inputs (evaluation_request body (run_bot_id run) (ej_run_id q) nw)) evaluate_arbitrage of
        Inr d \<Rightarrow> answer_evaluation exec su q d
      | Inl e \<Rightarrow> (case caught_text e of
            Some t \<Rightarrow> refuse cfg 400 ''INVALID_REQUEST'' (''invalid arbitrage evaluation payload: '' @ t)
          | None \<Rightarrow> State_Monad.return (Raised e))) })"

definition when_executing :: "strategy_setup \<Rightarrow> bool \<Rightarrow> ('r, 'x) handler \<Rightarrow> ('r, 'x) handler" where
  "when_executing su submit f = (if submit \<and> \<not> su_execution_enabled su
     then refuse (sv_cfg (su_server_setup su)) 409 ''STRATEGY_EXECUTION_DISABLED'' ''strategy runtime execution is disabled'' else f)"

definition evaluate_arbitrage_response :: "'r server \<Rightarrow> strategy_setup \<Rightarrow> string \<Rightarrow> http_call \<Rightarrow> ('r, 'x) handler" where
  "evaluate_arbitrage_response exec su rid call = (let sv = su_server_setup su; cfg = sv_cfg sv in
     with_body cfg call (\<lambda>body. do {
       found \<leftarrow> reading (\<lambda>s. map_of (strategy_runs (pf_store s)) rid);
       (case found of
          None \<Rightarrow> refuse cfg 404 ''STRATEGY_RUN_NOT_FOUND'' ''run_id not found''
        | Some run \<Rightarrow>
            if run_strategy_name run \<noteq> ''arbitrage''
            then refuse cfg 422 ''STRATEGY_NOT_SUPPORTED'' ''evaluate-arbitrage is only supported for arbitrage runs''
            else let persist = flag_of body ''persist_intent''; submit = flag_of body ''execute'';
                     evaluate = when_executing su submit
                      (require_that cfg (missing_evaluation_fields body = []) (missing_fields_message (missing_evaluation_fields body))
                        (evaluate_body exec su \<lparr>ej_run_id = rid, ej_run = run, ej_persist = persist, ej_execute = submit, ej_call = call\<rparr> body))
                 in require_that cfg (flag_readable body ''persist_intent'') ''persist_intent must be boolean''
                   (require_that cfg (flag_readable body ''execute'') ''execute must be boolean''
                   (require_that cfg (\<not> (submit \<and> \<not> persist)) ''execute requires persist_intent=true''
                   (if persist then when_mutable sv evaluate else evaluate)))) }))"

definition evaluate_arbitrage_route :: "'r server \<Rightarrow> strategy_setup \<Rightarrow> string \<Rightarrow> http_call \<Rightarrow> ('r, 'x) handler option" where
  \<comment> \<open>the handler of a path, if it is a path of this operation\<close>
  "evaluate_arbitrage_route exec su path call =
     map_option (\<lambda>rid. evaluate_arbitrage_response exec su rid call)
       (path_between ''/api/v1/strategy-runs/'' ''/evaluate-arbitrage'' path)"

end
