(* ===== verification/Answers.thy ===== *)
theory Answers
  imports RecoveryHandlers StrategyHandlers RecoveryEffects
begin

text \<open>
  Rules for what holds when a handler answers: one per guard of the handlers, so that a property of a
  handler reduces to the property of its last step. A refusal leaves the store and what Redis holds
  as they were.
\<close>

section \<open>Answers\<close>

named_theorems answering \<open>rules for what holds when a handler answers\<close>

type_synonym ('r, 'x) answer_spec = "int \<Rightarrow> ('r, 'x) platform_scheme \<Rightarrow> bool"

definition answers :: "('r, 'x) answer_spec \<Rightarrow> ('r, 'x) handler \<Rightarrow> ('r, 'x) platform_scheme \<Rightarrow> bool" where
  "answers Q m s = (\<forall>status reply s'. run_state m s = (Returned (status, reply), s') \<longrightarrow> Q status s')"

definition untouched :: "('r \<Rightarrow> string \<Rightarrow> string option) \<Rightarrow> ('r, 'x) platform_scheme \<Rightarrow> ('r, 'x) platform_scheme \<Rightarrow> bool" where
  \<comment> \<open>the store and what Redis holds are the same\<close>
  "untouched view s s' = (pf_store s' = pf_store s \<and> view (rs_server (pf_redis s')) = view (rs_server (pf_redis s)))"

definition refusable :: "('r \<Rightarrow> string \<Rightarrow> string option) \<Rightarrow> ('r, 'x) answer_spec \<Rightarrow> ('r, 'x) platform_scheme \<Rightarrow> bool" where
  \<comment> \<open>the specification allows to refuse here\<close>
  "refusable view Q s = (\<forall>c s'. 400 \<le> c \<longrightarrow> untouched view s s' \<longrightarrow> Q c s')"

lemma answersD: "answers Q m s \<Longrightarrow> run_state m s = (Returned (status, reply), s') \<Longrightarrow> Q status s'"
  by (simp add: answers_def)

lemma untouched_refl: "untouched view s s"
  by (simp add: untouched_def)

lemma untouched_trans: "untouched view s s' \<Longrightarrow> untouched view s' s'' \<Longrightarrow> untouched view s s''"
  by (simp add: untouched_def)

lemma refusable_later: "refusable view Q s \<Longrightarrow> untouched view s s' \<Longrightarrow> refusable view Q s'"
  unfolding refusable_def using untouched_trans by metis

lemma run_draw_uid:
  "run_state (on_redis (draw_uid cfg)) s = (rc_uid cfg (rs_drawn (pf_redis s)), s\<lparr>pf_redis := (pf_redis s)\<lparr>rs_drawn := Suc (rs_drawn (pf_redis s))\<rparr>\<rparr>)"
  by (simp add: on_redis_def draw_uid_def)

lemma run_refuse:
  "run_state (refuse cfg c code message) s = (Returned (error_response (rc_uid cfg (rs_drawn (pf_redis s))) c code message),
     s\<lparr>pf_redis := (pf_redis s)\<lparr>rs_drawn := Suc (rs_drawn (pf_redis s))\<rparr>\<rparr>)"
  by (simp add: refuse_def run_draw_uid)

lemma run_respond:
  "run_state (respond cfg c v) s = (Returned (c, response_payload (rc_uid cfg (rs_drawn (pf_redis s))) v PNone),
     s\<lparr>pf_redis := (pf_redis s)\<lparr>rs_drawn := Suc (rs_drawn (pf_redis s))\<rparr>\<rparr>)"
  by (simp add: respond_def run_draw_uid)

lemma answers_refuse [answering]: "refusable view Q s \<Longrightarrow> 400 \<le> c \<Longrightarrow> answers Q (refuse cfg c code message) s"
  by (auto simp: answers_def run_refuse error_response_def refusable_def untouched_def)

lemma answers_respond:
  "Q c (s\<lparr>pf_redis := (pf_redis s)\<lparr>rs_drawn := Suc (rs_drawn (pf_redis s))\<rparr>\<rparr>) \<Longrightarrow> answers Q (respond cfg c v) s"
  by (simp add: answers_def run_respond)

lemma answers_raised [answering]: "answers Q (State_Monad.return (Raised e)) s"
  by (simp add: answers_def)

lemma body_error_status: "read_json_body uid h raw = Inl (c, p) \<Longrightarrow> c = 400"
  by (auto simp: read_json_body_def error_response_def split: option.splits if_splits pyval.splits)

lemma answers_with_body [answering]:
  assumes "refusable view Q s"
    and "\<And>body. read_json_body [] (hc_length call) (hc_body call) = Inr body \<Longrightarrow> answers Q (f body) s"
  shows "answers Q (with_body cfg call f) s"
proof (cases "read_json_body [] (hc_length call) (hc_body call)")
  case (Inl r)
  obtain c p where r: "r = (c, p)" by (cases r) simp
  with Inl body_error_status have "c = 400" by blast
  with assms(1) Inl r show ?thesis
    by (simp add: with_body_def answers_def run_draw_uid) (auto simp: refusable_def untouched_def)
qed (use assms(2) in \<open>simp add: with_body_def\<close>)

definition request_body :: "http_call \<Rightarrow> obj option" where
  \<comment> \<open>the body of a request whose body is optional, if it can be read\<close>
  "request_body call = (if hc_length call \<in> {None, Some []} then Some []
     else case read_json_body [] (hc_length call) (hc_body call) of Inr body \<Rightarrow> Some body | Inl _ \<Rightarrow> None)"

lemma answers_with_optional_body [answering]:
  assumes "refusable view Q s" and "\<And>body. request_body call = Some body \<Longrightarrow> answers Q (f body) s"
  shows "answers Q (with_optional_body cfg call f) s"
  using assms by (auto simp: with_optional_body_def request_body_def intro: answers_with_body)

lemma answers_when_redis [answering]:
  "refusable view Q s \<Longrightarrow> (info_enabled cfg \<Longrightarrow> answers Q f s) \<Longrightarrow> answers Q (when_redis cfg f) s"
  by (simp add: when_redis_def answers_refuse)

lemma answers_when_mutable [answering]:
  "refusable view Q s \<Longrightarrow> (sv_mutations sv \<Longrightarrow> answers Q f s) \<Longrightarrow> answers Q (when_mutable sv f) s"
  by (simp add: when_mutable_def answers_refuse)

lemma answers_require_that [answering]:
  "refusable view Q s \<Longrightarrow> (b \<Longrightarrow> answers Q f s) \<Longrightarrow> answers Q (require_that cfg b message f) s"
  by (simp add: require_that_def answers_refuse)

lemma answers_conflict_if [answering]:
  "refusable view Q s \<Longrightarrow> (\<not> b \<Longrightarrow> answers Q f s) \<Longrightarrow> answers Q (conflict_if cfg b code message f) s"
  by (simp add: conflict_if_def answers_refuse)

lemma answers_require_fields [answering]:
  "refusable view Q s \<Longrightarrow> (invalid = [] \<Longrightarrow> missing fs = [] \<Longrightarrow> answers Q f s) \<Longrightarrow> answers Q (require_fields cfg invalid fs f) s"
  by (simp add: require_fields_def answers_refuse)

lemma answers_bind:
  "(\<And>x s1. run_state m s = (x, s1) \<Longrightarrow> answers Q (f x) s1) \<Longrightarrow> answers Q (State_Monad.bind m f) s"
  by (auto simp: answers_def split: prod.splits)

context redis_server
begin

lemma on_redis_get:
  assumes "rc_client cfg" and "run_state (on_redis (get_json exec cfg parts)) s = (found, s1)"
  shows "found = json_object (stored_reply (view (rs_server (pf_redis s)) (redis_key cfg parts))) \<and> untouched view s s1
    \<and> rs_drawn (pf_redis s1) = rs_drawn (pf_redis s)"
  using run_get [OF assms(1), of parts "pf_redis s"] assms(2) by (auto simp: on_redis_def untouched_def)

lemma answers_with_trace:
  assumes "rc_client cfg" and "refusable view Q s"
    and "\<And>current s1. json_object (stored_reply (view (rs_server (pf_redis s)) (trace_key cfg tid))) = Some current
      \<Longrightarrow> untouched view s s1 \<Longrightarrow> answers Q (f current) s1"
  shows "answers Q (with_trace exec cfg tid f) s"
  unfolding with_trace_def get_recovery_trace_def
proof (rule answers_bind)
  fix found s1
  assume "run_state (on_redis (get_json exec cfg [''recovery_trace'', tid])) s = (found, s1)"
  note r = on_redis_get [OF assms(1) this]
  then have u: "untouched view s s1" by blast
  show "answers Q (case found of None \<Rightarrow> trace_not_found cfg | Some current \<Rightarrow> f current) s1"
  proof (cases found)
    case None
    then show ?thesis using answers_refuse [OF refusable_later [OF assms(2) u]] by (simp add: trace_not_found_def)
  next
    case (Some current)
    from r Some have "json_object (stored_reply (view (rs_server (pf_redis s)) (trace_key cfg tid))) = Some current"
      by (simp add: trace_key_def)
    from assms(3) [OF this u] show ?thesis by (simp add: Some)
  qed
qed

lemma answers_with_open_trace:
  assumes "rc_client cfg" and "refusable view Q s"
    and "\<And>current s1. json_object (stored_reply (view (rs_server (pf_redis s)) (trace_key cfg tid))) = Some current
      \<Longrightarrow> low_text current ''status'' \<notin> {''resolved'', ''cancelled''} \<Longrightarrow> untouched view s s1 \<Longrightarrow> answers Q (f current) s1"
  shows "answers Q (with_open_trace exec cfg tid f) s"
  unfolding with_open_trace_def
proof (rule answers_with_trace [OF assms(1,2)])
  fix current s1
  assume c: "json_object (stored_reply (view (rs_server (pf_redis s)) (trace_key cfg tid))) = Some current" and u: "untouched view s s1"
  show "answers Q (if low_text current ''status'' \<in> {''resolved'', ''cancelled''} then trace_terminal cfg else f current) s1"
  proof (cases "low_text current ''status'' \<in> {''resolved'', ''cancelled''}")
    case True
    then show ?thesis using answers_refuse [OF refusable_later [OF assms(2) u]] by (simp only: trace_terminal_def if_True)
  next
    case False
    then show ?thesis using assms(3) [OF c False u] by (simp only: if_False)
  qed
qed

lemma transition_cases:
  assumes "rc_client cfg" and "run_state (on_redis (transition_recovery_trace exec cfg tid status lifecycle patch trace event_type)) s = (moved, s1)"
    and stored: "json_object (stored_reply (view (rs_server (pf_redis s)) (trace_key cfg tid))) = Some current"
    and patch: "list_all (\<lambda>p. json_ok (snd p)) (case patch of None \<Rightarrow> [] | Some p \<Rightarrow> p)"
  obtains (closed) "moved = Some (dset current ''_conflict'' (PStr ''terminal''))" "untouched view s s1"
  | (moved) q where "moved = Some q" "pf_store s1 = pf_store s" "low_text current ''status'' \<notin> {''resolved'', ''cancelled''}"
      "q = stored_trace tid (rc_now cfg (rs_drawn (pf_redis s))) (moved_trace status lifecycle patch current)"
      "json_object (stored_reply (view (rs_server (pf_redis s1)) (trace_key cfg tid))) = Some q"
proof -
  let ?m = "transition_recovery_trace exec cfg tid status lifecycle patch trace event_type"
  obtain r where run: "run_state ?m (pf_redis s) = (moved, r)" and s1: "s1 = s\<lparr>pf_redis := r\<rparr>"
    using assms(2) by (auto simp: on_redis_def split: prod.splits)
  show thesis
  proof (cases "low_text current ''status'' \<in> {''resolved'', ''cancelled''}")
    case True
    from closed_trace_stays [OF redis_server_axioms assms(1) stored True run] s1 show thesis
      using closed by (simp add: untouched_def)
  next
    case False
    let ?q = "stored_trace tid (rc_now cfg (rs_drawn (pf_redis s))) (moved_trace status lifecycle patch current)"
    from stored_text_reads [OF json_ok_moved [OF json_object_ok [OF stored] patch]]
    have rd: "json_object (stored_reply (Some (dumps (PDict ?q)))) = Some ?q" .
    from run_transition [OF assms(1) stored False refl rd, of trace event_type] run
    have "moved = Some ?q" "view (rs_server r) (trace_key cfg tid) = Some (dumps (PDict ?q))" by auto
    with rd s1 False show thesis by (intro moved [of ?q]) auto
  qed
qed

end

end
