(* ===== verification/HandlerClaims.thy ===== *)
theory HandlerClaims
  imports Answers StrategyBlocking
begin

text \<open>
  What the write endpoints guarantee: which orders and fills a request can store, when an operator can
  close a recovery trace, when an order is cancelled locally; and where an endpoint goes around a
  protection of the background loops.
\<close>

section \<open>Steps of a handler\<close>

lemma answers_settled:
  assumes "\<And>c s'. untouched view s s' \<Longrightarrow> Q c s'"
  shows "answers Q (with_moved_trace cfg moved (\<lambda>t. respond cfg c (PDict t))) s"
proof -
  have "refusable view Q s" using assms by (simp add: refusable_def)
  moreover have "answers Q (respond cfg c (PDict t)) s" for t by (rule answers_respond, rule assms) (simp add: untouched_def)
  ultimately show ?thesis
    by (cases moved) (auto simp: with_moved_trace_def trace_not_found_def trace_terminal_def intro: answers_refuse)
qed

lemma pget_conflict: "pget (dset d ''_conflict'' (PStr ''terminal'')) ''_conflict'' = PStr ''terminal''"
  by (simp add: pget_def)

lemma answers_closed:
  "refusable view Q s \<Longrightarrow> answers Q (with_moved_trace cfg (Some (dset d ''_conflict'' (PStr ''terminal''))) f) s"
  by (simp add: with_moved_trace_def pget_conflict trace_terminal_def answers_refuse)

section \<open>Operators and recovery traces\<close>

lemma zero_number_iff: "is_zero_number_text v \<longleftrightarrow> (\<exists>t d. v = Some t \<and> dparse t = Some d \<and> dval d = 0)"
  by (auto simp: is_zero_number_text_def deq_iff split: option.splits)

definition resolved_flat :: "obj \<Rightarrow> bool" where
  \<comment> \<open>a trace closed as resolved, with a residual exposure of zero\<close>
  "resolved_flat trace = (low_text trace ''status'' = ''resolved''
     \<and> (\<exists>t d. pget trace ''residual_exposure_quote'' = PStr t \<and> dparse t = Some d \<and> dval d = 0))"

lemma json_ok_resolve_patch: "list_all (\<lambda>p. json_ok (snd p)) (resolve_patch body exposure ts)"
  by (simp add: resolve_patch_def json_ok_opt_str text_or_default_def opt_body_text_def)

lemma map_of_rev_distinct: "distinct (map fst d) \<Longrightarrow> map_of (rev d) = map_of d"
proof (induction d)
  case (Cons p d)
  then have "map_of d (fst p) = None" by (simp add: map_of_eq_None_iff)
  with Cons show ?case by (auto simp: map_add_def fun_eq_iff split: option.split)
qed simp

lemma stored_patch:
  assumes "q = stored_trace tid ts (moved_trace status lifecycle (Some patch) current)" and "distinct (map fst patch)"
    and "k \<notin> {''recovery_trace_id'', ''updated_at''}"
  shows "pget q k = (case map_of patch k of Some v \<Rightarrow> v
     | None \<Rightarrow> if k = ''status'' then PStr status else if k = ''lifecycle_state'' then PStr lifecycle else pget current k)"
  using assms by (simp add: stored_trace_def moved_trace_def pget_def map_of_dmerge map_of_rev_distinct split: option.split)

definition zero_text :: "string option \<Rightarrow> bool" where
  "zero_text v = (\<exists>t d. v = Some t \<and> dparse t = Some d \<and> dval d = 0)"

definition refused_or_resolved ::
    "('r \<Rightarrow> string \<Rightarrow> string option) \<Rightarrow> string \<Rightarrow> http_call \<Rightarrow> ('r, 'x) platform_scheme \<Rightarrow> ('r, 'x) answer_spec" where
  "refused_or_resolved view key call s c s' = (pf_store s' = pf_store s
     \<and> ((400 \<le> c \<and> view (rs_server (pf_redis s')) = view (rs_server (pf_redis s)))
       \<or> (\<exists>current body latest. json_object (stored_reply (view (rs_server (pf_redis s)) key)) = Some current
            \<and> low_text current ''status'' \<notin> {''resolved'', ''cancelled''} \<and> request_body call = Some body
            \<and> (in_body body ''residual_exposure_quote'' \<or> zero_text (optional_string (pget current ''residual_exposure_quote'')))
            \<and> json_object (stored_reply (view (rs_server (pf_redis s')) key)) = Some latest \<and> resolved_flat latest)))"

lemma refused_or_resolved_refusable: "refusable view (refused_or_resolved view key call s) s"
  by (simp add: refusable_def refused_or_resolved_def untouched_def)

lemma stated_or_stored:
  assumes "is_zero_number_text (effective_residual body current)"
  shows "in_body body ''residual_exposure_quote'' \<or> zero_text (optional_string (pget current ''residual_exposure_quote''))"
proof (cases "in_body body ''residual_exposure_quote''")
  case False
  then have "map_of body ''residual_exposure_quote'' = None" by (simp add: in_body_def dkeys_def map_of_eq_None_iff)
  then have "json_number_text (pget body ''residual_exposure_quote'') = None" by (simp add: pget_def)
  with assms show ?thesis by (simp add: effective_residual_def zero_number_iff zero_text_def)
qed simp

lemma answers_resolve:
  assumes "redis_server exec view" and "rc_client cfg" and "untouched view s0 s" and body: "request_body call = Some body"
    and stored: "json_object (stored_reply (view (rs_server (pf_redis s)) (trace_key cfg tid))) = Some current"
    and zero: "is_zero_number_text (effective_residual body current)"
    and run: "run_state (on_redis (transition_recovery_trace exec cfg tid ''resolved'' ''closed''
      (Some (resolve_patch body (effective_residual body current) ts)) trace e)) s = (moved, s1)"
  shows "answers (refused_or_resolved view (trace_key cfg tid) call s0) (with_moved_trace cfg moved (\<lambda>t. respond cfg 200 (PDict t))) s1"
proof -
  let ?exposure = "effective_residual body current"
  have patch: "list_all (\<lambda>p. json_ok (snd p)) (case Some (resolve_patch body ?exposure ts) of None \<Rightarrow> [] | Some p \<Rightarrow> p)"
    using json_ok_resolve_patch by simp
  show ?thesis
  proof (rule redis_server.transition_cases [OF assms(1,2) run stored patch], goal_cases closed moved)
    case closed
    from refusable_later [where view = view, OF refused_or_resolved_refusable untouched_trans [OF assms(3) closed(2)]]
    show ?thesis unfolding closed(1) by (rule answers_closed)
  next
    case (moved q)
    have "distinct (map fst (resolve_patch body ?exposure ts))" by (simp add: resolve_patch_def)
    from stored_patch [OF moved(4) this] have "pget q ''status'' = PStr ''resolved''" "pget q ''residual_exposure_quote'' = opt_str ?exposure"
      by (simp_all add: resolve_patch_def)
    moreover have "lower (strip ''resolved'') = ''resolved''" by code_simp
    ultimately have flat: "resolved_flat q" using zero
      by (auto simp: resolved_flat_def low_text_def text_of_def raw_text_def por_def zero_number_iff)
    have "refused_or_resolved view (trace_key cfg tid) call s0 c s'" if "untouched view s1 s'" for c s'
    proof -
      from that assms(3) moved(2) have "pf_store s' = pf_store s0" by (simp add: untouched_def)
      moreover from that moved(5) have "json_object (stored_reply (view (rs_server (pf_redis s')) (trace_key cfg tid))) = Some q"
        by (simp add: untouched_def)
      moreover from stored assms(3) have "json_object (stored_reply (view (rs_server (pf_redis s0)) (trace_key cfg tid))) = Some current"
        by (simp add: untouched_def)
      ultimately show ?thesis
        using moved(3) body stated_or_stored [OF zero] flat unfolding refused_or_resolved_def by blast
    qed
    then show ?thesis by (rule answers_settled)
  qed
qed


text \<open>Traces an operator works on: one without exposure and one with an exposure of 125.\<close>

definition demo_desk :: "string \<Rightarrow> (string, string) dict strategy_state" where
  "demo_desk exposure = new_strategy_state (demo_table [(trace_key demo_trade_cfg ''t1'', dumps (PDict [
     (''residual_exposure_quote'', PStr exposure)]))]) demo_trade_store"

definition demo_bare_call :: http_call where
  "demo_bare_call = \<lparr>hc_length = None, hc_body = (\<lambda>n. []), hc_trace_id = None\<rparr>"


lemma run_on_store_server: "run_state (on_store g) s = (a, s1) \<Longrightarrow> rs_server (pf_redis s1) = rs_server (pf_redis s)"
  by (auto simp: on_store_def split: prod.splits)

lemma answers_with_unwind_intent:
  assumes "\<And>s1. refusable view Q s1"
    and "\<And>i s1. rs_server (pf_redis s1) = rs_server (pf_redis s) \<Longrightarrow> answers Q (f i) s1"
  shows "answers Q (with_unwind_intent sv tid body current f) s"
  unfolding with_unwind_intent_def Let_def
proof (split if_split, intro conjI impI)
  show "answers Q (f None) s" by (rule assms(2)) (rule refl)
  show "answers Q (when_mutable sv
      (conflict_if (sv_cfg sv) (linked_id current ''linked_unwind_action_id'' \<noteq> []) ''RECOVERY_TRACE_UNWIND_INTENT_EXISTS''
         ''recovery trace already has a linked unwind action''
      (require_that (sv_cfg sv) (unwind_problem body = None) (given_text (unwind_problem body))
      (require_that (sv_cfg sv) (is_positive_number_text (field (unwind_fields body) ''target_qty'')) ''target_qty must be a positive number''
      (conflict_if (sv_cfg sv) (linked_id current ''run_id'' = []) ''RECOVERY_TRACE_RUN_ID_MISSING''
         ''recovery trace does not have a strategy run id'' (do {
         r \<leftarrow> on_store (op_create_intent (order_ops_of (sv_cfg sv)) (unwind_intent_args tid (linked_id current ''run_id'') body));
         (case r of
            (Created, Some i) \<Rightarrow> f (Some i)
          | _ \<Rightarrow> refuse (sv_cfg sv) 409 ''RECOVERY_TRACE_UNWIND_INTENT_CREATE_FAILED'' ''failed to create linked unwind intent'') })))))) s"
  proof (intro answers_when_mutable [OF assms(1)] answers_conflict_if [OF assms(1)] answers_require_that [OF assms(1)] answers_bind)
    fix r s1
    assume "run_state (on_store (op_create_intent (order_ops_of (sv_cfg sv)) (unwind_intent_args tid (linked_id current ''run_id'') body))) s = (r, s1)"
    from run_on_store_server [OF this] have "answers Q (f i) s1" for i by (rule assms(2))
    moreover have "answers Q (refuse (sv_cfg sv) 409 code message) s1" for code message by (rule answers_refuse [OF assms(1)]) simp
    ultimately show "answers Q (case r of
            (Created, Some i) \<Rightarrow> f (Some i)
          | _ \<Rightarrow> refuse (sv_cfg sv) 409 ''RECOVERY_TRACE_UNWIND_INTENT_CREATE_FAILED'' ''failed to create linked unwind intent'') s1"
      by (simp split: prod.split outcome.split option.split)
  qed
qed

definition unwinding :: "obj \<Rightarrow> bool" where
  \<comment> \<open>a trace being unwound, without a residual exposure\<close>
  "unwinding trace = (pget trace ''residual_exposure_quote'' = PNone \<and> pget trace ''status'' = PStr ''active''
     \<and> pget trace ''lifecycle_state'' = PStr ''unwind_in_progress'')"

lemma json_ok_request_body: "request_body call = Some body \<Longrightarrow> json_ok (PDict body)"
  by (auto simp: request_body_def read_json_body_def dest!: loads_wellformed split: if_splits sum.splits option.splits pyval.splits)

lemma json_ok_opt_object: "json_ok (PDict body) \<Longrightarrow> json_ok (opt_object body k)"
  using json_ok_pget [of body k]
  by (cases "pget body k") (simp_all add: opt_object_def)

lemma unwind_patch_ok:
  assumes "json_ok (PDict body)"
  shows "list_all (\<lambda>p. json_ok (snd p)) (unwind_patch body i ts)" and "distinct (map fst (unwind_patch body i ts))"
  using json_ok_opt_object [OF assms]
  by (cases i; simp add: unwind_patch_def text_or_default_def opt_body_text_def json_ok_opt_str)+

lemma unwind_patch_residual:
  assumes "\<not> in_body body ''residual_exposure_quote''"
  shows "map_of (unwind_patch body i ts) ''residual_exposure_quote'' = Some PNone
    \<and> map_of (unwind_patch body i ts) ''status'' = None \<and> map_of (unwind_patch body i ts) ''lifecycle_state'' = None"
proof -
  from assms have "map_of body ''residual_exposure_quote'' = None" by (simp add: in_body_def dkeys_def map_of_eq_None_iff)
  then have "opt_str (json_number_text (pget body ''residual_exposure_quote'')) = PNone" by (simp add: pget_def)
  then show ?thesis by (cases i) (simp_all add: unwind_patch_def)
qed

lemma answers_unwind_started:
  assumes at_key: "\<And>c s'. view (rs_server (pf_redis s')) key = view (rs_server (pf_redis s)) key \<Longrightarrow> Q c s'"
    and events: "\<And>e x. keeps view key (publish_order_event exec cfg e x (hc_trace_id call))"
  shows "answers Q (with_moved_trace cfg moved (\<lambda>t. case i of
           None \<Rightarrow> respond cfg 200 (PDict t)
         | Some x \<Rightarrow> do {
             _ \<leftarrow> publish_order exec cfg call ''order_intent.created'' (intent_event x);
             respond cfg 200 (PDict (dset t ''created_unwind_intent'' (PDict (intent_row x)))) })) s"
proof -
  have "refusable view Q s" using at_key by (simp add: refusable_def untouched_def)
  note refuse = answers_refuse [OF this]
  have respond: "answers Q (respond cfg 200 v) s1" if "view (rs_server (pf_redis s1)) key = view (rs_server (pf_redis s)) key" for v s1
    by (rule answers_respond, rule at_key) (simp add: that)
  have published: "answers Q (do { _ \<leftarrow> publish_order exec cfg call ''order_intent.created'' (intent_event x); respond cfg 200 v }) s" for x v
  proof (rule answers_bind)
    fix b s1
    assume "run_state (publish_order exec cfg call ''order_intent.created'' (intent_event x)) s = (b, s1)"
    then show "answers Q (respond cfg 200 v) s1"
      by (intro respond) (auto simp: publish_order_def run_task dest: keeps_run [OF events] split: prod.splits)
  qed
  from refuse respond published show ?thesis
    by (cases moved; cases i) (simp_all add: with_moved_trace_def trace_not_found_def trace_terminal_def)
qed

context redis_server
begin

lemma keeps_order_event: "keeps view (trace_key cfg tid) (publish_order_event exec cfg e x trace)"
  unfolding publish_order_event_def by (intro keeps_intros trace_key_others)

end

text \<open>
  C38. Starting an unwind forgets the exposure. A request that does not give \<open>residual_exposure_quote\<close> and is
  answered with success leaves the stored trace active, as being unwound, and with no residual exposure,
  whatever exposure was recorded before.
\<close>

theorem start_unwind_forgets_exposure:
  assumes "redis_server exec view" and "rc_client (sv_cfg sv)"
    and "request_body call = Some body" and "\<not> in_body body ''residual_exposure_quote''"
    and "run_state (start_unwind_recovery_trace_response exec sv tid call) s = (Returned (200, reply), s')"
  shows "\<exists>latest. json_object (stored_reply (view (rs_server (pf_redis s')) (trace_key (sv_cfg sv) tid))) = Some latest \<and> unwinding latest"
proof -
  let ?cfg = "sv_cfg sv"
  let ?P = "\<lambda>s'. \<exists>latest. json_object (stored_reply (view (rs_server (pf_redis s')) (trace_key ?cfg tid))) = Some latest \<and> unwinding latest"
  let ?Q = "\<lambda>c s'. c = 200 \<longrightarrow> ?P s'"
  have any: "refusable view ?Q s1" for s1 by (simp add: refusable_def)
  have "answers ?Q (start_unwind_recovery_trace_response exec sv tid call) s"
    unfolding start_unwind_recovery_trace_response_def Let_def
  proof (intro answers_when_redis [OF any] answers_with_optional_body [OF any] answers_require_that [OF any]
      redis_server.answers_with_open_trace [OF assms(1,2) any] answers_with_unwind_intent [OF any] answers_bind)
    fix body' current s1 i s2 ts s3 moved s4
    assume body: "request_body call = Some body'"
      and stored: "json_object (stored_reply (view (rs_server (pf_redis s)) (trace_key ?cfg tid))) = Some current"
      and open_trace: "low_text current ''status'' \<notin> {''resolved'', ''cancelled''}"
      and "untouched view s s1" and "rs_server (pf_redis s2) = rs_server (pf_redis s1)"
      and "run_state (on_redis (draw_now ?cfg)) s2 = (ts, s3)"
      and run: "run_state (on_redis (transition_recovery_trace exec ?cfg tid ''active'' ''unwind_in_progress''
         (Some (unwind_patch body' i ts)) (hc_trace_id call) (Some ''strategy.recovery_trace.unwind_started''))) s3 = (moved, s4)"
    then have "json_object (stored_reply (view (rs_server (pf_redis s3)) (trace_key ?cfg tid))) = Some current"
      by (auto simp: untouched_def run_task draw_now_def)
    note stored3 = this
    note ok = unwind_patch_ok [OF json_ok_request_body [OF body], of i ts]
    have events: "\<And>e x. keeps view (trace_key ?cfg tid) (publish_order_event exec ?cfg e x (hc_trace_id call))"
      by (rule redis_server.keeps_order_event [OF assms(1)])
    from body assms(3,4) have none: "\<not> in_body body' ''residual_exposure_quote''" by simp
    show "answers ?Q (with_moved_trace ?cfg moved (\<lambda>t. case i of
           None \<Rightarrow> respond ?cfg 200 (PDict t)
         | Some x \<Rightarrow> do {
             _ \<leftarrow> publish_order exec ?cfg call ''order_intent.created'' (intent_event x);
             respond ?cfg 200 (PDict (dset t ''created_unwind_intent'' (PDict (intent_row x)))) })) s4"
    proof (rule redis_server.transition_cases [OF assms(1,2) run stored3], goal_cases patch closed moved)
      case patch
      then show ?case using ok(1) by simp
    next
      case closed
      then show ?case by (simp only: answers_closed [OF any])
    next
      case (moved q)
      from stored_patch [OF moved(4) ok(2)] unwind_patch_residual [OF none] have "unwinding q" by (simp add: unwinding_def)
      with moved(5) show ?case by (intro answers_unwind_started [OF _ events]) simp
    qed
  qed
  from answersD [OF this assms(5)] show ?thesis by simp
qed

definition demo_setup :: server_setup where
  "demo_setup = \<lparr>sv_cfg = demo_trade_cfg, sv_mutations = True, sv_backend = ''memory''\<rparr>"

lemma start_unwind_forgets_exposure_witness:
  "\<exists>reply s' latest. run_state (start_unwind_recovery_trace_response table_exec demo_setup ''t1'' demo_bare_call) (demo_desk ''125'')
      = (Returned (200, reply), s')
    \<and> json_object (stored_reply (map_of (rs_server (pf_redis s')) (trace_key demo_trade_cfg ''t1''))) = Some latest \<and> unwinding latest"
proof -
  have "case run_state (start_unwind_recovery_trace_response table_exec demo_setup ''t1'' demo_bare_call) (demo_desk ''125'') of
      (Returned (c, _), _) \<Rightarrow> c = 200 | _ \<Rightarrow> False" by code_simp
  then obtain reply s' where run: "run_state (start_unwind_recovery_trace_response table_exec demo_setup ''t1'' demo_bare_call) (demo_desk ''125'')
      = (Returned (200, reply), s')" by (auto split: prod.splits run.splits)
  have desk: "sv_cfg demo_setup = demo_trade_cfg" "rc_client (sv_cfg demo_setup)"
    by (simp_all add: demo_setup_def demo_trade_cfg_def demo_cfg_def)
  have body: "request_body demo_bare_call = Some []" "\<not> in_body [] ''residual_exposure_quote''"
    by (simp_all add: request_body_def demo_bare_call_def in_body_def dkeys_def)
  from start_unwind_forgets_exposure [OF tables.redis_server_axioms desk(2) body run] run show ?thesis
    by (auto simp: desk(1))
qed

section \<open>Orders and fills\<close>

definition stores_order :: "order \<Rightarrow> store \<Rightarrow> store \<Rightarrow> bool" where
  \<comment> \<open>an order for a stored intent joins the orders, and its exchange identifier is new there\<close>
  "stores_order x s s' = (orders s' = dset (orders s) (order_id x) x \<and> fills s' = fills s
     \<and> (\<exists>i. map_of (order_intents s) (ord_intent_id x) = Some i \<and> ord_market x = int_market i
          \<and> ord_exchange_name x \<in> {int_buy_exchange i, int_sell_exchange i})
     \<and> (ord_exchange_order_id x \<noteq> None \<longrightarrow> list_all (\<lambda>y. ord_exchange_name y = ord_exchange_name x
          \<longrightarrow> ord_exchange_order_id y \<noteq> ord_exchange_order_id x) (dvals (orders s))))"

definition positive_text :: "string \<Rightarrow> bool" where
  "positive_text t = (\<exists>d. dparse t = Some d \<and> 0 < dval d)"

definition sound_order :: "order \<Rightarrow> bool" where
  "sound_order x = (ord_side x \<in> {''buy'', ''sell''} \<and> positive_text (ord_requested_qty x)
     \<and> (case ord_requested_price x of None \<Rightarrow> True | Some p \<Rightarrow> positive_text p) \<and> ord_status x \<in> set ORDER_STATUSES)"

lemma create_order_cases:
  "create_order uid ts a s = (s', oc, r) \<Longrightarrow>
    (oc = Created \<and> (\<exists>x i. r = Some x \<and> map_of (order_intents s) (oa_intent_id a) = Some i \<and> x = new_order uid ts i a
        \<and> stores_order x s s'))
    \<or> (oc \<in> {NotFound, Conflict, Invalid} \<and> s' = s)"
  by (auto simp: create_order_def stores_order_def new_order_def Let_def list_all_iff find_None_iff same_exchange_order_def
      split: option.splits if_splits)

lemma run_publish: "\<exists>b s1. run_state (publish_order exec cfg call e payload) s = (b, s1) \<and> pf_store s1 = pf_store s"
  by (simp add: publish_order_def on_redis_def split: prod.split)

definition refused_or_stored :: "(store \<Rightarrow> store \<Rightarrow> bool) \<Rightarrow> ('r, 'x) platform_scheme \<Rightarrow> ('r, 'x) answer_spec" where
  \<comment> \<open>an error that leaves the store as it was, or 201 and the change of the store\<close>
  "refused_or_stored R s c s' = ((400 \<le> c \<and> pf_store s' = pf_store s) \<or> (c = 201 \<and> R (pf_store s) (pf_store s')))"

definition unseen :: "'r \<Rightarrow> string \<Rightarrow> string option" where
  \<comment> \<open>nothing is asked of Redis\<close>
  "unseen r k = None"

lemma refused_or_stored_refusable: "refusable unseen (refused_or_stored R s) s"
  by (simp add: refusable_def refused_or_stored_def untouched_def)

lemma answers_refuse_store:
  "pf_store s1 = pf_store s \<Longrightarrow> 400 \<le> c \<Longrightarrow> answers (refused_or_stored R s) (refuse cfg c code message) s1"
  by (auto simp: answers_def run_refuse error_response_def refused_or_stored_def)

lemma answers_published:
  assumes "R (pf_store s) (pf_store s1)"
  shows "answers (refused_or_stored R s) (do { _ \<leftarrow> publish_order exec cfg call e payload; respond cfg 201 v }) s1"
proof (rule answers_bind)
  fix b s2
  assume "run_state (publish_order exec cfg call e payload) s1 = (b, s2)"
  with run_publish [of exec cfg call e payload s1] have "pf_store s2 = pf_store s1" by auto
  with assms show "answers (refused_or_stored R s) (respond cfg 201 v) s2"
    by (intro answers_respond) (simp add: refused_or_stored_def)
qed

lemma run_create_order:
  assumes "run_state (on_store (op_create_order (order_ops_of cfg) a)) s = ((oc, r), s1)"
  shows "\<exists>uid ts. create_order uid ts a (pf_store s) = (pf_store s1, oc, r)"
  using assms by (auto simp: on_store_def order_ops_of_def mem_ops_def split: prod.splits, blast)

lemma missing_empty: "missing fs = [] \<longleftrightarrow> list_all (\<lambda>(k, v). v \<noteq> None \<and> v \<noteq> Some []) fs"
  by (induction fs) (auto simp: missing_def)

lemma sound_order_of_body:
  assumes "invalid_order_fields fs body = []" and "fs = order_fields body" and "missing fs = []"
    and "is_positive_number_text (field fs ''requested_qty'')" and "price_ok body"
  shows "sound_order (new_order uid ts i (order_args_of_body intent fs body))"
proof -
  from assms(3) have "map_of fs ''side'' \<noteq> Some None" by (simp add: missing_empty assms(2) order_fields_def)
  with assms(1) have "field fs ''side'' \<in> {''buy'', ''sell''}"
    by (auto simp: invalid_order_fields_def named_if_def ORDER_SIDES_def split: if_splits)
  moreover have "order_status_of_body body \<in> set ORDER_STATUSES"
  proof (cases "in_body body ''status''")
    case False
    then have "pget body ''status'' = PNone" by (simp add: in_body_def pget_def dkeys_def flip: map_of_eq_None_iff)
    then show ?thesis by (simp add: order_status_of_body_def or_default_def ORDER_STATUSES_def)
  qed (use assms(1) in \<open>auto simp: invalid_order_fields_def named_if_def split: if_splits\<close>)
  ultimately show ?thesis using assms(4,5)
    by (auto simp: sound_order_def new_order_def order_args_of_body_def positive_text_def price_ok_def positive_number_iff split: option.splits)
qed

definition adds_sound_order :: "store \<Rightarrow> store \<Rightarrow> bool" where
  "adds_sound_order s s' = (\<exists>x. stores_order x s s' \<and> sound_order x)"

text \<open>
  A request can only store a sound order. Whatever the body says, a request for an order is either refused
  with an error status and leaves the store as it is, or answered with 201 and adds one order to it: for a
  stored intent, in its market and on one of its exchanges, on a side, for a positive quantity, at a
  positive price if one is given, in a known status, with an exchange identifier that is new there.
\<close>

theorem order_request_is_checked:
  assumes "run_state (create_order_response exec sv call) s = (Returned (status, reply), s')"
  shows "refused_or_stored adds_sound_order s status s'"
proof -
  let ?cfg = "sv_cfg sv" and ?Q = "refused_or_stored adds_sound_order s"
  note start = refused_or_stored_refusable
  have "answers ?Q (create_order_response exec sv call) s"
    unfolding create_order_response_def require_order_numbers_def Let_def
  proof (intro answers_when_mutable [OF start] answers_with_body [OF start] answers_require_fields [OF start] answers_require_that [OF start] answers_bind)
    fix body r s1
    assume sound: "invalid_order_fields (order_fields body) body = []" "missing (order_fields body) = []"
        "is_positive_number_text (field (order_fields body) ''requested_qty'')" "price_ok body"
      and run: "run_state (on_store (op_create_order (order_ops_of ?cfg)
        (order_args_of_body (field (order_fields body) ''order_intent_id'') (order_fields body) body))) s = (r, s1)"
    obtain oc x where r: "r = (oc, x)" by (cases r)
    from run_create_order [OF run [unfolded r]] obtain uid ts where c: "create_order uid ts
      (order_args_of_body (field (order_fields body) ''order_intent_id'') (order_fields body) body) (pf_store s) = (pf_store s1, oc, x)" by blast
    show "answers ?Q (case r of
          (NotFound, _) \<Rightarrow> refuse ?cfg 404 ''ORDER_INTENT_NOT_FOUND'' ''order_intent_id not found''
        | (Conflict, _) \<Rightarrow> refuse ?cfg 409 ''ORDER_CONFLICT'' ''exchange_name and exchange_order_id already exist''
        | (Invalid, _) \<Rightarrow> refuse ?cfg 422 ''ORDER_VALIDATION_FAILED'' ''market or exchange_name does not match order_intent''
        | (_, Some x) \<Rightarrow> do {
            _ \<leftarrow> publish_order exec ?cfg call ''order.created'' (order_event x);
            respond ?cfg 201 (PDict (order_row x)) }
        | (_, None) \<Rightarrow> State_Monad.return (Raised (TypeError ''NoneType''))) s1"
      using create_order_cases [OF c]
    proof
      assume "oc \<in> {NotFound, Conflict, Invalid} \<and> pf_store s1 = pf_store s"
      then show ?thesis using answers_refuse_store [of s1 s] by (auto simp: r)
    next
      assume "oc = Created \<and> (\<exists>y i. x = Some y \<and> map_of (order_intents (pf_store s)) (oa_intent_id
          (order_args_of_body (field (order_fields body) ''order_intent_id'') (order_fields body) body)) = Some i
        \<and> y = new_order uid ts i (order_args_of_body (field (order_fields body) ''order_intent_id'') (order_fields body) body)
        \<and> stores_order y (pf_store s) (pf_store s1))"
      with sound_order_of_body [OF sound(1) refl sound(2-4)] obtain y where "oc = Created" "x = Some y"
        "adds_sound_order (pf_store s) (pf_store s1)" unfolding adds_sound_order_def by blast
      then show ?thesis using answers_published [of adds_sound_order s s1] by (simp add: r)
    qed
  qed
  from answersD [OF this assms] show ?thesis .
qed

lemma run_create_fill:
  assumes "run_state (on_store (op_create_fill (order_ops_of cfg) a)) s = (r, s1)"
  shows "(\<exists>e. r = Inl e \<and> pf_store s1 = pf_store s) \<or> (\<exists>uid ts x. r = Inr x \<and> create_fill uid ts a (pf_store s) = Inr (pf_store s1, x))"
proof (cases "create_fill (rc_uid cfg (rs_drawn (pf_redis s))) (rc_now cfg (rs_drawn (pf_redis s))) a (pf_store s)")
  case (Inl e)
  with assms show ?thesis by (auto simp: on_store_def order_ops_of_def mem_ops_def)
next
  case (Inr p)
  obtain s2 x where p: "p = (s2, x)" by (cases p)
  with assms Inr have "r = Inr x" "pf_store s1 = s2" by (auto simp: on_store_def order_ops_of_def mem_ops_def)
  with Inr p show ?thesis by blast
qed

lemma create_fill_refused:
  "create_fill uid ts a s = Inr (s', oc, r) \<Longrightarrow> oc \<noteq> Created \<Longrightarrow> s' = s \<and> oc \<in> {NotFound, Conflict, Invalid}"
  by (auto simp: create_fill_def andThen_eq_Inr Let_def split: option.splits if_splits prod.splits)

definition adds_sound_fill :: "store \<Rightarrow> store \<Rightarrow> bool" where
  "adds_sound_fill s s' = (\<exists>f ord requested filled qty. fills s' = f # fills s \<and> map_of (orders s) (fl_order_id f) = Some ord
     \<and> ord_status ord \<notin> set TERMINAL_ORDER_STATUSES \<and> positive_text (fl_price f) \<and> positive_text (fl_qty f)
     \<and> (case fl_fee_amount f of None \<Rightarrow> True | Some t \<Rightarrow> is_nonnegative_number_text t)
     \<and> decimal_of (ord_requested_qty ord) = Inr requested \<and> filled_qty_of (fills s) (fl_order_id f) = Inr filled
     \<and> decimal_of (fl_qty f) = Inr qty \<and> dval (dadd filled qty) \<le> dval requested)"

lemma sound_fill_of_args:
  assumes "create_fill uid ts a s = Inr (s', Created, r)" and "is_positive_number_text (fa_price a)"
    and "is_positive_number_text (fa_qty a)" and "case fa_fee_amount a of None \<Rightarrow> True | Some t \<Rightarrow> is_nonnegative_number_text t"
  shows "adds_sound_fill s s' \<and> r \<noteq> None"
  using assms(1)
proof (cases rule: create_fill_cases)
  case (filled ord requested current qty)
  let ?f = "snd (apply_fill uid ts ord (if deq (dadd current qty) requested then ''filled'' else ''partially_filled'') a s)"
  have f: "fills s' = ?f # fills s" "fl_order_id ?f = fa_order_id a" "fl_price ?f = fa_price a" "fl_qty ?f = fa_qty a"
      "fl_fee_amount ?f = fa_fee_amount a"
    using filled(9) by (simp_all add: apply_fill_def new_fill_def Let_def)
  with filled assms(2-4) have "adds_sound_fill s s'" unfolding adds_sound_fill_def
    by (intro exI [of _ ?f] exI [of _ ord] exI [of _ requested] exI [of _ current] exI [of _ qty])
       (simp add: positive_text_def positive_number_iff dlt_iff)
  with filled show ?thesis by simp
qed simp

text \<open>
  A request can only store a sound fill. Whatever the body says, a request for a fill is either refused with
  an error status and leaves the store as it is, or answered with 201 and adds one fill to it: of a stored
  order that is not terminal, at a positive price, for a positive quantity with which the order's
  fills stay within the requested quantity, with no negative fee.
\<close>

theorem fill_request_is_checked:
  assumes "run_state (create_fill_response exec sv call) s = (Returned (status, reply), s')"
  shows "refused_or_stored adds_sound_fill s status s'"
proof -
  let ?cfg = "sv_cfg sv" and ?Q = "refused_or_stored adds_sound_fill s"
  note start = refused_or_stored_refusable
  have "answers ?Q (create_fill_response exec sv call) s"
    unfolding create_fill_response_def require_fill_numbers_def Let_def
  proof (intro answers_when_mutable [OF start] answers_with_body [OF start] answers_require_fields [OF start] answers_require_that [OF start] answers_bind)
    fix body r s1
    let ?a = "fill_args_of_body (field (fill_fields body) ''order_id'') (fill_fields body) body"
    let ?f = "\<lambda>x. do { _ \<leftarrow> publish_order exec ?cfg call ''fill.created'' (fill_event x); respond ?cfg 201 (PDict (fill_row x)) }"
    assume "is_positive_number_text (field (fill_fields body) ''fill_price'')" "is_positive_number_text (field (fill_fields body) ''fill_qty'')"
      "case json_number_text (pget body ''fee_amount'') of None \<Rightarrow> True | Some t \<Rightarrow> is_nonnegative_number_text t"
    then have sound: "is_positive_number_text (fa_price ?a)" "is_positive_number_text (fa_qty ?a)"
      "case fa_fee_amount ?a of None \<Rightarrow> True | Some t \<Rightarrow> is_nonnegative_number_text t" by (simp_all add: fill_args_of_body_def)
    assume "run_state (on_store (op_create_fill (order_ops_of ?cfg) ?a)) s = (r, s1)"
    from run_create_fill [OF this] show "answers ?Q (answer_fill ?cfg ''order_id not found'' r ?f) s1"
    proof
      assume "\<exists>e. r = Inl e \<and> pf_store s1 = pf_store s"
      then show ?thesis by (auto simp: answer_fill_def answers_raised)
    next
      assume "\<exists>uid ts x. r = Inr x \<and> create_fill uid ts ?a (pf_store s) = Inr (pf_store s1, x)"
      then obtain uid ts oc x where r: "r = Inr (oc, x)" and c: "create_fill uid ts ?a (pf_store s) = Inr (pf_store s1, oc, x)" by auto
      show ?thesis
      proof (cases "oc = Created")
        case True
        from sound_fill_of_args [OF c [unfolded True] sound] answers_published [of adds_sound_fill s s1]
        show ?thesis by (auto simp: r True answer_fill_def)
      next
        case False
        from create_fill_refused [OF c False] have "pf_store s1 = pf_store s" "oc \<in> {NotFound, Conflict, Invalid}" by auto
        with answers_refuse_store [of s1 s] show ?thesis by (auto simp: r answer_fill_def)
      qed
    qed
  qed
  from answersD [OF this assms] show ?thesis .
qed

section \<open>Cancelling orders\<close>

definition confirmed :: "cancels \<Rightarrow> order \<Rightarrow> string \<Rightarrow> bool" where
  \<comment> \<open>the exchange of the order answered the cancellation with this status\<close>
  "confirmed cs x st = (\<exists>cancel r data. map_of cs (ord_exchange_name x) = Some cancel
     \<and> cancel (given_text (ord_exchange_order_id x)) (ord_market x) = Inr r \<and> px_outcome r = ''ok'' \<and> px_data r = PDict data
     \<and> lower (strip (given_text (optional_string (pget data ''status'')))) = st)"

definition closes :: "cancels \<Rightarrow> order \<Rightarrow> order \<Rightarrow> order \<Rightarrow> bool" where
  \<comment> \<open>an open order moves to a closed status that the exchange of the listed order confirmed\<close>
  "closes cs x old new = (lower (strip (ord_status old)) \<notin> set TERMINAL_ORDER_STATUSES
     \<and> (\<exists>st t. new = old\<lparr>ord_status := st, ord_updated_at := t\<rparr> \<and> st \<in> {''cancelled'', ''rejected'', ''expired''} \<and> confirmed cs x st))"

definition closed_as_confirmed :: "cancels \<Rightarrow> order list \<Rightarrow> store \<Rightarrow> store \<Rightarrow> bool" where
  \<comment> \<open>only listed orders change, and each as its exchange confirmed\<close>
  "closed_as_confirmed cs xs s s' = (fills s' = fills s \<and> order_intents s' = order_intents s
     \<and> (\<forall>k. map_of (orders s') k = map_of (orders s) k
       \<or> (\<exists>x old new. x \<in> set xs \<and> order_id x = k \<and> map_of (orders s) k = Some old \<and> map_of (orders s') k = Some new \<and> closes cs x old new)))"

lemma closed_as_confirmed_refl: "closed_as_confirmed cs xs s s"
  by (simp add: closed_as_confirmed_def)

lemma closed_as_confirmed_cases:
  assumes "closed_as_confirmed cs xs s s'"
  obtains "map_of (orders s') k = map_of (orders s) k"
  | x old new where "x \<in> set xs" "order_id x = k" "map_of (orders s) k = Some old" "map_of (orders s') k = Some new" "closes cs x old new"
  using assms unfolding closed_as_confirmed_def by blast

lemma closed_statuses: "st \<in> {''cancelled'', ''rejected'', ''expired''} \<Longrightarrow> lower (strip st) = st \<and> st \<in> set TERMINAL_ORDER_STATUSES"
proof -
  have "list_all (\<lambda>st. lower (strip st) = st \<and> st \<in> set TERMINAL_ORDER_STATUSES) [''cancelled'', ''rejected'', ''expired'']" by code_simp
  then show "st \<in> {''cancelled'', ''rejected'', ''expired''} \<Longrightarrow> lower (strip st) = st \<and> st \<in> set TERMINAL_ORDER_STATUSES"
    by (auto simp: list_all_iff)
qed

lemma closes_final: "closes cs x old new \<Longrightarrow> \<not> closes cs y new z"
  unfolding closes_def using closed_statuses by fastforce

lemma closed_as_confirmed_trans:
  assumes "closed_as_confirmed cs [x] s s1" and "closed_as_confirmed cs xs s1 s'"
  shows "closed_as_confirmed cs (x # xs) s s'"
  unfolding closed_as_confirmed_def
proof (intro conjI allI)
  show "fills s' = fills s" "order_intents s' = order_intents s" using assms by (simp_all add: closed_as_confirmed_def)
  show "map_of (orders s') k = map_of (orders s) k \<or> (\<exists>y old new. y \<in> set (x # xs) \<and> order_id y = k
      \<and> map_of (orders s) k = Some old \<and> map_of (orders s') k = Some new \<and> closes cs y old new)" for k
  proof (rule closed_as_confirmed_cases [OF assms(1), of k])
    assume same: "map_of (orders s1) k = map_of (orders s) k"
    show ?thesis by (rule closed_as_confirmed_cases [OF assms(2), of k]) (use same in \<open>auto simp only: list.set insert_iff\<close>)
  next
    fix y old new
    assume first: "y \<in> set [x]" "order_id y = k" "map_of (orders s) k = Some old" "map_of (orders s1) k = Some new" "closes cs y old new"
    show ?thesis
    proof (rule closed_as_confirmed_cases [OF assms(2), of k])
      assume "map_of (orders s') k = map_of (orders s1) k"
      with first show ?thesis by (auto simp only: list.set insert_iff)
    next
      fix z old' new'
      assume "map_of (orders s1) k = Some old'" "closes cs z old' new'"
      with first(4) closes_final [OF first(5)] show ?thesis by auto
    qed
  qed
qed

lemma update_order_status_cases:
  assumes "update_order_status ts oid st s = (s', oc, u)"
  obtains "s' = s"
  | old where "map_of (orders s) oid = Some old" "normalize_status (ord_status old) \<notin> set TERMINAL_ORDER_STATUSES"
      "s' = s\<lparr>orders := dset (orders s) oid (old\<lparr>ord_status := normalize_status st, ord_updated_at := ts\<rparr>)\<rparr>"
proof (cases "map_of (orders s) oid")
  case None
  with assms that(1) show thesis by (simp add: update_order_status_def)
next
  case (Some old)
  define cur new where "cur = normalize_status (ord_status old)" and "new = normalize_status st"
  note step = assms [unfolded update_order_status_def Some option.case Let_def, folded cur_def new_def]
  consider "new \<notin> set VALID_ORDER_STATUSES" | "cur \<in> set TERMINAL_ORDER_STATUSES" | "cur = new"
    | "new \<in> set VALID_ORDER_STATUSES" "cur \<notin> set TERMINAL_ORDER_STATUSES" "cur \<noteq> new" by blast
  then show thesis
  proof cases
    case 1
    with step that(1) show thesis by (simp only: if_True simp_thms prod.inject)
  next
    case 2
    with step that(1) show thesis by (cases "new \<in> set VALID_ORDER_STATUSES"; cases "cur = new") (simp_all only: if_True if_False simp_thms prod.inject)
  next
    case 3
    with step that(1) show thesis by (cases "new \<in> set VALID_ORDER_STATUSES") (simp_all only: if_True if_False simp_thms prod.inject)
  next
    case 4
    with step have "s' = s\<lparr>orders := dset (orders s) oid (old\<lparr>ord_status := new, ord_updated_at := ts\<rparr>)\<rparr>"
      by (simp only: if_False simp_thms prod.inject)
    moreover have "normalize_status (ord_status old) \<notin> set TERMINAL_ORDER_STATUSES" using 4(2) unfolding cur_def .
    ultimately show thesis using that(2) [OF Some] unfolding new_def by blast
  qed
qed

lemma update_closed:
  assumes "update_order_status ts (order_id x) st s = (s', oc, u)" and "confirmed cs x st"
    and st: "st \<in> {''cancelled'', ''rejected'', ''expired''}"
  shows "closed_as_confirmed cs [x] s s'"
  using assms(1)
proof (cases rule: update_order_status_cases)
  case 1
  then show ?thesis by (simp add: closed_as_confirmed_refl)
next
  case (2 old)
  let ?new = "old\<lparr>ord_status := st, ord_updated_at := ts\<rparr>"
  have n: "normalize_status t = lower (strip t)" for t by (simp add: normalize_status_def)
  from 2(2) have "lower (strip (ord_status old)) \<notin> set TERMINAL_ORDER_STATUSES" unfolding n .
  then have "closes cs x old ?new" unfolding closes_def using assms(2) st by blast
  moreover have "s' = s\<lparr>orders := dset (orders s) (order_id x) ?new\<rparr>"
    using 2(3) closed_statuses [OF st] by (simp add: n)
  ultimately show ?thesis using 2(1) unfolding closed_as_confirmed_def by simp
qed

definition answered_status :: "exchange_result \<Rightarrow> string" where
  "answered_status r = (case px_data r of PDict data \<Rightarrow> lower (strip (given_text (optional_string (pget data ''status'')))) | _ \<Rightarrow> [])"

lemma run_set_status:
  "run_state (set_order_status cfg oid st) s = (u, s1)
    \<Longrightarrow> \<exists>ts oc x. update_order_status ts oid st (pf_store s) = (pf_store s1, oc, x)"
  by (cases u) (auto simp: set_order_status_def run_task draw_now_def split: prod.splits; blast)

lemma cancel_answer_cases:
  assumes "run_state (cancel_answer cfg x r) s = (e, s')"
  obtains "s' = s"
  | ts oc u where "px_outcome r = ''ok''" "\<exists>data. px_data r = PDict data" "answered_status r \<in> {''cancelled'', ''rejected'', ''expired''}"
      "update_order_status ts (order_id x) (answered_status r) (pf_store s) = (pf_store s', oc, u)"
proof (cases "px_outcome r = ''ok'' \<and> (\<exists>data. px_data r = PDict data)")
  case False
  with assms that(1) show thesis by (auto simp: cancel_answer_def split: pyval.splits bool.splits)
next
  case True
  then obtain data where data: "px_data r = PDict data" and ok: "px_outcome r = ''ok''" by blast
  then have st: "lower (strip (given_text (optional_string (pget data ''status'')))) = answered_status r"
    by (simp add: answered_status_def)
  let ?st = "answered_status r"
  show thesis
  proof (cases "?st \<in> {''cancelled'', ''rejected'', ''expired''}")
    case closed: True
    then have "?st \<in> {''cancelled'', ''partially_filled'', ''filled'', ''rejected'', ''expired''}"
      "?st \<notin> {''filled'', ''partially_filled''}" by auto
    with assms data ok have "run_state (do { u \<leftarrow> set_order_status cfg (order_id x) ?st;
        State_Monad.return (Returned (cancelled_locally x ?st (fst u) (snd u))) }) s = (e, s')"
      unfolding cancel_answer_def by (simp only: data ok st Let_def prod.case pyval.case bool.case simp_thms if_True if_False)
    then obtain u s1 where "run_state (set_order_status cfg (order_id x) ?st) s = (u, s1)" "s' = s1"
      by (auto simp: run_task split: prod.splits)
    with run_set_status [of cfg "order_id x" ?st s u s1] that(2) ok data closed show thesis by auto
  next
    case False
    then have "?st \<notin> {''cancelled'', ''partially_filled'', ''filled'', ''rejected'', ''expired''} \<or> ?st \<in> {''filled'', ''partially_filled''}"
      by auto
    with assms have "s' = s"
      unfolding cancel_answer_def data ok
      by (simp only: st Let_def prod.case pyval.case simp_thms) (auto simp del: insert_iff split: if_splits)
    then show thesis by (rule that(1))
  qed
qed

lemma cancel_answer_closes:
  assumes "run_state (cancel_answer cfg x r) s = (e, s')" and "map_of cs (ord_exchange_name x) = Some cancel"
    and "cancel (given_text (ord_exchange_order_id x)) (ord_market x) = Inr r"
  shows "closed_as_confirmed cs [x] (pf_store s) (pf_store s')"
  using assms(1)
proof (cases rule: cancel_answer_cases)
  case 1
  then show ?thesis by (simp add: closed_as_confirmed_refl)
next
  case (2 ts oc u)
  have "confirmed cs x (answered_status r)"
    using assms(2,3) 2(1,2) unfolding confirmed_def answered_status_def by auto
  with update_closed [OF 2(4) _ 2(3)] show ?thesis by blast
qed

lemma cancel_trace_order_closes:
  assumes "run_state (cancel_trace_order cfg cs x) s = (e, s')"
  shows "closed_as_confirmed cs [x] (pf_store s) (pf_store s')"
proof (cases "s' = s")
  case False
  with assms show ?thesis
    by (auto simp: cancel_trace_order_def Let_def intro: cancel_answer_closes split: if_splits option.splits sum.splits)
qed (simp add: closed_as_confirmed_refl)

text \<open>
  C37. Cancelling believes the exchange only. Whatever the connectors answer, and whether or not an exception ends the
  loop, cancelling a list of orders changes nothing in the store but orders of the list that were open, and
  each of them to the very status that its exchange confirmed: cancelled, rejected or expired, never a
  status that speaks of fills.
\<close>

theorem cancellation_follows_exchange:
  fixes s :: "('r, 'x) platform_scheme"
  assumes "run_state (cancel_orders exec cfg cs call xs) s = (result, s')"
  shows "closed_as_confirmed cs xs (pf_store s) (pf_store s')"
  using assms
proof (induction xs arbitrary: s s' result)
  case Nil
  then show ?case by (simp add: closed_as_confirmed_refl)
next
  case (Cons x xs)
  obtain r s1 where first: "run_state (cancel_trace_order cfg cs x) s = (r, s1)" by (metis prod.collapse)
  note one = cancel_trace_order_closes [OF first]
  show ?case
  proof (cases r)
    case (Returned d)
    define ev :: "('r, 'x, bool) task" where "ev = (case pget d ''updated_order'' of
           PDict row \<Rightarrow> publish_order exec cfg call ''order.updated''
             (picked [''order_id'', ''order_intent_id'', ''bot_id'', ''exchange_name'', ''status''] row)
         | _ \<Rightarrow> State_Monad.return False)"
    obtain b s2 where ev: "run_state ev s1 = (b, s2)" by (metis prod.collapse)
    have "pf_store s2 = pf_store s1"
    proof (cases "pget d ''updated_order''")
      case (PDict row)
      with ev run_publish [of exec cfg call "''order.updated''" "picked [''order_id'', ''order_intent_id'', ''bot_id'', ''exchange_name'', ''status''] row" s1]
      show ?thesis by (auto simp: ev_def)
    qed (use ev in \<open>simp_all add: ev_def\<close>)
    moreover obtain r3 s3 where rest: "run_state (cancel_orders exec cfg cs call xs) s2 = (r3, s3)" by (metis prod.collapse)
    moreover from Cons.prems first Returned ev rest have "s' = s3"
      by (simp add: run_and_then ev_def split: run.splits)
    ultimately show ?thesis using closed_as_confirmed_trans [OF one] Cons.IH [OF rest] by simp
  next
    case (Raised e)
    with Cons.prems first have "s' = s1" by (simp add: run_and_then)
    then show ?thesis using closed_as_confirmed_trans [OF one closed_as_confirmed_refl] by simp
  next
    case Out_of_fuel
    with Cons.prems first have "s' = s1" by (simp add: run_and_then)
    then show ?thesis using closed_as_confirmed_trans [OF one closed_as_confirmed_refl] by simp
  qed
qed

definition demo_resting :: order where
  "demo_resting = \<lparr>order_id = ''o1'', ord_intent_id = ''i1'', ord_bot_id = ''b1'', ord_run_id = ''r1'', ord_exchange_name = ''upbit'',
     ord_exchange_order_id = Some ''e1'', ord_market = ''BTC-KRW'', ord_side = ''buy'', ord_requested_price = None, ord_requested_qty = ''1'',
     ord_status = ''new'', ord_created_at = ''t'', ord_submitted_at = ''t'', ord_updated_at = ''t'', ord_raw_payload = []\<rparr>"

definition demo_cancels :: cancels where
  "demo_cancels = [(''upbit'', \<lambda>e m. Inr \<lparr>px_outcome = ''ok'', px_reason = None, px_data = PDict [(''status'', PStr ''Cancelled'')],
     px_error_code = None, px_retryable = None, px_http_status = None, px_raw_payload = PNone\<rparr>)]"

lemma cancellation_follows_exchange_witness:
  "\<exists>result s' new. run_state (cancel_orders table_exec demo_trade_cfg demo_cancels demo_bare_call [demo_resting])
      (new_strategy_state (demo_table []) (demo_trade_store\<lparr>orders := [(''o1'', demo_resting)]\<rparr>)) = (result, s')
    \<and> map_of (orders (pf_store s')) ''o1'' = Some new \<and> ord_status new = ''cancelled'' \<and> closes demo_cancels demo_resting demo_resting new"
proof -
  let ?s = "new_strategy_state (demo_table []) (demo_trade_store\<lparr>orders := [(''o1'', demo_resting)]\<rparr>)"
  obtain result s' where run: "run_state (cancel_orders table_exec demo_trade_cfg demo_cancels demo_bare_call [demo_resting]) ?s = (result, s')"
    by (metis prod.collapse)
  have cancelled: "map_option ord_status (map_of (orders (pf_store (snd (run_state (cancel_orders table_exec demo_trade_cfg demo_cancels
      demo_bare_call [demo_resting]) ?s)))) ''o1'') = Some ''cancelled''" by code_simp
  obtain new where new: "map_of (orders (pf_store s')) ''o1'' = Some new" "ord_status new = ''cancelled''"
    using cancelled [unfolded run snd_conv] by (auto simp only: map_option_eq_Some)
  have old: "map_of (orders (pf_store ?s)) ''o1'' = Some demo_resting" by (simp add: new_strategy_state_def)
  have differs: "ord_status demo_resting \<noteq> ''cancelled''" by (simp add: demo_resting_def)
  from cancellation_follows_exchange [OF run] have "closes demo_cancels demo_resting demo_resting new"
  proof (rule closed_as_confirmed_cases [of _ _ _ _ "''o1''"])
    assume "map_of (orders (pf_store s')) ''o1'' = map_of (orders (pf_store ?s)) ''o1''"
    with new old differs show ?thesis by simp
  next
    fix x old' new'
    assume "x \<in> set [demo_resting]" "map_of (orders (pf_store ?s)) ''o1'' = Some old'" "map_of (orders (pf_store s')) ''o1'' = Some new'"
      "closes demo_cancels x old' new'"
    with new old show ?thesis by simp
  qed
  with run new show ?thesis by blast
qed

end
