(* ===== verification/SampleStore.thy ===== *)
theory SampleStore
  imports StoreBots
begin

text \<open>
  The store the program starts with when no database is configured: \<open>storage/sample_data.py\<close>, handed to the
  in-memory store by \<open>sample_read_store\<close>. \<open>ago m\<close> is the text of the moment \<open>m\<close> minutes ago. An order row
  here has no \<open>raw_payload\<close>, and the aggregates it carries (\<open>filled_qty\<close>, \<open>avg_fill_price\<close>,
  \<open>fee_amount\<close>) are those the views compute anew from the fills. The second order belongs to no intent:
  its \<open>order_intent_id\<close> is \<open>None\<close>, here the empty text, which is no intent's identifier.
\<close>

definition sample_heartbeat_1 :: "(int \<Rightarrow> string) \<Rightarrow> heartbeat" where
  "sample_heartbeat_1 ago =
     \<lparr>hb_created_at = ago 1, hb_process_alive = True, hb_market_data_alive = True,
      hb_ordering_alive = True, hb_lag_ms = Some 240, hb_payload = [(''orderbook_stale_count'', PInt 0),
      (''balance_refresh_age_ms'', PInt 1800)]\<rparr>"

definition sample_heartbeat_2 :: "(int \<Rightarrow> string) \<Rightarrow> heartbeat" where
  "sample_heartbeat_2 ago =
     \<lparr>hb_created_at = ago 2, hb_process_alive = True, hb_market_data_alive = True,
      hb_ordering_alive = True, hb_lag_ms = Some 210, hb_payload = [(''orderbook_stale_count'', PInt 0),
      (''balance_refresh_age_ms'', PInt 1600)]\<rparr>"

definition sample_heartbeat_3 :: "(int \<Rightarrow> string) \<Rightarrow> heartbeat" where
  "sample_heartbeat_3 ago =
     \<lparr>hb_created_at = ago 3, hb_process_alive = True, hb_market_data_alive = False,
      hb_ordering_alive = True, hb_lag_ms = Some 1450, hb_payload = [(''orderbook_stale_count'',
      PInt 4), (''balance_refresh_age_ms'', PInt 6400)]\<rparr>"

definition sample_heartbeat_4 :: "(int \<Rightarrow> string) \<Rightarrow> heartbeat" where
  "sample_heartbeat_4 ago =
     \<lparr>hb_created_at = ago 5, hb_process_alive = True, hb_market_data_alive = True,
      hb_ordering_alive = True, hb_lag_ms = Some 320, hb_payload = [(''orderbook_stale_count'', PInt 1),
      (''balance_refresh_age_ms'', PInt 2200)]\<rparr>"

definition sample_bot_1 :: "(int \<Rightarrow> string) \<Rightarrow> bot_row" where
  "sample_bot_1 ago =
     \<lparr>b_bot_id = ''9d0f9b5d-8f1d-4fe0-bd90-5b7bcb3b4e21'', b_bot_key = ''arb-upbit-bithumb-001'',
      b_strategy_name = ''arbitrage'', b_mode = ''shadow'', b_status = ''running'',
      b_hostname = Some ''trade-host-01'', b_last_seen_at = ago 1, b_assigned = [(''config_scope'',
      PStr ''default''), (''version_no'', PInt 3), (''apply_status'', PStr ''applied''),
      (''acknowledged_at'', PStr (ago 9)), (''ack_message'',
      PStr ''initial default config assignment''), (''changed_sections'',
      PList [PStr ''initial_assignment'']), (''hot_reloadable_sections'', PList []),
      (''restart_required_sections'', PList [PStr ''initial_assignment'']), (''apply_policy'',
      PStr ''restart_required'')]\<rparr>"

definition sample_bot_2 :: "(int \<Rightarrow> string) \<Rightarrow> bot_row" where
  "sample_bot_2 ago =
     \<lparr>b_bot_id = ''0ecf5f88-c7d3-4307-b4e7-e54caef0eab3'', b_bot_key = ''arb-upbit-coinone-002'',
      b_strategy_name = ''arbitrage'', b_mode = ''dry_run'', b_status = ''running'',
      b_hostname = Some ''trade-host-02'', b_last_seen_at = ago 3, b_assigned = [(''config_scope'',
      PStr ''default''), (''version_no'', PInt 2), (''apply_status'', PStr ''applied''),
      (''acknowledged_at'', PStr (ago 12)), (''ack_message'',
      PStr ''initial default config assignment''), (''changed_sections'',
      PList [PStr ''initial_assignment'']), (''hot_reloadable_sections'', PList []),
      (''restart_required_sections'', PList [PStr ''initial_assignment'']), (''apply_policy'',
      PStr ''restart_required'')]\<rparr>"

definition sample_alert_1 :: "(int \<Rightarrow> string) \<Rightarrow> alert" where
  "sample_alert_1 ago =
     \<lparr>alert_id = ''2274470a-1b8d-4bb1-8b60-68ba2f2c17c9'',
      al_bot_id = Some ''0ecf5f88-c7d3-4307-b4e7-e54caef0eab3'', al_level = ''warn'',
      al_code = ''ORDERBOOK_STALE'', al_message = ''coinone orderbook freshness exceeded threshold'',
      al_created_at = ago 4, al_acknowledged_at = None\<rparr>"

definition sample_alert_2 :: "(int \<Rightarrow> string) \<Rightarrow> alert" where
  "sample_alert_2 ago =
     \<lparr>alert_id = ''47083d47-1b3f-43ab-a76a-f967f2e824a8'',
      al_bot_id = Some ''9d0f9b5d-8f1d-4fe0-bd90-5b7bcb3b4e21'', al_level = ''info'',
      al_code = ''CONFIG_APPLIED'', al_message = ''config version 3 applied'', al_created_at = ago 9,
      al_acknowledged_at = Some (ago 8)\<rparr>"

definition sample_version_1 :: "(int \<Rightarrow> string) \<Rightarrow> config_version" where
  "sample_version_1 ago =
     \<lparr>config_version_id = ''5375618a-fd27-430f-a8eb-c5dadfc1d498'', cv_scope = ''default'',
      cv_version_no = 3, cv_json = [(''strategy_name'', PStr ''arbitrage''), (''min_profit'',
      PStr ''1000''), (''max_order_notional'', PStr ''500000''), (''arbitrage_runtime'',
      PDict [(''enabled'', PBool True), (''canonical_symbol'', PStr ''BTC''), (''market'',
      PStr ''KRW-BTC''), (''base_exchange'', PStr ''sample''), (''hedge_exchange'', PStr ''upbit''),
      (''base_asset'', PStr ''BTC''), (''quote_asset'', PStr ''KRW''), (''base_balance'',
      PDict [(''available_base'', PStr ''1.2''), (''available_quote'', PStr ''150000000''),
      (''is_fresh'', PBool True)]), (''hedge_balance'', PDict [(''available_base'', PStr ''0.9''),
      (''available_quote'', PStr ''180000000''), (''is_fresh'', PBool True)]), (''risk_config'',
      PDict [(''min_profit_quote'', PStr ''1000''), (''min_profit_bps'', PStr ''1.0''),
      (''max_clock_skew_ms'', PInt 1000), (''max_orderbook_age_ms'', PInt 3000),
      (''max_balance_age_ms'', PInt 10000), (''max_notional_per_order'', PStr ''500000''),
      (''max_total_notional_per_bot'', PStr ''2000000''), (''max_spread_bps'', PStr ''50''),
      (''slippage_buffer_bps'', PStr ''1''), (''unwind_buffer_quote'', PStr ''0''),
      (''taker_fee_bps_buy'', PStr ''5''), (''taker_fee_bps_sell'', PStr ''5''),
      (''reentry_cooldown_seconds'', PInt 60)]), (''runtime_state'', PDict [(''open_order_cap'',
      PInt 4), (''remaining_bot_notional'', PStr ''2000000'')])])], cv_checksum = ''chk-default-v3'',
      cv_created_by = Some ''system'', cv_created_at = ago 20\<rparr>"

definition sample_version_2 :: "(int \<Rightarrow> string) \<Rightarrow> config_version" where
  "sample_version_2 ago =
     \<lparr>config_version_id = ''8ea92369-7267-497d-9ac9-47758cc884d2'', cv_scope = ''default'',
      cv_version_no = 2, cv_json = [(''strategy_name'', PStr ''arbitrage''), (''min_profit'',
      PStr ''900''), (''max_order_notional'', PStr ''450000''), (''arbitrage_runtime'',
      PDict [(''enabled'', PBool True), (''canonical_symbol'', PStr ''ETH''), (''market'',
      PStr ''KRW-ETH''), (''base_exchange'', PStr ''sample''), (''hedge_exchange'', PStr ''upbit''),
      (''base_asset'', PStr ''ETH''), (''quote_asset'', PStr ''KRW''), (''base_balance'',
      PDict [(''available_base'', PStr ''12''), (''available_quote'', PStr ''8000000''), (''is_fresh'',
      PBool True)]), (''hedge_balance'', PDict [(''available_base'', PStr ''8''), (''available_quote'',
      PStr ''9000000''), (''is_fresh'', PBool True)]), (''risk_config'', PDict [(''min_profit_quote'',
      PStr ''800''), (''min_profit_bps'', PStr ''1.0''), (''max_clock_skew_ms'', PInt 1000),
      (''max_orderbook_age_ms'', PInt 3000), (''max_balance_age_ms'', PInt 10000),
      (''max_notional_per_order'', PStr ''450000''), (''max_total_notional_per_bot'', PStr ''1800000''),
      (''max_spread_bps'', PStr ''50''), (''slippage_buffer_bps'', PStr ''1''),
      (''unwind_buffer_quote'', PStr ''0''), (''taker_fee_bps_buy'', PStr ''5''),
      (''taker_fee_bps_sell'', PStr ''5''), (''reentry_cooldown_seconds'', PInt 60)]),
      (''runtime_state'', PDict [(''open_order_cap'', PInt 4), (''remaining_bot_notional'',
      PStr ''1800000'')])])], cv_checksum = ''chk-default-v2'', cv_created_by = Some ''system'',
      cv_created_at = ago 40\<rparr>"

definition sample_run_1 :: "(int \<Rightarrow> string) \<Rightarrow> strategy_run" where
  "sample_run_1 ago =
     \<lparr>run_id = ''eb8f7c39-d23f-433f-b839-6d2e89d4bbd6'',
      run_bot_id = ''9d0f9b5d-8f1d-4fe0-bd90-5b7bcb3b4e21'', run_strategy_name = ''arbitrage'',
      run_mode = ''shadow'', run_status = ''running'', run_created_at = ago 12,
      run_started_at = Some (ago 12), run_stopped_at = None, run_decision_count = 184\<rparr>"

definition sample_run_2 :: "(int \<Rightarrow> string) \<Rightarrow> strategy_run" where
  "sample_run_2 ago =
     \<lparr>run_id = ''7d9cf351-5b29-44a4-9cb4-ff5d1c4e0a0f'',
      run_bot_id = ''0ecf5f88-c7d3-4307-b4e7-e54caef0eab3'', run_strategy_name = ''arbitrage'',
      run_mode = ''dry_run'', run_status = ''running'', run_created_at = ago 30,
      run_started_at = Some (ago 30), run_stopped_at = None, run_decision_count = 42\<rparr>"

definition sample_intent_1 :: "(int \<Rightarrow> string) \<Rightarrow> order_intent" where
  "sample_intent_1 ago =
     \<lparr>intent_id = ''dbd43359-4908-4df5-a43a-c19ebec10aa1'',
      int_bot_id = ''9d0f9b5d-8f1d-4fe0-bd90-5b7bcb3b4e21'',
      int_run_id = ''eb8f7c39-d23f-433f-b839-6d2e89d4bbd6'', int_market = ''BTC-KRW'',
      int_buy_exchange = ''upbit'', int_sell_exchange = ''bithumb'', int_side_pair = ''buy_sell'',
      int_target_qty = ''0.015'', int_expected_profit = Some ''12500'',
      int_expected_profit_ratio = Some ''0.0019'', int_status = ''created'', int_created_at = ago 6,
      int_decision_context = [(''spread_bps'', PInt 24), (''fees_bps'', PInt 5), (''balance_check'',
      PStr ''passed''), (''reason'', PStr ''spread above threshold'')]\<rparr>"

definition sample_intent_2 :: "(int \<Rightarrow> string) \<Rightarrow> order_intent" where
  "sample_intent_2 ago =
     \<lparr>intent_id = ''bd2f6202-86fb-4c6d-8bb1-13b49e681eba'',
      int_bot_id = ''0ecf5f88-c7d3-4307-b4e7-e54caef0eab3'',
      int_run_id = ''7d9cf351-5b29-44a4-9cb4-ff5d1c4e0a0f'', int_market = ''ETH-KRW'',
      int_buy_exchange = ''coinone'', int_sell_exchange = ''upbit'', int_side_pair = ''buy_sell'',
      int_target_qty = ''0.21'', int_expected_profit = Some ''3400'',
      int_expected_profit_ratio = Some ''0.0011'', int_status = ''submitted'', int_created_at = ago 18,
      int_decision_context = [(''spread_bps'', PInt 18), (''fees_bps'', PInt 6), (''balance_check'',
      PStr ''passed''), (''reason'', PStr ''shadow execution sample'')]\<rparr>"

definition sample_order_1 :: "(int \<Rightarrow> string) \<Rightarrow> order" where
  "sample_order_1 ago =
     \<lparr>order_id = ''657f0f8d-e7d1-4bd4-b841-85c2d1ed59ca'',
      ord_intent_id = ''bd2f6202-86fb-4c6d-8bb1-13b49e681eba'',
      ord_bot_id = ''0ecf5f88-c7d3-4307-b4e7-e54caef0eab3'',
      ord_run_id = ''7d9cf351-5b29-44a4-9cb4-ff5d1c4e0a0f'', ord_exchange_name = ''upbit'',
      ord_exchange_order_id = Some ''UPBIT-20260404-0001'', ord_market = ''ETH-KRW'',
      ord_side = ''sell'', ord_requested_price = Some ''4271000'', ord_requested_qty = ''0.21'',
      ord_status = ''partially_filled'', ord_created_at = ago 17, ord_submitted_at = ago 17,
      ord_updated_at = ago 13, ord_raw_payload = []\<rparr>"

definition sample_order_2 :: "(int \<Rightarrow> string) \<Rightarrow> order" where
  "sample_order_2 ago =
     \<lparr>order_id = ''05438a82-a7bc-4c8b-b7a9-ef9708330878'', ord_intent_id = '''',
      ord_bot_id = ''9d0f9b5d-8f1d-4fe0-bd90-5b7bcb3b4e21'',
      ord_run_id = ''eb8f7c39-d23f-433f-b839-6d2e89d4bbd6'', ord_exchange_name = ''bithumb'',
      ord_exchange_order_id = Some ''BITHUMB-20260404-0007'', ord_market = ''BTC-KRW'',
      ord_side = ''buy'', ord_requested_price = Some ''98320000'', ord_requested_qty = ''0.010'',
      ord_status = ''filled'', ord_created_at = ago 11, ord_submitted_at = ago 11,
      ord_updated_at = ago 9, ord_raw_payload = []\<rparr>"

definition sample_fill_1 :: "(int \<Rightarrow> string) \<Rightarrow> fill" where
  "sample_fill_1 ago =
     \<lparr>fill_id = ''7d96f709-2d3a-4afd-b2a5-8e63d5ac7d68'',
      fl_order_id = ''657f0f8d-e7d1-4bd4-b841-85c2d1ed59ca'',
      fl_intent_id = ''bd2f6202-86fb-4c6d-8bb1-13b49e681eba'',
      fl_bot_id = ''0ecf5f88-c7d3-4307-b4e7-e54caef0eab3'',
      fl_run_id = ''7d9cf351-5b29-44a4-9cb4-ff5d1c4e0a0f'', fl_exchange_name = ''upbit'',
      fl_exchange_trade_id = Some ''upbit-fill-001'', fl_market = ''ETH-KRW'', fl_side = ''sell'',
      fl_price = ''4273000'', fl_qty = ''0.10'', fl_fee_asset = Some ''KRW'',
      fl_fee_amount = Some ''860'', fl_order_status = ''partially_filled'', fl_filled_at = ago 14,
      fl_created_at = ago 14\<rparr>"

definition sample_fill_2 :: "(int \<Rightarrow> string) \<Rightarrow> fill" where
  "sample_fill_2 ago =
     \<lparr>fill_id = ''4cb0b2f6-d1ef-44bb-8201-b906933514e8'',
      fl_order_id = ''657f0f8d-e7d1-4bd4-b841-85c2d1ed59ca'',
      fl_intent_id = ''bd2f6202-86fb-4c6d-8bb1-13b49e681eba'',
      fl_bot_id = ''0ecf5f88-c7d3-4307-b4e7-e54caef0eab3'',
      fl_run_id = ''7d9cf351-5b29-44a4-9cb4-ff5d1c4e0a0f'', fl_exchange_name = ''upbit'',
      fl_exchange_trade_id = Some ''upbit-fill-002'', fl_market = ''ETH-KRW'', fl_side = ''sell'',
      fl_price = ''4272000'', fl_qty = ''0.07'', fl_fee_asset = Some ''KRW'',
      fl_fee_amount = Some ''590'', fl_order_status = ''partially_filled'', fl_filled_at = ago 13,
      fl_created_at = ago 13\<rparr>"

definition sample_fill_3 :: "(int \<Rightarrow> string) \<Rightarrow> fill" where
  "sample_fill_3 ago =
     \<lparr>fill_id = ''499067ca-4f4c-4dbd-a0fd-ac9164369d96'',
      fl_order_id = ''05438a82-a7bc-4c8b-b7a9-ef9708330878'', fl_intent_id = '''',
      fl_bot_id = ''9d0f9b5d-8f1d-4fe0-bd90-5b7bcb3b4e21'',
      fl_run_id = ''eb8f7c39-d23f-433f-b839-6d2e89d4bbd6'', fl_exchange_name = ''bithumb'',
      fl_exchange_trade_id = Some ''bithumb-fill-001'', fl_market = ''BTC-KRW'', fl_side = ''buy'',
      fl_price = ''98318000'', fl_qty = ''0.010'', fl_fee_asset = Some ''KRW'',
      fl_fee_amount = Some ''980'', fl_order_status = ''filled'', fl_filled_at = ago 9,
      fl_created_at = ago 9\<rparr>"

definition sample_store :: "(int \<Rightarrow> string) \<Rightarrow> store" where
  "sample_store ago =
     \<lparr>bots = [sample_bot_1 ago, sample_bot_2 ago],
      bot_details = [(''9d0f9b5d-8f1d-4fe0-bd90-5b7bcb3b4e21'', \<lparr>bd_bot = sample_bot_1 ago,
      bd_latest_heartbeat = Some (sample_heartbeat_1 ago),
      bd_latest_run = Some ''eb8f7c39-d23f-433f-b839-6d2e89d4bbd6'',
      bd_recent_alerts = [''47083d47-1b3f-43ab-a76a-f967f2e824a8'']\<rparr>),
      (''0ecf5f88-c7d3-4307-b4e7-e54caef0eab3'', \<lparr>bd_bot = sample_bot_2 ago,
      bd_latest_heartbeat = Some (sample_heartbeat_3 ago),
      bd_latest_run = Some ''7d9cf351-5b29-44a4-9cb4-ff5d1c4e0a0f'',
      bd_recent_alerts = [''2274470a-1b8d-4bb1-8b60-68ba2f2c17c9'']\<rparr>)],
      strategy_runs = [(''eb8f7c39-d23f-433f-b839-6d2e89d4bbd6'', sample_run_1 ago),
      (''7d9cf351-5b29-44a4-9cb4-ff5d1c4e0a0f'', sample_run_2 ago)],
      order_intents = [(''dbd43359-4908-4df5-a43a-c19ebec10aa1'', sample_intent_1 ago),
      (''bd2f6202-86fb-4c6d-8bb1-13b49e681eba'', sample_intent_2 ago)],
      orders = [(''657f0f8d-e7d1-4bd4-b841-85c2d1ed59ca'', sample_order_1 ago),
      (''05438a82-a7bc-4c8b-b7a9-ef9708330878'', sample_order_2 ago)], fills = [sample_fill_1 ago,
      sample_fill_2 ago, sample_fill_3 ago], heartbeats = [(''9d0f9b5d-8f1d-4fe0-bd90-5b7bcb3b4e21'',
      [sample_heartbeat_1 ago, sample_heartbeat_2 ago]), (''0ecf5f88-c7d3-4307-b4e7-e54caef0eab3'',
      [sample_heartbeat_3 ago, sample_heartbeat_4 ago])], alerts = [sample_alert_1 ago,
      sample_alert_2 ago], config_versions = [(''default'', [sample_version_1 ago,
      sample_version_2 ago])]\<rparr>"

lemmas sample_row_defs = sample_run_1_def sample_run_2_def sample_order_1_def sample_order_2_def sample_fill_1_def
  sample_fill_2_def sample_fill_3_def sample_version_1_def sample_version_2_def sample_bot_1_def sample_bot_2_def

section \<open>The sample store is a sound start\<close>

lemma sample_runs_ok: "runs_ok (strategy_runs (sample_store ago))"
  by (auto simp: sample_store_def runs_ok_def runs_unique_def is_active_def sample_row_defs split: if_splits)

lemma sample_quantities:
  "qty_on 3 ''0.21'' \<and> qty_on 3 ''0.010'' \<and> qty_on 3 ''0.10'' \<and> qty_on 3 ''0.07''"
  "qty_val ''0.10'' + qty_val ''0.07'' \<le> qty_val ''0.21''"
  by code_simp+

lemma sample_fills_ok: "fills_ok 3 (orders (sample_store ago)) (fills (sample_store ago))"
  using sample_quantities
  by (simp add: sample_store_def fills_ok_def fill_sum_def order_fills_def sample_row_defs)

lemma sample_store_sound: "sound_start 3 (sample_store ago)"
proof -
  have "configs_ok (config_versions (sample_store ago))"
    by (simp add: configs_ok_def sample_store_def sample_row_defs)
  moreover have "bots_ok (bots (sample_store ago)) (bot_details (sample_store ago))"
    by (simp add: bots_ok_def sample_store_def sample_row_defs)
  ultimately show ?thesis using sample_runs_ok sample_fills_ok by (simp add: sound_start_def)
qed

text \<open>So everything proved of reachable stores holds of every store the program runs on from there.\<close>

lemma from_sample_reachable: "(store_step 3)\<^sup>*\<^sup>* (sample_store ago) s \<Longrightarrow> reachable 3 s"
  by (induction rule: rtranclp_induct)
    (rule reachable.start, rule sample_store_sound, rule reachable.step)

end
