(* ===== verification/Spec2Isabelle.thy ===== *)
theory Spec2Isabelle
  imports PricingSpec Lifecycle PairLock InputLoader ConfigPolicy StoreViews StoreClaims ExecutionStore RequestGuard RateLimit
    RecoveryEffects ReconciliationClaims StrategySafety StrategyBlocking StrategyClaims
    LiveClaims HandlerClaims SampleStore
begin

text \<open>
  A verification development of the trading platform's control plane
  (\<open>src/src/trading_platform\<close>). File names below are relative to that directory.

  \<^bold>\<open>The program.\<close> Arbitrage inputs (order books, balances, risk limits) are loaded from payloads or the
  runtime sources, every ordered pair of candidate exchanges is evaluated (gate, candidate size, depth,
  executable edge, profit, caps, spread, reservation), the best accepted pair is locked in Redis for the
  evaluation, its order intent is stored, both legs are submitted through an adapter (simulated, an external
  executor, or the private connectors of the exchanges), fills are recorded and the evaluation is
  published. A recovery loop follows the evaluations whose legs did not balance: it polls the exchanges,
  and resolves a recovery trace or hands it to an operator, who works on it through the HTTP handlers. A
  request guard protects the write endpoints, a token bucket limits the requests sent to the exchanges.

  \<^bold>\<open>Python.\<close> \<open>Prelude\<close>: results that may raise, insertion ordered dictionaries, \<open>str\<close> operations.
  \<open>Rounding\<close>: correct rounding in any base. \<open>PyDecimal\<close>, \<open>PyDecText\<close>, \<open>DecGrid\<close>: \<open>decimal\<close> with 28 digits,
  its text forms, and when its arithmetic is exact. \<open>PyTime\<close>: UTC instants in microseconds, ISO text, and
  the float ages of the code (53 bits). \<open>PyValue\<close>, \<open>Json\<close>: the JSON values passed around, \<open>dumps\<close> and \<open>loads\<close>.

  \<^bold>\<open>Evaluation\<close> (\<open>strategy/\<close>). \<open>Models\<close>: \<open>arbitrage_models.py\<close>. \<open>Pricing\<close>: \<open>arbitrage_pricing.py\<close>; \<open>PricingSpec\<close>
  states it over exact rationals and relates the two. \<open>Gate\<close>: \<open>arbitrage_gate.py\<close>. \<open>Reservation\<close>:
  \<open>arbitrage_reservation.py\<close>. \<open>Lifecycle\<close>: \<open>arbitrage_state_machine.py\<close>. \<open>Planner\<close>: \<open>arbitrage_planner.py\<close>.
  \<open>Decision\<close>: \<open>evaluate_arbitrage\<close> of \<open>arbitrage_runtime.py\<close>. \<open>Candidates\<close>: \<open>arbitrage_candidate_sets.py\<close>.
  \<open>InputLoader\<close>: \<open>arbitrage_input_loader.py\<close>. \<open>PairLock\<close>: \<open>arbitrage_pair_lock.py\<close> and
  \<open>arbitrage_evaluation_payload.py\<close>. \<open>Execution\<close>: \<open>arbitrage_execution.py\<close>, the simulated adapters, the mode metadata
  and \<open>persist_order_intent_plan\<close>, over any store with the operations of \<open>ControlPlaneStoreProtocol\<close> that they
  call (the record \<open>order_ops\<close>, the locale \<open>order_store\<close>). The lemmas show when a decision is accepted, that an
  accepted decision is funded, within its caps and profitable, and that the loops compute their reference
  values.

  \<^bold>\<open>Store\<close> (\<open>storage/\<close>). \<open>Store\<close>: every mutation of the in-memory store; \<open>StoreViews\<close>: its queries. \<open>StoreInv\<close>,
  \<open>StoreBots\<close>: the store as a state machine. A start is sound when it meets four invariants (one active run
  per bot, fills within the requested quantities, consecutive configuration versions, a detail for every
  bot); they hold of every store reached from a sound start. The program's in-memory store starts from
  the sample rows of \<open>sample_data.py\<close>, modelled in \<open>SampleStore\<close> and shown to be a sound start; the empty store
  is another. \<open>StoreClaims\<close>: what the store promises; \<open>ExecutionStore\<close>: it meets the contract \<open>order_store\<close>, and
  what a simulated submission does to it. The keys \<open>filled_qty\<close>, \<open>avg_fill_price\<close>, \<open>fee_amount\<close> and
  \<open>internal_error_code\<close> of an order row never change in this store and are not fields of its record; the
  queries compute the enriched values.

  \<^bold>\<open>Redis\<close>. \<open>RedisClient\<close>: command framing, reply parser and connection pool of \<open>redis_client.py\<close>. \<open>RedisRuntime\<close>,
  \<open>RedisQueries\<close>: \<open>redis_runtime.py\<close>, every operation, over a server given by the effect of one command.
  \<open>RedisLock\<close>: the locale \<open>redis_server\<close> (what the Redis documentation says of the commands used), its
  interpretation on a key-value server, and the guarantees of the pair locks; \<open>RedisTraces\<close>: the stored
  recovery traces.

  \<^bold>\<open>The strategy loop\<close>. \<open>Platform\<close>: computations over Redis and the store, shared by the loops. \<open>BalanceSources\<close>,
  \<open>RuntimeLoader\<close>: \<open>arbitrage_balance_sources.py\<close>, \<open>market_data_freshness.py\<close> and \<open>arbitrage_runtime_loader.py\<close>, the inputs
  of a run from its configuration, the cached books and the balances. \<open>StrategyRuntime\<close>: \<open>strategy_runtime.py\<close>, one
  tick over the running runs; \<open>StrategyExecution\<close>: \<open>strategy_runtime_execution.py\<close>, submitting a stored intent.
  \<open>StrategyLocks\<close>, \<open>StrategySafety\<close>: the locale \<open>scanning_server\<close>, no step of an evaluation touches the lock of
  another run, and no intent is stored for its pair; live runs use the balances the exchanges answered.
  \<open>StrategyBlocking\<close>: the locale \<open>complete_server\<close>, an open recovery trace stops its bot, a failed submission opens one.
  \<open>StrategyClaims\<close>: the counters of the loop. \<open>StrategyDemo\<close>: the setting of the witnesses, a server that keeps a
  table, on which both locales are interpreted.

  \<^bold>\<open>Live execution\<close>. \<open>RequestUtils\<close>: \<open>request_utils.py\<close>. \<open>ExchangeKeys\<close>: credential files and request signatures.
  \<open>PrivateExchange\<close>: \<open>private_exchange_connector.py\<close>, the REST connectors of Upbit, Bithumb and Coinone. \<open>PrivateHttp\<close>:
  \<open>arbitrage_private_execution_adapter.py\<close>, an external executor places both legs and its reply is checked and
  recorded; \<open>PrivateConnectors\<close>: \<open>arbitrage_private_connectors_execution_adapter.py\<close>, the legs are placed one after the
  other. \<open>Adapters\<close>: the choice between the adapters. The network, the file system and the hash functions are
  parameters. \<open>LiveOrders\<close> (the locale \<open>live_effects\<close>), \<open>LiveBook\<close> (the locale \<open>live_book\<close>), \<open>LiveMemory\<close> (their
  interpretations on the in-memory store) and \<open>LiveClaims\<close>: which orders a live submission stores and reports,
  when it asks for recovery, and what is lost when an exchange answers that an order rests.

  \<^bold>\<open>Recovery\<close>. \<open>Recovery\<close>: the checks of \<open>recovery_runtime.py\<close> and the decision about one trace; \<open>RecoveryRuntime\<close>:
  its effects on Redis, the store and the counters, one tick of the loop; \<open>Reconciliation\<close>:
  \<open>recovery_reconciliation_polling.py\<close>. \<open>RecoveryClaims\<close>, \<open>RecoveryEffects\<close>, \<open>ReconciliationClaims\<close>: when a trace
  is resolved, what a decision stores, that the counters add up, that a snapshot reads back as observed.

  \<^bold>\<open>Requests and configuration\<close>. \<open>RequestGuard\<close>: \<open>request_guard.py\<close>. \<open>RateLimit\<close>: \<open>rate_limit.py\<close>. \<open>ConfigPolicy\<close>:
  \<open>config_apply_policy.py\<close>. \<open>Requests\<close>: what the handlers share and \<open>route_handlers_order_write.py\<close>;
  \<open>RecoveryHandlers\<close>: \<open>route_handlers_recovery_write.py\<close>; \<open>StrategyHandlers\<close>: \<open>route_handlers_strategy_write.py\<close>. A handler is
  one step from the request to its answer. \<open>Answers\<close>: one rule per guard of the handlers; \<open>HandlerClaims\<close>: what
  orders and fills a request can store, when an operator can close a trace, which orders a cancellation
  closes, and what starting an unwind forgets.

  \<^bold>\<open>Conventions\<close>. An exception is \<open>Inl\<close> of a value of \<open>pyexc\<close>. Identifiers, time texts and clock readings drawn from
  the environment are arguments, one for each place that draws one. Code that takes a lock is one
  transition; the request guard reads its clock before it takes the lock, so its readings may come out of
  order (\<open>RequestGuard.late\<close>). A tick of a loop is shown against arbitrary changes between ticks; within a
  tick and within a handler there is no interference. Callees outside the program (the Redis server,
  \<open>bytes.decode\<close>, exchange connectors, an external store) are arguments, and what is assumed of them is the
  \<open>assumes\<close> of a locale or a premise.

  \<^bold>\<open>Bounds and fuel\<close>. Decimals are rounded to 28 digits; their exponents are not bounded, so
  \<open>decimal.Overflow\<close>, which Python raises for results from 1E+1000000 on, never is, and a result that returns
  here may raise there on such inputs. Floats have 53 bits and no overflow or subnormal numbers; ages are
  compared exactly up to \<open>2 * 10^15\<close> microseconds (some 60 years). The JSON reader takes the length of its text
  as fuel, the reply reader the number of bytes plus one, and both are shown to be enough. A key scan takes
  fuel because a server may never return the cursor 0; running out of it is a value of its own (\<open>More\<close>,
  \<open>Out_of_fuel\<close>) and no claim identifies it with a result. \<open>acquire\<close> of the token bucket is shown to return
  after at most two sleeps.

  \<^bold>\<open>Not modelled\<close>. The HTTP server, its configuration and process start, the reading routes and those that
  register bots, assign configurations or write market data, the market data clients and sockets, the
  Postgres store (SQL) and the wiring of stores, offline simulation, observability, threads and their start
  and stop, sockets, TLS and URL parsing, log lines and metrics, and the scripts of \<open>tools_for_ai\<close>. JSON numbers with
  a fraction or an exponent are not read: a body, a stored text or a reply that holds one counts as
  unreadable here, while \<open>json.loads\<close> makes a float of it (and \<open>json_number_text\<close> formats the float). Characters
  outside 8 bits, and the non-finite values and the negative zero of \<open>Decimal\<close>, are outside the domain of the
  values used here. An order or fill without an intent has the empty text as its intent identifier.
\<close>

end
